(* ===== verification/Rust_Str.thy ===== *)
theory Rust_Str
  imports Prelude
begin

text \<open>
  The operations of Rust's \<open>str\<close> the program uses, on UTF-8 byte strings: prefix tests, search,
  splitting, trimming of Unicode white space, ASCII classification and case mapping, decimal
  rendering. These are standard-library functions: they have no entry in the source map.
\<close>

named_theorems str_simps \<open>facts that evaluate the string operations on constructors\<close>

section \<open>Prefixes, search and splitting\<close>

definition starts_with :: "string \<Rightarrow> string \<Rightarrow> bool" where
  "starts_with s p \<longleftrightarrow> take (length p) s = p"

definition ends_with :: "string \<Rightarrow> string \<Rightarrow> bool" where
  "ends_with s p \<longleftrightarrow> length p \<le> length s \<and> drop (length s - length p) s = p"

definition strip_prefix :: "string \<Rightarrow> string \<Rightarrow> string option" where
  "strip_prefix p s = (if starts_with s p then Some (drop (length p) s) else None)"

lemma starts_with_append [simp, str_simps]: "starts_with (p @ s) p"
  by (simp add: starts_with_def)

lemma starts_with_Nil [simp, str_simps]: "starts_with s []"
  by (simp add: starts_with_def)

lemma starts_with_iff: "starts_with s p \<longleftrightarrow> (\<exists>r. s = p @ r)"
  unfolding starts_with_def by (metis append_eq_conv_conj append_take_drop_id)

lemma starts_with_Cons [simp, str_simps]:
  "starts_with (c # s) (d # p) \<longleftrightarrow> c = d \<and> starts_with s p"
  by (simp add: starts_with_def)

lemma starts_with_Nil_Cons [simp, str_simps]: "\<not> starts_with [] (d # p)"
  by (simp add: starts_with_def)

text \<open>\<open>str::find(c)\<close> and \<open>str::rfind(c)\<close> for an ASCII character.\<close>

fun find_char :: "char \<Rightarrow> string \<Rightarrow> nat option" where
  "find_char c [] = None"
| "find_char c (x # xs) = (if x = c then Some 0 else map_option Suc (find_char c xs))"

definition rfind_char :: "char \<Rightarrow> string \<Rightarrow> nat option" where
  "rfind_char c s = map_option (\<lambda>i. length s - 1 - i) (find_char c (rev s))"

lemma find_char_None_iff [simp]: "find_char c s = None \<longleftrightarrow> c \<notin> set s"
  by (induction s) auto

lemma find_char_Some_iff:
  "find_char c s = Some i \<longleftrightarrow> i < length s \<and> s ! i = c \<and> c \<notin> set (take i s)"
proof (induction s arbitrary: i)
  case (Cons x xs)
  then show ?case by (cases i) auto
qed simp

lemma find_char_append [simp]: "c \<notin> set p \<Longrightarrow> find_char c (p @ c # q) = Some (length p)"
  by (induction p) auto

lemma find_char_split:
  "find_char c s = Some i \<Longrightarrow> s = take i s @ c # drop (Suc i) s \<and> c \<notin> set (take i s)"
  by (metis find_char_Some_iff id_take_nth_drop)

text \<open>\<open>str::split_once(c)\<close>: at the first occurrence.\<close>

fun split_once :: "char \<Rightarrow> string \<Rightarrow> (string \<times> string) option" where
  "split_once c [] = None"
| "split_once c (x # xs) =
     (if x = c then Some ([], xs) else map_option (\<lambda>(a, b). (x # a, b)) (split_once c xs))"

lemma split_once_Some_iff:
  "split_once c s = Some (a, b) \<longleftrightarrow> s = a @ c # b \<and> c \<notin> set a"
proof (induction s arbitrary: a)
  case (Cons x xs)
  show ?case by (cases a) (auto simp: Cons.IH)
qed simp

lemma split_once_None_iff: "split_once c s = None \<longleftrightarrow> c \<notin> set s"
  by (induction s) auto

text \<open>\<open>str::split(c).collect()\<close>: never empty; \<open>join\<close> is its left inverse.\<close>

fun split_on :: "char \<Rightarrow> string \<Rightarrow> string list" where
  "split_on c [] = [[]]"
| "split_on c (x # xs) =
     (if x = c then [] # split_on c xs
      else (case split_on c xs of [] \<Rightarrow> [[x]] | y # ys \<Rightarrow> (x # y) # ys))"

fun join_with :: "string \<Rightarrow> string list \<Rightarrow> string" where
  "join_with sep [] = []"
| "join_with sep [x] = x"
| "join_with sep (x # y # ys) = x @ sep @ join_with sep (y # ys)"

lemma split_on_not_Nil [simp]: "split_on c s \<noteq> []"
  by (induction s) (auto split: list.splits)

lemma split_on_noc [simp]: "c \<notin> set s \<Longrightarrow> split_on c s = [s]"
  by (induction s) auto

lemma split_on_append [simp]: "c \<notin> set p \<Longrightarrow> split_on c (p @ c # q) = p # split_on c q"
  by (induction p) auto

lemma length_split_on: "length (split_on c s) = Suc (count_list s c)"
  by (induction s) (auto split: list.splits)

lemma join_split_on: "join_with [c] (split_on c s) = s"
proof (induction s)
  case (Cons x xs)
  obtain y ys where y: "split_on c xs = y # ys"
    using split_on_not_Nil by (meson neq_Nil_conv)
  with Cons show ?case by (cases ys) auto
qed simp

lemma split_on_elems: "p \<in> set (split_on c s) \<Longrightarrow> c \<notin> set p"
  by (induction s arbitrary: p) (fastforce split: list.splits if_splits)+

section \<open>ASCII classification\<close>

definition code_of :: "char \<Rightarrow> nat" where
  "code_of c = of_char c"

definition is_ascii_digit :: "char \<Rightarrow> bool" where
  "is_ascii_digit c \<longleftrightarrow> 48 \<le> code_of c \<and> code_of c \<le> 57"

definition is_ascii_upper :: "char \<Rightarrow> bool" where
  "is_ascii_upper c \<longleftrightarrow> 65 \<le> code_of c \<and> code_of c \<le> 90"

definition is_ascii_lower :: "char \<Rightarrow> bool" where
  "is_ascii_lower c \<longleftrightarrow> 97 \<le> code_of c \<and> code_of c \<le> 122"

definition is_ascii_alphabetic :: "char \<Rightarrow> bool" where
  "is_ascii_alphabetic c \<longleftrightarrow> is_ascii_upper c \<or> is_ascii_lower c"

definition is_ascii_alphanumeric :: "char \<Rightarrow> bool" where
  "is_ascii_alphanumeric c \<longleftrightarrow> is_ascii_alphabetic c \<or> is_ascii_digit c"

definition is_ascii_hexdigit :: "char \<Rightarrow> bool" where
  "is_ascii_hexdigit c \<longleftrightarrow> is_ascii_digit c \<or>
     65 \<le> code_of c \<and> code_of c \<le> 70 \<or> 97 \<le> code_of c \<and> code_of c \<le> 102"

definition to_lower_char :: "char \<Rightarrow> char" where
  "to_lower_char c = (if is_ascii_upper c then char_of (code_of c + 32) else c)"

definition to_ascii_lowercase :: "string \<Rightarrow> string" where
  "to_ascii_lowercase s = map to_lower_char s"

lemmas ascii_defs = is_ascii_digit_def is_ascii_upper_def is_ascii_lower_def
  is_ascii_alphabetic_def is_ascii_alphanumeric_def is_ascii_hexdigit_def

lemma code_of_lt [simp]: "code_of c < 256"
  by (simp add: code_of_def)

lemma code_of_char_of [simp]: "n < 256 \<Longrightarrow> code_of (char_of n) = n"
  by (simp add: code_of_def)

lemma code_of_inject [simp]: "code_of c = code_of d \<longleftrightarrow> c = d"
  by (simp add: code_of_def)

lemma length_to_ascii_lowercase [simp]: "length (to_ascii_lowercase s) = length s"
  by (simp add: to_ascii_lowercase_def)

lemma to_lower_char_idem [simp]: "to_lower_char (to_lower_char c) = to_lower_char c"
  by (auto simp: to_lower_char_def ascii_defs)

lemma to_ascii_lowercase_idem [simp]:
  "to_ascii_lowercase (to_ascii_lowercase s) = to_ascii_lowercase s"
  by (simp add: to_ascii_lowercase_def)

lemma to_lower_char_id: "\<not> is_ascii_upper c \<Longrightarrow> to_lower_char c = c"
  by (simp add: to_lower_char_def)

lemma to_ascii_lowercase_id: "\<forall>c\<in>set s. \<not> is_ascii_upper c \<Longrightarrow> to_ascii_lowercase s = s"
  by (simp add: to_ascii_lowercase_def map_idI to_lower_char_id)

lemma hexdigit_to_lower: "is_ascii_hexdigit c \<Longrightarrow> is_ascii_hexdigit (to_lower_char c)"
  by (auto simp: to_lower_char_def ascii_defs)

section \<open>Unicode white space and trimming\<close>

text \<open>
  \<open>ws_len s\<close> is the number of bytes of a white space code point (Unicode \<open>White_Space\<close>, which
  \<open>char::is_whitespace\<close> tests) at the start of \<open>s\<close>, 0 when there is none:
  U+0009..U+000D, U+0020; U+0085, U+00A0 (two bytes); U+1680, U+2000..U+200A, U+2028, U+2029,
  U+202F, U+205F, U+3000 (three bytes).
\<close>

definition ws3 :: "nat \<Rightarrow> nat \<Rightarrow> nat \<Rightarrow> bool" where
  "ws3 a b c \<longleftrightarrow>
     (a = 225 \<and> b = 154 \<and> c = 128) \<or>
     (a = 226 \<and> b = 128 \<and> (128 \<le> c \<and> c \<le> 138 \<or> c = 168 \<or> c = 169 \<or> c = 175)) \<or>
     (a = 226 \<and> b = 129 \<and> c = 159) \<or>
     (a = 227 \<and> b = 128 \<and> c = 128)"

definition ws1 :: "char \<Rightarrow> bool" where
  "ws1 c \<longleftrightarrow> 9 \<le> code_of c \<and> code_of c \<le> 13 \<or> code_of c = 32"

definition ws2 :: "char \<Rightarrow> char \<Rightarrow> bool" where
  "ws2 a b \<longleftrightarrow> code_of a = 194 \<and> (code_of b = 133 \<or> code_of b = 160)"

fun trim_start :: "string \<Rightarrow> string" where
  "trim_start (a # b # c # s) =
     (if ws1 a then trim_start (b # c # s)
      else if ws2 a b then trim_start (c # s)
      else if ws3 (code_of a) (code_of b) (code_of c) then trim_start s
      else a # b # c # s)"
| "trim_start [a, b] = (if ws1 a then trim_start [b] else if ws2 a b then [] else [a, b])"
| "trim_start [a] = (if ws1 a then [] else [a])"
| "trim_start [] = []"

text \<open>The same from the right end, on the reversed string.\<close>

fun trim_rev :: "string \<Rightarrow> string" where
  "trim_rev (c # b # a # s) =
     (if ws1 c then trim_rev (b # a # s)
      else if ws2 b c then trim_rev (a # s)
      else if ws3 (code_of a) (code_of b) (code_of c) then trim_rev s
      else c # b # a # s)"
| "trim_rev [c, b] = (if ws1 c then trim_rev [b] else if ws2 b c then [] else [c, b])"
| "trim_rev [c] = (if ws1 c then [] else [c])"
| "trim_rev [] = []"

definition trim :: "string \<Rightarrow> string" where
  "trim s = rev (trim_rev (rev (trim_start s)))"

text \<open>
  \<open>chars().any(|c| c.is_whitespace() || c.is_control())\<close>; the control characters (category Cc)
  are U+0000..U+001F, U+007F and U+0080..U+009F (two bytes). Every multi-byte pattern starts with a
  lead byte, so testing at every byte position of a UTF-8 string is testing every code point.
\<close>

fun has_ws_or_control :: "string \<Rightarrow> bool" where
  "has_ws_or_control [] = False"
| "has_ws_or_control (a # s) =
     (code_of a \<le> 32 \<or> code_of a = 127 \<or>
      (case s of [] \<Rightarrow> False
       | b # t \<Rightarrow> (code_of a = 194 \<and> 128 \<le> code_of b \<and> code_of b \<le> 160) \<or>
           (case t of [] \<Rightarrow> False | c # _ \<Rightarrow> ws3 (code_of a) (code_of b) (code_of c))) \<or>
      has_ws_or_control s)"

lemma trim_start_suffix: "suffix (trim_start s) s"
  by (induction s rule: trim_start.induct) (auto intro: suffix_ConsI)

lemma trim_rev_suffix: "suffix (trim_rev s) s"
  by (induction s rule: trim_rev.induct) (auto intro: suffix_ConsI)

lemma trim_start_idem [simp]: "trim_start (trim_start s) = trim_start s"
  by (induction s rule: trim_start.induct) auto

lemma trim_rev_idem [simp]: "trim_rev (trim_rev s) = trim_rev s"
  by (induction s rule: trim_rev.induct) auto

lemma set_trim: "set (trim s) \<subseteq> set s"
proof -
  have "set (trim_rev (rev (trim_start s))) \<subseteq> set (rev (trim_start s))"
    by (rule set_mono_suffix [OF trim_rev_suffix])
  also have "\<dots> \<subseteq> set s" by (simp add: set_mono_suffix [OF trim_start_suffix])
  finally show ?thesis by (simp add: trim_def)
qed

text \<open>\<open>trim_end_matches(c)\<close>.\<close>

definition trim_end_matches :: "char \<Rightarrow> string \<Rightarrow> string" where
  "trim_end_matches c s = rev (dropWhile (\<lambda>d. d = c) (rev s))"

lemma trim_end_matches_id: "c \<notin> set s \<Longrightarrow> trim_end_matches c s = s"
  unfolding trim_end_matches_def
  by (metis dropWhile_eq_self_iff hd_in_set rev_rev_ident set_rev)

lemma trim_end_matches_snoc [simp]: "trim_end_matches c (s @ [c]) = trim_end_matches c s"
  by (simp add: trim_end_matches_def)

text \<open>A string whose first and last bytes are printable ASCII is its own trimming.\<close>

definition printable :: "char \<Rightarrow> bool" where
  "printable c \<longleftrightarrow> 33 \<le> code_of c \<and> code_of c \<le> 126"

lemma trim_start_printable: "printable a \<Longrightarrow> trim_start (a # s) = a # s"
  by (cases s; cases "tl s") (auto simp: printable_def ws1_def ws2_def ws3_def)

lemma trim_rev_printable: "printable a \<Longrightarrow> trim_rev (a # s) = a # s"
  by (cases s; cases "tl s") (auto simp: printable_def ws1_def ws2_def ws3_def)

lemma trim_printable:
  assumes "s \<noteq> []" and "printable (hd s)" and "printable (last s)"
  shows "trim s = s"
proof -
  have start: "trim_start s = s" using assms(1,2) by (cases s) (auto simp: trim_start_printable)
  from assms(1) have snoc: "s = butlast s @ [last s]" by simp
  have "trim_rev (rev s) = rev s"
    by (subst snoc, subst (2) snoc) (simp add: trim_rev_printable [OF assms(3)])
  then show ?thesis by (simp add: trim_def start)
qed

lemma trim_Nil [simp]: "trim [] = []"
  by (simp add: trim_def)

lemma trim_printable_all: "\<forall>c\<in>set s. printable c \<Longrightarrow> trim s = s"
  by (cases "s = []") (auto intro: trim_printable)

section \<open>Decimal rendering\<close>

text \<open>\<open>to_string\<close> of an unsigned integer.\<close>

definition digit_char :: "nat \<Rightarrow> char" where
  "digit_char d = char_of (48 + d)"

fun show_nat :: "nat \<Rightarrow> string" where
  "show_nat n = (if n < 10 then [digit_char n] else show_nat (n div 10) @ [digit_char (n mod 10)])"

declare show_nat.simps [simp del]

text \<open>\<open>{:02}\<close> and \<open>{:04}\<close>: left-pad with zeros.\<close>

definition show_padded :: "nat \<Rightarrow> nat \<Rightarrow> string" where
  "show_padded w n = replicate (w - length (show_nat n)) (CHR ''0'') @ show_nat n"

end
