(* ===== verification/Crates.thy ===== *)
theory Crates
  imports Rust_Str
begin

text \<open>
  The third-party crates the program calls, as parameters of the model: one record \<open>crates\<close> holds
  the functions the code uses of \<open>base64\<close>, \<open>hex\<close>, \<open>url\<close>, \<open>serde_json\<close> and \<open>blake2\<close>, and one
  locale per crate states the documented behaviour the program relies on. Every definition that
  calls a crate takes the record as its first argument; a property that relies on a crate's
  behaviour has the crate's locale predicate as a hypothesis.
\<close>

section \<open>JSON values and parsed URLs\<close>

text \<open>
  \<open>serde_json::Value\<close>. The program never looks inside a number, so a number is its text. An object
  (the crate is built without \<open>preserve_order\<close>) is a \<open>BTreeMap\<close>: its entries in key order. \<open>json_ok\<close>
  holds of the values the crate can build without floats: a number is an integer that fits \<open>u64\<close> or
  \<open>i64\<close> in its printed form, an object has its entries in key order without duplicates. The reading of
  floats is not relied on: without the feature \<open>float_roundtrip\<close> it need not be exact.
\<close>

datatype json =
    JNull
  | JBool bool
  | JNumber string
  | JString string
  | JArray "json list"
  | JObject "(string, json) btree"

definition number_char :: "char \<Rightarrow> bool" where
  "number_char c \<longleftrightarrow> is_ascii_digit c \<or> c = CHR ''-'' \<or> c = CHR ''+'' \<or> c = CHR ''.'' \<or>
     c = CHR ''e'' \<or> c = CHR ''E''"

definition decimal :: "string \<Rightarrow> bool" where
  "decimal s \<longleftrightarrow> s \<noteq> [] \<and> list_all is_ascii_digit s \<and> (hd s = CHR ''0'' \<longrightarrow> s = ''0'')"

definition read_nat :: "string \<Rightarrow> nat" where
  "read_nat s = foldl (\<lambda>n c. 10 * n + (code_of c - 48)) 0 s"

definition json_integer :: "string \<Rightarrow> bool" where
  "json_integer s \<longleftrightarrow>
     (if starts_with s ''-''
      then decimal (drop 1 s) \<and> 0 < read_nat (drop 1 s) \<and> read_nat (drop 1 s) \<le> 2 ^ 63
      else decimal s \<and> read_nat s < 2 ^ 64)"

lemma read_show_nat: "read_nat (show_nat n) = n"
  unfolding read_nat_def
proof (induction n rule: show_nat.induct)
  case (1 n)
  then show ?case
    by (subst show_nat.simps) (auto simp: digit_char_def)
qed

lemma show_nat_digits: "show_nat n \<noteq> [] \<and> list_all is_ascii_digit (show_nat n) \<and> (0 < n \<longrightarrow> hd (show_nat n) \<noteq> CHR ''0'')"
proof (induction n rule: show_nat.induct)
  case (1 n)
  have "is_ascii_digit (digit_char k)" if "k < 10" for k
    using that by (simp add: digit_char_def is_ascii_digit_def)
  moreover have "code_of (digit_char k) = 48 + k" if "k < 10" for k
    using that by (simp add: digit_char_def)
  then have "0 < k \<Longrightarrow> digit_char k \<noteq> CHR ''0''" if "k < 10" for k
    using that by (fastforce simp: code_of_def)
  ultimately show ?case using 1 by (subst (1 2 3) show_nat.simps) auto
qed

lemma json_integer_show_nat: "n < 2 ^ 64 \<Longrightarrow> json_integer (show_nat n)"
proof -
  assume n: "n < 2 ^ 64"
  have zero: "show_nat 0 = ''0''" by code_simp
  have "decimal (show_nat n)"
    using show_nat_digits [of n] zero by (cases "n = 0") (auto simp: decimal_def)
  moreover have "\<not> starts_with (show_nat n) ''-''"
    using show_nat_digits [of n] by (cases "show_nat n") (auto simp: is_ascii_digit_def code_of_def)
  ultimately show ?thesis using n by (simp add: json_integer_def read_show_nat)
qed

lemma json_integer_u64: "json_integer (show_nat (unat (w :: u64)))"
  using unsigned_less [of w] by (intro json_integer_show_nat) simp

lemma json_integer_chars: "json_integer s \<Longrightarrow> s \<noteq> [] \<and> list_all number_char s"
proof (cases s)
  case (Cons c t)
  assume "json_integer s"
  then have "list_all is_ascii_digit t \<and> (is_ascii_digit c \<or> c = CHR ''-'')"
    by (auto simp: json_integer_def decimal_def Cons split: if_splits)
  then show ?thesis by (auto simp: Cons number_char_def list_all_iff)
qed (simp add: json_integer_def decimal_def)

fun json_ok :: "json \<Rightarrow> bool" where
  "json_ok (JNumber s) = json_integer s"
| "json_ok (JArray vs) = list_all json_ok vs"
| "json_ok (JObject kvs) = (bt_keys_sorted kvs \<and> list_all (\<lambda>(k, v). json_ok v) kvs)"
| "json_ok _ = True"

text \<open>
  What a derived \<open>Serialize\<close> emits is a tree of the same shape, with the members of an object in the
  order they are written; \<open>json_tree\<close> asks only for the numbers to be integers. Collected into a
  \<open>Value\<close>, its objects are sorted and the last member of a repeated name wins.
\<close>

fun json_tree :: "json \<Rightarrow> bool" where
  "json_tree (JNumber s) = json_integer s"
| "json_tree (JArray vs) = list_all json_tree vs"
| "json_tree (JObject kvs) = list_all (\<lambda>(k, v). json_tree v) kvs"
| "json_tree _ = True"

fun to_value :: "json \<Rightarrow> json" where
  "to_value (JArray vs) = JArray (map to_value vs)"
| "to_value (JObject kvs) = JObject (bt_collect (map (\<lambda>(k, v). (k, to_value v)) kvs))"
| "to_value v = v"

lemma json_ok_tree: "json_ok v \<Longrightarrow> json_tree v"
  by (induction v rule: json_ok.induct) (auto simp: list_all_iff)

lemma to_value_ok: "json_ok v \<Longrightarrow> to_value v = v"
proof (induction v rule: to_value.induct)
  case (1 vs)
  then show ?case by (simp add: list_all_iff map_idI)
next
  case (2 kvs)
  then have "map (\<lambda>(k, v). (k, to_value v)) kvs = kvs"
    by (intro map_idI) (auto simp: list_all_iff)
  then show ?case using 2(2) by (simp add: bt_collect_sorted)
qed simp_all

text \<open>
  \<open>json_within n\<close>: arrays and objects are nested at most \<open>n\<close> deep. \<open>serde_json\<close>'s reader gives up on the
  128th level (the workspace does not use \<open>disable_recursion_limit\<close>).
\<close>

fun json_within :: "nat \<Rightarrow> json \<Rightarrow> bool" where
  "json_within n (JArray vs) = (0 < n \<and> list_all (json_within (n - 1)) vs)"
| "json_within n (JObject kvs) = (0 < n \<and> list_all (\<lambda>(k, v). json_within (n - 1) v) kvs)"
| "json_within n v = True"

lemma json_within_mono: "json_within m v \<Longrightarrow> m \<le> n \<Longrightarrow> json_within n v"
proof (induction m v arbitrary: n rule: json_within.induct)
  case (1 m vs)
  then have "m - 1 \<le> n - 1" by simp
  with 1 show ?case by (auto simp: list_all_iff)
next
  case (2 m kvs)
  then have "m - 1 \<le> n - 1" by simp
  with 2 show ?case by (fastforce simp: list_all_iff)
qed simp_all

text \<open>The accessors of \<open>url::Url\<close> that \<open>uri.rs\<close> reads.\<close>

record url =
  url_scheme :: string
  url_username :: string
  url_password :: "string option"
  url_host :: "string option"
  url_port :: "u16 option"
  url_path :: string
  url_query :: "string option"
  url_fragment :: "string option"

section \<open>The crates\<close>

text \<open>
  \<open>hex_decode\<close> gives the text of the \<open>FromHexError\<close> on failure; \<open>hex_decode_to_slice s n\<close> is
  \<open>hex::decode_to_slice\<close> into a buffer of \<open>n\<close> bytes. \<open>blake2s256\<close> and \<open>blake2b512\<close> are the digests
  with 32 and 64 bytes of output.
\<close>

record crates =
  b64_encode :: "bytes \<Rightarrow> string"
  b64_decode :: "string \<Rightarrow> bytes option"
  hex_encode :: "bytes \<Rightarrow> string"
  hex_decode :: "string \<Rightarrow> string + bytes"
  hex_decode_to_slice :: "string \<Rightarrow> nat \<Rightarrow> string + bytes"
  url_parse :: "string \<Rightarrow> url option"
  url_join :: "url \<Rightarrow> string \<Rightarrow> url option"
  json_to_string :: "json \<Rightarrow> string"
  json_from_str :: "string \<Rightarrow> json option"
  blake2s256 :: "bytes \<Rightarrow> bytes"
  blake2b512 :: "bytes \<Rightarrow> bytes"

definition base64url_char :: "char \<Rightarrow> bool" where
  "base64url_char c \<longleftrightarrow> is_ascii_alphanumeric c \<or> c = CHR ''-'' \<or> c = CHR ''_''"

text \<open>
  \<open>base64::engine::general_purpose::URL_SAFE_NO_PAD\<close>: RFC 4648 section 5 without padding. Its
  default configuration rejects padding and non-zero trailing bits, so decoding succeeds on exactly
  the canonical encodings.
\<close>

locale base64_crate =
  fixes enc :: "bytes \<Rightarrow> string" and dec :: "string \<Rightarrow> bytes option"
  assumes dec_enc: "dec (enc bs) = Some bs"
    and enc_dec: "dec s = Some bs \<Longrightarrow> enc bs = s"
    and enc_alphabet: "c \<in> set (enc bs) \<Longrightarrow> base64url_char c"
    and enc_length: "length (enc bs) = (4 * length bs + 2) div 3"
begin

lemma dec_Some_iff: "dec s = Some bs \<longleftrightarrow> s = enc bs"
  using dec_enc enc_dec by blast

lemma enc_inj: "enc bs = enc cs \<Longrightarrow> bs = cs"
  by (metis dec_enc option.inject)

lemma enc_len_mod: "length (enc bs) mod 4 \<noteq> 1"
  unfolding enc_length by presburger

lemma enc_Nil_iff: "enc bs = [] \<longleftrightarrow> bs = []"
proof
  assume "enc bs = []"
  then have "dec [] = Some bs" using dec_enc [of bs] by simp
  moreover have "enc [] = []" using enc_length [of "[]"] by simp
  ultimately show "bs = []" using dec_enc [of "[]"] by simp
next
  assume "bs = []"
  then show "enc bs = []" using enc_length [of "[]"] by simp
qed

lemma enc_no_pad: "c \<in> set (enc bs) \<Longrightarrow> c \<noteq> CHR ''=''"
  using enc_alphabet [of c bs] by (auto simp: base64url_char_def ascii_defs code_of_def)

end

text \<open>
  \<open>hex\<close>: lowercase output; decoding accepts either case, needs an even number of digits, and
  \<open>decode_to_slice\<close> also checks the buffer length.
\<close>

locale hex_crate =
  fixes enc :: "bytes \<Rightarrow> string"
    and dec :: "string \<Rightarrow> string + bytes"
    and dec_slice :: "string \<Rightarrow> nat \<Rightarrow> string + bytes"
  assumes hex_dec_enc: "dec (enc bs) = Inr bs"
    and hex_enc_dec: "dec s = Inr bs \<Longrightarrow> enc bs = to_ascii_lowercase s"
    and hex_dec_ok: "is_ok (dec s) \<longleftrightarrow> even (length s) \<and> list_all is_ascii_hexdigit s"
    and hex_enc_length: "length (enc bs) = 2 * length bs"
    and hex_slice: "dec_slice s n = Inr bs \<longleftrightarrow> dec s = Inr bs \<and> length bs = n"
begin

lemma hex_enc_digits: "list_all is_ascii_hexdigit (enc bs)"
  using hex_dec_ok [of "enc bs"] by (simp add: hex_dec_enc)

lemma hex_enc_lower: "to_ascii_lowercase (enc bs) = enc bs"
  using hex_enc_dec [OF hex_dec_enc] by simp

lemma hex_dec_length: "dec s = Inr bs \<Longrightarrow> length s = 2 * length bs"
  by (metis hex_enc_dec hex_enc_length length_to_ascii_lowercase)

lemma hex_dec_lower: "dec s = Inr bs \<Longrightarrow> dec (to_ascii_lowercase s) = Inr bs"
  using hex_enc_dec hex_dec_enc by metis

lemma hex_enc_inj: "enc bs = enc cs \<Longrightarrow> bs = cs"
  by (metis hex_dec_enc sum.inject(2))

lemma hex_dec_exists:
  assumes "length s = 2 * n" and "list_all is_ascii_hexdigit s"
  obtains bs where "dec s = Inr bs" and "length bs = n" and "enc bs = to_ascii_lowercase s"
proof -
  from assms have "is_ok (dec s)" by (simp add: hex_dec_ok)
  then obtain bs where "dec s = Inr bs" by (auto simp: is_ok_iff)
  moreover from this have "length bs = n" using hex_dec_length assms(1) by fastforce
  ultimately show ?thesis using that hex_enc_dec by blast
qed

lemma hex_slice_enc: "dec_slice (enc bs) (length bs) = Inr bs"
  by (simp add: hex_slice hex_dec_enc)

end

text \<open>
  \<open>serde_json\<close>: reading the text of a serialised value gives the \<open>Value\<close> collected from it, when its
  numbers are 64-bit integers and it is nested at most 127 deep; the printed text of a \<open>Value\<close> starts
  and ends with a printable ASCII character (a quote, a bracket, a brace, a digit or a letter), and the
  text of an array starts with \<open>[\<close>.
\<close>

locale serde_json_crate =
  fixes to_str :: "json \<Rightarrow> string" and from_str :: "string \<Rightarrow> json option"
  assumes from_to_value: "json_tree v \<Longrightarrow> json_within 127 v \<Longrightarrow> from_str (to_str v) = Some (to_value v)"
    and to_str_nonempty: "json_ok v \<Longrightarrow> to_str v \<noteq> []"
    and to_str_hd: "json_ok v \<Longrightarrow> printable (hd (to_str v))"
    and to_str_last: "json_ok v \<Longrightarrow> printable (last (to_str v))"
    and to_str_array: "hd (to_str (JArray vs)) = CHR ''[''"
begin

lemma from_to: "json_ok v \<Longrightarrow> json_within 127 v \<Longrightarrow> from_str (to_str v) = Some v"
  by (simp add: from_to_value json_ok_tree to_value_ok)

lemma to_str_trim: "json_ok v \<Longrightarrow> trim (to_str v) = to_str v"
  by (rule trim_printable [OF to_str_nonempty to_str_hd to_str_last])

end

end
