(* ===== verification/Ref_Codecs.thy ===== *)
theory Ref_Codecs
  imports Crates
begin

text \<open>
  Reference codecs that satisfy the laws of \<open>Crates\<close>: RFC 4648 base64url without padding and
  hexadecimal. They show that the hypotheses about the crates can hold, and witnesses evaluate the
  model with them. They model no file of the repository.
\<close>

section \<open>base64url\<close>

definition b64_alphabet :: string where
  "b64_alphabet = ''ABCDEFGHIJKLMNOPQRSTUVWXYZabcdefghijklmnopqrstuvwxyz0123456789-_''"

definition b64_char :: "nat \<Rightarrow> char" where
  "b64_char n = b64_alphabet ! n"

definition b64_val :: "char \<Rightarrow> nat option" where
  "b64_val c = find_char c b64_alphabet"

definition byte_of :: "nat \<Rightarrow> u8" where
  "byte_of n = word_of_nat n"

fun b64_ref_encode :: "bytes \<Rightarrow> string" where
  "b64_ref_encode [] = []"
| "b64_ref_encode [a] = (let x = unat a in [b64_char (x div 4), b64_char (x mod 4 * 16)])"
| "b64_ref_encode [a, b] =
     (let x = unat a; y = unat b
      in [b64_char (x div 4), b64_char (x mod 4 * 16 + y div 16), b64_char (y mod 16 * 4)])"
| "b64_ref_encode (a # b # c # r) =
     (let x = unat a; y = unat b; z = unat c
      in b64_char (x div 4) # b64_char (x mod 4 * 16 + y div 16)
         # b64_char (y mod 16 * 4 + z div 64) # b64_char (z mod 64) # b64_ref_encode r)"

definition sextets :: "string \<Rightarrow> nat list option" where
  "sextets s = (if list_all (\<lambda>c. b64_val c \<noteq> None) s then Some (map (\<lambda>c. the (b64_val c)) s) else None)"

fun unsextets :: "nat list \<Rightarrow> bytes option" where
  "unsextets [] = Some []"
| "unsextets [p, q] = (if q mod 16 = 0 then Some [byte_of (p * 4 + q div 16)] else None)"
| "unsextets [p, q, r] =
     (if r mod 4 = 0
      then Some [byte_of (p * 4 + q div 16), byte_of (q mod 16 * 16 + r div 4)] else None)"
| "unsextets (p # q # r # s # t) =
     map_option (\<lambda>bs. byte_of (p * 4 + q div 16) # byte_of (q mod 16 * 16 + r div 4)
                      # byte_of (r mod 4 * 64 + s) # bs) (unsextets t)"
| "unsextets [p] = None"

definition b64_ref_decode :: "string \<Rightarrow> bytes option" where
  "b64_ref_decode s = Option.bind (sextets s) unsextets"

lemma b64_val_char: "n < 64 \<Longrightarrow> b64_val (b64_char n) = Some n"
proof -
  have "list_all (\<lambda>n. b64_val (b64_char n) = Some n) [0..<64]" by code_simp
  then show "n < 64 \<Longrightarrow> b64_val (b64_char n) = Some n" by (simp add: list_all_iff)
qed

lemma b64_char_ok: "n < 64 \<Longrightarrow> base64url_char (b64_char n)"
proof -
  have "list_all (\<lambda>n. base64url_char (b64_char n)) [0..<64]" by code_simp
  then show "n < 64 \<Longrightarrow> base64url_char (b64_char n)" by (simp add: list_all_iff)
qed

lemma b64_val_Some: "b64_val c = Some n \<Longrightarrow> n < 64 \<and> b64_char n = c"
proof -
  assume "b64_val c = Some n"
  then have "n < length b64_alphabet" and "b64_alphabet ! n = c"
    unfolding b64_val_def find_char_Some_iff by auto
  moreover have "length b64_alphabet = 64" by (simp add: b64_alphabet_def)
  ultimately show ?thesis by (simp add: b64_char_def)
qed

lemma unat_u8 [simp]: "unat (a :: u8) < 256"
  using unsigned_less [of a] by simp

lemma sextets_Cons: "sextets (c # s) =
  (case b64_val c of None \<Rightarrow> None | Some n \<Rightarrow> map_option ((#) n) (sextets s))"
  by (auto simp: sextets_def split: option.splits)

lemma sextets_Nil [simp]: "sextets [] = Some []"
  by (simp add: sextets_def)

lemma sextets_char: "n < 64 \<Longrightarrow> sextets (b64_char n # s) = map_option ((#) n) (sextets s)"
  by (simp add: sextets_Cons b64_val_char)

text \<open>Arithmetic of the three ways a byte is put together from sextets.\<close>

lemma join1: "m < 16 \<Longrightarrow> x div 4 * 4 + (x mod 4 * 16 + m) div 16 = (x::nat)"
  by simp

lemma join2:
  assumes "y < 256" and "m < (4::nat)"
  shows "(k * 16 + y div 16) mod 16 * 16 + (y mod 16 * 4 + m) div 4 = y"
proof -
  from assms(1) have "y div 16 < 16" by (simp add: less_mult_imp_div_less)
  then have "(k * 16 + y div 16) mod 16 = y div 16" by simp
  moreover have "(y mod 16 * 4 + m) div 4 = y mod 16" using assms(2) by simp
  ultimately show ?thesis by simp
qed

lemma join3:
  assumes "z < (256::nat)"
  shows "(k * 4 + z div 64) mod 4 * 64 + z mod 64 = z"
proof -
  from assms have "z div 64 < 4" by (simp add: less_mult_imp_div_less)
  then have "(k * 4 + z div 64) mod 4 = z div 64" by simp
  then show ?thesis by simp
qed

lemma byte_of_unat [simp]: "byte_of (unat (a :: u8)) = a"
  by (simp add: byte_of_def)

lemma sextet_bounds:
  fixes x y :: nat
  assumes "x < 256" and "y < 256"
  shows "x div 4 < 64" "x mod 4 * 16 < 64" "x mod 4 * 16 + y div 16 < 64"
    "x mod 16 * 4 < 64" "x mod 16 * 4 + y div 64 < 64" "x mod 64 < 64"
    "y div 16 < 16" "y div 64 < 4"
  using assms by (simp_all add: less_mult_imp_div_less)

lemma b64_ref_dec_enc: "b64_ref_decode (b64_ref_encode bs) = Some bs"
proof (induction bs rule: b64_ref_encode.induct)
  case 1
  show ?case by (simp add: b64_ref_decode_def)
next
  case (2 a)
  show ?case
    by (simp add: b64_ref_decode_def Let_def sextets_char sextet_bounds [OF unat_u8 unat_u8])
next
  case (3 a b)
  show ?case
    by (simp add: b64_ref_decode_def Let_def sextets_char sextet_bounds [OF unat_u8 unat_u8]
      join1 join2 [where m = 0, simplified])
next
  case (4 a b c r)
  have *: "Option.bind (sextets (b64_ref_encode r)) unsextets = Some r"
    using "4.IH" by (simp add: b64_ref_decode_def Let_def)
  then obtain t where t: "sextets (b64_ref_encode r) = Some t" "unsextets t = Some r"
    by (auto simp: Option.bind_eq_Some_conv)
  show ?case
    by (simp add: b64_ref_decode_def Let_def sextets_char t sextet_bounds [OF unat_u8 unat_u8]
      join1 join2 join3)
qed

text \<open>The other direction: a text that decodes is the encoding of its bytes.\<close>

lemma unat_byte_of [simp]: "n < 256 \<Longrightarrow> unat (byte_of n) = n"
  by (simp add: byte_of_def unat_of_nat)

lemma sextets_Some_lt: "sextets s = Some ns \<Longrightarrow> (\<forall>n\<in>set ns. n < 64) \<and> map b64_char ns = s"
proof (induction s arbitrary: ns)
  case (Cons c s)
  then show ?case
    by (auto simp: sextets_Cons split: option.splits dest: b64_val_Some)
qed simp

lemma quad_split:
  fixes p q r s :: nat
  assumes "p < 64" "q < 64" "r < 64" "s < 64"
  shows "p * 4 + q div 16 < 256" "q mod 16 * 16 + r div 4 < 256" "r mod 4 * 64 + s < 256"
    "(p * 4 + q div 16) div 4 = p"
    "(p * 4 + q div 16) mod 4 * 16 + (q mod 16 * 16 + r div 4) div 16 = q"
    "(q mod 16 * 16 + r div 4) mod 16 * 4 + (r mod 4 * 64 + s) div 64 = r"
    "(r mod 4 * 64 + s) mod 64 = s"
proof -
  have q: "q div 16 < 4" and r: "r div 4 < 16"
    using assms by (simp_all add: less_mult_imp_div_less)
  have q': "q mod 16 < 16" and r': "r mod 4 < 4" by simp_all
  show "p * 4 + q div 16 < 256" using assms q by linarith
  show "q mod 16 * 16 + r div 4 < 256" using q' r by linarith
  show "r mod 4 * 64 + s < 256" using r' assms by linarith
  show "(p * 4 + q div 16) div 4 = p" using q by simp
  have "(q mod 16 * 16 + r div 4) div 16 = q mod 16" using r by simp
  moreover have "(p * 4 + q div 16) mod 4 = q div 16" using q by simp
  ultimately show "(p * 4 + q div 16) mod 4 * 16 + (q mod 16 * 16 + r div 4) div 16 = q" by simp
  have "(r mod 4 * 64 + s) div 64 = r mod 4" using assms by simp
  moreover have "(q mod 16 * 16 + r div 4) mod 16 = r div 4" using r by simp
  ultimately show "(q mod 16 * 16 + r div 4) mod 16 * 4 + (r mod 4 * 64 + s) div 64 = r" by simp
  show "(r mod 4 * 64 + s) mod 64 = s" using assms by simp
qed

lemma unsextets_encode:
  "unsextets ns = Some bs \<Longrightarrow> \<forall>n\<in>set ns. n < 64 \<Longrightarrow> b64_ref_encode bs = map b64_char ns"
proof (induction ns arbitrary: bs rule: unsextets.induct)
  case (2 p q)
  then show ?case using quad_split [of p q 0 0]
    by (auto simp: Let_def split: if_splits)
next
  case (3 p q r)
  then show ?case using quad_split [of p q r 0]
    by (auto simp: Let_def split: if_splits)
next
  case (4 p q r s t)
  then show ?case using quad_split [of p q r s]
    by (auto simp: Let_def)
qed auto

lemma b64_ref_enc_dec: "b64_ref_decode s = Some bs \<Longrightarrow> b64_ref_encode bs = s"
  by (auto simp: b64_ref_decode_def bind_eq_Some_conv
    dest!: unsextets_encode sextets_Some_lt)

lemma b64_ref_alphabet: "c \<in> set (b64_ref_encode bs) \<Longrightarrow> base64url_char c"
  by (induction bs rule: b64_ref_encode.induct)
    (auto simp: Let_def b64_char_ok sextet_bounds [OF unat_u8 unat_u8])

lemma b64_ref_length: "length (b64_ref_encode bs) = (4 * length bs + 2) div 3"
  by (induction bs rule: b64_ref_encode.induct) (simp_all add: Let_def)

interpretation ref_b64: base64_crate b64_ref_encode b64_ref_decode
  by unfold_locales (fact b64_ref_dec_enc b64_ref_enc_dec b64_ref_alphabet b64_ref_length)+

section \<open>Hexadecimal\<close>

definition hex_char :: "nat \<Rightarrow> char" where
  "hex_char n = ''0123456789abcdef'' ! n"

definition hex_val :: "char \<Rightarrow> nat option" where
  "hex_val c = find_char (to_lower_char c) ''0123456789abcdef''"

fun hex_ref_encode :: "bytes \<Rightarrow> string" where
  "hex_ref_encode [] = []"
| "hex_ref_encode (b # bs) =
     hex_char (unat b div 16) # hex_char (unat b mod 16) # hex_ref_encode bs"

fun hex_ref_digits :: "string \<Rightarrow> string + bytes" where
  "hex_ref_digits (c # d # s) =
     (case (hex_val c, hex_val d) of
        (Some h, Some l) \<Rightarrow> res_bind (hex_ref_digits s) (\<lambda>bs. Inr (byte_of (16 * h + l) # bs))
      | _ \<Rightarrow> Inl ''Invalid character'')"
| "hex_ref_digits [c] = Inl ''Odd number of digits''"
| "hex_ref_digits [] = Inr []"

definition hex_ref_decode :: "string \<Rightarrow> string + bytes" where
  "hex_ref_decode s = (if odd (length s) then Inl ''Odd number of digits'' else hex_ref_digits s)"

definition hex_ref_decode_to_slice :: "string \<Rightarrow> nat \<Rightarrow> string + bytes" where
  "hex_ref_decode_to_slice s n =
     res_bind (hex_ref_decode s)
       (\<lambda>bs. if length bs = n then Inr bs else Inl ''Invalid string length'')"

lemma hex_val_char: "n < 16 \<Longrightarrow> hex_val (hex_char n) = Some n"
proof -
  have "list_all (\<lambda>n. hex_val (hex_char n) = Some n) [0..<16]" by code_simp
  then show "n < 16 \<Longrightarrow> hex_val (hex_char n) = Some n" by (simp add: list_all_iff)
qed

lemma in_map_char_of: "\<forall>n\<in>set ns. n < 256 \<Longrightarrow> c \<in> set (map char_of ns) \<longleftrightarrow> code_of c \<in> set ns"
  by (auto simp: code_of_def intro: rev_image_eqI)

lemma hex_digit_set:
  "c \<in> set ''0123456789abcdef'' \<longleftrightarrow> 48 \<le> code_of c \<and> code_of c \<le> 57 \<or> 97 \<le> code_of c \<and> code_of c \<le> 102"
proof -
  have digits: "''0123456789abcdef'' = map char_of ([48..<58] @ [97..<103])" by code_simp
  have "c \<in> set (map char_of ([48..<58] @ [97..<103])) \<longleftrightarrow> code_of c \<in> set ([48..<58] @ [97..<103])"
    by (rule in_map_char_of) auto
  then show ?thesis unfolding digits set_append set_upt by auto
qed

lemma to_lower_hexdigit: "to_lower_char c \<in> set ''0123456789abcdef'' \<longleftrightarrow> is_ascii_hexdigit c"
  unfolding hex_digit_set
  by (auto simp: to_lower_char_def ascii_defs)

lemma hex_val_Some:
  "hex_val c = Some n \<Longrightarrow> is_ascii_hexdigit c \<and> n < 16 \<and> hex_char n = to_lower_char c"
proof -
  assume "hex_val c = Some n"
  then have n: "n < length ''0123456789abcdef''" "''0123456789abcdef'' ! n = to_lower_char c"
    unfolding hex_val_def find_char_Some_iff by simp_all
  then have "to_lower_char c \<in> set ''0123456789abcdef''" using nth_mem by metis
  moreover have "length ''0123456789abcdef'' = 16" by simp
  ultimately show ?thesis using n unfolding to_lower_hexdigit hex_char_def by presburger
qed

lemma hex_val_None: "hex_val c = None \<longleftrightarrow> \<not> is_ascii_hexdigit c"
  unfolding hex_val_def find_char_None_iff to_lower_hexdigit ..

lemma hex_ref_digits_enc: "hex_ref_digits (hex_ref_encode bs) = Inr bs"
  by (induction bs) (simp_all add: hex_val_char less_mult_imp_div_less)

lemma hex_ref_length: "length (hex_ref_encode bs) = 2 * length bs"
  by (induction bs) simp_all

lemma hex_ref_dec_enc: "hex_ref_decode (hex_ref_encode bs) = Inr bs"
  by (simp add: hex_ref_decode_def hex_ref_length hex_ref_digits_enc)

lemma nibbles: "h < 16 \<Longrightarrow> l < 16 \<Longrightarrow>
    unat (byte_of (16 * h + l)) div 16 = h \<and> unat (byte_of (16 * h + l)) mod 16 = l"
  by simp

lemma hex_ref_digits_Inr: "hex_ref_digits s = Inr bs \<Longrightarrow> hex_ref_encode bs = to_ascii_lowercase s"
  by (induction s arbitrary: bs rule: hex_ref_digits.induct)
    (auto simp: result_simps to_ascii_lowercase_def nibbles
      split: option.splits dest!: hex_val_Some)

lemma hex_ref_enc_dec: "hex_ref_decode s = Inr bs \<Longrightarrow> hex_ref_encode bs = to_ascii_lowercase s"
  by (simp add: hex_ref_decode_def hex_ref_digits_Inr split: if_splits)

lemma hex_ref_digits_ok:
  "even (length s) \<Longrightarrow> is_ok (hex_ref_digits s) \<longleftrightarrow> list_all is_ascii_hexdigit s"
proof (induction s rule: hex_ref_digits.induct)
  case (1 c d s)
  then show ?case
    using hex_val_None [of c] hex_val_None [of d]
    by (auto split: option.splits simp: is_ok_iff result_simps)
qed simp_all

lemma hex_ref_dec_ok:
  "is_ok (hex_ref_decode s) \<longleftrightarrow> even (length s) \<and> list_all is_ascii_hexdigit s"
  by (simp add: hex_ref_decode_def hex_ref_digits_ok)

lemma hex_ref_slice:
  "hex_ref_decode_to_slice s n = Inr bs \<longleftrightarrow> hex_ref_decode s = Inr bs \<and> length bs = n"
  by (auto simp: hex_ref_decode_to_slice_def result_simps split: if_splits)

interpretation ref_hex: hex_crate hex_ref_encode hex_ref_decode hex_ref_decode_to_slice
  by unfold_locales
    (fact hex_ref_dec_enc hex_ref_enc_dec hex_ref_dec_ok hex_ref_length hex_ref_slice)+

end
