(* ===== verification/Ref_Json.thy ===== *)
theory Ref_Json
  imports Ref_Codecs
begin

text \<open>
  A reference printer and parser of compact JSON text that satisfies the laws of
  \<open>serde_json_crate\<close>, for the same purpose as \<open>Ref_Codecs\<close>. Strings are escaped as JSON asks
  (quote, backslash, control characters); an object is read into key order, the last value of a
  repeated key winning.
\<close>

section \<open>Printing\<close>

definition json_escape_char :: "char \<Rightarrow> string" where
  "json_escape_char c =
     (if c = CHR 0x22 then [CHR 0x5C, CHR 0x22]
      else if c = CHR 0x5C then [CHR 0x5C, CHR 0x5C]
      else if code_of c < 32
      then [CHR 0x5C, CHR ''u'', CHR ''0'', CHR ''0'', hex_char (code_of c div 16), hex_char (code_of c mod 16)]
      else [c])"

definition json_show_string :: "string \<Rightarrow> string" where
  "json_show_string s = CHR 0x22 # concat (map json_escape_char s) @ [CHR 0x22]"

fun json_show :: "json \<Rightarrow> string"
  and json_show_elems :: "json list \<Rightarrow> string"
  and json_show_fields :: "(string \<times> json) list \<Rightarrow> string" where
  "json_show JNull = ''null''"
| "json_show (JBool b) = (if b then ''true'' else ''false'')"
| "json_show (JNumber s) = s"
| "json_show (JString s) = json_show_string s"
| "json_show (JArray vs) = CHR ''['' # json_show_elems vs"
| "json_show (JObject kvs) = CHR ''{'' # json_show_fields kvs"
| "json_show_elems [] = '']''"
| "json_show_elems [v] = json_show v @ '']''"
| "json_show_elems (v # w # vs) = json_show v @ CHR '','' # json_show_elems (w # vs)"
| "json_show_fields [] = ''}''"
| "json_show_fields [(k, v)] = json_show_string k @ CHR '':'' # json_show v @ ''}''"
| "json_show_fields ((k, v) # e # es) =
     json_show_string k @ CHR '':'' # json_show v @ CHR '','' # json_show_fields (e # es)"

section \<open>Reading\<close>

text \<open>The body of a string literal after its opening quote: the characters and the rest.\<close>

fun json_read_chars :: "string \<Rightarrow> (string \<times> string) option" where
  "json_read_chars [] = None"
| "json_read_chars (c # s) =
     (if c = CHR 0x22 then Some ([], s)
      else if c \<noteq> CHR 0x5C
      then (if code_of c < 32 then None
            else map_option (\<lambda>(t, r). (c # t, r)) (json_read_chars s))
      else (case s of
          d # s' \<Rightarrow>
            if d = CHR 0x22 \<or> d = CHR 0x5C then map_option (\<lambda>(t, r). (d # t, r)) (json_read_chars s')
            else (case s' of
                z1 # z2 # h # l # s'' \<Rightarrow>
                  (case (hex_val h, hex_val l) of
                     (Some m, Some n) \<Rightarrow>
                       if d = CHR ''u'' \<and> z1 = CHR ''0'' \<and> z2 = CHR ''0''
                       then map_option (\<lambda>(t, r). (char_of (16 * m + n) # t, r)) (json_read_chars s'')
                       else None
                   | _ \<Rightarrow> None)
              | _ \<Rightarrow> None)
        | [] \<Rightarrow> None))"

datatype json_goal = Value | Elems "json list" | Fields "(string, json) btree"

text \<open>
  One recursive function with three goals: a value; the rest of an array whose elements so far are
  kept; the rest of an object whose entries so far are kept. The fuel bounds the nesting and length.
\<close>

fun json_read :: "nat \<Rightarrow> json_goal \<Rightarrow> string \<Rightarrow> (json \<times> string) option" where
  "json_read 0 g s = None"
| "json_read (Suc n) Value s =
     (if starts_with s ''null'' then Some (JNull, drop 4 s)
      else if starts_with s ''true'' then Some (JBool True, drop 4 s)
      else if starts_with s ''false'' then Some (JBool False, drop 5 s)
      else (case s of
          [] \<Rightarrow> None
        | c # r \<Rightarrow>
            if c = CHR 0x22 then map_option (\<lambda>(t, r'). (JString t, r')) (json_read_chars r)
            else if c = CHR ''['' then
              (case r of d # r' \<Rightarrow> if d = CHR '']'' then Some (JArray [], r') else json_read n (Elems []) r
               | [] \<Rightarrow> None)
            else if c = CHR ''{'' then
              (case r of d # r' \<Rightarrow> if d = CHR ''}'' then Some (JObject [], r') else json_read n (Fields []) r
               | [] \<Rightarrow> None)
            else if number_char c
            then Some (JNumber (takeWhile number_char s), dropWhile number_char s)
            else None))"
| "json_read (Suc n) (Elems vs) s =
     (case json_read n Value s of
        Some (v, c # r) \<Rightarrow>
          if c = CHR '','' then json_read n (Elems (vs @ [v])) r
          else if c = CHR '']'' then Some (JArray (vs @ [v]), r) else None
      | _ \<Rightarrow> None)"
| "json_read (Suc n) (Fields m) s =
     (case s of
        c # s' \<Rightarrow>
          if c \<noteq> CHR 0x22 then None
          else (case json_read_chars s' of
             Some (k, d # r) \<Rightarrow>
               if d \<noteq> CHR '':'' then None
               else (case json_read n Value r of
                  Some (v, e # r') \<Rightarrow>
                    if e = CHR '','' then json_read n (Fields (bt_insert k v m)) r'
                    else if e = CHR ''}'' then Some (JObject (bt_insert k v m), r') else None
                | _ \<Rightarrow> None)
           | _ \<Rightarrow> None)
      | [] \<Rightarrow> None)"

definition json_read_all :: "string \<Rightarrow> json option" where
  "json_read_all s =
     (case json_read (Suc (length s)) Value s of
        Some (v, r) \<Rightarrow> if r = [] then Some v else None
      | None \<Rightarrow> None)"

section \<open>Reading what was printed\<close>

lemma json_read_chars_show:
  "json_read_chars (concat (map json_escape_char s) @ CHR 0x22 # r) = Some (s, r)"
proof (induction s)
  case (Cons c s)
  have "code_of c < 32 \<Longrightarrow> code_of c div 16 < 16" by simp
  moreover have "char_of (code_of c) = c" by (simp add: code_of_def)
  ultimately show ?case using Cons
    by (auto simp: json_escape_char_def hex_val_char)
qed simp

lemma json_show_hd:
  "json_tree v \<Longrightarrow> \<exists>c s. json_show v = c # s \<and>
     (number_char c \<or> c = CHR 0x22 \<or> c = CHR ''['' \<or> c = CHR ''{'' \<or> c = CHR ''n'' \<or>
      c = CHR ''t'' \<or> c = CHR ''f'')"
  using json_integer_chars by (cases v) (fastforce simp: json_show_string_def neq_Nil_conv)+

text \<open>A text that follows a value does not go on with a number.\<close>

definition json_stop :: "string \<Rightarrow> bool" where
  "json_stop r \<longleftrightarrow> r = [] \<or> \<not> number_char (hd r)"

lemma json_stop_simps [simp]:
  "json_stop []" "json_stop (CHR '','' # r)" "json_stop (CHR '']'' # r)" "json_stop (CHR ''}'' # r)"
  by (simp_all add: json_stop_def number_char_def is_ascii_digit_def code_of_def)

lemma takeWhile_number:
  "list_all number_char s \<Longrightarrow> json_stop r \<Longrightarrow>
     takeWhile number_char (s @ r) = s \<and> dropWhile number_char (s @ r) = r"
  by (induction s) (cases r; auto simp: json_stop_def)+

lemma not_number_char:
  "\<not> number_char CHR ''n''" "\<not> number_char CHR ''t''" "\<not> number_char CHR ''f''"
  "\<not> number_char CHR 0x22" "\<not> number_char CHR ''[''" "\<not> number_char CHR ''{''"
  "\<not> number_char CHR '']''" "\<not> number_char CHR ''}''"
  by (simp_all add: number_char_def is_ascii_digit_def code_of_def)

lemma json_read_value_str:
  "json_read (Suc n) Value (json_show_string s @ r) = Some (JString s, r)"
  by (simp add: json_show_string_def json_read_chars_show)

lemma json_read_value_num:
  assumes "s \<noteq> []" "list_all number_char s" "json_stop r"
  shows "json_read (Suc n) Value (s @ r) = Some (JNumber s, r)"
proof -
  from assms(1) obtain c t where s: "s = c # t" by (cases s) auto
  with assms(2) have c: "number_char c" by simp
  then have "c \<noteq> CHR ''n''" "c \<noteq> CHR ''t''" "c \<noteq> CHR ''f''" "c \<noteq> CHR 0x22" "c \<noteq> CHR ''[''" "c \<noteq> CHR ''{''"
    using not_number_char by auto
  then show ?thesis using takeWhile_number [OF assms(2,3)] c by (simp add: s)
qed

lemma json_show_elems_hd:
  "list_all json_tree ws \<Longrightarrow> ws \<noteq> [] \<Longrightarrow> \<exists>c s. json_show_elems ws = c # s \<and> c \<noteq> CHR '']''"
proof -
  assume ws: "list_all json_tree ws" "ws \<noteq> []"
  then obtain v vs where v: "ws = v # vs" "json_tree v" by (cases ws) auto
  from json_show_hd [OF v(2)] obtain c t where c: "json_show v = c # t" "c \<noteq> CHR '']''"
    using not_number_char by blast
  then show ?thesis by (cases vs) (simp_all add: v(1))
qed

lemma json_show_fields_hd:
  "es \<noteq> [] \<Longrightarrow> \<exists>s. json_show_fields es = CHR 0x22 # s"
  by (cases es; cases "tl es") (auto simp: json_show_string_def)

text \<open>The step of the loop over the entries of an object.\<close>

lemma json_read_fields_step:
  assumes "json_read n Value (t @ e # r') = Some (v, e # r')"
  shows "json_read (Suc n) (Fields m) (json_show_string k @ CHR '':'' # t @ e # r') =
    (if e = CHR '','' then json_read n (Fields (bt_insert k v m)) r'
     else if e = CHR ''}'' then Some (JObject (bt_insert k v m), r') else None)"
  using assms by (simp add: json_show_string_def json_read_chars_show)

lemma json_read_show:
  "json_tree v \<Longrightarrow> json_stop r \<Longrightarrow> length (json_show v) \<le> n \<Longrightarrow>
     json_read (Suc n) Value (json_show v @ r) = Some (to_value v, r)"
  "list_all json_tree ws \<Longrightarrow> ws \<noteq> [] \<Longrightarrow> length (json_show_elems ws) \<le> n \<Longrightarrow>
     json_read (Suc n) (Elems vs) (json_show_elems ws @ r) = Some (JArray (vs @ map to_value ws), r)"
  "list_all (\<lambda>(k, v). json_tree v) es \<Longrightarrow> es \<noteq> [] \<Longrightarrow> length (json_show_fields es) \<le> n \<Longrightarrow>
     json_read (Suc n) (Fields m) (json_show_fields es @ r) =
       Some (JObject (foldl (\<lambda>m (k, v). bt_insert k v m) m (map (\<lambda>(k, v). (k, to_value v)) es)), r)"
proof (induction v and ws and es arbitrary: r n and r n vs and r n m
    rule: json_show_json_show_elems_json_show_fields.induct)
  case 1
  show ?case by simp
next
  case (2 b)
  show ?case by simp
next
  case (3 s)
  then show ?case using json_read_value_num json_integer_chars by simp
next
  case (4 s)
  show ?case using json_read_value_str by simp
next
  case (5 ws)
  then show ?case
  proof (cases "ws = []")
    case False
    from 5(4) obtain k where n: "n = Suc k" by (cases n) auto
    from 5(2) have "list_all json_tree ws" by simp
    from json_show_elems_hd [OF this False] obtain c s
      where c: "json_show_elems ws = c # s" "c \<noteq> CHR '']''" by blast
    from 5(1) [of k "[]" r] False 5(2,4) have "json_read n (Elems []) (json_show_elems ws @ r) =
      Some (JArray (map to_value ws), r)" by (simp add: n)
    then show ?thesis using c by simp
  qed simp
next
  case (6 es)
  then show ?case
  proof (cases "es = []")
    case False
    from 6(4) obtain k where n: "n = Suc k" by (cases n) auto
    from False obtain s where c: "json_show_fields es = CHR 0x22 # s"
      using json_show_fields_hd by auto
    from 6(1) [of k "[]" r] False 6(2,4) have "json_read n (Fields []) (json_show_fields es @ r) =
      Some (to_value (JObject es), r)" by (simp add: n bt_collect_def)
    then show ?thesis using c by simp
  qed (simp add: bt_collect_def)
next
  case 7
  then show ?case by simp
next
  case (8 v)
  from 8(4) obtain k where n: "n = Suc k" by (cases n) auto
  from 8(1) [of "CHR '']'' # r" k] 8(2,4) show ?case by (simp add: n)
next
  case (9 v w ws)
  from 9(5) obtain k where n: "n = Suc k" by (cases n) auto
  from 9(1) [of "CHR '','' # json_show_elems (w # ws) @ r" k] 9(3,5)
  have "json_read n Value (json_show v @ CHR '','' # json_show_elems (w # ws) @ r) =
    Some (to_value v, CHR '','' # json_show_elems (w # ws) @ r)" by (simp add: n)
  moreover from 9(2) [of k "vs @ [to_value v]" r] 9(3,5)
  have "json_read n (Elems (vs @ [to_value v])) (json_show_elems (w # ws) @ r) =
    Some (JArray (vs @ map to_value (v # w # ws)), r)" by (simp add: n)
  ultimately show ?case by simp
next
  case 10
  then show ?case by simp
next
  case (11 k v)
  from 11(4) obtain j where n: "n = Suc j" by (cases n) (auto simp: json_show_string_def)
  from 11(1) [of "CHR ''}'' # r" j] 11(2,4)
  have "json_read n Value (json_show v @ CHR ''}'' # r) = Some (to_value v, CHR ''}'' # r)"
    by (simp add: n)
  from json_read_fields_step [OF this] show ?case by simp
next
  case (12 k v e es)
  from 12(5) obtain j where n: "n = Suc j" by (cases n) (auto simp: json_show_string_def)
  let ?rest = "json_show_fields (e # es) @ r"
  from 12(1) [of "CHR '','' # ?rest" j] 12(3,5)
  have "json_read n Value (json_show v @ CHR '','' # ?rest) = Some (to_value v, CHR '','' # ?rest)"
    by (simp add: n)
  from json_read_fields_step [OF this, of m k] 12(2) [of j "bt_insert k (to_value v) m" r] 12(3,5)
  show ?case by (simp add: n)
qed

lemma json_read_all_tree: "json_tree v \<Longrightarrow> json_read_all (json_show v) = Some (to_value v)"
  using json_read_show(1) [of v "[]" "length (json_show v)"] by (simp add: json_read_all_def)

lemma json_read_all_ok: "json_ok v \<Longrightarrow> json_read_all (json_show v) = Some v"
  by (simp add: json_read_all_tree json_ok_tree to_value_ok)

lemma printable_number: "number_char c \<Longrightarrow> printable c"
  by (auto simp: number_char_def printable_def is_ascii_digit_def code_of_def)

lemma json_show_last:
  "json_ok v \<Longrightarrow> json_show v \<noteq> [] \<and> printable (last (json_show v))"
  "json_show_elems ws \<noteq> [] \<and> last (json_show_elems ws) = CHR '']''"
  "json_show_fields es \<noteq> [] \<and> last (json_show_fields es) = CHR ''}''"
  by (induction v and ws and es rule: json_show_json_show_elems_json_show_fields.induct)
    (auto simp: json_show_string_def printable_def code_of_def list_all_iff dest!: json_integer_chars
      intro!: printable_number [unfolded printable_def code_of_def, THEN conjunct1]
        printable_number [unfolded printable_def code_of_def, THEN conjunct2])

lemma json_show_hd_printable: "json_ok v \<Longrightarrow> printable (hd (json_show v))"
  using json_show_hd [of v] printable_number json_ok_tree by (auto simp: printable_def code_of_def)

interpretation ref_json: serde_json_crate json_show json_read_all
proof unfold_locales
  fix v :: json
  assume "json_tree v"
  then show "json_read_all (json_show v) = Some (to_value v)" by (rule json_read_all_tree)
next
  fix v :: json
  assume v: "json_ok v"
  show "json_show v \<noteq> []" using json_show_last(1) [OF v] by simp
  show "printable (hd (json_show v))" using v by (rule json_show_hd_printable)
  show "printable (last (json_show v))" using json_show_last(1) [OF v] by simp
next
  fix vs
  show "hd (json_show (JArray vs)) = CHR ''[''" by simp
qed

section \<open>A complete set of crates\<close>

text \<open>
  For witnesses: the codecs above, a URL parser that splits off the scheme and keeps the rest as the
  path, and digests that pad or cut their input. No property relies on the last three.
\<close>

definition ref_url_parse :: "string \<Rightarrow> url option" where
  "ref_url_parse s =
     (case split_once (CHR '':'') s of
        None \<Rightarrow> None
      | Some (a, b) \<Rightarrow>
          Some \<lparr>url_scheme = to_ascii_lowercase a, url_username = [], url_password = None,
                url_host = None, url_port = None, url_path = b, url_query = None,
                url_fragment = None\<rparr>)"

definition ref_crates :: crates where
  "ref_crates =
     \<lparr>b64_encode = b64_ref_encode, b64_decode = b64_ref_decode,
      hex_encode = hex_ref_encode, hex_decode = hex_ref_decode,
      hex_decode_to_slice = hex_ref_decode_to_slice,
      url_parse = ref_url_parse, url_join = (\<lambda>u s. Some (u\<lparr>url_path := s\<rparr>)),
      json_to_string = json_show, json_from_str = json_read_all,
      blake2s256 = (\<lambda>bs. take 32 (bs @ replicate 32 0)),
      blake2b512 = (\<lambda>bs. take 64 (bs @ replicate 64 0))\<rparr>"

text \<open>The hypotheses of the properties about the crates.\<close>

abbreviation base64_ok :: "crates \<Rightarrow> bool" where
  "base64_ok X \<equiv> base64_crate (b64_encode X) (b64_decode X)"

abbreviation hex_ok :: "crates \<Rightarrow> bool" where
  "hex_ok X \<equiv> hex_crate (hex_encode X) (hex_decode X) (hex_decode_to_slice X)"

abbreviation json_crate_ok :: "crates \<Rightarrow> bool" where
  "json_crate_ok X \<equiv> serde_json_crate (json_to_string X) (json_from_str X)"

lemma ref_crates_ok [simp]:
  "base64_ok ref_crates" "hex_ok ref_crates" "json_crate_ok ref_crates"
  by (simp_all add: ref_crates_def ref_b64.base64_crate_axioms ref_hex.hex_crate_axioms
    ref_json.serde_json_crate_axioms)

end
