(* ===== verification/Codecs.thy ===== *)
theory Codecs
  imports Ref_Json
begin

text \<open>
  \<open>midnight-did-domain/src/crypto_codecs.rs\<close>: base64url text and big-endian field elements. The
  base64 engine is the \<open>crates\<close> parameter. A \<open>BigUintBytes\<close> is its byte vector.
\<close>

section \<open>Definitions\<close>

datatype codec_error =
    InvalidCharacter string
  | InvalidLength string
  | UnexpectedByteLength string nat nat
  | NotCanonical string

definition is_base64url_byte :: "char \<Rightarrow> bool" where
  "is_base64url_byte b \<longleftrightarrow> is_ascii_alphanumeric b \<or> b = CHR ''-'' \<or> b = CHR ''_''"

definition is_base64url_text :: "string \<Rightarrow> bool" where
  "is_base64url_text v \<longleftrightarrow> v \<noteq> [] \<and> list_all is_base64url_byte v"

definition encode_base64url :: "crates \<Rightarrow> bytes \<Rightarrow> string" where
  "encode_base64url X bs = b64_encode X bs"

definition decode_base64url :: "crates \<Rightarrow> string \<Rightarrow> codec_error + bytes" where
  "decode_base64url X input =
     res_bind
       (if length input mod 4 = 0 then Inr input
        else if length input mod 4 = 2 then Inr (input @ ''=='')
        else if length input mod 4 = 3 then Inr (input @ ''='')
        else Inl (InvalidLength ''value''))
       (\<lambda>padded. ok_or (InvalidCharacter ''value'')
                       (b64_decode X (trim_end_matches (CHR ''='') padded)))"

definition decode_base64url_bytes :: "crates \<Rightarrow> string \<Rightarrow> nat \<Rightarrow> string \<Rightarrow> codec_error + bytes" where
  "decode_base64url_bytes X input expected_length label =
     (if \<not> is_base64url_text input \<or> length input mod 4 = 1 then Inl (InvalidCharacter label)
      else res_bind (map_err (\<lambda>_. InvalidCharacter label) (decode_base64url X input))
        (\<lambda>bs. if length bs \<noteq> expected_length
              then Inl (UnexpectedByteLength label expected_length (length bs))
              else if encode_base64url X bs \<noteq> input then Inl (NotCanonical label)
              else Inr bs))"

definition decode_base64url_bytes_32 :: "crates \<Rightarrow> string \<Rightarrow> string \<Rightarrow> codec_error + bytes" where
  "decode_base64url_bytes_32 X input label = decode_base64url_bytes X input 32 label"

definition decode_field_element :: "crates \<Rightarrow> string \<Rightarrow> codec_error + bytes" where
  "decode_field_element X s = decode_base64url X s"

text \<open>The \<open>while\<close> loop of \<open>encode_field_element\<close> that skips leading zero bytes.\<close>

function skip_zeros :: "bytes \<Rightarrow> nat \<Rightarrow> nat" where
  "skip_zeros v start =
     (if start + 1 < length v \<and> v ! start = 0 then skip_zeros v (start + 1) else start)"
  by pat_completeness auto
termination by (relation "measure (\<lambda>(v, start). length v - start)") auto

declare skip_zeros.simps [simp del]

definition encode_field_element :: "crates \<Rightarrow> bytes \<Rightarrow> string" where
  "encode_field_element X v =
     (let start = skip_zeros v 0
      in if v = [] then encode_base64url X [0] else encode_base64url X (drop start v))"

section \<open>Decoding\<close>

lemma decode_base64url_no_pad:
  assumes "CHR ''='' \<notin> set s"
  shows "decode_base64url X s =
    (if length s mod 4 = 1 then Inl (InvalidLength ''value'')
     else ok_or (InvalidCharacter ''value'') (b64_decode X s))"
proof -
  have "trim_end_matches (CHR ''='') (s @ ''=='') = s"
    using assms trim_end_matches_snoc [of "CHR ''=''" "s @ ''=''"] trim_end_matches_snoc [of "CHR ''=''" s]
    by (simp add: trim_end_matches_id)
  moreover have "trim_end_matches (CHR ''='') (s @ ''='') = s" "trim_end_matches (CHR ''='') s = s"
    using assms by (simp_all add: trim_end_matches_id)
  moreover have "length s mod 4 \<in> {0, 1, 2, 3}" by auto
  ultimately show ?thesis by (auto simp: decode_base64url_def)
qed

lemma base64url_text_no_pad: "is_base64url_text s \<Longrightarrow> CHR ''='' \<notin> set s"
  by (auto simp: is_base64url_text_def is_base64url_byte_def list_all_iff ascii_defs code_of_def)

lemma is_base64url_byte_char: "is_base64url_byte c \<longleftrightarrow> base64url_char c"
  by (simp add: is_base64url_byte_def base64url_char_def)

context base64_crate begin

lemma enc_is_text: "bs \<noteq> [] \<Longrightarrow> is_base64url_text (enc bs)"
  using enc_alphabet enc_Nil_iff
  by (auto simp: is_base64url_text_def list_all_iff is_base64url_byte_char)

end

lemma decode_base64url_encode:
  assumes "base64_ok X"
  shows "decode_base64url X (encode_base64url X bs) = Inr bs"
proof -
  have "CHR ''='' \<notin> set (b64_encode X bs)" using base64_crate.enc_no_pad [OF assms] by blast
  then show ?thesis
    using base64_crate.enc_len_mod [OF assms, of bs]
    by (simp add: decode_base64url_no_pad encode_base64url_def base64_crate.dec_enc [OF assms])
qed

text \<open>
  What the fixed-length decoder returns, branch by branch: the input is rejected as text, rejected by
  the base64 engine, of the wrong length, or decoded; the canonical-form test never fails.
\<close>

lemma decode_base64url_bytes_cases:
  assumes "base64_ok X"
  shows "decode_base64url_bytes X s n l =
    (if \<not> is_base64url_text s then Inl (InvalidCharacter l)
     else (case b64_decode X s of
             None \<Rightarrow> Inl (InvalidCharacter l)
           | Some bs \<Rightarrow> if length bs \<noteq> n then Inl (UnexpectedByteLength l n (length bs)) else Inr bs))"
proof (cases "is_base64url_text s")
  case True
  have d: "decode_base64url X s =
    (if length s mod 4 = 1 then Inl (InvalidLength ''value'')
     else ok_or (InvalidCharacter ''value'') (b64_decode X s))"
    by (rule decode_base64url_no_pad [OF base64url_text_no_pad [OF True]])
  show ?thesis
  proof (cases "b64_decode X s")
    case None
    with True d show ?thesis by (simp add: decode_base64url_bytes_def)
  next
    case (Some bs)
    then have s: "s = b64_encode X bs" using base64_crate.dec_Some_iff [OF assms] by simp
    have "length s mod 4 \<noteq> 1" using base64_crate.enc_len_mod [OF assms] by (simp add: s)
    with True d Some show ?thesis
      by (simp add: decode_base64url_bytes_def encode_base64url_def) (simp add: s)
  qed
qed (simp add: decode_base64url_bytes_def)

lemma decode_base64url_bytes_Inr:
  assumes "base64_ok X"
  shows "decode_base64url_bytes X s n l = Inr bs \<longleftrightarrow>
    bs \<noteq> [] \<and> length bs = n \<and> s = encode_base64url X bs"
proof (cases "b64_decode X s")
  case None
  then have "s \<noteq> b64_encode X bs" using base64_crate.dec_enc [OF assms] by auto
  then show ?thesis by (simp add: decode_base64url_bytes_cases [OF assms] encode_base64url_def None)
next
  case (Some cs)
  then have s: "s = b64_encode X cs" using base64_crate.dec_Some_iff [OF assms] by simp
  have "s = b64_encode X bs \<longleftrightarrow> cs = bs" using base64_crate.enc_inj [OF assms] s by blast
  moreover have "is_base64url_text s \<longleftrightarrow> cs \<noteq> []"
    using base64_crate.enc_is_text [OF assms] base64_crate.enc_Nil_iff [OF assms] s
    by (metis is_base64url_text_def)
  ultimately show ?thesis
    by (auto simp: decode_base64url_bytes_cases [OF assms] encode_base64url_def Some)
qed

lemma decode_base64url_bytes_is_ok:
  assumes "base64_ok X"
  shows "is_ok (decode_base64url_bytes X s n l) \<longleftrightarrow>
    (\<exists>bs. bs \<noteq> [] \<and> length bs = n \<and> s = encode_base64url X bs)"
  by (auto simp: is_ok_iff decode_base64url_bytes_Inr [OF assms])

text \<open>
  \<open>decode_base64url_bytes\<close> succeeds exactly on the canonical unpadded base64url text of a non-empty
  byte string of the expected length, and then returns that byte string.
\<close>

theorem decode_base64url_bytes_exact:
  assumes "base64_ok X"
  shows "decode_base64url_bytes X s n l = Inr bs \<longleftrightarrow>
    bs \<noteq> [] \<and> length bs = n \<and> s = encode_base64url X bs"
  using assms by (rule decode_base64url_bytes_Inr)

theorem decode_base64url_bytes_exact_witness:
  "decode_base64url_bytes ref_crates ''AQI'' 2 ''x'' = Inr [1, 2]"
proof -
  have "''AQI'' = encode_base64url ref_crates [1, 2]"
    unfolding encode_base64url_def ref_crates_def by code_simp
  then show ?thesis using decode_base64url_bytes_exact [OF ref_crates_ok(1), of "''AQI''" 2 "''x''" "[1, 2]"]
    by simp
qed

text \<open>
  The errors of \<open>decode_base64url_bytes\<close>: text outside the alphabet, empty, of impossible length or
  refused by the engine is \<open>InvalidCharacter\<close>; decodable text of another length is
  \<open>UnexpectedByteLength\<close> with both lengths; \<open>NotCanonical\<close> is never returned.
\<close>

theorem decode_base64url_bytes_errors:
  assumes "base64_ok X"
  shows "(decode_base64url_bytes X s n l = Inl (InvalidCharacter l) \<longleftrightarrow>
            s = [] \<or> b64_decode X s = None) \<and>
         (decode_base64url_bytes X s n l = Inl (UnexpectedByteLength l n m) \<longleftrightarrow>
            s \<noteq> [] \<and> (\<exists>bs. b64_decode X s = Some bs \<and> length bs = m \<and> m \<noteq> n)) \<and>
         decode_base64url_bytes X s n l \<noteq> Inl (NotCanonical l')"
proof -
  have "is_base64url_text s \<longleftrightarrow> s \<noteq> []" if "b64_decode X s = Some bs" for bs
    using that base64_crate.dec_Some_iff [OF assms] base64_crate.enc_Nil_iff [OF assms]
      base64_crate.enc_is_text [OF assms] by (metis is_base64url_text_def)
  then show ?thesis
    by (cases "b64_decode X s")
      (auto simp: decode_base64url_bytes_cases [OF assms] is_base64url_text_def)
qed

theorem decode_base64url_bytes_errors_witness:
  "decode_base64url_bytes ref_crates [] 32 ''x'' = Inl (InvalidCharacter ''x'')"
  using decode_base64url_bytes_errors [OF ref_crates_ok(1), of "[]"] by simp

section \<open>Field elements\<close>

text \<open>The number that big-endian bytes stand for.\<close>

fun be_val :: "bytes \<Rightarrow> nat" where
  "be_val [] = 0"
| "be_val (b # bs) = unat b * 256 ^ length bs + be_val bs"

text \<open>Minimal form: one byte, or no leading zero.\<close>

definition be_minimal :: "bytes \<Rightarrow> bool" where
  "be_minimal bs \<longleftrightarrow> bs \<noteq> [] \<and> (hd bs \<noteq> 0 \<or> length bs = 1)"

lemma be_val_lt: "be_val bs < 256 ^ length bs"
proof (induction bs)
  case (Cons b bs)
  have "unat b * 256 ^ length bs \<le> 255 * 256 ^ length bs"
    using unat_u8 [of b] by (intro mult_le_mono1) linarith
  with Cons show ?case unfolding be_val.simps length_Cons power_Suc by linarith
qed simp

lemma be_val_ge: "hd bs \<noteq> 0 \<Longrightarrow> bs \<noteq> [] \<Longrightarrow> 256 ^ (length bs - 1) \<le> be_val bs"
proof (cases bs)
  case (Cons b cs)
  assume "hd bs \<noteq> 0"
  then have "1 \<le> unat b" by (simp add: Cons Suc_le_eq unat_gt_0)
  then have "256 ^ length cs \<le> unat b * 256 ^ length cs + be_val cs" by (intro trans_le_add1) simp
  then show ?thesis by (simp only: Cons be_val.simps length_Cons diff_Suc_1)
qed simp

lemma be_val_inject_length:
  "length as = length bs \<Longrightarrow> be_val as = be_val bs \<Longrightarrow> as = bs"
proof (induction as bs rule: list_induct2)
  case (Cons a as b bs)
  let ?k = "256 ^ length as :: nat"
  have "be_val as < ?k" using be_val_lt [of as] .
  have "be_val bs < ?k" using be_val_lt [of bs] Cons.hyps by simp
  have eq: "unat a * ?k + be_val as = unat b * ?k + be_val bs" using Cons by simp
  have div: "(x * ?k + y) div ?k = x" if "y < ?k" for x y using that by simp
  have "unat a = (unat b * ?k + be_val bs) div ?k" using div [OF \<open>be_val as < ?k\<close>] eq by metis
  also have "\<dots> = unat b" by (rule div [OF \<open>be_val bs < ?k\<close>])
  finally have "unat a = unat b" .
  with eq Cons.IH show ?case by (simp add: word_unat_eq_iff)
qed simp

lemma be_minimal_length:
  assumes "be_minimal as" "be_minimal bs" "be_val as = be_val bs"
  shows "length as = length bs"
proof -
  have "\<not> length as < length bs" if "be_minimal as" "be_minimal bs" "be_val as = be_val bs" for as bs
  proof
    assume less: "length as < length bs"
    then have "hd bs \<noteq> 0" using that(1,2) by (auto simp: be_minimal_def neq_Nil_conv)
    then have "256 ^ (length bs - 1) \<le> be_val bs" using that(2) by (intro be_val_ge) (simp_all add: be_minimal_def)
    also have "\<dots> < 256 ^ length as" using be_val_lt [of as] that(3) by simp
    finally show False using less by (simp add: power_less_imp_less_exp [of 256])
  qed
  from this [of as bs] this [of bs as] show ?thesis using assms by simp
qed

lemma be_minimal_unique: "be_minimal as \<Longrightarrow> be_minimal bs \<Longrightarrow> be_val as = be_val bs \<Longrightarrow> as = bs"
  using be_minimal_length be_val_inject_length by blast

lemma skip_zeros_inv:
  "start < length v \<Longrightarrow> be_val (drop (skip_zeros v start) v) = be_val (drop start v) \<and>
     be_minimal (drop (skip_zeros v start) v)"
proof (induction v start rule: skip_zeros.induct)
  case (1 v start)
  show ?case
  proof (cases "start + 1 < length v \<and> v ! start = 0")
    case True
    then have "drop start v = 0 # drop (start + 1) v" by (metis Cons_nth_drop_Suc 1(2) Suc_eq_plus1)
    then have "be_val (drop start v) = be_val (drop (start + 1) v)" by simp
    moreover have "skip_zeros v start = skip_zeros v (start + 1)"
      using True by (subst skip_zeros.simps) simp
    ultimately show ?thesis using 1(1) True by simp
  next
    case False
    then have "skip_zeros v start = start" by (subst skip_zeros.simps) auto
    with False 1(2) show ?thesis by (auto simp: be_minimal_def hd_drop_conv_nth)
  qed
qed

definition be_canonical :: "bytes \<Rightarrow> bytes" where
  "be_canonical v = (if v = [] then [0] else drop (skip_zeros v 0) v)"

lemma be_canonical: "be_minimal (be_canonical v) \<and> be_val (be_canonical v) = be_val v"
  using skip_zeros_inv [of 0 v] by (auto simp: be_canonical_def be_minimal_def)

lemma encode_field_element_canonical: "encode_field_element X v = encode_base64url X (be_canonical v)"
  by (simp add: encode_field_element_def be_canonical_def Let_def)

text \<open>
  A field element read back from its text is its minimal big-endian form, of the same value: the
  loop that drops leading zeros keeps the number and leaves no leading zero but the digit zero itself.
\<close>

theorem field_element_roundtrip:
  assumes "base64_ok X"
  shows "\<exists>w. decode_field_element X (encode_field_element X v) = Inr w \<and>
    be_val w = be_val v \<and> be_minimal w"
  using be_canonical [of v]
  by (simp add: decode_field_element_def encode_field_element_canonical
    decode_base64url_encode [OF assms])

theorem field_element_roundtrip_witness:
  "\<exists>w. decode_field_element ref_crates (encode_field_element ref_crates [0, 0, 7]) = Inr w \<and>
    be_val w = be_val [0, 0, 7] \<and> be_minimal w"
  by (rule field_element_roundtrip [OF ref_crates_ok(1)])

text \<open>
  The text of a field element is canonical: two byte strings get the same text exactly when they
  stand for the same number.
\<close>

theorem encode_field_element_eq_iff:
  assumes "base64_ok X"
  shows "encode_field_element X v = encode_field_element X w \<longleftrightarrow> be_val v = be_val w"
  using be_canonical [of v] be_canonical [of w] be_minimal_unique
    base64_crate.enc_inj [OF assms, of "be_canonical v" "be_canonical w"]
  by (metis encode_base64url_def encode_field_element_canonical)

theorem encode_field_element_eq_iff_witness:
  "encode_field_element ref_crates [0, 5] = encode_field_element ref_crates [5]"
  using encode_field_element_eq_iff [OF ref_crates_ok(1), of "[0, 5]" "[5]"] by simp

end
