(* ===== verification/Ids.thy ===== *)
theory Ids
  imports Codecs
begin

text \<open>
  \<open>midnight-did-domain/src/ids.rs\<close>: the parse-on-construction identifier types. The inner string is
  private in the code, so a value exists only as the result of \<open>new\<close> (the \<open>Deserialize\<close>
  implementations call \<open>new\<close> too).
\<close>

section \<open>Definitions\<close>

datatype id_error =
    IdEmpty
  | MissingFragmentPrefix
  | BadFragmentChars
  | MissingDidFragment
  | InvalidDidUri string

datatype id_did_key = IdDidKey (id_did_key_str: string)
datatype fragment_id = FragmentId (fragment_id_str: string)
datatype service_id = ServiceId (service_id_str: string)

definition did_key_id_new :: "string \<Rightarrow> id_error + id_did_key" where
  "did_key_id_new s =
     (if trim s = [] then Inl IdEmpty
      else if \<not> starts_with s ''did:'' then Inl (InvalidDidUri s)
      else (case split_once (CHR ''#'') s of
              None \<Rightarrow> Inl MissingDidFragment
            | Some (a, f) \<Rightarrow> if f = [] then Inl MissingDidFragment else Inr (IdDidKey s)))"

definition did_key_id_fragment :: "id_did_key \<Rightarrow> string" where
  "did_key_id_fragment k =
     (case split_once (CHR ''#'') (id_did_key_str k) of Some (a, f) \<Rightarrow> f | None \<Rightarrow> [])"

definition fragment_id_new :: "string \<Rightarrow> id_error + fragment_id" where
  "fragment_id_new s =
     (if s = [] then Inl IdEmpty
      else if \<not> starts_with s ''#'' then Inl MissingFragmentPrefix
      else if length s = 1 then Inl IdEmpty
      else if has_ws_or_control (drop 1 s) then Inl BadFragmentChars
      else Inr (FragmentId s))"

definition service_id_new :: "string \<Rightarrow> id_error + service_id" where
  "service_id_new s = (if trim s = [] then Inl IdEmpty else Inr (ServiceId s))"

text \<open>\<open>Deserialize\<close>: read a JSON string, then \<open>new\<close>.\<close>

definition did_key_id_deserialize :: "json \<Rightarrow> id_did_key option" where
  "did_key_id_deserialize j =
     (case j of JString s \<Rightarrow> (case did_key_id_new s of Inr k \<Rightarrow> Some k | Inl _ \<Rightarrow> None) | _ \<Rightarrow> None)"

definition fragment_id_deserialize :: "json \<Rightarrow> fragment_id option" where
  "fragment_id_deserialize j =
     (case j of JString s \<Rightarrow> (case fragment_id_new s of Inr k \<Rightarrow> Some k | Inl _ \<Rightarrow> None) | _ \<Rightarrow> None)"

definition service_id_deserialize :: "json \<Rightarrow> service_id option" where
  "service_id_deserialize j =
     (case j of JString s \<Rightarrow> (case service_id_new s of Inr k \<Rightarrow> Some k | Inl _ \<Rightarrow> None) | _ \<Rightarrow> None)"

section \<open>Lemmas\<close>

lemma trim_starts_printable:
  assumes "printable a"
  shows "trim (a # s) \<noteq> []"
proof -
  have "trim_start (a # s) = a # s" by (rule trim_start_printable [OF assms])
  moreover have "trim_rev (t @ [a]) \<noteq> []" for t
  proof (induction t rule: trim_rev.induct)
    case (1 c b d t)
    then show ?case by simp
  next
    case (2 c b)
    then show ?case using assms by (auto simp: printable_def ws1_def ws2_def ws3_def)
  next
    case (3 c)
    then show ?case using assms by (auto simp: printable_def ws1_def ws2_def)
  next
    case 4
    then show ?case using assms by (auto simp: printable_def ws1_def)
  qed
  ultimately show ?thesis by (simp add: trim_def)
qed

lemma did_key_id_new_iff:
  "did_key_id_new s = Inr k \<longleftrightarrow>
     k = IdDidKey s \<and>
     (\<exists>a f. s = ''did:'' @ a @ CHR ''#'' # f \<and> CHR ''#'' \<notin> set a \<and> f \<noteq> [])"
proof (cases "starts_with s ''did:''")
  case True
  then obtain t where s: "s = ''did:'' @ t" by (auto simp: starts_with_iff)
  have trim: "trim s \<noteq> []"
    using trim_starts_printable [of "CHR ''d''"] by (simp add: s printable_def code_of_def)
  show ?thesis
  proof (cases "split_once (CHR ''#'') t")
    case None
    then have "did_key_id_new s = Inl MissingDidFragment"
      using trim True by (simp add: did_key_id_new_def s)
    with None show ?thesis by (auto simp: s split_once_None_iff)
  next
    case (Some p)
    obtain a f where p: "p = (a, f)" by force
    with Some have t: "t = a @ CHR ''#'' # f" "CHR ''#'' \<notin> set a"
      by (simp_all add: split_once_Some_iff)
    have new: "did_key_id_new s = (if f = [] then Inl MissingDidFragment else Inr (IdDidKey s))"
      using trim True Some by (simp add: did_key_id_new_def s p)
    have "f' = f" if "s = ''did:'' @ a' @ CHR ''#'' # f'" "CHR ''#'' \<notin> set a'" for a' f'
    proof -
      from that have "split_once (CHR ''#'') t = Some (a', f')" by (simp add: s split_once_Some_iff)
      with Some p show ?thesis by simp
    qed
    then show ?thesis using new t by (auto simp: s split: if_splits)
  qed
next
  case False
  then show ?thesis by (auto simp: did_key_id_new_def)
qed

lemma split_once_at_end:
  assumes "split_once c s = Some (a, [])" and "s = b @ c # f"
  shows "f = []"
proof (cases f rule: rev_cases)
  case (snoc ys y)
  from assms have "(b @ c # ys) @ [y] = a @ [c]" "c \<notin> set a"
    by (simp_all add: snoc split_once_Some_iff)
  then show ?thesis by (metis append1_eq_conv in_set_conv_decomp)
qed

lemma did_key_id_fragment_eq:
  "CHR ''#'' \<notin> set a \<Longrightarrow> did_key_id_fragment (IdDidKey (''did:'' @ a @ CHR ''#'' # f)) = f"
  using split_once_Some_iff [of "CHR ''#''" "''did:'' @ a @ CHR ''#'' # f" "''did:'' @ a" f]
  by (simp add: did_key_id_fragment_def)

lemma fragment_id_new_iff:
  "fragment_id_new s = Inr k \<longleftrightarrow>
     k = FragmentId s \<and> (\<exists>f. s = CHR ''#'' # f \<and> f \<noteq> [] \<and> \<not> has_ws_or_control f)"
  by (cases s) (auto simp: fragment_id_new_def)

lemma service_id_new_iff: "service_id_new s = Inr k \<longleftrightarrow> k = ServiceId s \<and> trim s \<noteq> []"
  by (auto simp: service_id_new_def)

text \<open>
  \<open>DidKeyId::new\<close> accepts exactly the strings \<open>did:...#f\<close> with a non-empty fragment, whatever
  follows the first \<open>#\<close>; the value keeps the string, and its \<open>fragment\<close> is what follows the first
  \<open>#\<close>, so it is never empty. A blank string is \<open>Empty\<close>, one without the \<open>did:\<close> scheme
  \<open>InvalidDidUri\<close>, any other refused one \<open>MissingDidFragment\<close>.
\<close>

theorem did_key_id_new_spec:
  "case did_key_id_new s of
     Inr k \<Rightarrow> id_did_key_str k = s \<and> did_key_id_fragment k \<noteq> [] \<and>
       (\<exists>a. s = ''did:'' @ a @ CHR ''#'' # did_key_id_fragment k \<and> CHR ''#'' \<notin> set a)
   | Inl IdEmpty \<Rightarrow> trim s = []
   | Inl (InvalidDidUri t) \<Rightarrow> t = s \<and> trim s \<noteq> [] \<and> \<not> starts_with s ''did:''
   | Inl MissingDidFragment \<Rightarrow> starts_with s ''did:'' \<and>
       \<not> (\<exists>a f. s = a @ CHR ''#'' # f \<and> f \<noteq> [])
   | Inl _ \<Rightarrow> False"
proof (cases "did_key_id_new s")
  case (Inr k)
  then obtain a f where k: "k = IdDidKey s" "s = ''did:'' @ a @ CHR ''#'' # f"
    "CHR ''#'' \<notin> set a" "f \<noteq> []"
    unfolding did_key_id_new_iff by blast
  then have "did_key_id_fragment k = f" using did_key_id_fragment_eq by blast
  with k show ?thesis unfolding Inr by auto
next
  case (Inl e)
  consider "trim s = []" | "trim s \<noteq> []" "\<not> starts_with s ''did:''"
    | "trim s \<noteq> []" "starts_with s ''did:''" by blast
  then show ?thesis
  proof cases
    case 3
    show ?thesis
    proof (cases "split_once (CHR ''#'') s")
      case None
      then have "CHR ''#'' \<notin> set s" by (simp add: split_once_None_iff)
      with 3 None show ?thesis by (auto simp: did_key_id_new_def)
    next
      case (Some p)
      then obtain a where "split_once (CHR ''#'') s = Some (a, [])" "e = MissingDidFragment"
        using 3 Inl by (cases p) (auto simp: did_key_id_new_def split: if_splits)
      then show ?thesis using 3 split_once_at_end [of "CHR ''#''" s a] by (auto simp: Inl)
    qed
  qed (simp_all add: did_key_id_new_def)
qed

end
