(* ===== verification/Serde_Wire.thy ===== *)
theory Serde_Wire
  imports Ref_Json
begin

text \<open>
  What the derived \<open>Serialize\<close> / \<open>Deserialize\<close> implementations of the runtime crate exchange with
  \<open>serde_json\<close>: the tree of values written by \<open>to_vec\<close>, fields in declaration order, and read by
  \<open>from_slice\<close>. The text form of a tree is \<open>serde_json\<close>'s: a parameter, with its documented law in
  the locale \<open>serde_wire\<close>. The helpers below are the documented reading of structs, tuples and
  externally tagged enums.
\<close>

section \<open>Values on the wire\<close>

datatype wire =
    WNull
  | WBool bool
  | WInt int
  | WFloat string
  | WStr string
  | WSeq "wire list"
  | WMap "(string \<times> wire) list"

text \<open>
  The trees \<open>to_vec\<close> can write and \<open>from_slice\<close> reads back: integers of at most 64 bits and a nesting
  depth of at most \<open>n\<close> (\<open>serde_json\<close> refuses input nested more than 128 deep). The reading of floats
  is not relied on.
\<close>

fun wire_ok :: "nat \<Rightarrow> wire \<Rightarrow> bool" where
  "wire_ok n WNull = True"
| "wire_ok n (WBool b) = True"
| "wire_ok n (WInt i) = (- (2 ^ 63) \<le> i \<and> i < 2 ^ 64)"
| "wire_ok n (WFloat s) = False"
| "wire_ok n (WStr s) = True"
| "wire_ok 0 (WSeq ws) = False"
| "wire_ok (Suc n) (WSeq ws) = list_all (wire_ok n) ws"
| "wire_ok 0 (WMap kvs) = False"
| "wire_ok (Suc n) (WMap kvs) = list_all (\<lambda>(k, w). wire_ok n w) kvs"

text \<open>
  \<open>wire_text bs\<close> is the text of the error of reading \<open>bs\<close>: it is only stored, never inspected.
\<close>

record serde =
  wire_to_vec :: "wire \<Rightarrow> bytes"
  wire_from_slice :: "bytes \<Rightarrow> wire option"
  wire_text :: "bytes \<Rightarrow> string"

locale serde_wire =
  fixes to_vec :: "wire \<Rightarrow> bytes" and from_slice :: "bytes \<Rightarrow> wire option"
  assumes from_to_vec: "wire_ok 100 w \<Longrightarrow> from_slice (to_vec w) = Some w"
begin

lemma to_vec_inj:
  "wire_ok 100 v \<Longrightarrow> wire_ok 100 w \<Longrightarrow> to_vec v = to_vec w \<Longrightarrow> v = w"
  by (metis from_to_vec option.inject)

end

abbreviation serde_ok :: "serde \<Rightarrow> bool" where
  "serde_ok S \<equiv> serde_wire (wire_to_vec S) (wire_from_slice S)"

section \<open>Reading structs, tuples and enums\<close>

text \<open>
  A struct is read from an object, whose unknown fields are skipped and whose known fields must be
  there exactly once, or from an array with one element per field. A tuple or fixed-size array is
  read from an array of that length.
\<close>

definition de_fields :: "string list \<Rightarrow> wire \<Rightarrow> wire list option" where
  "de_fields names w =
     (case w of
        WMap kvs \<Rightarrow>
          if distinct (filter (\<lambda>k. k \<in> set names) (map fst kvs))
          then those (map (map_of kvs) names) else None
      | WSeq ws \<Rightarrow> if length ws = length names then Some ws else None
      | _ \<Rightarrow> None)"

definition de_array :: "nat \<Rightarrow> wire \<Rightarrow> wire list option" where
  "de_array n w = (case w of WSeq ws \<Rightarrow> if length ws = n then Some ws else None | _ \<Rightarrow> None)"

text \<open>An enum value: the bare variant name, or an object with the name as its only key.\<close>

definition de_variant :: "wire \<Rightarrow> (string \<times> wire option) option" where
  "de_variant w =
     (case w of
        WStr s \<Rightarrow> Some (s, None)
      | WMap [(s, v)] \<Rightarrow> Some (s, Some v)
      | _ \<Rightarrow> None)"

definition de_unit :: "wire option \<Rightarrow> bool" where
  "de_unit v = (v = None \<or> v = Some WNull)"

text \<open>An enum of unit variants, from its table of names.\<close>

definition de_unit_enum :: "(string \<times> 'a) list \<Rightarrow> wire \<Rightarrow> 'a option" where
  "de_unit_enum tab w =
     (case de_variant w of
        None \<Rightarrow> None
      | Some (s, v) \<Rightarrow> if de_unit v then map_of tab s else None)"

definition de_string :: "wire \<Rightarrow> string option" where
  "de_string w = (case w of WStr s \<Rightarrow> Some s | _ \<Rightarrow> None)"

definition de_u8 :: "wire \<Rightarrow> u8 option" where
  "de_u8 w = (case w of WInt i \<Rightarrow> if 0 \<le> i \<and> i < 256 then Some (word_of_int i) else None | _ \<Rightarrow> None)"

definition ser_u8 :: "u8 \<Rightarrow> wire" where
  "ser_u8 b = WInt (uint b)"

lemma de_ser_u8 [simp]: "de_u8 (ser_u8 b) = Some b"
  using uint_lt2p [of b] by (simp add: de_u8_def ser_u8_def)

lemma wire_ok_u8 [simp]: "wire_ok n (ser_u8 b)"
  using uint_lt2p [of b] order_trans [OF _ uint_ge_0 [of b]] by (simp add: ser_u8_def)

lemma de_string_WStr [simp]: "de_string (WStr s) = Some s"
  by (simp add: de_string_def)

lemma de_fields_WMap:
  "distinct (map fst kvs) \<Longrightarrow> de_fields (map fst kvs) (WMap kvs) = Some (map snd kvs)"
proof -
  assume d: "distinct (map fst kvs)"
  then have "map (map_of kvs) (map fst kvs) = map (\<lambda>(k, v). Some v) kvs" by auto
  moreover have "those (map (\<lambda>(k, v). Some v) kvs) = Some (map snd kvs)"
    by (induction kvs) auto
  ultimately have "those (map (map_of kvs) (map fst kvs)) = Some (map snd kvs)" by (simp only:)
  then show ?thesis using distinct_filter [OF d] by (simp only: de_fields_def wire.case if_True)
qed

lemma de_variant_simps [simp]:
  "de_variant (WStr s) = Some (s, None)"
  "de_variant (WMap [(s, v)]) = Some (s, Some v)"
  by (simp_all add: de_variant_def)

lemma de_unit_simps [simp]: "de_unit None" "de_unit (Some WNull)" "\<not> de_unit (Some (WMap m))"
  by (simp_all add: de_unit_def)

lemma those_map_Some [simp]: "those (map (\<lambda>x. Some (f x)) xs) = Some (map f xs)"
  by (induction xs) auto

lemma those_Some_length: "those xs = Some ys \<Longrightarrow> length ys = length xs"
  by (induction xs arbitrary: ys) (auto split: option.splits)

section \<open>A reference serialiser\<close>

text \<open>
  A concrete pair of functions with the law: the tree is embedded in the JSON values of
  \<^verbatim>\<open>Ref_Json\<close> and printed there.
\<close>

fun emb :: "wire \<Rightarrow> json" where
  "emb WNull = JNull"
| "emb (WBool b) = JBool b"
| "emb (WInt i) = JArray [JString ''i'', JBool (i < 0), JString (show_nat (nat \<bar>i\<bar>))]"
| "emb (WFloat s) = JArray [JString ''f'', JString s]"
| "emb (WStr s) = JString s"
| "emb (WSeq ws) = JArray (JBool True # map emb ws)"
| "emb (WMap kvs) = JArray (JBool False # map (\<lambda>(k, w). JArray [JString k, emb w]) kvs)"

fun unemb :: "json \<Rightarrow> wire" and unemb_pair :: "json \<Rightarrow> string \<times> wire" where
  "unemb JNull = WNull"
| "unemb (JBool b) = WBool b"
| "unemb (JNumber s) = WNull"
| "unemb (JString s) = WStr s"
| "unemb (JArray (JBool True # vs)) = WSeq (map unemb vs)"
| "unemb (JArray (JBool False # vs)) = WMap (map unemb_pair vs)"
| "unemb (JArray [JString s, JBool neg, JString d]) =
     WInt (if neg then - int (read_nat d) else int (read_nat d))"
| "unemb (JArray [JString f, JString s]) = WFloat s"
| "unemb (JArray vs) = WNull"
| "unemb (JObject kvs) = WNull"
| "unemb_pair (JArray [JString k, v]) = (k, unemb v)"
| "unemb_pair v = ([], WNull)"

lemma unemb_emb: "unemb (emb w) = w"
proof (induction w rule: emb.induct)
  case (7 kvs)
  have "map (unemb_pair \<circ> (\<lambda>(k, w). JArray [JString k, emb w])) kvs = kvs"
    by (rule map_idI) (use 7 in fastforce)
  then show ?case by simp
qed (auto simp: read_show_nat intro!: map_idI)

lemma json_ok_emb: "json_ok (emb w)"
  by (induction w rule: emb.induct) (auto simp: list_all_iff)

definition text_bytes :: "string \<Rightarrow> bytes" where
  "text_bytes s = map (\<lambda>c. byte_of (code_of c)) s"

definition bytes_text :: "bytes \<Rightarrow> string" where
  "bytes_text bs = map (\<lambda>b. char_of (unat b)) bs"

lemma bytes_text_bytes: "bytes_text (text_bytes s) = s"
  by (simp add: bytes_text_def text_bytes_def o_def code_of_def)

definition ref_serde :: serde where
  "ref_serde =
     \<lparr>wire_to_vec = (\<lambda>w. text_bytes (json_show (emb w))),
      wire_from_slice = (\<lambda>bs. map_option unemb (json_read_all (bytes_text bs))),
      wire_text = (\<lambda>bs. ''invalid'')\<rparr>"

interpretation ref_serde: serde_wire "wire_to_vec ref_serde" "wire_from_slice ref_serde"
  by unfold_locales
    (simp add: ref_serde_def bytes_text_bytes json_read_all_ok [OF json_ok_emb] unemb_emb)

lemma ref_serde_ok [simp]: "serde_ok ref_serde"
  by (rule ref_serde.serde_wire_axioms)

end
