(* ===== verification/Uri.thy ===== *)
theory Uri
  imports Codecs
begin

text \<open>
  \<open>midnight-did-domain/src/uri.rs\<close>: best-effort RFC 3986 normalisation of \<open>http\<close>, \<open>https\<close>, \<open>ws\<close> and
  \<open>wss\<close> URIs, on strings and on every string inside a JSON value. The URL parser is the \<open>crates\<close>
  parameter.
\<close>

section \<open>Definitions\<close>

definition known_schemes :: "string list" where
  "known_schemes = [''http'', ''https'', ''ws'', ''wss'']"

definition is_default_port :: "string \<Rightarrow> u16 \<Rightarrow> bool" where
  "is_default_port scheme port \<longleftrightarrow>
     (scheme, port) \<in> {(''http'', 80), (''https'', 443), (''ws'', 80), (''wss'', 443)}"

text \<open>The loop of \<open>extract_scheme\<close>: \<open>idx\<close> is the position of the head of the rest.\<close>

fun scan_scheme :: "string \<Rightarrow> nat \<Rightarrow> string \<Rightarrow> string option" where
  "scan_scheme v idx [] = None"
| "scan_scheme v idx (b # bs) =
     (if b = CHR '':'' then Some (take idx v)
      else if \<not> (is_ascii_alphanumeric b \<or> b = CHR ''+'' \<or> b = CHR ''.'' \<or> b = CHR ''-'') then None
      else scan_scheme v (idx + 1) bs)"

definition extract_scheme :: "string \<Rightarrow> string option" where
  "extract_scheme v =
     (if v = [] \<or> \<not> is_ascii_alphabetic (v ! 0) then None else scan_scheme v 0 v)"

definition normalize_uri_string :: "crates \<Rightarrow> string \<Rightarrow> string" where
  "normalize_uri_string X v =
     (case extract_scheme v of
        None \<Rightarrow> v
      | Some scheme \<Rightarrow>
          if to_ascii_lowercase scheme \<notin> set known_schemes then v
          else (case url_parse X v of
             None \<Rightarrow> v
           | Some u \<Rightarrow>
               let protocol = to_ascii_lowercase (url_scheme u);
                   username = url_username u;
                   password = (case url_password u of Some p \<Rightarrow> p | None \<Rightarrow> []);
                   auth = (if username \<noteq> []
                           then (if password \<noteq> [] then username @ '':'' @ password @ ''@''
                                 else username @ ''@'')
                           else []);
                   hostname = (case url_host u of Some h \<Rightarrow> to_ascii_lowercase h | None \<Rightarrow> []);
                   port = (case url_port u of
                             Some p \<Rightarrow> if \<not> is_default_port protocol p
                                       then '':'' @ show_nat (unat p) else []
                           | None \<Rightarrow> []);
                   had_trailing_slash = ends_with v ''/'';
                   pathname = (if \<not> had_trailing_slash \<and> url_path u = ''/'' then [] else url_path u);
                   search = (case url_query u of Some q \<Rightarrow> ''?'' @ q | None \<Rightarrow> []);
                   hash = (case url_fragment u of Some f \<Rightarrow> ''#'' @ f | None \<Rightarrow> [])
               in protocol @ ''://'' @ auth @ hostname @ port @ pathname @ search @ hash))"

fun normalize_unknown :: "crates \<Rightarrow> json \<Rightarrow> json" where
  "normalize_unknown X (JString s) = JString (normalize_uri_string X s)"
| "normalize_unknown X (JArray items) = JArray (map (normalize_unknown X) items)"
| "normalize_unknown X (JObject m) = JObject (map (\<lambda>(k, v). (k, normalize_unknown X v)) m)"
| "normalize_unknown X other = other"

definition normalize_service_endpoint_value :: "crates \<Rightarrow> json \<Rightarrow> json" where
  "normalize_service_endpoint_value X e = normalize_unknown X e"

section \<open>Lemmas\<close>

definition scheme_char :: "char \<Rightarrow> bool" where
  "scheme_char b \<longleftrightarrow> is_ascii_alphanumeric b \<or> b = CHR ''+'' \<or> b = CHR ''.'' \<or> b = CHR ''-''"

lemma scheme_char_not_colon: "scheme_char b \<Longrightarrow> b \<noteq> CHR '':''"
  by (auto simp: scheme_char_def ascii_defs code_of_def)

lemma scan_scheme_iff:
  "scan_scheme (p @ t) (length p) t = Some s \<longleftrightarrow>
     (\<exists>q r. t = q @ CHR '':'' # r \<and> s = p @ q \<and> list_all scheme_char q)"
proof (induction t arbitrary: p)
  case (Cons b bs)
  have IH: "scan_scheme (p @ b # bs) (length p + 1) bs = Some s \<longleftrightarrow>
    (\<exists>q r. bs = q @ CHR '':'' # r \<and> s = p @ b # q \<and> list_all scheme_char q)"
    using Cons.IH [of "p @ [b]"] by simp
  show ?case
  proof (cases "b = CHR '':''")
    case True
    then show ?thesis
      by (auto simp: Cons_eq_append_conv dest: scheme_char_not_colon)
  next
    case False
    have "scan_scheme (p @ b # bs) (length p) (b # bs) =
      (if scheme_char b then scan_scheme (p @ b # bs) (length p + 1) bs else None)"
      using False by (simp add: scheme_char_def)
    then show ?thesis using False IH
      by (auto simp: Cons_eq_append_conv)
  qed
qed simp

text \<open>The scheme is the text before the first colon, of the RFC 3986 grammar.\<close>

lemma extract_scheme_iff:
  "extract_scheme v = Some s \<longleftrightarrow>
     (\<exists>r. v = s @ CHR '':'' # r) \<and> s \<noteq> [] \<and> is_ascii_alphabetic (hd s) \<and> list_all scheme_char s"
proof -
  have "scan_scheme v 0 v = Some s \<longleftrightarrow> (\<exists>r. v = s @ CHR '':'' # r \<and> list_all scheme_char s)"
    using scan_scheme_iff [of "[]" v s] by auto
  moreover have "\<not> is_ascii_alphabetic (CHR '':'')" by (simp add: ascii_defs code_of_def)
  ultimately show ?thesis unfolding extract_scheme_def
    by (cases s) (auto split: if_splits)
qed

lemma normalize_uri_no_scheme: "extract_scheme v = None \<Longrightarrow> normalize_uri_string X v = v"
  by (simp add: normalize_uri_string_def)

text \<open>The walk over a JSON value keeps its shape, so a value of the crate stays one.\<close>

lemma normalize_unknown_keys: "map fst (map (\<lambda>(k, v). (k, normalize_unknown X v)) m) = map fst m"
  by (simp add: case_prod_unfold)

lemma normalize_unknown_ok: "json_ok j \<Longrightarrow> json_ok (normalize_unknown X j)"
proof (induction X j rule: normalize_unknown.induct)
  case (3 X m)
  then show ?case
    by (auto simp: bt_keys_sorted_def list_all_iff case_prod_unfold comp_def)
qed (auto simp: list_all_iff)

lemma normalize_unknown_within: "json_within n (normalize_unknown X j) = json_within n j"
proof (induction X j arbitrary: n rule: normalize_unknown.induct)
  case (2 X items)
  then show ?case by (auto simp: list_all_iff)
next
  case (3 X m)
  then show ?case by (fastforce simp: list_all_iff)
qed auto

text \<open>
  URI normalisation changes nothing but URIs of the four network schemes: any other text is
  returned unchanged, and so is one the URL parser refuses.
\<close>

theorem normalize_uri_only_network:
  "normalize_uri_string X v = v \<or>
   (\<exists>s r u. v = s @ CHR '':'' # r \<and> to_ascii_lowercase s \<in> set known_schemes \<and>
      url_parse X v = Some u \<and>
      starts_with (normalize_uri_string X v) (to_ascii_lowercase (url_scheme u) @ ''://''))"
proof (cases "extract_scheme v")
  case (Some s)
  then obtain r where v: "v = s @ CHR '':'' # r" unfolding extract_scheme_iff by blast
  show ?thesis
  proof (cases "to_ascii_lowercase s \<in> set known_schemes \<and> url_parse X v \<noteq> None")
    case True
    then obtain u where u: "url_parse X v = Some u" by auto
    have "starts_with (normalize_uri_string X v) (to_ascii_lowercase (url_scheme u) @ ''://'')"
      using True by (auto simp: normalize_uri_string_def Some u Let_def starts_with_iff)
    with v u True show ?thesis by blast
  qed (auto simp: normalize_uri_string_def Some)
qed (simp add: normalize_uri_no_scheme)

end
