(* ===== verification/Did_Types.thy ===== *)
theory Did_Types
  imports Uri
begin

text \<open>
  The first half of \<open>midnight-did-domain/src/did_document.rs\<close>: validation issues, the DID string
  types, the verification-method vocabulary and the public-key JWK with its profile checks.
\<close>

section \<open>Validation primitives\<close>

record validation_issue =
  vi_message :: string
  vi_path :: "string list"

definition issue_new :: "string \<Rightarrow> validation_issue" where
  "issue_new m = \<lparr>vi_message = m, vi_path = []\<rparr>"

definition issue_at :: "string \<Rightarrow> string list \<Rightarrow> validation_issue" where
  "issue_at m p = \<lparr>vi_message = m, vi_path = p\<rparr>"

record validation_error =
  ve_summary :: string
  ve_issues :: "validation_issue list"

definition from_issues :: "validation_issue list \<Rightarrow> validation_error" where
  "from_issues issues =
     \<lparr>ve_summary = join_with ''; ''
        (map (\<lambda>i. if vi_path i = [] then vi_message i
                  else vi_message i @ '' at '' @ join_with ''.'' (vi_path i)) issues),
      ve_issues = issues\<rparr>"

text \<open>The shape every validator ends with: \<open>Ok\<close> when no issue was collected.\<close>

definition issues_result :: "validation_issue list \<Rightarrow> 'a \<Rightarrow> validation_error + 'a" where
  "issues_result issues v = (if issues = [] then Inr v else Inl (from_issues issues))"

lemma issues_result_Inr [result_simps]: "issues_result is v = Inr w \<longleftrightarrow> is = [] \<and> v = w"
  by (simp add: issues_result_def)

section \<open>DID strings\<close>

datatype did_url = DidUrl (did_url_str: string)
datatype relative_url = RelativeUrl (relative_url_str: string)
datatype did_string = DidString (did_string_str: string)
datatype did_key_id = DidKeyId (did_key_id_str: string)

definition uri_scheme_prefix_chars :: string where
  "uri_scheme_prefix_chars = ''abcdefghijklmnopqrstuvwxyzABCDEFGHIJKLMNOPQRSTUVWXYZ''"

definition uri_scheme_inner_chars :: string where
  "uri_scheme_inner_chars = ''abcdefghijklmnopqrstuvwxyzABCDEFGHIJKLMNOPQRSTUVWXYZ0123456789+.-''"

text \<open>The loop over the bytes after the first; it runs at indices \<open>\<ge> 1\<close>, so \<open>idx > 0\<close> holds.\<close>

fun scan_uri_scheme :: "string \<Rightarrow> bool" where
  "scan_uri_scheme [] = False"
| "scan_uri_scheme (b # bs) =
     (if b = CHR '':'' then True
      else if b \<notin> set uri_scheme_inner_chars then False
      else scan_uri_scheme bs)"

definition has_uri_scheme :: "string \<Rightarrow> bool" where
  "has_uri_scheme v =
     (case v of [] \<Rightarrow> False
      | b # bs \<Rightarrow> if b \<notin> set uri_scheme_prefix_chars then False else scan_uri_scheme bs)"

definition is_relative_reference :: "crates \<Rightarrow> string \<Rightarrow> bool" where
  "is_relative_reference X v =
     (if v = [] then False
      else if trim v \<noteq> v then False
      else if has_uri_scheme v then False
      else if starts_with v ''//'' then False
      else (case url_parse X ''https://example.org/'' of
              None \<Rightarrow> False | Some base \<Rightarrow> url_join X base v \<noteq> None))"

definition key_fragment_char :: "char \<Rightarrow> bool" where
  "key_fragment_char c \<longleftrightarrow> is_ascii_alphanumeric c \<or>
     c = CHR ''.'' \<or> c = CHR ''-'' \<or> c = CHR ''_'' \<or> c = CHR '':'' \<or> c = CHR ''%''"

definition is_key_fragment :: "string \<Rightarrow> bool" where
  "is_key_fragment v \<longleftrightarrow> v \<noteq> [] \<and> list_all key_fragment_char v"

definition extract_key_fragment :: "string \<Rightarrow> string" where
  "extract_key_fragment v =
     (case strip_prefix ''#'' v of
        Some rest \<Rightarrow> rest
      | None \<Rightarrow>
          if starts_with v ''did:''
          then (case find_char (CHR ''#'') v of Some idx \<Rightarrow> drop (idx + 1) v | None \<Rightarrow> [])
          else v)"

definition is_did_url :: "string \<Rightarrow> bool" where
  "is_did_url v \<longleftrightarrow>
     starts_with v ''did:'' \<and> 5 \<le> length v \<and> 3 \<le> length (split_on (CHR '':'') v)"

definition is_did_string :: "string \<Rightarrow> bool" where
  "is_did_string v =
     (if \<not> starts_with v ''did:'' \<or> length v < 5 then False
      else if length (split_on (CHR '':'') v) < 3 then False
      else \<not> list_ex (\<lambda>c. c = CHR ''/'' \<or> c = CHR ''?'' \<or> c = CHR ''#'') v)"

definition is_did_key_id :: "crates \<Rightarrow> string \<Rightarrow> bool" where
  "is_did_key_id X v =
     (if \<not> (is_did_url v \<or> is_relative_reference X v) then False
      else is_key_fragment (extract_key_fragment v))"

definition did_url_parse :: "string \<Rightarrow> validation_error + did_url" where
  "did_url_parse s =
     (if \<not> is_did_url s then Inl (from_issues [issue_new ''Invalid DID URL format''])
      else Inr (DidUrl s))"

definition relative_url_parse :: "crates \<Rightarrow> string \<Rightarrow> validation_error + relative_url" where
  "relative_url_parse X s =
     (if \<not> is_relative_reference X s
      then Inl (from_issues [issue_new ''Relative URL must be relative to the DID subject''])
      else Inr (RelativeUrl s))"

definition did_string_parse :: "string \<Rightarrow> validation_error + did_string" where
  "did_string_parse s =
     (if \<not> is_did_string s then Inl (from_issues [issue_new ''Invalid DID format''])
      else Inr (DidString s))"

definition did_key_id_parse :: "crates \<Rightarrow> string \<Rightarrow> validation_error + did_key_id" where
  "did_key_id_parse X s =
     (if \<not> is_did_key_id X s
      then Inl (from_issues [issue_new ''Invalid DID Key ID format: invalid or missing fragment''])
      else Inr (DidKeyId s))"

definition parse_did_url :: "string \<Rightarrow> validation_error + did_url" where
  "parse_did_url input = did_url_parse input"

definition parse_did_key_id :: "crates \<Rightarrow> string \<Rightarrow> validation_error + did_key_id" where
  "parse_did_key_id X input = did_key_id_parse X input"

definition parse_did :: "string \<Rightarrow> validation_error + did_string" where
  "parse_did input = did_string_parse input"

section \<open>Verification-method vocabulary and JWKs\<close>

datatype verification_method_type = VMT_Undefined | JsonWebKey

datatype key_type = EC | RSA | oct | OKP

datatype curve_type = Ed25519 | X25519 | Jubjub | P256 | Secp256k1 | BLS12381G1 | BLS12381G2

datatype vm_relation =
    VMR_Undefined
  | Authentication
  | AssertionMethod
  | KeyAgreement
  | CapabilityInvocation
  | CapabilityDelegation

datatype jwk_coordinate = X_coord | Y_coord

fun public_key_jwk_coordinate_byte_length ::
    "key_type \<Rightarrow> curve_type \<Rightarrow> jwk_coordinate \<Rightarrow> nat option" where
  "public_key_jwk_coordinate_byte_length kty crv X_coord =
     (case crv of
        Ed25519 \<Rightarrow> Some 32 | X25519 \<Rightarrow> Some 32 | Jubjub \<Rightarrow> Some 32 | P256 \<Rightarrow> Some 32
      | Secp256k1 \<Rightarrow> Some 32
      | BLS12381G1 \<Rightarrow> if kty = OKP then Some 48 else None
      | BLS12381G2 \<Rightarrow> if kty = OKP then Some 96 else None)"
| "public_key_jwk_coordinate_byte_length kty crv Y_coord =
     (case kty of EC \<Rightarrow> Some 32 | _ \<Rightarrow> None)"

record public_key_jwk =
  jwk_kty :: key_type
  jwk_crv :: curve_type
  jwk_x :: string
  jwk_y :: "string option"
  jwk_extensions :: "(string, json) btree"

text \<open>\<open>NewPublicKeyJwk\<close> and \<open>PublicKeyJwkWire\<close> have the same fields and no validation.\<close>

record new_public_key_jwk =
  nj_kty :: key_type
  nj_crv :: curve_type
  nj_x :: string
  nj_y :: "string option"
  nj_extensions :: "(string, json) btree"

record public_key_jwk_wire =
  jw_kty :: key_type
  jw_crv :: curve_type
  jw_x :: string
  jw_y :: "string option"
  jw_extensions :: "(string, json) btree"

definition jwk_collect_issues :: "crates \<Rightarrow> public_key_jwk \<Rightarrow> validation_issue list" where
  "jwk_collect_issues X jwk =
     (if map_of (jwk_extensions jwk) ''d'' \<noteq> None
      then [issue_new ''publicKeyJwk must not include private key material''] else []) @
     (let okp_curves = jwk_crv jwk \<in> {Ed25519, X25519, BLS12381G1, BLS12381G2}
      in if jwk_kty jwk = OKP \<and> \<not> okp_curves
         then [issue_new ''OKP keys must use the Ed25519, X25519, BLS12381G1, or BLS12381G2 curve'']
         else []) @
     (let ec_curves = jwk_crv jwk \<in> {Jubjub, P256, Secp256k1}
      in if jwk_kty jwk = EC \<and> \<not> ec_curves
         then [issue_new ''EC keys must use Jubjub, P-256, or secp256k1 curve''] else []) @
     (case (jwk_kty jwk, jwk_y jwk \<noteq> None) of
        (OKP, True) \<Rightarrow> [issue_new ''OKP keys must not include a y coordinate'']
      | (EC, False) \<Rightarrow> [issue_new ''Non-OKP keys must include a y coordinate'']
      | (RSA, False) \<Rightarrow> [issue_new ''Non-OKP keys must include a y coordinate'']
      | (oct, False) \<Rightarrow> [issue_new ''Non-OKP keys must include a y coordinate'']
      | _ \<Rightarrow> []) @
     (case public_key_jwk_coordinate_byte_length (jwk_kty jwk) (jwk_crv jwk) X_coord of
        Some expected_x \<Rightarrow>
          if \<not> is_ok (decode_base64url_bytes X (jwk_x jwk) expected_x ''publicKeyJwk.x'')
          then [issue_new
            ''publicKeyJwk.x must be canonical base64url for the supported curve length'']
          else []
      | None \<Rightarrow> []) @
     (case jwk_y jwk of
        Some y \<Rightarrow>
          (case public_key_jwk_coordinate_byte_length (jwk_kty jwk) (jwk_crv jwk) Y_coord of
             Some expected_y \<Rightarrow>
               if \<not> is_ok (decode_base64url_bytes X y expected_y ''publicKeyJwk.y'')
               then [issue_new
                 ''publicKeyJwk.y must be canonical base64url for the supported curve length'']
               else []
           | None \<Rightarrow> [])
      | None \<Rightarrow> [])"

definition jwk_validate :: "crates \<Rightarrow> public_key_jwk \<Rightarrow> validation_error + unit" where
  "jwk_validate X jwk = issues_result (jwk_collect_issues X jwk) ()"

definition jwk_new :: "crates \<Rightarrow> new_public_key_jwk \<Rightarrow> validation_error + public_key_jwk" where
  "jwk_new X params =
     (let jwk = \<lparr>jwk_kty = nj_kty params, jwk_crv = nj_crv params, jwk_x = nj_x params,
                 jwk_y = nj_y params, jwk_extensions = nj_extensions params\<rparr>
      in res_bind (jwk_validate X jwk) (\<lambda>_. Inr jwk))"

text \<open>The gate of \<open>Deserialize\<close> (\<open>#[serde(try_from = "PublicKeyJwkWire")]\<close>).\<close>

definition jwk_try_from :: "crates \<Rightarrow> public_key_jwk_wire \<Rightarrow> validation_error + public_key_jwk" where
  "jwk_try_from X w =
     jwk_new X \<lparr>nj_kty = jw_kty w, nj_crv = jw_crv w, nj_x = jw_x w, nj_y = jw_y w,
                nj_extensions = jw_extensions w\<rparr>"

definition jwk_decode_x :: "crates \<Rightarrow> public_key_jwk \<Rightarrow> codec_error + bytes" where
  "jwk_decode_x X jwk =
     (let expected =
        (case public_key_jwk_coordinate_byte_length (jwk_kty jwk) (jwk_crv jwk) X_coord of
           Some n \<Rightarrow> n | None \<Rightarrow> length (jwk_x jwk))
      in decode_base64url_bytes X (jwk_x jwk) expected ''publicKeyJwk.x'')"

section \<open>Lemmas on DID strings\<close>

lemma scheme_chars:
  "c \<in> set uri_scheme_prefix_chars \<longleftrightarrow> is_ascii_alphabetic c"
  "c \<in> set uri_scheme_inner_chars \<longleftrightarrow> scheme_char c"
proof -
  have p: "uri_scheme_prefix_chars = map char_of ([97..<123] @ [65..<91])" by code_simp
  have i: "uri_scheme_inner_chars = map char_of ([97..<123] @ [65..<91] @ [48..<58] @ [43, 46, 45])"
    by code_simp
  have "c \<in> set (map char_of ([97..<123] @ [65..<91])) \<longleftrightarrow> code_of c \<in> set ([97..<123] @ [65..<91])"
    by (rule in_map_char_of) auto
  then show "c \<in> set uri_scheme_prefix_chars \<longleftrightarrow> is_ascii_alphabetic c"
    unfolding p set_append set_upt by (auto simp: ascii_defs)
  have mem: "c \<in> set (map char_of ([97..<123] @ [65..<91] @ [48..<58] @ [43, 46, 45])) \<longleftrightarrow>
    code_of c \<in> set ([97..<123] @ [65..<91] @ [48..<58] @ [43, 46, 45])"
    by (rule in_map_char_of) auto
  have eqs: "c = CHR ''+'' \<longleftrightarrow> code_of c = 43" "c = CHR ''.'' \<longleftrightarrow> code_of c = 46"
    "c = CHR ''-'' \<longleftrightarrow> code_of c = 45"
    using code_of_inject [of c "CHR ''+''"] code_of_inject [of c "CHR ''.''"]
      code_of_inject [of c "CHR ''-''"] by (simp_all add: code_of_def)
  show "c \<in> set uri_scheme_inner_chars \<longleftrightarrow> scheme_char c"
    unfolding i mem set_append set_upt scheme_char_def ascii_defs eqs by simp presburger
qed

lemma scan_uri_scheme_iff:
  "scan_uri_scheme t \<longleftrightarrow> (\<exists>q r. t = q @ CHR '':'' # r \<and> list_all scheme_char q)"
proof (induction t)
  case (Cons b bs)
  show ?case
  proof (cases "b = CHR '':''")
    case False
    have "scan_uri_scheme (b # bs) \<longleftrightarrow> scheme_char b \<and> scan_uri_scheme bs"
      using False by (simp add: scheme_chars)
    also have "\<dots> \<longleftrightarrow> (\<exists>q r. b # bs = q @ CHR '':'' # r \<and> list_all scheme_char q)"
    proof
      assume "scheme_char b \<and> scan_uri_scheme bs"
      then obtain q r where "b # bs = (b # q) @ CHR '':'' # r" "list_all scheme_char (b # q)"
        unfolding Cons.IH by auto
      then show "\<exists>q r. b # bs = q @ CHR '':'' # r \<and> list_all scheme_char q" by blast
    qed (use False Cons.IH in \<open>auto simp: Cons_eq_append_conv\<close>)
    finally show ?thesis .
  qed (auto simp: Cons_eq_append_conv)
qed simp

text \<open>The two scheme scanners of the crate (\<open>uri.rs\<close> and \<open>did_document.rs\<close>) agree.\<close>

lemma has_uri_scheme_extract: "has_uri_scheme v \<longleftrightarrow> extract_scheme v \<noteq> None"
proof -
  have alpha: "is_ascii_alphabetic b \<Longrightarrow> scheme_char b" for b
    by (simp add: scheme_char_def is_ascii_alphanumeric_def)
  have "has_uri_scheme v \<longleftrightarrow> (\<exists>s. extract_scheme v = Some s)"
  proof (cases v)
    case (Cons b bs)
    show ?thesis
    proof
      assume "has_uri_scheme v"
      then obtain q r where "is_ascii_alphabetic b" "bs = q @ CHR '':'' # r" "list_all scheme_char q"
        by (auto simp: has_uri_scheme_def Cons scheme_chars scan_uri_scheme_iff split: if_splits)
      then have "extract_scheme v = Some (b # q)" by (auto simp: extract_scheme_iff Cons alpha)
      then show "\<exists>s. extract_scheme v = Some s" ..
    next
      assume "\<exists>s. extract_scheme v = Some s"
      then obtain s r where s: "v = s @ CHR '':'' # r" "s \<noteq> []" "is_ascii_alphabetic (hd s)"
        "list_all scheme_char s" by (auto simp: extract_scheme_iff)
      then obtain q where "s = b # q" by (cases s) (auto simp: Cons)
      with s show "has_uri_scheme v"
        by (auto simp: has_uri_scheme_def Cons scheme_chars scan_uri_scheme_iff)
    qed
  qed (simp add: has_uri_scheme_def extract_scheme_def)
  then show ?thesis by auto
qed

lemma is_did_url_iff: "is_did_url v \<longleftrightarrow> (\<exists>m i. v = ''did:'' @ m @ CHR '':'' # i)"
proof (cases "starts_with v ''did:''")
  case True
  then obtain t where t: "v = ''did:'' @ t" by (auto simp: starts_with_iff)
  have "3 \<le> length (split_on (CHR '':'') v) \<longleftrightarrow> CHR '':'' \<in> set t"
    by (simp add: t length_split_on Suc_le_eq count_list_0_iff neq0_conv [symmetric] del: neq0_conv)
  moreover have "CHR '':'' \<in> set t \<Longrightarrow> 5 \<le> length v" by (cases t) (auto simp: t)
  ultimately show ?thesis by (auto simp: is_did_url_def t in_set_conv_decomp)
qed (auto simp: is_did_url_def)

lemma is_did_string_iff:
  "is_did_string v \<longleftrightarrow> is_did_url v \<and> CHR ''/'' \<notin> set v \<and> CHR ''?'' \<notin> set v \<and> CHR ''#'' \<notin> set v"
  by (auto simp: is_did_string_def is_did_url_def list_ex_iff)

lemma is_did_string_prefix: "is_did_string v \<Longrightarrow> starts_with v ''did:''"
  by (auto simp: is_did_string_iff is_did_url_def)

lemma did_string_parse_iff: "did_string_parse s = Inr d \<longleftrightarrow> d = DidString s \<and> is_did_string s"
  by (auto simp: did_string_parse_def)

lemma did_key_id_parse_iff: "did_key_id_parse X s = Inr d \<longleftrightarrow> d = DidKeyId s \<and> is_did_key_id X s"
  by (auto simp: did_key_id_parse_def)

text \<open>
  \<open>DidString::parse\<close> and \<open>DidUrl::parse\<close> accept exactly the strings \<open>did:<m>:<i>\<close>, the former only
  without path, query and fragment characters; \<open>m\<close> and \<open>i\<close> may be empty.
\<close>

theorem did_string_parse_grammar:
  "(did_url_parse s = Inr u \<longleftrightarrow> u = DidUrl s \<and> (\<exists>m i. s = ''did:'' @ m @ CHR '':'' # i)) \<and>
   (did_string_parse s = Inr d \<longleftrightarrow>
      d = DidString s \<and> (\<exists>m i. s = ''did:'' @ m @ CHR '':'' # i) \<and>
      CHR ''/'' \<notin> set s \<and> CHR ''?'' \<notin> set s \<and> CHR ''#'' \<notin> set s)"
  unfolding did_string_parse_iff is_did_string_iff is_did_url_iff [symmetric]
  by (auto simp: did_url_parse_def)

section \<open>Lemmas on JWKs\<close>

text \<open>The profile a valid JWK satisfies, read off the checks: one disjunct per key type.\<close>

definition canonical_b64 :: "crates \<Rightarrow> nat \<Rightarrow> string \<Rightarrow> bool" where
  "canonical_b64 X n s \<longleftrightarrow> (\<exists>bs. bs \<noteq> [] \<and> length bs = n \<and> s = encode_base64url X bs)"

definition jwk_profile :: "crates \<Rightarrow> public_key_jwk \<Rightarrow> bool" where
  "jwk_profile X jwk \<longleftrightarrow>
     map_of (jwk_extensions jwk) ''d'' = None \<and>
     (case jwk_kty jwk of
        OKP \<Rightarrow> jwk_y jwk = None \<and>
          (jwk_crv jwk \<in> {Ed25519, X25519} \<and> canonical_b64 X 32 (jwk_x jwk) \<or>
           jwk_crv jwk = BLS12381G1 \<and> canonical_b64 X 48 (jwk_x jwk) \<or>
           jwk_crv jwk = BLS12381G2 \<and> canonical_b64 X 96 (jwk_x jwk))
      | EC \<Rightarrow> jwk_crv jwk \<in> {Jubjub, P256, Secp256k1} \<and> canonical_b64 X 32 (jwk_x jwk) \<and>
          (\<exists>y. jwk_y jwk = Some y \<and> canonical_b64 X 32 y)
      | _ \<Rightarrow> jwk_y jwk \<noteq> None \<and>
          (jwk_crv jwk \<in> {BLS12381G1, BLS12381G2} \<or> canonical_b64 X 32 (jwk_x jwk)))"

lemma jwk_collect_issues_Nil:
  assumes "base64_ok X"
  shows "jwk_collect_issues X jwk = [] \<longleftrightarrow> jwk_profile X jwk"
proof -
  have b: "is_ok (decode_base64url_bytes X s n l) \<longleftrightarrow> canonical_b64 X n s" for s n l
    by (simp add: decode_base64url_bytes_is_ok [OF assms] canonical_b64_def)
  show ?thesis
    by (cases "jwk_kty jwk"; cases "jwk_crv jwk"; cases "jwk_y jwk")
      (simp_all add: jwk_collect_issues_def jwk_profile_def b)
qed

lemma jwk_validate_iff: "base64_ok X \<Longrightarrow> jwk_validate X jwk = Inr u \<longleftrightarrow> jwk_profile X jwk"
  by (simp add: jwk_validate_def result_simps jwk_collect_issues_Nil)

lemma jwk_new_iff:
  "base64_ok X \<Longrightarrow> jwk_new X p = Inr jwk \<longleftrightarrow>
     jwk = \<lparr>jwk_kty = nj_kty p, jwk_crv = nj_crv p, jwk_x = nj_x p, jwk_y = nj_y p,
            jwk_extensions = nj_extensions p\<rparr> \<and> jwk_profile X jwk"
  by (simp add: jwk_new_def Let_def result_simps jwk_validate_iff) metis

text \<open>
  \<open>PublicKeyJwk::new\<close>, the only way to a JWK (deserialisation goes through it), accepts exactly the
  profile of its key type: OKP without \<open>y\<close> on the four OKP curves with a 32, 48 or 96 byte \<open>x\<close>; EC
  on the three EC curves with 32-byte coordinates; never a private \<open>d\<close>. RSA and \<open>oct\<close> keys need only a
  \<open>y\<close>, and a 32-byte \<open>x\<close> off the BLS curves.
\<close>

theorem jwk_new_exact:
  assumes "base64_ok X"
  shows "(is_ok (jwk_new X p) \<longleftrightarrow>
      jwk_profile X \<lparr>jwk_kty = nj_kty p, jwk_crv = nj_crv p, jwk_x = nj_x p, jwk_y = nj_y p,
                     jwk_extensions = nj_extensions p\<rparr>) \<and>
    (\<forall>w jwk. jwk_try_from X w = Inr jwk \<longrightarrow> jwk_profile X jwk \<and> jwk_x jwk = jw_x w)"
  by (auto simp: is_ok_iff jwk_new_iff [OF assms] jwk_try_from_def)

theorem jwk_new_exact_witness:
  "\<not> is_ok (jwk_new ref_crates \<lparr>nj_kty = OKP, nj_crv = P256, nj_x = [], nj_y = None, nj_extensions = []\<rparr>)"
  using jwk_new_exact [OF ref_crates_ok(1),
    of "\<lparr>nj_kty = OKP, nj_crv = P256, nj_x = [], nj_y = None, nj_extensions = []\<rparr>"]
  by (simp add: jwk_profile_def)

text \<open>
  The \<open>x\<close> coordinate of a validated EC or OKP key decodes, to exactly the number of bytes of its
  curve.
\<close>

theorem jwk_decode_x_total:
  assumes "base64_ok X" and "jwk_new X p = Inr jwk" and "jwk_kty jwk = EC \<or> jwk_kty jwk = OKP"
  shows "\<exists>bs. jwk_decode_x X jwk = Inr bs \<and>
    public_key_jwk_coordinate_byte_length (jwk_kty jwk) (jwk_crv jwk) X_coord = Some (length bs)"
proof -
  from assms(1,2) have "jwk_profile X jwk" using jwk_new_iff by metis
  with assms(3) show ?thesis
    by (cases "jwk_crv jwk")
      (auto simp: jwk_profile_def canonical_b64_def jwk_decode_x_def
        decode_base64url_bytes_Inr [OF assms(1)])
qed

theorem jwk_decode_x_total_witness:
  "\<exists>p jwk bs. jwk_new ref_crates p = Inr jwk \<and> jwk_decode_x ref_crates jwk = Inr bs \<and> length bs = 32"
proof -
  let ?x = "encode_base64url ref_crates (replicate 32 7)"
  let ?p = "\<lparr>nj_kty = OKP, nj_crv = Ed25519, nj_x = ?x, nj_y = None, nj_extensions = []\<rparr>"
  let ?j = "\<lparr>jwk_kty = OKP, jwk_crv = Ed25519, jwk_x = ?x, jwk_y = None, jwk_extensions = []\<rparr>"
  have "canonical_b64 ref_crates 32 ?x"
    unfolding canonical_b64_def by (intro exI [of _ "replicate 32 7"]) simp
  then have new: "jwk_new ref_crates ?p = Inr ?j"
    by (simp add: jwk_new_iff [OF ref_crates_ok(1)] jwk_profile_def)
  from jwk_decode_x_total [OF ref_crates_ok(1) new] show ?thesis using new by auto
qed

end
