(* ===== verification/Contract_Call.thy ===== *)
theory Contract_Call
  imports Serde_Wire Did_Types
begin

text \<open>
  \<open>midnight-did-runtime/src/contract_call.rs\<close>: the ledger-shaped values, their validating
  constructors, the ledger snapshot, and the typed call envelope with its wire format. The types with
  private fields in the code (\<open>JubjubPointHex\<close>, \<open>SchnorrJubjubDigest\<close>, \<open>SchnorrJubjubSignature\<close>) have
  their constructor as a definition, and \<open>call_ok\<close> says that the values inside a call went through it.
\<close>

section \<open>Hexadecimal gates\<close>

text \<open>The reason text of \<open>NotHex\<close> is kept as the number it is formatted from.\<close>

datatype hex_reason = OddLength nat | NonHexCharacter nat

datatype rt_validation_error =
    Empty string
  | NotHex string hex_reason
  | WrongByteLength string nat nat

text \<open>
  The loop of \<open>validate_hex\<close> from index \<open>idx\<close> on. It stops at the first character that is not a hex
  digit; everything before is ASCII, so the index in characters is the index in bytes.
\<close>

fun scan_hex :: "string \<Rightarrow> nat \<Rightarrow> string \<Rightarrow> rt_validation_error + unit" where
  "scan_hex field idx [] = Inr ()"
| "scan_hex field idx (c # cs) =
     (if \<not> is_ascii_hexdigit c then Inl (NotHex field (NonHexCharacter idx))
      else scan_hex field (Suc idx) cs)"

definition validate_hex :: "string \<Rightarrow> string \<Rightarrow> rt_validation_error + nat" where
  "validate_hex s field =
     (if s = [] then Inl (Empty field)
      else if length s mod 2 \<noteq> 0 then Inl (NotHex field (OddLength (length s)))
      else res_bind (scan_hex field 0 s) (\<lambda>_. Inr (length s div 2)))"

definition validate_hex_exact :: "string \<Rightarrow> nat \<Rightarrow> string \<Rightarrow> rt_validation_error + unit" where
  "validate_hex_exact s expected_bytes field =
     res_bind (validate_hex s field) (\<lambda>actual.
       if actual \<noteq> expected_bytes then Inl (WrongByteLength field expected_bytes actual)
       else Inr ())"

definition jubjub_coordinate_bytes :: nat where
  "jubjub_coordinate_bytes = 32"

section \<open>Ledger-shaped values\<close>

datatype map_mutation = MapInsert | MapUpdate
datatype set_mutation = SetInsert | SetRemove

datatype ledger_relation =
    LR_Undefined
  | LR_Authentication
  | LR_AssertionMethod
  | LR_KeyAgreement
  | LR_CapabilityInvocation
  | LR_CapabilityDelegation

record ledger_public_key_jwk =
  lj_kty :: key_type
  lj_crv :: curve_type
  lj_x :: string
  lj_y :: string

record ledger_verification_method =
  lvm_id :: string
  lvm_typ :: verification_method_type
  lvm_public_key_jwk :: ledger_public_key_jwk

record jubjub_point_hex =
  jp_x :: string
  jp_y :: string

definition jubjub_point_new :: "string \<Rightarrow> string \<Rightarrow> rt_validation_error + jubjub_point_hex" where
  "jubjub_point_new x y =
     res_bind (validate_hex_exact x jubjub_coordinate_bytes ''JubjubPointHex.x'') (\<lambda>_.
     res_bind (validate_hex_exact y jubjub_coordinate_bytes ''JubjubPointHex.y'') (\<lambda>_.
       Inr \<lparr>jp_x = x, jp_y = y\<rparr>))"

record ledger_schnorr_verification_method =
  lsv_id :: string
  lsv_public_key :: jubjub_point_hex

record ledger_service =
  ls_id :: string
  ls_typ :: string
  ls_service_endpoint :: string

text \<open>\<open>[String; 4]\<close> is a quadruple.\<close>

type_synonym limbs = "string \<times> string \<times> string \<times> string"

datatype schnorr_digest = SchnorrJubjubDigest (digest_limbs: limbs)

fun limb_list :: "limbs \<Rightarrow> string list" where
  "limb_list (a, b, c, d) = [a, b, c, d]"

definition limb_field :: "nat \<Rightarrow> string" where
  "limb_field idx =
     (if idx = 0 then ''SchnorrJubjubDigest[0]''
      else if idx = 1 then ''SchnorrJubjubDigest[1]''
      else if idx = 2 then ''SchnorrJubjubDigest[2]''
      else ''SchnorrJubjubDigest[3]'')"

definition digest_new :: "limbs \<Rightarrow> rt_validation_error + schnorr_digest" where
  "digest_new ls =
     res_bind
       (check_each (\<lambda>(idx, limb). validate_hex_exact limb jubjub_coordinate_bytes (limb_field idx))
          (enumerate 0 (limb_list ls)))
       (\<lambda>_. Inr (SchnorrJubjubDigest ls))"

datatype schnorr_signature = SchnorrJubjubSignature (bytes_hex: string)

definition schnorr_signature_bytes :: nat where
  "schnorr_signature_bytes = 96"

definition signature_new :: "string \<Rightarrow> rt_validation_error + schnorr_signature" where
  "signature_new s =
     res_bind (validate_hex_exact s schnorr_signature_bytes ''SchnorrJubjubSignature.bytes_hex'')
       (\<lambda>_. Inr (SchnorrJubjubSignature s))"

section \<open>The ledger snapshot\<close>

record did_ledger_snapshot =
  id_hex :: string
  active :: bool
  deactivated :: bool
  controller_public_key_hex :: string
  snap_version :: u64
  operation_count :: u64
  contract_version :: u64
  created_ms :: u64
  updated_ms :: u64
  also_known_as :: "string list"
  verification_methods :: "(string, ledger_verification_method) btree"
  schnorr_jubjub_verification_methods :: "(string, ledger_schnorr_verification_method) btree"
  authentication_relation :: "string list"
  assertion_method_relation :: "string list"
  key_agreement_relation :: "string list"
  capability_invocation_relation :: "string list"
  capability_delegation_relation :: "string list"
  services :: "(string, ledger_service) btree"

text \<open>\<open>DidLedgerSnapshot::default()\<close>.\<close>

definition snapshot_default :: did_ledger_snapshot where
  "snapshot_default =
     \<lparr>id_hex = [], active = False, deactivated = False, controller_public_key_hex = [],
      snap_version = 0, operation_count = 0, contract_version = 0, created_ms = 0, updated_ms = 0,
      also_known_as = [], verification_methods = [], schnorr_jubjub_verification_methods = [],
      authentication_relation = [], assertion_method_relation = [], key_agreement_relation = [],
      capability_invocation_relation = [], capability_delegation_relation = [], services = []\<rparr>"

fun relation_set :: "did_ledger_snapshot \<Rightarrow> ledger_relation \<Rightarrow> string list option" where
  "relation_set s LR_Undefined = None"
| "relation_set s LR_Authentication = Some (authentication_relation s)"
| "relation_set s LR_AssertionMethod = Some (assertion_method_relation s)"
| "relation_set s LR_KeyAgreement = Some (key_agreement_relation s)"
| "relation_set s LR_CapabilityInvocation = Some (capability_invocation_relation s)"
| "relation_set s LR_CapabilityDelegation = Some (capability_delegation_relation s)"

definition relation_contains :: "did_ledger_snapshot \<Rightarrow> ledger_relation \<Rightarrow> string \<Rightarrow> bool" where
  "relation_contains s r m =
     (case relation_set s r of None \<Rightarrow> False | Some members \<Rightarrow> m \<in> set members)"

section \<open>The call envelope\<close>

datatype did_contract_call =
    ReadLedger
  | RotateControllerKey bytes
  | RecoverControllerKey bytes
  | SetVerificationMethod ledger_verification_method map_mutation
  | RemoveVerificationMethod string
  | SetSchnorrJubjubVerificationMethod ledger_schnorr_verification_method map_mutation
  | RemoveSchnorrJubjubVerificationMethod string
  | VerifySchnorrJubjubDigestSignature string schnorr_digest schnorr_signature
  | SetVerificationMethodRelation ledger_relation string set_mutation
  | SetService ledger_service map_mutation
  | RemoveService string
  | SetAlsoKnownAs string set_mutation
  | Deactivate

datatype backend_error =
    Network string
  | Decode string
  | ReadOnly
  | Other string

text \<open>
  The derived serialisation: a struct is an object of its fields in declaration order, a unit variant
  its name, a struct variant an object with the variant's name as its key. The curves have serde
  names of their own.
\<close>

definition key_type_names :: "(string \<times> key_type) list" where
  "key_type_names = [(''EC'', EC), (''RSA'', RSA), (''oct'', oct), (''OKP'', OKP)]"

definition curve_type_names :: "(string \<times> curve_type) list" where
  "curve_type_names =
     [(''Ed25519'', Ed25519), (''X25519'', X25519), (''Jubjub'', Jubjub), (''P-256'', P256),
      (''secp256k1'', Secp256k1), (''BLS12381G1'', BLS12381G1), (''BLS12381G2'', BLS12381G2)]"

definition vm_type_names :: "(string \<times> verification_method_type) list" where
  "vm_type_names = [(''Undefined'', VMT_Undefined), (''JsonWebKey'', JsonWebKey)]"

definition map_mutation_names :: "(string \<times> map_mutation) list" where
  "map_mutation_names = [(''Insert'', MapInsert), (''Update'', MapUpdate)]"

definition set_mutation_names :: "(string \<times> set_mutation) list" where
  "set_mutation_names = [(''Insert'', SetInsert), (''Remove'', SetRemove)]"

definition relation_names :: "(string \<times> ledger_relation) list" where
  "relation_names =
     [(''Undefined'', LR_Undefined), (''Authentication'', LR_Authentication),
      (''AssertionMethod'', LR_AssertionMethod), (''KeyAgreement'', LR_KeyAgreement),
      (''CapabilityInvocation'', LR_CapabilityInvocation),
      (''CapabilityDelegation'', LR_CapabilityDelegation)]"

definition ser_unit_enum :: "(string \<times> 'a) list \<Rightarrow> 'a \<Rightarrow> wire" where
  "ser_unit_enum tab v =
     WStr (case map_of (map (\<lambda>(s, a). (a, s)) tab) v of Some s \<Rightarrow> s | None \<Rightarrow> [])"

definition ser_jwk :: "ledger_public_key_jwk \<Rightarrow> wire" where
  "ser_jwk j = WMap [(''kty'', ser_unit_enum key_type_names (lj_kty j)),
     (''crv'', ser_unit_enum curve_type_names (lj_crv j)), (''x'', WStr (lj_x j)), (''y'', WStr (lj_y j))]"

definition ser_vm :: "ledger_verification_method \<Rightarrow> wire" where
  "ser_vm m = WMap [(''id'', WStr (lvm_id m)), (''typ'', ser_unit_enum vm_type_names (lvm_typ m)),
     (''public_key_jwk'', ser_jwk (lvm_public_key_jwk m))]"

definition ser_point :: "jubjub_point_hex \<Rightarrow> wire" where
  "ser_point p = WMap [(''x'', WStr (jp_x p)), (''y'', WStr (jp_y p))]"

definition ser_schnorr_vm :: "ledger_schnorr_verification_method \<Rightarrow> wire" where
  "ser_schnorr_vm m = WMap [(''id'', WStr (lsv_id m)), (''public_key'', ser_point (lsv_public_key m))]"

definition ser_service :: "ledger_service \<Rightarrow> wire" where
  "ser_service s = WMap [(''id'', WStr (ls_id s)), (''typ'', WStr (ls_typ s)),
     (''service_endpoint'', WStr (ls_service_endpoint s))]"

definition ser_digest :: "schnorr_digest \<Rightarrow> wire" where
  "ser_digest d = WSeq (map WStr (limb_list (digest_limbs d)))"

definition ser_signature :: "schnorr_signature \<Rightarrow> wire" where
  "ser_signature s = WMap [(''bytes_hex'', WStr (bytes_hex s))]"

abbreviation ser_map_mutation :: "map_mutation \<Rightarrow> wire" where
  "ser_map_mutation \<equiv> ser_unit_enum map_mutation_names"

abbreviation ser_set_mutation :: "set_mutation \<Rightarrow> wire" where
  "ser_set_mutation \<equiv> ser_unit_enum set_mutation_names"

fun ser_call :: "did_contract_call \<Rightarrow> wire" where
  "ser_call ReadLedger = WStr ''ReadLedger''"
| "ser_call (RotateControllerKey pk) =
     WMap [(''RotateControllerKey'', WMap [(''new_public_key'', WSeq (map ser_u8 pk))])]"
| "ser_call (RecoverControllerKey pk) =
     WMap [(''RecoverControllerKey'', WMap [(''new_public_key'', WSeq (map ser_u8 pk))])]"
| "ser_call (SetVerificationMethod m mu) =
     WMap [(''SetVerificationMethod'',
       WMap [(''method'', ser_vm m), (''mutation'', ser_map_mutation mu)])]"
| "ser_call (RemoveVerificationMethod i) =
     WMap [(''RemoveVerificationMethod'', WMap [(''method_id'', WStr i)])]"
| "ser_call (SetSchnorrJubjubVerificationMethod m mu) =
     WMap [(''SetSchnorrJubjubVerificationMethod'',
       WMap [(''method'', ser_schnorr_vm m), (''mutation'', ser_map_mutation mu)])]"
| "ser_call (RemoveSchnorrJubjubVerificationMethod i) =
     WMap [(''RemoveSchnorrJubjubVerificationMethod'', WMap [(''method_id'', WStr i)])]"
| "ser_call (VerifySchnorrJubjubDigestSignature i d s) =
     WMap [(''VerifySchnorrJubjubDigestSignature'',
       WMap [(''method_id'', WStr i), (''digest'', ser_digest d), (''signature'', ser_signature s)])]"
| "ser_call (SetVerificationMethodRelation r i mu) =
     WMap [(''SetVerificationMethodRelation'',
       WMap [(''relation'', ser_unit_enum relation_names r), (''method_id'', WStr i),
         (''mutation'', ser_set_mutation mu)])]"
| "ser_call (SetService s mu) =
     WMap [(''SetService'', WMap [(''service'', ser_service s), (''mutation'', ser_map_mutation mu)])]"
| "ser_call (RemoveService i) = WMap [(''RemoveService'', WMap [(''service_id'', WStr i)])]"
| "ser_call (SetAlsoKnownAs a mu) =
     WMap [(''SetAlsoKnownAs'', WMap [(''alias_uri'', WStr a), (''mutation'', ser_set_mutation mu)])]"
| "ser_call Deactivate = WStr ''Deactivate''"

text \<open>
  The derived reading, with the gates: \<open>try_from\<close> of the point and of the signature, and the
  hand-written \<open>Deserialize\<close> of the digest, all go through \<open>new\<close>.
\<close>

definition ok_opt :: "'e + 'a \<Rightarrow> 'a option" where
  "ok_opt r = (case r of Inr a \<Rightarrow> Some a | Inl _ \<Rightarrow> None)"

definition de_jwk :: "wire \<Rightarrow> ledger_public_key_jwk option" where
  "de_jwk w =
     (case de_fields [''kty'', ''crv'', ''x'', ''y''] w of
        Some [k, c, x, y] \<Rightarrow>
          Option.bind (de_unit_enum key_type_names k) (\<lambda>k.
          Option.bind (de_unit_enum curve_type_names c) (\<lambda>c.
          Option.bind (de_string x) (\<lambda>x.
          Option.bind (de_string y) (\<lambda>y.
            Some \<lparr>lj_kty = k, lj_crv = c, lj_x = x, lj_y = y\<rparr>))))
      | _ \<Rightarrow> None)"

definition de_vm :: "wire \<Rightarrow> ledger_verification_method option" where
  "de_vm w =
     (case de_fields [''id'', ''typ'', ''public_key_jwk''] w of
        Some [i, t, j] \<Rightarrow>
          Option.bind (de_string i) (\<lambda>i.
          Option.bind (de_unit_enum vm_type_names t) (\<lambda>t.
          Option.bind (de_jwk j) (\<lambda>j.
            Some \<lparr>lvm_id = i, lvm_typ = t, lvm_public_key_jwk = j\<rparr>)))
      | _ \<Rightarrow> None)"

definition de_point :: "wire \<Rightarrow> jubjub_point_hex option" where
  "de_point w =
     (case de_fields [''x'', ''y''] w of
        Some [x, y] \<Rightarrow>
          Option.bind (de_string x) (\<lambda>x.
          Option.bind (de_string y) (\<lambda>y. ok_opt (jubjub_point_new x y)))
      | _ \<Rightarrow> None)"

definition de_schnorr_vm :: "wire \<Rightarrow> ledger_schnorr_verification_method option" where
  "de_schnorr_vm w =
     (case de_fields [''id'', ''public_key''] w of
        Some [i, p] \<Rightarrow>
          Option.bind (de_string i) (\<lambda>i.
          Option.bind (de_point p) (\<lambda>p. Some \<lparr>lsv_id = i, lsv_public_key = p\<rparr>))
      | _ \<Rightarrow> None)"

definition de_service :: "wire \<Rightarrow> ledger_service option" where
  "de_service w =
     (case de_fields [''id'', ''typ'', ''service_endpoint''] w of
        Some [i, t, e] \<Rightarrow>
          Option.bind (de_string i) (\<lambda>i.
          Option.bind (de_string t) (\<lambda>t.
          Option.bind (de_string e) (\<lambda>e.
            Some \<lparr>ls_id = i, ls_typ = t, ls_service_endpoint = e\<rparr>)))
      | _ \<Rightarrow> None)"

definition de_digest :: "wire \<Rightarrow> schnorr_digest option" where
  "de_digest w =
     (case Option.bind (de_array 4 w) (\<lambda>ws. those (map de_string ws)) of
        Some [a, b, c, d] \<Rightarrow> ok_opt (digest_new (a, b, c, d))
      | _ \<Rightarrow> None)"

definition de_signature :: "wire \<Rightarrow> schnorr_signature option" where
  "de_signature w =
     (case de_fields [''bytes_hex''] w of
        Some [s] \<Rightarrow> Option.bind (de_string s) (\<lambda>s. ok_opt (signature_new s))
      | _ \<Rightarrow> None)"

definition de_key :: "wire \<Rightarrow> bytes option" where
  "de_key w = Option.bind (de_array 32 w) (\<lambda>ws. those (map de_u8 ws))"

text \<open>The struct variants by the shape of their fields.\<close>

definition de_one :: "string \<Rightarrow> (wire \<Rightarrow> 'a option) \<Rightarrow> ('a \<Rightarrow> 'c) \<Rightarrow> wire \<Rightarrow> 'c option" where
  "de_one a f k w =
     (case de_fields [a] w of
        Some [x] \<Rightarrow> Option.bind (f x) (\<lambda>x. Some (k x))
      | _ \<Rightarrow> None)"

definition de_two ::
    "string \<Rightarrow> (wire \<Rightarrow> 'a option) \<Rightarrow> string \<Rightarrow> (wire \<Rightarrow> 'b option) \<Rightarrow> ('a \<Rightarrow> 'b \<Rightarrow> 'c) \<Rightarrow> wire \<Rightarrow> 'c option" where
  "de_two a f b g k w =
     (case de_fields [a, b] w of
        Some [x, y] \<Rightarrow> Option.bind (f x) (\<lambda>x. Option.bind (g y) (\<lambda>y. Some (k x y)))
      | _ \<Rightarrow> None)"

definition de_three ::
    "string \<Rightarrow> (wire \<Rightarrow> 'a option) \<Rightarrow> string \<Rightarrow> (wire \<Rightarrow> 'b option) \<Rightarrow> string \<Rightarrow> (wire \<Rightarrow> 'd option) \<Rightarrow>
     ('a \<Rightarrow> 'b \<Rightarrow> 'd \<Rightarrow> 'c) \<Rightarrow> wire \<Rightarrow> 'c option" where
  "de_three a f b g c h k w =
     (case de_fields [a, b, c] w of
        Some [x, y, z] \<Rightarrow>
          Option.bind (f x) (\<lambda>x. Option.bind (g y) (\<lambda>y. Option.bind (h z) (\<lambda>z. Some (k x y z))))
      | _ \<Rightarrow> None)"

definition call_variants :: "(string \<times> (wire \<Rightarrow> did_contract_call option)) list" where
  "call_variants =
     [(''RotateControllerKey'', de_one ''new_public_key'' de_key RotateControllerKey),
      (''RecoverControllerKey'', de_one ''new_public_key'' de_key RecoverControllerKey),
      (''SetVerificationMethod'',
         de_two ''method'' de_vm ''mutation'' (de_unit_enum map_mutation_names) SetVerificationMethod),
      (''RemoveVerificationMethod'', de_one ''method_id'' de_string RemoveVerificationMethod),
      (''SetSchnorrJubjubVerificationMethod'',
         de_two ''method'' de_schnorr_vm ''mutation'' (de_unit_enum map_mutation_names)
           SetSchnorrJubjubVerificationMethod),
      (''RemoveSchnorrJubjubVerificationMethod'',
         de_one ''method_id'' de_string RemoveSchnorrJubjubVerificationMethod),
      (''VerifySchnorrJubjubDigestSignature'',
         de_three ''method_id'' de_string ''digest'' de_digest ''signature'' de_signature
           VerifySchnorrJubjubDigestSignature),
      (''SetVerificationMethodRelation'',
         de_three ''relation'' (de_unit_enum relation_names) ''method_id'' de_string
           ''mutation'' (de_unit_enum set_mutation_names) SetVerificationMethodRelation),
      (''SetService'',
         de_two ''service'' de_service ''mutation'' (de_unit_enum map_mutation_names) SetService),
      (''RemoveService'', de_one ''service_id'' de_string RemoveService),
      (''SetAlsoKnownAs'',
         de_two ''alias_uri'' de_string ''mutation'' (de_unit_enum set_mutation_names) SetAlsoKnownAs)]"

definition de_call :: "wire \<Rightarrow> did_contract_call option" where
  "de_call w =
     (case de_variant w of
        None \<Rightarrow> None
      | Some (s, v) \<Rightarrow>
          if s = ''ReadLedger'' then (if de_unit v then Some ReadLedger else None)
          else if s = ''Deactivate'' then (if de_unit v then Some Deactivate else None)
          else (case (map_of call_variants s, v) of
                  (Some f, Some c) \<Rightarrow> f c
                | _ \<Rightarrow> None))"

definition call_encode :: "serde \<Rightarrow> did_contract_call \<Rightarrow> bytes" where
  "call_encode S c = wire_to_vec S (ser_call c)"

definition call_decode :: "serde \<Rightarrow> bytes \<Rightarrow> backend_error + did_contract_call" where
  "call_decode S bs =
     ok_or (Decode (''DidContractCall: '' @ wire_text S bs))
       (Option.bind (wire_from_slice S bs) de_call)"

section \<open>The gates\<close>

text \<open>What the gates let through: \<open>n\<close> bytes of hexadecimal.\<close>

definition hex_text :: "nat \<Rightarrow> string \<Rightarrow> bool" where
  "hex_text n s = (s \<noteq> [] \<and> length s = 2 * n \<and> list_all is_ascii_hexdigit s)"

lemma scan_hex_Inr: "scan_hex f i s = Inr u \<longleftrightarrow> list_all is_ascii_hexdigit s"
  by (induction f i s rule: scan_hex.induct) simp_all

lemma validate_hex_Inr:
  "validate_hex s f = Inr n \<longleftrightarrow> hex_text n s"
  by (auto simp: validate_hex_def hex_text_def result_simps scan_hex_Inr)

lemma validate_hex_exact_Inr: "validate_hex_exact s n f = Inr () \<longleftrightarrow> hex_text n s"
  by (auto simp: validate_hex_exact_def result_simps validate_hex_Inr)

lemma jubjub_point_new_Inr:
  "jubjub_point_new x y = Inr p \<longleftrightarrow> hex_text 32 x \<and> hex_text 32 y \<and> p = \<lparr>jp_x = x, jp_y = y\<rparr>"
  by (auto simp: jubjub_point_new_def result_simps validate_hex_exact_Inr jubjub_coordinate_bytes_def)

lemma digest_new_Inr:
  "digest_new ls = Inr d \<longleftrightarrow> list_all (hex_text 32) (limb_list ls) \<and> d = SchnorrJubjubDigest ls"
  by (cases ls) (auto simp: digest_new_def result_simps validate_hex_exact_Inr
    jubjub_coordinate_bytes_def numeral_2_eq_2 numeral_3_eq_3)

lemma signature_new_Inr:
  "signature_new s = Inr g \<longleftrightarrow> hex_text 96 s \<and> g = SchnorrJubjubSignature s"
  by (auto simp: signature_new_def result_simps validate_hex_exact_Inr schnorr_signature_bytes_def)

text \<open>
  The values the types of the code can hold: a 32-byte key is a \<open>[u8; 32]\<close>, and the private fields
  went through the constructors.
\<close>

definition point_ok :: "jubjub_point_hex \<Rightarrow> bool" where
  "point_ok p = (hex_text 32 (jp_x p) \<and> hex_text 32 (jp_y p))"

fun call_ok :: "did_contract_call \<Rightarrow> bool" where
  "call_ok (RotateControllerKey pk) = (length pk = 32)"
| "call_ok (RecoverControllerKey pk) = (length pk = 32)"
| "call_ok (SetSchnorrJubjubVerificationMethod m mu) = point_ok (lsv_public_key m)"
| "call_ok (VerifySchnorrJubjubDigestSignature i d s) =
     (list_all (hex_text 32) (limb_list (digest_limbs d)) \<and> hex_text 96 (bytes_hex s))"
| "call_ok _ = True"

lemma ok_opt_Some: "ok_opt r = Some a \<longleftrightarrow> r = Inr a"
  by (cases r) (simp_all add: ok_opt_def)

lemma ok_opt_Inr [simp]: "ok_opt (Inr a) = Some a"
  by (simp add: ok_opt_def)

section \<open>Encoding and decoding\<close>

named_theorems wire_rt \<open>reading back what was written\<close>

lemma unit_enum_rt [wire_rt]:
  "de_unit_enum key_type_names (ser_unit_enum key_type_names k) = Some k"
  "de_unit_enum curve_type_names (ser_unit_enum curve_type_names c) = Some c"
  "de_unit_enum vm_type_names (ser_unit_enum vm_type_names t) = Some t"
  "de_unit_enum map_mutation_names (ser_unit_enum map_mutation_names mu) = Some mu"
  "de_unit_enum set_mutation_names (ser_unit_enum set_mutation_names su) = Some su"
  "de_unit_enum relation_names (ser_unit_enum relation_names r) = Some r"
  by ((cases k; simp add: de_unit_enum_def ser_unit_enum_def key_type_names_def),
      (cases c; simp add: de_unit_enum_def ser_unit_enum_def curve_type_names_def),
      (cases t; simp add: de_unit_enum_def ser_unit_enum_def vm_type_names_def),
      (cases mu; simp add: de_unit_enum_def ser_unit_enum_def map_mutation_names_def),
      (cases su; simp add: de_unit_enum_def ser_unit_enum_def set_mutation_names_def),
      (cases r; simp add: de_unit_enum_def ser_unit_enum_def relation_names_def))

lemma de_fields_written [wire_rt]:
  "de_fields [a] (WMap [(a, v)]) = Some [v]"
  "a \<noteq> b \<Longrightarrow> de_fields [a, b] (WMap [(a, v), (b, w)]) = Some [v, w]"
  "distinct [a, b, c] \<Longrightarrow> de_fields [a, b, c] (WMap [(a, v), (b, w), (c, x)]) = Some [v, w, x]"
  "distinct [a, b, c, d] \<Longrightarrow>
     de_fields [a, b, c, d] (WMap [(a, v), (b, w), (c, x), (d, y)]) = Some [v, w, x, y]"
  using de_fields_WMap [of "[(a, v)]"] de_fields_WMap [of "[(a, v), (b, w)]"]
    de_fields_WMap [of "[(a, v), (b, w), (c, x)]"] de_fields_WMap [of "[(a, v), (b, w), (c, x), (d, y)]"]
  by simp_all

lemma struct_rt [wire_rt]:
  "de_jwk (ser_jwk j) = Some j"
  "de_service (ser_service sv) = Some sv"
  by (simp_all add: de_jwk_def ser_jwk_def de_service_def ser_service_def wire_rt)

lemma vm_rt [wire_rt]: "de_vm (ser_vm m) = Some m"
  by (simp add: de_vm_def ser_vm_def wire_rt)

lemma point_rt [wire_rt]: "point_ok p \<Longrightarrow> de_point (ser_point p) = Some p"
  by (simp add: de_point_def ser_point_def wire_rt ok_opt_Some jubjub_point_new_Inr point_ok_def)

lemma schnorr_vm_rt [wire_rt]:
  "point_ok (lsv_public_key m) \<Longrightarrow> de_schnorr_vm (ser_schnorr_vm m) = Some m"
  by (simp add: de_schnorr_vm_def ser_schnorr_vm_def wire_rt)

lemma digest_rt [wire_rt]:
  "list_all (hex_text 32) (limb_list (digest_limbs d)) \<Longrightarrow> de_digest (ser_digest d) = Some d"
  by (cases d; cases "digest_limbs d")
    (simp add: de_digest_def ser_digest_def de_array_def ok_opt_Some digest_new_Inr)

lemma signature_rt [wire_rt]:
  "hex_text 96 (bytes_hex s) \<Longrightarrow> de_signature (ser_signature s) = Some s"
  by (cases s) (simp add: de_signature_def ser_signature_def wire_rt ok_opt_Some signature_new_Inr)

lemma key_rt [wire_rt]: "length pk = 32 \<Longrightarrow> de_key (WSeq (map ser_u8 pk)) = Some pk"
  by (simp add: de_key_def de_array_def o_def those_map_Some [where f = "\<lambda>x. x", simplified])

lemma variant_names:
  "map_of call_variants ''RotateControllerKey'' = Some (de_one ''new_public_key'' de_key RotateControllerKey)"
  "map_of call_variants ''RecoverControllerKey'' = Some (de_one ''new_public_key'' de_key RecoverControllerKey)"
  "map_of call_variants ''SetVerificationMethod'' = Some
     (de_two ''method'' de_vm ''mutation'' (de_unit_enum map_mutation_names) SetVerificationMethod)"
  "map_of call_variants ''RemoveVerificationMethod'' =
     Some (de_one ''method_id'' de_string RemoveVerificationMethod)"
  "map_of call_variants ''SetSchnorrJubjubVerificationMethod'' = Some
     (de_two ''method'' de_schnorr_vm ''mutation'' (de_unit_enum map_mutation_names)
       SetSchnorrJubjubVerificationMethod)"
  "map_of call_variants ''RemoveSchnorrJubjubVerificationMethod'' =
     Some (de_one ''method_id'' de_string RemoveSchnorrJubjubVerificationMethod)"
  "map_of call_variants ''VerifySchnorrJubjubDigestSignature'' = Some
     (de_three ''method_id'' de_string ''digest'' de_digest ''signature'' de_signature
       VerifySchnorrJubjubDigestSignature)"
  "map_of call_variants ''SetVerificationMethodRelation'' = Some
     (de_three ''relation'' (de_unit_enum relation_names) ''method_id'' de_string
       ''mutation'' (de_unit_enum set_mutation_names) SetVerificationMethodRelation)"
  "map_of call_variants ''SetService'' = Some
     (de_two ''service'' de_service ''mutation'' (de_unit_enum map_mutation_names) SetService)"
  "map_of call_variants ''RemoveService'' = Some (de_one ''service_id'' de_string RemoveService)"
  "map_of call_variants ''SetAlsoKnownAs'' = Some
     (de_two ''alias_uri'' de_string ''mutation'' (de_unit_enum set_mutation_names) SetAlsoKnownAs)"
  by (simp_all add: call_variants_def)

lemma call_rt: "call_ok c \<Longrightarrow> de_call (ser_call c) = Some c"
  by (cases c) (simp_all add: de_call_def variant_names de_one_def de_two_def de_three_def wire_rt)

lemma wire_ok_unit_enum [simp]: "wire_ok n (ser_unit_enum tab v)"
  by (simp add: ser_unit_enum_def)

lemma wire_ok_call: "wire_ok 100 (ser_call c)"
  by (cases c) (simp_all add: numeral_eq_Suc list_all_iff ser_vm_def ser_jwk_def ser_point_def
    ser_schnorr_vm_def ser_service_def ser_digest_def ser_signature_def)

lemma call_decode_encode:
  "serde_ok S \<Longrightarrow> call_ok c \<Longrightarrow> call_decode S (call_encode S c) = Inr c"
  by (simp add: call_decode_def call_encode_def serde_wire.from_to_vec wire_ok_call call_rt)

text \<open>Decoding lets nothing through that the constructors refuse.\<close>

lemma de_key_length: "de_key w = Some pk \<Longrightarrow> length pk = 32"
  by (auto simp: de_key_def de_array_def dest!: those_Some_length
    split: bind_splits wire.splits if_splits)

lemma de_point_ok: "de_point w = Some p \<Longrightarrow> point_ok p"
  by (auto simp: de_point_def point_ok_def ok_opt_Some jubjub_point_new_Inr
    split: option.splits list.splits bind_splits)

lemma de_schnorr_vm_ok: "de_schnorr_vm w = Some m \<Longrightarrow> point_ok (lsv_public_key m)"
  by (auto simp: de_schnorr_vm_def dest: de_point_ok split: option.splits list.splits bind_splits)

lemma de_digest_ok: "de_digest w = Some d \<Longrightarrow> list_all (hex_text 32) (limb_list (digest_limbs d))"
  by (auto simp: de_digest_def ok_opt_Some digest_new_Inr split: option.splits list.splits)

lemma de_signature_ok: "de_signature w = Some s \<Longrightarrow> hex_text 96 (bytes_hex s)"
  by (auto simp: de_signature_def ok_opt_Some signature_new_Inr
    split: option.splits list.splits bind_splits)

lemma call_variants_ok:
  assumes "map_of call_variants s = Some f" and "f w = Some c"
  shows "call_ok c"
proof -
  from assms(1) have "f \<in> snd ` set call_variants" by (auto dest!: map_of_SomeD intro: rev_image_eqI)
  with assms(2) show ?thesis
    unfolding call_variants_def
    by (auto simp: de_one_def de_two_def de_three_def
      dest!: de_key_length de_schnorr_vm_ok de_digest_ok de_signature_ok
      split: option.splits list.splits bind_splits)
qed

lemma de_call_ok:
  assumes "de_call w = Some c"
  shows "call_ok c"
proof (cases "de_variant w")
  case None
  with assms show ?thesis by (simp add: de_call_def)
next
  case (Some sv)
  obtain s v where sv: "sv = (s, v)" by force
  consider "s = ''ReadLedger''" | "s = ''Deactivate''" | "s \<noteq> ''ReadLedger''" "s \<noteq> ''Deactivate''"
    by blast
  then show ?thesis
  proof cases
    case 3
    with assms Some sv obtain f u where "map_of call_variants s = Some f" "f u = Some c"
      by (auto simp: de_call_def split: option.splits)
    then show ?thesis by (rule call_variants_ok)
  qed (use assms Some sv in \<open>auto simp: de_call_def split: if_splits\<close>)
qed

lemma call_decode_ok: "call_decode S bs = Inr c \<Longrightarrow> call_ok c"
  unfolding call_decode_def ok_or_Inr_iff Option.bind_eq_Some_conv using de_call_ok by blast

lemma call_encode_inject:
  assumes "serde_ok S" and "call_ok c" and "call_encode S c = call_encode S d" and "call_ok d"
  shows "c = d"
  using call_decode_encode [OF assms(1,2)] call_decode_encode [OF assms(1,4)]
  unfolding assms(3) by (metis sum.inject(2))

section \<open>Properties\<close>

lemma scan_hex_Inl:
  "scan_hex f k s = Inl e \<longleftrightarrow>
     (\<exists>i. e = NotHex f (NonHexCharacter (k + i)) \<and> i < length s \<and> \<not> is_ascii_hexdigit (s ! i) \<and>
          list_all is_ascii_hexdigit (take i s))"
proof (induction f k s rule: scan_hex.induct)
  case (2 f k c cs)
  show ?case (is "_ \<longleftrightarrow> (\<exists>i. ?P i)")
  proof (cases "is_ascii_hexdigit c")
    case True
    then have "(\<exists>i. ?P i) \<longleftrightarrow> (\<exists>i. ?P (Suc i))"
      by (metis nat.exhaust nth_Cons_0)
    with 2 True show ?thesis by simp
  next
    case False
    then have "?P i \<longleftrightarrow> i = 0 \<and> e = NotHex f (NonHexCharacter k)" for i by (cases i) auto
    with False show ?thesis by auto
  qed
qed simp

text \<open>
  The hexadecimal gate \<open>validate_hex_exact\<close> accepts exactly the non-empty texts of \<open>2 n\<close> hex
  digits, and its errors say what is wrong: an empty text, a well-formed text of another number of
  bytes with that number, or the first character that is not a hex digit.
\<close>

theorem validate_hex_exact_spec:
  "(validate_hex_exact s n f = Inr () \<longleftrightarrow>
      s \<noteq> [] \<and> length s = 2 * n \<and> list_all is_ascii_hexdigit s) \<and>
   (validate_hex_exact s n f = Inl (Empty f) \<longleftrightarrow> s = []) \<and>
   (validate_hex_exact s n f = Inl (WrongByteLength f n m) \<longleftrightarrow> m \<noteq> n \<and> hex_text m s) \<and>
   (validate_hex_exact s n f = Inl (NotHex f (OddLength k)) \<longleftrightarrow> k = length s \<and> odd k) \<and>
   (validate_hex_exact s n f = Inl (NotHex f (NonHexCharacter i)) \<longleftrightarrow>
      even (length s) \<and> i < length s \<and> \<not> is_ascii_hexdigit (s ! i) \<and>
      list_all is_ascii_hexdigit (take i s))"
proof (intro conjI)
  show "validate_hex_exact s n f = Inr () \<longleftrightarrow>
      s \<noteq> [] \<and> length s = 2 * n \<and> list_all is_ascii_hexdigit s"
    by (simp add: validate_hex_exact_Inr hex_text_def)
  show "validate_hex_exact s n f = Inl (Empty f) \<longleftrightarrow> s = []"
    by (auto simp: validate_hex_exact_def validate_hex_def result_simps scan_hex_Inl)
  show "validate_hex_exact s n f = Inl (WrongByteLength f n m) \<longleftrightarrow> m \<noteq> n \<and> hex_text m s"
    by (auto simp: validate_hex_exact_def validate_hex_def result_simps scan_hex_Inl scan_hex_Inr
      hex_text_def)
  show "validate_hex_exact s n f = Inl (NotHex f (OddLength k)) \<longleftrightarrow> k = length s \<and> odd k"
    by (auto simp: validate_hex_exact_def validate_hex_def result_simps scan_hex_Inl odd_iff_mod_2_eq_one)
  show "validate_hex_exact s n f = Inl (NotHex f (NonHexCharacter i)) \<longleftrightarrow>
      even (length s) \<and> i < length s \<and> \<not> is_ascii_hexdigit (s ! i) \<and>
      list_all is_ascii_hexdigit (take i s)"
    by (auto simp: validate_hex_exact_def validate_hex_def result_simps scan_hex_Inl even_iff_mod_2_eq_zero)
qed

text \<open>
  C13. The call envelope: whatever bytes are submitted, a decoded call holds only values its
  constructors accept (32-byte keys, 32-byte hexadecimal coordinates and limbs, a 96-byte signature),
  every such call is decoded from some bytes, and exactly such a call reads back from its own
  encoding.
\<close>

theorem call_envelope_exact:
  assumes "serde_ok S"
  shows "((\<exists>bs. call_decode S bs = Inr c) \<longleftrightarrow> call_ok c) \<and>
         (call_decode S (call_encode S c) = Inr c \<longleftrightarrow> call_ok c)"
  using call_decode_encode [OF assms] call_decode_ok by blast

definition ex_signature_call :: "string \<Rightarrow> did_contract_call" where
  "ex_signature_call x =
     SetSchnorrJubjubVerificationMethod \<lparr>lsv_id = ''#k'', lsv_public_key = \<lparr>jp_x = x, jp_y = x\<rparr>\<rparr> MapInsert"

theorem call_envelope_exact_witness:
  "call_decode ref_serde (call_encode ref_serde (ex_signature_call (replicate 64 CHR ''a''))) =
     Inr (ex_signature_call (replicate 64 CHR ''a'')) \<and>
   (\<nexists>bs. call_decode ref_serde bs = Inr (ex_signature_call ''abc''))"
  unfolding call_envelope_exact [OF ref_serde_ok, THEN conjunct1] not_ex [symmetric]
    call_envelope_exact [OF ref_serde_ok, THEN conjunct2]
  by (simp add: ex_signature_call_def point_ok_def hex_text_def ascii_defs code_of_def list_all_iff)

end
