(* ===== verification/Did_Doc.thy ===== *)
theory Did_Doc
  imports Did_Types
begin

text \<open>
  The second half of \<open>midnight-did-domain/src/did_document.rs\<close>: verification methods, services, the DID
  document with its cross-consistency validation, the builder, and the resolution envelope.
\<close>

section \<open>Verification methods and services\<close>

record verification_method =
  vm_id :: did_key_id
  vm_type :: verification_method_type
  vm_controller :: did_string
  vm_public_key_jwk :: public_key_jwk

record new_verification_method =
  nvm_id :: string
  nvm_type :: verification_method_type
  nvm_controller :: string
  nvm_public_key_jwk :: public_key_jwk

definition vm_validate :: "crates \<Rightarrow> verification_method \<Rightarrow> validation_error + unit" where
  "vm_validate X vm =
     issues_result
       ((if \<not> is_did_key_id X (did_key_id_str (vm_id vm))
         then [issue_new ''Invalid DID Key ID format: invalid or missing fragment''] else []) @
        (if \<not> is_did_string (did_string_str (vm_controller vm))
         then [issue_new ''Invalid DID format''] else []) @
        jwk_collect_issues X (vm_public_key_jwk vm)) ()"

definition vm_new :: "crates \<Rightarrow> new_verification_method \<Rightarrow> validation_error + verification_method" where
  "vm_new X input =
     res_bind (did_key_id_parse X (nvm_id input)) (\<lambda>i.
     res_bind (did_string_parse (nvm_controller input)) (\<lambda>c.
       let vm = \<lparr>vm_id = i, vm_type = nvm_type input, vm_controller = c,
                 vm_public_key_jwk = nvm_public_key_jwk input\<rparr>
       in res_bind (vm_validate X vm) (\<lambda>_. Inr vm)))"

datatype service_endpoint_entry = EntryUri string | EntryObject "(string, json) btree"

datatype service_endpoint =
    EndpointUri string
  | EndpointObject "(string, json) btree"
  | EndpointArray "service_endpoint_entry list"

datatype service_type = TypeOne string | TypeMany "string list"

record service =
  svc_id :: string
  svc_type :: service_type
  svc_endpoint :: service_endpoint

record new_service =
  ns_id :: string
  ns_type :: service_type
  ns_endpoint :: service_endpoint

fun normalize_endpoint_value :: "crates \<Rightarrow> json \<Rightarrow> json" where
  "normalize_endpoint_value X (JString s) = JString (normalize_uri_string X s)"
| "normalize_endpoint_value X (JArray items) = JArray (map (normalize_endpoint_value X) items)"
| "normalize_endpoint_value X (JObject m) = JObject (map (\<lambda>(k, v). (k, normalize_endpoint_value X v)) m)"
| "normalize_endpoint_value X other = other"

definition normalize_endpoint_map :: "crates \<Rightarrow> (string, json) btree \<Rightarrow> (string, json) btree" where
  "normalize_endpoint_map X m = bt_collect (map (\<lambda>(k, v). (k, normalize_endpoint_value X v)) m)"

fun normalize_endpoint_entry :: "crates \<Rightarrow> service_endpoint_entry \<Rightarrow> service_endpoint_entry" where
  "normalize_endpoint_entry X (EntryUri s) = EntryUri (normalize_uri_string X s)"
| "normalize_endpoint_entry X (EntryObject m) = EntryObject (normalize_endpoint_map X m)"

fun normalize_service_endpoint :: "crates \<Rightarrow> service_endpoint \<Rightarrow> service_endpoint" where
  "normalize_service_endpoint X (EndpointUri s) = EndpointUri (normalize_uri_string X s)"
| "normalize_service_endpoint X (EndpointObject m) = EndpointObject (normalize_endpoint_map X m)"
| "normalize_service_endpoint X (EndpointArray es) = EndpointArray (map (normalize_endpoint_entry X) es)"

definition service_validate :: "crates \<Rightarrow> service \<Rightarrow> validation_error + unit" where
  "service_validate X svc =
     issues_result
       ((if \<not> is_did_url (svc_id svc) \<and> \<not> is_relative_reference X (svc_id svc)
         then [issue_new ''Service id must be a DID URL or relative reference''] else []) @
        (case svc_type svc of
           TypeOne s \<Rightarrow> if s = [] then [issue_new ''service type must not be empty''] else []
         | TypeMany types \<Rightarrow>
             if types = [] then [issue_new ''service type must be a non-empty array''] else [])) ()"

definition service_new :: "crates \<Rightarrow> new_service \<Rightarrow> validation_error + service" where
  "service_new X input =
     (let svc = \<lparr>svc_id = ns_id input, svc_type = ns_type input, svc_endpoint = ns_endpoint input\<rparr>
      in res_bind (service_validate X svc)
           (\<lambda>_. Inr (svc\<lparr>svc_endpoint := normalize_service_endpoint X (svc_endpoint svc)\<rparr>)))"

section \<open>The document\<close>

datatype document_context = ContextOne string | ContextMany "string list"

datatype controller = ControllerOne did_string | ControllerMany "did_string list"

record did_document =
  doc_context :: document_context
  doc_id :: did_string
  doc_also_known_as :: "string list option"
  doc_controller :: "controller option"
  doc_verification_method :: "verification_method list option"
  doc_authentication :: "did_key_id list option"
  doc_assertion_method :: "did_key_id list option"
  doc_key_agreement :: "did_key_id list option"
  doc_capability_invocation :: "did_key_id list option"
  doc_capability_delegation :: "did_key_id list option"
  doc_service :: "service list option"
  doc_extra :: "(string, json) btree"

definition with_normalized_service_endpoints :: "crates \<Rightarrow> did_document \<Rightarrow> did_document" where
  "with_normalized_service_endpoints X d =
     d\<lparr>doc_service := map_option
         (map (\<lambda>s. s\<lparr>svc_endpoint := normalize_service_endpoint X (svc_endpoint s)\<rparr>))
         (doc_service d)\<rparr>"

text \<open>The \<open>canonicalize\<close> closure of \<open>validate\<close>.\<close>

definition canonicalize_id :: "string \<Rightarrow> string \<Rightarrow> string" where
  "canonicalize_id did v =
     (if starts_with v ''did:'' then v
      else (case strip_prefix ''#'' v of
              Some rest \<Rightarrow> did @ ''#'' @ rest
            | None \<Rightarrow> did @ ''#'' @ v))"

text \<open>
  The loop over the verification methods: the issues and the canonical ids seen (the keys of
  \<open>seen_vm_ids\<close>; its values, the indices, are never read).
\<close>

fun check_vm_ids :: "string \<Rightarrow> nat \<Rightarrow> string list \<Rightarrow> verification_method list \<Rightarrow>
    validation_issue list \<times> string list" where
  "check_vm_ids did index seen [] = ([], seen)"
| "check_vm_ids did index seen (vm # vms) =
     (let canonical = canonicalize_id did (did_key_id_str (vm_id vm))
      in if canonical \<notin> set seen
         then check_vm_ids did (index + 1) (canonical # seen) vms
         else (let (iss, seen') = check_vm_ids did (index + 1) seen vms
               in (issue_at ''verificationMethod ids must be unique''
                     [''verificationMethod'', show_nat index, ''id''] # iss, seen')))"

text \<open>The \<open>check_relation\<close> closure.\<close>

fun check_relation_from :: "string \<Rightarrow> string list \<Rightarrow> string \<Rightarrow> nat \<Rightarrow> string list \<Rightarrow> did_key_id list \<Rightarrow>
    validation_issue list" where
  "check_relation_from did vm_ids name index seen [] = []"
| "check_relation_from did vm_ids name index seen (v # vs) =
     (let canonical = canonicalize_id did (did_key_id_str v)
      in if canonical \<in> set seen
         then issue_at (name @ '' must not contain duplicate entries'') [name, show_nat index]
              # check_relation_from did vm_ids name (index + 1) seen vs
         else if canonical \<notin> set vm_ids
         then issue_at (name @ '' references a verificationMethod id that does not exist'')
                [name, show_nat index]
              # check_relation_from did vm_ids name (index + 1) (canonical # seen) vs
         else check_relation_from did vm_ids name (index + 1) (canonical # seen) vs)"

definition check_relation :: "string \<Rightarrow> string list \<Rightarrow> string \<Rightarrow> did_key_id list option \<Rightarrow>
    validation_issue list" where
  "check_relation did vm_ids name vals =
     (case vals of None \<Rightarrow> [] | Some vs \<Rightarrow> check_relation_from did vm_ids name 0 [] vs)"

fun entry_value :: "service_endpoint_entry \<Rightarrow> json" where
  "entry_value (EntryUri s) = JString s"
| "entry_value (EntryObject m) = JObject m"

fun endpoint_values :: "service_endpoint \<Rightarrow> json list" where
  "endpoint_values (EndpointUri s) = [JString s]"
| "endpoint_values (EndpointObject m) = [JObject m]"
| "endpoint_values (EndpointArray items) = map entry_value items"

fun check_endpoints :: "crates \<Rightarrow> nat \<Rightarrow> nat \<Rightarrow> string list \<Rightarrow> json list \<Rightarrow> validation_issue list" where
  "check_endpoints X index eindex seen [] = []"
| "check_endpoints X index eindex seen (e # es) =
     (let key = json_to_string X e
      in if key \<in> set seen
         then issue_at ''serviceEndpoint values must be unique''
                [''service'', show_nat index, ''serviceEndpoint'', show_nat eindex]
              # check_endpoints X index (eindex + 1) seen es
         else check_endpoints X index (eindex + 1) (key # seen) es)"

fun check_services :: "crates \<Rightarrow> nat \<Rightarrow> string list \<Rightarrow> service list \<Rightarrow> validation_issue list" where
  "check_services X index seen [] = []"
| "check_services X index seen (s # ss) =
     (if svc_id s \<in> set seen
      then [issue_at ''service ids must be unique'' [''service'', show_nat index, ''id'']] else []) @
     check_endpoints X index 0 [] (endpoint_values (svc_endpoint s)) @
     check_services X (index + 1) (if svc_id s \<in> set seen then seen else svc_id s # seen) ss"

definition document_issues :: "crates \<Rightarrow> did_document \<Rightarrow> validation_issue list" where
  "document_issues X d =
     (let normalized = with_normalized_service_endpoints X d;
          vms = (case doc_verification_method normalized of Some vms \<Rightarrow> vms | None \<Rightarrow> []);
          did = did_string_str (doc_id normalized);
          (vm_issues, seen) = check_vm_ids did 0 [] vms
      in vm_issues @
         check_relation did seen ''authentication'' (doc_authentication normalized) @
         check_relation did seen ''assertionMethod'' (doc_assertion_method normalized) @
         check_relation did seen ''keyAgreement'' (doc_key_agreement normalized) @
         check_relation did seen ''capabilityInvocation'' (doc_capability_invocation normalized) @
         check_relation did seen ''capabilityDelegation'' (doc_capability_delegation normalized) @
         (case doc_service normalized of Some ss \<Rightarrow> check_services X 0 [] ss | None \<Rightarrow> []))"

definition did_document_validate :: "crates \<Rightarrow> did_document \<Rightarrow> validation_error + unit" where
  "did_document_validate X d = issues_result (document_issues X d) ()"

section \<open>Parsing, creation and the builder\<close>

text \<open>
  \<open>serde_json::from_value\<close> into a struct runs the code that \<open>derive(Deserialize)\<close> generates; here it is a
  parameter \<open>from_value\<close>, the error text or the struct; \<open>Document_Json\<close> supplies the generated readers.
\<close>

definition parse_did_document ::
    "crates \<Rightarrow> (json \<Rightarrow> string + did_document) \<Rightarrow> json \<Rightarrow> validation_error + did_document" where
  "parse_did_document X from_value v =
     res_bind (map_err (\<lambda>e. from_issues [issue_new (''DID Document JSON shape is invalid: '' @ e)])
                (from_value v)) (\<lambda>doc.
     res_bind (did_document_validate X doc) (\<lambda>_. Inr (with_normalized_service_endpoints X doc)))"

definition parse_verification_method ::
    "crates \<Rightarrow> (json \<Rightarrow> string + verification_method) \<Rightarrow> json \<Rightarrow> validation_error + verification_method"
  where
  "parse_verification_method X from_value v =
     res_bind (map_err (\<lambda>e. from_issues [issue_new (''VerificationMethod JSON shape is invalid: '' @ e)])
                (from_value v)) (\<lambda>vm.
     res_bind (vm_validate X vm) (\<lambda>_. Inr vm))"

definition parse_service ::
    "crates \<Rightarrow> (json \<Rightarrow> string + service) \<Rightarrow> json \<Rightarrow> validation_error + service" where
  "parse_service X from_value v =
     res_bind (map_err (\<lambda>e. from_issues [issue_new (''Service JSON shape is invalid: '' @ e)])
                (from_value v)) (\<lambda>svc.
     res_bind (service_validate X svc) (\<lambda>_.
       Inr (svc\<lparr>svc_endpoint := normalize_service_endpoint X (svc_endpoint svc)\<rparr>)))"

record create_did_document_params =
  cp_id :: string
  cp_context :: "document_context option"
  cp_also_known_as :: "string list option"
  cp_controller :: "controller option"
  cp_verification_method :: "verification_method list option"
  cp_authentication :: "did_key_id list option"
  cp_assertion_method :: "did_key_id list option"
  cp_key_agreement :: "did_key_id list option"
  cp_capability_invocation :: "did_key_id list option"
  cp_capability_delegation :: "did_key_id list option"
  cp_service :: "service list option"

definition default_context :: document_context where
  "default_context = ContextOne ''https://www.w3.org/ns/did/v1''"

definition create_did_document ::
    "crates \<Rightarrow> create_did_document_params \<Rightarrow> validation_error + did_document" where
  "create_did_document X p =
     res_bind (did_string_parse (cp_id p)) (\<lambda>i.
       let doc =
         \<lparr>doc_context = (case cp_context p of Some c \<Rightarrow> c | None \<Rightarrow> default_context),
          doc_id = i,
          doc_also_known_as = cp_also_known_as p,
          doc_controller = cp_controller p,
          doc_verification_method = cp_verification_method p,
          doc_authentication = cp_authentication p,
          doc_assertion_method = cp_assertion_method p,
          doc_key_agreement = cp_key_agreement p,
          doc_capability_invocation = cp_capability_invocation p,
          doc_capability_delegation = cp_capability_delegation p,
          doc_service = cp_service p,
          doc_extra = []\<rparr>
       in res_bind (did_document_validate X doc)
            (\<lambda>_. Inr (with_normalized_service_endpoints X doc)))"

record did_document_builder =
  b_id :: string
  b_context :: "document_context option"
  b_also_known_as :: "string list option"
  b_controller :: "controller option"
  b_verification_method :: "verification_method list"
  b_authentication :: "did_key_id list"
  b_assertion_method :: "did_key_id list"
  b_key_agreement :: "did_key_id list"
  b_capability_invocation :: "did_key_id list"
  b_capability_delegation :: "did_key_id list"
  b_service :: "service list"

definition builder_new :: "string \<Rightarrow> did_document_builder" where
  "builder_new i =
     \<lparr>b_id = i, b_context = None, b_also_known_as = None, b_controller = None,
      b_verification_method = [], b_authentication = [], b_assertion_method = [],
      b_key_agreement = [], b_capability_invocation = [], b_capability_delegation = [],
      b_service = []\<rparr>"

definition builder_context :: "document_context \<Rightarrow> did_document_builder \<Rightarrow> did_document_builder" where
  "builder_context c b = b\<lparr>b_context := Some c\<rparr>"

definition builder_also_known_as :: "string list \<Rightarrow> did_document_builder \<Rightarrow> did_document_builder" where
  "builder_also_known_as a b = b\<lparr>b_also_known_as := Some a\<rparr>"

definition builder_controller :: "controller \<Rightarrow> did_document_builder \<Rightarrow> did_document_builder" where
  "builder_controller c b = b\<lparr>b_controller := Some c\<rparr>"

definition builder_add_verification_method ::
    "verification_method \<Rightarrow> did_document_builder \<Rightarrow> did_document_builder" where
  "builder_add_verification_method vm b =
     b\<lparr>b_verification_method := b_verification_method b @ [vm]\<rparr>"

definition builder_add_service :: "service \<Rightarrow> did_document_builder \<Rightarrow> did_document_builder" where
  "builder_add_service s b = b\<lparr>b_service := b_service b @ [s]\<rparr>"

definition builder_authentication :: "did_key_id list \<Rightarrow> did_document_builder \<Rightarrow> did_document_builder" where
  "builder_authentication ids b = b\<lparr>b_authentication := ids\<rparr>"

definition builder_assertion_method :: "did_key_id list \<Rightarrow> did_document_builder \<Rightarrow> did_document_builder" where
  "builder_assertion_method ids b = b\<lparr>b_assertion_method := ids\<rparr>"

definition builder_key_agreement :: "did_key_id list \<Rightarrow> did_document_builder \<Rightarrow> did_document_builder" where
  "builder_key_agreement ids b = b\<lparr>b_key_agreement := ids\<rparr>"

definition builder_capability_invocation ::
    "did_key_id list \<Rightarrow> did_document_builder \<Rightarrow> did_document_builder" where
  "builder_capability_invocation ids b = b\<lparr>b_capability_invocation := ids\<rparr>"

definition builder_capability_delegation ::
    "did_key_id list \<Rightarrow> did_document_builder \<Rightarrow> did_document_builder" where
  "builder_capability_delegation ids b = b\<lparr>b_capability_delegation := ids\<rparr>"

text \<open>The two duplicate-id loops of \<open>build\<close>; \<open>label\<close> is the text before the id in the message.\<close>

fun duplicate_issues :: "string \<Rightarrow> string list \<Rightarrow> string list \<Rightarrow> validation_issue list" where
  "duplicate_issues label seen [] = []"
| "duplicate_issues label seen (i # ids) =
     (if i \<in> set seen then issue_new (label @ i) # duplicate_issues label seen ids
      else duplicate_issues label (i # seen) ids)"

definition unknown_reference_issues :: "string list \<Rightarrow> string \<times> did_key_id list \<Rightarrow> validation_issue list" where
  "unknown_reference_issues vm_ids r =
     concat (map (\<lambda>i. if did_key_id_str i \<notin> set vm_ids
                      then [issue_new (fst r @ '' references unknown verificationMethod id: '' @
                              did_key_id_str i)]
                      else []) (snd r))"

definition non_empty :: "'a list \<Rightarrow> 'a list option" where
  "non_empty xs = (if xs = [] then None else Some xs)"

definition builder_relations :: "did_document_builder \<Rightarrow> (string \<times> did_key_id list) list" where
  "builder_relations b =
     [(''authentication'', b_authentication b),
      (''assertionMethod'', b_assertion_method b),
      (''keyAgreement'', b_key_agreement b),
      (''capabilityInvocation'', b_capability_invocation b),
      (''capabilityDelegation'', b_capability_delegation b)]"

definition builder_document :: "did_document_builder \<Rightarrow> did_string \<Rightarrow> did_document" where
  "builder_document b subject =
     \<lparr>doc_context = (case b_context b of Some c \<Rightarrow> c | None \<Rightarrow> default_context),
      doc_id = subject,
      doc_also_known_as = b_also_known_as b,
      doc_controller = b_controller b,
      doc_verification_method = non_empty (b_verification_method b),
      doc_authentication = non_empty (b_authentication b),
      doc_assertion_method = non_empty (b_assertion_method b),
      doc_key_agreement = non_empty (b_key_agreement b),
      doc_capability_invocation = non_empty (b_capability_invocation b),
      doc_capability_delegation = non_empty (b_capability_delegation b),
      doc_service = non_empty (b_service b),
      doc_extra = []\<rparr>"

definition builder_build :: "crates \<Rightarrow> did_document_builder \<Rightarrow> validation_error + did_document" where
  "builder_build X b =
     res_bind (did_string_parse (b_id b)) (\<lambda>subject.
       let vm_ids = map (\<lambda>vm. did_key_id_str (vm_id vm)) (b_verification_method b);
           issues =
             duplicate_issues ''duplicate verificationMethod id: '' [] vm_ids @
             duplicate_issues ''duplicate service id: '' [] (map svc_id (b_service b)) @
             concat (map (unknown_reference_issues vm_ids) (builder_relations b))
       in if issues \<noteq> [] then Inl (from_issues issues)
          else (let doc = builder_document b subject
                in res_bind (did_document_validate X doc)
                     (\<lambda>_. Inr (with_normalized_service_endpoints X doc))))"

section \<open>Resolution envelope\<close>

record did_document_metadata =
  dm_created :: "string option"
  dm_updated :: "string option"
  dm_deactivated :: "bool option"
  dm_version_id :: "string option"
  dm_next_update :: "string option"
  dm_next_version_id :: "string option"
  dm_equivalent_id :: "string list option"
  dm_canonical_id :: "string option"
  dm_extra :: "(string, json) btree"

definition metadata_default :: did_document_metadata where
  "metadata_default =
     \<lparr>dm_created = None, dm_updated = None, dm_deactivated = None, dm_version_id = None,
      dm_next_update = None, dm_next_version_id = None, dm_equivalent_id = None,
      dm_canonical_id = None, dm_extra = []\<rparr>"

datatype known_media_type = DidLdJson | DidJson | LdJson | Json

record did_resolution_metadata =
  rm_content_type :: "known_media_type option"
  rm_error :: "string option"
  rm_extra :: "(string, json) btree"

definition resolution_error_code_validate :: "string \<Rightarrow> validation_error + unit" where
  "resolution_error_code_validate s =
     (let valid = s \<noteq> [] \<and> is_ascii_alphabetic (hd s) \<and> list_all is_ascii_alphanumeric s
      in if \<not> valid
         then Inl (from_issues [issue_new ''DID resolution error must match [A-Za-z][A-Za-z0-9]*''])
         else Inr ())"

record did_resolution_result =
  rr_context :: "document_context option"
  rr_did_document :: "did_document option"
  rr_did_document_metadata :: did_document_metadata
  rr_did_resolution_metadata :: did_resolution_metadata
  rr_extra :: "(string, json) btree"

section \<open>The consistency a valid document has\<close>

definition opt_list :: "'a list option \<Rightarrow> 'a list" where
  "opt_list o' = (case o' of Some xs \<Rightarrow> xs | None \<Rightarrow> [])"

lemma opt_list_simps [simp]: "opt_list None = []" "opt_list (Some xs) = xs"
  "opt_list (non_empty xs) = xs" "opt_list (map_option (map f) o') = map f (opt_list o')"
  by (auto simp: opt_list_def non_empty_def split: option.splits)

definition doc_vm_ids :: "did_document \<Rightarrow> string list" where
  "doc_vm_ids d =
     map (\<lambda>vm. canonicalize_id (did_string_str (doc_id d)) (did_key_id_str (vm_id vm)))
       (opt_list (doc_verification_method d))"

definition doc_relations :: "did_document \<Rightarrow> string list list" where
  "doc_relations d =
     map (\<lambda>r. map (\<lambda>i. canonicalize_id (did_string_str (doc_id d)) (did_key_id_str i)) (opt_list r))
       [doc_authentication d, doc_assertion_method d, doc_key_agreement d,
        doc_capability_invocation d, doc_capability_delegation d]"

definition relations_ok :: "string list \<Rightarrow> string list list \<Rightarrow> bool" where
  "relations_ok vm_ids rs \<longleftrightarrow> (\<forall>r\<in>set rs. distinct r \<and> set r \<subseteq> set vm_ids)"

definition services_ok :: "crates \<Rightarrow> service list \<Rightarrow> bool" where
  "services_ok X ss \<longleftrightarrow> distinct (map svc_id ss) \<and>
     (\<forall>s\<in>set ss. distinct (map (json_to_string X) (endpoint_values (svc_endpoint s))))"

text \<open>
  The contract of a document: no two verification methods with the same absolute id; every relation
  lists existing methods, none twice; no two services with the same id; no endpoint twice.
\<close>

definition doc_consistent :: "crates \<Rightarrow> did_document \<Rightarrow> bool" where
  "doc_consistent X d \<longleftrightarrow>
     distinct (doc_vm_ids d) \<and> relations_ok (doc_vm_ids d) (doc_relations d) \<and>
     services_ok X (opt_list (doc_service d))"

section \<open>Validation implements the contract\<close>

lemma check_vm_ids_seen:
  "set (snd (check_vm_ids did n seen vms)) =
     set seen \<union> (\<lambda>vm. canonicalize_id did (did_key_id_str (vm_id vm))) ` set vms"
  by (induction did n seen vms rule: check_vm_ids.induct)
    (simp_all add: Let_def case_prod_unfold insert_absorb)

lemma check_vm_ids_issues:
  "fst (check_vm_ids did n seen vms) = [] \<longleftrightarrow>
     (let cs = map (\<lambda>vm. canonicalize_id did (did_key_id_str (vm_id vm))) vms
      in distinct cs \<and> set cs \<inter> set seen = {})"
  by (induction did n seen vms rule: check_vm_ids.induct)
    (auto simp: Let_def case_prod_unfold)

lemma check_relation_from_Nil:
  "check_relation_from did vm_ids name n seen vs = [] \<longleftrightarrow>
     (let cs = map (\<lambda>i. canonicalize_id did (did_key_id_str i)) vs
      in distinct cs \<and> set cs \<inter> set seen = {} \<and> set cs \<subseteq> set vm_ids)"
  by (induction did vm_ids name n seen vs rule: check_relation_from.induct) (auto simp: Let_def)

lemma check_relation_Nil:
  "check_relation did vm_ids name vals = [] \<longleftrightarrow>
     (let cs = map (\<lambda>i. canonicalize_id did (did_key_id_str i)) (opt_list vals)
      in distinct cs \<and> set cs \<subseteq> set vm_ids)"
  by (cases vals) (simp_all add: check_relation_def check_relation_from_Nil Let_def)

lemma check_endpoints_Nil:
  "check_endpoints X n m seen es = [] \<longleftrightarrow>
     distinct (map (json_to_string X) es) \<and> set (map (json_to_string X) es) \<inter> set seen = {}"
  by (induction X n m seen es rule: check_endpoints.induct) (auto simp: Let_def)

lemma check_services_Nil:
  "check_services X n seen ss = [] \<longleftrightarrow> services_ok X ss \<and> set (map svc_id ss) \<inter> set seen = {}"
  by (induction X n seen ss rule: check_services.induct)
    (auto simp: check_endpoints_Nil services_ok_def)

lemma norm_doc_sel [simp]:
  "doc_id (with_normalized_service_endpoints X d) = doc_id d"
  "doc_verification_method (with_normalized_service_endpoints X d) = doc_verification_method d"
  "doc_authentication (with_normalized_service_endpoints X d) = doc_authentication d"
  "doc_assertion_method (with_normalized_service_endpoints X d) = doc_assertion_method d"
  "doc_key_agreement (with_normalized_service_endpoints X d) = doc_key_agreement d"
  "doc_capability_invocation (with_normalized_service_endpoints X d) = doc_capability_invocation d"
  "doc_capability_delegation (with_normalized_service_endpoints X d) = doc_capability_delegation d"
  "doc_vm_ids (with_normalized_service_endpoints X d) = doc_vm_ids d"
  "doc_relations (with_normalized_service_endpoints X d) = doc_relations d"
  by (simp_all add: with_normalized_service_endpoints_def doc_vm_ids_def doc_relations_def)

lemma document_issues_Nil:
  "document_issues X d = [] \<longleftrightarrow> doc_consistent X (with_normalized_service_endpoints X d)"
proof -
  let ?n = "with_normalized_service_endpoints X d"
  let ?did = "did_string_str (doc_id d)"
  obtain iss seen where c: "check_vm_ids ?did 0 [] (opt_list (doc_verification_method d)) = (iss, seen)"
    by force
  have seen: "set seen = set (doc_vm_ids d)"
    using check_vm_ids_seen [of ?did 0 "[]" "opt_list (doc_verification_method d)"] c
    by (simp add: doc_vm_ids_def)
  have vm: "iss = [] \<longleftrightarrow> distinct (doc_vm_ids d)"
    using check_vm_ids_issues [of ?did 0 "[]" "opt_list (doc_verification_method d)"] c
    by (simp add: doc_vm_ids_def Let_def)
  have svc: "(case doc_service ?n of Some ss \<Rightarrow> check_services X 0 [] ss | None \<Rightarrow> []) = [] \<longleftrightarrow>
    services_ok X (opt_list (doc_service ?n))"
    by (cases "doc_service ?n") (simp_all add: check_services_Nil services_ok_def)
  show ?thesis
    using c unfolding document_issues_def doc_consistent_def Let_def norm_doc_sel opt_list_def [symmetric]
    by (simp add: vm check_relation_Nil seen relations_ok_def doc_relations_def Let_def
      svc [unfolded opt_list_def [symmetric]] conj_ac)
qed

lemma validate_iff:
  "did_document_validate X d = Inr u \<longleftrightarrow> doc_consistent X (with_normalized_service_endpoints X d)"
  by (simp add: did_document_validate_def result_simps document_issues_Nil)

lemma doc_consistent_endpoints:
  assumes "json_crate_ok X" and "doc_consistent X d" and "s \<in> set (opt_list (doc_service d))"
  shows "distinct (endpoint_values (svc_endpoint s))"
  using assms(2,3) by (auto simp: doc_consistent_def services_ok_def distinct_map)

text \<open>
  C31. \<open>DidDocument::validate\<close> accepts exactly the consistent documents, after normalising the service
  endpoints: unique absolute verification-method ids, relations that list existing methods without
  repetition, unique service ids, and no repeated endpoint within a service.
\<close>

theorem did_document_validate_exact:
  "is_ok (did_document_validate X d) \<longleftrightarrow>
     (let n = with_normalized_service_endpoints X d
      in distinct (doc_vm_ids n) \<and>
         (\<forall>r\<in>set (doc_relations n). distinct r \<and> set r \<subseteq> set (doc_vm_ids n)) \<and>
         distinct (map svc_id (opt_list (doc_service n))) \<and>
         (\<forall>s\<in>set (opt_list (doc_service n)).
            distinct (map (json_to_string X) (endpoint_values (svc_endpoint s)))))"
  by (simp add: is_ok_iff validate_iff doc_consistent_def relations_ok_def services_ok_def Let_def)

definition ex_jwk :: public_key_jwk where
  "ex_jwk = \<lparr>jwk_kty = OKP, jwk_crv = Ed25519,
             jwk_x = encode_base64url ref_crates (replicate 32 7), jwk_y = None, jwk_extensions = []\<rparr>"

definition ex_vm :: "string \<Rightarrow> verification_method" where
  "ex_vm i = \<lparr>vm_id = DidKeyId i, vm_type = JsonWebKey, vm_controller = DidString ''did:x:1'',
              vm_public_key_jwk = ex_jwk\<rparr>"

lemma ex_jwk_profile: "jwk_profile ref_crates ex_jwk"
proof -
  have "canonical_b64 ref_crates 32 (encode_base64url ref_crates (replicate 32 7))"
    unfolding canonical_b64_def by (intro exI [of _ "replicate 32 7"]) simp
  then show ?thesis by (simp add: jwk_profile_def ex_jwk_def)
qed

text \<open>The two ways to write one key id clash.\<close>

theorem did_document_validate_exact_witness:
  "\<not> is_ok (did_document_validate ref_crates
      (builder_document
         (builder_add_verification_method (ex_vm ''#k'')
           (builder_add_verification_method (ex_vm ''did:x:1#k'') (builder_new ''did:x:1'')))
         (DidString ''did:x:1'')))"
  using did_document_validate_exact [of ref_crates "builder_document
         (builder_add_verification_method (ex_vm ''#k'')
           (builder_add_verification_method (ex_vm ''did:x:1#k'') (builder_new ''did:x:1'')))
         (DidString ''did:x:1'')"]
  by (simp add: doc_vm_ids_def builder_document_def builder_new_def builder_add_verification_method_def
    with_normalized_service_endpoints_def ex_vm_def canonicalize_id_def strip_prefix_def)

section \<open>The builder\<close>

lemma duplicate_issues_Nil:
  "duplicate_issues l seen ids = [] \<longleftrightarrow> distinct ids \<and> set ids \<inter> set seen = {}"
  by (induction l seen ids rule: duplicate_issues.induct) auto

lemma unknown_reference_issues_Nil:
  "unknown_reference_issues vm_ids r = [] \<longleftrightarrow> (\<forall>i\<in>set (snd r). did_key_id_str i \<in> set vm_ids)"
  by (auto simp: unknown_reference_issues_def)

definition builder_params :: "did_document_builder \<Rightarrow> create_did_document_params" where
  "builder_params b =
     \<lparr>cp_id = b_id b, cp_context = b_context b, cp_also_known_as = b_also_known_as b,
      cp_controller = b_controller b,
      cp_verification_method = non_empty (b_verification_method b),
      cp_authentication = non_empty (b_authentication b),
      cp_assertion_method = non_empty (b_assertion_method b),
      cp_key_agreement = non_empty (b_key_agreement b),
      cp_capability_invocation = non_empty (b_capability_invocation b),
      cp_capability_delegation = non_empty (b_capability_delegation b),
      cp_service = non_empty (b_service b)\<rparr>"

lemma create_builder_params:
  "create_did_document X (builder_params b) =
     res_bind (did_string_parse (b_id b)) (\<lambda>i.
     res_bind (did_document_validate X (builder_document b i))
       (\<lambda>_. Inr (with_normalized_service_endpoints X (builder_document b i))))"
  by (simp add: create_did_document_def builder_params_def builder_document_def Let_def)

text \<open>Absolute ids and service ids are distinct only if the ids as written are.\<close>

lemma consistent_raw_distinct:
  assumes "doc_consistent X (with_normalized_service_endpoints X (builder_document b i))"
  shows "distinct (map (\<lambda>vm. did_key_id_str (vm_id vm)) (b_verification_method b))"
    and "distinct (map svc_id (b_service b))"
proof -
  let ?c = "canonicalize_id (did_string_str i)"
  from assms have "distinct (map ?c (map (\<lambda>vm. did_key_id_str (vm_id vm)) (b_verification_method b)))"
    by (simp add: doc_consistent_def doc_vm_ids_def builder_document_def comp_def)
  then show "distinct (map (\<lambda>vm. did_key_id_str (vm_id vm)) (b_verification_method b))"
    by (simp only: distinct_map)
  from assms show "distinct (map svc_id (b_service b))"
    by (simp add: doc_consistent_def services_ok_def builder_document_def
      with_normalized_service_endpoints_def comp_def)
qed

text \<open>Every id of a relation names a method by the very string of its id.\<close>

definition builder_references_ok :: "did_document_builder \<Rightarrow> bool" where
  "builder_references_ok b \<longleftrightarrow>
     (\<forall>r\<in>set (builder_relations b). \<forall>i\<in>set (snd r).
        i \<in> vm_id ` set (b_verification_method b))"

lemma builder_references_ok_iff:
  "builder_references_ok b \<longleftrightarrow>
     (\<forall>r\<in>set (builder_relations b). \<forall>i\<in>set (snd r).
        did_key_id_str i \<in> set (map (\<lambda>vm. did_key_id_str (vm_id vm)) (b_verification_method b)))"
proof -
  have "i \<in> vm_id ` set vms \<longleftrightarrow> did_key_id_str i \<in> set (map (\<lambda>vm. did_key_id_str (vm_id vm)) vms)"
    for i and vms :: "verification_method list"
    by (auto simp: image_iff intro: did_key_id.expand)
  then show ?thesis by (simp only: builder_references_ok_def)
qed

lemma builder_build_iff:
  "builder_build X b = Inr d \<longleftrightarrow>
     create_did_document X (builder_params b) = Inr d \<and> builder_references_ok b"
proof -
  let ?ids = "map (\<lambda>vm. did_key_id_str (vm_id vm)) (b_verification_method b)"
  let ?issues = "duplicate_issues ''duplicate verificationMethod id: '' [] ?ids @
    duplicate_issues ''duplicate service id: '' [] (map svc_id (b_service b)) @
    concat (map (unknown_reference_issues ?ids) (builder_relations b))"
  have issues: "?issues = [] \<longleftrightarrow> distinct ?ids \<and> distinct (map svc_id (b_service b)) \<and> builder_references_ok b"
    by (simp add: duplicate_issues_Nil unknown_reference_issues_Nil builder_references_ok_iff)
  show ?thesis
  proof (cases "did_string_parse (b_id b)")
    case (Inr i)
    then show ?thesis
      unfolding create_builder_params builder_build_def Let_def Inr res_bind.simps
      using issues consistent_raw_distinct [of X b i]
      by (auto simp: result_simps validate_iff)
  qed (simp add: builder_build_def create_builder_params)
qed

text \<open>
  C32. The builder is \<open>create_did_document\<close> with one extra check: it succeeds, with the same document,
  exactly when \<open>create_did_document\<close> does on the same fields and every relation entry is spelled like
  the id of a method added to the builder.
\<close>

theorem builder_build_equiv:
  "builder_build X b = Inr d \<longleftrightarrow>
     create_did_document X (builder_params b) = Inr d \<and>
     (\<forall>r\<in>set (builder_relations b). \<forall>i\<in>set (snd r). i \<in> vm_id ` set (b_verification_method b))"
  by (simp add: builder_build_iff builder_references_ok_def)

text \<open>The extra check is stricter than \<open>validate\<close>: a relation entry may not abbreviate the id.\<close>

definition ex_builder :: "string \<Rightarrow> did_document_builder" where
  "ex_builder r =
     builder_authentication [DidKeyId r]
       (builder_add_verification_method (ex_vm ''did:x:1#k'') (builder_new ''did:x:1''))"

lemma ex_did_ok: "did_string_parse ''did:x:1'' = Inr (DidString ''did:x:1'')"
  by (simp add: did_string_parse_iff is_did_string_def starts_with_def)

lemma ex_builder_consistent:
  "r = ''#k'' \<or> r = ''did:x:1#k'' \<Longrightarrow>
     doc_consistent X (with_normalized_service_endpoints X (builder_document (ex_builder r) (DidString ''did:x:1'')))"
  by (auto simp: doc_consistent_def doc_vm_ids_def doc_relations_def relations_ok_def services_ok_def
    ex_builder_def builder_document_def builder_authentication_def builder_new_def
    builder_add_verification_method_def with_normalized_service_endpoints_def ex_vm_def
    canonicalize_id_def strip_prefix_def non_empty_def)

theorem builder_build_equiv_witness:
  "is_ok (create_did_document ref_crates (builder_params (ex_builder ''#k''))) \<and>
   \<not> is_ok (builder_build ref_crates (ex_builder ''#k'')) \<and>
   is_ok (builder_build ref_crates (ex_builder ''did:x:1#k''))"
proof -
  have i: "b_id (ex_builder r) = ''did:x:1''" for r
    by (simp add: ex_builder_def builder_authentication_def builder_new_def
      builder_add_verification_method_def)
  have c: "is_ok (create_did_document ref_crates (builder_params (ex_builder r)))"
    if "r = ''#k'' \<or> r = ''did:x:1#k''" for r
    using ex_builder_consistent [OF that]
    by (simp add: create_builder_params i ex_did_ok is_ok_iff result_simps validate_iff)
  have refs: "(\<forall>q\<in>set (builder_relations (ex_builder r)). \<forall>i\<in>set (snd q).
      i \<in> vm_id ` set (b_verification_method (ex_builder r))) \<longleftrightarrow> r = ''did:x:1#k''" for r
    by (simp add: builder_relations_def ex_builder_def builder_authentication_def builder_new_def
      builder_add_verification_method_def ex_vm_def)
  show ?thesis
    using c [of "''#k''"] c [of "''did:x:1#k''"] builder_build_equiv [of ref_crates "ex_builder ''#k''"]
      builder_build_equiv [of ref_crates "ex_builder ''did:x:1#k''"] refs [of "''#k''"] refs [of "''did:x:1#k''"]
    by (auto simp: is_ok_iff)
qed

text \<open>
  C10. Whatever the builder builds, or \<open>create_did_document\<close> creates, or \<open>parse_did_document\<close> reads, is
  a consistent document, with the endpoints as they are in it; what the builder builds also has a
  well-formed subject.
\<close>

theorem created_documents_consistent:
  "(builder_build X b = Inr d \<longrightarrow> doc_consistent X d \<and> is_did_string (did_string_str (doc_id d))) \<and>
   (create_did_document X p = Inr d \<longrightarrow> doc_consistent X d \<and> is_did_string (did_string_str (doc_id d))) \<and>
   (parse_did_document X from_value j = Inr d \<longrightarrow> doc_consistent X d)"
proof -
  have create: "doc_consistent X d \<and> is_did_string (did_string_str (doc_id d))"
    if "create_did_document X q = Inr d" for q
    using that by (auto simp: create_did_document_def Let_def result_simps validate_iff did_string_parse_iff)
  have "parse_did_document X from_value j = Inr d \<Longrightarrow> doc_consistent X d"
    by (auto simp: parse_did_document_def result_simps validate_iff)
  with create show ?thesis by (auto simp: builder_build_iff)
qed

theorem created_documents_consistent_witness:
  "\<exists>d. builder_build ref_crates (ex_builder ''did:x:1#k'') = Inr d \<and> doc_consistent ref_crates d"
proof -
  have "b_id (ex_builder ''did:x:1#k'') = ''did:x:1''"
    by (simp add: ex_builder_def builder_authentication_def builder_new_def
      builder_add_verification_method_def)
  moreover have "builder_references_ok (ex_builder ''did:x:1#k'')"
    by (simp add: builder_references_ok_def builder_relations_def ex_builder_def
      builder_authentication_def builder_new_def builder_add_verification_method_def ex_vm_def)
  ultimately obtain d where "builder_build ref_crates (ex_builder ''did:x:1#k'') = Inr d"
    using ex_builder_consistent [of "''did:x:1#k''" ref_crates]
    by (auto simp: builder_build_iff create_builder_params ex_did_ok result_simps validate_iff)
  then show ?thesis using created_documents_consistent [of ref_crates "ex_builder ''did:x:1#k''" d]
    by blast
qed

section \<open>Verification methods and services\<close>

lemma vm_new_iff:
  assumes "base64_ok X"
  shows "vm_new X n = Inr vm \<longleftrightarrow>
    vm = \<lparr>vm_id = DidKeyId (nvm_id n), vm_type = nvm_type n, vm_controller = DidString (nvm_controller n),
          vm_public_key_jwk = nvm_public_key_jwk n\<rparr> \<and>
    is_did_key_id X (nvm_id n) \<and> is_did_string (nvm_controller n) \<and>
    jwk_profile X (nvm_public_key_jwk n)"
  by (auto simp: vm_new_def Let_def result_simps did_key_id_parse_iff did_string_parse_iff
    vm_validate_def jwk_collect_issues_Nil [OF assms])

lemma service_new_iff:
  "service_new X n = Inr s \<longleftrightarrow>
     s = \<lparr>svc_id = ns_id n, svc_type = ns_type n,
          svc_endpoint = normalize_service_endpoint X (ns_endpoint n)\<rparr> \<and>
     (is_did_url (ns_id n) \<or> is_relative_reference X (ns_id n)) \<and>
     ns_type n \<noteq> TypeOne [] \<and> ns_type n \<noteq> TypeMany []"
  by (cases "ns_type n") (auto simp: service_new_def Let_def result_simps service_validate_def)

text \<open>
  \<open>VerificationMethod::new\<close> accepts exactly a key id with a key fragment, a bare DID as controller
  and a JWK of its profile, and stores them unchanged.
\<close>

theorem vm_new_exact:
  assumes "base64_ok X"
  shows "vm_new X n = Inr vm \<longleftrightarrow>
    did_key_id_str (vm_id vm) = nvm_id n \<and> did_string_str (vm_controller vm) = nvm_controller n \<and>
    vm_type vm = nvm_type n \<and> vm_public_key_jwk vm = nvm_public_key_jwk n \<and>
    (is_did_url (nvm_id n) \<or> is_relative_reference X (nvm_id n)) \<and>
    is_key_fragment (extract_key_fragment (nvm_id n)) \<and>
    is_did_string (nvm_controller n) \<and> jwk_profile X (nvm_public_key_jwk n)"
proof -
  have "vm = \<lparr>vm_id = DidKeyId i, vm_type = t, vm_controller = DidString c, vm_public_key_jwk = j\<rparr> \<longleftrightarrow>
    did_key_id_str (vm_id vm) = i \<and> did_string_str (vm_controller vm) = c \<and> vm_type vm = t \<and>
    vm_public_key_jwk vm = j" for i t c j
    by (cases vm; cases "vm_id vm"; cases "vm_controller vm") auto
  then show ?thesis by (auto simp: vm_new_iff [OF assms] is_did_key_id_def)
qed

theorem vm_new_exact_witness:
  "vm_new ref_crates \<lparr>nvm_id = ''did:x:1#k'', nvm_type = JsonWebKey, nvm_controller = ''did:x:1'',
     nvm_public_key_jwk = ex_jwk\<rparr> = Inr (ex_vm ''did:x:1#k'')"
  using vm_new_exact [OF ref_crates_ok(1), of "\<lparr>nvm_id = ''did:x:1#k'', nvm_type = JsonWebKey,
      nvm_controller = ''did:x:1'', nvm_public_key_jwk = ex_jwk\<rparr>" "ex_vm ''did:x:1#k''"]
  by (simp add: ex_vm_def ex_jwk_profile is_did_string_def is_did_url_def is_key_fragment_def
    key_fragment_char_def extract_key_fragment_def strip_prefix_def starts_with_def ascii_defs code_of_def)

section \<open>The two endpoint normalisers agree\<close>

lemma normalize_endpoint_value_eq: "normalize_endpoint_value X j = normalize_unknown X j"
  by (induction X j rule: normalize_endpoint_value.induct) auto

lemma normalize_endpoint_map_eq:
  "bt_keys_sorted m \<Longrightarrow> normalize_endpoint_map X m = map (\<lambda>(k, v). (k, normalize_unknown X v)) m"
  unfolding normalize_endpoint_map_def normalize_endpoint_value_eq
  by (rule bt_collect_sorted) (simp add: bt_keys_sorted_def comp_def case_prod_unfold)

lemma entry_value_normalize:
  "json_ok (entry_value e) \<Longrightarrow>
     entry_value (normalize_endpoint_entry X e) = normalize_unknown X (entry_value e)"
  by (cases e) (simp_all add: normalize_endpoint_map_eq)

text \<open>
  The endpoint normaliser of \<open>did_document.rs\<close> and the JSON walk of \<open>uri.rs\<close> are the same function:
  normalising a service endpoint normalises each of its values, and these stay values of the crate.
\<close>

theorem normalize_service_endpoint_values:
  assumes "list_all json_ok (endpoint_values e)"
  shows "endpoint_values (normalize_service_endpoint X e) =
      map (normalize_service_endpoint_value X) (endpoint_values e) \<and>
    list_all json_ok (endpoint_values (normalize_service_endpoint X e))"
proof -
  have "endpoint_values (normalize_service_endpoint X e) =
      map (normalize_service_endpoint_value X) (endpoint_values e)"
    using assms
    by (cases e) (auto simp: normalize_service_endpoint_value_def normalize_endpoint_map_eq
      list_all_iff entry_value_normalize)
  then show ?thesis using assms
    by (simp add: list_all_iff normalize_service_endpoint_value_def normalize_unknown_ok)
qed

theorem normalize_service_endpoint_values_witness:
  "endpoint_values (normalize_service_endpoint X (EndpointArray [EntryUri ''did:x:1'', EntryObject [(''a'', JNull)]]))
     = [JString ''did:x:1'', JObject [(''a'', JNull)]]"
  using normalize_service_endpoint_values [of "EndpointArray [EntryUri ''did:x:1'', EntryObject [(''a'', JNull)]]" X]
  by (simp add: normalize_service_endpoint_value_def normalize_uri_string_def extract_scheme_def
    known_schemes_def ascii_defs code_of_def to_ascii_lowercase_def to_lower_char_def)

end
