(* ===== verification/Midnight_Did.thy ===== *)
theory Midnight_Did
  imports Did_Doc
begin

text \<open>
  \<open>midnight-did-method/src\<close>: \<open>hex_ext.rs\<close> (64-digit hexadecimal of 32-byte hashes), \<open>midnight_did.rs\<close>
  (the \<open>did:midnight\<close> syntax) and \<open>network_mapping.rs\<close> (runtime and domain networks). A \<open>HashOutput\<close>
  and a \<open>ContractAddress\<close>, both \<open>[u8; 32]\<close>, are byte lists; where the length matters it is a hypothesis.
\<close>

section \<open>Hexadecimal hashes\<close>

datatype parse_hex_error = WrongLength nat | InvalidHex string

definition hash_from_hex :: "crates \<Rightarrow> string \<Rightarrow> parse_hex_error + bytes" where
  "hash_from_hex X s =
     (if length s \<noteq> 64 then Inl (WrongLength (length s))
      else map_err InvalidHex (hex_decode_to_slice X s 32))"

definition hash_to_hex :: "crates \<Rightarrow> bytes \<Rightarrow> string" where
  "hash_to_hex X h = hex_encode X h"

definition contract_from_hex :: "crates \<Rightarrow> string \<Rightarrow> parse_hex_error + bytes" where
  "contract_from_hex X s = hash_from_hex X s"

definition contract_to_hex :: "crates \<Rightarrow> bytes \<Rightarrow> string" where
  "contract_to_hex X a = hash_to_hex X a"

section \<open>The DID syntax\<close>

datatype midnight_network =
  Undeployed | DevNet | Testnet | Mainnet | Preview | Preprod | Offchain

fun as_wire_str :: "midnight_network \<Rightarrow> string" where
  "as_wire_str Undeployed = ''undeployed''"
| "as_wire_str DevNet = ''devnet''"
| "as_wire_str Testnet = ''testnet''"
| "as_wire_str Mainnet = ''mainnet''"
| "as_wire_str Preview = ''preview''"
| "as_wire_str Preprod = ''preprod''"
| "as_wire_str Offchain = ''offchain''"

definition from_wire_str :: "string \<Rightarrow> midnight_network option" where
  "from_wire_str v =
     (if v = ''undeployed'' then Some Undeployed
      else if v = ''devnet'' then Some DevNet
      else if v = ''testnet'' then Some Testnet
      else if v = ''mainnet'' then Some Mainnet
      else if v = ''preview'' then Some Preview
      else if v = ''preprod'' then Some Preprod
      else if v = ''offchain'' then Some Offchain
      else None)"

datatype midnight_subject_id = ContractSubject bytes | OffchainSubject bytes

fun subject_to_hex :: "crates \<Rightarrow> midnight_subject_id \<Rightarrow> string" where
  "subject_to_hex X (ContractSubject c) = contract_to_hex X c"
| "subject_to_hex X (OffchainSubject h) = hash_to_hex X h"

datatype midnight_did_string = MidnightDidString (midnight_did_str: string)

datatype midnight_did_error =
    BadContractAddress
  | BadOffchainStateHash
  | BadFormat
  | UnknownNetwork
  | BadMethodSpecificId
  | OffchainNotLowercase
  | BadOffchainStateEncoding

definition is_hex64 :: "string \<Rightarrow> bool" where
  "is_hex64 s \<longleftrightarrow> length s = 64 \<and> list_all is_ascii_hexdigit s"

definition is_lowercase_hex64 :: "string \<Rightarrow> bool" where
  "is_lowercase_hex64 s \<longleftrightarrow>
     length s = 64 \<and>
     list_all (\<lambda>c. is_ascii_digit c \<or> (97 \<le> code_of c \<and> code_of c \<le> 102)) s"

definition is_base64url_segment :: "string \<Rightarrow> bool" where
  "is_base64url_segment s \<longleftrightarrow>
     s \<noteq> [] \<and> list_all (\<lambda>b. is_ascii_alphanumeric b \<or> b = CHR ''-'' \<or> b = CHR ''_'') s \<and>
     length s mod 4 \<noteq> 1"

definition parse_contract_address :: "crates \<Rightarrow> string \<Rightarrow> midnight_did_error + bytes" where
  "parse_contract_address X input =
     (if \<not> is_hex64 input then Inl BadContractAddress
      else (let lower = to_ascii_lowercase input
            in map_err (\<lambda>_. BadContractAddress) (contract_from_hex X lower)))"

definition parse_offchain_state_hash :: "crates \<Rightarrow> string \<Rightarrow> midnight_did_error + bytes" where
  "parse_offchain_state_hash X input =
     (if \<not> is_lowercase_hex64 input then Inl BadOffchainStateHash
      else map_err (\<lambda>_. BadOffchainStateHash) (hash_from_hex X input))"

definition create_midnight_did_string :: "string \<Rightarrow> midnight_network \<Rightarrow> midnight_did_string" where
  "create_midnight_did_string i network =
     MidnightDidString (''did:midnight:'' @ as_wire_str network @ '':'' @ i)"

text \<open>\<open>parts.get(i).copied().unwrap_or("")\<close>.\<close>

definition part :: "string list \<Rightarrow> nat \<Rightarrow> string" where
  "part parts i = (if i < length parts then parts ! i else [])"

definition parse_midnight_did_string :: "string \<Rightarrow> midnight_did_error + midnight_did_string" where
  "parse_midnight_did_string input =
     (if \<not> starts_with input ''did:midnight:'' then Inl BadFormat
      else
        let parts = split_on (CHR '':'') input;
            net = part parts 2
        in if (if net = ''offchain'' then length parts \<noteq> 4 \<and> length parts \<noteq> 5 else length parts \<noteq> 4)
           then Inl BadFormat
           else res_bind (ok_or UnknownNetwork (from_wire_str net)) (\<lambda>_.
             let identifier = part parts 3
             in if \<not> is_hex64 identifier then Inl BadMethodSpecificId
                else if net = ''offchain'' \<and> \<not> is_lowercase_hex64 identifier
                then Inl OffchainNotLowercase
                else if net = ''offchain'' \<and> 4 < length parts \<and> \<not> is_base64url_segment (parts ! 4)
                then Inl BadOffchainStateEncoding
                else Inr (MidnightDidString input)))"

definition parse_midnight_did ::
    "crates \<Rightarrow> midnight_did_string \<Rightarrow> midnight_did_error + midnight_network \<times> midnight_subject_id" where
  "parse_midnight_did X did =
     (let parts = split_on (CHR '':'') (midnight_did_str did);
          net = part parts 2;
          id_str = part parts 3
      in res_bind (ok_or UnknownNetwork (from_wire_str net)) (\<lambda>network.
           res_bind
             (if network = Offchain
              then res_bind (map_err (\<lambda>_. BadOffchainStateHash) (hash_from_hex X id_str))
                     (\<lambda>h. Inr (OffchainSubject h))
              else res_bind
                     (map_err (\<lambda>_. BadContractAddress) (contract_from_hex X (to_ascii_lowercase id_str)))
                     (\<lambda>a. Inr (ContractSubject a)))
             (\<lambda>subject. Inr (network, subject))))"

section \<open>Networks\<close>

datatype runtime_network_id =
  RtUndeployed | RtDevNet | RtTestnet | RtMainnet | RtPreview | RtPreprod

fun runtime_as_str :: "runtime_network_id \<Rightarrow> string" where
  "runtime_as_str RtUndeployed = ''undeployed''"
| "runtime_as_str RtDevNet = ''devnet''"
| "runtime_as_str RtTestnet = ''testnet''"
| "runtime_as_str RtMainnet = ''mainnet''"
| "runtime_as_str RtPreview = ''preview''"
| "runtime_as_str RtPreprod = ''preprod''"

definition runtime_parse :: "string \<Rightarrow> runtime_network_id option" where
  "runtime_parse v =
     (if v = ''undeployed'' then Some RtUndeployed
      else if v = ''devnet'' then Some RtDevNet
      else if v = ''testnet'' then Some RtTestnet
      else if v = ''mainnet'' then Some RtMainnet
      else if v = ''preview'' then Some RtPreview
      else if v = ''preprod'' then Some RtPreprod
      else None)"

definition runtime_all :: "runtime_network_id list" where
  "runtime_all = [RtUndeployed, RtDevNet, RtTestnet, RtMainnet, RtPreview, RtPreprod]"

fun runtime_to_domain :: "runtime_network_id \<Rightarrow> midnight_network" where
  "runtime_to_domain RtUndeployed = Undeployed"
| "runtime_to_domain RtDevNet = DevNet"
| "runtime_to_domain RtTestnet = Testnet"
| "runtime_to_domain RtMainnet = Mainnet"
| "runtime_to_domain RtPreview = Preview"
| "runtime_to_domain RtPreprod = Preprod"

fun domain_to_runtime :: "midnight_network \<Rightarrow> runtime_network_id option" where
  "domain_to_runtime Undeployed = Some RtUndeployed"
| "domain_to_runtime DevNet = Some RtDevNet"
| "domain_to_runtime Testnet = Some RtTestnet"
| "domain_to_runtime Mainnet = Some RtMainnet"
| "domain_to_runtime Preview = Some RtPreview"
| "domain_to_runtime Preprod = Some RtPreprod"
| "domain_to_runtime Offchain = None"

definition runtime_to_domain_map :: "runtime_network_id \<Rightarrow> midnight_network" where
  "runtime_to_domain_map i = runtime_to_domain i"

definition domain_to_runtime_map :: "midnight_network \<Rightarrow> runtime_network_id option" where
  "domain_to_runtime_map n = domain_to_runtime n"

section \<open>Hexadecimal: lemmas\<close>

lemma hash_from_hex_Inr:
  assumes "hex_ok X"
  shows "hash_from_hex X s = Inr h \<longleftrightarrow> length h = 32 \<and> hex_decode X s = Inr h"
  using hex_crate.hex_slice [OF assms] hex_crate.hex_dec_length [OF assms, of s h]
  by (auto simp: hash_from_hex_def result_simps)

lemma hash_from_hex_is_ok:
  assumes "hex_ok X"
  shows "is_ok (hash_from_hex X s) \<longleftrightarrow> is_hex64 s"
proof
  assume "is_ok (hash_from_hex X s)"
  then obtain h where "length h = 32" "hex_decode X s = Inr h"
    by (auto simp: is_ok_iff hash_from_hex_Inr [OF assms])
  then show "is_hex64 s"
    using hex_crate.hex_dec_length [OF assms] hex_crate.hex_dec_ok [OF assms, of s]
    by (auto simp: is_hex64_def is_ok_iff)
next
  assume "is_hex64 s"
  then obtain h where "hex_decode X s = Inr h" "length h = 32"
    using hex_crate.hex_dec_exists [OF assms, of s 32] by (auto simp: is_hex64_def)
  then show "is_ok (hash_from_hex X s)" by (simp add: is_ok_iff hash_from_hex_Inr [OF assms])
qed

lemma to_lower_char_fix: "to_lower_char c = c \<longleftrightarrow> \<not> is_ascii_upper c"
proof
  assume c: "to_lower_char c = c"
  show "\<not> is_ascii_upper c"
  proof
    assume u: "is_ascii_upper c"
    then have "code_of (to_lower_char c) = code_of c + 32"
      by (simp add: to_lower_char_def is_ascii_upper_def)
    with c show False by simp
  qed
qed (simp add: to_lower_char_def)

lemma to_ascii_lowercase_fix: "to_ascii_lowercase s = s \<longleftrightarrow> (\<forall>c\<in>set s. \<not> is_ascii_upper c)"
  by (induction s) (auto simp: to_ascii_lowercase_def to_lower_char_fix)

lemma is_lowercase_hex64_iff: "is_lowercase_hex64 s \<longleftrightarrow> is_hex64 s \<and> to_ascii_lowercase s = s"
proof -
  have "is_ascii_digit c \<or> (97 \<le> code_of c \<and> code_of c \<le> 102) \<longleftrightarrow>
    is_ascii_hexdigit c \<and> \<not> is_ascii_upper c" for c
    unfolding ascii_defs by linarith
  then show ?thesis
    unfolding is_lowercase_hex64_def is_hex64_def to_ascii_lowercase_fix list_all_iff by blast
qed

lemma is_hex64_lower: "is_hex64 s \<Longrightarrow> is_lowercase_hex64 (to_ascii_lowercase s)"
  by (auto simp: is_lowercase_hex64_iff is_hex64_def list_all_iff to_ascii_lowercase_def hexdigit_to_lower)

lemma is_hex64_no_colon: "is_hex64 s \<Longrightarrow> CHR '':'' \<notin> set s"
  by (auto simp: is_hex64_def list_all_iff ascii_defs code_of_def)

lemma hash_to_hex64:
  assumes "hex_ok X" and "length h = 32"
  shows "is_lowercase_hex64 (hash_to_hex X h)"
  using hex_crate.hex_enc_digits [OF assms(1), of h] hex_crate.hex_enc_lower [OF assms(1), of h]
    hex_crate.hex_enc_length [OF assms(1), of h] assms(2)
  by (simp add: is_lowercase_hex64_iff is_hex64_def hash_to_hex_def)

lemma hash_from_to_hex:
  assumes "hex_ok X" and "length h = 32"
  shows "hash_from_hex X (hash_to_hex X h) = Inr h"
  using assms by (simp add: hash_from_hex_Inr hash_to_hex_def hex_crate.hex_dec_enc)

lemma hash_to_from_hex:
  assumes "hex_ok X" and "hash_from_hex X s = Inr h"
  shows "hash_to_hex X h = to_ascii_lowercase s"
  using assms hex_crate.hex_enc_dec by (fastforce simp: hash_from_hex_Inr hash_to_hex_def)

lemma hash_from_hex_lower:
  assumes "hex_ok X" and "hash_from_hex X s = Inr h"
  shows "hash_from_hex X (to_ascii_lowercase s) = Inr h"
  using assms hex_crate.hex_dec_lower by (fastforce simp: hash_from_hex_Inr)

text \<open>
  \<open>from_hex\<close> and \<open>to_hex\<close> are inverse on 32-byte hashes up to letter case: \<open>from_hex\<close> succeeds on
  exactly the 64-digit strings, reads back what \<open>to_hex\<close> printed, and \<open>to_hex\<close> prints the lower-case
  form of what was read; a string of another length is reported with its length.
\<close>

theorem hash_hex_roundtrip:
  assumes "hex_ok X" and "length h = 32"
  shows "hash_from_hex X (hash_to_hex X h) = Inr h \<and> is_lowercase_hex64 (hash_to_hex X h) \<and>
    (is_ok (hash_from_hex X s) \<longleftrightarrow> is_hex64 s) \<and>
    (hash_from_hex X s = Inr h \<longrightarrow> hash_to_hex X h = to_ascii_lowercase s) \<and>
    (hash_from_hex X s = Inl (WrongLength n) \<longleftrightarrow> n = length s \<and> n \<noteq> 64)"
proof (intro conjI impI)
  show "hash_from_hex X (hash_to_hex X h) = Inr h" by (rule hash_from_to_hex [OF assms])
  show "is_lowercase_hex64 (hash_to_hex X h)" by (rule hash_to_hex64 [OF assms])
  show "is_ok (hash_from_hex X s) \<longleftrightarrow> is_hex64 s" by (rule hash_from_hex_is_ok [OF assms(1)])
  show "hash_from_hex X s = Inr h \<Longrightarrow> hash_to_hex X h = to_ascii_lowercase s"
    by (rule hash_to_from_hex [OF assms(1)])
  show "hash_from_hex X s = Inl (WrongLength n) \<longleftrightarrow> n = length s \<and> n \<noteq> 64"
    by (cases "length s = 64") (auto simp: hash_from_hex_def result_simps)
qed

theorem hash_hex_roundtrip_witness:
  "hash_from_hex ref_crates (hash_to_hex ref_crates (replicate 32 171)) = Inr (replicate 32 171)"
  using hash_hex_roundtrip [OF ref_crates_ok(2), of "replicate 32 171"] by simp

section \<open>The DID grammar\<close>

lemma from_wire_str_iff: "from_wire_str v = Some n \<longleftrightarrow> v = as_wire_str n"
  by (cases n) (auto simp: from_wire_str_def)

lemma wire_str_eq_offchain: "as_wire_str n = ''offchain'' \<longleftrightarrow> n = Offchain"
  by (cases n) simp_all

lemma wire_str_no_colon: "CHR '':'' \<notin> set (as_wire_str n)"
  by (cases n) simp_all

lemma base64url_segment_no_colon: "is_base64url_segment s \<Longrightarrow> CHR '':'' \<notin> set s"
  by (auto simp: is_base64url_segment_def list_all_iff ascii_defs code_of_def)

lemma split_did_midnight:
  "split_on (CHR '':'') (''did:midnight:'' @ t) = ''did'' # ''midnight'' # split_on (CHR '':'') t"
  by simp

lemma split_four:
  "is_hex64 i \<Longrightarrow> split_on (CHR '':'') (''did:midnight:'' @ as_wire_str n @ CHR '':'' # i) =
     [''did'', ''midnight'', as_wire_str n, i]"
  unfolding split_did_midnight by (simp add: wire_str_no_colon is_hex64_no_colon)

lemma split_five:
  "is_hex64 i \<Longrightarrow> is_base64url_segment st \<Longrightarrow>
     split_on (CHR '':'') (''did:midnight:'' @ as_wire_str n @ CHR '':'' # i @ CHR '':'' # st) =
       [''did'', ''midnight'', as_wire_str n, i, st]"
  unfolding split_did_midnight
  by (simp add: wire_str_no_colon is_hex64_no_colon base64url_segment_no_colon)

text \<open>The texts the parser accepts: short form of any network, long form off chain.\<close>

definition short_form :: "midnight_network \<Rightarrow> string \<Rightarrow> string" where
  "short_form n i = ''did:midnight:'' @ as_wire_str n @ '':'' @ i"

definition long_form :: "string \<Rightarrow> string \<Rightarrow> string" where
  "long_form i st = short_form Offchain i @ '':'' @ st"

definition midnight_did_grammar :: "string \<Rightarrow> bool" where
  "midnight_did_grammar s \<longleftrightarrow>
     (\<exists>n i. s = short_form n i \<and> is_hex64 i \<and> (n = Offchain \<longrightarrow> is_lowercase_hex64 i)) \<or>
     (\<exists>i st. s = long_form i st \<and> is_lowercase_hex64 i \<and> is_base64url_segment st)"

lemma split_short_form:
  "is_hex64 i \<Longrightarrow> split_on (CHR '':'') (short_form n i) = [''did'', ''midnight'', as_wire_str n, i]"
  using split_four [of i n] by (simp only: short_form_def append_Cons append_Nil)

lemma split_long_form:
  "is_hex64 i \<Longrightarrow> is_base64url_segment st \<Longrightarrow>
     split_on (CHR '':'') (long_form i st) = [''did'', ''midnight'', ''offchain'', i, st]"
  using split_five [of i st Offchain]
  by (simp only: long_form_def short_form_def append_Cons append_Nil append_assoc as_wire_str.simps)

lemma starts_short_form: "starts_with (short_form n i) ''did:midnight:''"
  unfolding short_form_def by (rule starts_with_append)

lemma starts_long_form: "starts_with (long_form i st) ''did:midnight:''"
  unfolding long_form_def short_form_def append_assoc by (rule starts_with_append)

lemma parse_accepts_short:
  assumes "is_hex64 i" and "n = Offchain \<longrightarrow> is_lowercase_hex64 i"
  shows "parse_midnight_did_string (short_form n i) = Inr (MidnightDidString (short_form n i))"
  using assms starts_short_form [of n i]
  by (simp add: parse_midnight_did_string_def split_short_form [OF assms(1)] part_def
    from_wire_str_iff [THEN iffD2, OF refl] wire_str_eq_offchain Let_def)

lemma parse_accepts_long:
  assumes "is_lowercase_hex64 i" and "is_base64url_segment st"
  shows "parse_midnight_did_string (long_form i st) = Inr (MidnightDidString (long_form i st))"
proof -
  have i: "is_hex64 i" using assms(1) by (simp add: is_lowercase_hex64_iff)
  show ?thesis
    using assms starts_long_form [of i st] i
    by (simp add: parse_midnight_did_string_def split_long_form [OF i assms(2)] part_def
      from_wire_str_def Let_def)
qed

lemma split_parts:
  assumes "starts_with s ''did:midnight:''" and "length (split_on (CHR '':'') s) = k"
  obtains ps where "split_on (CHR '':'') s = ''did'' # ''midnight'' # ps" and "length ps + 2 = k"
    and "s = ''did:midnight:'' @ join_with '':'' ps"
proof -
  from assms(1) obtain t where t: "s = ''did:midnight:'' @ t" by (auto simp: starts_with_iff)
  have "split_on (CHR '':'') s = ''did'' # ''midnight'' # split_on (CHR '':'') t"
    unfolding t by (rule split_did_midnight)
  then show ?thesis
  proof (rule that)
    show "length (split_on (CHR '':'') t) + 2 = k" using assms(2) unfolding t split_did_midnight by simp
    show "s = ''did:midnight:'' @ join_with '':'' (split_on (CHR '':'') t)"
      unfolding t join_split_on ..
  qed
qed

lemma parse_midnight_did_string_grammar:
  assumes "parse_midnight_did_string s = Inr d"
  shows "d = MidnightDidString s \<and> midnight_did_grammar s"
proof -
  let ?ps = "split_on (CHR '':'') s"
  from assms have st: "starts_with s ''did:midnight:''"
    by (simp add: parse_midnight_did_string_def split: if_splits)
  from assms st obtain n where len: "length ?ps = 4 \<or> length ?ps = 5 \<and> part ?ps 2 = ''offchain''"
    and n: "from_wire_str (part ?ps 2) = Some n" and i: "is_hex64 (part ?ps 3)"
    and low: "part ?ps 2 = ''offchain'' \<longrightarrow> is_lowercase_hex64 (part ?ps 3)"
    and seg: "part ?ps 2 = ''offchain'' \<longrightarrow> 4 < length ?ps \<longrightarrow> is_base64url_segment (?ps ! 4)"
    and d: "d = MidnightDidString s"
    by (auto simp: parse_midnight_did_string_def Let_def result_simps split: if_splits)
  obtain ps where ps: "?ps = ''did'' # ''midnight'' # ps" "s = ''did:midnight:'' @ join_with '':'' ps"
    using split_parts [OF st refl] by blast
  from len have "midnight_did_grammar s"
  proof
    assume "length ?ps = 4"
    with ps(1) obtain a b where "ps = [a, b]" by (auto simp: length_Suc_conv numeral_eq_Suc)
    note ps = ps [unfolded this]
    have p: "part ?ps 2 = a" "part ?ps 3 = b" unfolding ps(1) by (simp_all add: part_def)
    have a: "a = as_wire_str n" using n by (simp add: p from_wire_str_iff)
    have "s = short_form n b" unfolding ps(2) a by (simp add: short_form_def)
    moreover have "is_hex64 b" "n = Offchain \<longrightarrow> is_lowercase_hex64 b"
      using i low unfolding p a wire_str_eq_offchain by simp_all
    ultimately show ?thesis unfolding midnight_did_grammar_def by blast
  next
    assume 5: "length ?ps = 5 \<and> part ?ps 2 = ''offchain''"
    with ps(1) obtain a b c where abc: "ps = [a, b, c]" by (auto simp: length_Suc_conv numeral_eq_Suc)
    with ps(1) 5 have a: "a = ''offchain''" by (simp add: part_def)
    have "s = long_form b c" unfolding ps(2) abc a by (simp add: long_form_def short_form_def)
    moreover have "is_lowercase_hex64 b" "is_base64url_segment c"
      using low seg 5 unfolding ps(1) abc by (simp_all add: part_def)
    ultimately show ?thesis unfolding midnight_did_grammar_def by blast
  qed
  with d show ?thesis by simp
qed

lemma parse_midnight_did_string_iff:
  "parse_midnight_did_string s = Inr d \<longleftrightarrow> d = MidnightDidString s \<and> midnight_did_grammar s"
  using parse_midnight_did_string_grammar [of s d] parse_accepts_short parse_accepts_long
  unfolding midnight_did_grammar_def by blast

text \<open>
  \<open>parse_midnight_did_string\<close> accepts exactly \<open>did:midnight:<network>:<64 hex digits>\<close>, lower case
  when the network is \<open>offchain\<close>, and for \<open>offchain\<close> also with one more base64url segment; it keeps the
  text.
\<close>

theorem parse_midnight_did_string_exact:
  "parse_midnight_did_string s = Inr d \<longleftrightarrow>
     d = MidnightDidString s \<and>
     ((\<exists>n i. s = ''did:midnight:'' @ as_wire_str n @ '':'' @ i \<and>
         (if n = Offchain then is_lowercase_hex64 i else is_hex64 i)) \<or>
      (\<exists>i st. s = ''did:midnight:offchain:'' @ i @ '':'' @ st \<and> is_lowercase_hex64 i \<and>
         is_base64url_segment st))"
proof -
  have "is_lowercase_hex64 i \<Longrightarrow> is_hex64 i" for i by (simp add: is_lowercase_hex64_iff)
  then have "(if n = Offchain then is_lowercase_hex64 i else is_hex64 i) \<longleftrightarrow>
      is_hex64 i \<and> (n = Offchain \<longrightarrow> is_lowercase_hex64 i)" for n i by auto
  then show ?thesis
    unfolding parse_midnight_did_string_iff midnight_did_grammar_def long_form_def short_form_def
    by auto
qed

section \<open>Decomposition\<close>

lemma parse_midnight_did_short:
  assumes "hex_ok X" and "is_hex64 i" and "n = Offchain \<longrightarrow> is_lowercase_hex64 i"
  shows "\<exists>subj h. parse_midnight_did X (MidnightDidString (short_form n i)) = Inr (n, subj) \<and>
    subj = (if n = Offchain then OffchainSubject h else ContractSubject h) \<and>
    length h = 32 \<and> hash_to_hex X h = to_ascii_lowercase i"
proof -
  obtain h where h: "hash_from_hex X i = Inr h"
    using hash_from_hex_is_ok [OF assms(1)] assms(2) by (auto simp: is_ok_iff)
  have "length h = 32" using h by (simp add: hash_from_hex_Inr [OF assms(1)])
  then show ?thesis
    using hash_to_from_hex [OF assms(1) h] hash_from_hex_lower [OF assms(1) h] h
    by (auto simp: parse_midnight_did_def split_short_form [OF assms(2)] part_def
      from_wire_str_iff [THEN iffD2, OF refl] contract_from_hex_def)
qed

lemma parse_midnight_did_long:
  assumes "hex_ok X" and "is_lowercase_hex64 i" and "is_base64url_segment st"
  shows "\<exists>h. parse_midnight_did X (MidnightDidString (long_form i st)) = Inr (Offchain, OffchainSubject h) \<and>
    length h = 32 \<and> hash_to_hex X h = i"
proof -
  have i: "is_hex64 i" "to_ascii_lowercase i = i" using assms(2) by (simp_all add: is_lowercase_hex64_iff)
  obtain h where h: "hash_from_hex X i = Inr h"
    using hash_from_hex_is_ok [OF assms(1)] i by (auto simp: is_ok_iff)
  have "length h = 32" using h by (simp add: hash_from_hex_Inr [OF assms(1)])
  then show ?thesis
    using hash_to_from_hex [OF assms(1) h] h i
    by (auto simp: parse_midnight_did_def split_long_form [OF i(1) assms(3)] part_def from_wire_str_def)
qed

text \<open>
  C39. Decomposition is total on parsed DIDs: it gives a network and a 32-byte subject of the matching
  kind, off chain exactly for the \<open>offchain\<close> network, and the DID starts with the short form of the
  two up to the case of the hex digits.
\<close>

theorem parse_midnight_did_total:
  assumes "hex_ok X" and "parse_midnight_did_string s = Inr d"
  shows "\<exists>n subj h. parse_midnight_did X d = Inr (n, subj) \<and> length h = 32 \<and>
    subj = (if n = Offchain then OffchainSubject h else ContractSubject h) \<and>
    (\<exists>rest. to_ascii_lowercase s =
       to_ascii_lowercase (midnight_did_str (create_midnight_did_string (subject_to_hex X subj) n)) @ rest)"
proof -
  from assms(2) have d: "d = MidnightDidString s" and g: "midnight_did_grammar s"
    by (simp_all add: parse_midnight_did_string_iff)
  have low: "to_ascii_lowercase (a @ b) = to_ascii_lowercase a @ to_ascii_lowercase b" for a b
    by (simp add: to_ascii_lowercase_def)
  have create: "midnight_did_str (create_midnight_did_string i n) = short_form n i" for i n
    by (simp add: create_midnight_did_string_def short_form_def)
  have sub: "subject_to_hex X (if n = Offchain then OffchainSubject h else ContractSubject h) = hash_to_hex X h"
    for n h by (simp add: contract_to_hex_def)
  from g show ?thesis unfolding midnight_did_grammar_def
  proof (elim disjE exE conjE)
    fix n i
    assume s: "s = short_form n i" "is_hex64 i" "n = Offchain \<longrightarrow> is_lowercase_hex64 i"
    from parse_midnight_did_short [OF assms(1) s(2,3)] obtain h
      where h: "parse_midnight_did X (MidnightDidString (short_form n i)) =
        Inr (n, if n = Offchain then OffchainSubject h else ContractSubject h)"
        "length h = 32" "hash_to_hex X h = to_ascii_lowercase i" by blast
    have "to_ascii_lowercase s = to_ascii_lowercase (short_form n (hash_to_hex X h)) @ []"
      unfolding s(1) short_form_def low h(3) to_ascii_lowercase_idem append_Nil2 ..
    then have "\<exists>rest. to_ascii_lowercase s = to_ascii_lowercase (short_form n (hash_to_hex X h)) @ rest"
      by (rule exI)
    with h show ?thesis
      by (intro exI [of _ n] exI [of _ "if n = Offchain then OffchainSubject h else ContractSubject h"]
        exI [of _ h] conjI) (simp_all only: d s(1) create sub)
  next
    fix i st
    assume s: "s = long_form i st" "is_lowercase_hex64 i" "is_base64url_segment st"
    from parse_midnight_did_long [OF assms(1) s(2,3)] obtain h
      where h: "parse_midnight_did X (MidnightDidString (long_form i st)) = Inr (Offchain, OffchainSubject h)"
        "length h = 32" "hash_to_hex X h = i" by blast
    have "to_ascii_lowercase s = to_ascii_lowercase (short_form Offchain (hash_to_hex X h)) @
        to_ascii_lowercase ('':'' @ st)"
      unfolding s(1) long_form_def low h(3) ..
    then have "\<exists>rest. to_ascii_lowercase s = to_ascii_lowercase (short_form Offchain (hash_to_hex X h)) @ rest"
      by (rule exI)
    with h show ?thesis
      by (intro exI [of _ Offchain] exI [of _ "OffchainSubject h"] exI [of _ h] conjI)
        (simp_all only: d s(1) create subject_to_hex.simps simp_thms if_True)
  qed
qed

theorem parse_midnight_did_total_witness:
  "\<exists>n subj. parse_midnight_did ref_crates
     (MidnightDidString (short_form DevNet (replicate 64 (CHR ''c'')))) = Inr (n, subj)"
proof -
  have "is_hex64 (replicate 64 (CHR ''c''))"
    by (simp add: is_hex64_def list_all_iff ascii_defs code_of_def)
  then have "parse_midnight_did_string (short_form DevNet (replicate 64 (CHR ''c''))) =
    Inr (MidnightDidString (short_form DevNet (replicate 64 (CHR ''c''))))"
    by (intro parse_accepts_short) simp_all
  from parse_midnight_did_total [OF ref_crates_ok(2) this] show ?thesis by blast
qed

text \<open>
  A DID created from a network and the hex form of a 32-byte subject parses, and decomposes into the
  same network and subject.
\<close>

theorem create_parse_midnight_did:
  assumes "hex_ok X" and "length h = 32"
  shows "parse_midnight_did_string (midnight_did_str (create_midnight_did_string (hash_to_hex X h) n)) =
      Inr (create_midnight_did_string (hash_to_hex X h) n) \<and>
    parse_midnight_did X (create_midnight_did_string (hash_to_hex X h) n) =
      Inr (n, if n = Offchain then OffchainSubject h else ContractSubject h)"
proof -
  have low: "is_lowercase_hex64 (hash_to_hex X h)" by (rule hash_to_hex64 [OF assms])
  then have i: "is_hex64 (hash_to_hex X h)" "to_ascii_lowercase (hash_to_hex X h) = hash_to_hex X h"
    by (simp_all add: is_lowercase_hex64_iff)
  have c: "create_midnight_did_string (hash_to_hex X h) n = MidnightDidString (short_form n (hash_to_hex X h))"
    by (simp add: create_midnight_did_string_def short_form_def)
  have "parse_midnight_did X (MidnightDidString (short_form n (hash_to_hex X h))) =
      Inr (n, if n = Offchain then OffchainSubject h else ContractSubject h)"
    using hash_from_to_hex [OF assms] i
    by (simp add: parse_midnight_did_def split_short_form part_def
      from_wire_str_iff [THEN iffD2, OF refl] contract_from_hex_def)
  with parse_accepts_short [OF i(1), of n] low show ?thesis by (simp add: c)
qed

theorem create_parse_midnight_did_witness:
  "parse_midnight_did ref_crates (create_midnight_did_string (hash_to_hex ref_crates (replicate 32 5)) Testnet) =
     Inr (Testnet, ContractSubject (replicate 32 5))"
  using create_parse_midnight_did [OF ref_crates_ok(2), of "replicate 32 5" Testnet] by simp

text \<open>
  The network tables are consistent: runtime ids map injectively to domain networks and back, with
  \<open>offchain\<close> the only domain network without a runtime id; both sides use the same wire names, and the
  wire names parse back.
\<close>

theorem network_tables_consistent:
  "(domain_to_runtime n = Some r \<longleftrightarrow> runtime_to_domain r = n) \<and>
   (domain_to_runtime n = None \<longleftrightarrow> n = Offchain) \<and>
   as_wire_str (runtime_to_domain r) = runtime_as_str r \<and>
   (from_wire_str v = Some n \<longleftrightarrow> v = as_wire_str n) \<and>
   (runtime_parse v = Some r \<longleftrightarrow> v = runtime_as_str r) \<and>
   set runtime_all = UNIV"
proof (intro conjI)
  show "domain_to_runtime n = Some r \<longleftrightarrow> runtime_to_domain r = n" by (cases n; cases r) simp_all
  show "domain_to_runtime n = None \<longleftrightarrow> n = Offchain" by (cases n) simp_all
  show "as_wire_str (runtime_to_domain r) = runtime_as_str r" by (cases r) simp_all
  show "from_wire_str v = Some n \<longleftrightarrow> v = as_wire_str n" by (rule from_wire_str_iff)
  show "runtime_parse v = Some r \<longleftrightarrow> v = runtime_as_str r"
    by (cases r) (auto simp: runtime_parse_def)
  show "set runtime_all = UNIV"
    by (auto simp: runtime_all_def) (metis runtime_network_id.exhaust)
qed

end
