(* ===== verification/Backends.thy ===== *)
theory Backends
  imports Contract_Call Midnight_Did
begin

text \<open>
  \<open>midnight-did-runtime/src/backend.rs\<close> and \<open>contract_wrapper.rs\<close>: the \<open>Backend\<close> trait as a record of
  its three methods over an explicit state, its recording and read-only implementations, and the
  methods of \<open>Contract<B>\<close>. The methods take \<open>&self\<close> and keep their state behind a mutex: here they
  return the new state. \<open>LiveBackend\<close> is a placeholder whose methods panic, and is modelled as that.
\<close>

section \<open>State passing\<close>

text \<open>An operation that may fail and changes a state, and the \<open>?\<close> operator on it.\<close>

type_synonym ('w, 'e, 'a) io = "'w \<Rightarrow> ('e + 'a) \<times> 'w"

definition io_lift :: "'e + 'a \<Rightarrow> ('w, 'e, 'a) io" where
  "io_lift r w = (r, w)"

definition io_bind :: "('w, 'e, 'a) io \<Rightarrow> ('a \<Rightarrow> ('w, 'e, 'b) io) \<Rightarrow> ('w, 'e, 'b) io" where
  "io_bind m f w = (case m w of (Inl e, w') \<Rightarrow> (Inl e, w') | (Inr a, w') \<Rightarrow> f a w')"

definition io_map_err :: "('e \<Rightarrow> 'd) \<Rightarrow> ('w, 'e, 'a) io \<Rightarrow> ('w, 'd, 'a) io" where
  "io_map_err g m w = (case m w of (r, w') \<Rightarrow> (map_err g r, w'))"

lemma io_bind_lift [simp]:
  "io_bind (io_lift (Inl e)) f w = (Inl e, w)"
  "io_bind (io_lift (Inr a)) f w = f a w"
  by (simp_all add: io_bind_def io_lift_def)

lemma io_bind_Inr_iff:
  "io_bind m f w = (Inr b, w'') \<longleftrightarrow> (\<exists>a w'. m w = (Inr a, w') \<and> f a w' = (Inr b, w''))"
  by (auto simp: io_bind_def split: prod.splits sum.splits)

lemma io_bind_cases:
  assumes "io_bind m f w = (r, w'')"
  obtains e where "m w = (Inl e, w'')" and "r = Inl e"
  | a w' where "m w = (Inr a, w')" and "f a w' = (r, w'')"
  using assms by (auto simp: io_bind_def split: prod.splits sum.splits)

lemma io_bind_assoc: "io_bind (io_bind m f) g = io_bind m (\<lambda>x. io_bind (f x) g)"
  by (rule ext) (auto simp: io_bind_def split: prod.splits sum.splits)

lemma io_bind_lift_right [simp]: "io_bind m (\<lambda>x. io_lift (Inr x)) = m"
  by (rule ext) (auto simp: io_bind_def io_lift_def split: prod.splits sum.splits)

lemma io_bind_lift_left [simp]:
  "io_bind (io_lift (Inr a)) f = f a" "io_bind (io_lift (Inl e)) f = io_lift (Inl e)"
  by (simp_all add: fun_eq_iff io_bind_def io_lift_def)

lemma io_map_err_iff:
  "io_map_err g m w = (Inr a, w') \<longleftrightarrow> m w = (Inr a, w')"
  "io_map_err g m w = (Inl d, w') \<longleftrightarrow> (\<exists>e. m w = (Inl e, w') \<and> d = g e)"
  by (auto simp: io_map_err_def result_simps split: prod.splits)

section \<open>The trait\<close>

record finalized_tx_data =
  tx_hash :: string
  block_height :: u64

text \<open>\<open>BuiltTx\<close> is its bytes. \<open>'raw\<close> stands for the upstream \<open>ChargedState\<close>, which is only cloned.\<close>

type_synonym built_tx = bytes

record ('b, 'raw) backend =
  submit_tx :: "built_tx \<Rightarrow> ('b, backend_error, finalized_tx_data) io"
  read_state :: "('b, backend_error, 'raw) io"
  read_snapshot :: "('b, backend_error, did_ledger_snapshot) io"

fun backend_error_text :: "backend_error \<Rightarrow> string" where
  "backend_error_text (Network m) = ''backend network failure: '' @ m"
| "backend_error_text (Decode m) = ''backend decode failure: '' @ m"
| "backend_error_text ReadOnly = ''backend is read-only''"
| "backend_error_text (Other m) = ''backend error: '' @ m"

section \<open>\<open>LiveBackend\<close>\<close>

text \<open>
  A placeholder: every method is a \<open>todo!\<close>. The error of the computation is the text of the panic; a
  method that returned would return its \<open>Result\<close> as the value.
\<close>

record live_backend =
  wallet_sdk :: unit
  proof_server :: unit
  indexer :: unit

definition live_new :: live_backend where
  "live_new = \<lparr>wallet_sdk = (), proof_server = (), indexer = ()\<rparr>"

definition todo_panic :: "string \<Rightarrow> ('w, string, 'a) io" where
  "todo_panic msg = io_lift (Inl (''not yet implemented: '' @ msg))"

definition live_submit :: "built_tx \<Rightarrow> (live_backend, string, backend_error + finalized_tx_data) io" where
  "live_submit tx = todo_panic ''LiveBackend: wire wallet+proof+indexer''"

definition live_read_state :: "(live_backend, string, backend_error + 'raw) io" where
  "live_read_state = todo_panic ''LiveBackend: wire wallet+proof+indexer''"

definition live_read_snapshot :: "(live_backend, string, backend_error + did_ledger_snapshot) io" where
  "live_read_snapshot = todo_panic ''LiveBackend: wire the Ledger -> DidLedgerSnapshot mapper''"

section \<open>\<open>RecordingBackend\<close>\<close>

record 'raw recording =
  rec_calls :: "did_contract_call list"
  rec_state :: 'raw
  rec_snapshot :: did_ledger_snapshot

text \<open>The argument \<open>st0\<close> is upstream's \<open>empty_charged_state\<close>.\<close>

definition recording_new :: "'raw \<Rightarrow> 'raw recording" where
  "recording_new st0 = \<lparr>rec_calls = [], rec_state = st0, rec_snapshot = snapshot_default\<rparr>"

definition recording_with_state :: "'raw \<Rightarrow> 'raw recording" where
  "recording_with_state st = \<lparr>rec_calls = [], rec_state = st, rec_snapshot = snapshot_default\<rparr>"

definition recording_with_snapshot :: "'raw \<Rightarrow> did_ledger_snapshot \<Rightarrow> 'raw recording" where
  "recording_with_snapshot st0 sn = \<lparr>rec_calls = [], rec_state = st0, rec_snapshot = sn\<rparr>"

definition recording_set_state :: "'raw \<Rightarrow> 'raw recording \<Rightarrow> 'raw recording" where
  "recording_set_state st b = b\<lparr>rec_state := st\<rparr>"

definition recording_set_snapshot :: "did_ledger_snapshot \<Rightarrow> 'raw recording \<Rightarrow> 'raw recording" where
  "recording_set_snapshot sn b = b\<lparr>rec_snapshot := sn\<rparr>"

definition synth_tx_hash :: "crates \<Rightarrow> bytes \<Rightarrow> string" where
  "synth_tx_hash X bs = hex_encode X (take 8 (blake2b512 X bs))"

text \<open>The height is \<open>calls.len() as u64\<close>, after the push.\<close>

definition recording_submit ::
    "crates \<Rightarrow> serde \<Rightarrow> built_tx \<Rightarrow> ('raw recording, backend_error, finalized_tx_data) io" where
  "recording_submit X S tx b =
     (case call_decode S tx of
        Inl e \<Rightarrow> (Inl e, b)
      | Inr call \<Rightarrow>
          let calls = rec_calls b @ [call] in
          (Inr \<lparr>tx_hash = synth_tx_hash X tx, block_height = word_of_nat (length calls)\<rparr>,
           b\<lparr>rec_calls := calls\<rparr>))"

definition recording_read_state :: "('raw recording, backend_error, 'raw) io" where
  "recording_read_state b = (Inr (rec_state b), b)"

definition recording_read_snapshot :: "('raw recording, backend_error, did_ledger_snapshot) io" where
  "recording_read_snapshot b = (Inr (rec_snapshot b), b\<lparr>rec_calls := rec_calls b @ [ReadLedger]\<rparr>)"

definition recording_backend :: "crates \<Rightarrow> serde \<Rightarrow> ('raw recording, 'raw) backend" where
  "recording_backend X S =
     \<lparr>submit_tx = recording_submit X S, read_state = recording_read_state,
      read_snapshot = recording_read_snapshot\<rparr>"

text \<open>\<open>fmt::Debug\<close> shows how many calls were recorded, and neither the calls nor the states.\<close>

definition recording_debug :: "'raw recording \<Rightarrow> string" where
  "recording_debug b =
     ''RecordingBackend { recorded_call_count: '' @ show_nat (length (rec_calls b)) @
     '', state: '' @ CHR 0x22 # ''<ChargedState<DefaultDB>>'' @ CHR 0x22 #
     '', snapshot: '' @ CHR 0x22 # ''<DidLedgerSnapshot>'' @ CHR 0x22 # '' }''"

section \<open>\<open>ResolverBackend\<close>\<close>

record 'raw resolver =
  res_state :: 'raw
  res_snapshot :: did_ledger_snapshot

definition resolver_new :: "'raw \<Rightarrow> 'raw resolver" where
  "resolver_new st = \<lparr>res_state = st, res_snapshot = snapshot_default\<rparr>"

definition resolver_with_snapshot :: "'raw \<Rightarrow> did_ledger_snapshot \<Rightarrow> 'raw resolver" where
  "resolver_with_snapshot st0 sn = \<lparr>res_state = st0, res_snapshot = sn\<rparr>"

definition resolver_backend :: "('raw resolver, 'raw) backend" where
  "resolver_backend =
     \<lparr>submit_tx = (\<lambda>tx b. (Inl ReadOnly, b)),
      read_state = (\<lambda>b. (Inr (res_state b), b)),
      read_snapshot = (\<lambda>b. (Inr (res_snapshot b), b))\<rparr>"

definition resolver_debug :: "'raw resolver \<Rightarrow> string" where
  "resolver_debug b =
     ''ResolverBackend { state: '' @ CHR 0x22 # ''<ChargedState<DefaultDB>>'' @ CHR 0x22 #
     '', snapshot: '' @ CHR 0x22 # ''<DidLedgerSnapshot>'' @ CHR 0x22 # '' }''"

section \<open>\<open>Contract<B>\<close>\<close>

record ('b, 'raw) contract =
  ct_backend :: "('b, 'raw) backend"
  ct_address :: bytes
  ct_network :: midnight_network

definition contract_address :: "crates \<Rightarrow> ('b, 'raw) contract \<Rightarrow> string" where
  "contract_address X c = contract_to_hex X (ct_address c)"

definition contract_read_snapshot ::
    "('b, 'raw) contract \<Rightarrow> ('b, backend_error, did_ledger_snapshot) io" where
  "contract_read_snapshot c = read_snapshot (ct_backend c)"

definition contract_submit ::
    "serde \<Rightarrow> ('b, 'raw) contract \<Rightarrow> did_contract_call \<Rightarrow> ('b, backend_error, finalized_tx_data) io" where
  "contract_submit S c call = submit_tx (ct_backend c) (call_encode S call)"

text \<open>The twelve mutating circuits.\<close>

definition ct_rotate_controller_key ::
    "serde \<Rightarrow> ('b, 'raw) contract \<Rightarrow> bytes \<Rightarrow> ('b, backend_error, finalized_tx_data) io" where
  "ct_rotate_controller_key S c pk = contract_submit S c (RotateControllerKey pk)"

definition ct_recover_controller_key ::
    "serde \<Rightarrow> ('b, 'raw) contract \<Rightarrow> bytes \<Rightarrow> ('b, backend_error, finalized_tx_data) io" where
  "ct_recover_controller_key S c pk = contract_submit S c (RecoverControllerKey pk)"

definition ct_set_verification_method ::
    "serde \<Rightarrow> ('b, 'raw) contract \<Rightarrow> ledger_verification_method \<Rightarrow> map_mutation \<Rightarrow>
     ('b, backend_error, finalized_tx_data) io" where
  "ct_set_verification_method S c m mu = contract_submit S c (SetVerificationMethod m mu)"

definition ct_remove_verification_method ::
    "serde \<Rightarrow> ('b, 'raw) contract \<Rightarrow> string \<Rightarrow> ('b, backend_error, finalized_tx_data) io" where
  "ct_remove_verification_method S c i = contract_submit S c (RemoveVerificationMethod i)"

definition ct_set_schnorr_method ::
    "serde \<Rightarrow> ('b, 'raw) contract \<Rightarrow> ledger_schnorr_verification_method \<Rightarrow> map_mutation \<Rightarrow>
     ('b, backend_error, finalized_tx_data) io" where
  "ct_set_schnorr_method S c m mu = contract_submit S c (SetSchnorrJubjubVerificationMethod m mu)"

definition ct_remove_schnorr_method ::
    "serde \<Rightarrow> ('b, 'raw) contract \<Rightarrow> string \<Rightarrow> ('b, backend_error, finalized_tx_data) io" where
  "ct_remove_schnorr_method S c i = contract_submit S c (RemoveSchnorrJubjubVerificationMethod i)"

definition ct_verify_schnorr_signature ::
    "serde \<Rightarrow> ('b, 'raw) contract \<Rightarrow> string \<Rightarrow> schnorr_digest \<Rightarrow> schnorr_signature \<Rightarrow>
     ('b, backend_error, finalized_tx_data) io" where
  "ct_verify_schnorr_signature S c i d s =
     contract_submit S c (VerifySchnorrJubjubDigestSignature i d s)"

definition ct_set_relation ::
    "serde \<Rightarrow> ('b, 'raw) contract \<Rightarrow> ledger_relation \<Rightarrow> string \<Rightarrow> set_mutation \<Rightarrow>
     ('b, backend_error, finalized_tx_data) io" where
  "ct_set_relation S c r i mu = contract_submit S c (SetVerificationMethodRelation r i mu)"

definition ct_set_service ::
    "serde \<Rightarrow> ('b, 'raw) contract \<Rightarrow> ledger_service \<Rightarrow> map_mutation \<Rightarrow>
     ('b, backend_error, finalized_tx_data) io" where
  "ct_set_service S c s mu = contract_submit S c (SetService s mu)"

definition ct_remove_service ::
    "serde \<Rightarrow> ('b, 'raw) contract \<Rightarrow> string \<Rightarrow> ('b, backend_error, finalized_tx_data) io" where
  "ct_remove_service S c i = contract_submit S c (RemoveService i)"

definition ct_set_also_known_as ::
    "serde \<Rightarrow> ('b, 'raw) contract \<Rightarrow> string \<Rightarrow> set_mutation \<Rightarrow>
     ('b, backend_error, finalized_tx_data) io" where
  "ct_set_also_known_as S c a mu = contract_submit S c (SetAlsoKnownAs a mu)"

definition ct_deactivate ::
    "serde \<Rightarrow> ('b, 'raw) contract \<Rightarrow> ('b, backend_error, finalized_tx_data) io" where
  "ct_deactivate S c = contract_submit S c Deactivate"

lemmas contract_methods = ct_rotate_controller_key_def ct_recover_controller_key_def
  ct_set_verification_method_def ct_remove_verification_method_def ct_set_schnorr_method_def
  ct_remove_schnorr_method_def ct_verify_schnorr_signature_def ct_set_relation_def
  ct_set_service_def ct_remove_service_def ct_set_also_known_as_def ct_deactivate_def

section \<open>What the operations rely on\<close>

text \<open>
  The contract between the operations of the API crate and a backend: the backend keeps a log of the
  submitted calls; a successful submission appends the call, a failed one changes nothing in it, and a
  read leaves it alone. A reliable backend takes every well-formed call. \<open>ReadLedger\<close> is the
  recording backend's own entry; no operation submits it.
\<close>

definition submittable :: "did_contract_call \<Rightarrow> bool" where
  "submittable c = (call_ok c \<and> c \<noteq> ReadLedger)"

locale call_log =
  fixes exec :: "did_contract_call \<Rightarrow> ('b, backend_error, finalized_tx_data) io"
    and snapshot :: "('b, backend_error, did_ledger_snapshot) io"
    and log :: "'b \<Rightarrow> did_contract_call list"
  assumes exec_ok: "submittable c \<Longrightarrow> exec c b = (Inr f, b') \<Longrightarrow> log b' = log b @ [c]"
    and exec_err: "exec c b = (Inl e, b') \<Longrightarrow> log b' = log b"
    and snapshot_log: "snapshot b = (r, b') \<Longrightarrow> log b' = log b"

text \<open>Submitting calls one after the other, until one fails.\<close>

fun exec_all ::
    "(did_contract_call \<Rightarrow> ('b, backend_error, finalized_tx_data) io) \<Rightarrow> did_contract_call list \<Rightarrow>
     ('b, backend_error, finalized_tx_data list) io" where
  "exec_all exec [] = io_lift (Inr [])"
| "exec_all exec (c # cs) =
     io_bind (exec c) (\<lambda>f. io_bind (exec_all exec cs) (\<lambda>fs. io_lift (Inr (f # fs))))"

context call_log
begin

lemma exec_all_log:
  assumes "list_all submittable cs" and "exec_all exec cs b = (r, b')"
  shows "\<exists>n. log b' = log b @ take n cs \<and> (is_ok r \<longrightarrow> n = length cs)"
  using assms
proof (induction cs arbitrary: b r b')
  case Nil
  then show ?case by (auto simp: io_lift_def)
next
  case (Cons c cs)
  from Cons.prems(2) show ?case
  proof (simp only: exec_all.simps, elim io_bind_cases)
    fix e
    assume "exec c b = (Inl e, b')" and "r = Inl e"
    then show ?thesis by (intro exI [of _ 0]) (auto dest: exec_err)
  next
    fix f b1 e
    assume c: "exec c b = (Inr f, b1)" and cs: "exec_all exec cs b1 = (Inl e, b')" and r: "r = Inl e"
    from Cons.IH [OF _ cs] Cons.prems(1) obtain n where "log b' = log b1 @ take n cs" by auto
    moreover have "log b1 = log b @ [c]" using c Cons.prems(1) by (auto intro: exec_ok)
    ultimately show ?thesis using r by (intro exI [of _ "Suc n"]) simp
  next
    fix f b1 fs b2
    assume c: "exec c b = (Inr f, b1)" and cs: "exec_all exec cs b1 = (Inr fs, b2)"
      and r: "io_lift (Inr (f # fs)) b2 = (r, b')"
    from Cons.IH [OF _ cs] Cons.prems(1) have "log b2 = log b1 @ cs" by auto
    moreover have "log b1 = log b @ [c]" using c Cons.prems(1) by (auto intro: exec_ok)
    moreover have "b' = b2" using r by (simp add: io_lift_def)
    ultimately show ?thesis by (intro exI [of _ "Suc (length cs)"]) simp
  qed
qed

lemma exec_all_ok:
  "list_all submittable cs \<Longrightarrow> exec_all exec cs b = (Inr fs, b') \<Longrightarrow> log b' = log b @ cs"
  using exec_all_log by fastforce

end

locale reliable_log = call_log +
  assumes exec_total: "submittable c \<Longrightarrow> \<exists>f b'. exec c b = (Inr f, b')"
    and snapshot_total: "\<exists>s b'. snapshot b = (Inr s, b')"
begin

lemma exec_all_total:
  "list_all submittable cs \<Longrightarrow> \<exists>fs b'. exec_all exec cs b = (Inr fs, b') \<and> log b' = log b @ cs"
proof (induction cs arbitrary: b)
  case Nil
  then show ?case by (simp add: io_lift_def)
next
  case (Cons c cs)
  then obtain f b1 where c: "exec c b = (Inr f, b1)" using exec_total [of c b] by auto
  from Cons obtain fs b2 where "exec_all exec cs b1 = (Inr fs, b2)" "log b2 = log b1 @ cs" by fastforce
  with c Cons.prems show ?case by (auto simp: io_bind_def io_lift_def exec_ok [OF _ c])
qed

end

text \<open>The log of a recording backend is its calls without the synthetic \<open>ReadLedger\<close> entries.\<close>

definition submitted :: "'raw recording \<Rightarrow> did_contract_call list" where
  "submitted b = filter (\<lambda>c. c \<noteq> ReadLedger) (rec_calls b)"

lemma recording_exec:
  assumes "serde_ok S" and "ct_backend c = recording_backend X S" and "call_ok call"
  shows "contract_submit S c call b =
    (Inr \<lparr>tx_hash = synth_tx_hash X (call_encode S call),
          block_height = word_of_nat (Suc (length (rec_calls b)))\<rparr>,
     b\<lparr>rec_calls := rec_calls b @ [call]\<rparr>)"
  using assms
  by (simp add: contract_submit_def recording_backend_def recording_submit_def call_decode_encode Let_def)

lemma recording_reliable:
  assumes S: "serde_ok S" and c: "ct_backend c = recording_backend X S"
  shows "reliable_log (contract_submit S c) (contract_read_snapshot c) submitted"
proof unfold_locales
  fix call b f b'
  assume "submittable call" and "contract_submit S c call b = (Inr f, b')"
  then show "submitted b' = submitted b @ [call]"
    by (auto simp: submittable_def recording_exec [OF S c] submitted_def)
next
  fix call e and b b' :: "'a recording"
  assume "contract_submit S c call b = (Inl e, b')"
  then show "submitted b' = submitted b"
    by (auto simp: contract_submit_def c recording_backend_def recording_submit_def Let_def
      split: sum.splits)
next
  fix b r and b' :: "'a recording"
  assume "contract_read_snapshot c b = (r, b')"
  then show "submitted b' = submitted b"
    by (auto simp: contract_read_snapshot_def c recording_backend_def recording_read_snapshot_def
      submitted_def)
next
  fix call and b :: "'a recording"
  assume "submittable call"
  then show "\<exists>f b'. contract_submit S c call b = (Inr f, b')"
    by (simp add: submittable_def recording_exec [OF S c])
next
  fix b :: "'a recording"
  show "\<exists>s b'. contract_read_snapshot c b = (Inr s, b')"
    by (simp add: contract_read_snapshot_def c recording_backend_def recording_read_snapshot_def)
qed

text \<open>The recording backend over the reference crates, and the read-only backend over any.\<close>

definition recording_contract :: "bytes \<Rightarrow> midnight_network \<Rightarrow> ('raw recording, 'raw) contract" where
  "recording_contract a n =
     \<lparr>ct_backend = recording_backend ref_crates ref_serde, ct_address = a, ct_network = n\<rparr>"

interpretation recording: reliable_log
  "contract_submit ref_serde (recording_contract a n)" "contract_read_snapshot (recording_contract a n)"
  submitted for a n
  by (rule recording_reliable [OF ref_serde_ok]) (simp add: recording_contract_def)

definition resolver_contract :: "bytes \<Rightarrow> midnight_network \<Rightarrow> ('raw resolver, 'raw) contract" where
  "resolver_contract a n = \<lparr>ct_backend = resolver_backend, ct_address = a, ct_network = n\<rparr>"

lemma resolver_exec: "contract_submit S (resolver_contract a n) call b = (Inl ReadOnly, b)"
  by (simp add: contract_submit_def resolver_contract_def resolver_backend_def)

interpretation resolver: call_log
  "contract_submit S (resolver_contract a n)" "contract_read_snapshot (resolver_contract a n)"
  "\<lambda>b. []" for S a n
  by unfold_locales (simp_all add: resolver_exec)

section \<open>Properties\<close>

lemma recording_exec_all:
  assumes S: "serde_ok S" and c: "ct_backend c = recording_backend X S" and "list_all call_ok cs"
  shows "exec_all (contract_submit S c) cs b =
    (Inr (map (\<lambda>i. \<lparr>tx_hash = synth_tx_hash X (call_encode S (cs ! i)),
                     block_height = word_of_nat (length (rec_calls b) + Suc i)\<rparr>) [0..<length cs]),
     b\<lparr>rec_calls := rec_calls b @ cs\<rparr>)"
  using assms(3)
proof (induction cs arbitrary: b)
  case Nil
  then show ?case by (simp add: io_lift_def)
next
  case (Cons call cs)
  have "[0..<length (call # cs)] = 0 # map Suc [0..<length cs]"
    by (simp add: upt_conv_Cons map_Suc_upt del: upt_Suc)
  with Cons show ?case
    by (simp add: io_bind_def io_lift_def recording_exec [OF S c] o_def del: upt_Suc)
qed

text \<open>
  A recording backend takes every sequence of well-formed calls: each submission succeeds, the log
  grows by exactly the calls in order, the block heights count on from the log's length, each
  transaction hash is that of its call's bytes, and the stored ledger snapshot and raw state are
  untouched.
\<close>

theorem recording_backend_runs:
  assumes "serde_ok S" and "ct_backend c = recording_backend X S" and "list_all call_ok cs"
  shows "\<exists>fs b'. exec_all (contract_submit S c) cs b = (Inr fs, b') \<and>
     rec_calls b' = rec_calls b @ cs \<and> rec_snapshot b' = rec_snapshot b \<and> rec_state b' = rec_state b \<and>
     map block_height fs = map (\<lambda>i. word_of_nat (length (rec_calls b) + Suc i)) [0..<length cs] \<and>
     map tx_hash fs = map (\<lambda>call. synth_tx_hash X (call_encode S call)) cs"
  by (simp add: recording_exec_all [OF assms] o_def map_nth [of cs, symmetric, THEN arg_cong [of _ _ "map f" for f]])

theorem recording_backend_runs_witness:
  "\<exists>fs b'. exec_all (contract_submit ref_serde (recording_contract [] Testnet))
      [Deactivate, RemoveService ''#s''] (recording_new ()) = (Inr fs, b') \<and>
     rec_calls b' = [Deactivate, RemoveService ''#s''] \<and> map block_height fs = [1, 2]"
  using recording_backend_runs [of ref_serde "recording_contract [] Testnet" ref_crates
      "[Deactivate, RemoveService ''#s'']" "recording_new ()"]
  by (auto simp: recording_contract_def recording_new_def)

text \<open>
  Each of the twelve mutating methods of \<open>Contract<B>\<close> submits its own call with its own arguments,
  once, and returns the finalisation data of that call; on the read-only backend each fails with
  \<open>ReadOnly\<close>. The typed arguments are well formed, as their types guarantee in the code.
\<close>

theorem contract_methods_recorded:
  assumes "serde_ok S" and "ct_backend c = recording_backend X S"
    and "length pk = 32" and "point_ok (lsv_public_key sm)"
    and "list_all (hex_text 32) (limb_list (digest_limbs d))" and "hex_text 96 (bytes_hex g)"
  shows "rec_calls (snd (ct_rotate_controller_key S c pk b)) = rec_calls b @ [RotateControllerKey pk] \<and>
    rec_calls (snd (ct_recover_controller_key S c pk b)) = rec_calls b @ [RecoverControllerKey pk] \<and>
    rec_calls (snd (ct_set_verification_method S c m mu b)) = rec_calls b @ [SetVerificationMethod m mu] \<and>
    rec_calls (snd (ct_remove_verification_method S c i b)) = rec_calls b @ [RemoveVerificationMethod i] \<and>
    rec_calls (snd (ct_set_schnorr_method S c sm mu b)) =
      rec_calls b @ [SetSchnorrJubjubVerificationMethod sm mu] \<and>
    rec_calls (snd (ct_remove_schnorr_method S c i b)) =
      rec_calls b @ [RemoveSchnorrJubjubVerificationMethod i] \<and>
    rec_calls (snd (ct_verify_schnorr_signature S c i d g b)) =
      rec_calls b @ [VerifySchnorrJubjubDigestSignature i d g] \<and>
    rec_calls (snd (ct_set_relation S c r i su b)) =
      rec_calls b @ [SetVerificationMethodRelation r i su] \<and>
    rec_calls (snd (ct_set_service S c sv mu b)) = rec_calls b @ [SetService sv mu] \<and>
    rec_calls (snd (ct_remove_service S c i b)) = rec_calls b @ [RemoveService i] \<and>
    rec_calls (snd (ct_set_also_known_as S c i su b)) = rec_calls b @ [SetAlsoKnownAs i su] \<and>
    rec_calls (snd (ct_deactivate S c b)) = rec_calls b @ [Deactivate] \<and>
    is_ok (fst (ct_deactivate S c b)) \<and>
    ct_deactivate S (resolver_contract a n) rb = (Inl ReadOnly, rb)"
  using assms(3-) by (simp add: contract_methods recording_exec [OF assms(1,2)] resolver_exec)

theorem contract_methods_recorded_witness:
  "rec_calls (snd (ct_rotate_controller_key ref_serde (recording_contract [] Testnet) (replicate 32 7)
     (recording_new ()))) = [RotateControllerKey (replicate 32 7)]"
proof -
  have "rec_calls (snd (ct_rotate_controller_key ref_serde (recording_contract [] Testnet) (replicate 32 7)
      (recording_new ()))) = rec_calls (recording_new ()) @ [RotateControllerKey (replicate 32 7)]"
    by (rule contract_methods_recorded [where X = ref_crates
          and sm = "\<lparr>lsv_id = [], lsv_public_key = \<lparr>jp_x = replicate 64 CHR ''a'', jp_y = replicate 64 CHR ''a''\<rparr>\<rparr>"
          and d = "SchnorrJubjubDigest (replicate 64 CHR ''a'', replicate 64 CHR ''a'',
                     replicate 64 CHR ''a'', replicate 64 CHR ''a'')"
          and g = "SchnorrJubjubSignature (replicate 192 CHR ''a'')", THEN conjunct1])
      (simp_all add: recording_contract_def point_ok_def hex_text_def list_all_iff ascii_defs code_of_def)
  then show ?thesis by (simp add: recording_new_def)
qed

end
