(* ===== verification/Ledger_Utils.thy ===== *)
theory Ledger_Utils
  imports Did_Doc
begin

text \<open>
  \<open>midnight-did-domain/src/ledger_utils.rs\<close>: normalisation of fragment ids against a DID subject, and
  the string form in which the ledger stores a service's \<open>type\<close> and \<open>serviceEndpoint\<close>.
\<close>

section \<open>Definitions\<close>

datatype bound_id_field =
    VerificationMethodIdField
  | SchnorrJubjubVerificationMethodIdField
  | ServiceIdField
  | MethodIdField
  | ShortServiceIdField

fun field_label :: "bound_id_field \<Rightarrow> string" where
  "field_label VerificationMethodIdField = ''verificationMethod.id''"
| "field_label SchnorrJubjubVerificationMethodIdField = ''schnorrJubjubVerificationMethod.id''"
| "field_label ServiceIdField = ''service.id''"
| "field_label MethodIdField = ''methodId''"
| "field_label ShortServiceIdField = ''serviceId''"

datatype ledger_utils_error =
    LU_Empty string
  | NotARelativeOrDidUrl string
  | EmptyFragment string
  | SubjectMismatch string string
  | DuplicateServiceTypeEntries
  | EmptyServiceTypeEntries
  | EmptyServiceType
  | InvalidServiceType
  | NotAbsoluteUri string

text \<open>This module has its own copy of the scheme scanner of \<open>did_document.rs\<close>.\<close>

fun lu_scan_uri_scheme :: "string \<Rightarrow> bool" where
  "lu_scan_uri_scheme [] = False"
| "lu_scan_uri_scheme (b # bs) =
     (if b = CHR '':'' then True
      else if b \<notin> set uri_scheme_inner_chars then False
      else lu_scan_uri_scheme bs)"

definition lu_has_uri_scheme :: "string \<Rightarrow> bool" where
  "lu_has_uri_scheme v =
     (case v of [] \<Rightarrow> False
      | b # bs \<Rightarrow> if b \<notin> set uri_scheme_prefix_chars then False else lu_scan_uri_scheme bs)"

definition normalize_fragment_id :: "string \<Rightarrow> string" where
  "normalize_fragment_id v =
     (let trimmed = trim v
      in if starts_with trimmed ''#'' then trimmed
         else (case find_char (CHR ''#'') trimmed of
                 Some idx \<Rightarrow> ''#'' @ drop (idx + 1) trimmed
               | None \<Rightarrow> ''#'' @ trimmed))"

definition normalize_bound_fragment_id ::
    "string \<Rightarrow> bound_id_field \<Rightarrow> string \<Rightarrow> ledger_utils_error + string" where
  "normalize_bound_fragment_id v field expected_did_subject =
     (let trimmed = trim v;
          lbl = field_label field
      in if trimmed = [] then Inl (LU_Empty lbl)
         else if starts_with trimmed ''//'' then Inl (NotARelativeOrDidUrl lbl)
         else if starts_with trimmed ''#'' then Inr trimmed
         else if starts_with trimmed ''did:''
         then (case find_char (CHR ''#'') trimmed of
                 Some idx \<Rightarrow>
                   if idx > 0 \<and> idx < length trimmed - 1
                   then (if take idx trimmed \<noteq> expected_did_subject
                         then Inl (SubjectMismatch lbl expected_did_subject)
                         else Inr (''#'' @ drop (idx + 1) trimmed))
                   else Inl (EmptyFragment lbl)
               | None \<Rightarrow> Inl (EmptyFragment lbl))
         else if starts_with trimmed ''/'' \<or> starts_with trimmed ''.'' \<or> starts_with trimmed ''?''
         then Inr (''#'' @ trimmed)
         else if lu_has_uri_scheme trimmed then Inl (NotARelativeOrDidUrl lbl)
         else Inr (normalize_fragment_id trimmed))"

text \<open>\<open>sort\<close> then \<open>dedup\<close>, whose length is compared with the original's.\<close>

definition service_type_to_ledger :: "crates \<Rightarrow> service_type \<Rightarrow> ledger_utils_error + string" where
  "service_type_to_ledger X t =
     (case t of
        TypeOne s \<Rightarrow>
          let trimmed = trim s
          in if trimmed = [] then Inl EmptyServiceType else Inr trimmed
      | TypeMany types \<Rightarrow>
          if types = [] then Inl InvalidServiceType
          else (let normalized = map trim types
                in if list_ex (\<lambda>s. s = []) normalized then Inl EmptyServiceTypeEntries
                   else if length (remdups_adj (sort normalized)) \<noteq> length normalized
                   then Inl DuplicateServiceTypeEntries
                   else if length normalized = 1 then Inr (hd normalized)
                   else Inr (json_to_string X (JArray (map JString normalized)))))"

text \<open>\<open>serde_json::to_string\<close> of the untagged enum \<open>ServiceEndpoint\<close>.\<close>

fun endpoint_to_json :: "service_endpoint \<Rightarrow> json" where
  "endpoint_to_json (EndpointUri s) = JString s"
| "endpoint_to_json (EndpointObject m) = JObject m"
| "endpoint_to_json (EndpointArray es) = JArray (map entry_value es)"

definition service_endpoint_to_ledger :: "crates \<Rightarrow> service_endpoint \<Rightarrow> string" where
  "service_endpoint_to_ledger X e =
     json_to_string X (endpoint_to_json (normalize_service_endpoint X e))"

definition assert_absolute_uri ::
    "crates \<Rightarrow> string \<Rightarrow> string option \<Rightarrow> ledger_utils_error + string" where
  "assert_absolute_uri X v field =
     (let lbl = (case field of Some f \<Rightarrow> f | None \<Rightarrow> ''aliasUri'');
          alias = trim v
      in if alias = [] then Inl (LU_Empty lbl)
         else if url_parse X alias = None then Inl (NotAbsoluteUri lbl)
         else Inr alias)"

section \<open>Trimming\<close>

lemma lu_has_uri_scheme_eq: "lu_has_uri_scheme v = has_uri_scheme v"
proof -
  have "lu_scan_uri_scheme t = scan_uri_scheme t" for t by (induction t) auto
  then show ?thesis by (simp add: lu_has_uri_scheme_def has_uri_scheme_def split: list.splits)
qed

lemma trim_rev_length: "length (trim_rev s) \<le> length s"
  using suffix_length_le [OF trim_rev_suffix] .

lemma trim_rev_prefix: "trim_rev (p @ q) = p @ q \<Longrightarrow> trim_rev p = p"
proof (induction p rule: trim_rev.induct)
  case (1 c b a s)
  then show ?case
    using trim_rev_length [of "b # a # s @ q"] trim_rev_length [of "a # s @ q"]
      trim_rev_length [of "s @ q"] by (auto split: if_splits)
next
  case (2 c b)
  then show ?case
    using trim_rev_length [of "b # q"] trim_rev_length [of q]
    by (cases q) (auto split: if_splits)
next
  case (3 c)
  show ?case
  proof (rule ccontr)
    assume "trim_rev [c] \<noteq> [c]"
    then have "ws1 c" by (simp split: if_splits)
    then have "trim_rev ([c] @ q) = trim_rev q" by (cases q; cases "tl q") auto
    with 3 have "trim_rev q = c # q" by simp
    then have "length (trim_rev q) = Suc (length q)" by (simp only: length_Cons)
    with trim_rev_length [of q] show False by simp
  qed
qed simp

lemma trim_rev_hash: "trim_rev p = p \<Longrightarrow> trim_rev (p @ ''#'') = p @ ''#''"
proof (induction p rule: trim_rev.induct)
  case (1 c b a s)
  then show ?case
    using trim_rev_length [of "b # a # s"] trim_rev_length [of "a # s"] trim_rev_length [of s]
    by (auto split: if_splits)
next
  case (2 c b)
  then show ?case using trim_rev_length [of "[b]"]
    by (auto simp: ws3_def code_of_def split: if_splits)
next
  case (3 c)
  then show ?case by (auto simp: ws2_def code_of_def split: if_splits)
qed (simp add: ws1_def code_of_def)

lemma trim_idem_parts:
  assumes "trim s = s"
  shows "trim_rev (rev s) = rev s"
proof -
  have "length (trim_rev (rev (trim_start s))) = length s"
    using assms by (metis trim_def length_rev)
  moreover have "length (trim_rev (rev (trim_start s))) \<le> length (trim_start s)"
    using trim_rev_length [of "rev (trim_start s)"] by simp
  moreover have suf: "suffix (trim_start s) s" by (rule trim_start_suffix)
  ultimately have "trim_start s = s"
    using suffix_length_le [OF suf] by (metis le_antisym suffix_def append_eq_append_conv append_self_conv2 suf)
  with assms show ?thesis by (metis trim_def rev_rev_ident)
qed

lemma trim_rev_trim: "trim_rev (rev (trim s)) = rev (trim s)"
  by (simp add: trim_def)

lemma trim_hash_start: "trim_rev (rev (CHR ''#'' # t)) = rev (CHR ''#'' # t) \<Longrightarrow> trim (CHR ''#'' # t) = CHR ''#'' # t"
  using trim_start_printable [of "CHR ''#''" t] by (simp add: trim_def printable_def code_of_def)

lemma trim_hash_suffix: "trim (a @ CHR ''#'' # t) = a @ CHR ''#'' # t \<Longrightarrow> trim (CHR ''#'' # t) = CHR ''#'' # t"
  using trim_idem_parts [of "a @ CHR ''#'' # t"] trim_rev_prefix [of "rev t @ ''#''" "rev a"]
  by (intro trim_hash_start) simp

lemma trim_hash_cons: "trim_rev (rev t) = rev t \<Longrightarrow> trim (CHR ''#'' # t) = CHR ''#'' # t"
  using trim_rev_hash [of "rev t"] by (intro trim_hash_start) simp

section \<open>Fragment ids\<close>

text \<open>Trimming twice is trimming once, for the texts that matter here: it starts with a \<open>#\<close>.\<close>

lemma starts_hash: "starts_with s ''#'' \<longleftrightarrow> (\<exists>f. s = CHR ''#'' # f)"
  by (simp add: starts_with_iff)

lemma trim_start_trim_hash:
  assumes "trim s = a @ CHR ''#'' # t"
  shows "trim (CHR ''#'' # t) = CHR ''#'' # t"
proof -
  have "trim_rev ((rev t @ ''#'') @ rev a) = (rev t @ ''#'') @ rev a"
    using trim_rev_trim [of s] by (simp add: assms)
  from trim_rev_prefix [OF this] show ?thesis by (intro trim_hash_start) simp
qed

lemma normalize_fragment_id_hash:
  "\<exists>f. normalize_fragment_id v = CHR ''#'' # f \<and> trim (CHR ''#'' # f) = CHR ''#'' # f"
proof (cases "starts_with (trim v) ''#''")
  case True
  then obtain f where f: "trim v = CHR ''#'' # f" by (auto simp: starts_hash)
  with trim_start_trim_hash [of v "[]" f] show ?thesis by (simp add: normalize_fragment_id_def)
next
  case False
  show ?thesis
  proof (cases "find_char (CHR ''#'') (trim v)")
    case None
    have "trim (CHR ''#'' # trim v) = CHR ''#'' # trim v" by (rule trim_hash_cons [OF trim_rev_trim])
    then show ?thesis using False unfolding normalize_fragment_id_def Let_def None option.case by simp
  next
    case (Some i)
    from find_char_split [OF Some] have "trim v = take i (trim v) @ CHR ''#'' # drop (Suc i) (trim v)"
      by simp
    from trim_start_trim_hash [OF this] show ?thesis
      using False Some by (simp add: normalize_fragment_id_def)
  qed
qed

lemma normalize_bound_hash:
  "trim (CHR ''#'' # f) = CHR ''#'' # f \<Longrightarrow>
     normalize_bound_fragment_id (CHR ''#'' # f) field d = Inr (CHR ''#'' # f)"
  by (simp add: normalize_bound_fragment_id_def Let_def)

text \<open>The DID URL branch, with the comparison against the subject.\<close>

lemma normalize_bound_did:
  assumes "starts_with (trim v) ''did:''"
  shows "normalize_bound_fragment_id v field d = Inr r \<longleftrightarrow>
    (\<exists>f. f \<noteq> [] \<and> r = CHR ''#'' # f \<and> trim v = d @ CHR ''#'' # f \<and> CHR ''#'' \<notin> set d)"
proof -
  obtain t where t: "trim v = ''did:'' @ t" using assms by (auto simp: starts_with_iff)
  have def: "normalize_bound_fragment_id v field d =
    (case find_char (CHR ''#'') (trim v) of
       Some idx \<Rightarrow>
         if idx > 0 \<and> idx < length (trim v) - 1
         then (if take idx (trim v) \<noteq> d
               then Inl (SubjectMismatch (field_label field) d)
               else Inr (''#'' @ drop (idx + 1) (trim v)))
         else Inl (EmptyFragment (field_label field))
     | None \<Rightarrow> Inl (EmptyFragment (field_label field)))"
  proof -
    have "trim v \<noteq> []" "\<not> starts_with (trim v) ''//''" "\<not> starts_with (trim v) ''#''"
      by (simp_all add: t)
    with assms show ?thesis by (simp add: normalize_bound_fragment_id_def Let_def)
  qed
  show ?thesis
  proof (cases "find_char (CHR ''#'') (trim v)")
    case None
    then have "CHR ''#'' \<notin> set (trim v)" by simp
    then show ?thesis unfolding def None option.case by auto
  next
    case (Some i)
    define a g where ag: "a = take i (trim v)" "g = drop (Suc i) (trim v)"
    from find_char_split [OF Some] have split: "trim v = a @ CHR ''#'' # g" "CHR ''#'' \<notin> set a"
      unfolding ag by blast+
    have pos: "i > 0" using Some t by (auto split: if_splits)
    have len: "i < length (trim v) - 1 \<longleftrightarrow> g \<noteq> []" by (auto simp: ag)
    have uniq: "d = a \<and> f = g" if "trim v = d @ CHR ''#'' # f" "CHR ''#'' \<notin> set d" for f
      using that split split_once_Some_iff [of "CHR ''#''" "trim v"] by (metis option.inject prod.inject)
    have "normalize_bound_fragment_id v field d =
      (if g \<noteq> [] then (if a \<noteq> d then Inl (SubjectMismatch (field_label field) d) else Inr (CHR ''#'' # g))
       else Inl (EmptyFragment (field_label field)))"
      using pos len unfolding def Some option.case ag by simp
    then have "normalize_bound_fragment_id v field d = Inr r \<longleftrightarrow> g \<noteq> [] \<and> a = d \<and> r = CHR ''#'' # g"
      by auto
    also have "\<dots> \<longleftrightarrow> (\<exists>f. f \<noteq> [] \<and> r = CHR ''#'' # f \<and> trim v = d @ CHR ''#'' # f \<and> CHR ''#'' \<notin> set d)"
      using uniq split by blast
    finally show ?thesis .
  qed
qed

lemma normalize_bound_relative:
  assumes "\<not> starts_with (trim v) ''did:''" and "normalize_bound_fragment_id v field d = Inr r"
  shows "\<exists>f. r = CHR ''#'' # f \<and> trim r = r"
proof -
  have ne: "trim v \<noteq> []" using assms(2) by (auto simp: normalize_bound_fragment_id_def Let_def)
  consider "starts_with (trim v) ''#''" "r = trim v"
    | "r = CHR ''#'' # trim v" | "r = normalize_fragment_id (trim v)"
    using assms by (auto simp: normalize_bound_fragment_id_def Let_def split: if_splits)
  then show ?thesis
  proof cases
    case 1
    then obtain f where "trim v = CHR ''#'' # f" by (auto simp: starts_hash)
    with 1 trim_start_trim_hash [of v "[]" f] show ?thesis by simp
  next
    case 2
    with trim_hash_cons [OF trim_rev_trim [of v]] show ?thesis by simp
  next
    case 3
    with normalize_fragment_id_hash [of "trim v"] show ?thesis by auto
  qed
qed

text \<open>
  A normalised bound fragment id starts with \<open>#\<close>, is a fixed point of the normaliser whatever the
  field and subject, and a DID URL is accepted only when its subject is the expected one and its
  fragment is not empty; the result is then that fragment.
\<close>

theorem normalize_bound_fragment_id_ok:
  assumes "normalize_bound_fragment_id v field d = Inr r"
  shows "starts_with r ''#'' \<and>
    (\<forall>field' d'. normalize_bound_fragment_id r field' d' = Inr r) \<and>
    (starts_with (trim v) ''did:'' \<longrightarrow> trim v = d @ r \<and> length r > 1 \<and> CHR ''#'' \<notin> set d)"
proof (cases "starts_with (trim v) ''did:''")
  case True
  then obtain f where f: "f \<noteq> []" "r = CHR ''#'' # f" "trim v = d @ CHR ''#'' # f" "CHR ''#'' \<notin> set d"
    using assms by (auto simp: normalize_bound_did)
  with trim_start_trim_hash [of v d f] show ?thesis by (simp add: normalize_bound_hash)
next
  case False
  from normalize_bound_relative [OF False assms] show ?thesis
    using False by (auto simp: normalize_bound_hash)
qed

theorem normalize_bound_fragment_id_ok_witness:
  "normalize_bound_fragment_id ''did:x:1#k'' ServiceIdField ''did:x:1'' = Inr ''#k'' \<and>
   normalize_bound_fragment_id ''#k'' MethodIdField ''did:x:2'' = Inr ''#k''"
proof -
  have "trim ''did:x:1#k'' = ''did:x:1#k''"
    by (rule trim_printable_all) (simp add: printable_def code_of_def)
  then have "normalize_bound_fragment_id ''did:x:1#k'' ServiceIdField ''did:x:1'' = Inr ''#k''"
    by (simp add: normalize_bound_did)
  from normalize_bound_fragment_id_ok [OF this] this show ?thesis by blast
qed

text \<open>
  The three spellings of a key name are one ledger id: the bare name, the \<open>#\<close> fragment and the DID
  URL of the expected subject normalise to the same fragment.
\<close>

theorem fragment_spellings_agree:
  assumes "\<forall>c\<in>set k. is_ascii_alphanumeric c \<or> c = CHR ''-'' \<or> c = CHR ''_''" and "k \<noteq> []"
    and "is_did_string d" and "\<forall>c\<in>set d. printable c"
  shows "normalize_bound_fragment_id k field d = Inr (CHR ''#'' # k) \<and>
    normalize_bound_fragment_id (CHR ''#'' # k) field d = Inr (CHR ''#'' # k) \<and>
    normalize_bound_fragment_id (d @ CHR ''#'' # k) field d = Inr (CHR ''#'' # k)"
proof -
  have pr: "\<forall>c\<in>set k. printable c"
    using assms(1) by (auto simp: printable_def ascii_defs code_of_def)
  have h: "printable (CHR ''#'')" by (simp add: printable_def code_of_def)
  have trims: "trim k = k" "trim (CHR ''#'' # k) = CHR ''#'' # k" "trim (d @ CHR ''#'' # k) = d @ CHR ''#'' # k"
    using pr h assms(4) by (auto intro!: trim_printable_all)
  have no: "c \<notin> set k" if "c \<in> set ''#/.?:''" for c
    using that assms(1) by (auto simp: ascii_defs code_of_def)
  obtain x k' where k: "k = x # k'" using assms(2) by (cases k) auto
  have nostart: "\<not> starts_with k (c # p)" if "c \<in> set ''#/.?''" for c p
    using no [of c] that by (auto simp: k)
  have nocolon: "\<not> has_uri_scheme k"
    using no [of "CHR '':''"] by (auto simp: has_uri_scheme_extract extract_scheme_iff)
  have nodid: "\<not> starts_with k ''did:''" using no [of "CHR '':''"] by (auto simp: starts_with_iff)
  have "find_char (CHR ''#'') k = None" using no [of "CHR ''#''"] by simp
  then have "normalize_bound_fragment_id k field d = Inr (CHR ''#'' # k)"
    using nostart nocolon nodid assms(2)
    by (simp del: find_char_None_iff add: normalize_bound_fragment_id_def Let_def trims lu_has_uri_scheme_eq
      normalize_fragment_id_def)
  moreover have "starts_with (d @ CHR ''#'' # k) ''did:''" "CHR ''#'' \<notin> set d"
    using is_did_string_prefix [OF assms(3)] assms(3) by (auto simp: starts_with_iff is_did_string_iff)
  ultimately show ?thesis using assms(2)
    by (simp add: normalize_bound_hash normalize_bound_did trims)
qed

theorem fragment_spellings_agree_witness:
  "normalize_bound_fragment_id ''key-1'' MethodIdField ''did:x:1'' = Inr ''#key-1''"
proof -
  have "\<forall>c\<in>set ''key-1''. is_ascii_alphanumeric c \<or> c = CHR ''-'' \<or> c = CHR ''_''"
    by (simp add: ascii_defs code_of_def)
  moreover have "is_did_string ''did:x:1''" by (simp add: is_did_string_def starts_with_def)
  moreover have "\<forall>c\<in>set ''did:x:1''. printable c" by (simp add: printable_def code_of_def)
  ultimately show ?thesis using fragment_spellings_agree [of "''key-1''" "''did:x:1''" MethodIdField]
    by simp
qed

section \<open>Service types\<close>

lemma sorted_distinct_adj: "sorted xs \<Longrightarrow> distinct_adj xs \<longleftrightarrow> distinct xs"
  by (induction xs rule: induct_list012) (auto simp: distinct_adj_Cons)

lemma dedup_length: "length (remdups_adj (sort xs)) = length xs \<longleftrightarrow> distinct xs"
proof -
  have "length (remdups_adj (sort xs)) = length (sort xs) \<longleftrightarrow> distinct (sort xs)"
    using distinct_adj_conv_length_remdups_adj [of "sort xs"] sorted_distinct_adj [of "sort xs"] by simp
  then show ?thesis by simp
qed

lemma service_type_to_ledger_many:
  "service_type_to_ledger X (TypeMany ts) = Inr s \<longleftrightarrow>
     ts \<noteq> [] \<and> [] \<notin> trim ` set ts \<and> distinct (map trim ts) \<and>
     s = (if length ts = 1 then trim (hd ts) else json_to_string X (JArray (map JString (map trim ts))))"
proof (cases "ts = []")
  case False
  have "list_ex (\<lambda>s. s = []) (map trim ts) \<longleftrightarrow> [] \<in> trim ` set ts" by (auto simp: list_ex_iff)
  then show ?thesis using False
    unfolding service_type_to_ledger_def service_type.case Let_def dedup_length
    by (auto simp: hd_map)
qed (simp add: service_type_to_ledger_def)

lemma service_type_to_ledger_one:
  "service_type_to_ledger X (TypeOne t) = Inr s \<longleftrightarrow> s = trim t \<and> trim t \<noteq> []"
  by (auto simp: service_type_to_ledger_def Let_def)

end
