(* ===== verification/Offchain_State.thy ===== *)
theory Offchain_State
  imports Midnight_Did
begin

text \<open>
  \<open>midnight-did-method/src/offchain.rs\<close>: the off-chain DID state, its key and relationship tables, the
  MOD1 frame, the state hash and the long-form DID that embeds the state. A \<open>Vec<u8>\<close> is a byte list;
  lengths and offsets are \<open>nat\<close> (a 64-bit \<open>usize\<close> cannot overflow here: a length is below
  \<open>2 ^ 63\<close> and a chunk length below \<open>2 ^ 32\<close>).
\<close>

section \<open>State and errors\<close>

record offchain_relationships =
  or_authentication :: bool
  or_assertion_method :: bool
  or_key_agreement :: bool
  or_capability_invocation :: bool
  or_capability_delegation :: bool

record offchain_verification_method =
  ovm_id :: string
  ovm_public_key_jwk :: public_key_jwk
  ovm_relationships :: offchain_relationships

record offchain_service =
  os_id :: string
  os_type :: string
  os_service_endpoint :: string

record offchain_state =
  ost_version :: u16
  ost_also_known_as :: "string list"
  ost_verification_method :: "offchain_verification_method list"
  ost_service :: "offchain_service list"

record encoded_offchain_state =
  eos_encoding :: string
  eos_payload :: string

record parsed_long_form =
  plf_did :: midnight_did_string
  plf_state_hash :: bytes
  plf_encoded_state :: encoded_offchain_state

datatype offchain_error =
    OE_Codec codec_error
  | OE_Did midnight_did_error
  | OE_Validation validation_error
  | BadBase64Url
  | NonCanonicalBase64Url
  | ShortFrame
  | BadMagic
  | TooManyChunks
  | ChunkOverflow
  | TrailingBytes
  | Overflow string
  | UnsupportedEncoding string
  | NotOffchain
  | MissingEncodedState
  | StateHashMismatch
  | BadVersion
  | TooManyAlsoKnownAs
  | NoVerificationMethod
  | TooManyVerificationMethods
  | TooManyServices
  | FragmentRequired
  | EmptyServiceField
  | UnsupportedKeyType string string
  | CompactCodecMissing

definition max_verification_methods :: nat where "max_verification_methods = 4"
definition max_services :: nat where "max_services = 4"
definition max_also_known_as :: nat where "max_also_known_as = 4"

definition magic :: bytes where "magic = [0x4d, 0x4f, 0x44, 0x31]"
definition header_length :: nat where "header_length = length magic + 4"
definition chunk_length_bytes :: nat where "chunk_length_bytes = 4"

definition offchain_state_encoding :: string where
  "offchain_state_encoding = ''midnight-offchain-did-state-v1.base64url''"

section \<open>Key kinds\<close>

datatype offchain_key_kind =
  KindJubjub | KindEd25519 | KindP256 | KindX25519 | KindSecp256k1 | KindBLS12381G1 | KindBLS12381G2

text \<open>The discriminants of \<open>#[repr(u8)]\<close>.\<close>

fun key_kind_tag :: "offchain_key_kind \<Rightarrow> u8" where
  "key_kind_tag KindJubjub = 1"
| "key_kind_tag KindEd25519 = 2"
| "key_kind_tag KindP256 = 3"
| "key_kind_tag KindX25519 = 4"
| "key_kind_tag KindSecp256k1 = 5"
| "key_kind_tag KindBLS12381G1 = 6"
| "key_kind_tag KindBLS12381G2 = 7"

definition key_kind_from_u8 :: "u8 \<Rightarrow> offchain_key_kind option" where
  "key_kind_from_u8 v =
     (if v = 1 then Some KindJubjub
      else if v = 2 then Some KindEd25519
      else if v = 3 then Some KindP256
      else if v = 4 then Some KindX25519
      else if v = 5 then Some KindSecp256k1
      else if v = 6 then Some KindBLS12381G1
      else if v = 7 then Some KindBLS12381G2
      else None)"

text \<open>\<open>{:?}\<close> of the two enums.\<close>

fun key_type_debug :: "key_type \<Rightarrow> string" where
  "key_type_debug EC = ''EC''"
| "key_type_debug RSA = ''RSA''"
| "key_type_debug oct = ''oct''"
| "key_type_debug OKP = ''OKP''"

fun curve_type_debug :: "curve_type \<Rightarrow> string" where
  "curve_type_debug Ed25519 = ''Ed25519''"
| "curve_type_debug X25519 = ''X25519''"
| "curve_type_debug Jubjub = ''Jubjub''"
| "curve_type_debug P256 = ''P256''"
| "curve_type_debug Secp256k1 = ''Secp256k1''"
| "curve_type_debug BLS12381G1 = ''BLS12381G1''"
| "curve_type_debug BLS12381G2 = ''BLS12381G2''"

definition key_kind_from_jwk :: "public_key_jwk \<Rightarrow> offchain_error + offchain_key_kind" where
  "key_kind_from_jwk jwk =
     (case (jwk_kty jwk, jwk_crv jwk) of
        (EC, Jubjub) \<Rightarrow> Inr KindJubjub
      | (OKP, Ed25519) \<Rightarrow> Inr KindEd25519
      | (OKP, X25519) \<Rightarrow> Inr KindX25519
      | (EC, P256) \<Rightarrow> Inr KindP256
      | (EC, Secp256k1) \<Rightarrow> Inr KindSecp256k1
      | (OKP, BLS12381G1) \<Rightarrow> Inr KindBLS12381G1
      | (OKP, BLS12381G2) \<Rightarrow> Inr KindBLS12381G2
      | (kty, crv) \<Rightarrow> Inl (UnsupportedKeyType (key_type_debug kty) (curve_type_debug crv)))"

fun key_kind_profile :: "offchain_key_kind \<Rightarrow> key_type \<times> curve_type \<times> bool" where
  "key_kind_profile KindJubjub = (EC, Jubjub, True)"
| "key_kind_profile KindEd25519 = (OKP, Ed25519, False)"
| "key_kind_profile KindP256 = (EC, P256, True)"
| "key_kind_profile KindX25519 = (OKP, X25519, False)"
| "key_kind_profile KindSecp256k1 = (EC, Secp256k1, True)"
| "key_kind_profile KindBLS12381G1 = (OKP, BLS12381G1, False)"
| "key_kind_profile KindBLS12381G2 = (OKP, BLS12381G2, False)"

definition jwk_from_key_kind ::
    "crates \<Rightarrow> offchain_key_kind \<Rightarrow> string \<Rightarrow> string \<Rightarrow> validation_error + public_key_jwk" where
  "jwk_from_key_kind X kind x y =
     (let (kty, crv, has_y) = key_kind_profile kind
      in jwk_new X \<lparr>nj_kty = kty, nj_crv = crv, nj_x = x, nj_y = (if has_y then Some y else None),
                    nj_extensions = []\<rparr>)"

section \<open>Relationship masks\<close>

definition relationships_to_mask :: "offchain_relationships \<Rightarrow> u8" where
  "relationships_to_mask r =
     (let m = 0;
          m = (if or_authentication r then m OR 1 else m);
          m = (if or_assertion_method r then m OR 2 else m);
          m = (if or_key_agreement r then m OR 4 else m);
          m = (if or_capability_invocation r then m OR 8 else m);
          m = (if or_capability_delegation r then m OR 16 else m)
      in m)"

definition mask_to_relationships :: "u8 \<Rightarrow> offchain_relationships" where
  "mask_to_relationships m =
     \<lparr>or_authentication = (m AND 1) \<noteq> 0,
      or_assertion_method = (m AND 2) \<noteq> 0,
      or_key_agreement = (m AND 4) \<noteq> 0,
      or_capability_invocation = (m AND 8) \<noteq> 0,
      or_capability_delegation = (m AND 16) \<noteq> 0\<rparr>"

section \<open>MOD1 frames\<close>

definition assert_u32 :: "nat \<Rightarrow> string \<Rightarrow> offchain_error + u32" where
  "assert_u32 v lbl = (if v > 2 ^ 32 - 1 then Inl (Overflow lbl) else Inr (word_of_nat v))"

definition u32_to_be_bytes :: "u32 \<Rightarrow> bytes" where
  "u32_to_be_bytes v =
     [ucast (drop_bit 24 v), ucast (drop_bit 16 v), ucast (drop_bit 8 v), ucast v]"

definition u32_from_be_bytes :: "u8 \<Rightarrow> u8 \<Rightarrow> u8 \<Rightarrow> u8 \<Rightarrow> u32" where
  "u32_from_be_bytes a b c d =
     push_bit 24 (ucast a) OR push_bit 16 (ucast b) OR push_bit 8 (ucast c) OR ucast d"

definition write_u32 :: "bytes \<Rightarrow> u32 \<Rightarrow> bytes" where
  "write_u32 target v = target @ u32_to_be_bytes v"

definition read_u32 :: "bytes \<Rightarrow> nat \<Rightarrow> offchain_error + u32" where
  "read_u32 source offset =
     (if offset + chunk_length_bytes > length source then Inl ShortFrame
      else Inr (u32_from_be_bytes (source ! offset) (source ! (offset + 1))
                  (source ! (offset + 2)) (source ! (offset + 3))))"

fun write_chunks :: "bytes \<Rightarrow> bytes list \<Rightarrow> offchain_error + bytes" where
  "write_chunks out [] = Inr out"
| "write_chunks out (c # cs) =
     res_bind (assert_u32 (length c) ''chunk length'')
       (\<lambda>_. write_chunks (write_u32 out (word_of_nat (length c)) @ c) cs)"

definition compact_value_to_bytes :: "bytes list \<Rightarrow> offchain_error + bytes" where
  "compact_value_to_bytes chunks =
     res_bind (assert_u32 (length chunks) ''chunk count'')
       (\<lambda>_. write_chunks (write_u32 magic (word_of_nat (length chunks))) chunks)"

text \<open>The loop over the declared chunk count: the chunks read and the offset after them.\<close>

fun read_chunks :: "bytes \<Rightarrow> nat \<Rightarrow> nat \<Rightarrow> offchain_error + bytes list \<times> nat" where
  "read_chunks bs 0 offset = Inr ([], offset)"
| "read_chunks bs (Suc n) offset =
     res_bind (read_u32 bs offset) (\<lambda>w.
       let len = unat w;
           offset = offset + chunk_length_bytes
       in if offset + len > length bs then Inl ChunkOverflow
          else res_bind (read_chunks bs n (offset + len))
                 (\<lambda>(chunks, end). Inr (take len (drop offset bs) # chunks, end)))"

definition compact_value_from_bytes :: "bytes \<Rightarrow> offchain_error + bytes list" where
  "compact_value_from_bytes bs =
     (if length bs < header_length then Inl ShortFrame
      else if take (length magic) bs \<noteq> magic then Inl BadMagic
      else res_bind (read_u32 bs (length magic)) (\<lambda>w.
        let chunk_count = unat w;
            max_chunk_count = (length bs - header_length) div chunk_length_bytes
        in if chunk_count > max_chunk_count then Inl TooManyChunks
           else res_bind (read_chunks bs chunk_count header_length)
             (\<lambda>(chunks, offset). if offset \<noteq> length bs then Inl TrailingBytes else Inr chunks)))"

section \<open>State hash, encoding, decoding\<close>

definition bytes_to_state_hash :: "crates \<Rightarrow> bytes \<Rightarrow> bytes" where
  "bytes_to_state_hash X bs = blake2s256 X bs"

definition from_base64url :: "crates \<Rightarrow> string \<Rightarrow> offchain_error + bytes" where
  "from_base64url X v =
     (if v = [] then Inl BadBase64Url
      else if \<not> list_all (\<lambda>b. is_ascii_alphanumeric b \<or> b = CHR ''-'' \<or> b = CHR ''_'') v \<or> length v mod 4 = 1
      then Inl BadBase64Url
      else res_bind (map_err OE_Codec (decode_base64url X v))
        (\<lambda>decoded. if encode_base64url X decoded \<noteq> v then Inl NonCanonicalBase64Url else Inr decoded))"

definition check_offchain_vm :: "offchain_verification_method \<Rightarrow> offchain_error + unit" where
  "check_offchain_vm vm =
     (if \<not> starts_with (ovm_id vm) ''#'' then Inl FragmentRequired
      else res_bind (key_kind_from_jwk (ovm_public_key_jwk vm)) (\<lambda>_. Inr ()))"

definition check_offchain_service :: "offchain_service \<Rightarrow> offchain_error + unit" where
  "check_offchain_service s =
     (if \<not> starts_with (os_id s) ''#'' then Inl FragmentRequired
      else if os_type s = [] \<or> os_service_endpoint s = [] then Inl EmptyServiceField
      else Inr ())"

definition validate_state_shape :: "offchain_state \<Rightarrow> offchain_error + unit" where
  "validate_state_shape st =
     (if ost_version st = 0 then Inl BadVersion
      else if length (ost_also_known_as st) > max_also_known_as then Inl TooManyAlsoKnownAs
      else if ost_verification_method st = [] then Inl NoVerificationMethod
      else if length (ost_verification_method st) > max_verification_methods
      then Inl TooManyVerificationMethods
      else if length (ost_service st) > max_services then Inl TooManyServices
      else res_bind (check_each check_offchain_vm (ost_verification_method st))
        (\<lambda>_. check_each check_offchain_service (ost_service st)))"

text \<open>The trait \<open>CompactValueCodec\<close> as the record of its two functions.\<close>

record compact_value_codec =
  to_chunks :: "offchain_state \<Rightarrow> offchain_error + bytes list"
  from_chunks :: "bytes list \<Rightarrow> offchain_error + offchain_state"

definition unimplemented_codec :: compact_value_codec where
  "unimplemented_codec =
     \<lparr>to_chunks = (\<lambda>_. Inl CompactCodecMissing), from_chunks = (\<lambda>_. Inl CompactCodecMissing)\<rparr>"

definition encode_offchain_state ::
    "crates \<Rightarrow> compact_value_codec \<Rightarrow> offchain_state \<Rightarrow> offchain_error + encoded_offchain_state" where
  "encode_offchain_state X C st =
     res_bind (validate_state_shape st) (\<lambda>_.
     res_bind (to_chunks C st) (\<lambda>chunks.
     res_bind (compact_value_to_bytes chunks) (\<lambda>frame.
       Inr \<lparr>eos_encoding = offchain_state_encoding, eos_payload = encode_base64url X frame\<rparr>)))"

definition decode_offchain_state ::
    "crates \<Rightarrow> compact_value_codec \<Rightarrow> encoded_offchain_state \<Rightarrow> offchain_error + offchain_state" where
  "decode_offchain_state X C e =
     (if eos_encoding e \<noteq> offchain_state_encoding then Inl (UnsupportedEncoding (eos_encoding e))
      else res_bind (from_base64url X (eos_payload e)) (\<lambda>frame.
           res_bind (compact_value_from_bytes frame) (\<lambda>chunks.
           res_bind (from_chunks C chunks) (\<lambda>st.
           res_bind (validate_state_shape st) (\<lambda>_. Inr st)))))"

section \<open>DID strings\<close>

definition create_offchain_did :: "crates \<Rightarrow> bytes \<Rightarrow> midnight_did_string" where
  "create_offchain_did X h = create_midnight_did_string (hash_to_hex X h) Offchain"

definition create_offchain_did_from_state ::
    "crates \<Rightarrow> compact_value_codec \<Rightarrow> offchain_state \<Rightarrow> offchain_error + midnight_did_string" where
  "create_offchain_did_from_state X C st =
     res_bind (encode_offchain_state X C st) (\<lambda>encoded.
     res_bind (from_base64url X (eos_payload encoded)) (\<lambda>bs.
       Inr (create_offchain_did X (bytes_to_state_hash X bs))))"

definition create_long_form ::
    "crates \<Rightarrow> compact_value_codec \<Rightarrow> offchain_state \<Rightarrow> offchain_error + midnight_did_string" where
  "create_long_form X C st =
     res_bind (encode_offchain_state X C st) (\<lambda>encoded.
     res_bind (from_base64url X (eos_payload encoded)) (\<lambda>bs.
       let short = create_offchain_did X (bytes_to_state_hash X bs)
       in map_err OE_Did
            (parse_midnight_did_string (midnight_did_str short @ '':'' @ eos_payload encoded))))"

definition parse_long_form :: "crates \<Rightarrow> string \<Rightarrow> offchain_error + parsed_long_form" where
  "parse_long_form X input =
     res_bind (map_err OE_Did (parse_midnight_did_string input)) (\<lambda>did.
       let parts = split_on (CHR '':'') input
       in if \<not> (2 < length parts \<and> parts ! 2 = ''offchain'') then Inl NotOffchain
          else if length parts \<noteq> 5 then Inl MissingEncodedState
          else res_bind (map_err OE_Did (parse_offchain_state_hash X (parts ! 3))) (\<lambda>state_hash.
            let payload = parts ! 4;
                encoded = \<lparr>eos_encoding = offchain_state_encoding, eos_payload = payload\<rparr>
            in res_bind (from_base64url X payload) (\<lambda>bs.
                 if bytes_to_state_hash X bs \<noteq> state_hash then Inl StateHashMismatch
                 else Inr \<lparr>plf_did = did, plf_state_hash = state_hash, plf_encoded_state = encoded\<rparr>)))"

section \<open>Projection to a DID document\<close>

definition offchain_vm_to_document_method ::
    "crates \<Rightarrow> midnight_did_string \<Rightarrow> offchain_verification_method \<Rightarrow> validation_error + verification_method"
  where
  "offchain_vm_to_document_method X did m =
     vm_new X \<lparr>nvm_id = ovm_id m, nvm_type = JsonWebKey, nvm_controller = midnight_did_str did,
               nvm_public_key_jwk = ovm_public_key_jwk m\<rparr>"

definition offchain_service_to_document_service ::
    "crates \<Rightarrow> offchain_service \<Rightarrow> validation_error + service" where
  "offchain_service_to_document_service X s =
     service_new X \<lparr>ns_id = os_id s, ns_type = TypeOne (os_type s),
                    ns_endpoint = EndpointUri (os_service_endpoint s)\<rparr>"

record offchain_projected_document =
  opd_context :: document_context
  opd_id :: did_string
  opd_also_known_as :: "string list option"
  opd_controller :: midnight_did_string
  opd_verification_method :: "verification_method list"
  opd_authentication :: "string list option"
  opd_assertion_method :: "string list option"
  opd_key_agreement :: "string list option"
  opd_capability_invocation :: "string list option"
  opd_capability_delegation :: "string list option"
  opd_service :: "service list option"

definition maybe_some :: "'a list \<Rightarrow> 'a list option" where
  "maybe_some vs = (if vs = [] then None else Some vs)"

text \<open>\<open>filter(flag).map(id).collect()\<close>.\<close>

definition ids_with :: "(offchain_relationships \<Rightarrow> bool) \<Rightarrow> offchain_state \<Rightarrow> string list" where
  "ids_with flag st =
     map ovm_id (filter (\<lambda>m. flag (ovm_relationships m)) (ost_verification_method st))"

definition offchain_state_to_document ::
    "crates \<Rightarrow> midnight_did_string \<Rightarrow> offchain_state \<Rightarrow> validation_error + offchain_projected_document" where
  "offchain_state_to_document X did st =
     (let authentication = ids_with or_authentication st;
          assertion_method = ids_with or_assertion_method st;
          key_agreement = ids_with or_key_agreement st;
          capability_invocation = ids_with or_capability_invocation st;
          capability_delegation = ids_with or_capability_delegation st
      in res_bind (collect_results (offchain_vm_to_document_method X did) (ost_verification_method st)) (\<lambda>methods.
         res_bind (collect_results (offchain_service_to_document_service X) (ost_service st)) (\<lambda>services.
         res_bind (did_string_parse (midnight_did_str did)) (\<lambda>i.
           Inr \<lparr>opd_context = ContextMany [''https://www.w3.org/ns/did/v1'',
                                           ''https://w3c.github.io/vc-jws-2020/contexts/v1''],
                opd_id = i,
                opd_also_known_as = maybe_some (ost_also_known_as st),
                opd_controller = did,
                opd_verification_method = methods,
                opd_authentication = maybe_some authentication,
                opd_assertion_method = maybe_some assertion_method,
                opd_key_agreement = maybe_some key_agreement,
                opd_capability_invocation = maybe_some capability_invocation,
                opd_capability_delegation = maybe_some capability_delegation,
                opd_service = (if services = [] then None else Some services)\<rparr>))))"

definition offchain_document_metadata :: "offchain_state \<Rightarrow> did_document_metadata" where
  "offchain_document_metadata st =
     metadata_default\<lparr>dm_deactivated := Some False, dm_version_id := Some (show_nat (unat (ost_version st)))\<rparr>"

section \<open>Big-endian words\<close>

lemma u32_from_to: "u32_from_be_bytes (ucast (drop_bit 24 v)) (ucast (drop_bit 16 v))
    (ucast (drop_bit 8 v)) (ucast v) = (v :: u32)"
proof (rule bit_word_eqI)
  fix n
  assume "n < LENGTH(32)"
  then consider "n < 8" | "8 \<le> n" "n < 16" | "16 \<le> n" "n < 24" | "24 \<le> n" "n < 32" by fastforce
  then show "bit (u32_from_be_bytes (ucast (drop_bit 24 v)) (ucast (drop_bit 16 v))
      (ucast (drop_bit 8 v)) (ucast v)) n \<longleftrightarrow> bit v n"
    unfolding u32_from_be_bytes_def by cases (auto simp: bit_simps)
qed

lemma u32_to_from: "u32_to_be_bytes (u32_from_be_bytes a b c d) = [a, b, c, d]"
proof -
  have "ucast (drop_bit 24 (u32_from_be_bytes a b c d)) = a"
    "ucast (drop_bit 16 (u32_from_be_bytes a b c d)) = b"
    "ucast (drop_bit 8 (u32_from_be_bytes a b c d)) = c"
    "ucast (u32_from_be_bytes a b c d) = d"
    unfolding u32_from_be_bytes_def
    by (rule bit_word_eqI; auto simp: bit_simps dest: bit_imp_le_length)+
  then show ?thesis by (simp add: u32_to_be_bytes_def)
qed

section \<open>Frames\<close>

text \<open>A frame is the magic, the count and the concatenation of the framed chunks.\<close>

definition framed :: "bytes \<Rightarrow> bytes" where
  "framed c = u32_to_be_bytes (word_of_nat (length c)) @ c"

definition frame_of :: "bytes list \<Rightarrow> bytes" where
  "frame_of cs = magic @ u32_to_be_bytes (word_of_nat (length cs)) @ concat (map framed cs)"

definition fits_u32 :: "bytes list \<Rightarrow> bool" where
  "fits_u32 cs \<longleftrightarrow> length cs < 2 ^ 32 \<and> (\<forall>c\<in>set cs. length c < 2 ^ 32)"

lemma length_u32_to_be_bytes [simp]: "length (u32_to_be_bytes w) = 4"
  by (simp add: u32_to_be_bytes_def)

lemma length_framed [simp]: "length (framed c) = 4 + length c"
  by (simp add: framed_def)

lemma header_length_eq [simp]: "header_length = 8" "length magic = 4"
  by (simp_all add: header_length_def magic_def)

lemma assert_u32_Inr: "assert_u32 n l = Inr w \<longleftrightarrow> n < 2 ^ 32 \<and> w = word_of_nat n"
  by (auto simp: assert_u32_def)

lemma write_chunks_Inr:
  "write_chunks out cs = Inr bs \<longleftrightarrow>
     (\<forall>c\<in>set cs. length c < 2 ^ 32) \<and> bs = out @ concat (map framed cs)"
  by (induction out cs rule: write_chunks.induct)
    (auto simp: result_simps assert_u32_Inr write_u32_def framed_def)

lemma to_bytes_Inr: "compact_value_to_bytes cs = Inr bs \<longleftrightarrow> fits_u32 cs \<and> bs = frame_of cs"
  by (auto simp: compact_value_to_bytes_def result_simps assert_u32_Inr write_chunks_Inr
    fits_u32_def frame_of_def write_u32_def)

text \<open>Reading the word at the front of what is left of the input.\<close>

lemma read_u32_drop:
  assumes "drop off bs = rest"
  shows "read_u32 bs off = Inr w \<longleftrightarrow> (\<exists>r. rest = u32_to_be_bytes w @ r)"
proof (cases "length rest < 4")
  case True
  then have "length bs < off + 4" using assms by auto
  moreover have "rest \<noteq> u32_to_be_bytes w @ r" for r using True by auto
  ultimately show ?thesis by (simp add: read_u32_def chunk_length_bytes_def)
next
  case False
  then have len: "off + 4 \<le> length bs" using assms by auto
  then have "drop off bs = bs ! off # bs ! (off + 1) # bs ! (off + 2) # bs ! (off + 3) # drop (off + 4) bs"
    by (simp add: Cons_nth_drop_Suc [symmetric] numeral_eq_Suc)
  with assms obtain a b c d r where rest: "rest = a # b # c # d # r"
    and nth: "bs ! off = a" "bs ! (off + 1) = b" "bs ! (off + 2) = c" "bs ! (off + 3) = d" by metis
  have "read_u32 bs off = Inr (u32_from_be_bytes a b c d)"
    using len nth by (simp add: read_u32_def chunk_length_bytes_def)
  moreover have "u32_from_be_bytes a b c d = w \<longleftrightarrow> u32_to_be_bytes w = [a, b, c, d]"
    using u32_to_from [of a b c d] u32_from_to [of w] by (auto simp: u32_to_be_bytes_def)
  ultimately show ?thesis by (auto simp: rest u32_to_be_bytes_def)
qed

lemma unat_of_nat_u32: "n < 2 ^ 32 \<Longrightarrow> unat (word_of_nat n :: u32) = n"
  by (simp add: unat_of_nat)

lemma unat_u32_lt: "unat (w :: u32) < 2 ^ 32"
  using unsigned_less [of w] by simp

lemma drop_behind:
  assumes "drop off bs = p @ r" and "off \<le> length bs"
  shows "drop (off + length p) bs = r" and "off + length p + length r = length bs"
proof -
  have "drop (length p) (drop off bs) = r" by (simp add: assms(1))
  then show "drop (off + length p) bs = r" by (simp add: add.commute)
  have "length (drop off bs) = length p + length r" by (simp add: assms(1))
  then show "off + length p + length r = length bs" using assms(2) by simp
qed

text \<open>The chunk loop reads framed chunks off the front and stops behind them.\<close>

lemma read_chunks_Inr:
  assumes "drop off bs = rest" and "off \<le> length bs"
  shows "read_chunks bs n off = Inr (cs, e) \<longleftrightarrow>
    length cs = n \<and> (\<forall>c\<in>set cs. length c < 2 ^ 32) \<and>
    (\<exists>r. rest = concat (map framed cs) @ r \<and> e = length bs - length r)"
  using assms
proof (induction n arbitrary: off rest cs)
  case 0
  then show ?case by auto
next
  case (Suc n)
  have step: "read_chunks bs (Suc n) off = Inr (cs, e) \<longleftrightarrow>
    (\<exists>w r0. rest = u32_to_be_bytes w @ r0 \<and> unat w \<le> length r0 \<and>
      (\<exists>cs'. read_chunks bs n (off + 4 + unat w) = Inr (cs', e) \<and> cs = take (unat w) r0 # cs'))"
    (is "_ \<longleftrightarrow> ?rhs")
  proof -
    have "length rest = length bs - off" using Suc.prems by auto
    then have over: "off + 4 + unat w > length bs \<longleftrightarrow> \<not> unat w \<le> length r0"
      and tail: "drop (off + 4) bs = r0"
      if "rest = u32_to_be_bytes w @ r0" for w r0
      using drop_behind [of off bs "u32_to_be_bytes w" r0] that Suc.prems by auto
    show ?thesis
    proof
      assume "read_chunks bs (Suc n) off = Inr (cs, e)"
      then obtain w where w: "read_u32 bs off = Inr w" by (auto simp: result_simps)
      then obtain r0 where r0: "rest = u32_to_be_bytes w @ r0"
        using read_u32_drop [OF Suc.prems(1)] by blast
      with w over [OF r0] tail [OF r0] \<open>read_chunks bs (Suc n) off = Inr (cs, e)\<close> show ?rhs
        by (auto simp: result_simps Let_def chunk_length_bytes_def split: if_splits)
    next
      assume ?rhs
      then obtain w r0 cs' where w: "rest = u32_to_be_bytes w @ r0" "unat w \<le> length r0"
        "read_chunks bs n (off + 4 + unat w) = Inr (cs', e)" "cs = take (unat w) r0 # cs'" by blast
      then have "read_u32 bs off = Inr w" using read_u32_drop [OF Suc.prems(1)] by blast
      then show "read_chunks bs (Suc n) off = Inr (cs, e)"
        using w over [OF w(1)] tail [OF w(1)] by (simp add: chunk_length_bytes_def)
    qed
  qed
  show ?case (is "_ \<longleftrightarrow> ?spec")
  proof
    assume "read_chunks bs (Suc n) off = Inr (cs, e)"
    then obtain w r0 cs' where w: "rest = u32_to_be_bytes w @ r0" "unat w \<le> length r0"
      "read_chunks bs n (off + 4 + unat w) = Inr (cs', e)" "cs = take (unat w) r0 # cs'"
      unfolding step by blast
    have "drop (off + 4 + unat w) bs = drop (unat w) r0" "off + 4 + unat w \<le> length bs"
      using drop_behind [of off bs "u32_to_be_bytes w @ take (unat w) r0" "drop (unat w) r0"] Suc.prems w(1,2)
      by (simp_all add: min.absorb2 add.assoc)
    from Suc.IH [OF this] w(3) obtain r where r: "length cs' = n" "\<forall>c\<in>set cs'. length c < 2 ^ 32"
      "drop (unat w) r0 = concat (map framed cs') @ r" "e = length bs - length r" by blast
    have "framed (take (unat w) r0) = u32_to_be_bytes w @ take (unat w) r0"
      using w(2) by (simp add: framed_def min_def)
    then have "rest = concat (map framed cs) @ r"
      using w(1,4) r(3) append_take_drop_id [of "unat w" r0] by simp
    then show ?spec using r w(4) unat_u32_lt [of w] by (auto simp: min_def)
  next
    assume ?spec
    then obtain r where r: "length cs = Suc n" "\<forall>c\<in>set cs. length c < 2 ^ 32"
      "rest = concat (map framed cs) @ r" "e = length bs - length r" by blast
    then obtain c cs' where cs: "cs = c # cs'" "length cs' = n" by (auto simp: length_Suc_conv)
    let ?w = "word_of_nat (length c) :: u32"
    have uw: "unat ?w = length c" using r(2) cs by (simp add: unat_of_nat_u32)
    let ?r0 = "c @ concat (map framed cs') @ r"
    have rest: "rest = u32_to_be_bytes ?w @ ?r0" using r(3) cs by (simp add: framed_def)
    have "drop (off + 4 + unat ?w) bs = concat (map framed cs') @ r" "off + 4 + unat ?w \<le> length bs"
      using drop_behind [of off bs "u32_to_be_bytes ?w @ c" "concat (map framed cs') @ r"] Suc.prems rest uw
      by (simp_all add: add.assoc)
    from Suc.IH [OF this] r(2,4) cs have "read_chunks bs n (off + 4 + unat ?w) = Inr (cs', e)" by auto
    then show "read_chunks bs (Suc n) off = Inr (cs, e)"
      unfolding step using rest uw cs by (intro exI [of _ ?w] exI [of _ ?r0]) simp
  qed
qed

lemma concat_framed_length: "4 * length cs \<le> length (concat (map framed cs))"
  by (induction cs) simp_all

lemma from_bytes_Inr: "compact_value_from_bytes bs = Inr cs \<longleftrightarrow> fits_u32 cs \<and> bs = frame_of cs"
proof
  assume fr: "compact_value_from_bytes bs = Inr cs"
  then obtain w e where len: "8 \<le> length bs" and m: "take 4 bs = magic"
    and w: "read_u32 bs 4 = Inr w" and cs: "read_chunks bs (unat w) 8 = Inr (cs, e)" and e: "e = length bs"
    by (auto simp: compact_value_from_bytes_def result_simps Let_def split: if_splits)
  from w obtain r where r: "drop 4 bs = u32_to_be_bytes w @ r"
    using read_u32_drop [of 4 bs "drop 4 bs" w] by auto
  have r8: "drop 8 bs = r" and lr: "length bs = 8 + length r"
    using drop_behind [OF r] len by simp_all
  from cs obtain q where q: "length cs = unat w" "\<forall>c\<in>set cs. length c < 2 ^ 32"
    "r = concat (map framed cs) @ q" "e = length bs - length q"
    using read_chunks_Inr [OF r8, of "unat w" cs e] len by auto
  have "q = []" using q(3,4) e lr by simp
  moreover have "bs = magic @ u32_to_be_bytes w @ r" using m r by (metis append_take_drop_id)
  ultimately show "fits_u32 cs \<and> bs = frame_of cs"
    using q unat_u32_lt [of w] by (simp add: fits_u32_def frame_of_def)
next
  assume a: "fits_u32 cs \<and> bs = frame_of cs"
  then have bs: "bs = magic @ u32_to_be_bytes (word_of_nat (length cs)) @ concat (map framed cs)"
    by (simp add: frame_of_def)
  have d4: "drop 4 bs = u32_to_be_bytes (word_of_nat (length cs)) @ concat (map framed cs)"
    and d8: "drop 8 bs = concat (map framed cs)" and t: "take 4 bs = magic" and l: "8 \<le> length bs"
    and lb: "length bs - 8 = length (concat (map framed cs))"
    by (simp_all add: bs)
  have w: "read_u32 bs 4 = Inr (word_of_nat (length cs))"
    using read_u32_drop [OF d4] by blast
  have u: "unat (word_of_nat (length cs) :: u32) = length cs"
    using a by (simp add: unat_of_nat_u32 fits_u32_def)
  have "read_chunks bs (length cs) 8 = Inr (cs, length bs)"
    using read_chunks_Inr [OF d8 l] a by (simp add: fits_u32_def)
  moreover have "length cs \<le> (length bs - 8) div 4"
    unfolding lb using concat_framed_length [of cs] by linarith
  ultimately show "compact_value_from_bytes bs = Inr cs"
    using w u t l by (simp add: compact_value_from_bytes_def chunk_length_bytes_def)
qed

text \<open>
  C38. The MOD1 frame codec is a bijection with 32-bit bounds: a byte string reads as a list of chunks
  exactly when it is what writing that list gives, so that truncated, extended or mislabelled frames are
  refused. Writing fails only on overflow: it succeeds when the count and every chunk length fit 32 bits,
  and the frame then has 8 bytes of header and 4 more than its length for every chunk.
\<close>

theorem mod1_frame_exact:
  "(compact_value_from_bytes bs = Inr cs \<longleftrightarrow> compact_value_to_bytes cs = Inr bs) \<and>
   (is_ok (compact_value_to_bytes cs) \<longleftrightarrow> length cs < 2 ^ 32 \<and> (\<forall>c\<in>set cs. length c < 2 ^ 32)) \<and>
   (compact_value_to_bytes cs = Inr bs \<longrightarrow>
      length bs = 8 + sum_list (map (\<lambda>c. 4 + length c) cs) \<and> take 4 bs = magic)"
proof -
  have "length (concat (map framed cs)) = sum_list (map (\<lambda>c. 4 + length c) cs)"
    by (simp add: length_concat comp_def)
  then show ?thesis
    by (auto simp: is_ok_iff from_bytes_Inr to_bytes_Inr fits_u32_def frame_of_def)
qed

theorem mod1_frame_exact_witness:
  "\<exists>bs. compact_value_to_bytes [[1, 2], []] = Inr bs \<and> length bs = 18 \<and>
     compact_value_from_bytes bs = Inr [[1, 2], []]"
  using mod1_frame_exact [of _ "[[1, 2], []]"] by (auto simp: is_ok_iff)

section \<open>Key kinds and masks\<close>

lemma key_kind_from_jwk_Inr:
  "key_kind_from_jwk jwk = Inr k \<longleftrightarrow>
     (\<exists>has_y. key_kind_profile k = (jwk_kty jwk, jwk_crv jwk, has_y))"
  by (cases "jwk_kty jwk"; cases "jwk_crv jwk"; cases k) (auto simp: key_kind_from_jwk_def)

text \<open>
  The off-chain key table is a round trip on valid JWKs: a valid JWK without extensions is rebuilt
  from its kind and coordinates, a rebuilt JWK has the kind it was rebuilt from, the kind's byte tag
  reads back, and a valid key has no kind exactly when it is an RSA or \<open>oct\<close> key.
\<close>

theorem key_kind_roundtrip:
  assumes "base64_ok X" and "jwk_profile X jwk" and "jwk_extensions jwk = []"
  shows "(key_kind_from_jwk jwk = Inr k \<longrightarrow>
      jwk_from_key_kind X k (jwk_x jwk) (case jwk_y jwk of Some y \<Rightarrow> y | None \<Rightarrow> []) = Inr jwk) \<and>
    (jwk_from_key_kind X k x y = Inr jwk' \<longrightarrow> key_kind_from_jwk jwk' = Inr k) \<and>
    (key_kind_from_u8 t = Some k \<longleftrightarrow> t = key_kind_tag k) \<and>
    (is_ok (key_kind_from_jwk jwk) \<longleftrightarrow> jwk_kty jwk = EC \<or> jwk_kty jwk = OKP)"
proof (intro conjI impI)
  assume "key_kind_from_jwk jwk = Inr k"
  then obtain has_y where k: "key_kind_profile k = (jwk_kty jwk, jwk_crv jwk, has_y)"
    by (auto simp: key_kind_from_jwk_Inr)
  then have "jwk = \<lparr>jwk_kty = jwk_kty jwk, jwk_crv = jwk_crv jwk, jwk_x = jwk_x jwk,
      jwk_y = (if has_y then Some (case jwk_y jwk of Some y \<Rightarrow> y | None \<Rightarrow> []) else None),
      jwk_extensions = []\<rparr>"
    using assms(2,3) by (cases k; cases jwk) (auto simp: jwk_profile_def)
  then show "jwk_from_key_kind X k (jwk_x jwk) (case jwk_y jwk of Some y \<Rightarrow> y | None \<Rightarrow> []) = Inr jwk"
    using assms(2) by (simp add: jwk_from_key_kind_def k jwk_new_iff [OF assms(1)])
next
  assume "jwk_from_key_kind X k x y = Inr jwk'"
  then show "key_kind_from_jwk jwk' = Inr k"
    by (cases k) (auto simp: jwk_from_key_kind_def jwk_new_iff [OF assms(1)] key_kind_from_jwk_Inr)
next
  show "key_kind_from_u8 t = Some k \<longleftrightarrow> t = key_kind_tag k"
    by (cases k) (auto simp: key_kind_from_u8_def)
  show "is_ok (key_kind_from_jwk jwk) \<longleftrightarrow> jwk_kty jwk = EC \<or> jwk_kty jwk = OKP"
    using assms(2)
    by (cases "jwk_kty jwk"; cases "jwk_crv jwk") (simp_all add: key_kind_from_jwk_def jwk_profile_def)
qed

theorem key_kind_roundtrip_witness:
  "jwk_from_key_kind ref_crates KindEd25519 (jwk_x ex_jwk) [] = Inr ex_jwk"
  using key_kind_roundtrip [OF ref_crates_ok(1) ex_jwk_profile, of KindEd25519]
  by (simp add: ex_jwk_def key_kind_from_jwk_def)

lemma mask_bits:
  "(m AND 1) \<noteq> (0 :: u8) \<longleftrightarrow> bit m 0" "(m AND 2) \<noteq> (0 :: u8) \<longleftrightarrow> bit m 1"
  "(m AND 4) \<noteq> (0 :: u8) \<longleftrightarrow> bit m 2" "(m AND 8) \<noteq> (0 :: u8) \<longleftrightarrow> bit m 3"
  "(m AND 16) \<noteq> (0 :: u8) \<longleftrightarrow> bit m 4"
  using bit_iff_and_push_bit_not_eq_0 [of m 0] bit_iff_and_push_bit_not_eq_0 [of m 1]
    bit_iff_and_push_bit_not_eq_0 [of m 2] bit_iff_and_push_bit_not_eq_0 [of m 3]
    bit_iff_and_push_bit_not_eq_0 [of m 4]
  by (simp_all add: push_bit_eq_mult)

text \<open>
  The relationship mask is a round trip: five flags pack into the low five bits and unpack to the
  same flags; unpacking any byte and packing again clears exactly the upper three bits.
\<close>

theorem relationship_mask_roundtrip:
  "mask_to_relationships (relationships_to_mask r) = r \<and>
   relationships_to_mask (mask_to_relationships m) = m AND 31"
proof
  show "mask_to_relationships (relationships_to_mask r) = r"
    by (cases r) (simp add: mask_to_relationships_def relationships_to_mask_def Let_def)
  have bit_if: "bit (if b then v OR w else v) n \<longleftrightarrow> bit v n \<or> b \<and> bit w n"
    for b n and v w :: u8 by (simp add: bit_simps)
  show "relationships_to_mask (mask_to_relationships m) = m AND 31"
  proof (rule bit_word_eqI)
    fix n
    assume "n < LENGTH(8)"
    then have "n \<in> set [0..<8]" by simp
    then have "n = 0 \<or> n = 1 \<or> n = 2 \<or> n = 3 \<or> n = 4 \<or> n = 5 \<or> n = 6 \<or> n = 7"
      by (simp add: upt_rec numeral_eq_Suc)
    then show "bit (relationships_to_mask (mask_to_relationships m)) n \<longleftrightarrow> bit (m AND 31) n"
      by (elim disjE) (simp_all only: mask_to_relationships_def relationships_to_mask_def Let_def mask_bits
        bit_if offchain_relationships.simps bit_and_iff, simp_all)
  qed
qed

section \<open>The shape of a state\<close>

lemma check_offchain_vm_Inr:
  "check_offchain_vm vm = Inr u \<longleftrightarrow>
     starts_with (ovm_id vm) ''#'' \<and> is_ok (key_kind_from_jwk (ovm_public_key_jwk vm))"
  by (auto simp: check_offchain_vm_def result_simps is_ok_iff)

lemma check_offchain_service_Inr:
  "check_offchain_service s = Inr u \<longleftrightarrow>
     starts_with (os_id s) ''#'' \<and> os_type s \<noteq> [] \<and> os_service_endpoint s \<noteq> []"
  by (auto simp: check_offchain_service_def)

definition shape_ok :: "offchain_state \<Rightarrow> bool" where
  "shape_ok st \<longleftrightarrow>
     ost_version st \<noteq> 0 \<and> length (ost_also_known_as st) \<le> 4 \<and>
     length (ost_verification_method st) \<in> {1..4} \<and> length (ost_service st) \<le> 4 \<and>
     (\<forall>vm\<in>set (ost_verification_method st).
        starts_with (ovm_id vm) ''#'' \<and> is_ok (key_kind_from_jwk (ovm_public_key_jwk vm))) \<and>
     (\<forall>s\<in>set (ost_service st).
        starts_with (os_id s) ''#'' \<and> os_type s \<noteq> [] \<and> os_service_endpoint s \<noteq> [])"

lemma validate_state_shape_iff: "validate_state_shape st = Inr u \<longleftrightarrow> shape_ok st"
proof -
  have "ost_verification_method st \<noteq> [] \<longleftrightarrow> 1 \<le> length (ost_verification_method st)"
    by (simp add: Suc_le_eq)
  then show ?thesis
    by (auto simp: validate_state_shape_def shape_ok_def result_simps list_all_iff max_also_known_as_def
      max_services_def max_verification_methods_def check_offchain_vm_Inr check_offchain_service_Inr)
qed

section \<open>Encoding and decoding\<close>

text \<open>
  The contract of a chunk codec, which the crate leaves to its caller: what \<open>to_chunks\<close> gives,
  \<open>from_chunks\<close> reads back. The crate's own codec, which refuses everything, keeps it.
\<close>

locale chunk_codec =
  fixes C :: compact_value_codec
  assumes from_to_chunks: "to_chunks C st = Inr cs \<Longrightarrow> from_chunks C cs = Inr st"

interpretation unimplemented: chunk_codec unimplemented_codec
  by unfold_locales (simp add: unimplemented_codec_def)

lemma encode_base64url_inj:
  "base64_ok X \<Longrightarrow> encode_base64url X a = encode_base64url X b \<longleftrightarrow> a = b"
  using base64_crate.enc_inj by (auto simp: encode_base64url_def)

lemma from_base64url_Inr:
  assumes "base64_ok X"
  shows "from_base64url X v = Inr bs \<longleftrightarrow> bs \<noteq> [] \<and> v = encode_base64url X bs"
proof -
  have alpha: "list_all (\<lambda>b. is_ascii_alphanumeric b \<or> b = CHR ''-'' \<or> b = CHR ''_'') v \<longleftrightarrow>
    list_all is_base64url_byte v"
    by (simp add: list_all_iff is_base64url_byte_def)
  show ?thesis
  proof (cases "is_base64url_text v")
    case True
    have d: "decode_base64url X v =
      (if length v mod 4 = 1 then Inl (InvalidLength ''value'')
       else ok_or (InvalidCharacter ''value'') (b64_decode X v))"
      by (rule decode_base64url_no_pad [OF base64url_text_no_pad [OF True]])
    show ?thesis
    proof (cases "b64_decode X v")
      case None
      then have "v \<noteq> encode_base64url X bs"
        using base64_crate.dec_enc [OF assms] by (auto simp: encode_base64url_def)
      with True None show ?thesis
        by (simp add: from_base64url_def alpha is_base64url_text_def d result_simps)
    next
      case (Some cs)
      then have v: "v = encode_base64url X cs"
        by (simp add: base64_crate.dec_Some_iff [OF assms] encode_base64url_def)
      have "cs \<noteq> []" using v True base64_crate.enc_Nil_iff [OF assms]
        by (auto simp: is_base64url_text_def encode_base64url_def)
      moreover have "length v mod 4 \<noteq> 1"
        using v base64_crate.enc_len_mod [OF assms] by (simp add: encode_base64url_def)
      ultimately have "from_base64url X v = Inr cs"
        using True Some v [symmetric] by (simp add: from_base64url_def alpha is_base64url_text_def d)
      with v \<open>cs \<noteq> []\<close> show ?thesis by (auto simp: encode_base64url_inj [OF assms])
    qed
  next
    case False
    then have "v \<noteq> encode_base64url X bs" if "bs \<noteq> []" for bs
      using that base64_crate.enc_is_text [OF assms] by (auto simp: encode_base64url_def)
    with False show ?thesis by (auto simp: from_base64url_def alpha is_base64url_text_def)
  qed
qed

lemma frame_not_Nil: "frame_of cs \<noteq> []"
  by (simp add: frame_of_def magic_def)

lemma from_base64url_frame:
  "base64_ok X \<Longrightarrow> from_base64url X (encode_base64url X (frame_of cs)) = Inr (frame_of cs)"
  by (simp add: from_base64url_Inr frame_not_Nil)

lemma encode_offchain_state_Inr:
  "encode_offchain_state X C st = Inr e \<longleftrightarrow>
     shape_ok st \<and> (\<exists>cs. to_chunks C st = Inr cs \<and> fits_u32 cs \<and>
       e = \<lparr>eos_encoding = offchain_state_encoding, eos_payload = encode_base64url X (frame_of cs)\<rparr>)"
  by (auto simp: encode_offchain_state_def result_simps validate_state_shape_iff to_bytes_Inr)

context chunk_codec begin

lemma decode_encode:
  assumes "base64_ok X" and "encode_offchain_state X C st = Inr e"
  shows "decode_offchain_state X C e = Inr st"
proof -
  from assms(2) obtain cs where cs: "shape_ok st" "to_chunks C st = Inr cs" "fits_u32 cs"
    and e: "e = \<lparr>eos_encoding = offchain_state_encoding, eos_payload = encode_base64url X (frame_of cs)\<rparr>"
    by (auto simp: encode_offchain_state_Inr)
  have "compact_value_from_bytes (frame_of cs) = Inr cs" using cs(3) by (simp add: from_bytes_Inr)
  moreover have "validate_state_shape st = Inr ()" using cs(1) by (simp add: validate_state_shape_iff)
  ultimately show ?thesis using from_to_chunks [OF cs(2)]
    by (simp add: decode_offchain_state_def e from_base64url_frame [OF assms(1)])
qed

end

text \<open>
  C37. The shape check accepts exactly the bounded states: a version other than 0, one to four
  verification methods, at most four services and aliases, fragment ids, supported keys, no empty
  service field; and what \<open>decode\<close> returns always has that shape, from a canonical payload of the
  right encoding.
\<close>

theorem offchain_shape_enforced:
  assumes "base64_ok X"
  shows "(is_ok (validate_state_shape st) \<longleftrightarrow>
      ost_version st \<noteq> 0 \<and> length (ost_also_known_as st) \<le> 4 \<and>
      length (ost_verification_method st) \<in> {1..4} \<and> length (ost_service st) \<le> 4 \<and>
      (\<forall>vm\<in>set (ost_verification_method st).
         starts_with (ovm_id vm) ''#'' \<and> is_ok (key_kind_from_jwk (ovm_public_key_jwk vm))) \<and>
      (\<forall>s\<in>set (ost_service st).
         starts_with (os_id s) ''#'' \<and> os_type s \<noteq> [] \<and> os_service_endpoint s \<noteq> [])) \<and>
    (decode_offchain_state X C e = Inr st \<longrightarrow>
       shape_ok st \<and> eos_encoding e = offchain_state_encoding \<and>
       (\<exists>cs. eos_payload e = encode_base64url X (frame_of cs) \<and> from_chunks C cs = Inr st))"
proof (rule conjI)
  show "decode_offchain_state X C e = Inr st \<longrightarrow>
       shape_ok st \<and> eos_encoding e = offchain_state_encoding \<and>
       (\<exists>cs. eos_payload e = encode_base64url X (frame_of cs) \<and> from_chunks C cs = Inr st)"
    by (auto simp: validate_state_shape_iff decode_offchain_state_def result_simps
      from_base64url_Inr [OF assms] from_bytes_Inr split: if_splits)
qed (simp only: is_ok_iff validate_state_shape_iff shape_ok_def ex_simps simp_thms)

theorem offchain_shape_enforced_witness:
  "\<not> is_ok (validate_state_shape \<lparr>ost_version = 0, ost_also_known_as = [], ost_verification_method = [],
      ost_service = []\<rparr>)"
  using offchain_shape_enforced [OF ref_crates_ok(1),
    of "\<lparr>ost_version = 0, ost_also_known_as = [], ost_verification_method = [], ost_service = []\<rparr>"]
  by simp

definition ex_offchain_state :: offchain_state where
  "ex_offchain_state =
     \<lparr>ost_version = 1, ost_also_known_as = [],
      ost_verification_method =
        [\<lparr>ovm_id = ''#k'', ovm_public_key_jwk = ex_jwk,
          ovm_relationships = mask_to_relationships 1\<rparr>],
      ost_service = []\<rparr>"

definition ex_codec :: compact_value_codec where
  "ex_codec =
     \<lparr>to_chunks = (\<lambda>st. if st = ex_offchain_state then Inr [[1], [2, 3]] else Inl CompactCodecMissing),
      from_chunks = (\<lambda>cs. if cs = [[1], [2, 3]] then Inr ex_offchain_state else Inl CompactCodecMissing)\<rparr>"

lemma ex_codec_ok: "chunk_codec ex_codec"
  by unfold_locales (auto simp: ex_codec_def split: if_splits)

lemma ex_offchain_state_shape: "shape_ok ex_offchain_state"
  by (simp add: shape_ok_def ex_offchain_state_def key_kind_from_jwk_def ex_jwk_def)

lemma ex_encode:
  "encode_offchain_state ref_crates ex_codec ex_offchain_state =
     Inr \<lparr>eos_encoding = offchain_state_encoding,
          eos_payload = encode_base64url ref_crates (frame_of [[1], [2, 3]])\<rparr>"
  by (simp add: encode_offchain_state_Inr ex_offchain_state_shape fits_u32_def) (simp add: ex_codec_def)

text \<open>
  With any codec that reads back its own chunks, decoding an encoded off-chain state gives the state
  that was encoded.
\<close>

theorem offchain_state_roundtrip:
  assumes "base64_ok X" and "chunk_codec C" and "encode_offchain_state X C st = Inr e"
  shows "decode_offchain_state X C e = Inr st"
  by (rule chunk_codec.decode_encode [OF assms(2,1,3)])

theorem offchain_state_roundtrip_witness:
  "\<exists>e. decode_offchain_state ref_crates ex_codec e = Inr ex_offchain_state"
  using offchain_state_roundtrip [OF ref_crates_ok(1) ex_codec_ok ex_encode] by blast

section \<open>Long-form DIDs\<close>

text \<open>\<open>Blake2s<U32>\<close> has 32 bytes of output.\<close>

definition digest_ok :: "crates \<Rightarrow> bool" where
  "digest_ok X \<longleftrightarrow> (\<forall>bs. length (blake2s256 X bs) = 32)"

lemma ref_digest_ok: "digest_ok ref_crates"
  by (auto simp: digest_ok_def ref_crates_def min_def)

text \<open>The long-form DID of a frame: its digest and its text.\<close>

definition long_form_of :: "crates \<Rightarrow> bytes \<Rightarrow> string" where
  "long_form_of X bs = long_form (hash_to_hex X (bytes_to_state_hash X bs)) (encode_base64url X bs)"

lemma encode_is_segment:
  assumes "base64_ok X" and "bs \<noteq> []"
  shows "is_base64url_segment (encode_base64url X bs)"
proof -
  have "is_base64url_text (b64_encode X bs)" by (rule base64_crate.enc_is_text [OF assms])
  then show ?thesis
    using base64_crate.enc_len_mod [OF assms(1), of bs]
    by (simp add: is_base64url_segment_def is_base64url_text_def is_base64url_byte_def encode_base64url_def
      list_all_iff)
qed

lemma parse_offchain_state_hash_Inr:
  assumes "hex_ok X"
  shows "parse_offchain_state_hash X s = Inr h \<longleftrightarrow> length h = 32 \<and> s = hash_to_hex X h"
proof
  assume "parse_offchain_state_hash X s = Inr h"
  then have low: "is_lowercase_hex64 s" and h: "hash_from_hex X s = Inr h"
    by (auto simp: parse_offchain_state_hash_def result_simps split: if_splits)
  have "s = hash_to_hex X h" using hash_to_from_hex [OF assms h] low by (simp add: is_lowercase_hex64_iff)
  then show "length h = 32 \<and> s = hash_to_hex X h" using h by (simp add: hash_from_hex_Inr [OF assms])
next
  assume "length h = 32 \<and> s = hash_to_hex X h"
  then show "parse_offchain_state_hash X s = Inr h"
    using hash_to_hex64 [OF assms] hash_from_to_hex [OF assms]
    by (simp add: parse_offchain_state_hash_def)
qed

lemma parse_long_form_iff:
  assumes "base64_ok X" and "hex_ok X" and "digest_ok X"
  shows "parse_long_form X s = Inr p \<longleftrightarrow>
    (\<exists>bs. bs \<noteq> [] \<and> s = long_form_of X bs \<and>
      p = \<lparr>plf_did = MidnightDidString s, plf_state_hash = bytes_to_state_hash X bs,
           plf_encoded_state = \<lparr>eos_encoding = offchain_state_encoding, eos_payload = encode_base64url X bs\<rparr>\<rparr>)"
proof
  let ?ps = "split_on (CHR '':'') s"
  assume parse: "parse_long_form X s = Inr p"
  then obtain d h bs where d: "parse_midnight_did_string s = Inr d"
    and off: "?ps ! 2 = ''offchain''" and len: "length ?ps = 5"
    and h: "parse_offchain_state_hash X (?ps ! 3) = Inr h"
    and bs: "from_base64url X (?ps ! 4) = Inr bs" "bytes_to_state_hash X bs = h"
    and p: "p = \<lparr>plf_did = d, plf_state_hash = h,
      plf_encoded_state = \<lparr>eos_encoding = offchain_state_encoding, eos_payload = ?ps ! 4\<rparr>\<rparr>"
    by (auto simp: parse_long_form_def result_simps Let_def split: if_splits)
  from d have dd: "d = MidnightDidString s" and st: "starts_with s ''did:midnight:''"
    by (auto simp: parse_midnight_did_string_iff midnight_did_grammar_def
      intro: starts_short_form starts_long_form)
  obtain ps where ps: "?ps = ''did'' # ''midnight'' # ps" "s = ''did:midnight:'' @ join_with '':'' ps"
    using split_parts [OF st refl] by blast
  from len ps(1) obtain a b c where abc: "ps = [a, b, c]" by (auto simp: length_Suc_conv numeral_eq_Suc)
  have "a = ''offchain''" using off unfolding ps(1) abc by simp
  moreover have "b = hash_to_hex X (bytes_to_state_hash X bs)"
    using h bs(2) unfolding ps(1) abc by (simp add: parse_offchain_state_hash_Inr [OF assms(2)])
  moreover have "bs \<noteq> []" "c = encode_base64url X bs"
    using bs(1) unfolding ps(1) abc by (simp_all add: from_base64url_Inr [OF assms(1)])
  moreover have "?ps ! 4 = c" unfolding ps(1) abc by simp
  ultimately show "\<exists>bs. bs \<noteq> [] \<and> s = long_form_of X bs \<and>
      p = \<lparr>plf_did = MidnightDidString s, plf_state_hash = bytes_to_state_hash X bs,
           plf_encoded_state = \<lparr>eos_encoding = offchain_state_encoding, eos_payload = encode_base64url X bs\<rparr>\<rparr>"
    using p dd bs(2) ps(2) by (intro exI [of _ bs]) (simp add: abc long_form_of_def long_form_def short_form_def)
next
  assume "\<exists>bs. bs \<noteq> [] \<and> s = long_form_of X bs \<and>
      p = \<lparr>plf_did = MidnightDidString s, plf_state_hash = bytes_to_state_hash X bs,
           plf_encoded_state = \<lparr>eos_encoding = offchain_state_encoding, eos_payload = encode_base64url X bs\<rparr>\<rparr>"
  then obtain bs where bs: "bs \<noteq> []" "s = long_form_of X bs" and
      p: "p = \<lparr>plf_did = MidnightDidString s, plf_state_hash = bytes_to_state_hash X bs,
           plf_encoded_state = \<lparr>eos_encoding = offchain_state_encoding, eos_payload = encode_base64url X bs\<rparr>\<rparr>"
    by blast
  let ?h = "hash_to_hex X (bytes_to_state_hash X bs)"
  let ?p = "encode_base64url X bs"
  have len: "length (bytes_to_state_hash X bs) = 32"
    using assms(3) by (simp add: digest_ok_def bytes_to_state_hash_def)
  have low: "is_lowercase_hex64 ?h" by (rule hash_to_hex64 [OF assms(2) len])
  have seg: "is_base64url_segment ?p" by (rule encode_is_segment [OF assms(1) bs(1)])
  have s: "s = long_form ?h ?p" using bs(2) by (simp add: long_form_of_def)
  have split: "split_on (CHR '':'') s = [''did'', ''midnight'', ''offchain'', ?h, ?p]"
    unfolding s using low seg by (intro split_long_form) (simp_all add: is_lowercase_hex64_iff)
  have "parse_midnight_did_string s = Inr (MidnightDidString s)"
    unfolding s by (rule parse_accepts_long [OF low seg])
  moreover have "parse_offchain_state_hash X ?h = Inr (bytes_to_state_hash X bs)"
    using len by (simp add: parse_offchain_state_hash_Inr [OF assms(2)])
  moreover have "from_base64url X ?p = Inr bs"
    using bs(1) by (simp add: from_base64url_Inr [OF assms(1)])
  ultimately show "parse_long_form X s = Inr p"
    by (simp add: parse_long_form_def split p)
qed

text \<open>
  C29. \<open>parse_long_form\<close> accepts exactly the long-form DIDs of non-empty byte strings: the state hash in
  the DID is the BLAKE2s digest of the bytes whose canonical text is the last segment, and the result
  holds that hash and that text.
\<close>

theorem parse_long_form_exact:
  assumes "base64_ok X" and "hex_ok X" and "digest_ok X"
  shows "parse_long_form X s = Inr p \<longleftrightarrow>
    (\<exists>bs. bs \<noteq> [] \<and>
      s = ''did:midnight:offchain:'' @ hash_to_hex X (blake2s256 X bs) @ '':'' @ encode_base64url X bs \<and>
      plf_did p = MidnightDidString s \<and> plf_state_hash p = blake2s256 X bs \<and>
      plf_encoded_state p = \<lparr>eos_encoding = offchain_state_encoding, eos_payload = encode_base64url X bs\<rparr>)"
  unfolding parse_long_form_iff [OF assms]
  by (cases p) (auto simp: long_form_of_def long_form_def short_form_def bytes_to_state_hash_def)

theorem parse_long_form_exact_witness:
  "\<exists>p. parse_long_form ref_crates (long_form_of ref_crates [1, 2, 3]) = Inr p \<and>
     plf_state_hash p = blake2s256 ref_crates [1, 2, 3]"
proof -
  let ?s = "''did:midnight:offchain:'' @ hash_to_hex ref_crates (blake2s256 ref_crates [1, 2, 3]) @ '':'' @
    encode_base64url ref_crates [1, 2, 3]"
  let ?p = "\<lparr>plf_did = MidnightDidString ?s, plf_state_hash = blake2s256 ref_crates [1, 2, 3],
    plf_encoded_state = \<lparr>eos_encoding = offchain_state_encoding,
      eos_payload = encode_base64url ref_crates [1, 2, 3]\<rparr>\<rparr>"
  have "parse_long_form ref_crates ?s = Inr ?p"
    unfolding parse_long_form_exact [OF ref_crates_ok(1,2) ref_digest_ok]
    by (intro exI [of _ "[1, 2, 3]"]) simp
  moreover have "long_form_of ref_crates [1, 2, 3] = ?s"
    by (simp add: long_form_of_def long_form_def short_form_def bytes_to_state_hash_def)
  ultimately show ?thesis by simp
qed

lemma create_long_form_Inr:
  assumes "base64_ok X" and "hex_ok X" and "digest_ok X"
  shows "create_long_form X C st = Inr d \<longleftrightarrow>
    shape_ok st \<and> (\<exists>cs. to_chunks C st = Inr cs \<and> fits_u32 cs \<and>
      d = MidnightDidString (long_form_of X (frame_of cs)))"
proof -
  have parse: "parse_midnight_did_string
      (midnight_did_str (create_offchain_did X (bytes_to_state_hash X bs)) @ '':'' @ encode_base64url X bs) =
    Inr (MidnightDidString (long_form_of X bs))" if "bs \<noteq> []" for bs
  proof -
    have "length (bytes_to_state_hash X bs) = 32"
      using assms(3) by (simp add: digest_ok_def bytes_to_state_hash_def)
    then have "is_lowercase_hex64 (hash_to_hex X (bytes_to_state_hash X bs))"
      by (rule hash_to_hex64 [OF assms(2)])
    from parse_accepts_long [OF this encode_is_segment [OF assms(1) that]]
    show ?thesis
      by (simp add: create_offchain_did_def create_midnight_did_string_def long_form_of_def long_form_def
        short_form_def)
  qed
  show ?thesis
    unfolding create_long_form_def result_simps encode_offchain_state_Inr Let_def
    using parse [OF frame_not_Nil] from_base64url_frame [OF assms(1)] by auto
qed

text \<open>
  C8. A long-form DID created from a state parses back: the parse succeeds, keeps the DID, and the
  payload it returns decodes, with any codec that reads back its own chunks, to the very state; its hash
  is the hash in the short-form DID of the state.
\<close>

theorem long_form_roundtrip:
  assumes "base64_ok X" and "hex_ok X" and "digest_ok X" and "chunk_codec C"
    and "create_long_form X C st = Inr d"
  shows "\<exists>p. parse_long_form X (midnight_did_str d) = Inr p \<and> plf_did p = d \<and>
    decode_offchain_state X C (plf_encoded_state p) = Inr st \<and>
    create_offchain_did_from_state X C st = Inr (create_offchain_did X (plf_state_hash p))"
proof -
  from assms(5) obtain cs where cs: "shape_ok st" "to_chunks C st = Inr cs" "fits_u32 cs"
    "d = MidnightDidString (long_form_of X (frame_of cs))"
    by (auto simp: create_long_form_Inr [OF assms(1-3)])
  let ?e = "\<lparr>eos_encoding = offchain_state_encoding, eos_payload = encode_base64url X (frame_of cs)\<rparr>"
  let ?p = "\<lparr>plf_did = d, plf_state_hash = bytes_to_state_hash X (frame_of cs), plf_encoded_state = ?e\<rparr>"
  have e: "encode_offchain_state X C st = Inr ?e" using cs by (simp add: encode_offchain_state_Inr)
  have "parse_long_form X (midnight_did_str d) = Inr ?p"
    using cs(4) frame_not_Nil by (auto simp: parse_long_form_iff [OF assms(1-3)])
  moreover have "decode_offchain_state X C ?e = Inr st"
    by (rule chunk_codec.decode_encode [OF assms(4,1) e])
  moreover have "create_offchain_did_from_state X C st =
      Inr (create_offchain_did X (bytes_to_state_hash X (frame_of cs)))"
    by (simp add: create_offchain_did_from_state_def e from_base64url_frame [OF assms(1)])
  ultimately show ?thesis by (intro exI [of _ ?p]) simp
qed

theorem long_form_roundtrip_witness:
  "\<exists>d p. create_long_form ref_crates ex_codec ex_offchain_state = Inr d \<and>
     parse_long_form ref_crates (midnight_did_str d) = Inr p \<and>
     decode_offchain_state ref_crates ex_codec (plf_encoded_state p) = Inr ex_offchain_state"
proof -
  have "to_chunks ex_codec ex_offchain_state = Inr [[1], [2, 3]]" by (simp add: ex_codec_def)
  moreover have "fits_u32 [[1], [2, 3]]" by (simp add: fits_u32_def)
  ultimately obtain d where "create_long_form ref_crates ex_codec ex_offchain_state = Inr d"
    using ex_offchain_state_shape
    by (auto simp: create_long_form_Inr [OF ref_crates_ok(1,2) ref_digest_ok])
  with long_form_roundtrip [OF ref_crates_ok(1,2) ref_digest_ok ex_codec_ok this] show ?thesis by blast
qed

section \<open>Projection: lemmas\<close>

lemma opt_list_maybe_some [simp]: "opt_list (maybe_some xs) = xs"
  by (simp add: maybe_some_def)

lemma offchain_vm_to_document_method_Inr:
  assumes "base64_ok X"
  shows "offchain_vm_to_document_method X did m = Inr vm \<longleftrightarrow>
    vm = \<lparr>vm_id = DidKeyId (ovm_id m), vm_type = JsonWebKey, vm_controller = DidString (midnight_did_str did),
          vm_public_key_jwk = ovm_public_key_jwk m\<rparr> \<and>
    is_did_key_id X (ovm_id m) \<and> is_did_string (midnight_did_str did) \<and>
    jwk_profile X (ovm_public_key_jwk m)"
  by (simp add: offchain_vm_to_document_method_def vm_new_iff [OF assms])

lemma projected_methods:
  assumes "base64_ok X" and "collect_results (offchain_vm_to_document_method X did) ms = Inr vms"
  shows "map (\<lambda>vm. did_key_id_str (vm_id vm)) vms = map ovm_id ms \<and>
    map vm_public_key_jwk vms = map ovm_public_key_jwk ms \<and>
    (\<forall>vm\<in>set vms. vm_controller vm = DidString (midnight_did_str did) \<and> jwk_profile X (vm_public_key_jwk vm))"
proof -
  from assms(2) have "list_all2 (\<lambda>m vm. offchain_vm_to_document_method X did m = Inr vm) ms vms"
    by (simp add: collect_results_Inr_iff)
  then show ?thesis
    by (induction rule: list_all2_induct) (auto simp: offchain_vm_to_document_method_Inr [OF assms(1)])
qed

text \<open>
  The projection of an off-chain state lists its methods in order, with the DID as their only
  controller and valid keys, and each relationship is exactly the ids of the methods that carry its flag,
  so a relationship never names a method that is not in the document.
\<close>

theorem offchain_projection:
  assumes "base64_ok X" and "offchain_state_to_document X did st = Inr d"
  shows "map (\<lambda>vm. did_key_id_str (vm_id vm)) (opd_verification_method d) =
      map ovm_id (ost_verification_method st) \<and>
    (\<forall>vm\<in>set (opd_verification_method d).
       did_string_str (vm_controller vm) = midnight_did_str did \<and> jwk_profile X (vm_public_key_jwk vm)) \<and>
    opt_list (opd_authentication d) = ids_with or_authentication st \<and>
    opt_list (opd_assertion_method d) = ids_with or_assertion_method st \<and>
    opt_list (opd_key_agreement d) = ids_with or_key_agreement st \<and>
    opt_list (opd_capability_invocation d) = ids_with or_capability_invocation st \<and>
    opt_list (opd_capability_delegation d) = ids_with or_capability_delegation st \<and>
    (\<forall>flag. set (ids_with flag st) \<subseteq> (\<lambda>vm. did_key_id_str (vm_id vm)) ` set (opd_verification_method d))"
proof -
  from assms(2) obtain vms where
    vms: "collect_results (offchain_vm_to_document_method X did) (ost_verification_method st) = Inr vms"
    and d: "opd_verification_method d = vms"
      "opd_authentication d = maybe_some (ids_with or_authentication st)"
      "opd_assertion_method d = maybe_some (ids_with or_assertion_method st)"
      "opd_key_agreement d = maybe_some (ids_with or_key_agreement st)"
      "opd_capability_invocation d = maybe_some (ids_with or_capability_invocation st)"
      "opd_capability_delegation d = maybe_some (ids_with or_capability_delegation st)"
    by (auto simp: offchain_state_to_document_def result_simps Let_def)
  note m = projected_methods [OF assms(1) vms]
  have "(\<lambda>vm. did_key_id_str (vm_id vm)) ` set vms = ovm_id ` set (ost_verification_method st)"
    using m by (metis list.set_map)
  then have "set (ids_with flag st) \<subseteq> (\<lambda>vm. did_key_id_str (vm_id vm)) ` set vms" for flag
    by (auto simp: ids_with_def)
  with m d show ?thesis by auto
qed

theorem offchain_projection_witness:
  "\<exists>d. offchain_state_to_document ref_crates (MidnightDidString ''did:x:1'')
      (ex_offchain_state\<lparr>ost_verification_method := []\<rparr>) = Inr d \<and>
    opt_list (opd_authentication d) = []"
proof -
  obtain d where d: "offchain_state_to_document ref_crates (MidnightDidString ''did:x:1'')
      (ex_offchain_state\<lparr>ost_verification_method := []\<rparr>) = Inr d"
    by (simp add: offchain_state_to_document_def ex_did_ok ex_offchain_state_def Let_def)
  from offchain_projection [OF ref_crates_ok(1) d] d show ?thesis by (auto simp: ids_with_def)
qed

end
