(* ===== verification/Mappers.thy ===== *)
theory Mappers
  imports Backends Ledger_Utils Offchain_State
begin

text \<open>
  \<open>midnight-did-api/src/error.rs\<close>, \<open>subject.rs\<close> and \<open>ledger_mappers.rs\<close>: the error type of the API
  crate, the DID subject of a contract, and the conversions from the document model to the values the
  ledger stores.
\<close>

section \<open>Errors\<close>

datatype contract_error = Failed string | NotDeployed | StateUnavailable

datatype verification_error =
    RelationAlreadyContains string string
  | RelationMissing string string

datatype controller_error =
    RotationOrphaned string
  | InvalidSecretKey
  | ControllerSubjectMismatch string

datatype api_error =
    ApiVerification verification_error
  | ApiController controller_error
  | ApiContract contract_error
  | ApiValidation validation_error
  | ApiCodec codec_error
  | ApiLedgerUtils ledger_utils_error
  | ApiMidnightDid midnight_did_error
  | MissingPrivateState
  | InvalidArgument string
  | Encoding string
  | Mapping string

definition invalid_argument :: "string \<Rightarrow> api_error" where
  "invalid_argument msg = InvalidArgument msg"

definition mapping :: "string \<Rightarrow> api_error" where
  "mapping msg = Mapping msg"

text \<open>The \<open>Display\<close> texts of the errors, which end up inside other errors.\<close>

fun validation_error_text :: "validation_error \<Rightarrow> string" where
  "validation_error_text e = ''validation failed: '' @ ve_summary e"

fun codec_error_text :: "codec_error \<Rightarrow> string" where
  "codec_error_text (InvalidCharacter l) = l @ '' contains an invalid base64url character''"
| "codec_error_text (InvalidLength l) = l @ '' has an invalid unpadded base64url length''"
| "codec_error_text (UnexpectedByteLength l e a) =
     l @ '' must decode to exactly '' @ show_nat e @ '' bytes (got '' @ show_nat a @ '')''"
| "codec_error_text (NotCanonical l) = l @ '' is not canonical unpadded base64url''"

fun ledger_utils_error_text :: "ledger_utils_error \<Rightarrow> string" where
  "ledger_utils_error_text (LU_Empty f) = f @ '' must not be empty''"
| "ledger_utils_error_text (NotARelativeOrDidUrl f) = f @ '' must be a DID URL or relative reference''"
| "ledger_utils_error_text (EmptyFragment f) =
     f @ '' DID URL must include a non-empty fragment identifier''"
| "ledger_utils_error_text (SubjectMismatch f e) =
     f @ '' DID URL subject must match the current DID ('' @ e @ '')''"
| "ledger_utils_error_text DuplicateServiceTypeEntries = ''service type entries must be unique''"
| "ledger_utils_error_text EmptyServiceTypeEntries = ''service type entries must not be empty''"
| "ledger_utils_error_text EmptyServiceType = ''service type must not be empty''"
| "ledger_utils_error_text InvalidServiceType = ''service type property must be a non-empty string set''"
| "ledger_utils_error_text (NotAbsoluteUri f) = f @ '' must be a valid absolute URI (RFC3986)''"

fun midnight_did_error_text :: "midnight_did_error \<Rightarrow> string" where
  "midnight_did_error_text BadContractAddress = ''Contract address must be 64 hex chars''"
| "midnight_did_error_text BadOffchainStateHash = ''Offchain state hash must use lowercase hex''"
| "midnight_did_error_text BadFormat = ''Invalid Midnight DID format''"
| "midnight_did_error_text UnknownNetwork = ''Unknown network in Midnight DID''"
| "midnight_did_error_text BadMethodSpecificId = ''Invalid method-specific identifier in Midnight DID''"
| "midnight_did_error_text OffchainNotLowercase =
     ''Offchain Midnight DID identifiers must use lowercase hex''"
| "midnight_did_error_text BadOffchainStateEncoding = ''Invalid offchain Midnight DID state encoding''"

fun contract_error_text :: "contract_error \<Rightarrow> string" where
  "contract_error_text (Failed m) = ''contract call failed: '' @ m"
| "contract_error_text NotDeployed = ''contract not deployed''"
| "contract_error_text StateUnavailable = ''ledger state unavailable''"

fun verification_error_text :: "verification_error \<Rightarrow> string" where
  "verification_error_text (RelationAlreadyContains r m) =
     ''relation '' @ r @ '' already contains verification method '' @ m"
| "verification_error_text (RelationMissing r m) =
     ''relation '' @ r @ '' does not contain verification method '' @ m"

fun controller_error_text :: "controller_error \<Rightarrow> string" where
  "controller_error_text (RotationOrphaned m) =
     ''controller rotation finalized but pending state promotion failed: '' @ m"
| "controller_error_text InvalidSecretKey = ''DID controller secret key must be 32 bytes''"
| "controller_error_text (ControllerSubjectMismatch e) =
     ''verificationMethod.controller must equal DID subject ('' @ e @ '')''"

fun api_error_text :: "api_error \<Rightarrow> string" where
  "api_error_text (ApiVerification e) = verification_error_text e"
| "api_error_text (ApiController e) = controller_error_text e"
| "api_error_text (ApiContract e) = contract_error_text e"
| "api_error_text (ApiValidation e) = validation_error_text e"
| "api_error_text (ApiCodec e) = codec_error_text e"
| "api_error_text (ApiLedgerUtils e) = ledger_utils_error_text e"
| "api_error_text (ApiMidnightDid e) = midnight_did_error_text e"
| "api_error_text MissingPrivateState =
     ''DID controller private state is missing or malformed; '' @
     ''import the controller secret before using this contract''"
| "api_error_text (InvalidArgument m) = ''invalid argument: '' @ m"
| "api_error_text (Encoding m) = ''encoding error: '' @ m"
| "api_error_text (Mapping m) = ''ledger mapping error: '' @ m"

section \<open>The subject of a contract\<close>

definition get_did_subject_for :: "crates \<Rightarrow> bytes \<Rightarrow> midnight_network \<Rightarrow> string" where
  "get_did_subject_for X address network =
     midnight_did_str (create_midnight_did_string (contract_to_hex X address) network)"

definition get_did_subject :: "crates \<Rightarrow> ('b, 'raw) contract \<Rightarrow> api_error + string" where
  "get_did_subject X c =
     Inr (midnight_did_str (create_midnight_did_string (contract_to_hex X (ct_address c)) (ct_network c)))"

definition normalize_bound_fragment_id_for ::
    "crates \<Rightarrow> ('b, 'raw) contract \<Rightarrow> string \<Rightarrow> bound_id_field \<Rightarrow> api_error + string" where
  "normalize_bound_fragment_id_for X c v field =
     res_bind (get_did_subject X c) (\<lambda>subject.
       map_err ApiLedgerUtils (normalize_bound_fragment_id v field subject))"

section \<open>To the ledger\<close>

record schnorr_verification_method =
  svm_id :: string
  svm_public_key :: jubjub_point_hex

definition schnorr_vm_new :: "string \<Rightarrow> jubjub_point_hex \<Rightarrow> api_error + schnorr_verification_method" where
  "schnorr_vm_new i pk =
     (if i = [] then Inl (invalid_argument ''SchnorrJubjubVerificationMethod.id must not be empty'')
      else Inr \<lparr>svm_id = i, svm_public_key = pk\<rparr>)"

definition unsupported_profile :: "string \<Rightarrow> public_key_jwk \<Rightarrow> api_error" where
  "unsupported_profile coord jwk =
     invalid_argument (''Unsupported publicKeyJwk.'' @ coord @ '' profile '' @
       key_type_debug (jwk_kty jwk) @ ''/'' @ curve_type_debug (jwk_crv jwk))"

definition public_key_jwk_to_ledger :: "crates \<Rightarrow> public_key_jwk \<Rightarrow> api_error + ledger_public_key_jwk" where
  "public_key_jwk_to_ledger X jwk =
     (if map_of (jwk_extensions jwk) ''d'' \<noteq> None
      then Inl (invalid_argument ''publicKeyJwk must not include private key material'')
      else
        res_bind (ok_or (unsupported_profile ''x'' jwk)
          (public_key_jwk_coordinate_byte_length (jwk_kty jwk) (jwk_crv jwk) X_coord)) (\<lambda>x_len.
        res_bind (map_err ApiCodec (decode_base64url_bytes X (jwk_x jwk) x_len ''publicKeyJwk.x'')) (\<lambda>_.
        res_bind
          (case jwk_y jwk of
             Some y \<Rightarrow>
               res_bind (ok_or (unsupported_profile ''y'' jwk)
                 (public_key_jwk_coordinate_byte_length (jwk_kty jwk) (jwk_crv jwk) Y_coord)) (\<lambda>y_len.
               res_bind (map_err ApiCodec (decode_base64url_bytes X y y_len ''publicKeyJwk.y'')) (\<lambda>_.
                 Inr y))
           | None \<Rightarrow> Inr []) (\<lambda>y_value.
          Inr \<lparr>lj_kty = jwk_kty jwk, lj_crv = jwk_crv jwk, lj_x = jwk_x jwk, lj_y = y_value\<rparr>))))"

definition assert_midnight_key_profile :: "public_key_jwk \<Rightarrow> api_error + unit" where
  "assert_midnight_key_profile jwk =
     (case jwk_kty jwk of
        OKP \<Rightarrow>
          if jwk_crv jwk \<notin> {Ed25519, X25519, BLS12381G1, BLS12381G2}
          then Inl (invalid_argument ''OKP keys must use Ed25519, X25519, BLS12381G1, or BLS12381G2'')
          else if jwk_y jwk \<noteq> None
          then Inl (invalid_argument ''OKP keys must not include a y coordinate'')
          else Inr ()
      | EC \<Rightarrow>
          if jwk_crv jwk = Jubjub
          then Inl (invalid_argument ''Jubjub keys must use addSchnorrJubjubVerificationMethod'')
          else if jwk_crv jwk \<notin> {P256, Secp256k1}
          then Inl (invalid_argument
            ''EC keys must use P-256 or secp256k1; use SchnorrJubjub methods for Jubjub'')
          else if jwk_y jwk = None
          then Inl (invalid_argument ''EC keys must include a y coordinate'')
          else Inr ()
      | _ \<Rightarrow> Inl (invalid_argument
          (''Only OKP (Ed25519/X25519/BLS12381G1/BLS12381G2) and EC '' @
           ''(P-256/secp256k1) keys are supported'')))"

definition verification_method_to_ledger ::
    "crates \<Rightarrow> ('b, 'raw) contract \<Rightarrow> verification_method \<Rightarrow> api_error + ledger_verification_method" where
  "verification_method_to_ledger X c m =
     (if vm_type m \<noteq> JsonWebKey
      then Inl (invalid_argument ''verificationMethod.type must be JsonWebKey'')
      else
        res_bind (assert_midnight_key_profile (vm_public_key_jwk m)) (\<lambda>_.
        res_bind (get_did_subject X c) (\<lambda>subject.
          if did_string_str (vm_controller m) \<noteq> subject
          then Inl (ApiController (ControllerSubjectMismatch subject))
          else
            res_bind (normalize_bound_fragment_id_for X c (did_key_id_str (vm_id m))
              VerificationMethodIdField) (\<lambda>i.
            res_bind (public_key_jwk_to_ledger X (vm_public_key_jwk m)) (\<lambda>jwk.
              Inr \<lparr>lvm_id = i, lvm_typ = vm_type m, lvm_public_key_jwk = jwk\<rparr>)))))"

definition schnorr_method_to_ledger ::
    "crates \<Rightarrow> ('b, 'raw) contract \<Rightarrow> schnorr_verification_method \<Rightarrow>
     api_error + ledger_schnorr_verification_method" where
  "schnorr_method_to_ledger X c m =
     res_bind (normalize_bound_fragment_id_for X c (svm_id m) SchnorrJubjubVerificationMethodIdField)
       (\<lambda>i. Inr \<lparr>lsv_id = i, lsv_public_key = svm_public_key m\<rparr>)"

definition service_to_ledger ::
    "crates \<Rightarrow> ('b, 'raw) contract \<Rightarrow> service \<Rightarrow> api_error + ledger_service" where
  "service_to_ledger X c s =
     (let endpoint = service_endpoint_to_ledger X (svc_endpoint s)
      in res_bind (map_err ApiLedgerUtils (service_type_to_ledger X (svc_type s))) (\<lambda>typ.
         res_bind (normalize_bound_fragment_id_for X c (svc_id s) ServiceIdField) (\<lambda>i.
           Inr \<lparr>ls_id = i, ls_typ = typ, ls_service_endpoint = endpoint\<rparr>)))"

fun ledger_relation_for :: "vm_relation \<Rightarrow> ledger_relation" where
  "ledger_relation_for VMR_Undefined = LR_Undefined"
| "ledger_relation_for Authentication = LR_Authentication"
| "ledger_relation_for AssertionMethod = LR_AssertionMethod"
| "ledger_relation_for KeyAgreement = LR_KeyAgreement"
| "ledger_relation_for CapabilityInvocation = LR_CapabilityInvocation"
| "ledger_relation_for CapabilityDelegation = LR_CapabilityDelegation"

definition relation_set_from_state ::
    "did_ledger_snapshot \<Rightarrow> vm_relation \<Rightarrow> api_error + string list" where
  "relation_set_from_state st relation =
     (if relation = VMR_Undefined then Inl (invalid_argument ''relation must be defined'')
      else ok_or (invalid_argument ''relation must be defined'')
             (relation_set st (ledger_relation_for relation)))"

section \<open>Lemmas\<close>

lemma get_did_subject_eq: "get_did_subject X c = Inr (get_did_subject_for X (ct_address c) (ct_network c))"
  by (simp add: get_did_subject_def get_did_subject_for_def)

abbreviation subject_of :: "crates \<Rightarrow> ('b, 'raw) contract \<Rightarrow> string" where
  "subject_of X c \<equiv> get_did_subject_for X (ct_address c) (ct_network c)"

lemma normalize_for_Inr:
  "normalize_bound_fragment_id_for X c v field = Inr r \<longleftrightarrow>
     normalize_bound_fragment_id v field (subject_of X c) = Inr r"
  by (simp add: normalize_bound_fragment_id_for_def get_did_subject_eq result_simps)

lemma get_did_subject_form:
  "get_did_subject_for X a n = ''did:midnight:'' @ as_wire_str n @ '':'' @ hex_encode X a"
  by (simp add: get_did_subject_for_def create_midnight_did_string_def contract_to_hex_def hash_to_hex_def)

text \<open>The subject of a contract is always a bare DID.\<close>

lemma subject_is_did:
  assumes "hex_ok X"
  shows "is_did_string (get_did_subject_for X a n)"
proof -
  have hexd: "c \<noteq> CHR ''/''" "c \<noteq> CHR ''?''" "c \<noteq> CHR ''#''" if "c \<in> set (hex_encode X a)" for c
    using that hex_crate.hex_enc_digits [OF assms, of a] by (auto simp: list_all_iff ascii_defs code_of_def)
  have wire: "CHR ''/'' \<notin> set (as_wire_str n)" "CHR ''?'' \<notin> set (as_wire_str n)" "CHR ''#'' \<notin> set (as_wire_str n)"
    by (cases n; simp)+
  have "is_did_url (get_did_subject_for X a n)"
    unfolding is_did_url_iff get_did_subject_form
    by (intro exI [of _ "''midnight''"] exI [of _ "as_wire_str n @ '':'' @ hex_encode X a"]) simp
  moreover have "CHR ''/'' \<notin> set (hex_encode X a)" "CHR ''?'' \<notin> set (hex_encode X a)"
    "CHR ''#'' \<notin> set (hex_encode X a)" using hexd by blast+
  ultimately show ?thesis unfolding is_did_string_iff using wire by (simp add: get_did_subject_form)
qed

text \<open>The keys the ledger takes through the JWK circuit.\<close>

definition midnight_profile :: "public_key_jwk \<Rightarrow> bool" where
  "midnight_profile jwk \<longleftrightarrow>
     (jwk_kty jwk = OKP \<and> jwk_crv jwk \<in> {Ed25519, X25519, BLS12381G1, BLS12381G2} \<and> jwk_y jwk = None) \<or>
     (jwk_kty jwk = EC \<and> jwk_crv jwk \<in> {P256, Secp256k1} \<and> jwk_y jwk \<noteq> None)"

lemma assert_midnight_key_profile_Inr: "assert_midnight_key_profile jwk = Inr u \<longleftrightarrow> midnight_profile jwk"
  by (cases "jwk_kty jwk") (auto simp: assert_midnight_key_profile_def midnight_profile_def)

lemma relation_set_from_state_ok:
  "relation_set_from_state st r = Inr ms \<longleftrightarrow> r \<noteq> VMR_Undefined \<and> relation_set st (ledger_relation_for r) = Some ms"
  by (cases r) (simp_all add: relation_set_from_state_def)

text \<open>A valid JWK of such a profile always maps.\<close>

definition ledger_jwk :: "public_key_jwk \<Rightarrow> ledger_public_key_jwk" where
  "ledger_jwk jwk =
     \<lparr>lj_kty = jwk_kty jwk, lj_crv = jwk_crv jwk, lj_x = jwk_x jwk,
      lj_y = (case jwk_y jwk of Some y \<Rightarrow> y | None \<Rightarrow> [])\<rparr>"

lemma canonical_decodes:
  assumes "base64_ok X" and "canonical_b64 X n s"
  shows "\<exists>bs. decode_base64url_bytes X s n l = Inr bs"
proof -
  from assms(2) have "is_ok (decode_base64url_bytes X s n l)"
    unfolding decode_base64url_bytes_is_ok [OF assms(1)] canonical_b64_def .
  then show ?thesis by (simp add: is_ok_iff)
qed

lemma jwk_to_ledger_valid:
  assumes "base64_ok X" and "jwk_profile X jwk" and "midnight_profile jwk"
  shows "public_key_jwk_to_ledger X jwk = Inr (ledger_jwk jwk)"
proof -
  note d = canonical_decodes [OF assms(1)]
  from assms(3) consider
      (okp) "jwk_kty jwk = OKP" "jwk_crv jwk \<in> {Ed25519, X25519, BLS12381G1, BLS12381G2}" "jwk_y jwk = None"
    | (ec) y where "jwk_kty jwk = EC" "jwk_crv jwk \<in> {P256, Secp256k1}" "jwk_y jwk = Some y"
    by (auto simp: midnight_profile_def)
  then show ?thesis
  proof cases
    case okp
    with assms(2) obtain n where "public_key_jwk_coordinate_byte_length OKP (jwk_crv jwk) X_coord = Some n"
      and "canonical_b64 X n (jwk_x jwk)" by (auto simp: jwk_profile_def)
    then show ?thesis using okp assms(2) d [of n "jwk_x jwk" "''publicKeyJwk.x''"]
      by (auto simp: public_key_jwk_to_ledger_def ledger_jwk_def jwk_profile_def)
  next
    case ec
    with assms(2) have "canonical_b64 X 32 (jwk_x jwk)" "canonical_b64 X 32 y"
      "public_key_jwk_coordinate_byte_length EC (jwk_crv jwk) X_coord = Some 32"
      by (auto simp: jwk_profile_def)
    then show ?thesis
      using ec assms(2) d [of 32 "jwk_x jwk" "''publicKeyJwk.x''"] d [of 32 y "''publicKeyJwk.y''"]
      by (auto simp: public_key_jwk_to_ledger_def ledger_jwk_def jwk_profile_def)
  qed
qed

lemma vm_to_ledger_iff:
  assumes "base64_ok X" and "jwk_profile X (vm_public_key_jwk m)"
  shows "verification_method_to_ledger X c m = Inr l \<longleftrightarrow>
    vm_type m = JsonWebKey \<and> midnight_profile (vm_public_key_jwk m) \<and>
    did_string_str (vm_controller m) = subject_of X c \<and>
    normalize_bound_fragment_id (did_key_id_str (vm_id m)) VerificationMethodIdField (subject_of X c) =
      Inr (lvm_id l) \<and>
    lvm_typ l = JsonWebKey \<and> lvm_public_key_jwk l = ledger_jwk (vm_public_key_jwk m)"
  using assms
  by (cases l) (auto simp: verification_method_to_ledger_def result_simps get_did_subject_eq
    assert_midnight_key_profile_Inr normalize_for_Inr jwk_to_ledger_valid)

section \<open>Properties\<close>

text \<open>
  A valid verification method is stored on the ledger exactly when its type is \<open>JsonWebKey\<close>, its
  key an OKP key or a P-256 or secp256k1 key, its controller the contract's DID, and its id a fragment
  of that DID; the ledger entry then has the \<open>#\<close> form of the id and the unchanged coordinates of the
  key.
\<close>

theorem verification_method_to_ledger_exact:
  assumes "base64_ok X" and "vm_validate X m = Inr ()"
  shows "verification_method_to_ledger X c m = Inr l \<longleftrightarrow>
    vm_type m = JsonWebKey \<and> midnight_profile (vm_public_key_jwk m) \<and>
    did_string_str (vm_controller m) = get_did_subject_for X (ct_address c) (ct_network c) \<and>
    normalize_bound_fragment_id (did_key_id_str (vm_id m)) VerificationMethodIdField
      (get_did_subject_for X (ct_address c) (ct_network c)) = Inr (lvm_id l) \<and>
    lvm_typ l = JsonWebKey \<and> lvm_public_key_jwk l = ledger_jwk (vm_public_key_jwk m)"
proof -
  have "jwk_profile X (vm_public_key_jwk m)"
    using assms by (simp add: vm_validate_def result_simps jwk_collect_issues_Nil)
  from vm_to_ledger_iff [OF assms(1) this] show ?thesis .
qed

text \<open>A stored method, on the contract with an all-zero address.\<close>

definition zero_contract :: "(unit recording, unit) contract" where
  "zero_contract = recording_contract (replicate 32 0) Testnet"

lemma zero_subject:
  "subject_of ref_crates zero_contract = ''did:midnight:testnet:'' @ replicate 64 CHR ''0''"
proof -
  have "hex_encode ref_crates (replicate 32 0) = replicate 64 CHR ''0''" by code_simp
  then show ?thesis
    by (simp add: zero_contract_def recording_contract_def get_did_subject_for_def contract_to_hex_def
      hash_to_hex_def create_midnight_did_string_def)
qed

definition ex_ledger_vm :: "string \<Rightarrow> verification_method" where
  "ex_ledger_vm ctl =
     \<lparr>vm_id = DidKeyId ''#k'', vm_type = JsonWebKey, vm_controller = DidString ctl,
      vm_public_key_jwk = ex_jwk\<rparr>"

lemma ex_ledger_vm_valid: "is_did_string ctl \<Longrightarrow> vm_validate ref_crates (ex_ledger_vm ctl) = Inr ()"
proof -
  assume "is_did_string ctl"
  moreover have "trim ''#k'' = ''#k''" by (rule trim_printable_all) (simp add: printable_def code_of_def)
  then have "is_did_key_id ref_crates ''#k''"
    by (simp add: is_did_key_id_def is_relative_reference_def has_uri_scheme_def uri_scheme_prefix_chars_def
      is_key_fragment_def extract_key_fragment_def strip_prefix_def starts_with_def key_fragment_char_def
      ascii_defs code_of_def ref_crates_def ref_url_parse_def)
  ultimately show ?thesis
    by (simp add: vm_validate_def ex_ledger_vm_def jwk_collect_issues_Nil ex_jwk_profile result_simps)
qed

theorem verification_method_to_ledger_exact_witness:
  "verification_method_to_ledger ref_crates zero_contract
     (ex_ledger_vm (subject_of ref_crates zero_contract)) =
     Inr \<lparr>lvm_id = ''#k'', lvm_typ = JsonWebKey, lvm_public_key_jwk = ledger_jwk ex_jwk\<rparr>"
  using verification_method_to_ledger_exact [OF ref_crates_ok(1) ex_ledger_vm_valid [OF subject_is_did [OF ref_crates_ok(2), of "ct_address zero_contract" "ct_network zero_contract"]],
    of zero_contract "\<lparr>lvm_id = ''#k'', lvm_typ = JsonWebKey, lvm_public_key_jwk = ledger_jwk ex_jwk\<rparr>"]
  by (simp add: ex_ledger_vm_def midnight_profile_def ex_jwk_def normalize_bound_hash
    trim_printable_all printable_def code_of_def)

end
