(* ===== verification/Private_State.thy ===== *)
theory Private_State
  imports Mappers
begin

text \<open>
  \<open>midnight-did-api/src/private_state.rs\<close> and \<open>controller_operations.rs\<close>: the two slots of controller
  key material behind the \<open>PrivateStateStore\<close> trait, its in-memory implementation, and the rotation of
  the controller key, which touches the store and the contract in turn.
\<close>

section \<open>The store\<close>

datatype private_state_slot = ActiveSlot | PendingSlot

fun slot_as_str :: "private_state_slot \<Rightarrow> string" where
  "slot_as_str ActiveSlot = ''midnightDIDPrivateState''"
| "slot_as_str PendingSlot = ''midnightDIDPendingControllerPrivateState''"

text \<open>The 32-byte array of the code; \<open>from_bytes\<close> is the checked way in.\<close>

record did_private_state =
  secret_key :: bytes

definition private_state_from_bytes :: "bytes \<Rightarrow> api_error + did_private_state" where
  "private_state_from_bytes bs =
     (if length bs \<noteq> 32 then Inl (ApiController InvalidSecretKey) else Inr \<lparr>secret_key = bs\<rparr>)"

definition is_restorable :: "did_private_state option \<Rightarrow> bool" where
  "is_restorable st = (st \<noteq> None)"

datatype private_state_error = ContractAddressNotSet | StoreBackend string

fun private_state_error_text :: "private_state_error \<Rightarrow> string" where
  "private_state_error_text ContractAddressNotSet = ''Contract address not set''"
| "private_state_error_text (StoreBackend m) = ''private state store error: '' @ m"

record 's private_store =
  set_contract_address :: "string \<Rightarrow> 's \<Rightarrow> 's"
  store_get :: "private_state_slot \<Rightarrow> ('s, private_state_error, did_private_state option) io"
  store_set :: "private_state_slot \<Rightarrow> did_private_state \<Rightarrow> ('s, private_state_error, unit) io"
  store_remove :: "private_state_slot \<Rightarrow> ('s, private_state_error, unit) io"

section \<open>\<open>InMemoryPrivateStateStore\<close>\<close>

record in_memory =
  im_contract_address :: "string option"
  im_require_address :: bool
  im_slots :: "private_state_slot \<rightharpoonup> did_private_state"

definition in_memory_new :: in_memory where
  "in_memory_new = \<lparr>im_contract_address = None, im_require_address = False, im_slots = Map.empty\<rparr>"

definition in_memory_strict :: in_memory where
  "in_memory_strict = in_memory_new\<lparr>im_require_address := True\<rparr>"

definition check_address :: "in_memory \<Rightarrow> private_state_error + unit" where
  "check_address s =
     (if im_require_address s \<and> im_contract_address s = None then Inl ContractAddressNotSet else Inr ())"

definition in_memory_set_address :: "string \<Rightarrow> in_memory \<Rightarrow> in_memory" where
  "in_memory_set_address a s = s\<lparr>im_contract_address := Some a\<rparr>"

definition in_memory_get ::
    "private_state_slot \<Rightarrow> (in_memory, private_state_error, did_private_state option) io" where
  "in_memory_get k s = (res_bind (check_address s) (\<lambda>_. Inr (im_slots s k)), s)"

definition in_memory_set ::
    "private_state_slot \<Rightarrow> did_private_state \<Rightarrow> (in_memory, private_state_error, unit) io" where
  "in_memory_set k v s =
     (case check_address s of
        Inl e \<Rightarrow> (Inl e, s)
      | Inr _ \<Rightarrow> (Inr (), s\<lparr>im_slots := (im_slots s)(k \<mapsto> v)\<rparr>))"

definition in_memory_remove :: "private_state_slot \<Rightarrow> (in_memory, private_state_error, unit) io" where
  "in_memory_remove k s =
     (case check_address s of
        Inl e \<Rightarrow> (Inl e, s)
      | Inr _ \<Rightarrow> (Inr (), s\<lparr>im_slots := (im_slots s)(k := None)\<rparr>))"

definition in_memory_store :: "in_memory private_store" where
  "in_memory_store =
     \<lparr>set_contract_address = in_memory_set_address, store_get = in_memory_get,
      store_set = in_memory_set, store_remove = in_memory_remove\<rparr>"

section \<open>Operations on the store\<close>

definition bind_private_state_provider :: "'s private_store \<Rightarrow> string \<Rightarrow> 's \<Rightarrow> 's" where
  "bind_private_state_provider P a = set_contract_address P a"

definition restore_private_state ::
    "'s private_store \<Rightarrow> private_state_slot \<Rightarrow> ('s, api_error, did_private_state option) io" where
  "restore_private_state P k s =
     (case store_get P k s of
        (Inr v, s') \<Rightarrow> (Inr v, s')
      | (Inl e, s') \<Rightarrow>
          if e = ContractAddressNotSet then (Inr None, s')
          else (Inl (InvalidArgument (private_state_error_text e)), s'))"

definition require_private_state ::
    "'s private_store \<Rightarrow> private_state_slot \<Rightarrow> ('s, api_error, did_private_state) io" where
  "require_private_state P k =
     io_bind (restore_private_state P k) (\<lambda>v.
       case v of Some st \<Rightarrow> io_lift (Inr st) | None \<Rightarrow> io_lift (Inl MissingPrivateState))"

definition store_err :: "private_state_error \<Rightarrow> api_error" where
  "store_err e = InvalidArgument (private_state_error_text e)"

definition save_private_state ::
    "'s private_store \<Rightarrow> did_private_state \<Rightarrow> private_state_slot \<Rightarrow> ('s, api_error, unit) io" where
  "save_private_state P st k = io_map_err store_err (store_set P k st)"

definition init_private_state ::
    "'s private_store \<Rightarrow> bytes \<Rightarrow> ('s, api_error, did_private_state) io" where
  "init_private_state P new_secret_key =
     io_bind (restore_private_state P ActiveSlot) (\<lambda>v.
       case v of
         Some existing \<Rightarrow> io_lift (Inr existing)
       | None \<Rightarrow>
           (\<lambda>s. let st = \<lparr>secret_key = new_secret_key\<rparr> in
             (case store_set P ActiveSlot st s of
                (Inr _, s') \<Rightarrow> (Inr st, s')
              | (Inl e, s') \<Rightarrow>
                  if e = ContractAddressNotSet then (Inr st, s')
                  else (Inl (InvalidArgument (private_state_error_text e)), s'))))"

definition save_pending_controller_private_state ::
    "'s private_store \<Rightarrow> did_private_state \<Rightarrow> ('s, api_error, unit) io" where
  "save_pending_controller_private_state P st = save_private_state P st PendingSlot"

definition clear_pending_controller_private_state :: "'s private_store \<Rightarrow> ('s, api_error, unit) io" where
  "clear_pending_controller_private_state P = io_map_err store_err (store_remove P PendingSlot)"

definition recover_pending_controller_private_state ::
    "'s private_store \<Rightarrow> bool \<Rightarrow> ('s, api_error, did_private_state) io" where
  "recover_pending_controller_private_state P rotation_finalized =
     (if \<not> rotation_finalized
      then io_lift (Inl (invalid_argument
        (''Pending controller private state can only be recovered after confirming '' @
         ''the key-rotation transaction finalized'')))
      else
        io_bind (require_private_state P PendingSlot) (\<lambda>pending.
        io_bind (save_private_state P pending ActiveSlot) (\<lambda>_.
        io_bind (clear_pending_controller_private_state P) (\<lambda>_.
          io_lift (Inr pending)))))"

section \<open>Key rotation and recovery\<close>

text \<open>The operations on both the contract's backend and the store.\<close>

definition on_contract :: "('b, 'e, 'a) io \<Rightarrow> ('b \<times> 's, 'e, 'a) io" where
  "on_contract m w = (case m (fst w) of (r, b) \<Rightarrow> (r, (b, snd w)))"

definition on_store :: "('s, 'e, 'a) io \<Rightarrow> ('b \<times> 's, 'e, 'a) io" where
  "on_store m w = (case m (snd w) of (r, s) \<Rightarrow> (r, (fst w, s)))"

text \<open>\<open>let _ = m.await;\<close> and a \<open>match\<close> on the result.\<close>

definition io_ignore :: "('w, 'e, 'a) io \<Rightarrow> ('w, 'd, unit) io" where
  "io_ignore m w = (Inr (), snd (m w))"

definition io_try :: "('w, 'e, 'a) io \<Rightarrow> ('e + 'a \<Rightarrow> ('w, 'd, 'b) io) \<Rightarrow> ('w, 'd, 'b) io" where
  "io_try m f w = (case m w of (r, w') \<Rightarrow> f r w')"

definition rotate_controller_key ::
    "serde \<Rightarrow> ('b, 'raw) contract \<Rightarrow> 's private_store \<Rightarrow> bytes \<Rightarrow> bytes \<Rightarrow>
     ('b \<times> 's, api_error, finalized_tx_data) io" where
  "rotate_controller_key S c P new_secret_key new_controller_public_key =
     (let next_state = \<lparr>secret_key = new_secret_key\<rparr> in
      io_bind (on_store (save_pending_controller_private_state P next_state)) (\<lambda>_.
      io_try (on_contract (ct_rotate_controller_key S c new_controller_public_key)) (\<lambda>r.
        case r of
          Inl err \<Rightarrow>
            io_bind (io_ignore (on_store (clear_pending_controller_private_state P))) (\<lambda>_.
              io_lift (Inl (ApiContract (Failed (backend_error_text err)))))
        | Inr result \<Rightarrow>
            io_try (on_store (save_private_state P next_state ActiveSlot)) (\<lambda>p.
              case p of
                Inl promote_err \<Rightarrow>
                  io_lift (Inl (ApiController (RotationOrphaned (api_error_text promote_err))))
              | Inr _ \<Rightarrow>
                  io_bind (io_ignore (on_store (clear_pending_controller_private_state P))) (\<lambda>_.
                    io_lift (Inr result))))))"

definition recover_controller_key ::
    "serde \<Rightarrow> ('b, 'raw) contract \<Rightarrow> 's private_store \<Rightarrow> bytes \<Rightarrow> bytes \<Rightarrow>
     ('b \<times> 's, api_error, finalized_tx_data) io" where
  "recover_controller_key S c P new_secret_key new_controller_public_key =
     (let next_state = \<lparr>secret_key = new_secret_key\<rparr> in
      io_bind (on_store (save_pending_controller_private_state P next_state)) (\<lambda>_.
      io_try (on_contract (ct_recover_controller_key S c new_controller_public_key)) (\<lambda>r.
        case r of
          Inl err \<Rightarrow>
            io_bind (io_ignore (on_store (clear_pending_controller_private_state P))) (\<lambda>_.
              io_lift (Inl (ApiContract (Failed (backend_error_text err)))))
        | Inr result \<Rightarrow>
            io_try (on_store (save_private_state P next_state ActiveSlot)) (\<lambda>p.
              case p of
                Inl promote_err \<Rightarrow>
                  io_lift (Inl (ApiController (RotationOrphaned (api_error_text promote_err))))
              | Inr _ \<Rightarrow>
                  io_bind (io_ignore (on_store (clear_pending_controller_private_state P))) (\<lambda>_.
                    io_lift (Inr result))))))"

section \<open>What the operations rely on\<close>

text \<open>
  The contract of a store: \<open>view\<close> is what its slots hold. A read returns it, a write or removal that
  succeeds changes exactly its slot, one that fails changes nothing. A bound store, with the invariant
  \<open>ready\<close>, never fails.
\<close>

locale slot_store =
  fixes P :: "'s private_store" and view :: "'s \<Rightarrow> private_state_slot \<rightharpoonup> did_private_state"
  assumes get_view: "store_get P k s = (r, s') \<Longrightarrow> view s' = view s \<and> (is_ok r \<longrightarrow> r = Inr (view s k))"
    and set_view: "store_set P k v s = (q, s') \<Longrightarrow>
      view s' = (if is_ok q then (view s)(k \<mapsto> v) else view s)"
    and remove_view: "store_remove P k s = (q, s') \<Longrightarrow>
      view s' = (if is_ok q then (view s)(k := None) else view s)"

locale bound_store = slot_store +
  fixes ready :: "'s \<Rightarrow> bool"
  assumes get_ready: "ready s \<Longrightarrow> store_get P k s = (r, s') \<Longrightarrow> is_ok r \<and> ready s'"
    and set_ready: "ready s \<Longrightarrow> store_set P k v s = (q, s') \<Longrightarrow> is_ok q \<and> ready s'"
    and remove_ready: "ready s \<Longrightarrow> store_remove P k s = (q, s') \<Longrightarrow> is_ok q \<and> ready s'"
    and bind_ready: "ready (set_contract_address P a s)"
    and bind_view: "view (set_contract_address P a s) = view s"

text \<open>The body shared by rotation and recovery, for any circuit.\<close>

definition key_change ::
    "('b, backend_error, finalized_tx_data) io \<Rightarrow> 's private_store \<Rightarrow> bytes \<Rightarrow>
     ('b \<times> 's, api_error, finalized_tx_data) io" where
  "key_change m P sk =
     (let next_state = \<lparr>secret_key = sk\<rparr> in
      io_bind (on_store (save_pending_controller_private_state P next_state)) (\<lambda>_.
      io_try (on_contract m) (\<lambda>r.
        case r of
          Inl err \<Rightarrow>
            io_bind (io_ignore (on_store (clear_pending_controller_private_state P))) (\<lambda>_.
              io_lift (Inl (ApiContract (Failed (backend_error_text err)))))
        | Inr result \<Rightarrow>
            io_try (on_store (save_private_state P next_state ActiveSlot)) (\<lambda>p.
              case p of
                Inl promote_err \<Rightarrow>
                  io_lift (Inl (ApiController (RotationOrphaned (api_error_text promote_err))))
              | Inr _ \<Rightarrow>
                  io_bind (io_ignore (on_store (clear_pending_controller_private_state P))) (\<lambda>_.
                    io_lift (Inr result))))))"

lemma rotate_is_key_change:
  "rotate_controller_key S c P sk pk = key_change (ct_rotate_controller_key S c pk) P sk"
  "recover_controller_key S c P sk pk = key_change (ct_recover_controller_key S c pk) P sk"
  by (simp_all only: rotate_controller_key_def recover_controller_key_def key_change_def)

text \<open>
  The outcomes of a key change, by its result: nothing happened; the circuit failed; it ran but the
  new key is only in the pending slot; the new key is active.
\<close>

definition key_change_outcome ::
    "('b, backend_error, finalized_tx_data) io \<Rightarrow> did_private_state \<Rightarrow>
     (private_state_slot \<rightharpoonup> did_private_state) \<Rightarrow> 'b \<Rightarrow>
     api_error + finalized_tx_data \<Rightarrow> (private_state_slot \<rightharpoonup> did_private_state) \<Rightarrow> 'b \<Rightarrow> bool" where
  "key_change_outcome m new v b r v' b' \<longleftrightarrow>
     (case r of
        Inl (InvalidArgument e) \<Rightarrow> b' = b \<and> v' = v
      | Inl (ApiContract e) \<Rightarrow>
          (\<exists>err. m b = (Inl err, b') \<and> e = Failed (backend_error_text err)) \<and>
          v' ActiveSlot = v ActiveSlot \<and> v' PendingSlot \<in> {None, Some new}
      | Inl (ApiController (RotationOrphaned e)) \<Rightarrow>
          (\<exists>f. m b = (Inr f, b')) \<and> v' ActiveSlot = v ActiveSlot \<and> v' PendingSlot = Some new
      | Inr f \<Rightarrow>
          m b = (Inr f, b') \<and> v' ActiveSlot = Some new \<and> v' PendingSlot \<in> {None, Some new}
      | _ \<Rightarrow> False)"

text \<open>Running a key change step by step.\<close>

lemmas io_run = key_change_def Let_def save_pending_controller_private_state_def on_store_def
  on_contract_def io_bind_def io_try_def io_ignore_def io_lift_def

context slot_store
begin

lemma save_view:
  assumes "save_private_state P st k s = (r, s')"
  shows "view s' = (if is_ok r then (view s)(k \<mapsto> st) else view s)"
    and "r = Inl e \<Longrightarrow> \<exists>t. e = InvalidArgument t"
proof -
  obtain q s1 where q: "store_set P k st s = (q, s1)" by force
  with assms have r: "r = map_err store_err q" "s' = s1"
    by (simp_all add: save_private_state_def io_map_err_def)
  show "view s' = (if is_ok r then (view s)(k \<mapsto> st) else view s)"
    using set_view [OF q] r by (cases q) simp_all
  show "r = Inl e \<Longrightarrow> \<exists>t. e = InvalidArgument t"
    using r by (cases q) (auto simp: store_err_def)
qed

lemma clear_view:
  assumes "clear_pending_controller_private_state P s = (r, s')"
  shows "view s' = (if is_ok r then (view s)(PendingSlot := None) else view s)"
proof -
  obtain q s1 where q: "store_remove P PendingSlot s = (q, s1)" by force
  with assms have "r = map_err store_err q" "s' = s1"
    by (simp_all add: clear_pending_controller_private_state_def io_map_err_def)
  then show ?thesis using remove_view [OF q] by (cases q) simp_all
qed

lemma restore_view:
  assumes "restore_private_state P k s = (r, s')"
  shows "view s' = view s" and "r = Inr (Some st) \<Longrightarrow> view s k = Some st"
    and "r = Inr None \<Longrightarrow> view s k = None \<or> (\<exists>s'. store_get P k s = (Inl ContractAddressNotSet, s'))"
proof -
  obtain q s1 where q: "store_get P k s = (q, s1)" by force
  show "view s' = view s" and "r = Inr (Some st) \<Longrightarrow> view s k = Some st"
    and "r = Inr None \<Longrightarrow> view s k = None \<or> (\<exists>s'. store_get P k s = (Inl ContractAddressNotSet, s'))"
    using get_view [OF q] q assms
    by (cases q; simp add: restore_private_state_def split: if_splits)+
qed

lemma key_change_cases:
  assumes "key_change m P sk (b, s) = (r, (b', s'))"
  shows "key_change_outcome m \<lparr>secret_key = sk\<rparr> (view s) b r (view s') b'"
proof -
  let ?new = "\<lparr>secret_key = sk\<rparr>"
  obtain r1 s1 where 1: "save_private_state P ?new PendingSlot s = (r1, s1)" by force
  show ?thesis
  proof (cases r1)
    case (Inl e)
    with save_view [OF 1] obtain t where "e = InvalidArgument t" by blast
    with assms 1 Inl have "r = Inl (InvalidArgument t)" "b' = b" "s' = s1"
      by (simp_all add: io_run)
    then show ?thesis using save_view(1) [OF 1] Inl by (simp add: key_change_outcome_def)
  next
    case (Inr u)
    obtain r2 b2 where 2: "m b = (r2, b2)" by force
    have v1: "view s1 = (view s)(PendingSlot \<mapsto> ?new)" using save_view(1) [OF 1] Inr by simp
    show ?thesis
    proof (cases r2)
      case (Inl err)
      obtain r3 s3 where 3: "clear_pending_controller_private_state P s1 = (r3, s3)" by force
      from assms have "r = Inl (ApiContract (Failed (backend_error_text err)))" "b' = b2" "s' = s3"
        using 1 2 3 Inr Inl
        by (simp_all add: io_run)
      then show ?thesis using clear_view [OF 3] v1 2 Inl by (simp add: key_change_outcome_def)
    next
      case (Inr f)
      obtain r3 s3 where 3: "save_private_state P ?new ActiveSlot s1 = (r3, s3)" by force
      show ?thesis
      proof (cases r3)
        case (Inl e)
        from assms have "r = Inl (ApiController (RotationOrphaned (api_error_text e)))" "b' = b2" "s' = s3"
          using 1 2 3 \<open>r1 = Inr u\<close> \<open>r2 = Inr f\<close> Inl
          by (simp_all add: io_run)
        then show ?thesis using save_view(1) [OF 3] v1 2 Inl \<open>r2 = Inr f\<close>
          by (simp add: key_change_outcome_def)
      next
        case (Inr u')
        obtain r4 s4 where 4: "clear_pending_controller_private_state P s3 = (r4, s4)" by force
        from assms have "r = Inr f" "b' = b2" "s' = s4"
          using 1 2 3 4 \<open>r1 = Inr u\<close> \<open>r2 = Inr f\<close> Inr
          by (simp_all add: io_run)
        then show ?thesis using save_view(1) [OF 3] clear_view [OF 4] v1 2 Inr \<open>r2 = Inr f\<close>
          by (simp add: key_change_outcome_def)
      qed
    qed
  qed
qed

end

interpretation in_memory: bound_store in_memory_store im_slots "\<lambda>s. check_address s = Inr ()"
  by unfold_locales
    (auto simp: in_memory_store_def in_memory_get_def in_memory_set_def in_memory_remove_def
      in_memory_set_address_def check_address_def split: sum.splits if_splits)

context slot_store
begin

lemma require_view:
  assumes "require_private_state P k s = (r, s')"
  shows "view s' = view s \<and> (\<forall>st. r = Inr st \<longrightarrow> view s k = Some st)"
  using assms restore_view unfolding require_private_state_def
  by (auto elim!: io_bind_cases simp: io_lift_def split: option.splits)

lemma recover_view:
  assumes "recover_pending_controller_private_state P fin s = (r, s')"
  shows "\<not> fin \<Longrightarrow> s' = s \<and> (\<exists>e. r = Inl (InvalidArgument e))"
    and "r = Inr st \<Longrightarrow> view s PendingSlot = Some st \<and>
      view s' = (view s)(ActiveSlot \<mapsto> st, PendingSlot := None)"
    and "view s' ActiveSlot \<in> {view s ActiveSlot, view s PendingSlot}"
proof -
  show "s' = s \<and> (\<exists>e. r = Inl (InvalidArgument e))" if "\<not> fin"
    using that assms
    by (auto simp: recover_pending_controller_private_state_def io_lift_def invalid_argument_def)
  have "(r = Inr st \<longrightarrow> view s PendingSlot = Some st \<and>
      view s' = (view s)(ActiveSlot \<mapsto> st, PendingSlot := None)) \<and>
    view s' ActiveSlot \<in> {view s ActiveSlot, view s PendingSlot}"
  proof (cases fin)
    case False
    then show ?thesis using assms
      by (auto simp: recover_pending_controller_private_state_def io_lift_def)
  next
    case True
    then have "io_bind (require_private_state P PendingSlot) (\<lambda>pending.
        io_bind (save_private_state P pending ActiveSlot) (\<lambda>_.
        io_bind (clear_pending_controller_private_state P) (\<lambda>_. io_lift (Inr pending)))) s = (r, s')"
      using assms by (simp add: recover_pending_controller_private_state_def)
    then show ?thesis
      by (elim io_bind_cases)
        (auto dest!: require_view save_view(1) clear_view simp: io_lift_def)
  qed
  then show "r = Inr st \<Longrightarrow> view s PendingSlot = Some st \<and>
      view s' = (view s)(ActiveSlot \<mapsto> st, PendingSlot := None)"
    and "view s' ActiveSlot \<in> {view s ActiveSlot, view s PendingSlot}" by auto
qed

end

context bound_store
begin

lemma save_ready:
  assumes "ready s" and "save_private_state P st k s = (r, s')"
  shows "is_ok r \<and> ready s' \<and> view s' = (view s)(k \<mapsto> st)"
proof -
  obtain q s1 where q: "store_set P k st s = (q, s1)" by force
  with assms set_ready [OF assms(1) q] save_view(1) [OF assms(2)] show ?thesis
    by (cases q) (auto simp: save_private_state_def io_map_err_def)
qed

lemma clear_ready:
  assumes "ready s" and "clear_pending_controller_private_state P s = (r, s')"
  shows "is_ok r \<and> ready s' \<and> view s' = (view s)(PendingSlot := None)"
proof -
  obtain q s1 where q: "store_remove P PendingSlot s = (q, s1)" by force
  with assms remove_ready [OF assms(1) q] clear_view [OF assms(2)] show ?thesis
    by (cases q) (auto simp: clear_pending_controller_private_state_def io_map_err_def)
qed

lemma restore_ready:
  assumes "ready s" and "restore_private_state P k s = (r, s')"
  shows "r = Inr (view s k) \<and> ready s' \<and> view s' = view s"
proof -
  obtain q s1 where q: "store_get P k s = (q, s1)" by force
  with assms get_ready [OF assms(1) q] get_view [OF q] show ?thesis
    by (cases q) (auto simp: restore_private_state_def)
qed

lemma recover_ready:
  assumes "ready s" and "recover_pending_controller_private_state P True s = (r, s')"
  shows "r = (case view s PendingSlot of Some st \<Rightarrow> Inr st | None \<Rightarrow> Inl MissingPrivateState)"
    and "ready s'"
    and "view s' = (case view s PendingSlot of
           Some st \<Rightarrow> (view s)(ActiveSlot \<mapsto> st, PendingSlot := None) | None \<Rightarrow> view s)"
proof -
  obtain r1 s1 where 1: "restore_private_state P PendingSlot s = (r1, s1)" by force
  note r1 = restore_ready [OF assms(1) 1]
  have "r = (case view s PendingSlot of Some st \<Rightarrow> Inr st | None \<Rightarrow> Inl MissingPrivateState) \<and>
    ready s' \<and> view s' = (case view s PendingSlot of
           Some st \<Rightarrow> (view s)(ActiveSlot \<mapsto> st, PendingSlot := None) | None \<Rightarrow> view s)"
  proof (cases "view s PendingSlot")
    case None
    with assms(2) 1 r1 show ?thesis
      by (auto simp: recover_pending_controller_private_state_def require_private_state_def io_bind_def
        io_lift_def)
  next
    case (Some st)
    obtain r2 s2 where 2: "save_private_state P st ActiveSlot s1 = (r2, s2)" by force
    obtain r3 s3 where 3: "clear_pending_controller_private_state P s2 = (r3, s3)" by force
    from r1 save_ready [OF _ 2] have r2: "is_ok r2" "ready s2" "view s2 = (view s)(ActiveSlot \<mapsto> st)"
      by auto
    from clear_ready [OF r2(2) 3] have r3: "is_ok r3" "ready s3"
      "view s3 = (view s)(ActiveSlot \<mapsto> st, PendingSlot := None)" by (auto simp: r2(3))
    from assms(2) 1 2 3 r1 r2 r3 Some show ?thesis
      by (auto simp: recover_pending_controller_private_state_def require_private_state_def io_bind_def
        io_lift_def is_ok_iff)
  qed
  then show "r = (case view s PendingSlot of Some st \<Rightarrow> Inr st | None \<Rightarrow> Inl MissingPrivateState)"
    and "ready s'"
    and "view s' = (case view s PendingSlot of
           Some st \<Rightarrow> (view s)(ActiveSlot \<mapsto> st, PendingSlot := None) | None \<Rightarrow> view s)" by auto
qed

lemma key_change_ready:
  assumes "ready s"
  shows "\<exists>s'. ready s' \<and> key_change m P sk (b, s) =
     (case m b of
        (Inr f, b') \<Rightarrow> (Inr f, (b', s'))
      | (Inl e, b') \<Rightarrow> (Inl (ApiContract (Failed (backend_error_text e))), (b', s'))) \<and>
     view s' = (if is_ok (fst (m b)) then [ActiveSlot \<mapsto> \<lparr>secret_key = sk\<rparr>]
                else (view s)(PendingSlot := None))"
proof -
  let ?new = "\<lparr>secret_key = sk\<rparr>"
  obtain r1 s1 where 1: "save_private_state P ?new PendingSlot s = (r1, s1)" by force
  from save_ready [OF assms 1] have r1: "is_ok r1" "ready s1" "view s1 = (view s)(PendingSlot \<mapsto> ?new)" by auto
  obtain r2 b2 where 2: "m b = (r2, b2)" by force
  show ?thesis
  proof (cases r2)
    case (Inl e)
    obtain r3 s3 where 3: "clear_pending_controller_private_state P s1 = (r3, s3)" by force
    from clear_ready [OF r1(2) 3] r1 1 2 3 Inl show ?thesis
      by (auto simp: io_run is_ok_iff intro!: exI [of _ s3])
  next
    case (Inr f)
    obtain r3 s3 where 3: "save_private_state P ?new ActiveSlot s1 = (r3, s3)" by force
    from save_ready [OF r1(2) 3] have r3: "is_ok r3" "ready s3" "view s3 = (view s1)(ActiveSlot \<mapsto> ?new)"
      by auto
    obtain r4 s4 where 4: "clear_pending_controller_private_state P s3 = (r4, s4)" by force
    from clear_ready [OF r3(2) 4] have r4: "ready s4" "view s4 = (view s3)(PendingSlot := None)" by auto
    have "view s4 = [ActiveSlot \<mapsto> ?new]"
    proof
      fix k show "view s4 k = [ActiveSlot \<mapsto> ?new] k" by (cases k) (simp_all add: r4 r3)
    qed
    with r1 r3 r4(1) 1 2 3 4 Inr show ?thesis
      by (auto simp: io_run is_ok_iff intro!: exI [of _ s4])
  qed
qed

end

section \<open>Properties\<close>

text \<open>
  C9. Rotating or recovering the controller key over any lawful store and any backend ends in one of
  four ways. \<open>InvalidArgument\<close>: the pending key could not be saved, nothing was submitted and the store
  is as before. \<open>Contract\<close>: the circuit failed, the active key is unchanged and the pending slot holds
  the new key or nothing. \<open>RotationOrphaned\<close>: the circuit ran, the active key is still the old one and
  the pending slot holds the new key. \<open>Ok\<close>: the circuit ran and the new key is active. So a key the
  chain has accepted is never only in the caller's hands.
\<close>

theorem controller_key_change_outcomes:
  assumes "slot_store P view"
    and "rotate_controller_key S c P sk pk (b, s) = (r, (b', s')) \<and> m = ct_rotate_controller_key S c pk \<or>
         recover_controller_key S c P sk pk (b, s) = (r, (b', s')) \<and> m = ct_recover_controller_key S c pk"
  shows "case r of
     Inl (InvalidArgument e) \<Rightarrow> b' = b \<and> view s' = view s
   | Inl (ApiContract e) \<Rightarrow>
       (\<exists>err. m b = (Inl err, b') \<and> e = Failed (backend_error_text err)) \<and>
       view s' ActiveSlot = view s ActiveSlot \<and> view s' PendingSlot \<in> {None, Some \<lparr>secret_key = sk\<rparr>}
   | Inl (ApiController (RotationOrphaned e)) \<Rightarrow>
       (\<exists>f. m b = (Inr f, b')) \<and> view s' ActiveSlot = view s ActiveSlot \<and>
       view s' PendingSlot = Some \<lparr>secret_key = sk\<rparr>
   | Inr f \<Rightarrow>
       m b = (Inr f, b') \<and> view s' ActiveSlot = Some \<lparr>secret_key = sk\<rparr> \<and>
       view s' PendingSlot \<in> {None, Some \<lparr>secret_key = sk\<rparr>}
   | _ \<Rightarrow> False"
proof -
  have "key_change m P sk (b, s) = (r, (b', s'))"
    using assms(2) unfolding rotate_is_key_change by auto
  from slot_store.key_change_cases [OF assms(1) this] show ?thesis unfolding key_change_outcome_def .
qed

theorem controller_key_change_outcomes_witness:
  "\<exists>r b' s'. rotate_controller_key ref_serde (resolver_contract [] Testnet) in_memory_store
       (replicate 32 1) (replicate 32 2) (resolver_new (), in_memory_new) = (r, (b', s')) \<and>
     r = Inl (ApiContract (Failed ''backend is read-only'')) \<and> im_slots s' ActiveSlot = None"
proof -
  let ?sk = "replicate 32 1" and ?pk = "replicate 32 2"
  obtain r b' s' where run: "rotate_controller_key ref_serde (resolver_contract [] Testnet) in_memory_store
      ?sk ?pk (resolver_new (), in_memory_new) = (r, (b', s'))" by (metis surj_pair)
  have r: "r = Inl (ApiContract (Failed ''backend is read-only''))"
    using run unfolding rotate_is_key_change
    by (simp add: io_run ct_rotate_controller_key_def resolver_exec save_private_state_def io_map_err_def
      in_memory_store_def in_memory_set_def in_memory_new_def check_address_def)
  from controller_key_change_outcomes [OF in_memory.slot_store_axioms, of ref_serde
      "resolver_contract [] Testnet" ?sk ?pk "resolver_new ()" in_memory_new r b' s'
      "ct_rotate_controller_key ref_serde (resolver_contract [] Testnet) ?pk"] run
  have "im_slots s' ActiveSlot = im_slots in_memory_new ActiveSlot" by (simp add: r)
  then show ?thesis using run r by (simp add: in_memory_new_def)
qed

text \<open>A store whose active slot cannot be written before the store is bound.\<close>

definition ex_store :: "in_memory private_store" where
  "ex_store = in_memory_store\<lparr>store_set := (\<lambda>k v s.
     if k = ActiveSlot \<and> im_contract_address s = None then (Inl (StoreBackend ''locked''), s)
     else in_memory_set k v s)\<rparr>"

interpretation ex_store: slot_store ex_store im_slots
  using in_memory.get_view in_memory.remove_view in_memory.set_view
  by unfold_locales (auto simp: ex_store_def in_memory_store_def split: if_splits)

definition ex_orphaned :: in_memory where
  "ex_orphaned = in_memory_new\<lparr>im_slots := [PendingSlot \<mapsto> \<lparr>secret_key = replicate 32 1\<rparr>]\<rparr>"

lemma ex_orphaned_rotation:
  "\<exists>e b'. rotate_controller_key ref_serde zero_contract ex_store (replicate 32 1) (replicate 32 2)
     (recording_new (), in_memory_new) = (Inl (ApiController (RotationOrphaned e)), (b', ex_orphaned)) \<and>
   rec_calls b' = [RotateControllerKey (replicate 32 2)]"
  unfolding rotate_is_key_change
  by (simp add: io_run ct_rotate_controller_key_def zero_contract_def save_private_state_def
    io_map_err_def ex_store_def in_memory_store_def in_memory_set_def in_memory_new_def check_address_def
    recording_exec [OF ref_serde_ok] recording_contract_def recording_new_def ex_orphaned_def)

text \<open>
  C34. The documented way out of an orphaned rotation works: when the store answers again, that is takes
  the read of the pending slot, the write of the active slot and the removal of the pending one,
  \<open>recover_pending_controller_private_state\<close> with the finalisation confirmed succeeds, with the key of that
  rotation, which is the active key afterwards while the pending slot is empty; without the confirmation
  it fails and touches nothing.
\<close>

theorem orphaned_rotation_recovers:
  assumes "slot_store P view"
    and "rotate_controller_key S c P sk pk (b, s) = (Inl (ApiController (RotationOrphaned e)), (b', s'))"
    and "view s1 = view s'"
    and "store_get P PendingSlot s1 = (Inr v, s2)"
    and "store_set P ActiveSlot \<lparr>secret_key = sk\<rparr> s2 = (Inr u, s3)"
    and "store_remove P PendingSlot s3 = (Inr w, s4)"
  shows "recover_pending_controller_private_state P True s1 = (Inr \<lparr>secret_key = sk\<rparr>, s4) \<and>
         view s4 ActiveSlot = Some \<lparr>secret_key = sk\<rparr> \<and> view s4 PendingSlot = None \<and>
         (\<exists>m. recover_pending_controller_private_state P False s1 = (Inl (InvalidArgument m), s1))"
proof -
  have "view s' PendingSlot = Some \<lparr>secret_key = sk\<rparr>"
    using slot_store.key_change_cases [OF assms(1) assms(2) [unfolded rotate_is_key_change]]
    by (simp add: key_change_outcome_def)
  then have v: "v = Some \<lparr>secret_key = sk\<rparr>" "view s2 = view s1"
    using slot_store.get_view [OF assms(1,4)] by (simp_all add: assms(3))
  have "view s4 = (view s1)(ActiveSlot \<mapsto> \<lparr>secret_key = sk\<rparr>, PendingSlot := None)"
    using slot_store.set_view [OF assms(1,5)] slot_store.remove_view [OF assms(1,6)] v(2) by simp
  then show ?thesis using assms(4-6)
    by (simp add: v(1) recover_pending_controller_private_state_def require_private_state_def
        restore_private_state_def save_private_state_def clear_pending_controller_private_state_def
        io_bind_def io_lift_def io_map_err_def invalid_argument_def)
qed

theorem orphaned_rotation_recovers_witness:
  "\<exists>s4. recover_pending_controller_private_state ex_store True
      (in_memory_set_address ''a'' ex_orphaned) = (Inr \<lparr>secret_key = replicate 32 1\<rparr>, s4) \<and>
     im_slots s4 ActiveSlot = Some \<lparr>secret_key = replicate 32 1\<rparr> \<and> im_slots s4 PendingSlot = None"
proof -
  let ?s1 = "in_memory_set_address ''a'' ex_orphaned"
  let ?s3 = "?s1\<lparr>im_slots := (im_slots ?s1)(ActiveSlot \<mapsto> \<lparr>secret_key = replicate 32 1\<rparr>)\<rparr>"
  let ?s4 = "?s3\<lparr>im_slots := (im_slots ?s3)(PendingSlot := None)\<rparr>"
  note defs = ex_store_def in_memory_store_def in_memory_set_def in_memory_get_def in_memory_remove_def
    in_memory_set_address_def ex_orphaned_def in_memory_new_def check_address_def
  have v: "im_slots ?s1 = im_slots ex_orphaned" by (simp add: in_memory_set_address_def)
  have g: "store_get ex_store PendingSlot ?s1 = (Inr (Some \<lparr>secret_key = replicate 32 1\<rparr>), ?s1)"
    and a: "store_set ex_store ActiveSlot \<lparr>secret_key = replicate 32 1\<rparr> ?s1 = (Inr (), ?s3)"
    and r: "store_remove ex_store PendingSlot ?s3 = (Inr (), ?s4)"
    by (simp_all add: defs)
  from ex_orphaned_rotation obtain e b' where "rotate_controller_key ref_serde zero_contract ex_store
      (replicate 32 1) (replicate 32 2) (recording_new (), in_memory_new) =
      (Inl (ApiController (RotationOrphaned e)), (b', ex_orphaned))" by blast
  from orphaned_rotation_recovers [OF ex_store.slot_store_axioms this v g a r] show ?thesis by blast
qed

text \<open>
  C35. A second rotation after an orphaned one can lose the key the chain has accepted: saving the next
  pending key overwrites the orphaned one, and when that second circuit fails neither slot holds it
  any more, while the active slot still has the key from before the first rotation.
\<close>

theorem orphaned_key_lost_on_retry:
  assumes "slot_store P view"
    and "rotate_controller_key S c P sk pk (b, s) = (Inl (ApiController (RotationOrphaned e)), (b', s'))"
    and "rotate_controller_key S c2 P sk2 pk2 (b2, s') = (Inl (ApiContract e2), (b3, s3))"
    and "sk2 \<noteq> sk"
  shows "(\<exists>f. ct_rotate_controller_key S c pk b = (Inr f, b')) \<and>
    view s3 ActiveSlot = view s ActiveSlot \<and> view s3 PendingSlot \<noteq> Some \<lparr>secret_key = sk\<rparr>"
  using slot_store.key_change_cases [OF assms(1) assms(2) [unfolded rotate_is_key_change]]
    slot_store.key_change_cases [OF assms(1) assms(3) [unfolded rotate_is_key_change]] assms(4)
  by (auto simp: key_change_outcome_def)

theorem orphaned_key_lost_on_retry_witness:
  "\<exists>b' s3. rec_calls b' = [RotateControllerKey (replicate 32 2)] \<and>
     snd (rotate_controller_key ref_serde zero_contract ex_store (replicate 32 1) (replicate 32 2)
       (recording_new (), in_memory_new)) = (b', ex_orphaned) \<and>
     snd (snd (rotate_controller_key ref_serde (resolver_contract [] Testnet) ex_store
       (replicate 32 3) (replicate 32 4) (resolver_new (), ex_orphaned))) = s3 \<and>
     im_slots s3 ActiveSlot = None \<and> im_slots s3 PendingSlot \<noteq> Some \<lparr>secret_key = replicate 32 1\<rparr>"
proof -
  from ex_orphaned_rotation obtain e b' where 1: "rotate_controller_key ref_serde zero_contract ex_store
      (replicate 32 1) (replicate 32 2) (recording_new (), in_memory_new) =
      (Inl (ApiController (RotationOrphaned e)), (b', ex_orphaned))"
    and c: "rec_calls b' = [RotateControllerKey (replicate 32 2)]" by blast
  obtain b3 s3 where 2: "rotate_controller_key ref_serde (resolver_contract [] Testnet) ex_store
       (replicate 32 3) (replicate 32 4) (resolver_new (), ex_orphaned) =
       (Inl (ApiContract (Failed ''backend is read-only'')), (b3, s3))"
    unfolding rotate_is_key_change
    by (simp add: io_run ct_rotate_controller_key_def resolver_exec save_private_state_def
      clear_pending_controller_private_state_def io_map_err_def ex_store_def in_memory_store_def
      in_memory_set_def in_memory_remove_def ex_orphaned_def in_memory_new_def check_address_def)
  have ne: "replicate 32 (3::u8) \<noteq> replicate 32 1" by simp
  from orphaned_key_lost_on_retry [OF ex_store.slot_store_axioms 1 2 ne] 1 2 c show ?thesis
    by (simp add: in_memory_new_def)
qed

end
