(* ===== verification/Operations.thy ===== *)
theory Operations
  imports Private_State
begin

text \<open>
  The operations of \<open>midnight-did-api\<close>: \<open>verification_method_operations.rs\<close>, \<open>service_operations.rs\<close>,
  \<open>document_operations.rs\<close> and \<open>did_operations.rs\<close>. Each validates its arguments, maps them to ledger
  values and submits its calls one after the other; the first failure ends it.
\<close>

section \<open>Verification-method operations\<close>

definition map_backend_err :: "backend_error \<Rightarrow> api_error" where
  "map_backend_err err = ApiContract (Failed (backend_error_text err))"

definition verification_method_relations :: "vm_relation list" where
  "verification_method_relations =
     [Authentication, AssertionMethod, KeyAgreement, CapabilityInvocation, CapabilityDelegation]"

record relation_membership =
  rm_relation :: vm_relation
  rm_member :: bool

definition relation_memberships :: "did_ledger_snapshot \<Rightarrow> string \<Rightarrow> relation_membership list" where
  "relation_memberships st n =
     map (\<lambda>r. \<lparr>rm_relation = r, rm_member = relation_contains st (ledger_relation_for r) n\<rparr>)
       verification_method_relations"

fun vm_relation_debug :: "vm_relation \<Rightarrow> string" where
  "vm_relation_debug VMR_Undefined = ''Undefined''"
| "vm_relation_debug Authentication = ''Authentication''"
| "vm_relation_debug AssertionMethod = ''AssertionMethod''"
| "vm_relation_debug KeyAgreement = ''KeyAgreement''"
| "vm_relation_debug CapabilityInvocation = ''CapabilityInvocation''"
| "vm_relation_debug CapabilityDelegation = ''CapabilityDelegation''"

definition assert_relation_absent ::
    "did_ledger_snapshot \<Rightarrow> vm_relation \<Rightarrow> string \<Rightarrow> api_error + unit" where
  "assert_relation_absent st r n =
     (if relation_contains st (ledger_relation_for r) n
      then Inl (ApiVerification (RelationAlreadyContains (vm_relation_debug r) n)) else Inr ())"

definition assert_relation_present ::
    "did_ledger_snapshot \<Rightarrow> vm_relation \<Rightarrow> string \<Rightarrow> api_error + unit" where
  "assert_relation_present st r n =
     (if relation_contains st (ledger_relation_for r) n
      then Inr () else Inl (ApiVerification (RelationMissing (vm_relation_debug r) n)))"

fun remove_present_relations ::
    "serde \<Rightarrow> ('b, 'raw) contract \<Rightarrow> relation_membership list \<Rightarrow> string \<Rightarrow> ('b, api_error, unit) io" where
  "remove_present_relations S c [] n = io_lift (Inr ())"
| "remove_present_relations S c (entry # entries) n =
     (if \<not> rm_member entry then remove_present_relations S c entries n
      else io_bind (io_map_err map_backend_err
             (ct_set_relation S c (ledger_relation_for (rm_relation entry)) n SetRemove)) (\<lambda>_.
           remove_present_relations S c entries n))"

definition purge_from_all_relations ::
    "serde \<Rightarrow> ('b, 'raw) contract \<Rightarrow> string \<Rightarrow> ('b, api_error, unit) io" where
  "purge_from_all_relations S c n =
     io_bind (io_map_err map_backend_err (contract_read_snapshot c)) (\<lambda>st.
       remove_present_relations S c (relation_memberships st n) n)"

definition add_verification_method ::
    "crates \<Rightarrow> serde \<Rightarrow> ('b, 'raw) contract \<Rightarrow> verification_method \<Rightarrow>
     ('b, api_error, finalized_tx_data) io" where
  "add_verification_method X S c m =
     io_bind (io_lift (verification_method_to_ledger X c m)) (\<lambda>l.
       io_map_err map_backend_err (ct_set_verification_method S c l MapInsert))"

definition update_verification_method ::
    "crates \<Rightarrow> serde \<Rightarrow> ('b, 'raw) contract \<Rightarrow> verification_method \<Rightarrow>
     ('b, api_error, finalized_tx_data) io" where
  "update_verification_method X S c m =
     io_bind (io_lift (verification_method_to_ledger X c m)) (\<lambda>l.
       io_map_err map_backend_err (ct_set_verification_method S c l MapUpdate))"

definition remove_verification_method ::
    "crates \<Rightarrow> serde \<Rightarrow> ('b, 'raw) contract \<Rightarrow> string \<Rightarrow> ('b, api_error, finalized_tx_data) io" where
  "remove_verification_method X S c method_id =
     io_bind (io_lift (normalize_bound_fragment_id_for X c method_id MethodIdField)) (\<lambda>n.
     io_bind (purge_from_all_relations S c n) (\<lambda>_.
       io_map_err map_backend_err (ct_remove_verification_method S c n)))"

definition add_schnorr_method ::
    "crates \<Rightarrow> serde \<Rightarrow> ('b, 'raw) contract \<Rightarrow> schnorr_verification_method \<Rightarrow>
     ('b, api_error, finalized_tx_data) io" where
  "add_schnorr_method X S c m =
     io_bind (io_lift (schnorr_method_to_ledger X c m)) (\<lambda>l.
       io_map_err map_backend_err (ct_set_schnorr_method S c l MapInsert))"

definition update_schnorr_method ::
    "crates \<Rightarrow> serde \<Rightarrow> ('b, 'raw) contract \<Rightarrow> schnorr_verification_method \<Rightarrow>
     ('b, api_error, finalized_tx_data) io" where
  "update_schnorr_method X S c m =
     io_bind (io_lift (schnorr_method_to_ledger X c m)) (\<lambda>l.
       io_map_err map_backend_err (ct_set_schnorr_method S c l MapUpdate))"

definition remove_schnorr_method ::
    "crates \<Rightarrow> serde \<Rightarrow> ('b, 'raw) contract \<Rightarrow> string \<Rightarrow> ('b, api_error, finalized_tx_data) io" where
  "remove_schnorr_method X S c method_id =
     io_bind (io_lift (normalize_bound_fragment_id_for X c method_id MethodIdField)) (\<lambda>n.
     io_bind (purge_from_all_relations S c n) (\<lambda>_.
       io_map_err map_backend_err (ct_remove_schnorr_method S c n)))"

definition verify_schnorr_signature ::
    "crates \<Rightarrow> serde \<Rightarrow> ('b, 'raw) contract \<Rightarrow> string \<Rightarrow> schnorr_digest \<Rightarrow> schnorr_signature \<Rightarrow>
     ('b, api_error, finalized_tx_data) io" where
  "verify_schnorr_signature X S c method_id d g =
     io_bind (io_lift (normalize_bound_fragment_id_for X c method_id MethodIdField)) (\<lambda>n.
       io_map_err map_backend_err (ct_verify_schnorr_signature S c n d g))"

definition add_relation ::
    "crates \<Rightarrow> serde \<Rightarrow> ('b, 'raw) contract \<Rightarrow> vm_relation \<Rightarrow> string \<Rightarrow>
     ('b, api_error, finalized_tx_data) io" where
  "add_relation X S c r method_id =
     io_bind (io_lift (normalize_bound_fragment_id_for X c method_id MethodIdField)) (\<lambda>n.
     io_bind (io_map_err map_backend_err (contract_read_snapshot c)) (\<lambda>st.
     io_bind (io_lift (assert_relation_absent st r n)) (\<lambda>_.
       io_map_err map_backend_err (ct_set_relation S c (ledger_relation_for r) n SetInsert))))"

definition remove_relation ::
    "crates \<Rightarrow> serde \<Rightarrow> ('b, 'raw) contract \<Rightarrow> vm_relation \<Rightarrow> string \<Rightarrow>
     ('b, api_error, finalized_tx_data) io" where
  "remove_relation X S c r method_id =
     io_bind (io_lift (normalize_bound_fragment_id_for X c method_id MethodIdField)) (\<lambda>n.
     io_bind (io_map_err map_backend_err (contract_read_snapshot c)) (\<lambda>st.
     io_bind (io_lift (assert_relation_present st r n)) (\<lambda>_.
       io_map_err map_backend_err (ct_set_relation S c (ledger_relation_for r) n SetRemove))))"

section \<open>Service and document operations\<close>

definition add_service ::
    "crates \<Rightarrow> serde \<Rightarrow> ('b, 'raw) contract \<Rightarrow> service \<Rightarrow> ('b, api_error, finalized_tx_data) io" where
  "add_service X S c s =
     io_bind (io_lift (service_to_ledger X c s)) (\<lambda>l.
       io_map_err map_backend_err (ct_set_service S c l MapInsert))"

definition update_service ::
    "crates \<Rightarrow> serde \<Rightarrow> ('b, 'raw) contract \<Rightarrow> service \<Rightarrow> ('b, api_error, finalized_tx_data) io" where
  "update_service X S c s =
     io_bind (io_lift (service_to_ledger X c s)) (\<lambda>l.
       io_map_err map_backend_err (ct_set_service S c l MapUpdate))"

definition remove_service ::
    "crates \<Rightarrow> serde \<Rightarrow> ('b, 'raw) contract \<Rightarrow> string \<Rightarrow> ('b, api_error, finalized_tx_data) io" where
  "remove_service X S c service_id =
     io_bind (io_lift (normalize_bound_fragment_id_for X c service_id ShortServiceIdField)) (\<lambda>n.
       io_map_err map_backend_err (ct_remove_service S c n))"

definition add_also_known_as ::
    "crates \<Rightarrow> serde \<Rightarrow> ('b, 'raw) contract \<Rightarrow> string \<Rightarrow> ('b, api_error, finalized_tx_data) io" where
  "add_also_known_as X S c alias_uri =
     io_bind (io_lift (map_err ApiLedgerUtils (assert_absolute_uri X alias_uri (Some ''aliasUri''))))
       (\<lambda>a. io_map_err map_backend_err (ct_set_also_known_as S c a SetInsert))"

definition remove_also_known_as ::
    "crates \<Rightarrow> serde \<Rightarrow> ('b, 'raw) contract \<Rightarrow> string \<Rightarrow> ('b, api_error, finalized_tx_data) io" where
  "remove_also_known_as X S c alias_uri =
     io_bind (io_lift (map_err ApiLedgerUtils (assert_absolute_uri X alias_uri (Some ''aliasUri''))))
       (\<lambda>a. io_map_err map_backend_err (ct_set_also_known_as S c a SetRemove))"

definition deactivate_did ::
    "serde \<Rightarrow> ('b, 'raw) contract \<Rightarrow> ('b, api_error, finalized_tx_data) io" where
  "deactivate_did S c = io_map_err map_backend_err (ct_deactivate S c)"

section \<open>Whole-DID operations\<close>

definition create_did ::
    "crates \<Rightarrow> ('b, 'raw) contract \<Rightarrow> 's private_store \<Rightarrow> bytes \<Rightarrow> ('s, api_error, did_private_state) io" where
  "create_did X c P sk s =
     init_private_state P sk (bind_private_state_provider P (contract_to_hex X (ct_address c)) s)"

record did_document_patch =
  also_known_as_added :: "string list"
  also_known_as_removed :: "string list"
  services_added :: "service list"
  services_updated :: "service list"
  services_removed :: "string list"

text \<open>\<open>for x in xs { results.push(f(x).await?); }\<close>.\<close>

fun push_each :: "('a \<Rightarrow> ('w, 'e, 'r) io) \<Rightarrow> 'a list \<Rightarrow> 'r list \<Rightarrow> ('w, 'e, 'r list) io" where
  "push_each f [] results = io_lift (Inr results)"
| "push_each f (x # xs) results = io_bind (f x) (\<lambda>r. push_each f xs (results @ [r]))"

definition apply_patch ::
    "crates \<Rightarrow> serde \<Rightarrow> ('b, 'raw) contract \<Rightarrow> did_document_patch \<Rightarrow>
     ('b, api_error, finalized_tx_data list) io" where
  "apply_patch X S c patch =
     io_bind (push_each (add_also_known_as X S c) (also_known_as_added patch) []) (\<lambda>rs.
     io_bind (push_each (remove_also_known_as X S c) (also_known_as_removed patch) rs) (\<lambda>rs.
     io_bind (push_each (add_service X S c) (services_added patch) rs) (\<lambda>rs.
     io_bind (push_each (update_service X S c) (services_updated patch) rs) (\<lambda>rs.
       push_each (remove_service X S c) (services_removed patch) rs))))"

definition rotate_with_derivation ::
    "serde \<Rightarrow> ('b, 'raw) contract \<Rightarrow> 's private_store \<Rightarrow> bytes \<Rightarrow> (bytes \<Rightarrow> bytes) \<Rightarrow>
     ('b \<times> 's, api_error, finalized_tx_data) io" where
  "rotate_with_derivation S c P sk derive = rotate_controller_key S c P sk (derive sk)"

definition recover_with_derivation ::
    "serde \<Rightarrow> ('b, 'raw) contract \<Rightarrow> 's private_store \<Rightarrow> bytes \<Rightarrow> (bytes \<Rightarrow> bytes) \<Rightarrow>
     ('b \<times> 's, api_error, finalized_tx_data) io" where
  "recover_with_derivation S c P sk derive = recover_controller_key S c P sk (derive sk)"

definition deactivate_and_clear ::
    "serde \<Rightarrow> ('b, 'raw) contract \<Rightarrow> 's private_store \<Rightarrow> ('b \<times> 's, api_error, finalized_tx_data) io" where
  "deactivate_and_clear S c P =
     io_bind (on_contract (deactivate_did S c)) (\<lambda>result.
     io_bind (on_store (save_private_state P \<lparr>secret_key = replicate 32 0\<rparr> ActiveSlot)) (\<lambda>_.
       io_lift (Inr result)))"

section \<open>Operations as planned calls\<close>

text \<open>
  Every operation is a plan: a list of calls, each possibly replaced by the error of its validation.
  Running a plan validates and submits item by item and stops at the first failure.
\<close>

fun run_plan ::
    "(did_contract_call \<Rightarrow> ('b, backend_error, finalized_tx_data) io) \<Rightarrow>
     (api_error + did_contract_call) list \<Rightarrow> finalized_tx_data list \<Rightarrow>
     ('b, api_error, finalized_tx_data list) io" where
  "run_plan exec [] fs = io_lift (Inr fs)"
| "run_plan exec (Inl e # plan) fs = io_lift (Inl e)"
| "run_plan exec (Inr call # plan) fs =
     io_bind (io_map_err map_backend_err (exec call)) (\<lambda>f. run_plan exec plan (fs @ [f]))"

text \<open>The calls in front of the first validation error.\<close>

fun valid_calls :: "(api_error + did_contract_call) list \<Rightarrow> did_contract_call list" where
  "valid_calls (Inr call # plan) = call # valid_calls plan"
| "valid_calls _ = []"

fun first_error :: "(api_error + did_contract_call) list \<Rightarrow> api_error option" where
  "first_error [] = None"
| "first_error (Inl e # plan) = Some e"
| "first_error (Inr call # plan) = first_error plan"

lemma valid_calls_Cons:
  obtains e where "x = Inl e" and "valid_calls (x # plan) = []" and "first_error (x # plan) = Some e"
      and "\<And>exec fs. run_plan exec (x # plan) fs = io_lift (Inl e)"
  | call where "x = Inr call" and "valid_calls (x # plan) = call # valid_calls plan"
      and "first_error (x # plan) = first_error plan"
  by (cases x) auto

context call_log
begin

lemma run_plan_log:
  assumes "list_all submittable (valid_calls plan)" and "run_plan exec plan fs b = (r, b')"
  shows "\<exists>n. log b' = log b @ take n (valid_calls plan) \<and>
    (is_ok r \<longrightarrow> first_error plan = None \<and> n = length plan \<and> plan = map Inr (valid_calls plan))"
  using assms
proof (induction plan arbitrary: fs b)
  case (Cons x plan)
  show ?case
  proof (cases rule: valid_calls_Cons [of x plan])
    case (2 call)
    have "io_bind (io_map_err map_backend_err (exec call)) (\<lambda>f. run_plan exec plan (fs @ [f])) b = (r, b')"
      using Cons.prems(2) by (simp only: 2(1) run_plan.simps)
    then show ?thesis
    proof (rule io_bind_cases)
      fix e
      assume "io_map_err map_backend_err (exec call) b = (Inl e, b')" and "r = Inl e"
      then show ?thesis by (intro exI [of _ 0]) (auto simp: io_map_err_iff dest: exec_err)
    next
      fix f b1
      assume "io_map_err map_backend_err (exec call) b = (Inr f, b1)"
        and run: "run_plan exec plan (fs @ [f]) b1 = (r, b')"
      then have b1: "log b1 = log b @ [call]"
        using Cons.prems(1) by (auto simp: io_map_err_iff 2 intro: exec_ok)
      from Cons.IH [OF _ run] Cons.prems(1) obtain n where
        "log b' = log b1 @ take n (valid_calls plan)"
        "is_ok r \<longrightarrow> first_error plan = None \<and> n = length plan \<and> plan = map Inr (valid_calls plan)"
        by (auto simp: 2)
      then show ?thesis using b1 by (intro exI [of _ "Suc n"]) (auto simp: 2)
    qed
  qed (use Cons.prems(2) in \<open>auto simp: io_lift_def\<close>)
qed (auto simp: io_lift_def)

end

context reliable_log
begin

lemma run_plan_total:
  assumes "list_all submittable (valid_calls plan)"
  shows "\<exists>r b'. run_plan exec plan fs b = (r, b') \<and> log b' = log b @ valid_calls plan \<and>
    (case first_error plan of
       Some e \<Rightarrow> r = Inl e
     | None \<Rightarrow> \<exists>gs. r = Inr gs \<and> length gs = length fs + length plan)"
  using assms
proof (induction plan arbitrary: fs b)
  case (Cons x plan)
  show ?case
  proof (cases rule: valid_calls_Cons [of x plan])
    case (2 call)
    with Cons.prems obtain f b1 where f: "exec call b = (Inr f, b1)" using exec_total [of call b] by auto
    then have b1: "log b1 = log b @ [call]" using Cons.prems 2 by (auto intro: exec_ok)
    from Cons.IH [of "fs @ [f]" b1] Cons.prems obtain r b' where r:
      "run_plan exec plan (fs @ [f]) b1 = (r, b')" "log b' = log b1 @ valid_calls plan"
      "case first_error plan of Some e \<Rightarrow> r = Inl e
       | None \<Rightarrow> \<exists>gs. r = Inr gs \<and> length gs = length (fs @ [f]) + length plan" by (auto simp: 2)
    moreover have "run_plan exec (x # plan) fs b = (r, b')"
      using f r(1) by (simp add: 2 io_bind_def io_map_err_def)
    ultimately show ?thesis using b1 by (auto simp: 2 split: option.splits)
  qed (simp add: io_lift_def)
qed (simp add: io_lift_def)

end

lemma run_plan_append: "run_plan exec (p @ q) fs = io_bind (run_plan exec p fs) (run_plan exec q)"
proof (induction p arbitrary: fs)
  case (Cons x p)
  then show ?case by (cases x) (simp_all add: io_bind_assoc)
qed simp

text \<open>The operations that submit one call are plans of one item.\<close>

definition plan_item :: "('a \<Rightarrow> did_contract_call) \<Rightarrow> api_error + 'a \<Rightarrow> api_error + did_contract_call" where
  "plan_item k r = (case r of Inl e \<Rightarrow> Inl e | Inr a \<Rightarrow> Inr (k a))"

lemma plan_item_simps [simp]: "plan_item k (Inl e) = Inl e" "plan_item k (Inr a) = Inr (k a)"
  by (simp_all add: plan_item_def)

lemma run_plan_item:
  "io_bind (io_bind (io_lift r) (\<lambda>a. io_map_err map_backend_err (exec (k a)))) (\<lambda>f. run_plan exec p (fs @ [f])) =
     run_plan exec (plan_item k r # p) fs"
  by (cases r) simp_all

text \<open>The plan of a patch.\<close>

definition patch_plan ::
    "crates \<Rightarrow> ('b, 'raw) contract \<Rightarrow> did_document_patch \<Rightarrow> (api_error + did_contract_call) list" where
  "patch_plan X c p =
     map (\<lambda>u. plan_item (\<lambda>a. SetAlsoKnownAs a SetInsert)
       (map_err ApiLedgerUtils (assert_absolute_uri X u (Some ''aliasUri'')))) (also_known_as_added p) @
     map (\<lambda>u. plan_item (\<lambda>a. SetAlsoKnownAs a SetRemove)
       (map_err ApiLedgerUtils (assert_absolute_uri X u (Some ''aliasUri'')))) (also_known_as_removed p) @
     map (\<lambda>s. plan_item (\<lambda>l. SetService l MapInsert) (service_to_ledger X c s)) (services_added p) @
     map (\<lambda>s. plan_item (\<lambda>l. SetService l MapUpdate) (service_to_ledger X c s)) (services_updated p) @
     map (\<lambda>i. plan_item RemoveService (normalize_bound_fragment_id_for X c i ShortServiceIdField))
       (services_removed p)"

lemma push_each_plan:
  assumes "\<And>x. f x = io_bind (io_lift (v x)) (\<lambda>a. io_map_err map_backend_err (exec (k a)))"
  shows "push_each f xs fs = run_plan exec (map (\<lambda>x. plan_item k (v x)) xs) fs"
  by (induction xs arbitrary: fs) (simp_all add: assms run_plan_item)

lemma apply_patch_plan: "apply_patch X S c p = run_plan (contract_submit S c) (patch_plan X c p) []"
proof -
  have a: "push_each (add_also_known_as X S c) = (\<lambda>xs. run_plan (contract_submit S c)
      (map (\<lambda>u. plan_item (\<lambda>a. SetAlsoKnownAs a SetInsert)
        (map_err ApiLedgerUtils (assert_absolute_uri X u (Some ''aliasUri'')))) xs))"
    by (intro ext push_each_plan) (simp add: add_also_known_as_def ct_set_also_known_as_def)
  have b: "push_each (remove_also_known_as X S c) = (\<lambda>xs. run_plan (contract_submit S c)
      (map (\<lambda>u. plan_item (\<lambda>a. SetAlsoKnownAs a SetRemove)
        (map_err ApiLedgerUtils (assert_absolute_uri X u (Some ''aliasUri'')))) xs))"
    by (intro ext push_each_plan) (simp add: remove_also_known_as_def ct_set_also_known_as_def)
  have c: "push_each (add_service X S c) = (\<lambda>xs. run_plan (contract_submit S c)
      (map (\<lambda>s. plan_item (\<lambda>l. SetService l MapInsert) (service_to_ledger X c s)) xs))"
    by (intro ext push_each_plan) (simp add: add_service_def ct_set_service_def)
  have d: "push_each (update_service X S c) = (\<lambda>xs. run_plan (contract_submit S c)
      (map (\<lambda>s. plan_item (\<lambda>l. SetService l MapUpdate) (service_to_ledger X c s)) xs))"
    by (intro ext push_each_plan) (simp add: update_service_def ct_set_service_def)
  have e: "push_each (remove_service X S c) = (\<lambda>xs. run_plan (contract_submit S c)
      (map (\<lambda>i. plan_item RemoveService (normalize_bound_fragment_id_for X c i ShortServiceIdField)) xs))"
    by (intro ext push_each_plan) (simp add: remove_service_def ct_remove_service_def)
  show ?thesis
    unfolding apply_patch_def a b c d e patch_plan_def run_plan_append io_bind_assoc ..
qed

lemma patch_plan_length:
  "length (patch_plan X c p) = length (also_known_as_added p) + length (also_known_as_removed p) +
     length (services_added p) + length (services_updated p) + length (services_removed p)"
  by (simp add: patch_plan_def)

lemma valid_calls_in: "call \<in> set (valid_calls plan) \<Longrightarrow> Inr call \<in> set plan"
  by (induction plan rule: valid_calls.induct) auto

lemma patch_plan_submittable: "list_all submittable (valid_calls (patch_plan X c p))"
  unfolding list_all_iff
  by (auto dest!: valid_calls_in simp: patch_plan_def plan_item_def submittable_def split: sum.splits)

text \<open>The calls of removing a method.\<close>

definition removal_calls :: "did_ledger_snapshot \<Rightarrow> string \<Rightarrow> did_contract_call list" where
  "removal_calls st n =
     map (\<lambda>r. SetVerificationMethodRelation (ledger_relation_for r) n SetRemove)
       (filter (\<lambda>r. relation_contains st (ledger_relation_for r) n) verification_method_relations)"

lemma remove_present_plan:
  "remove_present_relations S c ms n =
     io_bind (run_plan (contract_submit S c)
       (map (\<lambda>e. Inr (SetVerificationMethodRelation (ledger_relation_for (rm_relation e)) n SetRemove))
         (filter rm_member ms)) fs) (\<lambda>_. io_lift (Inr ()))"
  by (induction ms arbitrary: fs) (simp_all add: ct_set_relation_def io_bind_assoc)

lemma purge_plan:
  "purge_from_all_relations S c n =
     io_bind (io_map_err map_backend_err (contract_read_snapshot c)) (\<lambda>st.
       io_bind (run_plan (contract_submit S c) (map Inr (removal_calls st n)) fs) (\<lambda>_. io_lift (Inr ())))"
proof -
  have "map (\<lambda>e. Inr (SetVerificationMethodRelation (ledger_relation_for (rm_relation e)) n SetRemove)
        :: api_error + did_contract_call)
      (filter rm_member (relation_memberships st n)) = map Inr (removal_calls st n)" for st
    by (simp add: relation_memberships_def removal_calls_def filter_map o_def)
  then show ?thesis by (simp add: purge_from_all_relations_def remove_present_plan [where fs = fs])
qed

lemma run_plan_snoc:
  "io_bind (run_plan exec (map Inr calls) fs) (\<lambda>_. io_map_err map_backend_err (exec call)) =
     io_bind (run_plan exec (map Inr (calls @ [call])) fs) (\<lambda>fs. io_lift (Inr (last fs)))"
  by (simp add: run_plan_append io_bind_assoc)

definition remove_with ::
    "(string \<Rightarrow> did_contract_call) \<Rightarrow> crates \<Rightarrow> serde \<Rightarrow> ('b, 'raw) contract \<Rightarrow> string \<Rightarrow>
     ('b, api_error, finalized_tx_data) io" where
  "remove_with final X S c method_id =
     io_bind (io_lift (normalize_bound_fragment_id_for X c method_id MethodIdField)) (\<lambda>n.
     io_bind (io_map_err map_backend_err (contract_read_snapshot c)) (\<lambda>st.
     io_bind (run_plan (contract_submit S c) (map Inr (removal_calls st n @ [final n])) []) (\<lambda>fs.
       io_lift (Inr (last fs)))))"

lemma remove_is_remove_with:
  "remove_verification_method X S c i = remove_with RemoveVerificationMethod X S c i"
  "remove_schnorr_method X S c i = remove_with RemoveSchnorrJubjubVerificationMethod X S c i"
  by (simp_all add: remove_verification_method_def remove_schnorr_method_def remove_with_def
    purge_plan [where fs = "[]"] io_bind_assoc ct_remove_verification_method_def ct_remove_schnorr_method_def
    run_plan_snoc del: map_append)

text \<open>The calls a removal makes, from the id and the ledger it reads.\<close>

definition removal_plan ::
    "(string \<Rightarrow> did_contract_call) \<Rightarrow> crates \<Rightarrow> ('b, 'raw) contract \<Rightarrow> string \<Rightarrow> 'b \<Rightarrow>
     did_contract_call list" where
  "removal_plan final X c i b =
     (case (normalize_bound_fragment_id i MethodIdField (subject_of X c), fst (contract_read_snapshot c b)) of
        (Inr n, Inr st) \<Rightarrow> removal_calls st n @ [final n]
      | _ \<Rightarrow> [])"

lemma removal_submittable:
  "submittable (final n) \<Longrightarrow> list_all submittable (removal_calls st n @ [final n])"
  by (simp add: removal_calls_def list_all_iff submittable_def)

lemma valid_calls_Inr [simp]: "valid_calls (map Inr calls) = calls" "first_error (map Inr calls) = None"
  by (induction calls) auto

lemma remove_with_log:
  assumes L: "call_log (contract_submit S c) (contract_read_snapshot c) log"
    and run: "remove_with final X S c i b = (r, b')" and fin: "\<And>n. submittable (final n)"
  shows "\<exists>k. log b' = log b @ take k (removal_plan final X c i b) \<and>
    (is_ok r \<longrightarrow> removal_plan final X c i b \<noteq> [] \<and> log b' = log b @ removal_plan final X c i b)"
proof (cases "normalize_bound_fragment_id i MethodIdField (subject_of X c)")
  case (Inl e)
  then have "normalize_bound_fragment_id_for X c i MethodIdField = Inl (ApiLedgerUtils e)"
    by (simp add: normalize_bound_fragment_id_for_def get_did_subject_eq)
  with run show ?thesis by (auto simp: remove_with_def io_lift_def)
next
  case (Inr n)
  then have n: "normalize_bound_fragment_id_for X c i MethodIdField = Inr n" by (simp add: normalize_for_Inr)
  obtain q b1 where q: "contract_read_snapshot c b = (q, b1)" by force
  then have b1: "log b1 = log b" using call_log.snapshot_log [OF L] by blast
  show ?thesis
  proof (cases q)
    case (Inl e)
    with run n q b1 show ?thesis
      by (auto simp: remove_with_def io_bind_def io_map_err_def)
  next
    case (Inr st)
    let ?calls = "removal_calls st n @ [final n]"
    have plan: "removal_plan final X c i b = ?calls"
      using \<open>normalize_bound_fragment_id i MethodIdField (subject_of X c) = Inr n\<close> q Inr
      by (simp add: removal_plan_def)
    obtain p b2 where p: "run_plan (contract_submit S c) (map Inr ?calls) [] b1 = (p, b2)" by force
    have "b' = b2" "is_ok r = is_ok p" using run n q Inr p
      by (auto simp: remove_with_def io_bind_def io_map_err_def io_lift_def simp del: map_append
        split: sum.splits)
    moreover have "list_all submittable (valid_calls (map Inr ?calls))"
      unfolding valid_calls_Inr using fin by (rule removal_submittable)
    from call_log.run_plan_log [OF L this p] obtain k where
      "log b2 = log b1 @ take k ?calls" "is_ok p \<longrightarrow> k = length ?calls"
      unfolding valid_calls_Inr length_map by blast
    ultimately show ?thesis unfolding plan using b1 by (intro exI [of _ k]) auto
  qed
qed

lemma remove_with_total:
  assumes L: "reliable_log (contract_submit S c) (contract_read_snapshot c) log"
    and n: "normalize_bound_fragment_id i MethodIdField (subject_of X c) = Inr n"
    and fin: "submittable (final n)"
  shows "\<exists>f b'. remove_with final X S c i b = (Inr f, b')"
proof -
  obtain st b1 where q: "contract_read_snapshot c b = (Inr st, b1)"
    using reliable_log.snapshot_total [OF L] by blast
  have "list_all submittable (valid_calls (map Inr (removal_calls st n @ [final n])))"
    unfolding valid_calls_Inr using fin by (rule removal_submittable)
  from reliable_log.run_plan_total [OF L this, of "[]" b1] obtain gs b2 where
    "run_plan (contract_submit S c) (map Inr (removal_calls st n @ [final n])) [] b1 = (Inr gs, b2)"
    unfolding valid_calls_Inr by auto
  moreover have "normalize_bound_fragment_id_for X c i MethodIdField = Inr n" using n by (simp add: normalize_for_Inr)
  ultimately show ?thesis using q
    by (simp add: remove_with_def io_bind_def io_map_err_def io_lift_def del: map_append)
qed

section \<open>Properties\<close>

text \<open>
  C14. Removing a verification method, of either kind, first takes it out of the relations that list it,
  in the fixed order of the five relations, and only then removes it: with any lawful backend the calls
  that get through are a prefix of that sequence, so a failure in between never leaves a relation that
  names a removed method; on success the whole sequence was submitted.
\<close>

theorem remove_method_order:
  assumes "call_log (contract_submit S c) (contract_read_snapshot c) log"
    and "remove_verification_method X S c i b = (r, b') \<and> final = RemoveVerificationMethod \<or>
         remove_schnorr_method X S c i b = (r, b') \<and> final = RemoveSchnorrJubjubVerificationMethod"
  shows "\<exists>k. log b' = log b @ take k (removal_plan final X c i b) \<and>
    (is_ok r \<longrightarrow> removal_plan final X c i b \<noteq> [] \<and> log b' = log b @ removal_plan final X c i b)"
proof -
  have "remove_with final X S c i b = (r, b')" using assms(2) unfolding remove_is_remove_with by auto
  moreover have "submittable (final n)" for n using assms(2) by (auto simp: submittable_def)
  ultimately show ?thesis by (rule remove_with_log [OF assms(1)])
qed

definition ex_snapshot :: did_ledger_snapshot where
  "ex_snapshot = snapshot_default\<lparr>assertion_method_relation := [''#k''], key_agreement_relation := [''#k'']\<rparr>"

lemma normalize_k: "normalize_bound_fragment_id ''#k'' field d = Inr ''#k''"
  by (rule normalize_bound_hash) (rule trim_printable_all, simp add: printable_def code_of_def)

theorem remove_method_order_witness:
  "submitted (snd (remove_verification_method ref_crates ref_serde zero_contract ''#k''
      (recording_with_snapshot () ex_snapshot))) =
     [SetVerificationMethodRelation LR_AssertionMethod ''#k'' SetRemove,
      SetVerificationMethodRelation LR_KeyAgreement ''#k'' SetRemove, RemoveVerificationMethod ''#k'']"
proof -
  let ?b = "recording_with_snapshot () ex_snapshot"
  obtain r b' where run: "remove_verification_method ref_crates ref_serde zero_contract ''#k'' ?b = (r, b')"
    by force
  have plan: "removal_plan RemoveVerificationMethod ref_crates zero_contract ''#k'' ?b =
     [SetVerificationMethodRelation LR_AssertionMethod ''#k'' SetRemove,
      SetVerificationMethodRelation LR_KeyAgreement ''#k'' SetRemove, RemoveVerificationMethod ''#k'']"
    by (simp add: removal_plan_def normalize_k zero_contract_def recording_contract_def
      contract_read_snapshot_def recording_backend_def recording_read_snapshot_def recording_with_snapshot_def
      removal_calls_def verification_method_relations_def relation_contains_def ex_snapshot_def
      snapshot_default_def)
  have "is_ok r"
    using remove_with_total [OF recording.reliable_log_axioms, of "''#k''" ref_crates "replicate 32 0" Testnet
        "''#k''" RemoveVerificationMethod ?b] run
    by (auto simp: remove_is_remove_with normalize_k submittable_def zero_contract_def)
  with remove_method_order [OF recording.call_log_axioms, of ref_crates "replicate 32 0" Testnet "''#k''" ?b r b'
      RemoveVerificationMethod] run
  show ?thesis unfolding zero_contract_def [symmetric] plan
    by (simp add: submitted_def recording_with_snapshot_def)
qed

text \<open>
  C15. Applying a patch submits its items in the order of the fields, added and removed aliases, then
  added, updated and removed services. With a reliable backend everything in front of the first item
  that fails its validation is submitted, nothing behind it is, and the result is that item's error; a
  patch whose items are all valid is submitted completely, with one finalisation per item.
\<close>

theorem apply_patch_order:
  assumes "reliable_log (contract_submit S c) (contract_read_snapshot c) log"
  shows "\<exists>r b'. apply_patch X S c p b = (r, b') \<and> log b' = log b @ valid_calls (patch_plan X c p) \<and>
    (case first_error (patch_plan X c p) of
       Some e \<Rightarrow> r = Inl e
     | None \<Rightarrow> \<exists>fs. r = Inr fs \<and> length fs = length (also_known_as_added p) +
         length (also_known_as_removed p) + length (services_added p) + length (services_updated p) +
         length (services_removed p))"
  using reliable_log.run_plan_total [OF assms patch_plan_submittable, of X c p "[]" b]
  by (cases "first_error (patch_plan X c p)") (simp_all add: apply_patch_plan patch_plan_length)

definition ex_patch :: did_document_patch where
  "ex_patch = \<lparr>also_known_as_added = [''urn:a'', ''nope''], also_known_as_removed = [''urn:b''],
     services_added = [], services_updated = [], services_removed = []\<rparr>"

theorem apply_patch_order_witness:
  "\<exists>b'. apply_patch ref_crates ref_serde (recording_contract [] Testnet) ex_patch (recording_new ()) =
     (Inl (ApiLedgerUtils (NotAbsoluteUri ''aliasUri'')), b') \<and>
     submitted b' = [SetAlsoKnownAs ''urn:a'' SetInsert]"
proof -
  have t: "trim ''urn:a'' = ''urn:a''" "trim ''nope'' = ''nope''"
    by (rule trim_printable_all, simp add: printable_def code_of_def)+
  have plan: "valid_calls (patch_plan ref_crates (recording_contract [] Testnet) ex_patch) =
      [SetAlsoKnownAs ''urn:a'' SetInsert]"
    "first_error (patch_plan ref_crates (recording_contract [] Testnet) ex_patch) =
      Some (ApiLedgerUtils (NotAbsoluteUri ''aliasUri''))"
    by (simp_all add: patch_plan_def ex_patch_def assert_absolute_uri_def t ref_crates_def ref_url_parse_def)
  show ?thesis
    using apply_patch_order [OF recording.reliable_log_axioms, of ref_crates "[]" Testnet ex_patch "recording_new ()"]
    by (auto simp: plan submitted_def recording_new_def)
qed

lemma relation_op_total:
  assumes L: "reliable_log (contract_submit S c) (contract_read_snapshot c) log"
    and q: "contract_read_snapshot c b = (Inr st, b1)"
    and ops: "op1 = (add_relation X S c rel i, SetInsert) \<or> op1 = (remove_relation X S c rel i, SetRemove)"
  shows "\<exists>r b'. fst op1 b = (r, b') \<and>
    (case normalize_bound_fragment_id i MethodIdField (subject_of X c) of
       Inl e \<Rightarrow> r = Inl (ApiLedgerUtils e) \<and> log b' = log b
     | Inr n \<Rightarrow>
         if relation_contains st (ledger_relation_for rel) n = (snd op1 = SetRemove)
         then is_ok r \<and> log b' = log b @ [SetVerificationMethodRelation (ledger_relation_for rel) n (snd op1)]
         else \<not> is_ok r \<and> log b' = log b)"
proof (cases "normalize_bound_fragment_id i MethodIdField (subject_of X c)")
  case (Inl e)
  then have "normalize_bound_fragment_id_for X c i MethodIdField = Inl (ApiLedgerUtils e)"
    by (simp add: normalize_bound_fragment_id_for_def get_did_subject_eq)
  with Inl ops show ?thesis by (auto simp: add_relation_def remove_relation_def io_lift_def)
next
  case (Inr n)
  then have n: "normalize_bound_fragment_id_for X c i MethodIdField = Inr n" by (simp add: normalize_for_Inr)
  let ?call = "SetVerificationMethodRelation (ledger_relation_for rel) n (snd op1)"
  have sub: "submittable ?call" by (simp add: submittable_def)
  obtain f b2 where f: "contract_submit S c ?call b1 = (Inr f, b2)"
    using reliable_log.exec_total [OF L sub] by blast
  have "log b2 = log b @ [?call]"
    using call_log.exec_ok [OF reliable_log.axioms(1) [OF L] sub f]
      call_log.snapshot_log [OF reliable_log.axioms(1) [OF L] q] by simp
  moreover have "log b1 = log b" by (rule call_log.snapshot_log [OF reliable_log.axioms(1) [OF L] q])
  ultimately show ?thesis
    using ops n q f Inr
    by (cases "relation_contains st (ledger_relation_for rel) n")
      (auto simp: add_relation_def remove_relation_def io_bind_def io_map_err_def io_lift_def
      assert_relation_absent_def assert_relation_present_def ct_set_relation_def)
qed

text \<open>
  Adding a method to a relation goes through exactly when the id belongs to the DID and the relation
  does not list it yet, removing it exactly when the relation does; one call is then submitted, and a
  refused request submits nothing. The sentinel relation \<open>Undefined\<close>, documented as never written, is
  not refused: nothing lists it, so adding to it always goes through.
\<close>

theorem relation_changes_guarded:
  assumes "reliable_log (contract_submit S c) (contract_read_snapshot c) log"
    and "contract_read_snapshot c b = (Inr st, b1)"
    and "normalize_bound_fragment_id i MethodIdField (get_did_subject_for X (ct_address c) (ct_network c)) = Inr n"
  shows "(is_ok (fst (add_relation X S c rel i b)) \<longleftrightarrow> \<not> relation_contains st (ledger_relation_for rel) n) \<and>
    (is_ok (fst (remove_relation X S c rel i b)) \<longleftrightarrow> relation_contains st (ledger_relation_for rel) n) \<and>
    log (snd (add_relation X S c rel i b)) = log b @
      (if relation_contains st (ledger_relation_for rel) n then []
       else [SetVerificationMethodRelation (ledger_relation_for rel) n SetInsert]) \<and>
    log (snd (remove_relation X S c rel i b)) = log b @
      (if relation_contains st (ledger_relation_for rel) n
       then [SetVerificationMethodRelation (ledger_relation_for rel) n SetRemove] else []) \<and>
    is_ok (fst (add_relation X S c VMR_Undefined i b))"
proof -
  note add = relation_op_total [OF assms(1,2), of "(add_relation X S c rel i, SetInsert)" X rel i for rel, simplified]
  note rem = relation_op_total [OF assms(1,2), of "(remove_relation X S c rel i, SetRemove)" X rel i, simplified]
  have "\<not> relation_contains st (ledger_relation_for VMR_Undefined) n" by (simp add: relation_contains_def)
  then show ?thesis using add [of rel] add [of VMR_Undefined] rem assms(3) by (auto split: if_splits)
qed

theorem relation_changes_guarded_witness:
  "is_ok (fst (remove_relation ref_crates ref_serde zero_contract KeyAgreement ''#k''
     (recording_with_snapshot () ex_snapshot))) \<and>
   submitted (snd (add_relation ref_crates ref_serde zero_contract KeyAgreement ''#k''
     (recording_with_snapshot () ex_snapshot))) = []"
proof -
  let ?b = "recording_with_snapshot () ex_snapshot"
  have q: "contract_read_snapshot zero_contract ?b = (Inr ex_snapshot, ?b\<lparr>rec_calls := [ReadLedger]\<rparr>)"
    by (simp add: zero_contract_def recording_contract_def contract_read_snapshot_def recording_backend_def
      recording_read_snapshot_def recording_with_snapshot_def)
  have "relation_contains ex_snapshot LR_KeyAgreement ''#k''"
    by (simp add: relation_contains_def ex_snapshot_def)
  then show ?thesis
    using relation_changes_guarded [OF recording.reliable_log_axioms q [unfolded zero_contract_def] normalize_k,
      of ref_crates KeyAgreement]
    by (simp add: zero_contract_def submitted_def recording_with_snapshot_def)
qed

text \<open>
  C36. The life of a controller key, on a bound store and any backend: creating a DID returns the key in
  the active slot, which is the given one unless a key was there; after a key change that the backend
  accepted exactly the new key is stored. After \<open>deactivate_and_clear\<close> the active slot holds the all-zero
  key, which the next \<open>create_did\<close> returns as an existing key, whatever secret it is given.
\<close>

theorem controller_key_lifecycle:
  assumes "bound_store P view ready" and "ready s"
  shows "(\<exists>st s'. create_did X c P sk s = (Inr st, s') \<and> ready s' \<and> view s' ActiveSlot = Some st \<and>
        st = (case view s ActiveSlot of Some old \<Rightarrow> old | None \<Rightarrow> \<lparr>secret_key = sk\<rparr>)) \<and>
    (\<exists>s'. rotate_with_derivation S c P sk derive (b, s) =
        (map_err map_backend_err (fst (ct_rotate_controller_key S c (derive sk) b)),
         (snd (ct_rotate_controller_key S c (derive sk) b), s')) \<and> ready s' \<and>
        view s' = (if is_ok (fst (ct_rotate_controller_key S c (derive sk) b))
                   then [ActiveSlot \<mapsto> \<lparr>secret_key = sk\<rparr>] else (view s)(PendingSlot := None))) \<and>
    (\<forall>f b' s'. deactivate_and_clear S c P (b, s) = (Inr f, (b', s')) \<longrightarrow>
       fst (create_did X c P sk s') = Inr \<lparr>secret_key = replicate 32 0\<rparr>)"
proof (intro conjI allI impI)
  have create: "\<exists>st s'. create_did X c P sk s = (Inr st, s') \<and> ready s' \<and> view s' ActiveSlot = Some st \<and>
        st = (case view s ActiveSlot of Some old \<Rightarrow> old | None \<Rightarrow> \<lparr>secret_key = sk\<rparr>)" for s
  proof -
    let ?s0 = "bind_private_state_provider P (contract_to_hex X (ct_address c)) s"
    have 0: "ready ?s0" "view ?s0 = view s"
      using bound_store.bind_ready [OF assms(1)] bound_store.bind_view [OF assms(1)]
      by (simp_all add: bind_private_state_provider_def)
    obtain r1 s1 where 1: "restore_private_state P ActiveSlot ?s0 = (r1, s1)" by force
    note r1 = bound_store.restore_ready [OF assms(1) 0(1) 1]
    obtain q s2 where 2: "store_set P ActiveSlot \<lparr>secret_key = sk\<rparr> s1 = (q, s2)" by force
    have "is_ok q" "ready s2" "view s2 = (view s1)(ActiveSlot \<mapsto> \<lparr>secret_key = sk\<rparr>)"
      using bound_store.set_ready [OF assms(1) _ 2] r1 slot_store.set_view [OF bound_store.axioms(1) [OF assms(1)] 2]
      by auto
    then show ?thesis using 1 2 r1 0 by (cases "view s ActiveSlot")
      (auto simp: create_did_def init_private_state_def io_bind_def io_lift_def Let_def is_ok_iff)
  qed
  show "\<exists>st s'. create_did X c P sk s = (Inr st, s') \<and> ready s' \<and> view s' ActiveSlot = Some st \<and>
        st = (case view s ActiveSlot of Some old \<Rightarrow> old | None \<Rightarrow> \<lparr>secret_key = sk\<rparr>)" by (rule create)
  obtain r b' where r: "ct_rotate_controller_key S c (derive sk) b = (r, b')" by force
  from bound_store.key_change_ready [OF assms, of "ct_rotate_controller_key S c (derive sk)" sk b] r
  show "\<exists>s'. rotate_with_derivation S c P sk derive (b, s) =
        (map_err map_backend_err (fst (ct_rotate_controller_key S c (derive sk) b)),
         (snd (ct_rotate_controller_key S c (derive sk) b), s')) \<and> ready s' \<and>
        view s' = (if is_ok (fst (ct_rotate_controller_key S c (derive sk) b))
                   then [ActiveSlot \<mapsto> \<lparr>secret_key = sk\<rparr>] else (view s)(PendingSlot := None))"
    by (cases r) (auto simp: rotate_with_derivation_def rotate_is_key_change map_backend_err_def)
  fix f b' s'
  assume "deactivate_and_clear S c P (b, s) = (Inr f, (b', s'))"
  then obtain u where u: "save_private_state P \<lparr>secret_key = replicate 32 0\<rparr> ActiveSlot s = (Inr u, s')"
    by (auto simp: deactivate_and_clear_def io_bind_Inr_iff on_contract_def on_store_def io_lift_def
      split: prod.splits)
  have "view s' ActiveSlot = Some \<lparr>secret_key = replicate 32 0\<rparr>"
    using slot_store.save_view(1) [OF bound_store.axioms(1) [OF assms(1)] u] by simp
  with create [of s'] bound_store.save_ready [OF assms(1,2) u]
  show "fst (create_did X c P sk s') = Inr \<lparr>secret_key = replicate 32 0\<rparr>" by auto
qed

theorem controller_key_lifecycle_witness:
  "\<exists>s'. create_did ref_crates zero_contract in_memory_store (replicate 32 5) in_memory_new =
     (Inr \<lparr>secret_key = replicate 32 5\<rparr>, s')"
  using controller_key_lifecycle [OF in_memory.bound_store_axioms, of in_memory_new ref_crates zero_contract
    "replicate 32 5", THEN conjunct1]
  by (auto simp: in_memory_new_def check_address_def)

end
