(* ===== verification/Iso_Time.thy ===== *)
theory Iso_Time
  imports Rust_Str
begin

text \<open>
  The ISO-8601 formatter of \<open>midnight-did-api/src/resolution.rs\<close> (\<open>timestamp_to_iso\<close>,
  \<open>format_iso8601\<close>, \<open>is_leap\<close>) and its agreement with the closed form of the Gregorian calendar.
\<close>

section \<open>Definitions\<close>

definition is_leap :: "int \<Rightarrow> bool" where
  "is_leap year \<longleftrightarrow> (year mod 4 = 0 \<and> year mod 100 \<noteq> 0) \<or> year mod 400 = 0"

text \<open>
  The loop over the years. The day counter is an \<open>i64\<close> that starts below \<open>2 ^ 48\<close> and only shrinks, and
  the year stays below 10000, so neither overflows.
\<close>

function year_loop :: "int \<Rightarrow> int \<Rightarrow> (int \<times> int) option" where
  "year_loop year days =
     (let year_days = (if is_leap year then 366 else 365)
      in if days \<ge> year_days
         then (let days = days - year_days; year = year + 1
               in if year > 9999 then None else year_loop year days)
         else Some (year, days))"
  by pat_completeness auto
termination by (relation "measure (\<lambda>(year, days). nat days)") (auto split: if_splits)

declare year_loop.simps [simp del]

definition month_days :: "int \<Rightarrow> int list" where
  "month_days year = [31, if is_leap year then 29 else 28, 31, 30, 31, 30, 31, 31, 30, 31, 30, 31]"

text \<open>The loop over the months; the list is what is left of the array from index \<open>month\<close> on.\<close>

fun month_loop :: "int list \<Rightarrow> nat \<Rightarrow> int \<Rightarrow> nat \<times> int" where
  "month_loop [] month days = (month, days)"
| "month_loop (l # ls) month days =
     (if days \<ge> l then month_loop ls (month + 1) (days - l) else (month, days))"

definition format_iso8601 :: "u64 \<Rightarrow> string option" where
  "format_iso8601 seconds =
     (let total_days = seconds div 86400;
          secs_in_day = (ucast (seconds mod 86400) :: u32);
          hour = secs_in_day div 3600;
          minute = (secs_in_day mod 3600) div 60;
          second = secs_in_day mod 60
      in Option.bind (year_loop 1970 (uint total_days)) (\<lambda>(year, days).
           let (month, days) = month_loop (month_days year) 0 days;
               day = days + 1
           in Some (show_padded 4 (nat year) @ ''-'' @ show_padded 2 (month + 1) @ ''-'' @
                show_padded 2 (nat day) @ ''T'' @ show_padded 2 (unat hour) @ '':'' @
                show_padded 2 (unat minute) @ '':'' @ show_padded 2 (unat second) @ ''Z'')))"

definition timestamp_to_iso :: "u64 \<Rightarrow> string option" where
  "timestamp_to_iso ms =
     (if ms = 0 then None
      else (let seconds = ms div 1000 in Option.bind (format_iso8601 seconds) Some))"

section \<open>The calendar\<close>

text \<open>The number of leap years up to a year, and the day number of a date, 0 for 1970-01-01.\<close>

definition leap_count :: "int \<Rightarrow> int" where
  "leap_count y = y div 4 - y div 100 + y div 400"

definition year_start :: "int \<Rightarrow> int" where
  "year_start y = 365 * (y - 1970) + leap_count (y - 1) - leap_count 1969"

definition month_start :: "int \<Rightarrow> nat \<Rightarrow> int" where
  "month_start y m = sum_list (take (m - 1) (month_days y))"

definition day_number :: "int \<Rightarrow> nat \<Rightarrow> nat \<Rightarrow> int" where
  "day_number y m d = year_start y + month_start y m + int d - 1"

definition date_ok :: "int \<Rightarrow> nat \<Rightarrow> nat \<Rightarrow> bool" where
  "date_ok y m d \<longleftrightarrow> 1 \<le> m \<and> m \<le> 12 \<and> 1 \<le> d \<and> int d \<le> month_days y ! (m - 1)"

definition time_ok :: "nat \<Rightarrow> nat \<Rightarrow> nat \<Rightarrow> bool" where
  "time_ok h mi s \<longleftrightarrow> h < 24 \<and> mi < 60 \<and> s < 60"

definition iso_text :: "int \<Rightarrow> nat \<Rightarrow> nat \<Rightarrow> nat \<Rightarrow> nat \<Rightarrow> nat \<Rightarrow> string" where
  "iso_text y m d h mi s =
     show_padded 4 (nat y) @ ''-'' @ show_padded 2 m @ ''-'' @ show_padded 2 d @ ''T'' @
     show_padded 2 h @ '':'' @ show_padded 2 mi @ '':'' @ show_padded 2 s @ ''Z''"

definition year_length :: "int \<Rightarrow> int" where
  "year_length y = (if is_leap y then 366 else 365)"

lemma div_pred:
  fixes y :: int
  assumes "0 < k"
  shows "y div k = (y - 1) div k + (if y mod k = 0 then 1 else 0)"
proof -
  define q r where qr: "q = y div k" "r = y mod k"
  have y: "y = k * q + r" "0 \<le> r" "r < k" using assms by (simp_all add: qr)
  have "(y - 1) div k = (if r = 0 then q - 1 else q)"
  proof (cases "r = 0")
    case True
    have "(y - 1) div k = q - 1"
      by (rule int_div_pos_eq [of _ _ _ "k - 1"]) (use y True assms in \<open>simp_all add: algebra_simps\<close>)
    with True show ?thesis by simp
  next
    case False
    have "(y - 1) div k = q"
      by (rule int_div_pos_eq [of _ _ _ "r - 1"]) (use y False assms in simp_all)
    with False show ?thesis by simp
  qed
  then show ?thesis by (simp add: qr)
qed

lemma leap_count_step: "leap_count y = leap_count (y - 1) + (if is_leap y then 1 else 0)"
proof -
  have d: "y mod 400 = 0 \<Longrightarrow> y mod 100 = 0" "y mod 100 = 0 \<Longrightarrow> y mod 4 = 0"
    by (auto simp: mod_eq_0_iff_dvd elim: dvd_trans [rotated])
  show ?thesis
    using d unfolding leap_count_def div_pred [of 4 y, simplified] div_pred [of 100 y, simplified]
      div_pred [of 400 y, simplified] is_leap_def by auto
qed

lemma year_start_Suc: "year_start (y + 1) = year_start y + year_length y"
  using leap_count_step [of y] by (simp add: year_start_def year_length_def algebra_simps)

lemma year_start_1970 [simp]: "year_start 1970 = 0"
  by (simp add: year_start_def)

lemma year_length_pos: "0 < year_length y"
  by (simp add: year_length_def)

lemma year_start_mono: "y \<le> z \<Longrightarrow> year_start y \<le> year_start z"
proof (induction z rule: int_ge_induct)
  case (step z)
  then show ?case using year_length_pos [of z] by (simp add: year_start_Suc)
qed simp

lemma sum_month_days: "sum_list (month_days y) = year_length y"
  by (simp add: month_days_def year_length_def)

section \<open>The loops\<close>

lemma year_loop_eq:
  "year_loop y d =
     (if d \<ge> year_length y then (if y \<ge> 9999 then None else year_loop (y + 1) (d - year_length y))
      else Some (y, d))"
  by (subst year_loop.simps) (auto simp: Let_def year_length_def)

lemma year_loop_Some:
  "year_loop y d = Some (z, r) \<Longrightarrow> 0 \<le> d \<Longrightarrow> y \<le> 9999 \<Longrightarrow>
     y \<le> z \<and> z \<le> 9999 \<and> d = year_start z - year_start y + r \<and> 0 \<le> r \<and> r < year_length z"
proof (induction y d rule: year_loop.induct)
  case (1 y d)
  show ?case
  proof (cases "d \<ge> year_length y")
    case True
    with 1(2) have y: "y < 9999" and l: "year_loop (y + 1) (d - year_length y) = Some (z, r)"
      by (auto simp: year_loop_eq [of y d] split: if_splits)
    show ?thesis
      using 1(1) [OF refl _ refl refl _ l [unfolded year_length_def]] True y year_start_Suc [of y]
      by (auto simp: year_length_def split: if_splits)
  next
    case False
    with 1 show ?thesis by (auto simp: year_loop_eq [of y d])
  qed
qed

lemma year_loop_at:
  assumes "y \<le> z" and "z \<le> 9999" and "0 \<le> r" and "r < year_length z"
  shows "year_loop y (year_start z - year_start y + r) = Some (z, r)"
  using assms(1)
proof (induction y rule: int_le_induct)
  case (step y)
  have "year_start y \<le> year_start z" using step by (intro year_start_mono) simp
  with step assms year_start_Suc [of "y - 1"] show ?case
    by (subst year_loop_eq) (auto simp: algebra_simps)
qed (use assms in \<open>simp add: year_loop_eq\<close>)

lemma month_loop_shift: "month_loop ls (Suc m) d = (let (k, r) = month_loop ls m d in (Suc k, r))"
  by (induction ls m d rule: month_loop.induct) (auto simp: Let_def split: prod.splits)

lemma month_loop_result:
  "month_loop ls 0 d = (k, r) \<Longrightarrow> 0 \<le> d \<Longrightarrow> d < sum_list ls \<Longrightarrow>
     k < length ls \<and> d = sum_list (take k ls) + r \<and> 0 \<le> r \<and> r < ls ! k"
proof (induction ls arbitrary: d k)
  case (Cons l ls)
  show ?case
  proof (cases "d \<ge> l")
    case True
    with Cons.prems(1) obtain k' where "k = Suc k'" "month_loop ls 0 (d - l) = (k', r)"
      by (auto simp: month_loop_shift Let_def split: prod.splits)
    with Cons.IH [of "d - l" k'] Cons.prems True show ?thesis by simp
  qed (use Cons.prems in auto)
qed simp

lemma month_loop_at:
  assumes "k < length ls" and "0 \<le> r" and "r < ls ! k" and "\<forall>l\<in>set ls. 0 \<le> l"
  shows "month_loop ls 0 (sum_list (take k ls) + r) = (k, r)"
  using assms
proof (induction ls arbitrary: k)
  case (Cons l ls)
  show ?case
  proof (cases k)
    case (Suc k')
    have "0 \<le> sum_list (take k' ls)" using Cons.prems(4)
      by (intro sum_list_nonneg) (auto dest: in_set_takeD)
    with Cons Suc show ?thesis by (simp add: month_loop_shift)
  qed (use Cons in simp)
qed simp

section \<open>Words\<close>

lemma day_split:
  fixes s :: u64
  shows "uint (s div 86400) = uint s div 86400"
    and "unat (ucast (s mod 86400) div 3600 :: u32) = unat s mod 86400 div 3600"
    and "unat (ucast (s mod 86400) mod 3600 div 60 :: u32) = unat s mod 86400 mod 3600 div 60"
    and "unat (ucast (s mod 86400) mod 60 :: u32) = unat s mod 86400 mod 60"
proof -
  have u: "unat (s mod 86400) = unat s mod 86400" by (simp add: unat_mod)
  moreover have "unat (s mod 86400) < 2 ^ 32" unfolding u by (rule less_trans [of _ 86400]) simp_all
  ultimately have c: "unat (ucast (s mod 86400) :: u32) = unat s mod 86400"
    by (simp add: unsigned_ucast_eq unsigned_take_bit_eq take_bit_nat_eq_self)
  show "uint (s div 86400) = uint s div 86400" by (simp add: uint_div)
  show "unat (ucast (s mod 86400) div 3600 :: u32) = unat s mod 86400 div 3600"
    "unat (ucast (s mod 86400) mod 3600 div 60 :: u32) = unat s mod 86400 mod 3600 div 60"
    "unat (ucast (s mod 86400) mod 60 :: u32) = unat s mod 86400 mod 60"
    by (simp_all add: unat_div unat_mod c)
qed

section \<open>The formatter implements the calendar\<close>

definition second_number :: "int \<Rightarrow> nat \<Rightarrow> nat \<Rightarrow> nat \<Rightarrow> nat \<Rightarrow> nat \<Rightarrow> int" where
  "second_number y m d h mi s = 86400 * day_number y m d + 3600 * int h + 60 * int mi + int s"

text \<open>The two loops find the date of a day number; \<open>date_at\<close> is their result.\<close>

definition date_at :: "int \<Rightarrow> (int \<times> nat \<times> int) option" where
  "date_at n =
     Option.bind (year_loop 1970 n) (\<lambda>(y, r).
       let (m, r) = month_loop (month_days y) 0 r in Some (y, m + 1, r + 1))"

lemma length_month_days [simp]: "length (month_days y) = 12"
  by (simp add: month_days_def)

lemma month_days_nonneg: "\<forall>l\<in>set (month_days y). 0 \<le> l"
  by (simp add: month_days_def)

lemma month_start_bound:
  assumes "date_ok y m d"
  shows "0 \<le> month_start y m + int d - 1" and "month_start y m + int d - 1 < year_length y"
proof -
  let ?ls = "month_days y"
  from assms have m: "m - 1 < length ?ls" "1 \<le> d" "int d \<le> ?ls ! (m - 1)" by (auto simp: date_ok_def)
  have part: "sum_list ?ls = sum_list (take (m - 1) ?ls) + ?ls ! (m - 1) + sum_list (drop m ?ls)"
    using m(1) assms id_take_nth_drop [OF m(1)]
    by (metis (no_types, lifting) One_nat_def Suc_pred' add.assoc date_ok_def less_eq_Suc_le sum_list.Cons
      sum_list_append)
  have pos: "0 \<le> sum_list (take (m - 1) ?ls)" "0 \<le> sum_list (drop m ?ls)"
    using month_days_nonneg [of y]
    by (auto intro!: sum_list_nonneg dest: in_set_takeD in_set_dropD)
  then show "0 \<le> month_start y m + int d - 1" "month_start y m + int d - 1 < year_length y"
    using m part sum_month_days [of y] unfolding month_start_def by linarith+
qed

lemma date_at_sound:
  assumes "date_at n = Some (y, m, d)" and "0 \<le> n"
  shows "1970 \<le> y \<and> y \<le> 9999 \<and> date_ok y m (nat d) \<and> 1 \<le> d \<and> n = day_number y m (nat d)"
proof -
  obtain y' r where yl: "year_loop 1970 n = Some (y', r)"
    using assms(1) by (cases "year_loop 1970 n") (auto simp: date_at_def)
  moreover obtain k q where ml: "month_loop (month_days y') 0 r = (k, q)" by fastforce
  ultimately have "y' = y" using assms(1) by (simp add: date_at_def)
  with yl ml have l: "year_loop 1970 n = Some (y, r)" "month_loop (month_days y) 0 r = (k, q)"
    "m = k + 1" "d = q + 1" using assms(1) by (simp_all add: date_at_def)
  from year_loop_Some [OF l(1) assms(2)] have y: "1970 \<le> y" "y \<le> 9999" "n = year_start y + r"
    "0 \<le> r" "r < year_length y" by auto
  from month_loop_result [OF l(2) y(4)] y(5) have "k < 12" "r = sum_list (take k (month_days y)) + q"
    "0 \<le> q" "q < month_days y ! k" by (auto simp: sum_month_days)
  with y l(3,4) show ?thesis by (auto simp: date_ok_def day_number_def month_start_def)
qed

lemma date_at_complete:
  assumes "1970 \<le> y" and "y \<le> 9999" and "date_ok y m d"
  shows "date_at (day_number y m d) = Some (y, m, int d)"
proof -
  have "month_loop (month_days y) 0 (sum_list (take (m - 1) (month_days y)) + (int d - 1)) = (m - 1, int d - 1)"
    using assms(3) by (intro month_loop_at [OF _ _ _ month_days_nonneg]) (auto simp: date_ok_def)
  then have "month_loop (month_days y) 0 (month_start y m + int d - 1) = (m - 1, int d - 1)"
    by (simp add: month_start_def algebra_simps)
  then show ?thesis
    using year_loop_at [OF assms(1,2) month_start_bound [OF assms(3)]] assms(3)
    by (simp add: date_at_def day_number_def algebra_simps date_ok_def Let_def)
qed

lemma date_at_None: "0 \<le> n \<Longrightarrow> date_at n = None \<longleftrightarrow> year_start 10000 \<le> n"
proof
  assume n: "0 \<le> n" and none: "date_at n = None"
  show "year_start 10000 \<le> n"
  proof (rule ccontr)
    assume "\<not> year_start 10000 \<le> n"
    then have "\<exists>y. 1970 \<le> y \<and> y \<le> 9999 \<and> year_start y \<le> n \<and> n < year_start (y + 1)"
    proof -
      let ?P = "\<lambda>k::nat. n < year_start (1970 + int k)"
      from \<open>\<not> _\<close> have ex: "?P 8030" by simp
      define k where "k = (LEAST k. ?P k)"
      have k: "?P k" "k \<le> 8030" using LeastI [of ?P, OF ex] Least_le [of ?P, OF ex] by (simp_all add: k_def)
      have "k \<noteq> 0" using k(1) n by (cases "k = 0") auto
      then have "\<not> ?P (k - 1)" using not_less_Least [of "k - 1" ?P] by (simp add: k_def)
      with k \<open>k \<noteq> 0\<close> show ?thesis
        by (intro exI [of _ "1970 + int (k - 1)"]) (auto simp: algebra_simps of_nat_diff)
    qed
    then obtain y where y: "1970 \<le> y" "y \<le> 9999" "year_start y \<le> n" "n < year_start (y + 1)" by blast
    then have "year_loop 1970 n = Some (y, n - year_start y)"
      using year_loop_at [OF y(1,2), of "n - year_start y"] by (simp add: year_start_Suc)
    with none show False by (simp add: date_at_def Let_def split: prod.splits)
  qed
next
  assume n: "0 \<le> n" and big: "year_start 10000 \<le> n"
  show "date_at n = None"
  proof (rule ccontr)
    assume "date_at n \<noteq> None"
    then obtain y m d where "date_at n = Some (y, m, d)" by (metis not_None_eq prod_cases3)
    from date_at_sound [OF this n] have y: "y \<le> 9999" "date_ok y m (nat d)" "n = day_number y m (nat d)" by auto
    from y(3) month_start_bound(2) [OF y(2)] have "n < year_start (y + 1)"
      by (simp add: day_number_def year_start_Suc)
    also have "\<dots> \<le> year_start 10000" using y(1) by (intro year_start_mono) simp
    finally show False using big by simp
  qed
qed

lemma format_iso8601_eq:
  "format_iso8601 s =
     Option.bind (date_at (uint s div 86400)) (\<lambda>(y, m, d).
       let r = unat s mod 86400
       in Some (iso_text y m (nat d) (r div 3600) (r mod 3600 div 60) (r mod 60)))"
  unfolding format_iso8601_def date_at_def Let_def day_split iso_text_def
  by (cases "year_loop 1970 (uint s div 86400)") (auto split: prod.splits)

lemma seconds_split:
  "r < 86400 \<Longrightarrow> time_ok (r div 3600) (r mod 3600 div 60) (r mod 60)"
  "3600 * (r div 3600) + 60 * (r mod 3600 div 60) + r mod 60 = r"
proof -
  have m: "r mod 3600 mod 60 = r mod 60" by (rule mod_mod_cancel) simp
  show "r < 86400 \<Longrightarrow> time_ok (r div 3600) (r mod 3600 div 60) (r mod 60)"
    by (auto simp: time_ok_def less_mult_imp_div_less)
  show "3600 * (r div 3600) + 60 * (r mod 3600 div 60) + r mod 60 = r"
    using mult_div_mod_eq [of 60 "r mod 3600"] mult_div_mod_eq [of 3600 r] unfolding m by linarith
qed

lemma seconds_join:
  assumes "time_ok h mi se" and "r = 3600 * h + 60 * mi + se"
  shows "r < 86400" and "r div 3600 = h" and "r mod 3600 div 60 = mi" and "r mod 60 = se"
proof -
  have m: "60 * mi + se < 3600" using assms(1) by (simp add: time_ok_def)
  then show "r < 86400" "r div 3600 = h"
    using assms by (auto simp: time_ok_def add.assoc)
  have "r mod 3600 = 60 * mi + se" using m assms(2) by (simp add: add.assoc)
  then show "r mod 3600 div 60 = mi" using assms(1) by (simp add: time_ok_def)
  have "r = 60 * (60 * h + mi) + se" using assms(2) by simp
  then show "r mod 60 = se" using assms(1) by (simp only: time_ok_def mod_mult_self4) simp
qed

text \<open>
  C40. \<open>format_iso8601\<close> writes the proleptic Gregorian date and time of a Unix time: the text is
  \<open>YYYY-MM-DDThh:mm:ssZ\<close> of the one date and time between 1970 and 9999 whose second number is the
  argument, and the answer is \<open>None\<close> exactly from 10000-01-01 on.
\<close>

theorem format_iso8601_calendar:
  "(format_iso8601 s = Some t \<longleftrightarrow>
     (\<exists>y m d h mi se. 1970 \<le> y \<and> y \<le> 9999 \<and> date_ok y m d \<and> time_ok h mi se \<and>
        uint s = second_number y m d h mi se \<and> t = iso_text y m d h mi se)) \<and>
   (format_iso8601 s = None \<longleftrightarrow> 253402300800 \<le> uint s)"
proof (intro conjI)
  define r where "r = unat s mod 86400"
  have n: "0 \<le> uint s div 86400" by (simp add: pos_imp_zdiv_nonneg_iff)
  have r: "int r = uint s mod 86400" "r < 86400" by (simp_all add: r_def zmod_int)
  have us: "uint s = 86400 * (uint s div 86400) + int r" unfolding r(1) by simp
  show "format_iso8601 s = None \<longleftrightarrow> 253402300800 \<le> uint s"
  proof -
    have "format_iso8601 s = None \<longleftrightarrow> date_at (uint s div 86400) = None"
      by (cases "date_at (uint s div 86400)") (auto simp: format_iso8601_eq Let_def)
    also have "\<dots> \<longleftrightarrow> 2932897 \<le> uint s div 86400"
      unfolding date_at_None [OF n] by (simp add: year_start_def leap_count_def)
    finally show ?thesis using us r(2) by linarith
  qed
  show "format_iso8601 s = Some t \<longleftrightarrow>
     (\<exists>y m d h mi se. 1970 \<le> y \<and> y \<le> 9999 \<and> date_ok y m d \<and> time_ok h mi se \<and>
        uint s = second_number y m d h mi se \<and> t = iso_text y m d h mi se)" (is "_ \<longleftrightarrow> ?R")
  proof
    assume "format_iso8601 s = Some t"
    then obtain y m d where a: "date_at (uint s div 86400) = Some (y, m, d)"
      "t = iso_text y m (nat d) (r div 3600) (r mod 3600 div 60) (r mod 60)"
      by (auto simp: format_iso8601_eq bind_eq_Some_conv Let_def r_def)
    have "3600 * int (r div 3600) + 60 * int (r mod 3600 div 60) + int (r mod 60) = int r"
      using arg_cong [OF seconds_split(2) [of r], of int] unfolding of_nat_add of_nat_mult of_nat_numeral .
    with us date_at_sound [OF a(1) n] have "uint s = second_number y m (nat d) (r div 3600) (r mod 3600 div 60) (r mod 60)"
      unfolding second_number_def by linarith
    then show ?R using date_at_sound [OF a(1) n] a(2) seconds_split(1) [OF r(2)] by blast
  next
    assume ?R
    then obtain y m d h mi se where q: "1970 \<le> y" "y \<le> 9999" "date_ok y m d" "time_ok h mi se"
      "uint s = second_number y m d h mi se" "t = iso_text y m d h mi se" by blast
    let ?q = "3600 * h + 60 * mi + se"
    have "int ?q < 86400" using seconds_join(1) [OF q(4) refl] by linarith
    then have d: "uint s div 86400 = day_number y m d" and "uint s mod 86400 = int ?q"
      unfolding q(5) second_number_def
      by (intro int_div_pos_eq [of _ _ _ "int ?q"] int_mod_pos_eq [of _ _ "day_number y m d"]; simp)+
    then have "r = ?q" using r(1) by (simp flip: of_nat_eq_iff)
    from seconds_join(2-4) [OF q(4) this] date_at_complete [OF q(1-3)] show "format_iso8601 s = Some t"
      by (simp add: format_iso8601_eq d q(6) Let_def r_def [symmetric])
  qed
qed

text \<open>The unit test of the source: 2024-01-01T00:00:00Z.\<close>

lemma iso_format_basic: "format_iso8601 1704067200 = Some ''2024-01-01T00:00:00Z''"
  by code_simp

end
