(* ===== verification/Resolution.thy ===== *)
theory Resolution
  imports Mappers Iso_Time
begin

text \<open>
  \<open>midnight-did-api/src/resolution.rs\<close>: from the ledger snapshot back to a DID document. The readers of
  single entries are shown to invert the writers of \<open>ledger_mappers.rs\<close> and \<open>ledger_utils.rs\<close>, and the
  assembled document to be consistent.
\<close>

section \<open>Identifiers\<close>

definition verification_method_fragment_id :: "string \<Rightarrow> string" where
  "verification_method_fragment_id i =
     (let raw = trim i
      in if starts_with raw ''did:''
         then (if CHR ''#'' \<in> set raw then raw
               else (let last_colon = (case rfind_char (CHR '':'') raw of Some n \<Rightarrow> n
                                       | None \<Rightarrow> length raw - 1)
                     in raw @ ''#'' @ drop (last_colon + 1) raw))
         else (let needs_prefix = \<not> starts_with raw ''#'' \<and> \<not> starts_with raw ''/'' \<and>
                     \<not> starts_with raw ''.'' \<and> \<not> starts_with raw ''?''
               in if needs_prefix then ''#'' @ raw else raw))"

definition absolute_did_url_reference :: "string \<Rightarrow> string \<Rightarrow> string" where
  "absolute_did_url_reference did i =
     (let normalized = verification_method_fragment_id i
      in if starts_with normalized ''did:'' then normalized else did @ normalized)"

section \<open>Keys\<close>

definition ledger_verification_method_type_to_domain ::
    "verification_method_type \<Rightarrow> api_error + verification_method_type" where
  "ledger_verification_method_type_to_domain typ = Inr typ"

definition ledger_jwk_to_domain :: "crates \<Rightarrow> ledger_public_key_jwk \<Rightarrow> api_error + public_key_jwk" where
  "ledger_jwk_to_domain X jwk =
     (let y_value = (if lj_y jwk = [] then None else Some (lj_y jwk))
      in if lj_kty jwk = OKP \<and> y_value \<noteq> None
         then Inl (mapping ''OKP ledger publicKeyJwk.y must be empty'')
         else map_err ApiValidation
           (jwk_new X \<lparr>nj_kty = lj_kty jwk, nj_crv = lj_crv jwk, nj_x = lj_x jwk, nj_y = y_value,
                       nj_extensions = []\<rparr>))"

definition decode_jubjub_coordinate :: "crates \<Rightarrow> string \<Rightarrow> string \<Rightarrow> api_error + bytes" where
  "decode_jubjub_coordinate X hex_value label =
     res_bind (map_err (\<lambda>err. mapping (label @ '': '' @ err)) (hex_decode X hex_value)) (\<lambda>bs.
       if length bs > 32
       then Inl (mapping (label @ '' does not fit in 32 bytes (got '' @ show_nat (length bs) @ '' bytes)''))
       else Inr (bs @ replicate (32 - length bs) 0))"

definition schnorr_jubjub_pk_to_jwk ::
    "crates \<Rightarrow> ledger_schnorr_verification_method \<Rightarrow> api_error + public_key_jwk" where
  "schnorr_jubjub_pk_to_jwk X m =
     res_bind (decode_jubjub_coordinate X (jp_x (lsv_public_key m)) ''publicKey.x'') (\<lambda>x.
     res_bind (decode_jubjub_coordinate X (jp_y (lsv_public_key m)) ''publicKey.y'') (\<lambda>y.
       map_err ApiValidation
         (jwk_new X \<lparr>nj_kty = EC, nj_crv = Jubjub, nj_x = encode_base64url X x,
                     nj_y = Some (encode_base64url X y), nj_extensions = []\<rparr>)))"

section \<open>Services\<close>

text \<open>\<open>serde_json::from_str::<Vec<String>>\<close>: an array whose entries are all strings.\<close>

fun json_string :: "json \<Rightarrow> string option" where
  "json_string (JString s) = Some s"
| "json_string _ = None"

definition json_strings :: "json option \<Rightarrow> string list option" where
  "json_strings v = (case v of Some (JArray vs) \<Rightarrow> those (map json_string vs) | _ \<Rightarrow> None)"

definition parse_service_type :: "crates \<Rightarrow> string \<Rightarrow> api_error + service_type" where
  "parse_service_type X raw =
     (let value = trim raw
      in if value = [] then Inl (mapping ''Invalid service type: empty value'')
         else if starts_with value ''[''
         then res_bind (ok_or (mapping ''Invalid service type: malformed JSON array'')
                (json_strings (json_from_str X value))) (\<lambda>parsed.
              if parsed = [] \<or> list_ex (\<lambda>s. trim s = []) parsed
              then Inl (mapping ''Invalid service type: expected non-empty unique strings'')
              else (let trimmed = map trim parsed
                    in if length (remdups_adj (sort trimmed)) \<noteq> length trimmed
                       then Inl (mapping ''Invalid service type: expected non-empty unique strings'')
                       else Inr (TypeMany trimmed)))
         else Inr (TypeOne value))"

fun endpoint_entry_of :: "json \<Rightarrow> api_error + service_endpoint_entry" where
  "endpoint_entry_of (JString s) = Inr (EntryUri s)"
| "endpoint_entry_of (JObject m) = Inr (EntryObject m)"
| "endpoint_entry_of _ = Inl (mapping ''Invalid serviceEndpoint array entry'')"

definition parse_service_endpoint :: "crates \<Rightarrow> string \<Rightarrow> api_error + service_endpoint" where
  "parse_service_endpoint X raw =
     (let trimmed = trim raw
      in if trimmed = [] then Inl (mapping ''Invalid serviceEndpoint: empty value'')
         else (case json_from_str X trimmed of
                 Some (JString s) \<Rightarrow> Inr (EndpointUri s)
               | Some (JObject m) \<Rightarrow> Inr (EndpointObject m)
               | Some (JArray arr) \<Rightarrow> res_bind (collect_results endpoint_entry_of arr)
                                         (\<lambda>entries. Inr (EndpointArray entries))
               | _ \<Rightarrow> Inr (EndpointUri trimmed)))"

definition parse_ledger_service :: "crates \<Rightarrow> ledger_service \<Rightarrow> string \<Rightarrow> api_error + service" where
  "parse_ledger_service X svc did =
     (let i = absolute_did_url_reference did (ls_id svc)
      in res_bind (parse_service_type X (ls_typ svc)) (\<lambda>t.
         res_bind (parse_service_endpoint X (ls_service_endpoint svc)) (\<lambda>e.
           map_err ApiValidation (service_new X \<lparr>ns_id = i, ns_type = t, ns_endpoint = e\<rparr>))))"

section \<open>Assembly\<close>

text \<open>
  The two loops over the method maps, over the entries in key order: \<open>key\<close> reads the entry's key,
  \<open>typ\<close> its type, and \<open>seen\<close> are the normalised ids so far.
\<close>

fun resolve_methods ::
    "crates \<Rightarrow> string \<Rightarrow> ('m \<Rightarrow> api_error + public_key_jwk) \<Rightarrow> ('m \<Rightarrow> api_error + verification_method_type) \<Rightarrow>
     string list \<Rightarrow> (string, 'm) btree \<Rightarrow> api_error + (verification_method list \<times> string list)" where
  "resolve_methods X did key typ seen [] = Inr ([], seen)"
| "resolve_methods X did key typ seen ((i, m) # ms) =
     res_bind (key m) (\<lambda>domain_jwk.
       let absolute_id = absolute_did_url_reference did i;
           normalized = verification_method_fragment_id i
       in if normalized \<in> set seen then Inl (mapping ''Duplicate verification method id'')
          else
            res_bind (typ m) (\<lambda>t.
            res_bind (map_err ApiValidation
              (vm_new X \<lparr>nvm_id = absolute_id, nvm_type = t, nvm_controller = did,
                         nvm_public_key_jwk = domain_jwk\<rparr>)) (\<lambda>vm.
            res_bind (resolve_methods X did key typ (normalized # seen) ms) (\<lambda>(vms, seen').
              Inr (vm # vms, seen')))))"

definition assert_targets :: "string \<Rightarrow> string list \<Rightarrow> string \<Rightarrow> string list \<Rightarrow> api_error + unit" where
  "assert_targets did seen name members =
     check_each (\<lambda>member.
       let normalized = verification_method_fragment_id member
       in if normalized \<notin> set seen
          then Inl (mapping (name @ '' references missing verification method '' @ [CHR 0x27] @
                 absolute_did_url_reference did member @ [CHR 0x27]))
          else Inr ()) members"

definition map_relation :: "crates \<Rightarrow> string list \<Rightarrow> api_error + did_key_id list option" where
  "map_relation X members =
     (if members = [] then Inr None
      else res_bind (collect_results (\<lambda>m.
             map_err (\<lambda>e. mapping (''invalid DID key id in relation: '' @ validation_error_text e))
               (did_key_id_parse X (verification_method_fragment_id m))) members)
           (\<lambda>parsed. Inr (Some parsed)))"

definition resolved_context :: document_context where
  "resolved_context = ContextMany [''https://www.w3.org/ns/did/v1'',
     ''https://w3c.github.io/vc-jws-2020/contexts/v1'']"

definition ledger_state_to_did_document ::
    "crates \<Rightarrow> did_ledger_snapshot \<Rightarrow> midnight_network \<Rightarrow> string \<Rightarrow> api_error + did_document" where
  "ledger_state_to_did_document X state network address =
     (let did = midnight_did_str (create_midnight_did_string address network)
      in res_bind (resolve_methods X did (\<lambda>m. ledger_jwk_to_domain X (lvm_public_key_jwk m))
                     (\<lambda>m. ledger_verification_method_type_to_domain (lvm_typ m)) []
                     (verification_methods state)) (\<lambda>(vms, seen).
         res_bind (resolve_methods X did (schnorr_jubjub_pk_to_jwk X) (\<lambda>_. Inr JsonWebKey) seen
                     (schnorr_jubjub_verification_methods state)) (\<lambda>(svms, seen).
         let verification_method = vms @ svms in
         res_bind (assert_targets did seen ''authentication'' (authentication_relation state)) (\<lambda>_.
         res_bind (assert_targets did seen ''assertionMethod'' (assertion_method_relation state)) (\<lambda>_.
         res_bind (assert_targets did seen ''keyAgreement'' (key_agreement_relation state)) (\<lambda>_.
         res_bind (assert_targets did seen ''capabilityInvocation''
                     (capability_invocation_relation state)) (\<lambda>_.
         res_bind (assert_targets did seen ''capabilityDelegation''
                     (capability_delegation_relation state)) (\<lambda>_.
         res_bind (if services state = [] then Inr None
                   else res_bind (collect_results (\<lambda>(_, svc). parse_ledger_service X svc did)
                          (services state)) (\<lambda>out. Inr (Some out))) (\<lambda>svcs.
         res_bind (map_err (\<lambda>e. mapping (''invalid DID id: '' @ validation_error_text e))
                     (did_string_parse did)) (\<lambda>i.
         res_bind (map_err (\<lambda>e. mapping (''invalid DID controller: '' @ validation_error_text e))
                     (did_string_parse did)) (\<lambda>ctl.
         res_bind (map_relation X (authentication_relation state)) (\<lambda>auth.
         res_bind (map_relation X (assertion_method_relation state)) (\<lambda>asrt.
         res_bind (map_relation X (key_agreement_relation state)) (\<lambda>agr.
         res_bind (map_relation X (capability_invocation_relation state)) (\<lambda>inv.
         res_bind (map_relation X (capability_delegation_relation state)) (\<lambda>del.
           Inr \<lparr>doc_context = resolved_context,
                doc_id = i,
                doc_also_known_as = non_empty (also_known_as state),
                doc_controller = Some (ControllerOne ctl),
                doc_verification_method = non_empty verification_method,
                doc_authentication = auth,
                doc_assertion_method = asrt,
                doc_key_agreement = agr,
                doc_capability_invocation = inv,
                doc_capability_delegation = del,
                doc_service = svcs,
                doc_extra = []\<rparr>))))))))))))))))"

definition ledger_state_to_metadata :: "did_ledger_snapshot \<Rightarrow> did_document_metadata" where
  "ledger_state_to_metadata state =
     (let created = timestamp_to_iso (created_ms state);
          updated = timestamp_to_iso (updated_ms state);
          is_deactivated = deactivated state \<or> \<not> active state
      in \<lparr>dm_created = created, dm_updated = updated,
          dm_deactivated = (if is_deactivated then Some True else None),
          dm_version_id = Some (show_nat (unat (snap_version state))),
          dm_next_update = None, dm_next_version_id = None, dm_equivalent_id = None,
          dm_canonical_id = None, dm_extra = []\<rparr>)"

record resolved_midnight_did =
  rd_document :: did_document
  rd_metadata :: did_document_metadata

definition resolve ::
    "crates \<Rightarrow> ('b, 'raw) contract \<Rightarrow> ('b, api_error, resolved_midnight_did option) io" where
  "resolve X c =
     io_bind (io_map_err (\<lambda>err. ApiContract (Failed (backend_error_text err))) (contract_read_snapshot c))
       (\<lambda>state.
         let network = ct_network c;
             address = contract_to_hex X (ct_address c)
         in io_lift (res_bind (ledger_state_to_did_document X state network address) (\<lambda>d.
              Inr (Some \<lparr>rd_document = d, rd_metadata = ledger_state_to_metadata state\<rparr>))))"

fun ledger_to_domain_relation :: "ledger_relation \<Rightarrow> vm_relation option" where
  "ledger_to_domain_relation LR_Undefined = Some VMR_Undefined"
| "ledger_to_domain_relation LR_Authentication = Some Authentication"
| "ledger_to_domain_relation LR_AssertionMethod = Some AssertionMethod"
| "ledger_to_domain_relation LR_KeyAgreement = Some KeyAgreement"
| "ledger_to_domain_relation LR_CapabilityInvocation = Some CapabilityInvocation"
| "ledger_to_domain_relation LR_CapabilityDelegation = Some CapabilityDelegation"

section \<open>Lemmas on identifiers\<close>

text \<open>The ids the operations write: a fragment without surrounding white space.\<close>

definition ledger_id :: "string \<Rightarrow> bool" where
  "ledger_id i \<longleftrightarrow> starts_with i ''#'' \<and> trim i = i"

lemma ledger_idE:
  assumes "ledger_id i"
  obtains f where "i = CHR ''#'' # f" and "trim (CHR ''#'' # f) = CHR ''#'' # f"
  using assms by (auto simp: ledger_id_def starts_hash)

lemma fragment_id_ledger [simp]: "ledger_id i \<Longrightarrow> verification_method_fragment_id i = i"
  by (auto elim!: ledger_idE simp: verification_method_fragment_id_def Let_def)

lemma absolute_ledger [simp]: "ledger_id i \<Longrightarrow> absolute_did_url_reference did i = did @ i"
  by (auto elim!: ledger_idE simp: absolute_did_url_reference_def verification_method_fragment_id_def Let_def)

lemma normalize_bound_ledger_id:
  assumes "normalize_bound_fragment_id v field d = Inr r"
  shows "ledger_id r"
proof (cases "starts_with (trim v) ''did:''")
  case True
  then obtain f where "r = CHR ''#'' # f" "trim v = d @ CHR ''#'' # f"
    using assms by (auto simp: normalize_bound_did)
  then show ?thesis using trim_start_trim_hash [of v d f] by (simp add: ledger_id_def)
next
  case False
  from normalize_bound_relative [OF False assms] show ?thesis by (auto simp: ledger_id_def)
qed

lemma key_fragment_printable: "is_key_fragment f \<Longrightarrow> \<forall>c\<in>set f. printable c"
  by (auto simp: is_key_fragment_def list_all_iff key_fragment_char_def printable_def ascii_defs code_of_def)

lemma key_fragment_chars:
  assumes "is_key_fragment f"
  shows "c \<in> set ''#/?'' \<Longrightarrow> c \<notin> set f"
proof -
  have "\<not> key_fragment_char (CHR ''#'')" "\<not> key_fragment_char (CHR ''/'')" "\<not> key_fragment_char (CHR ''?'')"
    by (simp_all add: key_fragment_char_def ascii_defs code_of_def)
  with assms show "c \<in> set ''#/?'' \<Longrightarrow> c \<notin> set f" by (auto simp: is_key_fragment_def list_all_iff)
qed

lemma extract_key_fragment_url:
  assumes "is_did_string d"
  shows "extract_key_fragment (d @ CHR ''#'' # f) = f"
proof -
  from assms have d: "starts_with d ''did:''" "CHR ''#'' \<notin> set d"
    by (simp_all add: is_did_string_prefix is_did_string_iff)
  then obtain t where t: "d = ''did:'' @ t" by (auto simp: starts_with_iff)
  have "find_char (CHR ''#'') (d @ CHR ''#'' # f) = Some (length d)" using d(2) by simp
  moreover have "strip_prefix ''#'' (d @ CHR ''#'' # f) = None" by (simp add: t strip_prefix_def)
  moreover have "starts_with (d @ CHR ''#'' # f) ''did:''" by (simp add: t)
  ultimately show ?thesis by (simp add: extract_key_fragment_def)
qed

lemma did_url_key_id:
  assumes "is_did_string d"
  shows "is_did_key_id X (d @ CHR ''#'' # f) \<longleftrightarrow> is_key_fragment f"
proof -
  from assms obtain m i where "d = ''did:'' @ m @ CHR '':'' # i" by (auto simp: is_did_string_iff is_did_url_iff)
  then have "is_did_url (d @ CHR ''#'' # f)"
    unfolding is_did_url_iff by (intro exI [of _ m] exI [of _ "i @ CHR ''#'' # f"]) simp
  then show ?thesis by (simp add: is_did_key_id_def extract_key_fragment_url [OF assms])
qed

text \<open>A key id that the ledger takes for a subject is stored as the fragment of its absolute form.\<close>

lemma stored_key_id:
  assumes key: "is_did_key_id X v" and norm: "normalize_bound_fragment_id v field d = Inr r"
    and d: "is_did_string d"
  shows "\<exists>f. r = CHR ''#'' # f \<and> is_key_fragment f \<and> canonicalize_id d v = d @ r"
proof (cases "starts_with v ''did:''")
  case True
  then obtain t where t: "v = ''did:'' @ t" by (auto simp: starts_with_iff)
  from key have frag: "is_key_fragment (extract_key_fragment v)" by (simp add: is_did_key_id_def split: if_splits)
  have nostrip: "strip_prefix ''#'' v = None" by (simp add: t strip_prefix_def)
  obtain n where n: "find_char (CHR ''#'') v = Some n" "extract_key_fragment v = drop (n + 1) v"
    using frag True nostrip
    by (cases "find_char (CHR ''#'') v") (auto simp: extract_key_fragment_def is_key_fragment_def)
  then have ne: "drop (n + 1) v \<noteq> []" using frag by (simp add: is_key_fragment_def)
  then have "last (drop (n + 1) v) = last v" by (intro last_drop) simp
  with last_in_set [OF ne] have "last v \<in> set (drop (n + 1) v)" by simp
  with key_fragment_printable [OF frag] n have "printable (last v)" by metis
  moreover have "v \<noteq> []" "printable (hd v)" by (simp_all add: t printable_def code_of_def)
  ultimately have trim: "trim v = v" by (intro trim_printable)
  with norm True obtain f where "r = CHR ''#'' # f" "v = d @ CHR ''#'' # f"
    by (auto simp: normalize_bound_did)
  with frag extract_key_fragment_url [OF d, of f] True show ?thesis by (simp add: canonicalize_id_def)
next
  case False
  then have "\<not> is_did_url v" by (auto simp: is_did_url_def)
  with key have rel: "is_relative_reference X v" and frag: "is_key_fragment (extract_key_fragment v)"
    by (simp_all add: is_did_key_id_def split: if_splits)
  from rel have trim: "trim v = v" and scheme: "\<not> has_uri_scheme v"
    by (simp_all add: is_relative_reference_def split: if_splits)
  show ?thesis
  proof (cases "starts_with v ''#''")
    case True
    then obtain f where v: "v = CHR ''#'' # f" by (auto simp: starts_hash)
    with norm trim frag show ?thesis
      by (auto simp: normalize_bound_hash canonicalize_id_def extract_key_fragment_def strip_prefix_def)
  next
    case nohash: False
    then have v: "is_key_fragment v" using frag False by (simp add: extract_key_fragment_def strip_prefix_def)
    then have no: "CHR ''#'' \<notin> set v" "CHR ''/'' \<notin> set v" "CHR ''?'' \<notin> set v" "v \<noteq> []"
      using key_fragment_chars [OF v] by (simp_all add: is_key_fragment_def)
    then have "\<not> starts_with v ''//''" by (auto simp: starts_with_iff)
    moreover have "find_char (CHR ''#'') v = None" using no by simp
    ultimately have "r = CHR ''#'' # v"
      using norm trim scheme no(4) False nohash
      by (simp del: find_char_None_iff add: normalize_bound_fragment_id_def Let_def lu_has_uri_scheme_eq
        normalize_fragment_id_def split: if_splits)
    with v False nohash show ?thesis by (simp add: canonicalize_id_def strip_prefix_def)
  qed
qed

section \<open>Lemmas on keys\<close>

lemma canonical_not_Nil: "base64_ok X \<Longrightarrow> canonical_b64 X n s \<Longrightarrow> s \<noteq> []"
  by (auto simp: canonical_b64_def encode_base64url_def base64_crate.enc_Nil_iff)

lemma jwk_profile_strip: "jwk_profile X jwk \<Longrightarrow> jwk_profile X (jwk\<lparr>jwk_extensions := []\<rparr>)"
  by (simp add: jwk_profile_def split: key_type.splits)

lemma ledger_jwk_roundtrip:
  assumes "base64_ok X" and "jwk_profile X jwk" and "midnight_profile jwk"
  shows "ledger_jwk_to_domain X (ledger_jwk jwk) = Inr (jwk\<lparr>jwk_extensions := []\<rparr>)"
proof -
  have y: "jwk_y jwk = Some y \<Longrightarrow> y \<noteq> []" for y
    using assms(2,3) canonical_not_Nil [OF assms(1)] by (auto simp: midnight_profile_def jwk_profile_def)
  moreover have "jwk\<lparr>jwk_extensions := []\<rparr> = \<lparr>jwk_kty = jwk_kty jwk, jwk_crv = jwk_crv jwk,
      jwk_x = jwk_x jwk, jwk_y = jwk_y jwk, jwk_extensions = []\<rparr>" by (cases jwk) simp
  moreover have "jwk_profile X (jwk\<lparr>jwk_extensions := []\<rparr>)" by (rule jwk_profile_strip [OF assms(2)])
  moreover have "jwk_kty jwk = OKP \<Longrightarrow> jwk_y jwk = None" using assms(3) by (auto simp: midnight_profile_def)
  ultimately show ?thesis
    by (cases "jwk_y jwk")
      (auto simp: ledger_jwk_to_domain_def Let_def result_simps jwk_new_iff [OF assms(1)] ledger_jwk_def)
qed

text \<open>The method a valid method becomes when it is read back.\<close>

definition resolved_method :: "string \<Rightarrow> verification_method \<Rightarrow> verification_method" where
  "resolved_method did m =
     m\<lparr>vm_id := DidKeyId (canonicalize_id did (did_key_id_str (vm_id m))),
       vm_public_key_jwk := (vm_public_key_jwk m)\<lparr>jwk_extensions := []\<rparr>\<rparr>"

lemma stored_method:
  assumes crates: "base64_ok X" "hex_ok X"
    and valid: "vm_validate X m = Inr ()" and stored: "verification_method_to_ledger X c m = Inr l"
  shows "ledger_id (lvm_id l)"
    and "ledger_jwk_to_domain X (lvm_public_key_jwk l) = Inr ((vm_public_key_jwk m)\<lparr>jwk_extensions := []\<rparr>)"
    and "lvm_typ l = JsonWebKey"
    and "vm_new X \<lparr>nvm_id = subject_of X c @ lvm_id l, nvm_type = JsonWebKey, nvm_controller = subject_of X c,
           nvm_public_key_jwk = (vm_public_key_jwk m)\<lparr>jwk_extensions := []\<rparr>\<rparr> =
         Inr (resolved_method (subject_of X c) m)"
proof -
  let ?d = "subject_of X c"
  have d: "is_did_string ?d" by (rule subject_is_did [OF crates(2)])
  from valid have key: "is_did_key_id X (did_key_id_str (vm_id m))" and prof: "jwk_profile X (vm_public_key_jwk m)"
    by (simp_all add: vm_validate_def result_simps jwk_collect_issues_Nil crates(1) split: if_splits)
  from stored have l: "vm_type m = JsonWebKey" "midnight_profile (vm_public_key_jwk m)"
    "did_string_str (vm_controller m) = ?d"
    "normalize_bound_fragment_id (did_key_id_str (vm_id m)) VerificationMethodIdField ?d = Inr (lvm_id l)"
    "lvm_typ l = JsonWebKey" "lvm_public_key_jwk l = ledger_jwk (vm_public_key_jwk m)"
    unfolding vm_to_ledger_iff [OF crates(1) prof] by simp_all
  show "ledger_id (lvm_id l)" by (rule normalize_bound_ledger_id [OF l(4)])
  show "lvm_typ l = JsonWebKey" by (rule l(5))
  show "ledger_jwk_to_domain X (lvm_public_key_jwk l) = Inr ((vm_public_key_jwk m)\<lparr>jwk_extensions := []\<rparr>)"
    unfolding l(6) by (rule ledger_jwk_roundtrip [OF crates(1) prof l(2)])
  from stored_key_id [OF key l(4) d] obtain f where f: "lvm_id l = CHR ''#'' # f" "is_key_fragment f"
    "canonicalize_id ?d (did_key_id_str (vm_id m)) = ?d @ lvm_id l" by blast
  have "DidString ?d = vm_controller m" unfolding l(3) [symmetric] by simp
  then show "vm_new X \<lparr>nvm_id = ?d @ lvm_id l, nvm_type = JsonWebKey, nvm_controller = ?d,
           nvm_public_key_jwk = (vm_public_key_jwk m)\<lparr>jwk_extensions := []\<rparr>\<rparr> = Inr (resolved_method ?d m)"
    using f l(1) d did_url_key_id [OF d, of X f] jwk_profile_strip [OF prof]
    by (simp add: vm_new_iff [OF crates(1)] resolved_method_def)
qed

section \<open>Services\<close>

lemma trim_start_prefix: "trim_start (p @ q) = p @ q \<Longrightarrow> trim_start p = p"
proof (induction p rule: trim_start.induct)
  case (1 a b c s)
  have le: "length (trim_start t) \<le> length t" for t by (rule suffix_length_le [OF trim_start_suffix])
  from 1 show ?case
    using le [of "b # c # s @ q"] le [of "c # s @ q"] le [of "s @ q"] by (auto split: if_splits)
next
  case (2 a b)
  have le: "length (trim_start t) \<le> length t" for t by (rule suffix_length_le [OF trim_start_suffix])
  from 2 show ?case using le [of "b # q"] le [of q] by (cases q) (auto split: if_splits)
next
  case (3 a)
  have le: "length (trim_start t) \<le> length t" for t by (rule suffix_length_le [OF trim_start_suffix])
  show ?case
  proof (rule ccontr)
    assume "trim_start [a] \<noteq> [a]"
    then have "ws1 a" by (simp split: if_splits)
    then have "trim_start ([a] @ q) = trim_start q" by (cases q; cases "tl q") auto
    with 3 have "trim_start q = a # q" by simp
    then have "length (trim_start q) = Suc (length q)" by (simp only: length_Cons)
    with le [of q] show False by simp
  qed
qed simp

lemma trim_trim [simp]: "trim (trim s) = trim s"
proof -
  have "suffix (trim_rev (rev (trim_start s))) (rev (trim_start s))" by (rule trim_rev_suffix)
  then obtain w where "trim_start s = trim s @ w"
    unfolding suffix_def trim_def by (metis rev_append rev_rev_ident)
  then have "trim_start (trim s) = trim s"
    using trim_start_prefix [of "trim s" w] trim_start_idem [of s] by metis
  then show ?thesis using trim_rev_trim [of s] by (simp add: trim_def)
qed

text \<open>What is left of a service type on the ledger: the names trimmed, a single one as such.\<close>

fun stored_service_type :: "service_type \<Rightarrow> service_type" where
  "stored_service_type (TypeOne t) = TypeOne (trim t)"
| "stored_service_type (TypeMany [t]) = TypeOne (trim t)"
| "stored_service_type (TypeMany ts) = TypeMany (map trim ts)"

fun opens_bracket :: "service_type \<Rightarrow> bool" where
  "opens_bracket (TypeOne t) = starts_with t ''[''"
| "opens_bracket (TypeMany ts) = False"

lemma those_json_strings: "those (map json_string (map JString ts)) = Some ts"
  by (induction ts) simp_all

lemma parse_stored_type_one:
  "trim t \<noteq> [] \<Longrightarrow> \<not> starts_with (trim t) ''['' \<Longrightarrow> parse_service_type X (trim t) = Inr (TypeOne (trim t))"
  by (simp add: parse_service_type_def Let_def)

lemma parse_stored_type_many:
  assumes "json_crate_ok X" and "ts \<noteq> []" and "[] \<notin> trim ` set ts" and "distinct (map trim ts)"
  shows "parse_service_type X (json_to_string X (JArray (map JString (map trim ts)))) = Inr (TypeMany (map trim ts))"
proof -
  let ?j = "JArray (map JString (map trim ts))"
  let ?s = "json_to_string X ?j"
  have ok: "json_ok ?j" by (simp add: list_all_iff)
  have trim: "trim ?s = ?s" by (rule serde_json_crate.to_str_trim [OF assms(1) ok])
  have ne: "?s \<noteq> []" by (rule serde_json_crate.to_str_nonempty [OF assms(1) ok])
  moreover have "hd ?s = CHR ''[''" by (rule serde_json_crate.to_str_array [OF assms(1)])
  ultimately have br: "starts_with ?s ''[''" by (cases ?s) simp_all
  have js: "json_strings (json_from_str X ?s) = Some (map trim ts)"
    using serde_json_crate.from_to [OF assms(1) ok]
    by (simp add: json_strings_def those_json_strings list_all_iff del: map_map)
  have nb: "\<not> list_ex (\<lambda>s. trim s = []) (map trim ts)"
    using assms(3) by (auto simp: list_ex_iff) (metis imageI)
  have idem: "map trim (map trim ts) = map trim ts" by simp
  show ?thesis
    unfolding parse_service_type_def Let_def trim js ok_or.simps res_bind.simps idem dedup_length
    using ne br nb assms(2,4) by simp
qed

lemma parse_stored_type:
  assumes "json_crate_ok X" and "service_type_to_ledger X t = Inr s" and "\<not> opens_bracket (stored_service_type t)"
  shows "parse_service_type X s = Inr (stored_service_type t)"
proof (cases t)
  case (TypeOne u)
  with assms show ?thesis by (simp add: service_type_to_ledger_one parse_stored_type_one)
next
  case (TypeMany ts)
  with assms(2) have ts: "ts \<noteq> []" "[] \<notin> trim ` set ts" "distinct (map trim ts)"
    "s = (if length ts = 1 then trim (hd ts) else json_to_string X (JArray (map JString (map trim ts))))"
    by (simp_all add: service_type_to_ledger_many)
  show ?thesis
  proof (cases "length ts = 1")
    case True
    then obtain u where "ts = [u]" by (metis length_0_conv length_Suc_conv One_nat_def)
    with TypeMany ts assms(3) show ?thesis by (simp add: parse_stored_type_one)
  next
    case False
    then have "stored_service_type t = TypeMany (map trim ts)"
      using ts(1) by (cases ts rule: remdups_adj.cases) (simp_all add: TypeMany)
    with False ts parse_stored_type_many [OF assms(1) ts(1-3)] show ?thesis by simp
  qed
qed

lemma normalized_endpoint_within:
  assumes "list_all json_ok (endpoint_values e)"
  shows "json_within n (endpoint_to_json (normalize_service_endpoint X e)) = json_within n (endpoint_to_json e)"
proof (cases e)
  case (EndpointObject m)
  then show ?thesis using assms normalize_unknown_within [of n X "JObject m"]
    by (simp add: normalize_endpoint_map_eq)
next
  case (EndpointArray es)
  then show ?thesis using assms
    by (auto simp: list_all_iff entry_value_normalize normalize_unknown_within)
qed simp

lemma parse_stored_endpoint:
  assumes "json_crate_ok X" and "list_all json_ok (endpoint_values e)" and "json_within 127 (endpoint_to_json e)"
  shows "parse_service_endpoint X (service_endpoint_to_ledger X e) = Inr (normalize_service_endpoint X e)"
proof -
  let ?n = "normalize_service_endpoint X e"
  let ?j = "endpoint_to_json ?n"
  have "list_all json_ok (endpoint_values ?n)"
    using normalize_service_endpoint_values [OF assms(2)] by blast
  then have ok: "json_ok ?j" by (cases ?n) (auto simp: list_all_iff)
  have within: "json_within 127 ?j" using assms(3) by (simp add: normalized_endpoint_within [OF assms(2)])
  have entries: "collect_results endpoint_entry_of (map entry_value es) = Inr es" for es
  proof (induction es)
    case (Cons a es)
    then show ?case by (cases a) simp_all
  qed simp
  show ?thesis
    using serde_json_crate.to_str_trim [OF assms(1) ok] serde_json_crate.to_str_nonempty [OF assms(1) ok]
      serde_json_crate.from_to [OF assms(1) ok within]
    by (cases ?n) (simp_all add: parse_service_endpoint_def service_endpoint_to_ledger_def Let_def entries)
qed

section \<open>Lemmas on the assembly\<close>

definition key_fragment_id :: "string \<Rightarrow> bool" where
  "key_fragment_id i \<longleftrightarrow> starts_with i ''#'' \<and> is_key_fragment (drop 1 i)"

lemma key_fragment_idE:
  assumes "key_fragment_id i"
  obtains f where "i = CHR ''#'' # f" and "is_key_fragment f"
  using assms by (auto simp: key_fragment_id_def starts_hash)

lemma key_fragment_ledger_id: "key_fragment_id i \<Longrightarrow> ledger_id i"
proof (elim key_fragment_idE)
  fix f assume i: "i = CHR ''#'' # f" and f: "is_key_fragment f"
  have "\<forall>c\<in>set i. printable c" using key_fragment_printable [OF f] by (simp add: i printable_def code_of_def)
  then show "ledger_id i" unfolding ledger_id_def by (simp add: i trim_printable_all)
qed

definition resolved_vm ::
    "string \<Rightarrow> string \<Rightarrow> verification_method_type \<Rightarrow> public_key_jwk \<Rightarrow> verification_method" where
  "resolved_vm did i t j =
     \<lparr>vm_id = DidKeyId (did @ i), vm_type = t, vm_controller = DidString did, vm_public_key_jwk = j\<rparr>"

lemma resolve_methods_ok:
  assumes "base64_ok X" and "is_did_string did"
    and "\<forall>(i, m)\<in>set ms. key_fragment_id i \<and> key m = Inr (j m) \<and> jwk_profile X (j m) \<and> typ m = Inr (t m)"
    and "distinct (map fst ms)" and "set (map fst ms) \<inter> set seen = {}"
  shows "resolve_methods X did key typ seen ms =
    Inr (map (\<lambda>(i, m). resolved_vm did i (t m) (j m)) ms, rev (map fst ms) @ seen)"
  using assms(3-5)
proof (induction ms arbitrary: seen)
  case (Cons e ms)
  obtain i m where e: "e = (i, m)" by force
  from Cons.prems(1) have i: "key_fragment_id i" "key m = Inr (j m)" "jwk_profile X (j m)" "typ m = Inr (t m)"
    by (auto simp: e)
  from i(1) have id: "verification_method_fragment_id i = i" "absolute_did_url_reference did i = did @ i"
    by (simp_all add: key_fragment_ledger_id)
  have vm: "vm_new X \<lparr>nvm_id = did @ i, nvm_type = t m, nvm_controller = did, nvm_public_key_jwk = j m\<rparr> =
    Inr (resolved_vm did i (t m) (j m))"
    using i did_url_key_id [OF assms(2)] assms(2)
    by (auto simp: vm_new_iff [OF assms(1)] resolved_vm_def elim!: key_fragment_idE)
  have IH: "resolve_methods X did key typ (i # seen) ms =
    Inr (map (\<lambda>(i, m). resolved_vm did i (t m) (j m)) ms, rev (map fst ms) @ i # seen)"
    using Cons.prems by (intro Cons.IH) (auto simp: e)
  have "i \<notin> set seen" using Cons.prems(3) by (auto simp: e)
  then show ?case by (simp add: e i id vm IH Let_def)
qed simp

lemma assert_targets_ok:
  "\<forall>i\<in>set ms. ledger_id i \<and> i \<in> set seen \<Longrightarrow> assert_targets did seen name ms = Inr ()"
  by (simp add: assert_targets_def result_simps list_all_iff Let_def)

text \<open>
  \<open>url\<close>: the base that \<open>is_relative_reference\<close> uses parses, and joining a fragment to it succeeds.
\<close>

locale url_crate =
  fixes parse :: "string \<Rightarrow> url option" and join :: "url \<Rightarrow> string \<Rightarrow> url option"
  assumes parse_base: "parse ''https://example.org/'' \<noteq> None"
    and join_fragment: "parse ''https://example.org/'' = Some u \<Longrightarrow> join u (CHR ''#'' # f) \<noteq> None"
begin

lemma fragment_resolves: "\<exists>u. parse ''https://example.org/'' = Some u \<and> join u (CHR ''#'' # f) \<noteq> None"
  using parse_base join_fragment by blast

end

abbreviation url_ok :: "crates \<Rightarrow> bool" where
  "url_ok X \<equiv> url_crate (url_parse X) (url_join X)"

interpretation ref_url: url_crate "url_parse ref_crates" "url_join ref_crates"
  by unfold_locales (auto simp: ref_crates_def ref_url_parse_def)

lemma map_relation_ok:
  assumes "url_ok X" and "\<forall>i\<in>set ms. key_fragment_id i"
  shows "map_relation X ms = Inr (non_empty (map DidKeyId ms))"
proof -
  have "did_key_id_parse X (verification_method_fragment_id i) = Inr (DidKeyId i)" if i: "i \<in> set ms" for i
  proof -
    from assms(2) i have k: "key_fragment_id i" "ledger_id i" by (simp_all add: key_fragment_ledger_id)
    then obtain f where f: "i = CHR ''#'' # f" "is_key_fragment f" by (auto elim: key_fragment_idE)
    have "is_relative_reference X i"
      using url_crate.fragment_resolves [OF assms(1), of f] k(2) f(1)
      by (auto simp: is_relative_reference_def ledger_id_def has_uri_scheme_def scheme_chars ascii_defs code_of_def)
    then have "is_did_key_id X i"
      using f by (simp add: is_did_key_id_def extract_key_fragment_def strip_prefix_def)
    then show ?thesis using k(2) by (simp add: did_key_id_parse_iff)
  qed
  then have "collect_results (\<lambda>m. map_err (\<lambda>e. mapping (''invalid DID key id in relation: '' @ validation_error_text e))
      (did_key_id_parse X (verification_method_fragment_id m))) ms = Inr (map DidKeyId ms)"
    by (induction ms) simp_all
  then show ?thesis by (simp add: map_relation_def non_empty_def)
qed

section \<open>Well-formed snapshots\<close>

definition vm_keys :: "did_ledger_snapshot \<Rightarrow> string list" where
  "vm_keys st = map fst (verification_methods st) @ map fst (schnorr_jubjub_verification_methods st)"

definition ledger_relations :: "did_ledger_snapshot \<Rightarrow> string list list" where
  "ledger_relations st =
     [authentication_relation st, assertion_method_relation st, key_agreement_relation st,
      capability_invocation_relation st, capability_delegation_relation st]"

text \<open>
  What the operations keep of the ledger: ids are key fragments, used once over both maps; the keys
  can be read back; relations list existing methods, none twice; a service is stored under its id, a
  fragment, with a readable type and endpoint.
\<close>

definition snapshot_ok :: "crates \<Rightarrow> did_ledger_snapshot \<Rightarrow> bool" where
  "snapshot_ok X st \<longleftrightarrow>
     list_all key_fragment_id (vm_keys st) \<and> distinct (vm_keys st) \<and>
     list_all (\<lambda>(_, m). is_ok (ledger_jwk_to_domain X (lvm_public_key_jwk m))) (verification_methods st) \<and>
     list_all (\<lambda>(_, m). point_ok (lsv_public_key m)) (schnorr_jubjub_verification_methods st) \<and>
     list_all (\<lambda>r. distinct r \<and> set r \<subseteq> set (vm_keys st)) (ledger_relations st) \<and>
     distinct (map fst (services st)) \<and>
     list_all (\<lambda>(i, s). ls_id s = i \<and> ledger_id i \<and> is_ok (parse_service_type X (ls_typ s)) \<and>
       is_ok (parse_service_endpoint X (ls_service_endpoint s))) (services st)"

lemma snapshot_ok_method:
  assumes "snapshot_ok X st" and "(i, m) \<in> set (verification_methods st)"
  obtains j where "key_fragment_id i" and "ledger_jwk_to_domain X (lvm_public_key_jwk m) = Inr j"
proof -
  have "i \<in> set (vm_keys st)" using assms(2) by (force simp: vm_keys_def)
  then have "key_fragment_id i" using assms(1) by (simp add: snapshot_ok_def list_all_iff)
  moreover have "is_ok (ledger_jwk_to_domain X (lvm_public_key_jwk m))"
    using assms unfolding snapshot_ok_def list_all_iff by fast
  ultimately show ?thesis using that by (auto simp: is_ok_iff)
qed

lemma snapshot_ok_schnorr:
  assumes "snapshot_ok X st" and "(i, m) \<in> set (schnorr_jubjub_verification_methods st)"
  shows "key_fragment_id i" and "point_ok (lsv_public_key m)"
proof -
  have "i \<in> set (vm_keys st)" using assms(2) by (force simp: vm_keys_def)
  then show "key_fragment_id i" using assms(1) by (simp add: snapshot_ok_def list_all_iff)
  show "point_ok (lsv_public_key m)" using assms unfolding snapshot_ok_def list_all_iff by fast
qed

lemma snapshot_ok_distinct:
  assumes "snapshot_ok X st"
  shows "distinct (map fst (verification_methods st))"
    and "distinct (map fst (schnorr_jubjub_verification_methods st))"
    and "set (map fst (verification_methods st)) \<inter> set (map fst (schnorr_jubjub_verification_methods st)) = {}"
  using assms by (simp_all add: snapshot_ok_def vm_keys_def)

lemma schnorr_key_decodes:
  assumes "hex_ok X" and "hex_text 32 s"
  shows "\<exists>bs. decode_jubjub_coordinate X s l = Inr bs \<and> hex_decode X s = Inr bs \<and> length bs = 32"
proof -
  obtain bs where "hex_decode X s = Inr bs" "length bs = 32"
    using assms hex_crate.hex_dec_exists [OF assms(1), of s 32] by (auto simp: hex_text_def)
  then show ?thesis by (simp add: decode_jubjub_coordinate_def)
qed

lemma schnorr_key_resolves:
  assumes "base64_ok X" and "hex_ok X" and "point_ok (lsv_public_key m)"
  shows "\<exists>x y. hex_decode X (jp_x (lsv_public_key m)) = Inr x \<and> hex_decode X (jp_y (lsv_public_key m)) = Inr y \<and>
    length x = 32 \<and> length y = 32 \<and>
    schnorr_jubjub_pk_to_jwk X m = Inr \<lparr>jwk_kty = EC, jwk_crv = Jubjub, jwk_x = encode_base64url X x,
      jwk_y = Some (encode_base64url X y), jwk_extensions = []\<rparr>"
proof -
  from assms(3) obtain x y where
    x: "decode_jubjub_coordinate X (jp_x (lsv_public_key m)) ''publicKey.x'' = Inr x"
      "hex_decode X (jp_x (lsv_public_key m)) = Inr x" "length x = 32" and
    y: "decode_jubjub_coordinate X (jp_y (lsv_public_key m)) ''publicKey.y'' = Inr y"
      "hex_decode X (jp_y (lsv_public_key m)) = Inr y" "length y = 32"
    using schnorr_key_decodes [OF assms(2)] unfolding point_ok_def by metis
  have "canonical_b64 X 32 (encode_base64url X bs)" if "length bs = 32" for bs
    unfolding canonical_b64_def using that by (intro exI [of _ bs]) auto
  with x y show ?thesis
    by (simp add: schnorr_jubjub_pk_to_jwk_def result_simps jwk_new_iff [OF assms(1)] jwk_profile_def)
qed

lemma ledger_jwk_resolved_profile:
  assumes "base64_ok X" and "ledger_jwk_to_domain X j = Inr k"
  shows "jwk_profile X k"
  using assms(2) by (auto simp: ledger_jwk_to_domain_def Let_def result_simps jwk_new_iff [OF assms(1)]
    split: if_splits)

lemma parse_service_type_not_empty:
  "parse_service_type X s = Inr t \<Longrightarrow> t \<noteq> TypeOne [] \<and> t \<noteq> TypeMany []"
  by (auto simp: parse_service_type_def Let_def result_simps split: if_splits)

lemma parse_ledger_service_ok:
  assumes "is_did_string did" and "ledger_id (ls_id s)"
    and "parse_service_type X (ls_typ s) = Inr t" and "parse_service_endpoint X (ls_service_endpoint s) = Inr e"
  shows "parse_ledger_service X s did =
    Inr \<lparr>svc_id = did @ ls_id s, svc_type = t, svc_endpoint = normalize_service_endpoint X e\<rparr>"
proof -
  from assms(1) obtain m i where "did = ''did:'' @ m @ CHR '':'' # i" by (auto simp: is_did_string_iff is_did_url_iff)
  then have "is_did_url (did @ ls_id s)"
    unfolding is_did_url_iff by (intro exI [of _ m] exI [of _ "i @ ls_id s"]) simp
  then show ?thesis using assms parse_service_type_not_empty [OF assms(3)]
    by (simp add: parse_ledger_service_def Let_def result_simps service_new_iff)
qed

lemma collect_services_ok:
  assumes "is_did_string did"
    and "list_all (\<lambda>(i, s). ls_id s = i \<and> ledger_id i \<and> is_ok (parse_service_type X (ls_typ s)) \<and>
       is_ok (parse_service_endpoint X (ls_service_endpoint s))) svs"
  shows "\<exists>ss. collect_results (\<lambda>(_, svc). parse_ledger_service X svc did) svs = Inr ss \<and>
    map svc_id ss = map (\<lambda>i. did @ i) (map fst svs)"
  using assms(2)
proof (induction svs)
  case (Cons e svs)
  obtain i s where e: "e = (i, s)" by force
  with Cons.prems obtain t p where "parse_service_type X (ls_typ s) = Inr t"
    "parse_service_endpoint X (ls_service_endpoint s) = Inr p" "ls_id s = i" "ledger_id i"
    by (auto simp: is_ok_iff)
  with parse_ledger_service_ok [OF assms(1), of s] Cons show ?case by (fastforce simp: e)
qed simp

text \<open>The verification methods of both maps, read back in key order.\<close>

definition resolved_methods :: "crates \<Rightarrow> string \<Rightarrow> did_ledger_snapshot \<Rightarrow> verification_method list" where
  "resolved_methods X did st =
     map (\<lambda>(i, m). resolved_vm did i (lvm_typ m) (projr (ledger_jwk_to_domain X (lvm_public_key_jwk m))))
       (verification_methods st) @
     map (\<lambda>(i, m). resolved_vm did i JsonWebKey (projr (schnorr_jubjub_pk_to_jwk X m)))
       (schnorr_jubjub_verification_methods st)"

lemma resolve_maps_ok:
  assumes crates: "base64_ok X" "hex_ok X" and did: "is_did_string did" and ok: "snapshot_ok X st"
  shows "\<exists>vms svms seen seen'.
    resolve_methods X did (\<lambda>m. ledger_jwk_to_domain X (lvm_public_key_jwk m))
      (\<lambda>m. ledger_verification_method_type_to_domain (lvm_typ m)) [] (verification_methods st) = Inr (vms, seen) \<and>
    resolve_methods X did (schnorr_jubjub_pk_to_jwk X) (\<lambda>_. Inr JsonWebKey) seen
      (schnorr_jubjub_verification_methods st) = Inr (svms, seen') \<and>
    vms @ svms = resolved_methods X did st \<and> set seen' = set (vm_keys st)"
proof -
  note dist = snapshot_ok_distinct [OF ok]
  have "key_fragment_id i \<and> ledger_jwk_to_domain X (lvm_public_key_jwk m) =
      Inr (projr (ledger_jwk_to_domain X (lvm_public_key_jwk m))) \<and>
      jwk_profile X (projr (ledger_jwk_to_domain X (lvm_public_key_jwk m)))"
    if mem: "(i, m) \<in> set (verification_methods st)" for i m
  proof -
    obtain j where "ledger_jwk_to_domain X (lvm_public_key_jwk m) = Inr j" "key_fragment_id i"
      using snapshot_ok_method [OF ok mem] by blast
    with ledger_jwk_resolved_profile [OF crates(1)] show ?thesis by simp
  qed
  then have 1: "resolve_methods X did (\<lambda>m. ledger_jwk_to_domain X (lvm_public_key_jwk m))
      (\<lambda>m. ledger_verification_method_type_to_domain (lvm_typ m)) [] (verification_methods st) =
    Inr (map (\<lambda>(i, m). resolved_vm did i (lvm_typ m) (projr (ledger_jwk_to_domain X (lvm_public_key_jwk m))))
       (verification_methods st), rev (map fst (verification_methods st)) @ [])"
    using dist by (intro resolve_methods_ok [OF crates(1) did])
      (auto simp: ledger_verification_method_type_to_domain_def)
  have "key_fragment_id i \<and> schnorr_jubjub_pk_to_jwk X m = Inr (projr (schnorr_jubjub_pk_to_jwk X m)) \<and>
      jwk_profile X (projr (schnorr_jubjub_pk_to_jwk X m))"
    if "(i, m) \<in> set (schnorr_jubjub_verification_methods st)" for i m
  proof -
    note snapshot_ok_schnorr [OF ok that]
    moreover from this obtain j where "schnorr_jubjub_pk_to_jwk X m = Inr j"
      using schnorr_key_resolves [OF crates] by blast
    moreover from this have "jwk_profile X j"
      by (auto simp: schnorr_jubjub_pk_to_jwk_def result_simps jwk_new_iff [OF crates(1)])
    ultimately show ?thesis by simp
  qed
  then have 2: "resolve_methods X did (schnorr_jubjub_pk_to_jwk X) (\<lambda>_. Inr JsonWebKey)
      (rev (map fst (verification_methods st)) @ []) (schnorr_jubjub_verification_methods st) =
    Inr (map (\<lambda>(i, m). resolved_vm did i JsonWebKey (projr (schnorr_jubjub_pk_to_jwk X m)))
       (schnorr_jubjub_verification_methods st),
       rev (map fst (schnorr_jubjub_verification_methods st)) @ rev (map fst (verification_methods st)) @ [])"
    using dist by (intro resolve_methods_ok [OF crates(1) did]) auto
  show ?thesis by (rule exI, rule exI, rule exI, rule exI, intro conjI, rule 1, rule 2)
    (auto simp: resolved_methods_def vm_keys_def)
qed

lemma canonicalize_ledger: "key_fragment_id i \<Longrightarrow> canonicalize_id did i = did @ i"
  by (auto elim!: key_fragment_idE simp: canonicalize_id_def strip_prefix_def)

lemma resolved_document_ok:
  assumes crates: "base64_ok X" "hex_ok X" "url_ok X" and ok: "snapshot_ok X st"
  shows "\<exists>d. ledger_state_to_did_document X st n (contract_to_hex X a) = Inr d \<and>
    doc_id d = DidString (get_did_subject_for X a n) \<and>
    opt_list (doc_verification_method d) = resolved_methods X (get_did_subject_for X a n) st \<and>
    map opt_list [doc_authentication d, doc_assertion_method d, doc_key_agreement d,
      doc_capability_invocation d, doc_capability_delegation d] = map (map DidKeyId) (ledger_relations st) \<and>
    map svc_id (opt_list (doc_service d)) = map (\<lambda>i. get_did_subject_for X a n @ i) (map fst (services st))"
proof -
  let ?d = "get_did_subject_for X a n"
  have d: "is_did_string ?d" by (rule subject_is_did [OF crates(2)])
  have did: "midnight_did_str (create_midnight_did_string (contract_to_hex X a) n) = ?d"
    by (simp add: get_did_subject_for_def)
  obtain vms svms seen seen' where maps:
    "resolve_methods X ?d (\<lambda>m. ledger_jwk_to_domain X (lvm_public_key_jwk m))
      (\<lambda>m. ledger_verification_method_type_to_domain (lvm_typ m)) [] (verification_methods st) = Inr (vms, seen)"
    "resolve_methods X ?d (schnorr_jubjub_pk_to_jwk X) (\<lambda>_. Inr JsonWebKey) seen
      (schnorr_jubjub_verification_methods st) = Inr (svms, seen')"
    "vms @ svms = resolved_methods X ?d st" "set seen' = set (vm_keys st)"
    using resolve_maps_ok [OF crates(1,2) d ok] by blast
  have keys: "\<forall>i\<in>set (vm_keys st). key_fragment_id i" using ok by (simp add: snapshot_ok_def list_all_iff)
  have rel: "\<forall>r\<in>set (ledger_relations st). \<forall>i\<in>set r. key_fragment_id i \<and> i \<in> set seen'"
    using ok keys maps(4) by (fastforce simp: snapshot_ok_def list_all_iff)
  then have targets: "\<forall>r\<in>set (ledger_relations st). assert_targets ?d seen' name r = Inr ()" for name
    by (auto intro!: assert_targets_ok key_fragment_ledger_id)
  from rel have rels: "\<forall>r\<in>set (ledger_relations st). map_relation X r = Inr (non_empty (map DidKeyId r))"
    by (auto intro!: map_relation_ok [OF crates(3)])
  obtain ss where ss: "collect_results (\<lambda>(_, svc). parse_ledger_service X svc ?d) (services st) = Inr ss"
    "map svc_id ss = map (\<lambda>i. ?d @ i) (map fst (services st))"
    using collect_services_ok [OF d, of X "services st"] ok by (auto simp: snapshot_ok_def)
  have svcs: "(if services st = [] then Inr None
      else res_bind (collect_results (\<lambda>(_, svc). parse_ledger_service X svc ?d) (services st)) (\<lambda>out. Inr (Some out))) =
    (Inr (if services st = [] then None else Some ss) :: api_error + service list option)"
    by (simp add: ss)
  have "opt_list (if services st = [] then None else Some ss) = ss" using ss(2) by auto
  with maps(1-3) targets [unfolded ledger_relations_def] rels [unfolded ledger_relations_def] svcs ss(2) d
  show ?thesis
    unfolding ledger_state_to_did_document_def Let_def did ledger_relations_def
    by (simp add: did_string_parse_def)
qed

section \<open>Properties\<close>

lemma resolved_methods_ids:
  "snapshot_ok X st \<Longrightarrow>
     map (\<lambda>vm. did_key_id_str (vm_id vm)) (resolved_methods X did st) = map (\<lambda>i. did @ i) (vm_keys st)"
  by (simp add: resolved_methods_def vm_keys_def resolved_vm_def comp_def case_prod_unfold)

lemma resolved_consistent:
  assumes crates: "base64_ok X" "hex_ok X" "url_ok X" and ok: "snapshot_ok X st"
    and d: "doc_id d = DidString (get_did_subject_for X a n)"
      "opt_list (doc_verification_method d) = resolved_methods X (get_did_subject_for X a n) st"
      "map opt_list [doc_authentication d, doc_assertion_method d, doc_key_agreement d,
        doc_capability_invocation d, doc_capability_delegation d] = map (map DidKeyId) (ledger_relations st)"
  shows "doc_vm_ids d = map (\<lambda>i. get_did_subject_for X a n @ i) (vm_keys st)"
    and "doc_relations d = map (map (\<lambda>i. get_did_subject_for X a n @ i)) (ledger_relations st)"
    and "distinct (doc_vm_ids d)" and "relations_ok (doc_vm_ids d) (doc_relations d)"
proof -
  let ?d = "get_did_subject_for X a n"
  have "starts_with ?d ''did:''" by (rule is_did_string_prefix [OF subject_is_did [OF crates(2)]])
  then have abs: "canonicalize_id ?d (?d @ i) = ?d @ i" for i
    by (auto simp: canonicalize_id_def starts_with_iff)
  have "doc_vm_ids d = map (canonicalize_id ?d) (map (\<lambda>vm. did_key_id_str (vm_id vm)) (resolved_methods X ?d st))"
    by (simp add: doc_vm_ids_def d)
  then show ids: "doc_vm_ids d = map (\<lambda>i. ?d @ i) (vm_keys st)"
    unfolding resolved_methods_ids [OF ok] by (simp add: abs)
  have keys: "\<forall>i\<in>set (vm_keys st). key_fragment_id i"
    and rel: "\<forall>r\<in>set (ledger_relations st). distinct r \<and> set r \<subseteq> set (vm_keys st)"
    and dist: "distinct (vm_keys st)"
    using ok by (simp_all add: snapshot_ok_def list_all_iff)
  have "doc_relations d = map (\<lambda>r. map (\<lambda>i. canonicalize_id ?d (did_key_id_str i)) r)
      (map opt_list [doc_authentication d, doc_assertion_method d, doc_key_agreement d,
        doc_capability_invocation d, doc_capability_delegation d])"
    by (simp add: doc_relations_def d(1))
  also have "\<dots> = map (map (canonicalize_id ?d)) (ledger_relations st)"
    unfolding d(3) by (simp add: comp_def)
  also have "\<dots> = map (map (\<lambda>i. ?d @ i)) (ledger_relations st)"
    using rel keys by (auto intro!: map_cong canonicalize_ledger)
  finally show rels: "doc_relations d = map (map (\<lambda>i. ?d @ i)) (ledger_relations st)" .
  show "distinct (doc_vm_ids d)" using dist by (simp add: ids distinct_map inj_on_def)
  show "relations_ok (doc_vm_ids d) (doc_relations d)"
    using rel by (auto simp: relations_ok_def ids rels distinct_map inj_on_def)
qed

lemma opt_list_mem: "x \<in> set (opt_list v) \<Longrightarrow> v \<noteq> None"
  by (cases v) simp_all

lemma resolve_eq:
  "contract_read_snapshot c b = (Inr st, b') \<Longrightarrow>
     resolve X c b = (res_bind (ledger_state_to_did_document X st (ct_network c) (contract_to_hex X (ct_address c)))
       (\<lambda>d. Inr (Some \<lparr>rd_document = d, rd_metadata = ledger_state_to_metadata st\<rparr>)), b')"
  by (simp add: resolve_def io_bind_def io_map_err_def io_lift_def Let_def)

text \<open>
  C16. A contract whose snapshot is well formed resolves: \<open>resolve\<close> returns a document and its metadata.
  The document belongs to the contract's DID, its methods and relations are those of the ledger with
  the subject in front, no method id and no service id occurs twice, and every relation lists existing
  methods, none twice.
\<close>

theorem wellformed_snapshot_resolves:
  assumes "base64_ok X" and "hex_ok X" and "url_ok X"
    and "contract_read_snapshot c b = (Inr st, b')" and "snapshot_ok X st"
  shows "\<exists>r. resolve X c b = (Inr (Some r), b') \<and>
    did_string_str (doc_id (rd_document r)) = get_did_subject_for X (ct_address c) (ct_network c) \<and>
    doc_vm_ids (rd_document r) =
      map (\<lambda>i. get_did_subject_for X (ct_address c) (ct_network c) @ i) (vm_keys st) \<and>
    doc_relations (rd_document r) =
      map (map (\<lambda>i. get_did_subject_for X (ct_address c) (ct_network c) @ i)) (ledger_relations st) \<and>
    distinct (doc_vm_ids (rd_document r)) \<and>
    relations_ok (doc_vm_ids (rd_document r)) (doc_relations (rd_document r)) \<and>
    distinct (map svc_id (opt_list (doc_service (rd_document r)))) \<and>
    rd_metadata r = ledger_state_to_metadata st"
proof -
  obtain d where d: "ledger_state_to_did_document X st (ct_network c) (contract_to_hex X (ct_address c)) = Inr d"
    "doc_id d = DidString (subject_of X c)"
    "opt_list (doc_verification_method d) = resolved_methods X (subject_of X c) st"
    "map opt_list [doc_authentication d, doc_assertion_method d, doc_key_agreement d,
      doc_capability_invocation d, doc_capability_delegation d] = map (map DidKeyId) (ledger_relations st)"
    "map svc_id (opt_list (doc_service d)) = map (\<lambda>i. subject_of X c @ i) (map fst (services st))"
    using resolved_document_ok [OF assms(1-3,5)] by blast
  have "distinct (map svc_id (opt_list (doc_service d)))"
    using assms(5) unfolding d(5) by (simp add: snapshot_ok_def distinct_map inj_on_def)
  with resolved_consistent [OF assms(1-3,5) d(2-4)] d(1,2) show ?thesis
    by (simp add: resolve_eq [OF assms(4)])
qed

text \<open>A snapshot with one stored method, and the backend that holds it.\<close>

definition ex_ledger_method :: ledger_verification_method where
  "ex_ledger_method = \<lparr>lvm_id = ''#k'', lvm_typ = JsonWebKey, lvm_public_key_jwk = ledger_jwk ex_jwk\<rparr>"

definition ex_snapshot :: did_ledger_snapshot where
  "ex_snapshot = snapshot_default
     \<lparr>verification_methods := [(''#k'', ex_ledger_method)], authentication_relation := [''#k'']\<rparr>"

lemma ex_key_id: "key_fragment_id ''#k''"
  by (simp add: key_fragment_id_def is_key_fragment_def key_fragment_char_def ascii_defs code_of_def)

lemma ex_midnight_profile: "midnight_profile ex_jwk"
  by (simp add: midnight_profile_def ex_jwk_def)

lemma ex_snapshot_ok: "snapshot_ok ref_crates ex_snapshot"
  using ledger_jwk_roundtrip [OF ref_crates_ok(1) ex_jwk_profile ex_midnight_profile]
  by (simp add: snapshot_ok_def ex_snapshot_def snapshot_default_def vm_keys_def ledger_relations_def
    ex_key_id ex_ledger_method_def)

lemma ex_read_snapshot:
  "contract_read_snapshot (resolver_contract a n) (resolver_with_snapshot () st) =
     (Inr st, resolver_with_snapshot () st)"
  by (simp add: contract_read_snapshot_def resolver_contract_def resolver_backend_def resolver_with_snapshot_def)

theorem wellformed_snapshot_resolves_witness:
  "\<exists>r. resolve ref_crates (resolver_contract (replicate 32 0) Testnet) (resolver_with_snapshot () ex_snapshot) =
     (Inr (Some r), resolver_with_snapshot () ex_snapshot) \<and> length (doc_vm_ids (rd_document r)) = 1"
proof -
  obtain r where "resolve ref_crates (resolver_contract (replicate 32 0) Testnet) (resolver_with_snapshot () ex_snapshot) =
      (Inr (Some r), resolver_with_snapshot () ex_snapshot)"
    "doc_vm_ids (rd_document r) = map (\<lambda>i. get_did_subject_for ref_crates
        (ct_address (resolver_contract (replicate 32 0) Testnet :: (unit resolver, unit) contract))
        (ct_network (resolver_contract (replicate 32 0) Testnet :: (unit resolver, unit) contract)) @ i)
      (vm_keys ex_snapshot)"
    using wellformed_snapshot_resolves [OF ref_crates_ok(1,2) ref_url.url_crate_axioms ex_read_snapshot ex_snapshot_ok]
    by blast
  then show ?thesis by (simp add: vm_keys_def ex_snapshot_def snapshot_default_def)
qed

text \<open>
  C18. What \<open>verification_method_to_ledger\<close> stores, \<open>resolve\<close> gives back: a valid method whose ledger
  entry is in the snapshot is in the resolved document, under its absolute id, with its controller, its
  type and its key. Only the extensions of the key are lost.
\<close>

theorem stored_method_resolves:
  assumes "base64_ok X" and "hex_ok X" and "url_ok X"
    and "contract_read_snapshot c b = (Inr st, b')" and "snapshot_ok X st"
    and "vm_validate X m = Inr ()" and "verification_method_to_ledger X c m = Inr l"
    and "(lvm_id l, l) \<in> set (verification_methods st)"
  shows "\<exists>r. resolve X c b = (Inr (Some r), b') \<and>
    m\<lparr>vm_id := DidKeyId (canonicalize_id (get_did_subject_for X (ct_address c) (ct_network c))
                            (did_key_id_str (vm_id m))),
      vm_public_key_jwk := (vm_public_key_jwk m)\<lparr>jwk_extensions := []\<rparr>\<rparr>
    \<in> set (opt_list (doc_verification_method (rd_document r)))"
proof -
  obtain d where d: "ledger_state_to_did_document X st (ct_network c) (contract_to_hex X (ct_address c)) = Inr d"
    "opt_list (doc_verification_method d) = resolved_methods X (subject_of X c) st"
    using resolved_document_ok [OF assms(1-3,5)] by blast
  note st = stored_method [OF assms(1,2,6,7)]
  from st(4) have "resolved_method (subject_of X c) m =
      resolved_vm (subject_of X c) (lvm_id l) (lvm_typ l) (projr (ledger_jwk_to_domain X (lvm_public_key_jwk l)))"
    by (simp add: vm_new_iff [OF assms(1)] resolved_vm_def st(2,3))
  then have "resolved_method (subject_of X c) m \<in> set (resolved_methods X (subject_of X c) st)"
    using assms(8) by (force simp: resolved_methods_def)
  then show ?thesis by (simp add: resolve_eq [OF assms(4)] d resolved_method_def)
qed

theorem stored_method_resolves_witness:
  "\<exists>r. resolve ref_crates (resolver_contract (replicate 32 0) Testnet) (resolver_with_snapshot () ex_snapshot) =
     (Inr (Some r), resolver_with_snapshot () ex_snapshot) \<and>
     doc_verification_method (rd_document r) \<noteq> None"
proof -
  let ?c = "resolver_contract (replicate 32 0) Testnet :: (unit resolver, unit) contract"
  let ?m = "ex_ledger_vm (subject_of ref_crates ?c)"
  have v: "vm_validate ref_crates ?m = Inr ()"
    by (rule ex_ledger_vm_valid [OF subject_is_did [OF ref_crates_ok(2)]])
  have l: "verification_method_to_ledger ref_crates ?c ?m = Inr ex_ledger_method"
    using vm_to_ledger_iff [OF ref_crates_ok(1), of ?m ?c ex_ledger_method] ex_jwk_profile ex_midnight_profile
    by (simp add: ex_ledger_vm_def ex_ledger_method_def normalize_bound_hash trim_printable_all printable_def code_of_def)
  have "(lvm_id ex_ledger_method, ex_ledger_method) \<in> set (verification_methods ex_snapshot)"
    by (simp add: ex_snapshot_def ex_ledger_method_def)
  from stored_method_resolves [OF ref_crates_ok(1,2) ref_url.url_crate_axioms ex_read_snapshot ex_snapshot_ok v l this]
  obtain r m' where "resolve ref_crates ?c (resolver_with_snapshot () ex_snapshot) =
      (Inr (Some r), resolver_with_snapshot () ex_snapshot)"
    and "m' \<in> set (opt_list (doc_verification_method (rd_document r)))" by (elim exE conjE)
  with opt_list_mem [OF this(2)] show ?thesis by (intro exI conjI)
qed

text \<open>
  C28. What \<open>service_to_ledger\<close> stores, \<open>parse_ledger_service\<close> reads back, for every service it accepts
  whose endpoint is a JSON value without floats, nested at most 127 deep (the limit of \<open>serde_json\<close>'s
  reader), and whose single type name does not start with a bracket: the absolute id, the trimmed type
  names (a one-element list becomes a single name) and the endpoint, normalised when it is stored and
  once more when it is read.
\<close>

theorem stored_service_resolves:
  assumes "hex_ok X" and "json_crate_ok X" and "service_to_ledger X c s = Inr l"
    and "list_all json_ok (endpoint_values (svc_endpoint s))"
    and "json_within 127 (endpoint_to_json (svc_endpoint s))"
    and "\<not> opens_bracket (stored_service_type (svc_type s))"
  shows "parse_ledger_service X l (get_did_subject_for X (ct_address c) (ct_network c)) =
    Inr \<lparr>svc_id = get_did_subject_for X (ct_address c) (ct_network c) @ ls_id l,
         svc_type = stored_service_type (svc_type s),
         svc_endpoint = normalize_service_endpoint X (normalize_service_endpoint X (svc_endpoint s))\<rparr>"
proof -
  from assms(3) have l: "service_type_to_ledger X (svc_type s) = Inr (ls_typ l)"
    "normalize_bound_fragment_id (svc_id s) ServiceIdField (subject_of X c) = Inr (ls_id l)"
    "ls_service_endpoint l = service_endpoint_to_ledger X (svc_endpoint s)"
    by (auto simp: service_to_ledger_def Let_def result_simps normalize_for_Inr)
  show ?thesis
    by (rule parse_ledger_service_ok [OF subject_is_did [OF assms(1)] normalize_bound_ledger_id [OF l(2)]
          parse_stored_type [OF assms(2) l(1) assms(6)]])
      (simp add: l(3) parse_stored_endpoint [OF assms(2,4,5)])
qed

definition ex_service :: "service_type \<Rightarrow> service" where
  "ex_service t = \<lparr>svc_id = ''#s'', svc_type = t, svc_endpoint = EndpointUri ''did:x:1''\<rparr>"

lemma ex_service_stored:
  "service_type_to_ledger ref_crates t = Inr ty \<Longrightarrow>
     service_to_ledger ref_crates zero_contract (ex_service t) =
       Inr \<lparr>ls_id = ''#s'', ls_typ = ty, ls_service_endpoint = service_endpoint_to_ledger ref_crates (EndpointUri ''did:x:1'')\<rparr>"
  by (simp add: service_to_ledger_def ex_service_def result_simps normalize_for_Inr normalize_bound_hash
    trim_printable_all printable_def code_of_def)

theorem stored_service_resolves_witness:
  "\<exists>l s. service_to_ledger ref_crates zero_contract (ex_service (TypeMany [''A'', ''B''])) = Inr l \<and>
     parse_ledger_service ref_crates l (subject_of ref_crates zero_contract) = Inr s \<and>
     svc_type s = TypeMany [''A'', ''B'']"
proof -
  have t: "trim ''A'' = ''A''" "trim ''B'' = ''B''" by (simp_all add: trim_printable_all printable_def code_of_def)
  then obtain ty where "service_type_to_ledger ref_crates (TypeMany [''A'', ''B'']) = Inr ty"
    by (auto simp: service_type_to_ledger_many)
  from ex_service_stored [OF this] obtain l where
    l: "service_to_ledger ref_crates zero_contract (ex_service (TypeMany [''A'', ''B''])) = Inr l" by blast
  have "parse_ledger_service ref_crates l (subject_of ref_crates zero_contract) =
    Inr \<lparr>svc_id = subject_of ref_crates zero_contract @ ls_id l, svc_type = stored_service_type (TypeMany [''A'', ''B'']),
         svc_endpoint = normalize_service_endpoint ref_crates (normalize_service_endpoint ref_crates (EndpointUri ''did:x:1''))\<rparr>"
    using stored_service_resolves [OF ref_crates_ok(2,3) l] by (simp add: ex_service_def)
  with l t show ?thesis by simp
qed

lemma parse_bracket_type:
  "starts_with (trim t) ''['' \<Longrightarrow> json_strings (json_from_str X (trim t)) = None \<Longrightarrow>
     \<not> is_ok (parse_service_type X (trim t))"
  by (auto simp: parse_service_type_def Let_def is_ok_iff result_simps)

lemma document_services:
  assumes "ledger_state_to_did_document X st n a = Inr d" and "(i, l) \<in> set (services st)"
  shows "\<exists>s. parse_ledger_service X l (midnight_did_str (create_midnight_did_string a n)) = Inr s"
proof -
  have "services st \<noteq> []" using assms(2) by auto
  with assms(1) obtain ss where "collect_results (\<lambda>(_, svc).
      parse_ledger_service X svc (midnight_did_str (create_midnight_did_string a n))) (services st) = Inr ss"
    by (auto simp: ledger_state_to_did_document_def Let_def result_simps)
  then have "list_all2 (\<lambda>(_, svc) s.
      parse_ledger_service X svc (midnight_did_str (create_midnight_did_string a n)) = Inr s) (services st) ss"
    unfolding collect_results_Inr_iff by (simp add: case_prod_unfold)
  then show ?thesis using assms(2) by (auto simp: list_all2_conv_all_nth in_set_conv_nth split: prod.splits)
qed

text \<open>
  One service can make the whole DID unresolvable: \<open>service_to_ledger\<close> stores a service with a
  single type name that starts with a bracket as it is, \<open>resolve\<close> takes the name for a JSON array, and
  fails when it is none, whatever else the document has.
\<close>

theorem bracket_service_type_unresolvable:
  assumes "contract_read_snapshot c b = (Inr st, b')" and "service_to_ledger X c s = Inr l"
    and "svc_type s = TypeOne t" and "starts_with (trim t) ''[''"
    and "json_strings (json_from_str X (trim t)) = None" and "(i, l) \<in> set (services st)"
  shows "\<exists>e. resolve X c b = (Inl e, b')"
proof -
  have "ls_typ l = trim t"
    using assms(2,3) by (auto simp: service_to_ledger_def Let_def result_simps service_type_to_ledger_one)
  then have "\<not> is_ok (parse_ledger_service X l did)" for did
    using parse_bracket_type [OF assms(4,5)] by (auto simp: is_ok_iff parse_ledger_service_def Let_def result_simps)
  then have "\<forall>d. ledger_state_to_did_document X st (ct_network c) (contract_to_hex X (ct_address c)) \<noteq> Inr d"
    using document_services [OF _ assms(6), of X "ct_network c" "contract_to_hex X (ct_address c)"]
    unfolding is_ok_iff by blast
  then obtain e where "ledger_state_to_did_document X st (ct_network c) (contract_to_hex X (ct_address c)) = Inl e"
    by (metis sum.exhaust)
  then show ?thesis by (simp add: resolve_eq [OF assms(1)])
qed

theorem bracket_service_type_unresolvable_witness:
  "\<exists>l e. service_to_ledger ref_crates zero_contract (ex_service (TypeOne ''[draft'')) = Inr l \<and>
     resolve ref_crates zero_contract
       (recording_with_snapshot () (snapshot_default\<lparr>services := [(''#s'', l)]\<rparr>)) =
     (Inl e, snd (contract_read_snapshot zero_contract
       (recording_with_snapshot () (snapshot_default\<lparr>services := [(''#s'', l)]\<rparr>))))"
proof -
  have t: "trim ''[draft'' = ''[draft''" by (simp add: trim_printable_all printable_def code_of_def)
  have j: "json_strings (json_from_str ref_crates ''[draft'') = None" unfolding ref_crates_def by code_simp
  have "service_type_to_ledger ref_crates (TypeOne ''[draft'') = Inr ''[draft''"
    by (simp add: service_type_to_ledger_one t)
  from ex_service_stored [OF this] obtain l where
    l: "service_to_ledger ref_crates zero_contract (ex_service (TypeOne ''[draft'')) = Inr l" by blast
  let ?st = "snapshot_default\<lparr>services := [(''#s'', l)]\<rparr>"
  let ?b = "recording_with_snapshot () ?st"
  have r: "contract_read_snapshot zero_contract ?b = (Inr ?st, snd (contract_read_snapshot zero_contract ?b))"
    by (simp add: contract_read_snapshot_def zero_contract_def recording_contract_def recording_backend_def
      recording_read_snapshot_def recording_with_snapshot_def)
  have "\<exists>e. resolve ref_crates zero_contract ?b = (Inl e, snd (contract_read_snapshot zero_contract ?b))"
    by (rule bracket_service_type_unresolvable [OF r l, of "''[draft''" "''#s''"])
      (simp_all add: ex_service_def t j snapshot_default_def)
  with l show ?thesis by blast
qed

text \<open>
  A Schnorr-Jubjub key, which the ledger keeps as two 32-byte hexadecimal coordinates, always
  resolves, to the EC key on Jubjub whose coordinates are the same bytes in base64url; the zero padding
  of short coordinates is never used.
\<close>

theorem schnorr_key_resolves_exact:
  assumes "base64_ok X" and "hex_ok X" and "jubjub_point_new px py = Inr p"
  shows "\<exists>x y jwk. hex_decode X px = Inr x \<and> hex_decode X py = Inr y \<and>
    schnorr_jubjub_pk_to_jwk X \<lparr>lsv_id = i, lsv_public_key = p\<rparr> = Inr jwk \<and>
    jwk_kty jwk = EC \<and> jwk_crv jwk = Jubjub \<and>
    decode_base64url_bytes X (jwk_x jwk) 32 ''x'' = Inr x \<and>
    (\<exists>ty. jwk_y jwk = Some ty \<and> decode_base64url_bytes X ty 32 ''y'' = Inr y)"
proof -
  from assms(3) have p: "point_ok p" "jp_x p = px" "jp_y p = py"
    by (auto simp: jubjub_point_new_Inr point_ok_def)
  have dec: "length bs = 32 \<Longrightarrow> decode_base64url_bytes X (encode_base64url X bs) 32 l = Inr bs" for bs l
    by (auto simp: decode_base64url_bytes_Inr [OF assms(1)])
  from schnorr_key_resolves [OF assms(1,2), of "\<lparr>lsv_id = i, lsv_public_key = p\<rparr>"] p obtain x y where
    xy: "hex_decode X px = Inr x" "hex_decode X py = Inr y" "length x = 32" "length y = 32"
    "schnorr_jubjub_pk_to_jwk X \<lparr>lsv_id = i, lsv_public_key = p\<rparr> = Inr \<lparr>jwk_kty = EC, jwk_crv = Jubjub,
      jwk_x = encode_base64url X x, jwk_y = Some (encode_base64url X y), jwk_extensions = []\<rparr>"
    by auto
  show ?thesis by (rule exI [of _ x], rule exI [of _ y]) (simp add: xy dec)
qed

theorem schnorr_key_resolves_exact_witness:
  "\<exists>jwk. schnorr_jubjub_pk_to_jwk ref_crates
     \<lparr>lsv_id = ''#s'', lsv_public_key = \<lparr>jp_x = replicate 64 CHR ''a'', jp_y = replicate 64 CHR ''a''\<rparr>\<rparr> = Inr jwk \<and>
     jwk_crv jwk = Jubjub"
proof -
  have "jubjub_point_new (replicate 64 CHR ''a'') (replicate 64 CHR ''a'') =
      Inr \<lparr>jp_x = replicate 64 CHR ''a'', jp_y = replicate 64 CHR ''a''\<rparr>"
    by (simp add: jubjub_point_new_Inr hex_text_def list_all_iff ascii_defs code_of_def)
  from schnorr_key_resolves_exact [OF ref_crates_ok(1,2) this, of "''#s''"] show ?thesis by auto
qed

text \<open>
  The outcomes of \<open>resolve\<close>: a backend failure is passed on as a failed contract call with the
  backend's text, and success is always a document with the metadata of the same snapshot, never an
  absent one. The metadata says deactivated exactly when the contract is deactivated or not active,
  has no time for a zero timestamp, and otherwise the time the calendar gives for its whole seconds.
\<close>

theorem resolve_outcomes:
  "resolve X c b =
     (case contract_read_snapshot c b of
        (Inl e, b') \<Rightarrow> (Inl (ApiContract (Failed (backend_error_text e))), b')
      | (Inr st, b') \<Rightarrow>
          (case ledger_state_to_did_document X st (ct_network c) (contract_to_hex X (ct_address c)) of
             Inl e \<Rightarrow> Inl e
           | Inr d \<Rightarrow> Inr (Some \<lparr>rd_document = d, rd_metadata = ledger_state_to_metadata st\<rparr>), b')) \<and>
   dm_deactivated (ledger_state_to_metadata st) = (if deactivated st \<or> \<not> active st then Some True else None) \<and>
   dm_created (ledger_state_to_metadata st) =
     (if created_ms st = 0 then None else format_iso8601 (created_ms st div 1000)) \<and>
   dm_updated (ledger_state_to_metadata st) =
     (if updated_ms st = 0 then None else format_iso8601 (updated_ms st div 1000))"
  by (auto simp: resolve_def io_bind_def io_map_err_def io_lift_def Let_def ledger_state_to_metadata_def
    timestamp_to_iso_def split: prod.splits sum.splits)

end
