(* ===== verification/Contract_Types.thy ===== *)
theory Contract_Types
  imports Rust_Str
begin

text \<open>
  The data types of the DID contract, the first part of
  \<open>midnight-did-runtime/src/contract/generated.rs\<close>, with their alignment (\<open>Aligned\<close>) and their value
  (\<open>From<..> for Value\<close>), which the authorization digests hash. Leaf types are those of the runtime:
  \<open>'fr\<close> is \<open>Fr\<close>, \<open>'p\<close> is \<open>JubjubPoint\<close>, \<open>OpaqueString\<close> is a string.
\<close>

section \<open>Alignments and values\<close>

datatype alignment_atom =
  AlignU8 | AlignU64 | AlignFr | AlignBytes32 | AlignString | AlignPoint

datatype ('fr, 'p) atom =
    AtomU8 nat
  | AtomU64 u64
  | AtomFr 'fr
  | AtomBytes32 bytes
  | AtomString string
  | AtomPoint 'p

text \<open>\<open>AlignedValue::from\<close> pairs the alignment of the type with the value.\<close>

type_synonym ('fr, 'p) aligned_value = "alignment_atom list \<times> ('fr, 'p) atom list"

fun atom_alignment :: "('fr, 'p) atom \<Rightarrow> alignment_atom" where
  "atom_alignment (AtomU8 _) = AlignU8"
| "atom_alignment (AtomU64 _) = AlignU64"
| "atom_alignment (AtomFr _) = AlignFr"
| "atom_alignment (AtomBytes32 _) = AlignBytes32"
| "atom_alignment (AtomString _) = AlignString"
| "atom_alignment (AtomPoint _) = AlignPoint"

section \<open>Enumerations\<close>

datatype c_vm_type =
    CVT_Undefined
  | CVT_JsonWebKey

fun c_vm_type_u8 :: "c_vm_type \<Rightarrow> nat" where
  "c_vm_type_u8 CVT_Undefined = 0"
| "c_vm_type_u8 CVT_JsonWebKey = 1"

definition alignment_c_vm_type :: "alignment_atom list" where
  "alignment_c_vm_type = [AlignU8]"

definition value_c_vm_type :: "c_vm_type \<Rightarrow> ('fr, 'p) atom list" where
  "value_c_vm_type v = [AtomU8 (c_vm_type_u8 v)]"

datatype c_relation =
    CR_Undefined
  | CR_Authentication
  | CR_AssertionMethod
  | CR_KeyAgreement
  | CR_CapabilityInvocation
  | CR_CapabilityDelegation

fun c_relation_u8 :: "c_relation \<Rightarrow> nat" where
  "c_relation_u8 CR_Undefined = 0"
| "c_relation_u8 CR_Authentication = 1"
| "c_relation_u8 CR_AssertionMethod = 2"
| "c_relation_u8 CR_KeyAgreement = 3"
| "c_relation_u8 CR_CapabilityInvocation = 4"
| "c_relation_u8 CR_CapabilityDelegation = 5"

definition alignment_c_relation :: "alignment_atom list" where
  "alignment_c_relation = [AlignU8]"

definition value_c_relation :: "c_relation \<Rightarrow> ('fr, 'p) atom list" where
  "value_c_relation v = [AtomU8 (c_relation_u8 v)]"

datatype c_map_mutation =
    CMM_Undefined
  | CMM_Insert
  | CMM_Update

fun c_map_mutation_u8 :: "c_map_mutation \<Rightarrow> nat" where
  "c_map_mutation_u8 CMM_Undefined = 0"
| "c_map_mutation_u8 CMM_Insert = 1"
| "c_map_mutation_u8 CMM_Update = 2"

definition alignment_c_map_mutation :: "alignment_atom list" where
  "alignment_c_map_mutation = [AlignU8]"

definition value_c_map_mutation :: "c_map_mutation \<Rightarrow> ('fr, 'p) atom list" where
  "value_c_map_mutation v = [AtomU8 (c_map_mutation_u8 v)]"

datatype c_set_mutation =
    CSM_Undefined
  | CSM_Insert
  | CSM_Remove

fun c_set_mutation_u8 :: "c_set_mutation \<Rightarrow> nat" where
  "c_set_mutation_u8 CSM_Undefined = 0"
| "c_set_mutation_u8 CSM_Insert = 1"
| "c_set_mutation_u8 CSM_Remove = 2"

definition alignment_c_set_mutation :: "alignment_atom list" where
  "alignment_c_set_mutation = [AlignU8]"

definition value_c_set_mutation :: "c_set_mutation \<Rightarrow> ('fr, 'p) atom list" where
  "value_c_set_mutation v = [AtomU8 (c_set_mutation_u8 v)]"

datatype c_key_type =
    CK_EC
  | CK_RSA
  | CK_oct
  | CK_OKP

fun c_key_type_u8 :: "c_key_type \<Rightarrow> nat" where
  "c_key_type_u8 CK_EC = 0"
| "c_key_type_u8 CK_RSA = 1"
| "c_key_type_u8 CK_oct = 2"
| "c_key_type_u8 CK_OKP = 3"

definition alignment_c_key_type :: "alignment_atom list" where
  "alignment_c_key_type = [AlignU8]"

definition value_c_key_type :: "c_key_type \<Rightarrow> ('fr, 'p) atom list" where
  "value_c_key_type v = [AtomU8 (c_key_type_u8 v)]"

datatype c_curve_type =
    CC_Ed25519
  | CC_X25519
  | CC_Jubjub
  | CC_P256
  | CC_Secp256k1
  | CC_BLS12381G1
  | CC_BLS12381G2

fun c_curve_type_u8 :: "c_curve_type \<Rightarrow> nat" where
  "c_curve_type_u8 CC_Ed25519 = 0"
| "c_curve_type_u8 CC_X25519 = 1"
| "c_curve_type_u8 CC_Jubjub = 2"
| "c_curve_type_u8 CC_P256 = 3"
| "c_curve_type_u8 CC_Secp256k1 = 4"
| "c_curve_type_u8 CC_BLS12381G1 = 5"
| "c_curve_type_u8 CC_BLS12381G2 = 6"

definition alignment_c_curve_type :: "alignment_atom list" where
  "alignment_c_curve_type = [AlignU8]"

definition value_c_curve_type :: "c_curve_type \<Rightarrow> ('fr, 'p) atom list" where
  "value_c_curve_type v = [AtomU8 (c_curve_type_u8 v)]"

section \<open>Structures\<close>

record c_public_key_jwk =
  cj_kty :: c_key_type
  cj_crv :: c_curve_type
  cj_x :: string
  cj_y :: string

definition alignment_c_public_key_jwk :: "alignment_atom list" where
  "alignment_c_public_key_jwk =
    concat [alignment_c_key_type, alignment_c_curve_type, [AlignString], [AlignString]]"

definition value_c_public_key_jwk :: "c_public_key_jwk \<Rightarrow> ('fr, 'p) atom list" where
  "value_c_public_key_jwk s =
    concat [value_c_key_type (cj_kty s), value_c_curve_type (cj_crv s), [AtomString (cj_x s)],
      [AtomString (cj_y s)]]"

record c_verification_method =
  cvm_id :: string
  cvm_typ :: c_vm_type
  cvm_public_key_jwk :: c_public_key_jwk

definition alignment_c_verification_method :: "alignment_atom list" where
  "alignment_c_verification_method =
    concat [[AlignString], alignment_c_vm_type, alignment_c_public_key_jwk]"

definition value_c_verification_method :: "c_verification_method \<Rightarrow> ('fr, 'p) atom list" where
  "value_c_verification_method s =
    concat [[AtomString (cvm_id s)], value_c_vm_type (cvm_typ s),
      value_c_public_key_jwk (cvm_public_key_jwk s)]"

record 'p c_schnorr_method =
  csm_id :: string
  csm_public_key :: 'p

definition alignment_c_schnorr_method :: "alignment_atom list" where
  "alignment_c_schnorr_method =
    concat [[AlignString], [AlignPoint]]"

definition value_c_schnorr_method :: "'p c_schnorr_method \<Rightarrow> ('fr, 'p) atom list" where
  "value_c_schnorr_method s =
    concat [[AtomString (csm_id s)], [AtomPoint (csm_public_key s)]]"

record c_service =
  cs_id :: string
  cs_typ :: string
  cs_endpoint :: string

definition alignment_c_service :: "alignment_atom list" where
  "alignment_c_service =
    concat [[AlignString], [AlignString], [AlignString]]"

definition value_c_service :: "c_service \<Rightarrow> ('fr, 'p) atom list" where
  "value_c_service s =
    concat [[AtomString (cs_id s)], [AtomString (cs_typ s)], [AtomString (cs_endpoint s)]]"

record 'fr recover_controller_key_args =
  rca_public_key_x :: 'fr
  rca_public_key_y :: 'fr

definition alignment_recover_controller_key_args :: "alignment_atom list" where
  "alignment_recover_controller_key_args =
    concat [[AlignFr], [AlignFr]]"

definition value_recover_controller_key_args :: "'fr recover_controller_key_args \<Rightarrow> ('fr, 'p) atom list" where
  "value_recover_controller_key_args s =
    concat [[AtomFr (rca_public_key_x s)], [AtomFr (rca_public_key_y s)]]"

record 'fr set_schnorr_method_args =
  ssa_id :: string
  ssa_public_key_x :: 'fr
  ssa_public_key_y :: 'fr
  ssa_mutation :: c_map_mutation

definition alignment_set_schnorr_method_args :: "alignment_atom list" where
  "alignment_set_schnorr_method_args =
    concat [[AlignString], [AlignFr], [AlignFr], alignment_c_map_mutation]"

definition value_set_schnorr_method_args :: "'fr set_schnorr_method_args \<Rightarrow> ('fr, 'p) atom list" where
  "value_set_schnorr_method_args s =
    concat [[AtomString (ssa_id s)], [AtomFr (ssa_public_key_x s)],
      [AtomFr (ssa_public_key_y s)], value_c_map_mutation (ssa_mutation s)]"

record set_service_args =
  ssv_service :: c_service
  ssv_mutation :: c_map_mutation

definition alignment_set_service_args :: "alignment_atom list" where
  "alignment_set_service_args =
    concat [alignment_c_service, alignment_c_map_mutation]"

definition value_set_service_args :: "set_service_args \<Rightarrow> ('fr, 'p) atom list" where
  "value_set_service_args s =
    concat [value_c_service (ssv_service s), value_c_map_mutation (ssv_mutation s)]"

record c_address =
  address_bytes :: bytes

definition alignment_c_address :: "alignment_atom list" where
  "alignment_c_address =
    concat [[AlignBytes32]]"

definition value_c_address :: "c_address \<Rightarrow> ('fr, 'p) atom list" where
  "value_c_address s =
    concat [[AtomBytes32 (address_bytes s)]]"

record remove_service_args =
  rsv_id :: string

definition alignment_remove_service_args :: "alignment_atom list" where
  "alignment_remove_service_args =
    concat [[AlignString]]"

definition value_remove_service_args :: "remove_service_args \<Rightarrow> ('fr, 'p) atom list" where
  "value_remove_service_args s =
    concat [[AtomString (rsv_id s)]]"

record remove_schnorr_method_args =
  rsa_id :: string

definition alignment_remove_schnorr_method_args :: "alignment_atom list" where
  "alignment_remove_schnorr_method_args =
    concat [[AlignString]]"

definition value_remove_schnorr_method_args :: "remove_schnorr_method_args \<Rightarrow> ('fr, 'p) atom list" where
  "value_remove_schnorr_method_args s =
    concat [[AtomString (rsa_id s)]]"

record authorization_domain =
  cad_domain :: bytes

definition alignment_authorization_domain :: "alignment_atom list" where
  "alignment_authorization_domain =
    concat [[AlignBytes32]]"

definition value_authorization_domain :: "authorization_domain \<Rightarrow> ('fr, 'p) atom list" where
  "value_authorization_domain s =
    concat [[AtomBytes32 (cad_domain s)]]"

record 'fr rotate_controller_key_args =
  rot_public_key_x :: 'fr
  rot_public_key_y :: 'fr

definition alignment_rotate_controller_key_args :: "alignment_atom list" where
  "alignment_rotate_controller_key_args =
    concat [[AlignFr], [AlignFr]]"

definition value_rotate_controller_key_args :: "'fr rotate_controller_key_args \<Rightarrow> ('fr, 'p) atom list" where
  "value_rotate_controller_key_args s =
    concat [[AtomFr (rot_public_key_x s)], [AtomFr (rot_public_key_y s)]]"

record 'fr schnorr_hash_input =
  shi_ann_x :: 'fr
  shi_ann_y :: 'fr
  shi_pk_x :: 'fr
  shi_pk_y :: 'fr
  shi_msg :: "'fr \<times> 'fr \<times> 'fr \<times> 'fr"

definition alignment_schnorr_hash_input :: "alignment_atom list" where
  "alignment_schnorr_hash_input =
    concat [[AlignFr], [AlignFr], [AlignFr], [AlignFr], [AlignFr], [AlignFr], [AlignFr],
      [AlignFr]]"

definition value_schnorr_hash_input :: "'fr schnorr_hash_input \<Rightarrow> ('fr, 'p) atom list" where
  "value_schnorr_hash_input s =
    concat [[AtomFr (shi_ann_x s)], [AtomFr (shi_ann_y s)], [AtomFr (shi_pk_x s)],
      [AtomFr (shi_pk_y s)],
      (case shi_msg s of (a, b, c, d) \<Rightarrow> [AtomFr a, AtomFr b, AtomFr c, AtomFr d])]"

record authorization_operation =
  cao_name :: bytes

definition alignment_authorization_operation :: "alignment_atom list" where
  "alignment_authorization_operation =
    concat [[AlignBytes32]]"

definition value_authorization_operation :: "authorization_operation \<Rightarrow> ('fr, 'p) atom list" where
  "value_authorization_operation s =
    concat [[AtomBytes32 (cao_name s)]]"

record authorization_no_args =
  can_domain :: bytes

definition alignment_authorization_no_args :: "alignment_atom list" where
  "alignment_authorization_no_args =
    concat [[AlignBytes32]]"

definition value_authorization_no_args :: "authorization_no_args \<Rightarrow> ('fr, 'p) atom list" where
  "value_authorization_no_args s =
    concat [[AtomBytes32 (can_domain s)]]"

record set_relation_args =
  sra_relation :: c_relation
  sra_method_id :: string
  sra_mutation :: c_set_mutation

definition alignment_set_relation_args :: "alignment_atom list" where
  "alignment_set_relation_args =
    concat [alignment_c_relation, [AlignString], alignment_c_set_mutation]"

definition value_set_relation_args :: "set_relation_args \<Rightarrow> ('fr, 'p) atom list" where
  "value_set_relation_args s =
    concat [value_c_relation (sra_relation s), [AtomString (sra_method_id s)],
      value_c_set_mutation (sra_mutation s)]"

record set_method_args =
  sma_verification_method :: c_verification_method
  sma_mutation :: c_map_mutation

definition alignment_set_method_args :: "alignment_atom list" where
  "alignment_set_method_args =
    concat [alignment_c_verification_method, alignment_c_map_mutation]"

definition value_set_method_args :: "set_method_args \<Rightarrow> ('fr, 'p) atom list" where
  "value_set_method_args s =
    concat [value_c_verification_method (sma_verification_method s),
      value_c_map_mutation (sma_mutation s)]"

record set_also_known_as_args =
  saa_value :: string
  saa_mutation :: c_set_mutation

definition alignment_set_also_known_as_args :: "alignment_atom list" where
  "alignment_set_also_known_as_args =
    concat [[AlignString], alignment_c_set_mutation]"

definition value_set_also_known_as_args :: "set_also_known_as_args \<Rightarrow> ('fr, 'p) atom list" where
  "value_set_also_known_as_args s =
    concat [[AtomString (saa_value s)], value_c_set_mutation (saa_mutation s)]"

record remove_method_args =
  rma_id :: string

definition alignment_remove_method_args :: "alignment_atom list" where
  "alignment_remove_method_args =
    concat [[AlignString]]"

definition value_remove_method_args :: "remove_method_args \<Rightarrow> ('fr, 'p) atom list" where
  "value_remove_method_args s =
    concat [[AtomString (rma_id s)]]"

record authorization_state =
  cas_contract_id :: c_address
  cas_version :: u64

definition alignment_authorization_state :: "alignment_atom list" where
  "alignment_authorization_state =
    concat [alignment_c_address, [AlignU64]]"

definition value_authorization_state :: "authorization_state \<Rightarrow> ('fr, 'p) atom list" where
  "value_authorization_state s =
    concat [value_c_address (cas_contract_id s), [AtomU64 (cas_version s)]]"

lemmas alignment_defs =
  alignment_c_vm_type_def alignment_c_relation_def alignment_c_map_mutation_def
  alignment_c_set_mutation_def alignment_c_key_type_def alignment_c_curve_type_def
  alignment_c_public_key_jwk_def alignment_c_verification_method_def
  alignment_c_schnorr_method_def alignment_c_service_def
  alignment_recover_controller_key_args_def alignment_set_schnorr_method_args_def
  alignment_set_service_args_def alignment_c_address_def alignment_remove_service_args_def
  alignment_remove_schnorr_method_args_def alignment_authorization_domain_def
  alignment_rotate_controller_key_args_def alignment_schnorr_hash_input_def
  alignment_authorization_operation_def alignment_authorization_no_args_def
  alignment_set_relation_args_def alignment_set_method_args_def
  alignment_set_also_known_as_args_def alignment_remove_method_args_def
  alignment_authorization_state_def

lemmas value_defs =
  value_c_vm_type_def value_c_relation_def value_c_map_mutation_def value_c_set_mutation_def
  value_c_key_type_def value_c_curve_type_def value_c_public_key_jwk_def
  value_c_verification_method_def value_c_schnorr_method_def value_c_service_def
  value_recover_controller_key_args_def value_set_schnorr_method_args_def
  value_set_service_args_def value_c_address_def value_remove_service_args_def
  value_remove_schnorr_method_args_def value_authorization_domain_def
  value_rotate_controller_key_args_def value_schnorr_hash_input_def
  value_authorization_operation_def value_authorization_no_args_def value_set_relation_args_def
  value_set_method_args_def value_set_also_known_as_args_def value_remove_method_args_def
  value_authorization_state_def

text \<open>The discriminants determine the variant.\<close>

lemma c_vm_type_u8_inj: "c_vm_type_u8 a = c_vm_type_u8 b \<longleftrightarrow> a = b"
  by (cases a; cases b) simp_all

lemma c_relation_u8_inj: "c_relation_u8 a = c_relation_u8 b \<longleftrightarrow> a = b"
  by (cases a; cases b) simp_all

lemma c_map_mutation_u8_inj: "c_map_mutation_u8 a = c_map_mutation_u8 b \<longleftrightarrow> a = b"
  by (cases a; cases b) simp_all

lemma c_set_mutation_u8_inj: "c_set_mutation_u8 a = c_set_mutation_u8 b \<longleftrightarrow> a = b"
  by (cases a; cases b) simp_all

lemma c_key_type_u8_inj: "c_key_type_u8 a = c_key_type_u8 b \<longleftrightarrow> a = b"
  by (cases a; cases b) simp_all

lemma c_curve_type_u8_inj: "c_curve_type_u8 a = c_curve_type_u8 b \<longleftrightarrow> a = b"
  by (cases a; cases b) simp_all

lemmas discriminant_inj =
  c_vm_type_u8_inj c_relation_u8_inj c_map_mutation_u8_inj c_set_mutation_u8_inj c_key_type_u8_inj
  c_curve_type_u8_inj

end
