(* ===== verification/Contract_Ledger.thy ===== *)
theory Contract_Ledger
  imports Contract_Types
begin

text \<open>
  The ledger of the DID contract, for \<open>midnight-did-runtime/src/contract/generated.rs\<close> (the Rust code
  emitted for the Compact contract): the programs of the on-chain virtual machine its circuits are
  built from, and the third-party runtime that executes them as a parameter.

  The circuits reach the ledger only through such programs, lists of the builder's operations, of
  four reading and five writing shapes. The runtime is a record of functions; the locale
  \<open>ledger_runtime\<close> states its documented behaviour on these shapes: reading a cell, testing
  membership, looking up a key, writing a cell, inserting, removing, incrementing. Gas costs are
  accumulated by the code and read nowhere; they are left out, but the runtime may refuse any
  program, for instance for lack of gas.
\<close>

section \<open>Programs\<close>

text \<open>
  The content of a cell, with its type; what a program pushes is a cell, \<open>StateValue::Null\<close> or an empty
  map.
\<close>

datatype 'p cell =
    CellU8 nat
  | CellU32 u32
  | CellU64 u64
  | CellBool bool
  | CellPoint 'p
  | CellAddress c_address
  | CellString string
  | CellMethod c_verification_method
  | CellSchnorr "'p c_schnorr_method"
  | CellService c_service

datatype 'p state_value = NewCell "'p cell" | StateNull | NewMap

text \<open>The operations of \<open>OpProgramVerify\<close> and \<open>OpProgramGather\<close>; the flags and depths are those of the builder.\<close>

datatype 'p op =
    Dup nat
  | IdxAt nat bool
  | IdxKey "'p cell" bool
  | Push bool "'p state_value"
  | Ins bool nat
  | Rem bool
  | Addi nat
  | Member
  | Popeq bool

text \<open>
  The reading programs: the contract's own address, a field of the ledger (its group and its index),
  membership of a key in a set or map of group 1, the value at a key.
\<close>

datatype ledger_read =
    ReadSelf
  | ReadField nat nat bool
  | ReadMember nat string
  | ReadEntry nat string

fun read_ops :: "ledger_read \<Rightarrow> 'p op list" where
  "read_ops ReadSelf = [Dup 2, IdxAt 0 False, Popeq True]"
| "read_ops (ReadField a i cached) = [Dup 0, IdxAt a False, IdxAt i False, Popeq cached]"
| "read_ops (ReadMember i k) =
     [Dup 0, IdxAt 1 False, IdxAt i False, Push False (NewCell (CellString k)), Member, Popeq True]"
| "read_ops (ReadEntry i k) =
     [Dup 0, IdxAt 1 False, IdxAt i False, IdxKey (CellString k) False, Popeq False]"

text \<open>
  The writing programs: a field, a key of a set (with \<open>Null\<close>), a key of a map with its value, the
  removal of a key, the increment of a counter.
\<close>

datatype 'p ledger_write =
    WriteField nat nat "'p cell"
  | InsertKey nat string
  | InsertEntry nat string "'p cell"
  | RemoveKey nat string
  | Increment nat nat

fun write_ops :: "'p ledger_write \<Rightarrow> 'p op list" where
  "write_ops (WriteField a i v) =
     [IdxAt a True, Push False (NewCell (CellU8 i)), Push True (NewCell v), Ins False 1, Ins True 1]"
| "write_ops (InsertKey i k) =
     [IdxAt 1 True, IdxAt i True, Push False (NewCell (CellString k)), Push True StateNull,
      Ins False 1, Ins True 2]"
| "write_ops (InsertEntry i k v) =
     [IdxAt 1 True, IdxAt i True, Push False (NewCell (CellString k)), Push True (NewCell v),
      Ins False 1, Ins True 2]"
| "write_ops (RemoveKey i k) =
     [IdxAt 1 True, IdxAt i True, Push False (NewCell (CellString k)), Rem False, Ins True 2]"
| "write_ops (Increment i n) = [IdxAt 1 True, IdxAt i True, Addi n, Ins True 2]"

definition program :: "'p ledger_write list \<Rightarrow> 'p op list" where
  "program ws = concat (map write_ops ws)"

section \<open>The ledger\<close>

text \<open>
  The fields of the ledger, in the order of their indices: group 0 holds the first four, group 1 the
  other fifteen. A set is a map to \<open>Null\<close>.
\<close>

record 'p c_ledger =
  lg_contract_version :: u32
  lg_controller_key :: 'p
  lg_recovery_key :: 'p
  lg_id :: c_address
  lg_also_known_as :: "string set"
  lg_version :: u64
  lg_created :: u64
  lg_updated :: u64
  lg_deactivated :: bool
  lg_active :: bool
  lg_operation_count :: u64
  lg_methods :: "string \<rightharpoonup> c_verification_method"
  lg_schnorr_methods :: "string \<rightharpoonup> 'p c_schnorr_method"
  lg_authentication :: "string set"
  lg_assertion_method :: "string set"
  lg_key_agreement :: "string set"
  lg_capability_invocation :: "string set"
  lg_capability_delegation :: "string set"
  lg_services :: "string \<rightharpoonup> c_service"

fun cell_at :: "nat \<Rightarrow> nat \<Rightarrow> 'p c_ledger \<Rightarrow> 'p cell option" where
  "cell_at a i l =
     (if a = 0 then
        (if i = 0 then Some (CellU32 (lg_contract_version l))
         else if i = 1 then Some (CellPoint (lg_controller_key l))
         else if i = 2 then Some (CellPoint (lg_recovery_key l))
         else if i = 3 then Some (CellAddress (lg_id l))
         else None)
      else if a = 1 then
        (if i = 1 then Some (CellU64 (lg_version l))
         else if i = 2 then Some (CellU64 (lg_created l))
         else if i = 3 then Some (CellU64 (lg_updated l))
         else if i = 4 then Some (CellBool (lg_deactivated l))
         else if i = 5 then Some (CellBool (lg_active l))
         else if i = 6 then Some (CellU64 (lg_operation_count l))
         else None)
      else None)"

fun keys_at :: "nat \<Rightarrow> 'p c_ledger \<Rightarrow> string set option" where
  "keys_at i l =
     (if i = 0 then Some (lg_also_known_as l)
      else if i = 7 then Some (dom (lg_methods l))
      else if i = 8 then Some (dom (lg_schnorr_methods l))
      else if i = 9 then Some (lg_authentication l)
      else if i = 10 then Some (lg_assertion_method l)
      else if i = 11 then Some (lg_key_agreement l)
      else if i = 12 then Some (lg_capability_invocation l)
      else if i = 13 then Some (lg_capability_delegation l)
      else if i = 14 then Some (dom (lg_services l))
      else None)"

fun entry_at :: "nat \<Rightarrow> string \<Rightarrow> 'p c_ledger \<Rightarrow> 'p cell option" where
  "entry_at i k l =
     (if i = 7 then map_option CellMethod (lg_methods l k)
      else if i = 8 then map_option CellSchnorr (lg_schnorr_methods l k)
      else if i = 14 then map_option CellService (lg_services l k)
      else None)"

text \<open>What a reading program yields, \<open>self\<close> being the address in the query context.\<close>

fun read_value :: "ledger_read \<Rightarrow> c_address \<Rightarrow> 'p c_ledger \<Rightarrow> 'p cell option" where
  "read_value ReadSelf self l = Some (CellAddress self)"
| "read_value (ReadField a i cached) self l = cell_at a i l"
| "read_value (ReadMember i k) self l = map_option (\<lambda>ks. CellBool (k \<in> ks)) (keys_at i l)"
| "read_value (ReadEntry i k) self l = entry_at i k l"

text \<open>The writes.\<close>

fun set_cell :: "nat \<Rightarrow> nat \<Rightarrow> 'p cell \<Rightarrow> 'p c_ledger \<Rightarrow> 'p c_ledger option" where
  "set_cell a i (CellU32 v) l = (if a = 0 \<and> i = 0 then Some (l\<lparr>lg_contract_version := v\<rparr>) else None)"
| "set_cell a i (CellPoint v) l =
     (if a = 0 \<and> i = 1 then Some (l\<lparr>lg_controller_key := v\<rparr>)
      else if a = 0 \<and> i = 2 then Some (l\<lparr>lg_recovery_key := v\<rparr>) else None)"
| "set_cell a i (CellAddress v) l = (if a = 0 \<and> i = 3 then Some (l\<lparr>lg_id := v\<rparr>) else None)"
| "set_cell a i (CellU64 v) l =
     (if a = 1 \<and> i = 1 then Some (l\<lparr>lg_version := v\<rparr>)
      else if a = 1 \<and> i = 2 then Some (l\<lparr>lg_created := v\<rparr>)
      else if a = 1 \<and> i = 3 then Some (l\<lparr>lg_updated := v\<rparr>)
      else if a = 1 \<and> i = 6 then Some (l\<lparr>lg_operation_count := v\<rparr>) else None)"
| "set_cell a i (CellBool v) l =
     (if a = 1 \<and> i = 4 then Some (l\<lparr>lg_deactivated := v\<rparr>)
      else if a = 1 \<and> i = 5 then Some (l\<lparr>lg_active := v\<rparr>) else None)"
| "set_cell a i _ l = None"

fun insert_key :: "nat \<Rightarrow> string \<Rightarrow> 'p c_ledger \<Rightarrow> 'p c_ledger option" where
  "insert_key i k l =
     (if i = 0 then Some (l\<lparr>lg_also_known_as := insert k (lg_also_known_as l)\<rparr>)
      else if i = 9 then Some (l\<lparr>lg_authentication := insert k (lg_authentication l)\<rparr>)
      else if i = 10 then Some (l\<lparr>lg_assertion_method := insert k (lg_assertion_method l)\<rparr>)
      else if i = 11 then Some (l\<lparr>lg_key_agreement := insert k (lg_key_agreement l)\<rparr>)
      else if i = 12 then Some (l\<lparr>lg_capability_invocation := insert k (lg_capability_invocation l)\<rparr>)
      else if i = 13 then Some (l\<lparr>lg_capability_delegation := insert k (lg_capability_delegation l)\<rparr>)
      else None)"

fun insert_entry :: "nat \<Rightarrow> string \<Rightarrow> 'p cell \<Rightarrow> 'p c_ledger \<Rightarrow> 'p c_ledger option" where
  "insert_entry i k (CellMethod m) l =
     (if i = 7 then Some (l\<lparr>lg_methods := (lg_methods l)(k \<mapsto> m)\<rparr>) else None)"
| "insert_entry i k (CellSchnorr m) l =
     (if i = 8 then Some (l\<lparr>lg_schnorr_methods := (lg_schnorr_methods l)(k \<mapsto> m)\<rparr>) else None)"
| "insert_entry i k (CellService s) l =
     (if i = 14 then Some (l\<lparr>lg_services := (lg_services l)(k \<mapsto> s)\<rparr>) else None)"
| "insert_entry i k _ l = None"

fun remove_key :: "nat \<Rightarrow> string \<Rightarrow> 'p c_ledger \<Rightarrow> 'p c_ledger option" where
  "remove_key i k l =
     (if i = 0 then Some (l\<lparr>lg_also_known_as := lg_also_known_as l - {k}\<rparr>)
      else if i = 7 then Some (l\<lparr>lg_methods := (lg_methods l)(k := None)\<rparr>)
      else if i = 8 then Some (l\<lparr>lg_schnorr_methods := (lg_schnorr_methods l)(k := None)\<rparr>)
      else if i = 9 then Some (l\<lparr>lg_authentication := lg_authentication l - {k}\<rparr>)
      else if i = 10 then Some (l\<lparr>lg_assertion_method := lg_assertion_method l - {k}\<rparr>)
      else if i = 11 then Some (l\<lparr>lg_key_agreement := lg_key_agreement l - {k}\<rparr>)
      else if i = 12 then Some (l\<lparr>lg_capability_invocation := lg_capability_invocation l - {k}\<rparr>)
      else if i = 13 then Some (l\<lparr>lg_capability_delegation := lg_capability_delegation l - {k}\<rparr>)
      else if i = 14 then Some (l\<lparr>lg_services := (lg_services l)(k := None)\<rparr>)
      else None)"

text \<open>A counter that would overflow makes the program fail.\<close>

fun increment :: "nat \<Rightarrow> nat \<Rightarrow> 'p c_ledger \<Rightarrow> 'p c_ledger option" where
  "increment i n l =
     (if i = 1 then (if unat (lg_version l) + n < 2 ^ 64
                     then Some (l\<lparr>lg_version := lg_version l + of_nat n\<rparr>) else None)
      else if i = 6 then (if unat (lg_operation_count l) + n < 2 ^ 64
                     then Some (l\<lparr>lg_operation_count := lg_operation_count l + of_nat n\<rparr>) else None)
      else None)"

text \<open>The effect of a writing program, and of a sequence of them.\<close>

fun write_effect :: "'p ledger_write \<Rightarrow> 'p c_ledger \<Rightarrow> 'p c_ledger option" where
  "write_effect (WriteField a i v) l = set_cell a i v l"
| "write_effect (InsertKey i k) l = insert_key i k l"
| "write_effect (InsertEntry i k v) l = insert_entry i k v l"
| "write_effect (RemoveKey i k) l = remove_key i k l"
| "write_effect (Increment i n) l = increment i n l"

fun writes_effect :: "'p ledger_write list \<Rightarrow> 'p c_ledger \<Rightarrow> 'p c_ledger option" where
  "writes_effect [] l = Some l"
| "writes_effect (w # ws) l = Option.bind (write_effect w l) (writes_effect ws)"

text \<open>A write that agrees with the type of the field it goes to.\<close>

fun field_typed :: "nat \<Rightarrow> nat \<Rightarrow> 'p cell \<Rightarrow> bool" where
  "field_typed a i (CellU32 v) \<longleftrightarrow> a = 0 \<and> i = 0"
| "field_typed a i (CellPoint v) \<longleftrightarrow> a = 0 \<and> (i = 1 \<or> i = 2)"
| "field_typed a i (CellAddress v) \<longleftrightarrow> a = 0 \<and> i = 3"
| "field_typed a i (CellU64 v) \<longleftrightarrow> a = 1 \<and> (i = 1 \<or> i = 2 \<or> i = 3 \<or> i = 6)"
| "field_typed a i (CellBool v) \<longleftrightarrow> a = 1 \<and> (i = 4 \<or> i = 5)"
| "field_typed a i _ \<longleftrightarrow> False"

fun entry_typed :: "nat \<Rightarrow> 'p cell \<Rightarrow> bool" where
  "entry_typed i (CellMethod m) \<longleftrightarrow> i = 7"
| "entry_typed i (CellSchnorr m) \<longleftrightarrow> i = 8"
| "entry_typed i (CellService s) \<longleftrightarrow> i = 14"
| "entry_typed i _ \<longleftrightarrow> False"

fun write_typed :: "'p ledger_write \<Rightarrow> bool" where
  "write_typed (WriteField a i v) \<longleftrightarrow> field_typed a i v"
| "write_typed (InsertKey i k) \<longleftrightarrow> i = 0 \<or> i = 9 \<or> i = 10 \<or> i = 11 \<or> i = 12 \<or> i = 13"
| "write_typed (InsertEntry i k v) \<longleftrightarrow> entry_typed i v"
| "write_typed (RemoveKey i k) \<longleftrightarrow> i = 0 \<or> (7 \<le> i \<and> i \<le> 14)"
| "write_typed (Increment i n) \<longleftrightarrow> i = 1 \<or> i = 6"

section \<open>The runtime\<close>

text \<open>
  Errors by where they come from: \<open>compact_assert!\<close> in the contract, a reading program that fails
  (\<open>"ledger query failed: ..."\<close>) or gives no \<open>Read\<close> event, an error of the runtime handed on by \<open>?\<close>,
  and the error of \<open>schnorr_verify_jubjub\<close>.
\<close>

datatype compact_error =
    AssertionFailed string
  | LedgerQueryFailed string
  | ExpectedReadEvent
  | RuntimeError string
  | SchnorrRejected string

datatype 'p gather_event = ReadEvent "'p cell" | LogEvent

text \<open>
  The context a circuit runs in. The shielded-coin state, the cost model and the gas limit are handed
  on unchanged by every circuit and are part of the runtime here.
\<close>

record ('ps, 'q) circuit_context =
  cc_private :: 'ps
  cc_query :: 'q

type_synonym 'fr digest4 = "'fr \<times> 'fr \<times> 'fr \<times> 'fr"

record ('ps, 'p, 'q, 'st, 'fr, 'sig) runtime =
  rt_new_array :: "'p state_value list \<Rightarrow> 'st"
  rt_query_context :: "'st \<Rightarrow> c_address \<Rightarrow> 'q"
  rt_state :: "'q \<Rightarrow> 'st"
  rt_read :: "'q \<Rightarrow> 'p op list \<Rightarrow> string + 'p gather_event list"
  rt_verify :: "'q \<Rightarrow> 'p op list \<Rightarrow> string + 'q"
  rt_schnorr_verify_jubjub ::
    "('ps, 'q) circuit_context \<Rightarrow> 'fr digest4 \<Rightarrow> 'sig \<Rightarrow> 'p \<Rightarrow> string + ('ps, 'q) circuit_context"
  rt_point_x :: "'p \<Rightarrow> 'fr"
  rt_point_y :: "'p \<Rightarrow> 'fr"
  rt_point_default :: 'p
  rt_hash :: "('fr, 'p) aligned_value list \<Rightarrow> 'fr"

text \<open>The witnesses: what the prover supplies, from a witness context.\<close>

record ('ps, 'p, 'q, 'fr) witnesses =
  get_schnorr_reduction :: "'q \<Rightarrow> 'ps \<Rightarrow> 'fr \<Rightarrow> 'ps \<times> (nat \<times> nat)"
  local_controller_public_key :: "'q \<Rightarrow> 'ps \<Rightarrow> 'ps \<times> 'p"
  local_recovery_authority_public_key :: "'q \<Rightarrow> 'ps \<Rightarrow> 'ps \<times> 'p"
  current_timestamp :: "'q \<Rightarrow> 'ps \<Rightarrow> 'ps \<times> u64"

text \<open>
  The 32 bytes of \<open>ContractAddress::default()\<close>.
\<close>

definition address_default :: c_address where
  "address_default = \<lparr>address_bytes = replicate 32 0\<rparr>"

text \<open>The ledger a constructor starts from: the values of \<open>new_array\<close> in \<open>initial_state\<close>.\<close>

definition ledger_of_defaults :: "'p \<Rightarrow> 'p c_ledger" where
  "ledger_of_defaults p =
     \<lparr>lg_contract_version = 0, lg_controller_key = p, lg_recovery_key = p, lg_id = address_default,
      lg_also_known_as = {}, lg_version = 0, lg_created = 0, lg_updated = 0, lg_deactivated = False,
      lg_active = False, lg_operation_count = 0, lg_methods = Map.empty,
      lg_schnorr_methods = Map.empty, lg_authentication = {}, lg_assertion_method = {},
      lg_key_agreement = {}, lg_capability_invocation = {}, lg_capability_delegation = {},
      lg_services = Map.empty\<rparr>"

definition ledger_array :: "'p \<Rightarrow> 'p state_value list" where
  "ledger_array p =
     [NewCell (CellU32 0), NewCell (CellPoint p), NewCell (CellPoint p),
      NewCell (CellAddress address_default), NewMap, NewCell (CellU64 0), NewCell (CellU64 0),
      NewCell (CellU64 0), NewCell (CellBool False), NewCell (CellBool False), NewCell (CellU64 0),
      NewMap, NewMap, NewMap, NewMap, NewMap, NewMap, NewMap, NewMap]"

text \<open>
  The documented behaviour. \<open>repr\<close> relates a ledger state to its contents, \<open>self\<close> is the address in a
  query context, \<open>schnorr_ok\<close> the signature relation. \<open>may_refuse\<close> says whether the runtime may fail a
  program that has an effect, for instance for lack of gas.
\<close>

locale ledger_runtime =
  fixes R :: "('ps, 'p, 'q, 'st, 'fr, 'sig) runtime"
    and repr :: "'st \<Rightarrow> 'p c_ledger \<Rightarrow> bool"
    and self :: "'q \<Rightarrow> c_address"
    and schnorr_ok :: "'fr digest4 \<Rightarrow> 'sig \<Rightarrow> 'p \<Rightarrow> bool"
    and may_refuse :: bool
  assumes new_array: "repr (rt_new_array R (ledger_array p)) (ledger_of_defaults p)"
    and context_state: "rt_state R (rt_query_context R st a) = st"
    and context_self: "self (rt_query_context R st a) = a"
    and read_ok:
      "\<lbrakk>repr (rt_state R q) l; rt_read R q (read_ops rd) = Inr es\<rbrakk>
       \<Longrightarrow> \<exists>c. read_value rd (self q) l = Some c \<and> es \<noteq> [] \<and> last es = ReadEvent c"
    and read_refuses:
      "\<lbrakk>repr (rt_state R q) l; rt_read R q (read_ops rd) = Inl e\<rbrakk>
       \<Longrightarrow> may_refuse \<or> read_value rd (self q) l = None"
    and verify_ok:
      "\<lbrakk>repr (rt_state R q) l; list_all write_typed ws; rt_verify R q (program ws) = Inr q'\<rbrakk>
       \<Longrightarrow> self q' = self q \<and> (\<exists>l'. writes_effect ws l = Some l' \<and> repr (rt_state R q') l')"
    and verify_refuses:
      "\<lbrakk>repr (rt_state R q) l; list_all write_typed ws; rt_verify R q (program ws) = Inl e\<rbrakk>
       \<Longrightarrow> may_refuse \<or> writes_effect ws l = None"
    and schnorr_accepts:
      "\<lbrakk>repr (rt_state R (cc_query ctx)) l; rt_schnorr_verify_jubjub R ctx d s pk = Inr ctx'\<rbrakk>
       \<Longrightarrow> schnorr_ok d s pk \<and> repr (rt_state R (cc_query ctx')) l \<and>
           self (cc_query ctx') = self (cc_query ctx)"
    and schnorr_rejects:
      "\<lbrakk>repr (rt_state R (cc_query ctx)) l; rt_schnorr_verify_jubjub R ctx d s pk = Inl e\<rbrakk>
       \<Longrightarrow> may_refuse \<or> \<not> schnorr_ok d s pk"

end
