(* ===== verification/Circuits.thy ===== *)
theory Circuits
  imports Contract_Ledger
begin

text \<open>
  The circuits of the DID contract, \<open>impl Contract\<close> and \<open>pure_circuits\<close> in
  \<open>midnight-did-runtime/src/contract/generated.rs\<close>. A circuit is a function from a circuit context to
  an error or a result with the context it leaves; the definitions follow the code call by call:
  every reading program, assertion, helper circuit and writing program, in the order of the code, the
  programs that do nothing included.
\<close>

section \<open>Circuits as state-passing functions\<close>

type_synonym ('ps, 'q, 'a) circuit =
  "('ps, 'q) circuit_context \<Rightarrow> compact_error + 'a \<times> ('ps, 'q) circuit_context"

definition cret :: "'a \<Rightarrow> ('ps, 'q, 'a) circuit" where
  "cret x = (\<lambda>ctx. Inr (x, ctx))"

definition cbind :: "('ps, 'q, 'a) circuit \<Rightarrow> ('a \<Rightarrow> ('ps, 'q, 'b) circuit) \<Rightarrow> ('ps, 'q, 'b) circuit" where
  "cbind c f = (\<lambda>ctx. case c ctx of Inl e \<Rightarrow> Inl e | Inr (x, ctx') \<Rightarrow> f x ctx')"

definition clift :: "compact_error + 'a \<Rightarrow> ('ps, 'q, 'a) circuit" where
  "clift r = (\<lambda>ctx. case r of Inl e \<Rightarrow> Inl e | Inr x \<Rightarrow> Inr (x, ctx))"

text \<open>\<open>compact_assert!\<close>\<close>

definition compact_assert :: "bool \<Rightarrow> string \<Rightarrow> compact_error + unit" where
  "compact_assert b msg = (if b then Inr () else Inl (AssertionFailed msg))"

definition cassert :: "bool \<Rightarrow> string \<Rightarrow> ('ps, 'q, unit) circuit" where
  "cassert b msg = clift (compact_assert b msg)"

text \<open>
  One reading program: \<open>query_for_read\<close>, whose error is formatted, the last event, which must be a
  \<open>Read\<close>, and the decoder of the expected type.
\<close>

definition query_read ::
  "('ps, 'p, 'q, 'st, 'fr, 'sig) runtime \<Rightarrow> 'q \<Rightarrow> ledger_read \<Rightarrow> ('p cell \<Rightarrow> 'a option) \<Rightarrow> compact_error + 'a" where
  "query_read R q rd decode =
     (case rt_read R q (read_ops rd) of
        Inl e \<Rightarrow> Inl (LedgerQueryFailed e)
      | Inr es \<Rightarrow>
          (if es = [] then Inl ExpectedReadEvent
           else case last es of
                  ReadEvent c \<Rightarrow> (case decode c of Some x \<Rightarrow> Inr x | None \<Rightarrow> Inl (RuntimeError ''decode''))
                | LogEvent \<Rightarrow> Inl ExpectedReadEvent))"

fun decode_bool :: "'p cell \<Rightarrow> bool option" where
  "decode_bool (CellBool b) = Some b" | "decode_bool _ = None"

fun decode_u64 :: "'p cell \<Rightarrow> u64 option" where
  "decode_u64 (CellU64 n) = Some n" | "decode_u64 _ = None"

fun decode_u32 :: "'p cell \<Rightarrow> u32 option" where
  "decode_u32 (CellU32 n) = Some n" | "decode_u32 _ = None"

fun decode_jubjub_point :: "'p cell \<Rightarrow> 'p option" where
  "decode_jubjub_point (CellPoint p) = Some p" | "decode_jubjub_point _ = None"

fun decode_address :: "'p cell \<Rightarrow> c_address option" where
  "decode_address (CellAddress a) = Some a" | "decode_address _ = None"

fun decode_method :: "'p cell \<Rightarrow> c_verification_method option" where
  "decode_method (CellMethod m) = Some m" | "decode_method _ = None"

fun decode_schnorr :: "'p cell \<Rightarrow> 'p c_schnorr_method option" where
  "decode_schnorr (CellSchnorr m) = Some m" | "decode_schnorr _ = None"

definition cread ::
  "('ps, 'p, 'q, 'st, 'fr, 'sig) runtime \<Rightarrow> ledger_read \<Rightarrow> ('p cell \<Rightarrow> 'a option) \<Rightarrow> ('ps, 'q, 'a) circuit" where
  "cread R rd decode = (\<lambda>ctx. clift (query_read R (cc_query ctx) rd decode) ctx)"

definition cmember ::
  "('ps, 'p, 'q, 'st, 'fr, 'sig) runtime \<Rightarrow> nat \<Rightarrow> string \<Rightarrow> ('ps, 'q, bool) circuit" where
  "cmember R i k = cread R (ReadMember i k) decode_bool"

text \<open>The short-circuit \<open>||\<close> of reads.\<close>

definition cor :: "('ps, 'q, bool) circuit \<Rightarrow> ('ps, 'q, bool) circuit \<Rightarrow> ('ps, 'q, bool) circuit" where
  "cor a b = cbind a (\<lambda>x. if x then cret True else b)"

text \<open>\<open>query_for_verify\<close> with the program of the writes; the context is replaced by the result's.\<close>

definition cverify ::
  "('ps, 'p, 'q, 'st, 'fr, 'sig) runtime \<Rightarrow> 'p ledger_write list \<Rightarrow> ('ps, 'q, unit) circuit" where
  "cverify R ws = (\<lambda>ctx.
     case rt_verify R (cc_query ctx) (program ws) of
       Inl e \<Rightarrow> Inl (RuntimeError e)
     | Inr q \<Rightarrow> Inr ((), ctx\<lparr>cc_query := q\<rparr>))"

section \<open>Authorization digests\<close>

text \<open>
  Names are 32-byte literals in the code: the text, filled up with zeros. The functions of
  \<open>pure_circuits\<close> that compute digests never fail; their \<open>Ok\<close> is left out.
\<close>

definition padded32 :: "string \<Rightarrow> bytes" where
  "padded32 s = map of_char s @ replicate (32 - length s) 0"

definition controller_operation_hash :: "('ps, 'p, 'q, 'st, 'fr, 'sig) runtime \<Rightarrow> string \<Rightarrow> 'fr" where
  "controller_operation_hash R name =
     rt_hash R [(alignment_authorization_operation,
                 value_authorization_operation \<lparr>cao_name = padded32 name\<rparr>)]"

definition controller_no_args_hash :: "('ps, 'p, 'q, 'st, 'fr, 'sig) runtime \<Rightarrow> 'fr" where
  "controller_no_args_hash R =
     rt_hash R [(alignment_authorization_no_args,
                 value_authorization_no_args \<lparr>can_domain = padded32 ''no-args''\<rparr>)]"

definition controller_authorization_digest ::
  "('ps, 'p, 'q, 'st, 'fr, 'sig) runtime \<Rightarrow> c_address \<Rightarrow> u64 \<Rightarrow> 'fr \<Rightarrow> 'fr \<Rightarrow> 'fr digest4" where
  "controller_authorization_digest R contract_id expected_version operation_hash args_hash =
     (rt_hash R [(alignment_authorization_domain,
                  value_authorization_domain \<lparr>cad_domain = padded32 ''midnight-did-ctrl-sig:v1''\<rparr>)],
      rt_hash R [(alignment_authorization_state,
                  value_authorization_state
                    \<lparr>cas_contract_id = contract_id, cas_version = expected_version\<rparr>)],
      operation_hash,
      args_hash)"

definition rotate_controller_key_authorization_digest ::
  "('ps, 'p, 'q, 'st, 'fr, 'sig) runtime \<Rightarrow>
   c_address \<Rightarrow> u64 \<Rightarrow> 'p \<Rightarrow> 'fr digest4" where
  "rotate_controller_key_authorization_digest R contract_id expected_version pk =
     controller_authorization_digest R contract_id expected_version
       (controller_operation_hash R ''rotateControllerKey'')
       (rt_hash R [(alignment_rotate_controller_key_args,
                  value_rotate_controller_key_args
                    \<lparr>rot_public_key_x = rt_point_x R pk, rot_public_key_y = rt_point_y R pk\<rparr>)])"

definition recover_controller_key_authorization_digest ::
  "('ps, 'p, 'q, 'st, 'fr, 'sig) runtime \<Rightarrow>
   c_address \<Rightarrow> u64 \<Rightarrow> 'p \<Rightarrow> 'fr digest4" where
  "recover_controller_key_authorization_digest R contract_id expected_version pk =
     controller_authorization_digest R contract_id expected_version
       (controller_operation_hash R ''recoverControllerKey'')
       (rt_hash R [(alignment_recover_controller_key_args,
                  value_recover_controller_key_args
                    \<lparr>rca_public_key_x = rt_point_x R pk, rca_public_key_y = rt_point_y R pk\<rparr>)])"

definition set_also_known_as_authorization_digest ::
  "('ps, 'p, 'q, 'st, 'fr, 'sig) runtime \<Rightarrow>
   c_address \<Rightarrow> u64 \<Rightarrow> string \<Rightarrow> c_set_mutation \<Rightarrow> 'fr digest4" where
  "set_also_known_as_authorization_digest R contract_id expected_version value mutation =
     controller_authorization_digest R contract_id expected_version
       (controller_operation_hash R ''setAlsoKnownAs'')
       (rt_hash R [(alignment_set_also_known_as_args,
                  value_set_also_known_as_args
                    \<lparr>saa_value = value, saa_mutation = mutation\<rparr>)])"

definition set_verification_method_authorization_digest ::
  "('ps, 'p, 'q, 'st, 'fr, 'sig) runtime \<Rightarrow>
   c_address \<Rightarrow> u64 \<Rightarrow> c_verification_method \<Rightarrow> c_map_mutation \<Rightarrow> 'fr digest4" where
  "set_verification_method_authorization_digest R contract_id expected_version vm mutation =
     controller_authorization_digest R contract_id expected_version
       (controller_operation_hash R ''setVerificationMethod'')
       (rt_hash R [(alignment_set_method_args,
                  value_set_method_args
                    \<lparr>sma_verification_method = vm, sma_mutation = mutation\<rparr>)])"

definition remove_verification_method_authorization_digest ::
  "('ps, 'p, 'q, 'st, 'fr, 'sig) runtime \<Rightarrow>
   c_address \<Rightarrow> u64 \<Rightarrow> string \<Rightarrow> 'fr digest4" where
  "remove_verification_method_authorization_digest R contract_id expected_version method_id =
     controller_authorization_digest R contract_id expected_version
       (controller_operation_hash R ''removeVerificationMethod'')
       (rt_hash R [(alignment_remove_method_args,
                  value_remove_method_args
                    \<lparr>rma_id = method_id\<rparr>)])"

definition set_schnorr_jubjub_verification_method_authorization_digest ::
  "('ps, 'p, 'q, 'st, 'fr, 'sig) runtime \<Rightarrow>
   c_address \<Rightarrow> u64 \<Rightarrow> 'p c_schnorr_method \<Rightarrow> c_map_mutation \<Rightarrow> 'fr digest4" where
  "set_schnorr_jubjub_verification_method_authorization_digest R contract_id expected_version vm mutation =
     controller_authorization_digest R contract_id expected_version
       (controller_operation_hash R ''setSchnorrJubjubVM'')
       (rt_hash R [(alignment_set_schnorr_method_args,
                  value_set_schnorr_method_args
                    \<lparr>ssa_id = csm_id vm, ssa_public_key_x = rt_point_x R (csm_public_key vm),
                     ssa_public_key_y = rt_point_y R (csm_public_key vm), ssa_mutation = mutation\<rparr>)])"

definition remove_schnorr_jubjub_verification_method_authorization_digest ::
  "('ps, 'p, 'q, 'st, 'fr, 'sig) runtime \<Rightarrow>
   c_address \<Rightarrow> u64 \<Rightarrow> string \<Rightarrow> 'fr digest4" where
  "remove_schnorr_jubjub_verification_method_authorization_digest R contract_id expected_version method_id =
     controller_authorization_digest R contract_id expected_version
       (controller_operation_hash R ''removeSchnorrJubjubVM'')
       (rt_hash R [(alignment_remove_schnorr_method_args,
                  value_remove_schnorr_method_args
                    \<lparr>rsa_id = method_id\<rparr>)])"

definition set_verification_method_relation_authorization_digest ::
  "('ps, 'p, 'q, 'st, 'fr, 'sig) runtime \<Rightarrow>
   c_address \<Rightarrow> u64 \<Rightarrow> c_relation \<Rightarrow> string \<Rightarrow> c_set_mutation \<Rightarrow> 'fr digest4" where
  "set_verification_method_relation_authorization_digest R contract_id expected_version relation method_id mutation =
     controller_authorization_digest R contract_id expected_version
       (controller_operation_hash R ''setVMRelation'')
       (rt_hash R [(alignment_set_relation_args,
                  value_set_relation_args
                    \<lparr>sra_relation = relation, sra_method_id = method_id, sra_mutation = mutation\<rparr>)])"

definition set_service_authorization_digest ::
  "('ps, 'p, 'q, 'st, 'fr, 'sig) runtime \<Rightarrow>
   c_address \<Rightarrow> u64 \<Rightarrow> c_service \<Rightarrow> c_map_mutation \<Rightarrow> 'fr digest4" where
  "set_service_authorization_digest R contract_id expected_version service mutation =
     controller_authorization_digest R contract_id expected_version
       (controller_operation_hash R ''setService'')
       (rt_hash R [(alignment_set_service_args,
                  value_set_service_args
                    \<lparr>ssv_service = service, ssv_mutation = mutation\<rparr>)])"

definition remove_service_authorization_digest ::
  "('ps, 'p, 'q, 'st, 'fr, 'sig) runtime \<Rightarrow>
   c_address \<Rightarrow> u64 \<Rightarrow> string \<Rightarrow> 'fr digest4" where
  "remove_service_authorization_digest R contract_id expected_version service_id =
     controller_authorization_digest R contract_id expected_version
       (controller_operation_hash R ''removeService'')
       (rt_hash R [(alignment_remove_service_args,
                  value_remove_service_args
                    \<lparr>rsv_id = service_id\<rparr>)])"

definition deactivate_authorization_digest ::
  "('ps, 'p, 'q, 'st, 'fr, 'sig) runtime \<Rightarrow>
   c_address \<Rightarrow> u64 \<Rightarrow> 'fr digest4" where
  "deactivate_authorization_digest R contract_id expected_version =
     controller_authorization_digest R contract_id expected_version
       (controller_operation_hash R ''deactivate'')
       (controller_no_args_hash R)"

section \<open>Checks without the ledger\<close>

definition assert_map_mutation_defined :: "c_map_mutation \<Rightarrow> compact_error + unit" where
  "assert_map_mutation_defined mutation =
     compact_assert (mutation = CMM_Insert \<or> mutation = CMM_Update)
       ''Map mutation must be Insert or Update''"

definition assert_set_mutation_defined :: "c_set_mutation \<Rightarrow> compact_error + unit" where
  "assert_set_mutation_defined mutation =
     compact_assert (mutation = CSM_Insert \<or> mutation = CSM_Remove)
       ''Set mutation must be Insert or Remove''"

definition assert_supported_verification_method :: "c_verification_method \<Rightarrow> compact_error + unit" where
  "assert_supported_verification_method vm =
     res_bind (compact_assert (cvm_typ vm = CVT_JsonWebKey)
                 ''Only JsonWebKey verification methods are supported'') (\<lambda>_.
     (let jwk = cvm_public_key_jwk vm in
      if cj_kty jwk = CK_OKP then
        compact_assert (cj_crv jwk = CC_Ed25519 \<or> cj_crv jwk = CC_X25519 \<or>
                        cj_crv jwk = CC_BLS12381G1 \<or> cj_crv jwk = CC_BLS12381G2)
          ''OKP keys must use Ed25519, X25519, BLS12381G1, or BLS12381G2''
      else if cj_kty jwk = CK_EC then
        compact_assert (cj_crv jwk = CC_P256 \<or> cj_crv jwk = CC_Secp256k1)
          ''EC keys must use P-256 or secp256k1; use SchnorrJubjub methods for Jubjub''
      else
        compact_assert False
          ''Only OKP (Ed25519/X25519/BLS12381G1/BLS12381G2) and EC (P-256/secp256k1) keys are supported''))"

definition is_signing_verification_method_relation :: "c_relation \<Rightarrow> bool" where
  "is_signing_verification_method_relation relation \<longleftrightarrow>
     relation = CR_Authentication \<or> relation = CR_AssertionMethod \<or>
     relation = CR_CapabilityInvocation \<or> relation = CR_CapabilityDelegation"

section \<open>Helper circuits\<close>

definition schnorr_verify_digest ::
  "('ps, 'p, 'q, 'st, 'fr, 'sig) runtime \<Rightarrow> 'fr digest4 \<Rightarrow> 'sig \<Rightarrow> 'p \<Rightarrow> ('ps, 'q, unit) circuit" where
  "schnorr_verify_digest R digest signature pk =
     cbind (\<lambda>ctx. case rt_schnorr_verify_jubjub R ctx digest signature pk of
                    Inl e \<Rightarrow> Inl (SchnorrRejected e)
                  | Inr ctx' \<Rightarrow> Inr ((), ctx')) (\<lambda>_.
     cverify R [])"

definition verification_method_exists :: "('ps, 'p, 'q, 'st, 'fr, 'sig) runtime \<Rightarrow> string \<Rightarrow> ('ps, 'q, bool) circuit" where
  "verification_method_exists R method_id = cor (cmember R 7 method_id) (cmember R 8 method_id)"

definition assert_controller ::
  "('ps, 'p, 'q, 'st, 'fr, 'sig) runtime \<Rightarrow> 'sig \<Rightarrow> u64 \<Rightarrow> 'fr digest4 \<Rightarrow> ('ps, 'q, unit) circuit" where
  "assert_controller R signature expected_version digest =
     cbind (cread R (ReadField 1 1 True) decode_u64) (\<lambda>version.
     cbind (cassert (expected_version = version) ''Controller authorization version is stale'') (\<lambda>_.
     cbind (cread R (ReadField 0 1 False) decode_jubjub_point) (\<lambda>pk.
     cbind (schnorr_verify_digest R digest signature pk) (\<lambda>_.
     cverify R []))))"

definition assert_controller_can_update ::
  "('ps, 'p, 'q, 'st, 'fr, 'sig) runtime \<Rightarrow> 'sig \<Rightarrow> u64 \<Rightarrow> 'fr digest4 \<Rightarrow> ('ps, 'q, unit) circuit" where
  "assert_controller_can_update R signature expected_version digest =
     cbind (assert_controller R signature expected_version digest) (\<lambda>_.
     cbind (cread R (ReadField 1 5 False) decode_bool) (\<lambda>active.
     cbind (cassert active ''Contract is not active'') (\<lambda>_.
     cverify R [])))"

definition assert_recovery_can_update ::
  "('ps, 'p, 'q, 'st, 'fr, 'sig) runtime \<Rightarrow> 'sig \<Rightarrow> u64 \<Rightarrow> 'fr digest4 \<Rightarrow> ('ps, 'q, unit) circuit" where
  "assert_recovery_can_update R signature expected_version digest =
     cbind (cread R (ReadField 1 1 True) decode_u64) (\<lambda>version.
     cbind (cassert (expected_version = version) ''Recovery authorization version is stale'') (\<lambda>_.
     cbind (cread R (ReadField 0 2 False) decode_jubjub_point) (\<lambda>pk.
     cbind (schnorr_verify_digest R digest signature pk) (\<lambda>_.
     cbind (cread R (ReadField 1 5 False) decode_bool) (\<lambda>active.
     cbind (cassert active ''Contract is not active'') (\<lambda>_.
     cverify R []))))))"

text \<open>
  The comparison of a key with the key in a field of group 0: the code reads the field again for the
  \<open>y\<close> coordinate when the \<open>x\<close> coordinates agree.
\<close>

definition key_differs_from :: "('ps, 'p, 'q, 'st, 'fr, 'sig) runtime \<Rightarrow>
   'p \<Rightarrow> nat \<Rightarrow> ('ps, 'q, bool) circuit" where
  "key_differs_from R pk i =
     cor (cbind (cread R (ReadField 0 i False) decode_jubjub_point)
            (\<lambda>k. cret (rt_point_x R pk \<noteq> rt_point_x R k)))
         (cbind (cread R (ReadField 0 i False) decode_jubjub_point)
            (\<lambda>k. cret (rt_point_y R pk \<noteq> rt_point_y R k)))"

definition assert_controller_public_key_changes :: "('ps, 'p, 'q, 'st, 'fr, 'sig) runtime \<Rightarrow> 'p \<Rightarrow> ('ps, 'q, unit) circuit" where
  "assert_controller_public_key_changes R pk =
     cbind (key_differs_from R pk 1) (\<lambda>differs.
     cbind (cassert differs ''New controller key matches current controller key'') (\<lambda>_.
     cverify R []))"

definition assert_controller_public_key_distinct_from_recovery_authority ::
  "('ps, 'p, 'q, 'st, 'fr, 'sig) runtime \<Rightarrow> 'p \<Rightarrow> ('ps, 'q, unit) circuit" where
  "assert_controller_public_key_distinct_from_recovery_authority R pk =
     cbind (key_differs_from R pk 2) (\<lambda>differs.
     cbind (cassert differs ''New controller key matches recovery authority key'') (\<lambda>_.
     cverify R []))"

definition ask_timestamp :: "('ps, 'p, 'q, 'fr) witnesses \<Rightarrow> ('ps, 'q, u64) circuit" where
  "ask_timestamp W = (\<lambda>ctx.
     case current_timestamp W (cc_query ctx) (cc_private ctx) of
       (ps, t) \<Rightarrow> Inr (t, ctx\<lparr>cc_private := ps\<rparr>))"

definition record_update :: "('ps, 'p, 'q, 'st, 'fr, 'sig) runtime \<Rightarrow> ('ps, 'p, 'q, 'fr) witnesses \<Rightarrow> ('ps, 'q, unit) circuit" where
  "record_update R W =
     cbind (ask_timestamp W) (\<lambda>t.
     cverify R [Increment 6 1, Increment 1 1, WriteField 1 3 (CellU64 t)])"

text \<open>The set of a relation in group 1.\<close>

definition relation_index :: "c_relation \<Rightarrow> nat option" where
  "relation_index relation =
     (if relation = CR_Authentication then Some 9
      else if relation = CR_AssertionMethod then Some 10
      else if relation = CR_KeyAgreement then Some 11
      else if relation = CR_CapabilityInvocation then Some 12
      else if relation = CR_CapabilityDelegation then Some 13
      else None)"

definition verification_method_relation_member ::
  "('ps, 'p, 'q, 'st, 'fr, 'sig) runtime \<Rightarrow> c_relation \<Rightarrow> string \<Rightarrow> ('ps, 'q, bool) circuit" where
  "verification_method_relation_member R relation method_id =
     (case relation_index relation of
        Some i \<Rightarrow> cmember R i method_id
      | None \<Rightarrow> cret False)"

definition insert_verification_method_relation ::
  "('ps, 'p, 'q, 'st, 'fr, 'sig) runtime \<Rightarrow> c_relation \<Rightarrow> string \<Rightarrow> ('ps, 'q, unit) circuit" where
  "insert_verification_method_relation R relation method_id =
     (case relation_index relation of
        Some i \<Rightarrow> cverify R [InsertKey i method_id]
      | None \<Rightarrow> cverify R [])"

definition remove_verification_method_relation_from_ledger ::
  "('ps, 'p, 'q, 'st, 'fr, 'sig) runtime \<Rightarrow> c_relation \<Rightarrow> string \<Rightarrow> ('ps, 'q, unit) circuit" where
  "remove_verification_method_relation_from_ledger R relation method_id =
     (case relation_index relation of
        Some i \<Rightarrow> cverify R [RemoveKey i method_id]
      | None \<Rightarrow> cverify R [])"

definition assert_not_member :: "('ps, 'p, 'q, 'st, 'fr, 'sig) runtime \<Rightarrow> nat \<Rightarrow> string \<Rightarrow> string \<Rightarrow> ('ps, 'q, unit) circuit" where
  "assert_not_member R i k msg = cbind (cmember R i k) (\<lambda>b. cassert (\<not> b) msg)"

definition assert_member :: "('ps, 'p, 'q, 'st, 'fr, 'sig) runtime \<Rightarrow> nat \<Rightarrow> string \<Rightarrow> string \<Rightarrow> ('ps, 'q, unit) circuit" where
  "assert_member R i k msg = cbind (cmember R i k) (\<lambda>b. cassert b msg)"

definition assert_verification_method_is_not_referenced ::
  "('ps, 'p, 'q, 'st, 'fr, 'sig) runtime \<Rightarrow> string \<Rightarrow> ('ps, 'q, unit) circuit" where
  "assert_verification_method_is_not_referenced R k =
     cbind (assert_not_member R 9 k ''Verification method still referenced in authenticationRelation'') (\<lambda>_.
     cbind (assert_not_member R 10 k ''Verification method still referenced in assertionMethodRelation'') (\<lambda>_.
     cbind (assert_not_member R 11 k ''Verification method still referenced in keyAgreementRelation'') (\<lambda>_.
     cbind (assert_not_member R 12 k
              ''Verification method still referenced in capabilityInvocationRelation'') (\<lambda>_.
     cbind (assert_not_member R 13 k
              ''Verification method still referenced in capabilityDelegationRelation'') (\<lambda>_.
     cverify R [])))))"

definition assert_verification_method_relation_compatible ::
  "('ps, 'p, 'q, 'st, 'fr, 'sig) runtime \<Rightarrow> c_relation \<Rightarrow> string \<Rightarrow> ('ps, 'q, unit) circuit" where
  "assert_verification_method_relation_compatible R relation k =
     (if relation = CR_KeyAgreement then
        cbind (assert_member R 7 k ''KeyAgreement requires an agreement verification method'') (\<lambda>_.
        cbind (cread R (ReadEntry 7 k) decode_method) (\<lambda>vm.
        cbind (cassert (cj_crv (cvm_public_key_jwk vm) = CC_X25519)
                 ''KeyAgreement requires an X25519 verification method'') (\<lambda>_.
        cverify R [])))
      else if is_signing_verification_method_relation relation then
        cbind (cor (cbind (cmember R 7 k) (\<lambda>b. cret (\<not> b)))
                   (cbind (cread R (ReadEntry 7 k) decode_method)
                      (\<lambda>vm. cret (cj_crv (cvm_public_key_jwk vm) \<noteq> CC_X25519)))) (\<lambda>ok.
        cbind (cassert ok ''Signing verification relations cannot use X25519 verification methods'') (\<lambda>_.
        cverify R []))
      else cverify R [])"

definition assert_existing_verification_method_relations_compatible ::
  "('ps, 'p, 'q, 'st, 'fr, 'sig) runtime \<Rightarrow> string \<Rightarrow> c_curve_type \<Rightarrow> ('ps, 'q, unit) circuit" where
  "assert_existing_verification_method_relations_compatible R k curve =
     cbind (cbind (cmember R 11 k) (\<lambda>b.
       if b then
         cbind (cassert (curve = CC_X25519)
                  ''Existing KeyAgreement relation requires an X25519 verification method'') (\<lambda>_.
         cverify R [])
       else cverify R [])) (\<lambda>_.
     cbind (cor (cor (cor (cmember R 9 k) (cmember R 10 k)) (cmember R 12 k)) (cmember R 13 k)) (\<lambda>b.
       if b then
         cbind (cassert (curve \<noteq> CC_X25519)
                  ''Existing signing verification relations cannot use X25519 verification methods'') (\<lambda>_.
         cverify R [])
       else cverify R []))"

section \<open>The circuits\<close>

text \<open>The contract's identifier, read by every circuit for its digest.\<close>

definition read_id :: "('ps, 'p, 'q, 'st, 'fr, 'sig) runtime \<Rightarrow> ('ps, 'q, c_address) circuit" where
  "read_id R = cread R (ReadField 0 3 False) decode_address"

definition rotate_controller_key_circuit ::
  "('ps, 'p, 'q, 'st, 'fr, 'sig) runtime \<Rightarrow> ('ps, 'p, 'q, 'fr) witnesses \<Rightarrow>
   'p \<Rightarrow> 'sig \<Rightarrow> u64 \<Rightarrow> ('ps, 'q, unit) circuit" where
  "rotate_controller_key_circuit R W pk signature expected_version =
     cbind (read_id R) (\<lambda>cid.
     cbind (assert_controller_can_update R signature expected_version
              (rotate_controller_key_authorization_digest R cid expected_version pk)) (\<lambda>_.
     cbind (assert_controller_public_key_changes R pk) (\<lambda>_.
     cbind (assert_controller_public_key_distinct_from_recovery_authority R pk) (\<lambda>_.
     cbind (record_update R W) (\<lambda>_.
     cverify R [WriteField 0 1 (CellPoint pk)])))))"

definition recover_controller_key_circuit ::
  "('ps, 'p, 'q, 'st, 'fr, 'sig) runtime \<Rightarrow> ('ps, 'p, 'q, 'fr) witnesses \<Rightarrow>
   'p \<Rightarrow> 'sig \<Rightarrow> u64 \<Rightarrow> ('ps, 'q, unit) circuit" where
  "recover_controller_key_circuit R W pk signature expected_version =
     cbind (read_id R) (\<lambda>cid.
     cbind (assert_recovery_can_update R signature expected_version
              (recover_controller_key_authorization_digest R cid expected_version pk)) (\<lambda>_.
     cbind (assert_controller_public_key_changes R pk) (\<lambda>_.
     cbind (assert_controller_public_key_distinct_from_recovery_authority R pk) (\<lambda>_.
     cbind (record_update R W) (\<lambda>_.
     cverify R [WriteField 0 1 (CellPoint pk)])))))"

definition set_also_known_as_circuit ::
  "('ps, 'p, 'q, 'st, 'fr, 'sig) runtime \<Rightarrow> ('ps, 'p, 'q, 'fr) witnesses \<Rightarrow>
   string \<Rightarrow> c_set_mutation \<Rightarrow> 'sig \<Rightarrow> u64 \<Rightarrow> ('ps, 'q, unit) circuit" where
  "set_also_known_as_circuit R W alias mutation signature expected_version =
     cbind (read_id R) (\<lambda>cid.
     cbind (assert_controller_can_update R signature expected_version
              (set_also_known_as_authorization_digest R cid expected_version alias mutation)) (\<lambda>_.
     cbind (clift (assert_set_mutation_defined mutation)) (\<lambda>_.
     cbind (if mutation = CSM_Insert then
              cbind (assert_not_member R 0 alias ''alsoKnownAs value already exists'') (\<lambda>_.
              cverify R [InsertKey 0 alias])
            else if mutation = CSM_Remove then
              cbind (assert_member R 0 alias ''alsoKnownAs value does not exist'') (\<lambda>_.
              cverify R [RemoveKey 0 alias])
            else cverify R []) (\<lambda>_.
     record_update R W))))"

definition set_verification_method_circuit ::
  "('ps, 'p, 'q, 'st, 'fr, 'sig) runtime \<Rightarrow> ('ps, 'p, 'q, 'fr) witnesses \<Rightarrow>
   c_verification_method \<Rightarrow> c_map_mutation \<Rightarrow> 'sig \<Rightarrow> u64 \<Rightarrow> ('ps, 'q, unit) circuit" where
  "set_verification_method_circuit R W vm mutation signature expected_version =
     cbind (read_id R) (\<lambda>cid.
     cbind (assert_controller_can_update R signature expected_version
              (set_verification_method_authorization_digest R cid expected_version vm mutation)) (\<lambda>_.
     cbind (clift (assert_map_mutation_defined mutation)) (\<lambda>_.
     cbind (clift (assert_supported_verification_method vm)) (\<lambda>_.
     cbind (if mutation = CMM_Update then
              cbind (assert_member R 7 (cvm_id vm) ''Verification method does not exist'') (\<lambda>_.
              cbind (assert_existing_verification_method_relations_compatible R (cvm_id vm)
                       (cj_crv (cvm_public_key_jwk vm))) (\<lambda>_.
              cverify R [RemoveKey 7 (cvm_id vm)]))
            else if mutation = CMM_Insert then
              cbind (verification_method_exists R (cvm_id vm)) (\<lambda>b.
              cbind (cassert (\<not> b) ''Verification method already exists'') (\<lambda>_.
              cverify R []))
            else cverify R []) (\<lambda>_.
     cbind (cverify R [InsertEntry 7 (cvm_id vm) (CellMethod vm)]) (\<lambda>_.
     record_update R W))))))"

definition remove_verification_method_circuit ::
  "('ps, 'p, 'q, 'st, 'fr, 'sig) runtime \<Rightarrow> ('ps, 'p, 'q, 'fr) witnesses \<Rightarrow>
   string \<Rightarrow> 'sig \<Rightarrow> u64 \<Rightarrow> ('ps, 'q, unit) circuit" where
  "remove_verification_method_circuit R W method_id signature expected_version =
     cbind (read_id R) (\<lambda>cid.
     cbind (assert_controller_can_update R signature expected_version
              (remove_verification_method_authorization_digest R cid expected_version method_id)) (\<lambda>_.
     cbind (assert_member R 7 method_id ''Verification method does not exist'') (\<lambda>_.
     cbind (assert_verification_method_is_not_referenced R method_id) (\<lambda>_.
     cbind (record_update R W) (\<lambda>_.
     cverify R [RemoveKey 7 method_id])))))"

definition set_schnorr_jubjub_verification_method_circuit ::
  "('ps, 'p, 'q, 'st, 'fr, 'sig) runtime \<Rightarrow> ('ps, 'p, 'q, 'fr) witnesses \<Rightarrow>
   'p c_schnorr_method \<Rightarrow> c_map_mutation \<Rightarrow> 'sig \<Rightarrow> u64 \<Rightarrow> ('ps, 'q, unit) circuit" where
  "set_schnorr_jubjub_verification_method_circuit R W vm mutation signature expected_version =
     cbind (read_id R) (\<lambda>cid.
     cbind (assert_controller_can_update R signature expected_version
              (set_schnorr_jubjub_verification_method_authorization_digest R cid expected_version vm
                 mutation)) (\<lambda>_.
     cbind (clift (assert_map_mutation_defined mutation)) (\<lambda>_.
     cbind (if mutation = CMM_Update then
              cbind (assert_member R 8 (csm_id vm) ''Verification method does not exist'') (\<lambda>_.
              cverify R [RemoveKey 8 (csm_id vm)])
            else if mutation = CMM_Insert then
              cbind (verification_method_exists R (csm_id vm)) (\<lambda>b.
              cbind (cassert (\<not> b) ''Verification method already exists'') (\<lambda>_.
              cverify R []))
            else cverify R []) (\<lambda>_.
     cbind (cverify R [InsertEntry 8 (csm_id vm) (CellSchnorr vm)]) (\<lambda>_.
     record_update R W)))))"

definition remove_schnorr_jubjub_verification_method_circuit ::
  "('ps, 'p, 'q, 'st, 'fr, 'sig) runtime \<Rightarrow> ('ps, 'p, 'q, 'fr) witnesses \<Rightarrow>
   string \<Rightarrow> 'sig \<Rightarrow> u64 \<Rightarrow> ('ps, 'q, unit) circuit" where
  "remove_schnorr_jubjub_verification_method_circuit R W method_id signature expected_version =
     cbind (read_id R) (\<lambda>cid.
     cbind (assert_controller_can_update R signature expected_version
              (remove_schnorr_jubjub_verification_method_authorization_digest R cid expected_version
                 method_id)) (\<lambda>_.
     cbind (assert_member R 8 method_id ''Verification method does not exist'') (\<lambda>_.
     cbind (assert_verification_method_is_not_referenced R method_id) (\<lambda>_.
     cbind (record_update R W) (\<lambda>_.
     cverify R [RemoveKey 8 method_id])))))"

definition verify_schnorr_jubjub_digest_signature_circuit ::
  "('ps, 'p, 'q, 'st, 'fr, 'sig) runtime \<Rightarrow> string \<Rightarrow> 'fr digest4 \<Rightarrow> 'sig \<Rightarrow> ('ps, 'q, unit) circuit" where
  "verify_schnorr_jubjub_digest_signature_circuit R method_id digest signature =
     cbind (cread R (ReadField 1 5 False) decode_bool) (\<lambda>active.
     cbind (cassert active ''Contract is not active'') (\<lambda>_.
     cbind (assert_member R 8 method_id ''Verification method does not exist'') (\<lambda>_.
     cbind (cread R (ReadEntry 8 method_id) decode_schnorr) (\<lambda>vm.
     cbind (schnorr_verify_digest R digest signature (csm_public_key vm)) (\<lambda>_.
     cverify R [])))))"

definition set_verification_method_relation_circuit ::
  "('ps, 'p, 'q, 'st, 'fr, 'sig) runtime \<Rightarrow> ('ps, 'p, 'q, 'fr) witnesses \<Rightarrow>
   c_relation \<Rightarrow> string \<Rightarrow> c_set_mutation \<Rightarrow> 'sig \<Rightarrow> u64 \<Rightarrow> ('ps, 'q, unit) circuit" where
  "set_verification_method_relation_circuit R W relation method_id mutation signature expected_version =
     cbind (read_id R) (\<lambda>cid.
     cbind (assert_controller_can_update R signature expected_version
              (set_verification_method_relation_authorization_digest R cid expected_version relation
                 method_id mutation)) (\<lambda>_.
     cbind (clift (assert_set_mutation_defined mutation)) (\<lambda>_.
     cbind (cor (cmember R 7 method_id) (cmember R 8 method_id)) (\<lambda>known.
     cbind (cassert known ''Verification method does not exist'') (\<lambda>_.
     cbind (cassert (relation \<noteq> CR_Undefined) ''Verification relation must be defined'') (\<lambda>_.
     cbind (verification_method_relation_member R relation method_id) (\<lambda>current_present.
     cbind (if mutation = CSM_Insert then
              cbind (cassert (\<not> current_present) ''Verification method relation already exists'') (\<lambda>_.
              cbind (assert_verification_method_relation_compatible R relation method_id) (\<lambda>_.
              cbind (insert_verification_method_relation R relation method_id) (\<lambda>_.
              cverify R [])))
            else if mutation = CSM_Remove then
              cbind (cassert current_present ''Verification method relation does not exist'') (\<lambda>_.
              cbind (remove_verification_method_relation_from_ledger R relation method_id) (\<lambda>_.
              cverify R []))
            else cverify R []) (\<lambda>_.
     record_update R W))))))))"

definition set_service_circuit ::
  "('ps, 'p, 'q, 'st, 'fr, 'sig) runtime \<Rightarrow> ('ps, 'p, 'q, 'fr) witnesses \<Rightarrow>
   c_service \<Rightarrow> c_map_mutation \<Rightarrow> 'sig \<Rightarrow> u64 \<Rightarrow> ('ps, 'q, unit) circuit" where
  "set_service_circuit R W service mutation signature expected_version =
     cbind (read_id R) (\<lambda>cid.
     cbind (assert_controller_can_update R signature expected_version
              (set_service_authorization_digest R cid expected_version service mutation)) (\<lambda>_.
     cbind (clift (assert_map_mutation_defined mutation)) (\<lambda>_.
     cbind (if mutation = CMM_Update then
              cbind (assert_member R 14 (cs_id service) ''Service with a given id does not exist'') (\<lambda>_.
              cverify R [RemoveKey 14 (cs_id service)])
            else if mutation = CMM_Insert then
              cbind (assert_not_member R 14 (cs_id service) ''Service with a given id already exists'') (\<lambda>_.
              cverify R [])
            else cverify R []) (\<lambda>_.
     cbind (cverify R [InsertEntry 14 (cs_id service) (CellService service)]) (\<lambda>_.
     record_update R W)))))"

definition remove_service_circuit ::
  "('ps, 'p, 'q, 'st, 'fr, 'sig) runtime \<Rightarrow> ('ps, 'p, 'q, 'fr) witnesses \<Rightarrow>
   string \<Rightarrow> 'sig \<Rightarrow> u64 \<Rightarrow> ('ps, 'q, unit) circuit" where
  "remove_service_circuit R W service_id signature expected_version =
     cbind (read_id R) (\<lambda>cid.
     cbind (assert_controller_can_update R signature expected_version
              (remove_service_authorization_digest R cid expected_version service_id)) (\<lambda>_.
     cbind (assert_member R 14 service_id ''Service with a given id does not exist'') (\<lambda>_.
     cbind (record_update R W) (\<lambda>_.
     cverify R [RemoveKey 14 service_id]))))"

definition deactivate_circuit ::
  "('ps, 'p, 'q, 'st, 'fr, 'sig) runtime \<Rightarrow> ('ps, 'p, 'q, 'fr) witnesses \<Rightarrow> 'sig \<Rightarrow> u64 \<Rightarrow>
   ('ps, 'q, unit) circuit" where
  "deactivate_circuit R W signature expected_version =
     cbind (read_id R) (\<lambda>cid.
     cbind (assert_controller R signature expected_version
              (deactivate_authorization_digest R cid expected_version)) (\<lambda>_.
     cbind (cread R (ReadField 1 5 False) decode_bool) (\<lambda>active.
     cbind (cassert active ''DID is already inactive'') (\<lambda>_.
     cbind (record_update R W) (\<lambda>_.
     cverify R [WriteField 1 5 (CellBool False), WriteField 1 4 (CellBool True)])))))"

section \<open>The constructor\<close>

definition ask_controller_key :: "('ps, 'p, 'q, 'fr) witnesses \<Rightarrow> ('ps, 'q, 'p) circuit" where
  "ask_controller_key W = (\<lambda>ctx.
     case local_controller_public_key W (cc_query ctx) (cc_private ctx) of
       (ps, k) \<Rightarrow> Inr (k, ctx\<lparr>cc_private := ps\<rparr>))"

definition ask_recovery_key :: "('ps, 'p, 'q, 'fr) witnesses \<Rightarrow> ('ps, 'q, 'p) circuit" where
  "ask_recovery_key W = (\<lambda>ctx.
     case local_recovery_authority_public_key W (cc_query ctx) (cc_private ctx) of
       (ps, k) \<Rightarrow> Inr (k, ctx\<lparr>cc_private := ps\<rparr>))"

text \<open>
  The body of \<open>initial_state\<close> on the context it builds, and the state and private state it returns.
\<close>

definition constructor_circuit :: "('ps, 'p, 'q, 'st, 'fr, 'sig) runtime \<Rightarrow> ('ps, 'p, 'q, 'fr) witnesses \<Rightarrow> ('ps, 'q, unit) circuit" where
  "constructor_circuit R W =
     cbind (cread R ReadSelf decode_address) (\<lambda>self.
     cbind (ask_controller_key W) (\<lambda>controller.
     cbind (ask_recovery_key W) (\<lambda>recovery.
     cbind (cverify R
              [WriteField 0 2 (CellPoint recovery), WriteField 0 1 (CellPoint controller),
               WriteField 1 4 (CellBool False), WriteField 1 5 (CellBool True),
               WriteField 0 3 (CellAddress self), WriteField 0 0 (CellU32 2)]) (\<lambda>_.
     cbind (cread R (ReadField 0 1 False) decode_jubjub_point) (\<lambda>pk.
     cbind (assert_controller_public_key_distinct_from_recovery_authority R pk) (\<lambda>_.
     cbind (ask_timestamp W) (\<lambda>timestamp.
     cverify R [WriteField 1 2 (CellU64 timestamp), WriteField 1 3 (CellU64 timestamp)])))))))"

definition initial_state :: "('ps, 'p, 'q, 'st, 'fr, 'sig) runtime \<Rightarrow> ('ps, 'p, 'q, 'fr) witnesses \<Rightarrow> 'ps \<Rightarrow> compact_error + 'st \<times> 'ps" where
  "initial_state R W ps =
     (case constructor_circuit R W
             \<lparr>cc_private = ps,
              cc_query = rt_query_context R (rt_new_array R (ledger_array (rt_point_default R)))
                           address_default\<rparr> of
        Inl e \<Rightarrow> Inl e
      | Inr (_, ctx) \<Rightarrow> Inr (rt_state R (cc_query ctx), cc_private ctx))"

section \<open>The ledger's accessors\<close>

text \<open>Each accessor reads a field of a state through a query context at the default address.\<close>

definition ledger_field ::
  "('ps, 'p, 'q, 'st, 'fr, 'sig) runtime \<Rightarrow> 'st \<Rightarrow> nat \<Rightarrow> nat \<Rightarrow> ('p cell \<Rightarrow> 'a option) \<Rightarrow> compact_error + 'a" where
  "ledger_field R st a i decode =
     query_read R (rt_query_context R st address_default) (ReadField a i True) decode"

definition ledger_contract_version :: "('ps, 'p, 'q, 'st, 'fr, 'sig) runtime \<Rightarrow> 'st \<Rightarrow> compact_error + u32" where
  "ledger_contract_version R st = ledger_field R st 0 0 decode_u32"

definition ledger_controller_public_key :: "('ps, 'p, 'q, 'st, 'fr, 'sig) runtime \<Rightarrow> 'st \<Rightarrow> compact_error + 'p" where
  "ledger_controller_public_key R st = ledger_field R st 0 1 decode_jubjub_point"

definition ledger_recovery_authority_public_key :: "('ps, 'p, 'q, 'st, 'fr, 'sig) runtime \<Rightarrow> 'st \<Rightarrow> compact_error + 'p" where
  "ledger_recovery_authority_public_key R st = ledger_field R st 0 2 decode_jubjub_point"

definition ledger_identifier :: "('ps, 'p, 'q, 'st, 'fr, 'sig) runtime \<Rightarrow> 'st \<Rightarrow> compact_error + c_address" where
  "ledger_identifier R st = ledger_field R st 0 3 decode_address"

definition ledger_version :: "('ps, 'p, 'q, 'st, 'fr, 'sig) runtime \<Rightarrow> 'st \<Rightarrow> compact_error + u64" where
  "ledger_version R st = ledger_field R st 1 1 decode_u64"

definition ledger_created :: "('ps, 'p, 'q, 'st, 'fr, 'sig) runtime \<Rightarrow> 'st \<Rightarrow> compact_error + u64" where
  "ledger_created R st = ledger_field R st 1 2 decode_u64"

definition ledger_updated :: "('ps, 'p, 'q, 'st, 'fr, 'sig) runtime \<Rightarrow> 'st \<Rightarrow> compact_error + u64" where
  "ledger_updated R st = ledger_field R st 1 3 decode_u64"

definition ledger_deactivated :: "('ps, 'p, 'q, 'st, 'fr, 'sig) runtime \<Rightarrow> 'st \<Rightarrow> compact_error + bool" where
  "ledger_deactivated R st = ledger_field R st 1 4 decode_bool"

definition ledger_active :: "('ps, 'p, 'q, 'st, 'fr, 'sig) runtime \<Rightarrow> 'st \<Rightarrow> compact_error + bool" where
  "ledger_active R st = ledger_field R st 1 5 decode_bool"

definition ledger_operation_count :: "('ps, 'p, 'q, 'st, 'fr, 'sig) runtime \<Rightarrow> 'st \<Rightarrow> compact_error + u64" where
  "ledger_operation_count R st = ledger_field R st 1 6 decode_u64"

end
