(* ===== verification/Circuit_Refinement.thy ===== *)
theory Circuit_Refinement
  imports Circuits
begin

text \<open>
  What the circuits of the contract do to its ledger. \<open>spec_*\<close> is the ledger-level meaning of a
  circuit: its guards in order and the new ledger, or the first error. Each circuit, run on any
  runtime that keeps the laws of \<open>ledger_runtime\<close>, refines its specification.
\<close>

section \<open>Ledger-level specifications\<close>

text \<open>A signature check against a key, the version first.\<close>

definition spec_signed ::
  "('fr digest4 \<Rightarrow> 'sig \<Rightarrow> 'p \<Rightarrow> bool) \<Rightarrow> string \<Rightarrow> 'p \<Rightarrow> 'sig \<Rightarrow> u64 \<Rightarrow> 'fr digest4 \<Rightarrow> 'p c_ledger \<Rightarrow>
   compact_error + unit" where
  "spec_signed schnorr_ok stale pk signature expected_version digest l =
     res_bind (compact_assert (expected_version = lg_version l) stale) (\<lambda>_.
       if schnorr_ok digest signature pk then Inr () else Inl (SchnorrRejected ''''))"

definition spec_controller ::
  "('fr digest4 \<Rightarrow> 'sig \<Rightarrow> 'p \<Rightarrow> bool) \<Rightarrow> 'sig \<Rightarrow> u64 \<Rightarrow> 'fr digest4 \<Rightarrow> 'p c_ledger \<Rightarrow> compact_error + unit" where
  "spec_controller schnorr_ok signature expected_version digest l =
     spec_signed schnorr_ok ''Controller authorization version is stale'' (lg_controller_key l)
       signature expected_version digest l"

definition spec_controller_active ::
  "('fr digest4 \<Rightarrow> 'sig \<Rightarrow> 'p \<Rightarrow> bool) \<Rightarrow> 'sig \<Rightarrow> u64 \<Rightarrow> 'fr digest4 \<Rightarrow> 'p c_ledger \<Rightarrow> compact_error + unit" where
  "spec_controller_active schnorr_ok signature expected_version digest l =
     res_bind (spec_controller schnorr_ok signature expected_version digest l) (\<lambda>_.
       compact_assert (lg_active l) ''Contract is not active'')"

definition spec_recovery_active ::
  "('fr digest4 \<Rightarrow> 'sig \<Rightarrow> 'p \<Rightarrow> bool) \<Rightarrow> 'sig \<Rightarrow> u64 \<Rightarrow> 'fr digest4 \<Rightarrow> 'p c_ledger \<Rightarrow> compact_error + unit" where
  "spec_recovery_active schnorr_ok signature expected_version digest l =
     res_bind (spec_signed schnorr_ok ''Recovery authorization version is stale'' (lg_recovery_key l)
                 signature expected_version digest l) (\<lambda>_.
       compact_assert (lg_active l) ''Contract is not active'')"

definition keys_differ :: "('ps, 'p, 'q, 'st, 'fr, 'sig) runtime \<Rightarrow> 'p \<Rightarrow> 'p \<Rightarrow> bool" where
  "keys_differ R a b \<longleftrightarrow> rt_point_x R a \<noteq> rt_point_x R b \<or> rt_point_y R a \<noteq> rt_point_y R b"

text \<open>\<open>record_update\<close> at time \<open>t\<close>: both counters go up by one, and fail at their end.\<close>

definition bump :: "u64 \<Rightarrow> 'p c_ledger \<Rightarrow> compact_error + 'p c_ledger" where
  "bump t l =
     (if unat (lg_operation_count l) + 1 < 2 ^ 64 \<and> unat (lg_version l) + 1 < 2 ^ 64
      then Inr (l\<lparr>lg_operation_count := lg_operation_count l + 1, lg_version := lg_version l + 1,
                  lg_updated := t\<rparr>)
      else Inl (RuntimeError ''''))"

definition relation_members :: "c_relation \<Rightarrow> 'p c_ledger \<Rightarrow> string set" where
  "relation_members relation l =
     (if relation = CR_Authentication then lg_authentication l
      else if relation = CR_AssertionMethod then lg_assertion_method l
      else if relation = CR_KeyAgreement then lg_key_agreement l
      else if relation = CR_CapabilityInvocation then lg_capability_invocation l
      else if relation = CR_CapabilityDelegation then lg_capability_delegation l
      else {})"

definition update_relation :: "c_relation \<Rightarrow> (string set \<Rightarrow> string set) \<Rightarrow> 'p c_ledger \<Rightarrow> 'p c_ledger" where
  "update_relation relation f l =
     (if relation = CR_Authentication then l\<lparr>lg_authentication := f (lg_authentication l)\<rparr>
      else if relation = CR_AssertionMethod then l\<lparr>lg_assertion_method := f (lg_assertion_method l)\<rparr>
      else if relation = CR_KeyAgreement then l\<lparr>lg_key_agreement := f (lg_key_agreement l)\<rparr>
      else if relation = CR_CapabilityInvocation then
        l\<lparr>lg_capability_invocation := f (lg_capability_invocation l)\<rparr>
      else if relation = CR_CapabilityDelegation then
        l\<lparr>lg_capability_delegation := f (lg_capability_delegation l)\<rparr>
      else l)"

definition signing_member :: "string \<Rightarrow> 'p c_ledger \<Rightarrow> bool" where
  "signing_member k l \<longleftrightarrow>
     k \<in> lg_authentication l \<or> k \<in> lg_assertion_method l \<or>
     k \<in> lg_capability_invocation l \<or> k \<in> lg_capability_delegation l"

definition method_known :: "string \<Rightarrow> 'p c_ledger \<Rightarrow> bool" where
  "method_known k l \<longleftrightarrow> lg_methods l k \<noteq> None \<or> lg_schnorr_methods l k \<noteq> None"

definition spec_not_referenced :: "string \<Rightarrow> 'p c_ledger \<Rightarrow> compact_error + unit" where
  "spec_not_referenced k l =
     res_bind (compact_assert (k \<notin> lg_authentication l)
                 ''Verification method still referenced in authenticationRelation'') (\<lambda>_.
     res_bind (compact_assert (k \<notin> lg_assertion_method l)
                 ''Verification method still referenced in assertionMethodRelation'') (\<lambda>_.
     res_bind (compact_assert (k \<notin> lg_key_agreement l)
                 ''Verification method still referenced in keyAgreementRelation'') (\<lambda>_.
     res_bind (compact_assert (k \<notin> lg_capability_invocation l)
                 ''Verification method still referenced in capabilityInvocationRelation'') (\<lambda>_.
     compact_assert (k \<notin> lg_capability_delegation l)
       ''Verification method still referenced in capabilityDelegationRelation''))))"

definition spec_compatible :: "c_relation \<Rightarrow> string \<Rightarrow> 'p c_ledger \<Rightarrow> compact_error + unit" where
  "spec_compatible relation k l =
     (if relation = CR_KeyAgreement then
        (case lg_methods l k of
           None \<Rightarrow> Inl (AssertionFailed ''KeyAgreement requires an agreement verification method'')
         | Some vm \<Rightarrow> compact_assert (cj_crv (cvm_public_key_jwk vm) = CC_X25519)
                        ''KeyAgreement requires an X25519 verification method'')
      else if is_signing_verification_method_relation relation then
        (case lg_methods l k of
           None \<Rightarrow> Inr ()
         | Some vm \<Rightarrow> compact_assert (cj_crv (cvm_public_key_jwk vm) \<noteq> CC_X25519)
                        ''Signing verification relations cannot use X25519 verification methods'')
      else Inr ())"

definition spec_curve_compatible :: "string \<Rightarrow> c_curve_type \<Rightarrow> 'p c_ledger \<Rightarrow> compact_error + unit" where
  "spec_curve_compatible k curve l =
     res_bind (compact_assert (k \<in> lg_key_agreement l \<longrightarrow> curve = CC_X25519)
                 ''Existing KeyAgreement relation requires an X25519 verification method'') (\<lambda>_.
     compact_assert (signing_member k l \<longrightarrow> curve \<noteq> CC_X25519)
       ''Existing signing verification relations cannot use X25519 verification methods'')"

section \<open>Operations of the contract\<close>

datatype 'p operation =
    RotateControllerKey 'p
  | RecoverControllerKey 'p
  | SetAlsoKnownAs string c_set_mutation
  | SetVerificationMethod c_verification_method c_map_mutation
  | RemoveVerificationMethod string
  | SetSchnorrMethod "'p c_schnorr_method" c_map_mutation
  | RemoveSchnorrMethod string
  | SetRelation c_relation string c_set_mutation
  | SetService c_service c_map_mutation
  | RemoveService string
  | Deactivate

text \<open>The circuit of an operation, called with a signature and the expected version.\<close>

fun circuit_of ::
  "('ps, 'p, 'q, 'st, 'fr, 'sig) runtime \<Rightarrow> ('ps, 'p, 'q, 'fr) witnesses \<Rightarrow> 'p operation \<Rightarrow>
   'sig \<Rightarrow> u64 \<Rightarrow> ('ps, 'q, unit) circuit" where
  "circuit_of R W (RotateControllerKey pk) = rotate_controller_key_circuit R W pk"
| "circuit_of R W (RecoverControllerKey pk) = recover_controller_key_circuit R W pk"
| "circuit_of R W (SetAlsoKnownAs v m) = set_also_known_as_circuit R W v m"
| "circuit_of R W (SetVerificationMethod vm m) = set_verification_method_circuit R W vm m"
| "circuit_of R W (RemoveVerificationMethod k) = remove_verification_method_circuit R W k"
| "circuit_of R W (SetSchnorrMethod vm m) = set_schnorr_jubjub_verification_method_circuit R W vm m"
| "circuit_of R W (RemoveSchnorrMethod k) = remove_schnorr_jubjub_verification_method_circuit R W k"
| "circuit_of R W (SetRelation r k m) = set_verification_method_relation_circuit R W r k m"
| "circuit_of R W (SetService sv m) = set_service_circuit R W sv m"
| "circuit_of R W (RemoveService k) = remove_service_circuit R W k"
| "circuit_of R W Deactivate = deactivate_circuit R W"

fun operation_digest ::
  "('ps, 'p, 'q, 'st, 'fr, 'sig) runtime \<Rightarrow> c_address \<Rightarrow> u64 \<Rightarrow> 'p operation \<Rightarrow> 'fr digest4" where
  "operation_digest R cid v (RotateControllerKey pk) =
     rotate_controller_key_authorization_digest R cid v pk"
| "operation_digest R cid v (RecoverControllerKey pk) =
     recover_controller_key_authorization_digest R cid v pk"
| "operation_digest R cid v (SetAlsoKnownAs a m) = set_also_known_as_authorization_digest R cid v a m"
| "operation_digest R cid v (SetVerificationMethod vm m) =
     set_verification_method_authorization_digest R cid v vm m"
| "operation_digest R cid v (RemoveVerificationMethod k) =
     remove_verification_method_authorization_digest R cid v k"
| "operation_digest R cid v (SetSchnorrMethod vm m) =
     set_schnorr_jubjub_verification_method_authorization_digest R cid v vm m"
| "operation_digest R cid v (RemoveSchnorrMethod k) =
     remove_schnorr_jubjub_verification_method_authorization_digest R cid v k"
| "operation_digest R cid v (SetRelation r k m) =
     set_verification_method_relation_authorization_digest R cid v r k m"
| "operation_digest R cid v (SetService sv m) = set_service_authorization_digest R cid v sv m"
| "operation_digest R cid v (RemoveService k) = remove_service_authorization_digest R cid v k"
| "operation_digest R cid v Deactivate = deactivate_authorization_digest R cid v"

text \<open>Who must have signed, and that the contract is active.\<close>

fun spec_authorized ::
  "('fr digest4 \<Rightarrow> 'sig \<Rightarrow> 'p \<Rightarrow> bool) \<Rightarrow> 'p operation \<Rightarrow> 'sig \<Rightarrow> u64 \<Rightarrow> 'fr digest4 \<Rightarrow> 'p c_ledger \<Rightarrow>
   compact_error + unit" where
  "spec_authorized ok (RecoverControllerKey pk) signature v d l = spec_recovery_active ok signature v d l"
| "spec_authorized ok Deactivate signature v d l =
     res_bind (spec_controller ok signature v d l) (\<lambda>_.
       compact_assert (lg_active l) ''DID is already inactive'')"
| "spec_authorized ok op signature v d l = spec_controller_active ok signature v d l"

text \<open>What an operation demands of the ledger.\<close>

fun spec_checks ::
  "('ps, 'p, 'q, 'st, 'fr, 'sig) runtime \<Rightarrow> 'p operation \<Rightarrow> 'p c_ledger \<Rightarrow> compact_error + unit" where
  "spec_checks R (RotateControllerKey pk) l =
     res_bind (compact_assert (keys_differ R pk (lg_controller_key l))
                 ''New controller key matches current controller key'') (\<lambda>_.
     compact_assert (keys_differ R pk (lg_recovery_key l))
       ''New controller key matches recovery authority key'')"
| "spec_checks R (RecoverControllerKey pk) l =
     res_bind (compact_assert (keys_differ R pk (lg_controller_key l))
                 ''New controller key matches current controller key'') (\<lambda>_.
     compact_assert (keys_differ R pk (lg_recovery_key l))
       ''New controller key matches recovery authority key'')"
| "spec_checks R (SetAlsoKnownAs a m) l =
     res_bind (assert_set_mutation_defined m) (\<lambda>_.
       if m = CSM_Insert then
         compact_assert (a \<notin> lg_also_known_as l) ''alsoKnownAs value already exists''
       else compact_assert (a \<in> lg_also_known_as l) ''alsoKnownAs value does not exist'')"
| "spec_checks R (SetVerificationMethod vm m) l =
     res_bind (assert_map_mutation_defined m) (\<lambda>_.
     res_bind (assert_supported_verification_method vm) (\<lambda>_.
       if m = CMM_Update then
         res_bind (compact_assert (lg_methods l (cvm_id vm) \<noteq> None)
                     ''Verification method does not exist'') (\<lambda>_.
           spec_curve_compatible (cvm_id vm) (cj_crv (cvm_public_key_jwk vm)) l)
       else compact_assert (\<not> method_known (cvm_id vm) l) ''Verification method already exists''))"
| "spec_checks R (RemoveVerificationMethod k) l =
     res_bind (compact_assert (lg_methods l k \<noteq> None) ''Verification method does not exist'') (\<lambda>_.
       spec_not_referenced k l)"
| "spec_checks R (SetSchnorrMethod vm m) l =
     res_bind (assert_map_mutation_defined m) (\<lambda>_.
       if m = CMM_Update then
         compact_assert (lg_schnorr_methods l (csm_id vm) \<noteq> None) ''Verification method does not exist''
       else compact_assert (\<not> method_known (csm_id vm) l) ''Verification method already exists'')"
| "spec_checks R (RemoveSchnorrMethod k) l =
     res_bind (compact_assert (lg_schnorr_methods l k \<noteq> None) ''Verification method does not exist'') (\<lambda>_.
       spec_not_referenced k l)"
| "spec_checks R (SetRelation r k m) l =
     res_bind (assert_set_mutation_defined m) (\<lambda>_.
     res_bind (compact_assert (method_known k l) ''Verification method does not exist'') (\<lambda>_.
     res_bind (compact_assert (r \<noteq> CR_Undefined) ''Verification relation must be defined'') (\<lambda>_.
       if m = CSM_Insert then
         res_bind (compact_assert (k \<notin> relation_members r l)
                     ''Verification method relation already exists'') (\<lambda>_. spec_compatible r k l)
       else compact_assert (k \<in> relation_members r l) ''Verification method relation does not exist'')))"
| "spec_checks R (SetService sv m) l =
     res_bind (assert_map_mutation_defined m) (\<lambda>_.
       if m = CMM_Update then
         compact_assert (lg_services l (cs_id sv) \<noteq> None) ''Service with a given id does not exist''
       else compact_assert (lg_services l (cs_id sv) = None) ''Service with a given id already exists'')"
| "spec_checks R (RemoveService k) l =
     compact_assert (lg_services l k \<noteq> None) ''Service with a given id does not exist''"
| "spec_checks R Deactivate l = Inr ()"

text \<open>What it changes, the counters and the time apart.\<close>

fun spec_change :: "'p operation \<Rightarrow> 'p c_ledger \<Rightarrow> 'p c_ledger" where
  "spec_change (RotateControllerKey pk) l = l\<lparr>lg_controller_key := pk\<rparr>"
| "spec_change (RecoverControllerKey pk) l = l\<lparr>lg_controller_key := pk\<rparr>"
| "spec_change (SetAlsoKnownAs a m) l =
     l\<lparr>lg_also_known_as := if m = CSM_Insert then insert a (lg_also_known_as l)
                          else lg_also_known_as l - {a}\<rparr>"
| "spec_change (SetVerificationMethod vm m) l = l\<lparr>lg_methods := (lg_methods l)(cvm_id vm \<mapsto> vm)\<rparr>"
| "spec_change (RemoveVerificationMethod k) l = l\<lparr>lg_methods := (lg_methods l)(k := None)\<rparr>"
| "spec_change (SetSchnorrMethod vm m) l =
     l\<lparr>lg_schnorr_methods := (lg_schnorr_methods l)(csm_id vm \<mapsto> vm)\<rparr>"
| "spec_change (RemoveSchnorrMethod k) l =
     l\<lparr>lg_schnorr_methods := (lg_schnorr_methods l)(k := None)\<rparr>"
| "spec_change (SetRelation r k m) l =
     update_relation r (\<lambda>ks. if m = CSM_Insert then insert k ks else ks - {k}) l"
| "spec_change (SetService sv m) l = l\<lparr>lg_services := (lg_services l)(cs_id sv \<mapsto> sv)\<rparr>"
| "spec_change (RemoveService k) l = l\<lparr>lg_services := (lg_services l)(k := None)\<rparr>"
| "spec_change Deactivate l = l\<lparr>lg_active := False, lg_deactivated := True\<rparr>"

definition spec_operation ::
  "('ps, 'p, 'q, 'st, 'fr, 'sig) runtime \<Rightarrow> ('fr digest4 \<Rightarrow> 'sig \<Rightarrow> 'p \<Rightarrow> bool) \<Rightarrow>
   'p operation \<Rightarrow> 'sig \<Rightarrow> u64 \<Rightarrow> u64 \<Rightarrow> 'p c_ledger \<Rightarrow> compact_error + 'p c_ledger" where
  "spec_operation R ok op signature v t l =
     res_bind (spec_authorized ok op signature v (operation_digest R (lg_id l) v op) l) (\<lambda>_.
     res_bind (spec_checks R op l) (\<lambda>_.
     res_bind (bump t l) (\<lambda>l'. Inr (spec_change op l'))))"

text \<open>The verification of a signature with a stored key, and the constructor at address \<open>a\<close>.\<close>

definition spec_verify_digest ::
  "('fr digest4 \<Rightarrow> 'sig \<Rightarrow> 'p \<Rightarrow> bool) \<Rightarrow> string \<Rightarrow> 'fr digest4 \<Rightarrow> 'sig \<Rightarrow> 'p c_ledger \<Rightarrow>
   compact_error + unit" where
  "spec_verify_digest ok k d s l =
     res_bind (compact_assert (lg_active l) ''Contract is not active'') (\<lambda>_.
       case lg_schnorr_methods l k of
         None \<Rightarrow> Inl (AssertionFailed ''Verification method does not exist'')
       | Some vm \<Rightarrow>
           if ok d s (csm_public_key vm) then Inr () else Inl (SchnorrRejected ''''))"

definition spec_constructor ::
  "('ps, 'p, 'q, 'st, 'fr, 'sig) runtime \<Rightarrow> c_address \<Rightarrow> 'p \<Rightarrow> 'p \<Rightarrow> u64 \<Rightarrow> 'p c_ledger \<Rightarrow>
   compact_error + 'p c_ledger" where
  "spec_constructor R a controller recovery t l =
     res_bind (compact_assert (keys_differ R controller recovery)
                 ''New controller key matches recovery authority key'') (\<lambda>_.
     Inr (l\<lparr>lg_recovery_key := recovery, lg_controller_key := controller, lg_deactivated := False,
            lg_active := True, lg_id := a, lg_contract_version := 2, lg_created := t,
            lg_updated := t\<rparr>))"

section \<open>Refinement\<close>

text \<open>The text of the runtime's errors is left open.\<close>

fun erase :: "compact_error \<Rightarrow> compact_error" where
  "erase (AssertionFailed m) = AssertionFailed m"
| "erase (SchnorrRejected _) = SchnorrRejected ''''"
| "erase _ = RuntimeError ''''"

fun runtime_error :: "compact_error \<Rightarrow> bool" where
  "runtime_error (AssertionFailed m) = False"
| "runtime_error _ = True"

text \<open>
  \<open>outcome R repr self may_refuse a result spec\<close>: the result of a circuit, run at address \<open>a\<close>, is the
  one of the specification, or the runtime has refused.
\<close>

fun outcome ::
  "('ps, 'p, 'q, 'st, 'fr, 'sig) runtime \<Rightarrow> ('st \<Rightarrow> 'p c_ledger \<Rightarrow> bool) \<Rightarrow> ('q \<Rightarrow> c_address) \<Rightarrow> bool \<Rightarrow>
   c_address \<Rightarrow> compact_error + 'a \<times> ('ps, 'q) circuit_context \<Rightarrow> compact_error + 'a \<times> 'p c_ledger \<Rightarrow> bool" where
  "outcome R repr self may_refuse a (Inl e) spec \<longleftrightarrow>
     may_refuse \<and> runtime_error e \<or> spec = Inl (erase e)"
| "outcome R repr self may_refuse a (Inr (x, ctx)) spec \<longleftrightarrow>
     (\<exists>l. spec = Inr (x, l) \<and> repr (rt_state R (cc_query ctx)) l \<and> self (cc_query ctx) = a)"

type_synonym ('p, 'a) ledger_spec = "c_address \<Rightarrow> 'p c_ledger \<Rightarrow> compact_error + 'a \<times> 'p c_ledger"

definition sbind :: "('p, 'a) ledger_spec \<Rightarrow> ('a \<Rightarrow> ('p, 'b) ledger_spec) \<Rightarrow> ('p, 'b) ledger_spec" where
  "sbind p f = (\<lambda>a l. res_bind (p a l) (\<lambda>(x, l'). f x a l'))"

definition scheck :: "('p c_ledger \<Rightarrow> compact_error + 'a) \<Rightarrow> ('p, 'a) ledger_spec" where
  "scheck f = (\<lambda>a l. res_bind (f l) (\<lambda>x. Inr (x, l)))"

definition schange :: "('p c_ledger \<Rightarrow> compact_error + 'p c_ledger) \<Rightarrow> ('p, unit) ledger_spec" where
  "schange f = (\<lambda>a l. res_bind (f l) (\<lambda>l'. Inr ((), l')))"

lemma sbind_scheck [simp]: "sbind (scheck f) g a l = res_bind (f l) (\<lambda>x. g x a l)"
  by (cases "f l") (simp_all add: sbind_def scheck_def)

lemma sbind_scheck_at [simp]: "sbind (\<lambda>a. scheck (f a) a) g a l = res_bind (f a l) (\<lambda>x. g x a l)"
  by (cases "f a l") (simp_all add: sbind_def scheck_def)

lemma sbind_schange [simp]: "sbind (schange f) g a l = res_bind (f l) (\<lambda>l'. g () a l')"
  by (cases "f l") (simp_all add: sbind_def schange_def)

text \<open>A read or write that has no meaning is an error of the runtime.\<close>

definition read_result :: "'a option \<Rightarrow> compact_error + 'a" where
  "read_result x = (case x of Some y \<Rightarrow> Inr y | None \<Rightarrow> Inl (RuntimeError ''''))"

text \<open>
  \<open>sim c p\<close>: on every state the circuit's outcome is the specification's. \<open>simt A c p\<close> is the same for a
  specification that depends on what a witness answers at the contract's address, which \<open>A\<close> describes:
  \<open>answers self f\<close> holds of what the witness \<open>f\<close> gives in some query context at an address.
\<close>

definition answers :: "('q \<Rightarrow> c_address) \<Rightarrow> ('q \<Rightarrow> 'ps \<Rightarrow> 'ps \<times> 'a) \<Rightarrow> c_address \<Rightarrow> 'a \<Rightarrow> bool" where
  "answers self f a x \<longleftrightarrow> (\<exists>q ps. self q = a \<and> snd (f q ps) = x)"

lemma answersI: "f q ps = (ps', x) \<Longrightarrow> self q = a \<Longrightarrow> answers self f a x"
  unfolding answers_def by (metis snd_conv)

context ledger_runtime
begin

definition sim :: "('ps, 'q, 'a) circuit \<Rightarrow> ('p, 'a) ledger_spec \<Rightarrow> bool" where
  "sim c p \<longleftrightarrow>
     (\<forall>ctx l. repr (rt_state R (cc_query ctx)) l \<longrightarrow>
        outcome R repr self may_refuse (self (cc_query ctx)) (c ctx) (p (self (cc_query ctx)) l))"

definition simt ::
  "(c_address \<Rightarrow> 'i \<Rightarrow> bool) \<Rightarrow> ('ps, 'q, 'a) circuit \<Rightarrow> ('i \<Rightarrow> ('p, 'a) ledger_spec) \<Rightarrow> bool" where
  "simt A c p \<longleftrightarrow>
     (\<forall>ctx l. repr (rt_state R (cc_query ctx)) l \<longrightarrow>
        (\<exists>t. A (self (cc_query ctx)) t \<and>
             outcome R repr self may_refuse (self (cc_query ctx)) (c ctx) (p t (self (cc_query ctx)) l)))"

lemma sim_eq: "\<lbrakk>sim c p; \<And>a l. p a l = p' a l\<rbrakk> \<Longrightarrow> sim c p'"
  by (simp add: sim_def)

lemma simt_eq: "\<lbrakk>simt A c p; \<And>t a l. p t a l = p' t a l\<rbrakk> \<Longrightarrow> simt A c p'"
  by (simp add: simt_def)

lemma simD:
  "\<lbrakk>sim c p; repr (rt_state R (cc_query ctx)) l; self (cc_query ctx) = a\<rbrakk>
   \<Longrightarrow> outcome R repr self may_refuse a (c ctx) (p a l)"
  by (auto simp: sim_def)

lemma simtE:
  assumes "simt A c p" and "repr (rt_state R (cc_query ctx)) l" and "self (cc_query ctx) = a"
  obtains t where "A a t" "outcome R repr self may_refuse a (c ctx) (p t a l)"
  using assms by (auto simp: simt_def)

lemma outcome_bind:
  assumes c: "outcome R repr self may_refuse a (c ctx) (p a l)"
    and f: "\<And>x ctx' l'. \<lbrakk>c ctx = Inr (x, ctx'); p a l = Inr (x, l'); repr (rt_state R (cc_query ctx')) l';
              self (cc_query ctx') = a\<rbrakk> \<Longrightarrow> outcome R repr self may_refuse a (f x ctx') (q x a l')"
  shows "outcome R repr self may_refuse a (cbind c f ctx) (sbind p q a l)"
proof (cases "c ctx")
  case (Inl e)
  then show ?thesis using c by (auto simp: cbind_def sbind_def)
next
  case (Inr r)
  obtain x ctx' where r: "r = (x, ctx')" by (cases r)
  obtain l' where l': "p a l = Inr (x, l')" "repr (rt_state R (cc_query ctx')) l'" "self (cc_query ctx') = a"
    using c Inr r by auto
  show ?thesis using f [OF _ l'] Inr r l' by (simp add: cbind_def sbind_def)
qed

lemma sim_bind:
  assumes "sim c p" and "\<And>x. sim (f x) (q x)"
  shows "sim (cbind c f) (sbind p q)"
  unfolding sim_def
proof (intro allI impI)
  fix ctx :: "('ps, 'q) circuit_context" and l
  assume st: "repr (rt_state R (cc_query ctx)) l"
  show "outcome R repr self may_refuse (self (cc_query ctx)) (cbind c f ctx) (sbind p q (self (cc_query ctx)) l)"
    by (rule outcome_bind, rule simD [OF assms(1) st refl], rule simD [OF assms(2)])
qed

text \<open>One of the two circuits asks a witness.\<close>

lemma simt_bind_left:
  assumes c: "simt A c p" and f: "\<And>x. sim (f x) (q x)"
  shows "simt A (cbind c f) (\<lambda>t. sbind (p t) q)"
  unfolding simt_def
proof (intro allI impI)
  fix ctx :: "('ps, 'q) circuit_context" and l
  assume st: "repr (rt_state R (cc_query ctx)) l"
  obtain t where a: "A (self (cc_query ctx)) t"
    and o: "outcome R repr self may_refuse (self (cc_query ctx)) (c ctx) (p t (self (cc_query ctx)) l)"
    by (rule simtE [OF c st refl])
  show "\<exists>t. A (self (cc_query ctx)) t \<and> outcome R repr self may_refuse (self (cc_query ctx)) (cbind c f ctx)
                   (sbind (p t) q (self (cc_query ctx)) l)"
    by (rule exI [of _ t], rule conjI, rule a, rule outcome_bind, rule o, rule simD [OF f])
qed

lemma simt_bind_right:
  assumes c: "sim c p" and f: "\<And>x. simt A (f x) (q x)"
  shows "simt A (cbind c f) (\<lambda>t. sbind p (\<lambda>x. q x t))"
  unfolding simt_def
proof (intro allI impI)
  fix ctx :: "('ps, 'q) circuit_context" and l
  let ?a = "self (cc_query ctx)"
  assume st: "repr (rt_state R (cc_query ctx)) l"
  have o: "outcome R repr self may_refuse ?a (c ctx) (p ?a l)" by (rule simD [OF c st refl])
  show "\<exists>t. A ?a t \<and> outcome R repr self may_refuse ?a (cbind c f ctx) (sbind p (\<lambda>x. q x t) ?a l)"
  proof (cases "c ctx")
    case (Inl e)
    obtain t where "A ?a t" by (rule simtE [OF f st refl])
    then show ?thesis using o Inl by (auto simp: cbind_def sbind_def)
  next
    case (Inr r)
    obtain x ctx' where r: "r = (x, ctx')" by (cases r)
    obtain l' where l': "p ?a l = Inr (x, l')" "repr (rt_state R (cc_query ctx')) l'" "self (cc_query ctx') = ?a"
      using o Inr r by auto
    obtain t where "A ?a t" "outcome R repr self may_refuse ?a (f x ctx') (q x t ?a l')"
      by (rule simtE [OF f l'(2,3)])
    then show ?thesis using Inr r l' by (auto simp: cbind_def sbind_def)
  qed
qed

lemma sim_if: "\<lbrakk>b \<Longrightarrow> sim c p; \<not> b \<Longrightarrow> sim d q\<rbrakk> \<Longrightarrow> sim (if b then c else d) (if b then p else q)"
  by simp

lemma sim_ret: "sim (cret x) (scheck (\<lambda>l. Inr x))"
  by (simp add: sim_def cret_def scheck_def)

lemma sim_check: "(\<And>e. r = Inl e \<Longrightarrow> erase e = e) \<Longrightarrow> sim (clift r) (scheck (\<lambda>l. r))"
  by (cases r) (auto simp: sim_def clift_def scheck_def)

lemma sim_assert: "sim (cassert b m) (scheck (\<lambda>l. compact_assert b m))"
  unfolding cassert_def by (rule sim_check) (auto simp: compact_assert_def split: if_splits)

lemma query_read_outcome:
  assumes "repr (rt_state R q) l"
  shows "case query_read R q rd dec of
           Inl e \<Rightarrow> may_refuse \<and> runtime_error e \<or>
                    erase e = RuntimeError '''' \<and> Option.bind (read_value rd (self q) l) dec = None
         | Inr x \<Rightarrow> Option.bind (read_value rd (self q) l) dec = Some x"
proof (cases "rt_read R q (read_ops rd)")
  case (Inl e)
  then show ?thesis using read_refuses [OF assms Inl] by (auto simp: query_read_def)
next
  case (Inr es)
  obtain c where c: "read_value rd (self q) l = Some c" "es \<noteq> []" "last es = ReadEvent c"
    using read_ok [OF assms Inr] by auto
  then show ?thesis using Inr by (cases "dec c") (auto simp: query_read_def)
qed

lemma sim_read:
  "sim (cread R rd dec) (\<lambda>a. scheck (\<lambda>l. read_result (Option.bind (read_value rd a l) dec)) a)"
  unfolding sim_def
proof (intro allI impI)
  fix ctx :: "('ps, 'q) circuit_context" and l
  let ?a = "self (cc_query ctx)"
  assume st: "repr (rt_state R (cc_query ctx)) l"
  show "outcome R repr self may_refuse ?a (cread R rd dec ctx)
          (scheck (\<lambda>l. read_result (Option.bind (read_value rd ?a l) dec)) ?a l)"
    using query_read_outcome [OF st, of rd dec] st
    by (auto simp: cread_def clift_def scheck_def read_result_def split: sum.splits option.splits)
qed

lemma sim_verify:
  "list_all write_typed ws \<Longrightarrow>
   sim (cverify R ws) (schange (\<lambda>l. read_result (writes_effect ws l)))"
  unfolding sim_def
proof (intro allI impI)
  fix ctx :: "('ps, 'q) circuit_context" and l
  assume ty: "list_all write_typed ws" and st: "repr (rt_state R (cc_query ctx)) l"
  show "outcome R repr self may_refuse (self (cc_query ctx)) (cverify R ws ctx)
          (schange (\<lambda>l. read_result (writes_effect ws l)) (self (cc_query ctx)) l)"
  proof (cases "rt_verify R (cc_query ctx) (program ws)")
    case (Inl e)
    then show ?thesis using verify_refuses [OF st ty Inl]
      by (auto simp: cverify_def schange_def read_result_def)
  next
    case (Inr q)
    then show ?thesis using verify_ok [OF st ty Inr]
      by (auto simp: cverify_def schange_def read_result_def)
  qed
qed

end

lemma res_bind_assoc: "res_bind (res_bind m f) g = res_bind m (\<lambda>x. res_bind (f x) g)"
  by (cases m) simp_all

lemma scheck_apply: "scheck f a l = res_bind (f l) (\<lambda>x. Inr (x, l))"
  by (simp add: scheck_def)

lemma schange_apply: "schange f a l = res_bind (f l) (\<lambda>l'. Inr ((), l'))"
  by (simp add: schange_def)

lemma res_bind_if: "res_bind (if b then m else n) f = (if b then res_bind m f else res_bind n f)"
  by simp

lemma apply_if: "(if b then f else g) x = (if b then f x else g x)"
  by simp

lemma sbind_assoc: "sbind (sbind p f) g a l = sbind p (\<lambda>x. sbind (f x) g) a l"
  by (cases "p a l") (auto simp: sbind_def)

text \<open>The equations that put the meaning of a circuit together.\<close>

lemmas meaning = scheck_apply schange_apply res_bind_assoc res_bind_if apply_if sbind_assoc read_result_def

context ledger_runtime
begin

lemma sim_nothing: "sim (cverify R []) (schange (\<lambda>l. Inr l))"
  by (rule sim_eq, rule sim_verify) (simp_all add: schange_def read_result_def)

lemma sim_schnorr:
  "sim (schnorr_verify_digest R d s pk)
       (scheck (\<lambda>l. if schnorr_ok d s pk then Inr () else Inl (SchnorrRejected '''')))"
proof -
  have "sim (\<lambda>ctx. case rt_schnorr_verify_jubjub R ctx d s pk of
                     Inl e \<Rightarrow> Inl (SchnorrRejected e) | Inr ctx' \<Rightarrow> Inr ((), ctx'))
            (scheck (\<lambda>l. if schnorr_ok d s pk then Inr () else Inl (SchnorrRejected '''')))"
    unfolding sim_def
  proof (intro allI impI)
    fix ctx :: "('ps, 'q) circuit_context" and l
    assume st: "repr (rt_state R (cc_query ctx)) l"
    show "outcome R repr self may_refuse (self (cc_query ctx))
            (case rt_schnorr_verify_jubjub R ctx d s pk of
               Inl e \<Rightarrow> Inl (SchnorrRejected e) | Inr ctx' \<Rightarrow> Inr ((), ctx'))
            (scheck (\<lambda>l. if schnorr_ok d s pk then Inr () else Inl (SchnorrRejected ''''))
               (self (cc_query ctx)) l)"
    proof (cases "rt_schnorr_verify_jubjub R ctx d s pk")
      case (Inl e)
      then show ?thesis using schnorr_rejects [OF st Inl] by (auto simp: scheck_def)
    next
      case (Inr ctx')
      then show ?thesis using schnorr_accepts [OF st Inr] by (auto simp: scheck_def)
    qed
  qed
  from sim_bind [OF this sim_nothing] show ?thesis
    unfolding schnorr_verify_digest_def by (rule sim_eq) (simp add: meaning)
qed

text \<open>The rules that take a circuit apart.\<close>

lemmas sim_intros = sim_bind sim_if sim_ret sim_assert sim_read sim_verify sim_schnorr

lemma sim_member:
  assumes "keys_at i = (\<lambda>l. Some (ks l))"
  shows "sim (cmember R i k) (scheck (\<lambda>l. Inr (k \<in> ks l)))"
  unfolding cmember_def
  by (rule sim_eq, rule sim_read) (simp add: meaning assms del: keys_at.simps)

lemma sim_or:
  assumes "sim a (scheck (\<lambda>l. Inr (p l)))" and "sim b (scheck (\<lambda>l. Inr (q l)))"
  shows "sim (cor a b) (scheck (\<lambda>l. Inr (p l \<or> q l)))"
  unfolding cor_def
  by (rule sim_eq, rule sim_bind, rule assms(1), rule sim_if, rule sim_ret, rule assms(2))
    (simp add: meaning)

lemma sim_exists: "sim (verification_method_exists R k) (scheck (\<lambda>l. Inr (method_known k l)))"
  unfolding verification_method_exists_def
  by (rule sim_eq, rule sim_or, (rule sim_member, rule ext, simp)+)
    (auto simp: meaning method_known_def dom_def)

lemma sim_controller:
  "sim (assert_controller R s v d) (scheck (spec_controller schnorr_ok s v d))"
  unfolding assert_controller_def
  by (rule sim_eq, (rule sim_intros | (simp; fail))+) (simp add: meaning spec_controller_def spec_signed_def)

lemma sim_controller_can_update:
  "sim (assert_controller_can_update R s v d) (scheck (spec_controller_active schnorr_ok s v d))"
  unfolding assert_controller_can_update_def
  by (rule sim_eq, (rule sim_intros sim_controller | (simp; fail))+) (simp add: meaning spec_controller_active_def)

lemma sim_recovery_can_update:
  "sim (assert_recovery_can_update R s v d) (scheck (spec_recovery_active schnorr_ok s v d))"
  unfolding assert_recovery_can_update_def
  by (rule sim_eq, (rule sim_intros | (simp; fail))+) (simp add: meaning spec_recovery_active_def spec_signed_def)

lemma sim_key_differs_controller:
  "sim (key_differs_from R pk 1) (scheck (\<lambda>l. Inr (keys_differ R pk (lg_controller_key l))))"
  unfolding key_differs_from_def cor_def
  by (rule sim_eq, (rule sim_intros | (simp; fail))+) (simp add: meaning keys_differ_def)

lemma sim_key_differs_recovery:
  "sim (key_differs_from R pk 2) (scheck (\<lambda>l. Inr (keys_differ R pk (lg_recovery_key l))))"
  unfolding key_differs_from_def cor_def
  by (rule sim_eq, (rule sim_intros | (simp; fail))+) (simp add: meaning keys_differ_def)

end

section \<open>The helper circuits\<close>

context ledger_runtime
begin

lemma sim_changes:
  "sim (assert_controller_public_key_changes R pk)
     (scheck (\<lambda>l. compact_assert (keys_differ R pk (lg_controller_key l))
        ''New controller key matches current controller key''))"
  unfolding assert_controller_public_key_changes_def
  by (rule sim_eq, (rule sim_intros sim_key_differs_controller | (simp; fail))+) (simp add: meaning)

lemma sim_distinct:
  "sim (assert_controller_public_key_distinct_from_recovery_authority R pk)
     (scheck (\<lambda>l. compact_assert (keys_differ R pk (lg_recovery_key l))
        ''New controller key matches recovery authority key''))"
  unfolding assert_controller_public_key_distinct_from_recovery_authority_def
  by (rule sim_eq, (rule sim_intros sim_key_differs_recovery | (simp; fail))+) (simp add: meaning)

lemma sim_id: "sim (read_id R) (scheck (\<lambda>l. Inr (lg_id l)))"
  unfolding read_id_def by (rule sim_eq, rule sim_read) (simp add: meaning)

text \<open>What the witnesses answer.\<close>

lemma simt_timestamp:
  "simt (answers self (current_timestamp W)) (ask_timestamp W) (\<lambda>t. scheck (\<lambda>l. Inr t))"
  unfolding simt_def ask_timestamp_def by (auto simp: scheck_def intro: answersI split: prod.split)

lemma simt_record_update:
  "simt (answers self (current_timestamp W)) (record_update R W) (\<lambda>t. schange (bump t))"
  unfolding record_update_def
  by (rule simt_eq, rule simt_bind_left, rule simt_timestamp, rule sim_verify, simp)
    (simp add: meaning bump_def)

text \<open>The checks without the ledger.\<close>

lemma sim_set_mutation:
  "sim (clift (assert_set_mutation_defined m)) (scheck (\<lambda>l. assert_set_mutation_defined m))"
  by (rule sim_check) (auto simp: assert_set_mutation_defined_def compact_assert_def split: if_splits)

lemma sim_map_mutation:
  "sim (clift (assert_map_mutation_defined m)) (scheck (\<lambda>l. assert_map_mutation_defined m))"
  by (rule sim_check) (auto simp: assert_map_mutation_defined_def compact_assert_def split: if_splits)

lemma sim_supported:
  "sim (clift (assert_supported_verification_method vm))
     (scheck (\<lambda>l. assert_supported_verification_method vm))"
  by (rule sim_check)
    (auto simp: assert_supported_verification_method_def compact_assert_def Let_def split: if_splits)

lemma sim_relation_member:
  "sim (verification_method_relation_member R r k) (scheck (\<lambda>l. Inr (k \<in> relation_members r l)))"
  unfolding verification_method_relation_member_def cmember_def
  by (cases r; simp add: relation_index_def relation_members_def del: One_nat_def;
      (rule sim_eq, rule sim_ret sim_read, simp add: meaning))

lemma sim_insert_relation:
  "sim (insert_verification_method_relation R r k) (schange (\<lambda>l. Inr (update_relation r (insert k) l)))"
  unfolding insert_verification_method_relation_def
  by (cases r; simp add: relation_index_def update_relation_def;
      (rule sim_eq, rule sim_verify, simp, simp add: meaning))

lemma sim_remove_relation:
  "sim (remove_verification_method_relation_from_ledger R r k)
     (schange (\<lambda>l. Inr (update_relation r (\<lambda>ks. ks - {k}) l)))"
  unfolding remove_verification_method_relation_from_ledger_def
  by (cases r; simp add: relation_index_def update_relation_def;
      (rule sim_eq, rule sim_verify, simp, simp add: meaning))

lemma sim_not_referenced:
  "sim (assert_verification_method_is_not_referenced R k) (scheck (spec_not_referenced k))"
  unfolding assert_verification_method_is_not_referenced_def assert_not_member_def cmember_def
  by (rule sim_eq, (rule sim_intros | (simp; fail))+) (simp add: meaning spec_not_referenced_def)

lemma sim_compatible:
  "sim (assert_verification_method_relation_compatible R r k) (scheck (spec_compatible r k))"
  unfolding assert_verification_method_relation_compatible_def assert_member_def cmember_def cor_def
  by (rule sim_eq, (rule sim_intros | (simp; fail))+)
    (auto simp: meaning spec_compatible_def compact_assert_def split: option.split)

lemma sim_curve_compatible:
  "sim (assert_existing_verification_method_relations_compatible R k curve)
     (scheck (spec_curve_compatible k curve))"
  unfolding assert_existing_verification_method_relations_compatible_def cmember_def cor_def
  by (rule sim_eq, (rule sim_intros | (simp; fail))+)
    (auto simp: meaning spec_curve_compatible_def compact_assert_def signing_member_def)

lemma sim_assert_member:
  "sim (assert_member R i k m)
     (\<lambda>a. scheck (\<lambda>l.
        res_bind (read_result (Option.bind (read_value (ReadMember i k) a l) decode_bool))
          (\<lambda>b. compact_assert b m)) a)"
  unfolding assert_member_def cmember_def by (rule sim_eq, (rule sim_intros | (simp; fail))+) (simp add: meaning)

lemma sim_assert_not_member:
  "sim (assert_not_member R i k m)
     (\<lambda>a. scheck (\<lambda>l.
        res_bind (read_result (Option.bind (read_value (ReadMember i k) a l) decode_bool))
          (\<lambda>b. compact_assert (\<not> b) m)) a)"
  unfolding assert_not_member_def cmember_def by (rule sim_eq, (rule sim_intros | (simp; fail))+) (simp add: meaning)

end

section \<open>The circuits refine their specifications\<close>

text \<open>
  An operation's meaning with the check of its signature first; the order of the change and of
  \<open>record_update\<close> differs between circuits and makes no difference.
\<close>

context ledger_runtime
begin

definition refines :: "('ps, 'p, 'q, 'fr) witnesses \<Rightarrow> 'p operation \<Rightarrow> bool" where
  "refines W op \<longleftrightarrow>
     (\<forall>s v. simt (answers self (current_timestamp W)) (circuit_of R W op s v)
        (\<lambda>t. schange (spec_operation R schnorr_ok op s v t)))"

lemma change_after_bump:
  "res_bind (bump t l) (\<lambda>l'. Inr (spec_change op l')) = bump t (spec_change op l)"
  by (cases op) (auto simp: bump_def update_relation_def)

lemmas simt_steps = simt_bind_right [OF sim_id] simt_bind_right [OF sim_controller_can_update]
  simt_bind_right [OF sim_recovery_can_update] simt_bind_right [OF sim_controller]
  simt_bind_right [OF sim_changes] simt_bind_right [OF sim_distinct] simt_bind_right [OF sim_set_mutation]
  simt_bind_right [OF sim_map_mutation] simt_bind_right [OF sim_supported]
  simt_bind_right [OF sim_exists] simt_bind_right [OF sim_not_referenced]
  simt_bind_right [OF sim_read] simt_bind_right [OF sim_relation_member]
  simt_bind_right [OF sim_assert_member] simt_bind_right [OF sim_assert_not_member]
  simt_bind_right [OF sim_assert]

lemma refines_rotate: "refines W (RotateControllerKey pk)"
  unfolding refines_def circuit_of.simps rotate_controller_key_circuit_def
  by (intro allI, rule simt_eq,
      rule simt_steps, rule simt_steps, rule simt_steps, rule simt_steps,
      rule simt_bind_left, rule simt_record_update, rule sim_verify, simp)
    (simp add: meaning spec_operation_def)

lemma refines_recover: "refines W (RecoverControllerKey pk)"
  unfolding refines_def circuit_of.simps recover_controller_key_circuit_def
  by (intro allI, rule simt_eq,
      rule simt_steps, rule simt_steps, rule simt_steps, rule simt_steps,
      rule simt_bind_left, rule simt_record_update, rule sim_verify, simp)
    (simp add: meaning spec_operation_def)

lemma refines_deactivate: "refines W Deactivate"
  unfolding refines_def circuit_of.simps deactivate_circuit_def
  by (intro allI, rule simt_eq,
      rule simt_steps, rule simt_steps, rule simt_steps, rule simt_steps,
      rule simt_bind_left, rule simt_record_update, rule sim_verify, simp)
    (simp add: meaning spec_operation_def)

lemma refines_remove_method: "refines W (RemoveVerificationMethod k)"
  unfolding refines_def circuit_of.simps remove_verification_method_circuit_def
  by (intro allI, rule simt_eq,
      rule simt_steps, rule simt_steps, rule simt_steps, rule simt_steps,
      rule simt_bind_left, rule simt_record_update, rule sim_verify, simp)
    (simp add: meaning spec_operation_def domIff)

lemma refines_remove_schnorr: "refines W (RemoveSchnorrMethod k)"
  unfolding refines_def circuit_of.simps remove_schnorr_jubjub_verification_method_circuit_def
  by (intro allI, rule simt_eq,
      rule simt_steps, rule simt_steps, rule simt_steps, rule simt_steps,
      rule simt_bind_left, rule simt_record_update, rule sim_verify, simp)
    (simp add: meaning spec_operation_def domIff)

lemma refines_remove_service: "refines W (RemoveService k)"
  unfolding refines_def circuit_of.simps remove_service_circuit_def
  by (intro allI, rule simt_eq,
      rule simt_steps, rule simt_steps, rule simt_steps,
      rule simt_bind_left, rule simt_record_update, rule sim_verify, simp)
    (simp add: meaning spec_operation_def domIff)

text \<open>The circuits with a mutation: an undefined one is refused before the branch.\<close>

lemmas branch_intros = sim_intros sim_assert_member sim_assert_not_member sim_exists
  sim_curve_compatible sim_compatible sim_insert_relation sim_remove_relation

lemmas mutation_meaning = meaning assert_set_mutation_defined_def assert_map_mutation_defined_def
  compact_assert_def domIff

lemma spec_operation_alt:
  "spec_operation R ok op s v t l =
     res_bind (spec_authorized ok op s v (operation_digest R (lg_id l) v op) l) (\<lambda>_.
     res_bind (spec_checks R op l) (\<lambda>_. bump t (spec_change op l)))"
  by (simp add: spec_operation_def change_after_bump)

lemma refines_also_known_as: "refines W (SetAlsoKnownAs alias m)"
  unfolding refines_def circuit_of.simps set_also_known_as_circuit_def
  by (intro allI, rule simt_eq,
      rule simt_steps, rule simt_steps, rule simt_steps,
      rule simt_bind_right, (rule branch_intros | (simp; fail))+, rule simt_record_update)
    (cases m; simp add: mutation_meaning spec_operation_alt)

lemma refines_service: "refines W (SetService sv m)"
  unfolding refines_def circuit_of.simps set_service_circuit_def
  by (intro allI, rule simt_eq,
      rule simt_steps, rule simt_steps, rule simt_steps,
      rule simt_bind_right, (rule branch_intros | (simp; fail))+, rule simt_bind_right, rule sim_verify, simp,
      rule simt_record_update)
    (cases m; simp add: mutation_meaning spec_operation_alt)

lemma refines_schnorr: "refines W (SetSchnorrMethod vm m)"
  unfolding refines_def circuit_of.simps set_schnorr_jubjub_verification_method_circuit_def
  by (intro allI, rule simt_eq,
      rule simt_steps, rule simt_steps, rule simt_steps,
      rule simt_bind_right, (rule branch_intros | (simp; fail))+, rule simt_bind_right, rule sim_verify, simp,
      rule simt_record_update)
    (cases m; simp add: mutation_meaning spec_operation_alt)

lemma refines_method: "refines W (SetVerificationMethod vm m)"
  unfolding refines_def circuit_of.simps set_verification_method_circuit_def
  by (intro allI, rule simt_eq,
      rule simt_steps, rule simt_steps, rule simt_steps, rule simt_steps,
      rule simt_bind_right, (rule branch_intros | (simp; fail))+, rule simt_bind_right, rule sim_verify, simp,
      rule simt_record_update)
    (cases m; simp add: mutation_meaning spec_operation_alt)

lemma refines_relation: "refines W (SetRelation r k m)"
  unfolding refines_def circuit_of.simps set_verification_method_relation_circuit_def
  by (intro allI, rule simt_eq,
      rule simt_steps, rule simt_steps, rule simt_steps,
      rule simt_bind_right [OF sim_exists [unfolded verification_method_exists_def]], rule simt_steps, rule simt_steps, rule simt_steps,
      rule simt_bind_right, (rule branch_intros | (simp; fail))+, rule simt_record_update)
    (cases m; simp add: mutation_meaning spec_operation_alt)

theorem circuit_refines: "refines W op"
  by (cases op)
    (simp_all add: refines_rotate refines_recover refines_also_known_as refines_method
      refines_remove_method refines_schnorr refines_remove_schnorr refines_relation refines_service
      refines_remove_service refines_deactivate)

text \<open>The circuit that verifies a signature with a stored key changes nothing.\<close>

lemma sim_verify_digest:
  "sim (verify_schnorr_jubjub_digest_signature_circuit R k d s) (scheck (spec_verify_digest schnorr_ok k d s))"
  unfolding verify_schnorr_jubjub_digest_signature_circuit_def
  by (rule sim_eq, (rule sim_intros sim_assert_member | (simp; fail))+)
    (auto simp: meaning spec_verify_digest_def compact_assert_def split: option.split)

text \<open>
  The constructor. It asks its three witnesses one after the other, each with the private state the one
  before has left; its other parts keep the private state.
\<close>

definition keeps_private :: "('ps, 'q, 'a) circuit \<Rightarrow> bool" where
  "keeps_private c \<longleftrightarrow> (\<forall>ctx x ctx'. c ctx = Inr (x, ctx') \<longrightarrow> cc_private ctx' = cc_private ctx)"

lemma keeps_bind: "\<lbrakk>keeps_private c; \<And>x. keeps_private (f x)\<rbrakk> \<Longrightarrow> keeps_private (cbind c f)"
  by (force simp: keeps_private_def cbind_def split: sum.splits prod.splits)

lemma keeps_steps:
  "keeps_private (cret x)" "keeps_private (cassert b m)" "keeps_private (cread R rd dec)"
  "keeps_private (cverify R ws)"
  by (auto simp: keeps_private_def cret_def cassert_def clift_def cread_def cverify_def split: sum.splits)

lemma keeps_if: "\<lbrakk>keeps_private c; keeps_private d\<rbrakk> \<Longrightarrow> keeps_private (if b then c else d)"
  by simp

lemma keeps_distinct: "keeps_private (assert_controller_public_key_distinct_from_recovery_authority R pk)"
  unfolding assert_controller_public_key_distinct_from_recovery_authority_def key_differs_from_def cor_def
  by (intro keeps_bind keeps_if keeps_steps)

definition constructor_keys :: "c_address \<Rightarrow> 'p \<Rightarrow> 'p \<Rightarrow> ('ps, 'q, unit) circuit" where
  "constructor_keys a controller recovery =
     cbind (cverify R
              [WriteField 0 2 (CellPoint recovery), WriteField 0 1 (CellPoint controller),
               WriteField 1 4 (CellBool False), WriteField 1 5 (CellBool True),
               WriteField 0 3 (CellAddress a), WriteField 0 0 (CellU32 2)]) (\<lambda>_.
     cbind (cread R (ReadField 0 1 False) decode_jubjub_point) (\<lambda>pk.
       assert_controller_public_key_distinct_from_recovery_authority R pk))"

definition constructor_times :: "('ps, 'p, 'q, 'fr) witnesses \<Rightarrow> ('ps, 'q, unit) circuit" where
  "constructor_times W =
     cbind (ask_timestamp W) (\<lambda>t. cverify R [WriteField 1 2 (CellU64 t), WriteField 1 3 (CellU64 t)])"

lemma cbind_assoc: "cbind (cbind c f) g = cbind c (\<lambda>x. cbind (f x) g)"
  by (rule ext) (simp add: cbind_def split: sum.split prod.split)

lemma constructor_parts:
  "constructor_circuit R W =
     cbind (cread R ReadSelf decode_address) (\<lambda>a.
     cbind (ask_controller_key W) (\<lambda>controller.
     cbind (ask_recovery_key W) (\<lambda>recovery.
     cbind (constructor_keys a controller recovery) (\<lambda>_. constructor_times W))))"
  unfolding constructor_circuit_def constructor_keys_def constructor_times_def by (simp only: cbind_assoc)

lemma sim_constructor_keys:
  "sim (constructor_keys a controller recovery)
     (schange (\<lambda>l. res_bind (compact_assert (keys_differ R controller recovery)
                              ''New controller key matches recovery authority key'') (\<lambda>_.
        Inr (l\<lparr>lg_recovery_key := recovery, lg_controller_key := controller, lg_deactivated := False,
               lg_active := True, lg_id := a, lg_contract_version := 2\<rparr>))))"
  unfolding constructor_keys_def
  by (rule sim_eq, rule sim_bind, rule sim_verify, simp, rule sim_bind, rule sim_read, rule sim_distinct)
    (simp add: meaning)

lemma keeps_constructor_keys: "keeps_private (constructor_keys a controller recovery)"
  unfolding constructor_keys_def by (intro keeps_bind keeps_steps keeps_distinct)

lemma constructor_times_outcome:
  assumes "repr (rt_state R (cc_query ctx)) l" and "self (cc_query ctx) = a"
  shows "case constructor_times W ctx of
           Inl e \<Rightarrow> may_refuse \<and> runtime_error e
         | Inr (_, ctx') \<Rightarrow> \<exists>q t. self q = a \<and> current_timestamp W q (cc_private ctx) = (cc_private ctx', t) \<and>
             repr (rt_state R (cc_query ctx')) (l\<lparr>lg_created := t, lg_updated := t\<rparr>)"
proof -
  obtain ps t where t: "current_timestamp W (cc_query ctx) (cc_private ctx) = (ps, t)" by force
  let ?ws = "[WriteField 1 2 (CellU64 t), WriteField 1 3 (CellU64 t)]"
  let ?ctx = "ctx\<lparr>cc_private := ps\<rparr>"
  have c: "constructor_times W ctx = cverify R ?ws ?ctx"
    by (simp add: constructor_times_def ask_timestamp_def cbind_def t)
  have o: "outcome R repr self may_refuse a (cverify R ?ws ?ctx) (schange (\<lambda>l. read_result (writes_effect ?ws l)) a l)"
    by (rule simD [OF sim_verify]) (use assms in simp_all)
  show ?thesis
  proof (cases "cverify R ?ws ?ctx")
    case (Inl e)
    then show ?thesis using o c by (simp add: meaning)
  next
    case (Inr r)
    then obtain ctx' where r: "cverify R ?ws ?ctx = Inr ((), ctx')" by (cases r) auto
    then have "cc_private ctx' = ps" using keeps_steps(4) [of ?ws] by (auto simp: keeps_private_def)
    moreover have "repr (rt_state R (cc_query ctx')) (l\<lparr>lg_created := t, lg_updated := t\<rparr>)"
      using o [unfolded r] by (simp add: meaning)
    ultimately show ?thesis using t assms(2) unfolding c r by auto
  qed
qed

lemma constructor_run:
  assumes st: "repr (rt_state R (cc_query ctx)) l" and a: "self (cc_query ctx) = a"
    and k: "local_controller_public_key W (cc_query ctx) (cc_private ctx) = (ps1, controller)"
    and r: "local_recovery_authority_public_key W (cc_query ctx) ps1 = (ps2, recovery)"
  shows "case constructor_circuit R W ctx of
           Inl e \<Rightarrow> may_refuse \<and> runtime_error e \<or>
             \<not> keys_differ R controller recovery \<and>
             e = AssertionFailed ''New controller key matches recovery authority key''
         | Inr (_, ctx') \<Rightarrow> keys_differ R controller recovery \<and>
             (\<exists>q t. self q = a \<and> current_timestamp W q ps2 = (cc_private ctx', t) \<and>
                repr (rt_state R (cc_query ctx'))
                  (l\<lparr>lg_recovery_key := recovery, lg_controller_key := controller, lg_deactivated := False,
                     lg_active := True, lg_id := a, lg_contract_version := 2, lg_created := t,
                     lg_updated := t\<rparr>))"
proof (cases "cread R ReadSelf decode_address ctx")
  case (Inl e)
  then show ?thesis using simD [OF sim_read st a, of ReadSelf decode_address]
    by (simp add: constructor_parts cbind_def meaning)
next
  case (Inr x)
  then have x: "x = (a, ctx)"
    using simD [OF sim_read st a, of ReadSelf decode_address]
    by (cases x) (auto simp: meaning cread_def clift_def split: sum.splits)
  let ?ctx = "ctx\<lparr>cc_private := ps2\<rparr>" and ?keys = "constructor_keys a controller recovery"
  have c: "constructor_circuit R W ctx = cbind ?keys (\<lambda>_. constructor_times W) ?ctx"
    using Inr k r by (simp add: constructor_parts x cbind_def ask_controller_key_def ask_recovery_key_def)
  have o: "outcome R repr self may_refuse a (?keys ?ctx)
      (schange (\<lambda>l. res_bind (compact_assert (keys_differ R controller recovery)
                              ''New controller key matches recovery authority key'') (\<lambda>_.
        Inr (l\<lparr>lg_recovery_key := recovery, lg_controller_key := controller, lg_deactivated := False,
               lg_active := True, lg_id := a, lg_contract_version := 2\<rparr>))) a l)"
    by (rule simD [OF sim_constructor_keys]) (use st a in simp_all)
  show ?thesis
  proof (cases "?keys ?ctx")
    case (Inl e)
    then show ?thesis using o
      by (cases e) (auto simp: c cbind_def meaning compact_assert_def split: if_splits)
  next
    case (Inr y)
    then obtain ctx' where y: "?keys ?ctx = Inr ((), ctx')" by (cases y) auto
    then have ps: "cc_private ctx' = ps2" using keeps_constructor_keys by (auto simp: keeps_private_def)
    from o y have d: "keys_differ R controller recovery"
      and l': "repr (rt_state R (cc_query ctx'))
        (l\<lparr>lg_recovery_key := recovery, lg_controller_key := controller, lg_deactivated := False,
           lg_active := True, lg_id := a, lg_contract_version := 2\<rparr>)" "self (cc_query ctx') = a"
      by (auto simp: meaning compact_assert_def split: if_splits)
    show ?thesis using constructor_times_outcome [OF l', of W] d
      by (auto simp: c cbind_def y ps split: sum.splits)
  qed
qed

end

end
