(* ===== verification/Ledger_VM.thy ===== *)
theory Ledger_VM
  imports Contract_Ledger
begin

text \<open>
  A runtime for the contract: a stack machine that executes the programs of the circuits on ledger
  states built from cells, maps and arrays, with a free hash and signatures that name their key. It
  keeps the laws of \<open>ledger_runtime\<close>, and the theorems about the contract are applied to it.
\<close>

section \<open>Ledger states\<close>

datatype 'p sv =
    VNull
  | VCell "'p cell"
  | VMap "string \<Rightarrow> 'p sv option"
  | VArray "'p sv list"

fun pushed :: "'p state_value \<Rightarrow> 'p sv" where
  "pushed (NewCell c) = VCell c"
| "pushed StateNull = VNull"
| "pushed NewMap = VMap Map.empty"

text \<open>\<open>new_array\<close> nests more than 15 fields: the remainder first, then groups of 15.\<close>

definition vm_new_array :: "'p state_value list \<Rightarrow> 'p sv" where
  "vm_new_array vs =
     VArray [VArray (map pushed (take (length vs - 15) vs)), VArray (map pushed (drop (length vs - 15) vs))]"

definition encode_set :: "string set \<Rightarrow> 'p sv" where
  "encode_set ks = VMap (\<lambda>k. if k \<in> ks then Some VNull else None)"

definition encode_map :: "('v \<Rightarrow> 'p cell) \<Rightarrow> (string \<rightharpoonup> 'v) \<Rightarrow> 'p sv" where
  "encode_map f m = VMap (\<lambda>k. map_option (\<lambda>v. VCell (f v)) (m k))"

definition group0 :: "'p c_ledger \<Rightarrow> 'p sv list" where
  "group0 l =
     [VCell (CellU32 (lg_contract_version l)), VCell (CellPoint (lg_controller_key l)),
      VCell (CellPoint (lg_recovery_key l)), VCell (CellAddress (lg_id l))]"

definition group1 :: "'p c_ledger \<Rightarrow> 'p sv list" where
  "group1 l =
     [encode_set (lg_also_known_as l), VCell (CellU64 (lg_version l)), VCell (CellU64 (lg_created l)),
      VCell (CellU64 (lg_updated l)), VCell (CellBool (lg_deactivated l)), VCell (CellBool (lg_active l)),
      VCell (CellU64 (lg_operation_count l)), encode_map CellMethod (lg_methods l),
      encode_map CellSchnorr (lg_schnorr_methods l), encode_set (lg_authentication l),
      encode_set (lg_assertion_method l), encode_set (lg_key_agreement l),
      encode_set (lg_capability_invocation l), encode_set (lg_capability_delegation l),
      encode_map CellService (lg_services l)]"

definition encode_ledger :: "'p c_ledger \<Rightarrow> 'p sv" where
  "encode_ledger l = VArray [VArray (group0 l), VArray (group1 l)]"

section \<open>The machine\<close>

fun vm_index :: "'p cell \<Rightarrow> 'p sv \<Rightarrow> 'p sv option" where
  "vm_index (CellU8 i) (VArray xs) = (if i < length xs then Some (xs ! i) else None)"
| "vm_index (CellString k) (VMap m) = m k"
| "vm_index _ _ = None"

fun vm_insert :: "'p cell \<Rightarrow> 'p sv \<Rightarrow> 'p sv \<Rightarrow> 'p sv option" where
  "vm_insert (CellU8 i) v (VArray xs) = (if i < length xs then Some (VArray (xs[i := v])) else None)"
| "vm_insert (CellString k) v (VMap m) = Some (VMap (m(k \<mapsto> v)))"
| "vm_insert _ _ _ = None"

fun vm_remove :: "'p cell \<Rightarrow> 'p sv \<Rightarrow> 'p sv option" where
  "vm_remove (CellString k) (VMap m) = Some (VMap (m(k := None)))"
| "vm_remove _ _ = None"

fun vm_member :: "'p cell \<Rightarrow> 'p sv \<Rightarrow> bool option" where
  "vm_member (CellString k) (VMap m) = Some (m k \<noteq> None)"
| "vm_member _ _ = None"

fun vm_addi :: "nat \<Rightarrow> 'p sv \<Rightarrow> 'p sv option" where
  "vm_addi n (VCell (CellU64 v)) =
     (if unat v + n < 2 ^ 64 then Some (VCell (CellU64 (v + of_nat n))) else None)"
| "vm_addi n _ = None"

text \<open>The top of the stack comes first. With its flag, \<open>idx\<close> leaves the path for \<open>ins\<close>.\<close>

fun vm_idx :: "'p cell \<Rightarrow> bool \<Rightarrow> 'p sv list \<Rightarrow> 'p sv list option" where
  "vm_idx k path (x # st) =
     (case vm_index k x of
        Some y \<Rightarrow> Some (if path then y # VCell k # x # st else y # st)
      | None \<Rightarrow> None)"
| "vm_idx k path [] = None"

fun vm_ins :: "nat \<Rightarrow> 'p sv list \<Rightarrow> 'p sv list option" where
  "vm_ins (Suc n) (v # VCell k # x # st) =
     (case vm_insert k v x of Some y \<Rightarrow> vm_ins n (y # st) | None \<Rightarrow> None)"
| "vm_ins 0 st = Some st"
| "vm_ins _ _ = None"

fun vm_step :: "'p op \<Rightarrow> 'p sv list \<times> 'p gather_event list \<Rightarrow> ('p sv list \<times> 'p gather_event list) option" where
  "vm_step (Dup n) (st, es) = (if n < length st then Some (st ! n # st, es) else None)"
| "vm_step (IdxAt i path) (st, es) = map_option (\<lambda>st'. (st', es)) (vm_idx (CellU8 i) path st)"
| "vm_step (IdxKey k path) (st, es) = map_option (\<lambda>st'. (st', es)) (vm_idx k path st)"
| "vm_step (Push _ v) (st, es) = Some (pushed v # st, es)"
| "vm_step (Ins _ n) (st, es) = map_option (\<lambda>st'. (st', es)) (vm_ins n st)"
| "vm_step (Rem _) (st, es) =
     (case st of VCell k # x # st' \<Rightarrow> map_option (\<lambda>y. (y # st', es)) (vm_remove k x) | _ \<Rightarrow> None)"
| "vm_step (Addi n) (st, es) =
     (case st of x # st' \<Rightarrow> map_option (\<lambda>y. (y # st', es)) (vm_addi n x) | _ \<Rightarrow> None)"
| "vm_step Member (st, es) =
     (case st of
        VCell k # x # st' \<Rightarrow> map_option (\<lambda>b. (VCell (CellBool b) # st', es)) (vm_member k x)
      | _ \<Rightarrow> None)"
| "vm_step (Popeq _) (st, es) =
     (case st of VCell c # st' \<Rightarrow> Some (st', es @ [ReadEvent c]) | _ \<Rightarrow> None)"

fun vm_run :: "'p op list \<Rightarrow> 'p sv list \<times> 'p gather_event list \<Rightarrow> ('p sv list \<times> 'p gather_event list) option" where
  "vm_run [] s = Some s"
| "vm_run (op # ops) s = Option.bind (vm_step op s) (vm_run ops)"

text \<open>A program starts with the state on top, then the effects, then the context with the own address.\<close>

definition vm_stack :: "'p sv \<times> c_address \<Rightarrow> 'p sv list" where
  "vm_stack q = [fst q, VNull, VArray [VCell (CellAddress (snd q))]]"

definition vm_read :: "'p sv \<times> c_address \<Rightarrow> 'p op list \<Rightarrow> string + 'p gather_event list" where
  "vm_read q ops =
     (case vm_run ops (vm_stack q, []) of Some (st, es) \<Rightarrow> Inr es | None \<Rightarrow> Inl ''program failed'')"

definition vm_verify :: "'p sv \<times> c_address \<Rightarrow> 'p op list \<Rightarrow> string + 'p sv \<times> c_address" where
  "vm_verify q ops =
     (case vm_run ops (vm_stack q, []) of
        Some (s # st, es) \<Rightarrow> Inr (s, snd q)
      | _ \<Rightarrow> Inl ''program failed'')"

section \<open>The machine on the contract's ledger\<close>

lemma vm_encoded [simp]:
  "vm_index (CellString k) (encode_set ks) = (if k \<in> ks then Some VNull else None)"
  "vm_index (CellString k) (encode_map f m) = map_option (\<lambda>v. VCell (f v)) (m k)"
  "vm_member (CellString k) (encode_set ks) = Some (k \<in> ks)"
  "vm_member (CellString k) (encode_map f m) = Some (k \<in> dom m)"
  "vm_insert (CellString k) VNull (encode_set ks) = Some (encode_set (insert k ks))"
  "vm_insert (CellString k) (VCell (f v)) (encode_map f m) = Some (encode_map f (m(k \<mapsto> v)))"
  "vm_remove (CellString k) (encode_set ks) = Some (encode_set (ks - {k}))"
  "vm_remove (CellString k) (encode_map f m) = Some (encode_map f (m(k := None)))"
  by (auto simp: encode_set_def encode_map_def fun_eq_iff domIff)

lemmas group_defs = encode_ledger_def group0_def group1_def

text \<open>The indices of a group, for case analysis.\<close>

lemma below_5: "(i::nat) < 5 \<longleftrightarrow> i \<in> {0, 1, 2, 3, 4}"
  by auto

lemma below_3: "(i::nat) < 3 \<longleftrightarrow> i \<in> {0, 1, 2}"
  by auto

lemma small_index:
  assumes "(i::nat) < 15"
  obtains "i = 0" | "i = 1" | "i = 2" | "i = 3" | "i = 4" | "i = 5" | "i = 6" | "i = 7"
    | "i = 8" | "i = 9" | "i = 10" | "i = 11" | "i = 12" | "i = 13" | "i = 14"
proof -
  have "i = 5 * (i div 5) + i mod 5" and "i mod 5 < 5" and "i div 5 < 3" using assms by simp_all
  then show thesis
    using that unfolding below_5 below_3 by (elim insertE emptyE) simp_all
qed

lemma list_update_numeral [simp]:
  "(x # xs)[numeral n := y] = x # xs[pred_numeral n := y]"
  by (simp add: numeral_eq_Suc)

lemma vm_ins_numeral [simp]: "vm_ins (numeral n) st = vm_ins (Suc (pred_numeral n)) st"
  by (simp add: numeral_eq_Suc)

lemma vm_read_spec:
  "vm_read (encode_ledger l, a) (read_ops rd) =
     (case read_value rd a l of Some c \<Rightarrow> Inr [ReadEvent c] | None \<Rightarrow> Inl ''program failed'')"
proof (cases rd)
  case ReadSelf
  then show ?thesis by (simp add: vm_read_def vm_stack_def)
next
  case (ReadField g i c)
  show ?thesis
    by (cases "g = 0 \<and> i < 4 \<or> g = 1 \<and> i < 15")
      (auto simp: ReadField vm_read_def vm_stack_def group_defs encode_set_def encode_map_def
        numeral_eq_Suc less_Suc_eq)
next
  case (ReadMember i k)
  show ?thesis
  proof (cases "i < 15")
    case True
    then show ?thesis
      by (elim small_index) (simp_all add: ReadMember vm_read_def vm_stack_def group_defs)
  next
    case False
    then show ?thesis by (simp add: ReadMember vm_read_def vm_stack_def group_defs)
  qed
next
  case (ReadEntry i k)
  show ?thesis
  proof (cases "i < 15")
    case True
    then show ?thesis
      by (elim small_index)
        (simp_all add: ReadEntry vm_read_def vm_stack_def group_defs split: option.split)
  next
    case False
    then show ?thesis by (simp add: ReadEntry vm_read_def vm_stack_def group_defs)
  qed
qed

lemma vm_run_append: "vm_run (xs @ ys) s = Option.bind (vm_run xs s) (vm_run ys)"
proof (induction xs arbitrary: s)
  case (Cons op xs)
  then show ?case by (cases "vm_step op s") simp_all
qed simp

lemma vm_run_write:
  assumes "write_typed w"
  shows "vm_run (write_ops w) (encode_ledger l # st, es) =
           map_option (\<lambda>l'. (encode_ledger l' # st, es)) (write_effect w l)"
proof (cases w)
  case (WriteField a i v)
  then show ?thesis using assms
    by (cases v) (auto simp: group_defs)
next
  case (InsertKey i k)
  then have "i = 0 \<or> i = 9 \<or> i = 10 \<or> i = 11 \<or> i = 12 \<or> i = 13" using assms by simp
  then show ?thesis
    by (elim disjE) (simp_all add: InsertKey group_defs)
next
  case (InsertEntry i k v)
  then show ?thesis using assms
    by (cases v) (auto simp: group_defs)
next
  case (RemoveKey i k)
  then have "i < 15" and "i = 0 \<or> 7 \<le> i" using assms by auto
  then show ?thesis
    by (elim small_index) (simp_all add: RemoveKey group_defs)
next
  case (Increment i n)
  then have "i = 1 \<or> i = 6" using assms by simp
  then show ?thesis
    by (elim disjE) (simp_all add: Increment group_defs)
qed

lemma vm_run_program:
  "list_all write_typed ws \<Longrightarrow>
   vm_run (program ws) (encode_ledger l # st, es) =
     map_option (\<lambda>l'. (encode_ledger l' # st, es)) (writes_effect ws l)"
proof (induction ws arbitrary: l)
  case Nil
  then show ?case by (simp add: program_def)
next
  case (Cons w ws)
  then show ?case
    using vm_run_write [of w l st es]
    by (cases "write_effect w l") (auto simp: program_def vm_run_append)
qed

section \<open>The runtime\<close>

text \<open>A free hash: equal hashes come from equal inputs. A point is its two coordinates.\<close>

datatype ref_fr =
    FrNum nat
  | FrHash "(alignment_atom list \<times> (ref_fr, ref_fr \<times> ref_fr) atom list) list"

type_synonym ref_point = "ref_fr \<times> ref_fr"

text \<open>A signature is the digest and the key it was made for; it is accepted for these.\<close>

type_synonym ref_signature = "ref_fr digest4 \<times> ref_point"

definition ref_schnorr_ok :: "ref_fr digest4 \<Rightarrow> ref_signature \<Rightarrow> ref_point \<Rightarrow> bool" where
  "ref_schnorr_ok d s pk \<longleftrightarrow> s = (d, pk)"

definition ref_runtime ::
  "('ps, ref_point, ref_point sv \<times> c_address, ref_point sv, ref_fr, ref_signature) runtime" where
  "ref_runtime =
     \<lparr>rt_new_array = vm_new_array, rt_query_context = Pair, rt_state = fst, rt_read = vm_read,
      rt_verify = vm_verify,
      rt_schnorr_verify_jubjub =
        (\<lambda>ctx d s pk. if ref_schnorr_ok d s pk then Inr ctx else Inl ''invalid signature''),
      rt_point_x = fst, rt_point_y = snd, rt_point_default = (FrNum 0, FrNum 0), rt_hash = FrHash\<rparr>"

definition ref_repr :: "ref_point sv \<Rightarrow> ref_point c_ledger \<Rightarrow> bool" where
  "ref_repr st l \<longleftrightarrow> st = encode_ledger l"

lemma vm_new_array_defaults: "vm_new_array (ledger_array p) = encode_ledger (ledger_of_defaults p)"
  by (simp add: vm_new_array_def ledger_array_def group_defs ledger_of_defaults_def encode_set_def
      encode_map_def)

interpretation ref: ledger_runtime ref_runtime ref_repr snd ref_schnorr_ok False
proof (unfold_locales, goal_cases)
  case 1
  then show ?case by (simp add: ref_runtime_def ref_repr_def vm_new_array_defaults)
next
  case 2
  then show ?case by (simp add: ref_runtime_def)
next
  case 3
  then show ?case by (simp add: ref_runtime_def)
next
  case (4 q l rd es)
  then show ?case
    using vm_read_spec [of l "snd q" rd]
    by (cases q) (auto simp: ref_runtime_def ref_repr_def split: option.splits)
next
  case (5 q l rd e)
  then show ?case
    using vm_read_spec [of l "snd q" rd]
    by (cases q) (auto simp: ref_runtime_def ref_repr_def split: option.splits)
next
  case (6 q l ws q')
  then show ?case
    using vm_run_program [of ws l "[VNull, VArray [VCell (CellAddress (snd q))]]" "[]"]
    by (cases q) (auto simp: ref_runtime_def ref_repr_def vm_verify_def vm_stack_def
        split: option.splits list.splits)
next
  case (7 q l ws e)
  then show ?case
    using vm_run_program [of ws l "[VNull, VArray [VCell (CellAddress (snd q))]]" "[]"]
    by (cases q) (auto simp: ref_runtime_def ref_repr_def vm_verify_def vm_stack_def
        split: option.splits list.splits)
next
  case (8 ctx l d s pk ctx')
  then show ?case by (auto simp: ref_runtime_def split: if_splits)
next
  case (9 ctx l d s pk e)
  then show ?case by (auto simp: ref_runtime_def split: if_splits)
qed

text \<open>With a trivial private state, for the examples.\<close>

abbreviation demo_runtime ::
  "(unit, ref_point, ref_point sv \<times> c_address, ref_point sv, ref_fr, ref_signature) runtime" where
  "demo_runtime \<equiv> ref_runtime"

end
