(* ===== verification/Ledger_Invariants.thy ===== *)
theory Ledger_Invariants
  imports Circuit_Refinement Ledger_VM
begin

text \<open>
  The contract as a state machine: its states are those reached from \<open>initial_state\<close> by successful
  calls of its circuits, each with its own witnesses, private state, signature and claimed version.
  The invariant \<open>ledger_inv\<close> holds in all of them.
\<close>

section \<open>Runs\<close>

text \<open>A circuit called on a ledger state, in a query context at the contract's address.\<close>

definition call_circuit ::
  "('ps, 'p, 'q, 'st, 'fr, 'sig) runtime \<Rightarrow> c_address \<Rightarrow> 'ps \<Rightarrow> 'st \<Rightarrow> ('ps, 'q, 'a) circuit \<Rightarrow>
   compact_error + 'st \<times> 'ps" where
  "call_circuit R addr ps st c =
     (case c \<lparr>cc_private = ps, cc_query = rt_query_context R st addr\<rparr> of
        Inl e \<Rightarrow> Inl e
      | Inr (_, ctx) \<Rightarrow> Inr (rt_state R (cc_query ctx), cc_private ctx))"

definition run_operation ::
  "('ps, 'p, 'q, 'st, 'fr, 'sig) runtime \<Rightarrow> ('ps, 'p, 'q, 'fr) witnesses \<Rightarrow> c_address \<Rightarrow> 'ps \<Rightarrow>
   'p operation \<Rightarrow> 'sig \<Rightarrow> u64 \<Rightarrow> 'st \<Rightarrow> compact_error + 'st \<times> 'ps" where
  "run_operation R W addr ps op signature v st =
     call_circuit R addr ps st (circuit_of R W op signature v)"

inductive reachable ::
  "('ps, 'p, 'q, 'st, 'fr, 'sig) runtime \<Rightarrow> c_address \<Rightarrow> 'st \<Rightarrow> bool" for R addr where
  created: "initial_state R W ps = Inr (st, ps') \<Longrightarrow> reachable R addr st"
| operated:
    "\<lbrakk>reachable R addr st; run_operation R W addr ps op signature v st = Inr (st', ps')\<rbrakk>
     \<Longrightarrow> reachable R addr st'"

text \<open>\<open>later\<close>: one state comes after another by successful operations.\<close>

inductive later ::
  "('ps, 'p, 'q, 'st, 'fr, 'sig) runtime \<Rightarrow> c_address \<Rightarrow> 'st \<Rightarrow> 'st \<Rightarrow> bool" for R addr where
  same: "later R addr st st"
| more:
    "\<lbrakk>later R addr st st'; run_operation R W addr ps op signature v st' = Inr (st'', ps')\<rbrakk>
     \<Longrightarrow> later R addr st st''"

inductive_cases reachableE: "reachable R addr st"

section \<open>The invariant\<close>

definition methods_inv :: "'p c_ledger \<Rightarrow> bool" where
  "methods_inv l \<longleftrightarrow>
     (\<forall>k m. lg_methods l k = Some m \<longrightarrow>
        cvm_id m = k \<and> lg_schnorr_methods l k = None \<and> assert_supported_verification_method m = Inr ()) \<and>
     (\<forall>k m. lg_schnorr_methods l k = Some m \<longrightarrow> csm_id m = k) \<and>
     (\<forall>k s. lg_services l k = Some s \<longrightarrow> cs_id s = k)"

text \<open>A relation refers to methods that exist and whose key fits it.\<close>

definition fits :: "c_relation \<Rightarrow> string \<Rightarrow> 'p c_ledger \<Rightarrow> bool" where
  "fits r k l \<longleftrightarrow>
     (if r = CR_KeyAgreement then
        \<exists>m. lg_methods l k = Some m \<and> cj_crv (cvm_public_key_jwk m) = CC_X25519
      else method_known k l \<and>
        (\<forall>m. lg_methods l k = Some m \<longrightarrow> cj_crv (cvm_public_key_jwk m) \<noteq> CC_X25519))"

definition relations_inv :: "'p c_ledger \<Rightarrow> bool" where
  "relations_inv l \<longleftrightarrow> (\<forall>r k. k \<in> relation_members r l \<longrightarrow> fits r k l)"

definition status_inv :: "('ps, 'p, 'q, 'st, 'fr, 'sig) runtime \<Rightarrow> 'p c_ledger \<Rightarrow> bool" where
  "status_inv R l \<longleftrightarrow>
     lg_active l = (\<not> lg_deactivated l) \<and> lg_version l = lg_operation_count l \<and>
     lg_contract_version l = 2 \<and> keys_differ R (lg_controller_key l) (lg_recovery_key l)"

definition ledger_inv :: "('ps, 'p, 'q, 'st, 'fr, 'sig) runtime \<Rightarrow> 'p c_ledger \<Rightarrow> bool" where
  "ledger_inv R l \<longleftrightarrow> methods_inv l \<and> relations_inv l \<and> status_inv R l"

lemmas check_defs = compact_assert_def assert_set_mutation_defined_def assert_map_mutation_defined_def

lemma compact_assert_iff [simp]:
  "compact_assert b m = Inr u \<longleftrightarrow> b"
  "compact_assert b m = Inl e \<longleftrightarrow> \<not> b \<and> e = AssertionFailed m"
  by (auto simp: compact_assert_def)

lemma spec_operationE:
  assumes "spec_operation R ok op s v t l = Inr l'"
  obtains l1 where "spec_authorized ok op s v (operation_digest R (lg_id l) v op) l = Inr ()"
    "spec_checks R op l = Inr ()" "bump t l = Inr l1" "l' = spec_change op l1"
  using assms by (auto simp: spec_operation_def result_simps)

lemma bumpE:
  assumes "bump t l = Inr l1"
  obtains "l1 = l\<lparr>lg_operation_count := lg_operation_count l + 1, lg_version := lg_version l + 1,
                  lg_updated := t\<rparr>"
    "unat (lg_version l) + 1 < 2 ^ 64"
  using assms by (auto simp: bump_def split: if_splits)

text \<open>The checks do not look at the counters or the time.\<close>

lemma relation_members_update_relation:
  "r \<noteq> CR_Undefined \<Longrightarrow>
   relation_members r' (update_relation r f l) = (if r' = r then f (relation_members r l) else relation_members r' l)"
  by (cases r; cases r') (simp_all add: relation_members_def update_relation_def)

lemma update_relation_simps [simp]:
  "lg_methods (update_relation r f l) = lg_methods l"
  "lg_schnorr_methods (update_relation r f l) = lg_schnorr_methods l"
  "lg_services (update_relation r f l) = lg_services l"
  "lg_active (update_relation r f l) = lg_active l"
  "lg_deactivated (update_relation r f l) = lg_deactivated l"
  "lg_version (update_relation r f l) = lg_version l"
  "lg_operation_count (update_relation r f l) = lg_operation_count l"
  "lg_contract_version (update_relation r f l) = lg_contract_version l"
  "lg_controller_key (update_relation r f l) = lg_controller_key l"
  "lg_recovery_key (update_relation r f l) = lg_recovery_key l"
  "lg_id (update_relation r f l) = lg_id l"
  "lg_created (update_relation r f l) = lg_created l"
  "lg_updated (update_relation r f l) = lg_updated l"
  "lg_also_known_as (update_relation r f l) = lg_also_known_as l"
  by (simp_all add: update_relation_def)

section \<open>Every operation keeps the invariant\<close>

lemma methods_inv_change:
  assumes "methods_inv l" and "spec_checks R op l = Inr ()"
  shows "methods_inv (spec_change op l)"
proof (cases op)
  case (SetVerificationMethod vm m)
  then show ?thesis using assms
    by (cases m) (auto simp: methods_inv_def result_simps check_defs method_known_def split: if_splits)
next
  case (SetSchnorrMethod vm m)
  then show ?thesis using assms
    by (cases m; cases "lg_methods l (csm_id vm)")
      (auto simp: methods_inv_def result_simps check_defs method_known_def split: if_splits)
qed (use assms in \<open>auto simp: methods_inv_def\<close>)

lemma relation_members_simps [simp]:
  "relation_members r (l\<lparr>lg_controller_key := pk\<rparr>) = relation_members r l"
  "relation_members r (l\<lparr>lg_also_known_as := a\<rparr>) = relation_members r l"
  "relation_members r (l\<lparr>lg_methods := ms\<rparr>) = relation_members r l"
  "relation_members r (l\<lparr>lg_schnorr_methods := ss\<rparr>) = relation_members r l"
  "relation_members r (l\<lparr>lg_services := sv\<rparr>) = relation_members r l"
  "relation_members r (l\<lparr>lg_active := b, lg_deactivated := d\<rparr>) = relation_members r l"
  "relation_members r (l\<lparr>lg_operation_count := n, lg_version := v, lg_updated := t\<rparr>) = relation_members r l"
  by (simp_all add: relation_members_def)

lemma not_referenced:
  "spec_not_referenced k l = Inr () \<longleftrightarrow> (\<forall>r. k \<notin> relation_members r l)"
  by (auto simp: spec_not_referenced_def result_simps relation_members_def)

lemma signing_member_iff:
  "signing_member k l \<longleftrightarrow> (\<exists>r. r \<noteq> CR_KeyAgreement \<and> k \<in> relation_members r l)"
  by (auto simp: signing_member_def relation_members_def split: if_splits)

lemma key_agreement_set: "lg_key_agreement l = relation_members CR_KeyAgreement l"
  by (simp add: relation_members_def)

lemma curve_compatible:
  "spec_curve_compatible k curve l = Inr () \<longleftrightarrow>
     (\<forall>r. k \<in> relation_members r l \<longrightarrow> (curve = CC_X25519) = (r = CR_KeyAgreement))"
  by (auto simp: spec_curve_compatible_def result_simps signing_member_iff key_agreement_set)

lemma compatible_fits:
  "\<lbrakk>spec_compatible r k l = Inr (); method_known k l; r \<noteq> CR_Undefined\<rbrakk> \<Longrightarrow> fits r k l"
  by (cases r)
    (auto simp: spec_compatible_def fits_def is_signing_verification_method_relation_def
      split: option.splits)

lemma fits_cong:
  "\<lbrakk>lg_methods l' k = lg_methods l k; lg_schnorr_methods l' k = None \<longleftrightarrow> lg_schnorr_methods l k = None\<rbrakk>
   \<Longrightarrow> fits r k l' = fits r k l"
  by (simp add: fits_def method_known_def)

lemma fits_known: "fits r k l \<Longrightarrow> method_known k l"
  by (auto simp: fits_def method_known_def split: if_splits)

lemma relations_invD: "\<lbrakk>relations_inv l; k \<in> relation_members r l\<rbrakk> \<Longrightarrow> fits r k l"
  by (simp add: relations_inv_def)

lemma relations_inv_cong:
  assumes "relations_inv l" and "lg_methods l' = lg_methods l"
    and "lg_schnorr_methods l' = lg_schnorr_methods l" and "\<And>r. relation_members r l' = relation_members r l"
  shows "relations_inv l'"
  using assms fits_cong [of l' _ l] by (simp add: relations_inv_def)

lemma relations_inv_change:
  assumes inv: "relations_inv l" and ok: "spec_checks R op l = Inr ()"
  shows "relations_inv (spec_change op l)"
proof (cases op)
  case (SetVerificationMethod vm m)
  have "fits r k (spec_change op l)" if k: "k \<in> relation_members r l" for r k
  proof (cases "k = cvm_id vm")
    case False
    then show ?thesis using relations_invD [OF inv k]
      by (subst fits_cong [of "spec_change op l" k l]) (simp_all add: SetVerificationMethod)
  next
    case True
    have "method_known k l" by (rule fits_known [OF relations_invD [OF inv k]])
    then have "spec_curve_compatible k (cj_crv (cvm_public_key_jwk vm)) l = Inr ()"
      using ok True by (cases m) (auto simp: SetVerificationMethod result_simps check_defs split: if_splits)
    then show ?thesis using k True
      by (auto simp: SetVerificationMethod curve_compatible fits_def method_known_def)
  qed
  then show ?thesis by (simp add: relations_inv_def SetVerificationMethod)
next
  case (SetSchnorrMethod vm m)
  have "fits r k (spec_change op l)" if "k \<in> relation_members r l" for r k
    using relations_invD [OF inv that]
    by (auto simp: SetSchnorrMethod fits_def method_known_def split: if_splits)
  then show ?thesis by (simp add: relations_inv_def SetSchnorrMethod)
next
  case (RemoveVerificationMethod k0)
  then have free: "k0 \<notin> relation_members r l" for r using ok by (auto simp: result_simps not_referenced)
  have "fits r k (spec_change op l)" if k: "k \<in> relation_members r l" for r k
    using relations_invD [OF inv k] free k
    by (subst fits_cong [of "spec_change op l" k l]) (auto simp: RemoveVerificationMethod)
  then show ?thesis by (simp add: relations_inv_def RemoveVerificationMethod)
next
  case (RemoveSchnorrMethod k0)
  then have free: "k0 \<notin> relation_members r l" for r using ok by (auto simp: result_simps not_referenced)
  have "fits r k (spec_change op l)" if k: "k \<in> relation_members r l" for r k
    using relations_invD [OF inv k] free k
    by (subst fits_cong [of "spec_change op l" k l]) (auto simp: RemoveSchnorrMethod)
  then show ?thesis by (simp add: relations_inv_def RemoveSchnorrMethod)
next
  case (SetRelation r0 k0 m)
  have r0: "r0 \<noteq> CR_Undefined" and known: "method_known k0 l"
    and comp: "m = CSM_Insert \<Longrightarrow> spec_compatible r0 k0 l = Inr ()"
    using ok by (auto simp: SetRelation result_simps split: if_splits)
  have fit: "m = CSM_Insert \<Longrightarrow> fits r0 k0 l" using compatible_fits [OF comp known r0] .
  have "fits r k l" if "k \<in> relation_members r (spec_change op l)" for r k
    using that relations_invD [OF inv] fit
    by (auto simp: SetRelation relation_members_update_relation [OF r0] split: if_splits)
  then have "fits r k (spec_change op l)" if "k \<in> relation_members r (spec_change op l)" for r k
    using that by (subst fits_cong [of "spec_change op l" k l]) (auto simp: SetRelation)
  then show ?thesis by (simp add: relations_inv_def)
qed (simp_all add: relations_inv_cong [OF inv])

lemma status_inv_change:
  assumes "status_inv R l" and "spec_checks R op l = Inr ()" and "lg_active l"
  shows "status_inv R (spec_change op l)"
  using assms by (cases op) (auto simp: status_inv_def result_simps)

text \<open>The counters and the time do not matter to the checks.\<close>

abbreviation counted :: "u64 \<Rightarrow> u64 \<Rightarrow> u64 \<Rightarrow> 'p c_ledger \<Rightarrow> 'p c_ledger" where
  "counted n v t l \<equiv> l\<lparr>lg_operation_count := n, lg_version := v, lg_updated := t\<rparr>"

lemma counted_simps [simp]:
  "method_known k (counted n v t l) = method_known k l"
  "signing_member k (counted n v t l) = signing_member k l"
  "spec_not_referenced k (counted n v t l) = spec_not_referenced k l"
  "spec_compatible r k (counted n v t l) = spec_compatible r k l"
  "spec_curve_compatible k c (counted n v t l) = spec_curve_compatible k c l"
  "fits r k (counted n v t l) = fits r k l"
  by (simp_all add: method_known_def signing_member_def spec_not_referenced_def spec_compatible_def
      spec_curve_compatible_def fits_def)

lemma checks_counted: "spec_checks R op (counted n v t l) = spec_checks R op l"
  by (cases op) simp_all

lemma inv_bump:
  assumes "ledger_inv R l" and "bump t l = Inr l1"
  shows "ledger_inv R l1"
  using assms
  by (auto elim!: bumpE simp: ledger_inv_def methods_inv_def relations_inv_def status_inv_def)

lemma checks_bump: "bump t l = Inr l1 \<Longrightarrow> spec_checks R op l1 = spec_checks R op l"
  by (auto elim!: bumpE simp: checks_counted)

lemma authorized_active: "spec_authorized ok op s v d l = Inr () \<Longrightarrow> lg_active l"
  by (cases op) (auto simp: spec_controller_active_def spec_recovery_active_def result_simps)

theorem ledger_inv_operation:
  assumes inv: "ledger_inv R l" and op: "spec_operation R ok op s v t l = Inr l'"
  shows "ledger_inv R l'"
proof -
  from op obtain l1 where a: "spec_authorized ok op s v (operation_digest R (lg_id l) v op) l = Inr ()"
    and c: "spec_checks R op l = Inr ()" and b: "bump t l = Inr l1" and l': "l' = spec_change op l1"
    by (rule spec_operationE)
  have inv1: "ledger_inv R l1" by (rule inv_bump [OF inv b])
  have c1: "spec_checks R op l1 = Inr ()" using c by (simp add: checks_bump [OF b])
  have "lg_active l1" using authorized_active [OF a] b by (auto elim!: bumpE)
  then show ?thesis
    using inv1 methods_inv_change [OF _ c1] relations_inv_change [OF _ c1] status_inv_change [OF _ c1]
    by (simp add: l' ledger_inv_def)
qed

lemma ledger_inv_constructor:
  assumes "spec_constructor R a controller recovery t (ledger_of_defaults p) = Inr l"
  shows "ledger_inv R l"
  using assms
  by (auto simp: spec_constructor_def result_simps ledger_inv_def methods_inv_def relations_inv_def
      status_inv_def relation_members_def ledger_of_defaults_def split: if_splits)

section \<open>The states of the contract\<close>

text \<open>What a successful circuit, called on a state, says about the ledger.\<close>

context ledger_runtime
begin

text \<open>The outcome of \<open>initial_state\<close>, by what its witnesses answer.\<close>

lemma initial_state_run:
  assumes "local_controller_public_key W (rt_query_context R (rt_new_array R (ledger_array (rt_point_default R)))
             address_default) ps = (ps1, controller)"
    and "local_recovery_authority_public_key W (rt_query_context R (rt_new_array R (ledger_array (rt_point_default R)))
             address_default) ps1 = (ps2, recovery)"
  shows "case initial_state R W ps of
           Inl e \<Rightarrow> may_refuse \<and> runtime_error e \<or>
             \<not> keys_differ R controller recovery \<and>
             e = AssertionFailed ''New controller key matches recovery authority key''
         | Inr (st, ps') \<Rightarrow> keys_differ R controller recovery \<and>
             (\<exists>q t. self q = address_default \<and> current_timestamp W q ps2 = (ps', t) \<and>
                repr st ((ledger_of_defaults (rt_point_default R))
                  \<lparr>lg_recovery_key := recovery, lg_controller_key := controller, lg_deactivated := False,
                   lg_active := True, lg_id := address_default, lg_contract_version := 2, lg_created := t,
                   lg_updated := t\<rparr>))"
proof -
  let ?st0 = "rt_new_array R (ledger_array (rt_point_default R))"
  let ?ctx = "\<lparr>cc_private = ps, cc_query = rt_query_context R ?st0 address_default\<rparr>"
  have st0: "repr (rt_state R (cc_query ?ctx)) (ledger_of_defaults (rt_point_default R))"
    and self0: "self (cc_query ?ctx) = address_default"
    by (simp_all add: context_state context_self new_array)
  show ?thesis
    using constructor_run [OF st0 self0, of W ps1 controller ps2 recovery] assms
    by (auto simp: initial_state_def split: sum.splits)
qed

lemma constructed:
  assumes "initial_state R W ps = Inr (st, ps')"
  obtains controller recovery t l where
    "spec_constructor R address_default controller recovery t (ledger_of_defaults (rt_point_default R)) = Inr l"
    "repr st l"
proof -
  let ?q = "rt_query_context R (rt_new_array R (ledger_array (rt_point_default R))) address_default"
  obtain ps1 controller where k: "local_controller_public_key W ?q ps = (ps1, controller)" by force
  obtain ps2 recovery where r: "local_recovery_authority_public_key W ?q ps1 = (ps2, recovery)" by force
  show thesis
    using initial_state_run [OF k r] that [of controller recovery]
    by (auto simp: assms spec_constructor_def compact_assert_def)
qed

lemma operated_run:
  assumes st: "repr st l" and run: "run_operation R W addr ps op s v st = Inr (st', ps')"
  obtains t l' where "answers self (current_timestamp W) addr t"
    "spec_operation R schnorr_ok op s v t l = Inr l'" "repr st' l'"
proof -
  let ?ctx = "\<lparr>cc_private = ps, cc_query = rt_query_context R st addr\<rparr>"
  have "repr (rt_state R (cc_query ?ctx)) l" "self (cc_query ?ctx) = addr"
    using st by (simp_all add: context_state context_self)
  moreover have "simt (answers self (current_timestamp W)) (circuit_of R W op s v)
      (\<lambda>t. schange (spec_operation R schnorr_ok op s v t))"
    using circuit_refines [of W op] by (simp add: refines_def)
  ultimately obtain t where a: "answers self (current_timestamp W) addr t" and o: "outcome R repr self may_refuse addr (circuit_of R W op s v ?ctx)
      (schange (spec_operation R schnorr_ok op s v t) addr l)"
    using simtE by blast
  obtain ctx where c: "circuit_of R W op s v ?ctx = Inr ((), ctx)" and st': "st' = rt_state R (cc_query ctx)"
    using run by (auto simp: run_operation_def call_circuit_def split: sum.splits prod.splits)
  show thesis
    using o that [OF a] unfolding c by (auto simp: st' schange_apply result_simps)
qed

lemma operated_ok:
  assumes "repr st l" and "run_operation R W addr ps op s v st = Inr (st', ps')"
  obtains t l' where "spec_operation R schnorr_ok op s v t l = Inr l'" "repr st' l'"
  by (rule operated_run [OF assms]) (rule that)

lemma operated_error:
  assumes st: "repr st l" and run: "run_operation R W addr ps op s v st = Inl e"
  obtains "may_refuse" "runtime_error e"
    | t where "answers self (current_timestamp W) addr t" "spec_operation R schnorr_ok op s v t l = Inl (erase e)"
proof -
  let ?ctx = "\<lparr>cc_private = ps, cc_query = rt_query_context R st addr\<rparr>"
  have "repr (rt_state R (cc_query ?ctx)) l" "self (cc_query ?ctx) = addr"
    using st by (simp_all add: context_state context_self)
  moreover have "simt (answers self (current_timestamp W)) (circuit_of R W op s v)
      (\<lambda>t. schange (spec_operation R schnorr_ok op s v t))"
    using circuit_refines [of W op] by (simp add: refines_def)
  ultimately obtain t where a: "answers self (current_timestamp W) addr t" and o: "outcome R repr self may_refuse addr (circuit_of R W op s v ?ctx)
      (schange (spec_operation R schnorr_ok op s v t) addr l)"
    using simtE by blast
  have c: "circuit_of R W op s v ?ctx = Inl e"
    using run by (auto simp: run_operation_def call_circuit_def split: sum.splits prod.splits)
  show thesis
    using o that(1) that(2) [OF a] unfolding c by (auto simp: schange_apply result_simps)
qed

lemma reachable_inv:
  assumes "reachable R addr st"
  shows "\<exists>l. repr st l \<and> ledger_inv R l \<and> lg_id l = address_default"
  using assms
proof (induction rule: reachable.induct)
  case (created W ps st ps')
  then show ?case
    using ledger_inv_constructor
    by (elim constructed) (fastforce simp: spec_constructor_def result_simps split: if_splits)
next
  case (operated st W ps op s v st' ps')
  then obtain l where l: "repr st l" "ledger_inv R l" "lg_id l = address_default" by blast
  obtain t l' where o: "spec_operation R schnorr_ok op s v t l = Inr l'" and l': "repr st' l'"
    by (rule operated_ok [OF l(1) operated.hyps(2)])
  have "ledger_inv R l'" by (rule ledger_inv_operation [OF l(2) o])
  moreover have "lg_id l' = address_default"
    using o l(3) by (cases op) (auto elim!: spec_operationE bumpE)
  ultimately show ?case using l' by blast
qed

end

end
