(* ===== verification/Authorization.thy ===== *)
theory Authorization
  imports Ledger_Invariants
begin

text \<open>
  What an authorization digest of the contract says: unless the hash collides, it determines the
  contract identifier, the version, the operation and its arguments.
\<close>

section \<open>Hashing\<close>

definition hash_collision :: "('ps, 'p, 'q, 'st, 'fr, 'sig) runtime \<Rightarrow> bool" where
  "hash_collision R \<longleftrightarrow> (\<exists>x y. x \<noteq> y \<and> rt_hash R x = rt_hash R y)"

lemma hash_eq: "\<not> hash_collision R \<Longrightarrow> rt_hash R x = rt_hash R y \<longleftrightarrow> x = y"
  by (auto simp: hash_collision_def)

text \<open>Texts without the zero character are recovered from their 32 bytes.\<close>

lemma unat_of_char: "unat (of_char c :: 8 word) = of_char c"
proof -
  have "(of_char c :: nat) < 2 ^ 8" using nat_of_char_less_256 [of c] by simp
  then have "unat (word_of_nat (of_char c) :: 8 word) = of_char c"
    by (simp only: unsigned_of_nat) (simp add: take_bit_nat_eq_self)
  then show ?thesis by (simp only: of_nat_of_char)
qed

lemma of_char_byte_eq: "(of_char c :: 8 word) = of_char d \<longleftrightarrow> c = d"
proof
  assume "(of_char c :: 8 word) = of_char d"
  then have "(of_char c :: nat) = of_char d" by (metis unat_of_char)
  then show "c = d" by simp
qed simp

lemma padded32_text:
  assumes "CHR 0x00 \<notin> set s"
  shows "takeWhile (\<lambda>b. b \<noteq> 0) (padded32 s) = map of_char s"
proof -
  have "of_char c \<noteq> (0 :: 8 word)" if "c \<in> set s" for c
    using that assms of_char_byte_eq [of c "CHR 0x00"] by auto
  then have "takeWhile (\<lambda>b. b \<noteq> 0) (padded32 s) =
      map of_char s @ takeWhile (\<lambda>b. b \<noteq> 0) (replicate (32 - length s) 0)"
    unfolding padded32_def by (intro takeWhile_append2) auto
  then show ?thesis by (cases "32 - length s") simp_all
qed

lemma padded32_eq:
  assumes "CHR 0x00 \<notin> set s" and "CHR 0x00 \<notin> set s'"
  shows "padded32 s = padded32 s' \<longleftrightarrow> s = s'"
proof
  assume "padded32 s = padded32 s'"
  then have "(map of_char s :: 8 word list) = map of_char s'"
    using padded32_text [OF assms(1)] padded32_text [OF assms(2)] by simp
  then show "s = s'" by (simp add: inj_map_eq_map inj_def of_char_byte_eq)
qed simp

section \<open>Operations by name and arguments\<close>

fun operation_name :: "'p operation \<Rightarrow> string" where
  "operation_name (RotateControllerKey pk) = ''rotateControllerKey''"
| "operation_name (RecoverControllerKey pk) = ''recoverControllerKey''"
| "operation_name (SetAlsoKnownAs a m) = ''setAlsoKnownAs''"
| "operation_name (SetVerificationMethod vm m) = ''setVerificationMethod''"
| "operation_name (RemoveVerificationMethod k) = ''removeVerificationMethod''"
| "operation_name (SetSchnorrMethod vm m) = ''setSchnorrJubjubVM''"
| "operation_name (RemoveSchnorrMethod k) = ''removeSchnorrJubjubVM''"
| "operation_name (SetRelation r k m) = ''setVMRelation''"
| "operation_name (SetService sv m) = ''setService''"
| "operation_name (RemoveService k) = ''removeService''"
| "operation_name Deactivate = ''deactivate''"

text \<open>An operation with its points by their coordinates.\<close>

fun coordinates :: "('ps, 'p, 'q, 'st, 'fr, 'sig) runtime \<Rightarrow> 'p operation \<Rightarrow> ('fr \<times> 'fr) operation" where
  "coordinates R (RotateControllerKey pk) = RotateControllerKey (rt_point_x R pk, rt_point_y R pk)"
| "coordinates R (RecoverControllerKey pk) = RecoverControllerKey (rt_point_x R pk, rt_point_y R pk)"
| "coordinates R (SetAlsoKnownAs a m) = SetAlsoKnownAs a m"
| "coordinates R (SetVerificationMethod vm m) = SetVerificationMethod vm m"
| "coordinates R (RemoveVerificationMethod k) = RemoveVerificationMethod k"
| "coordinates R (SetSchnorrMethod vm m) =
     SetSchnorrMethod \<lparr>csm_id = csm_id vm,
       csm_public_key = (rt_point_x R (csm_public_key vm), rt_point_y R (csm_public_key vm))\<rparr> m"
| "coordinates R (RemoveSchnorrMethod k) = RemoveSchnorrMethod k"
| "coordinates R (SetRelation r k m) = SetRelation r k m"
| "coordinates R (SetService sv m) = SetService sv m"
| "coordinates R (RemoveService k) = RemoveService k"
| "coordinates R Deactivate = Deactivate"

fun operation_args :: "('fr \<times> 'fr) operation \<Rightarrow> ('fr, 'p) aligned_value" where
  "operation_args (RotateControllerKey pk) =
     (alignment_rotate_controller_key_args,
      value_rotate_controller_key_args \<lparr>rot_public_key_x = fst pk, rot_public_key_y = snd pk\<rparr>)"
| "operation_args (RecoverControllerKey pk) =
     (alignment_recover_controller_key_args,
      value_recover_controller_key_args \<lparr>rca_public_key_x = fst pk, rca_public_key_y = snd pk\<rparr>)"
| "operation_args (SetAlsoKnownAs a m) =
     (alignment_set_also_known_as_args, value_set_also_known_as_args \<lparr>saa_value = a, saa_mutation = m\<rparr>)"
| "operation_args (SetVerificationMethod vm m) =
     (alignment_set_method_args,
      value_set_method_args \<lparr>sma_verification_method = vm, sma_mutation = m\<rparr>)"
| "operation_args (RemoveVerificationMethod k) =
     (alignment_remove_method_args, value_remove_method_args \<lparr>rma_id = k\<rparr>)"
| "operation_args (SetSchnorrMethod vm m) =
     (alignment_set_schnorr_method_args,
      value_set_schnorr_method_args
        \<lparr>ssa_id = csm_id vm, ssa_public_key_x = fst (csm_public_key vm),
         ssa_public_key_y = snd (csm_public_key vm), ssa_mutation = m\<rparr>)"
| "operation_args (RemoveSchnorrMethod k) =
     (alignment_remove_schnorr_method_args, value_remove_schnorr_method_args \<lparr>rsa_id = k\<rparr>)"
| "operation_args (SetRelation r k m) =
     (alignment_set_relation_args,
      value_set_relation_args \<lparr>sra_relation = r, sra_method_id = k, sra_mutation = m\<rparr>)"
| "operation_args (SetService sv m) =
     (alignment_set_service_args, value_set_service_args \<lparr>ssv_service = sv, ssv_mutation = m\<rparr>)"
| "operation_args (RemoveService k) =
     (alignment_remove_service_args, value_remove_service_args \<lparr>rsv_id = k\<rparr>)"
| "operation_args Deactivate =
     (alignment_authorization_no_args, value_authorization_no_args \<lparr>can_domain = padded32 ''no-args''\<rparr>)"

lemmas digest_defs =
  rotate_controller_key_authorization_digest_def recover_controller_key_authorization_digest_def
  set_also_known_as_authorization_digest_def set_verification_method_authorization_digest_def
  remove_verification_method_authorization_digest_def
  set_schnorr_jubjub_verification_method_authorization_digest_def
  remove_schnorr_jubjub_verification_method_authorization_digest_def
  set_verification_method_relation_authorization_digest_def set_service_authorization_digest_def
  remove_service_authorization_digest_def deactivate_authorization_digest_def

lemma operation_digest_form:
  "operation_digest R cid v op =
     controller_authorization_digest R cid v (controller_operation_hash R (operation_name op))
       (rt_hash R [operation_args (coordinates R op)])"
  by (cases op) (simp_all add: digest_defs controller_no_args_hash_def)

lemma operation_name_text: "CHR 0x00 \<notin> set (operation_name op)"
  by (cases op) simp_all

lemma name_coordinates: "operation_name (coordinates R op) = operation_name op"
  by (cases op) simp_all

text \<open>The name fixes the operation, its arguments the rest.\<close>

lemma args_inj:
  "\<lbrakk>operation_name op = operation_name op'; operation_args op = operation_args op'\<rbrakk> \<Longrightarrow> op = op'"
  by (cases op; cases op')
    (auto simp: value_defs discriminant_inj prod_eq_iff
      intro!: c_verification_method.equality c_public_key_jwk.equality c_schnorr_method.equality
        c_service.equality)

lemma state_value_eq:
  "value_authorization_state \<lparr>cas_contract_id = cid, cas_version = v\<rparr> =
   value_authorization_state \<lparr>cas_contract_id = cid', cas_version = v'\<rparr> \<longleftrightarrow> cid = cid' \<and> v = v'"
  by (auto simp: value_defs intro: c_address.equality)

lemma name_value_eq:
  "value_authorization_operation \<lparr>cao_name = padded32 (operation_name op)\<rparr> =
   value_authorization_operation \<lparr>cao_name = padded32 (operation_name op')\<rparr> \<longleftrightarrow>
   operation_name op = operation_name op'"
  by (simp add: value_defs padded32_eq operation_name_text)

text \<open>
  C6. An authorization digest is bound to what it authorizes: unless the hash collides, two digests
  are equal exactly when contract identifier, version, operation and arguments are the same, public
  keys being compared by their coordinates.
\<close>

theorem digest_binds_operation:
  assumes "\<not> hash_collision R"
  shows "operation_digest R cid v op = operation_digest R cid' v' op' \<longleftrightarrow>
           cid = cid' \<and> v = v' \<and> coordinates R op = coordinates R op'"
proof -
  have "coordinates R op = coordinates R op'"
    if "operation_name op = operation_name op'"
      and "(operation_args (coordinates R op) :: ('e, 'b) aligned_value) = operation_args (coordinates R op')"
    using args_inj [of "coordinates R op" "coordinates R op'"] that by (simp add: name_coordinates)
  moreover have "operation_name op = operation_name op'" if "coordinates R op = coordinates R op'"
    using that name_coordinates by metis
  ultimately show ?thesis
    unfolding operation_digest_form controller_authorization_digest_def controller_operation_hash_def
    by (auto simp: hash_eq [OF assms] state_value_eq name_value_eq)
qed

theorem digest_binds_operation_witness:
  "operation_digest demo_runtime address_default 0 (RemoveService ''#s'') \<noteq>
     operation_digest demo_runtime address_default 1 (RemoveService ''#s'') \<and>
   operation_digest demo_runtime address_default 0 (RemoveService ''#k'') \<noteq>
     operation_digest demo_runtime address_default 0 (RemoveVerificationMethod ''#k'')"
proof -
  have "\<not> hash_collision demo_runtime"
    by (simp add: hash_collision_def ref_runtime_def)
  from digest_binds_operation [OF this] show ?thesis by (simp del: operation_digest.simps)
qed

end
