(* ===== verification/Contract_Theorems.thy ===== *)
theory Contract_Theorems
  imports Authorization
begin

text \<open>
  The theorems about the contract: its circuits implement their specifications, its states keep the
  invariant, its authorizations are bound to a key, a version and an operation. They hold for every
  runtime that keeps the laws of \<open>ledger_runtime\<close>; the examples run on the machine of \<open>Ledger_VM\<close>.
\<close>

section \<open>An example on the reference runtime\<close>

definition demo_witnesses :: "(unit, ref_point, ref_point sv \<times> c_address, ref_fr) witnesses" where
  "demo_witnesses =
     \<lparr>get_schnorr_reduction = (\<lambda>q ps h. (ps, (0, 0))),
      local_controller_public_key = (\<lambda>q ps. (ps, (FrNum 1, FrNum 2))),
      local_recovery_authority_public_key = (\<lambda>q ps. (ps, (FrNum 3, FrNum 4))),
      current_timestamp = (\<lambda>q ps. (ps, 1000))\<rparr>"

definition demo_ledger :: "ref_point c_ledger" where
  "demo_ledger =
     (ledger_of_defaults (FrNum 0, FrNum 0))
       \<lparr>lg_recovery_key := (FrNum 3, FrNum 4), lg_controller_key := (FrNum 1, FrNum 2),
        lg_deactivated := False, lg_active := True, lg_id := address_default, lg_contract_version := 2,
        lg_created := 1000, lg_updated := 1000\<rparr>"

definition demo_address :: c_address where
  "demo_address = \<lparr>address_bytes = replicate 32 7\<rparr>"

text \<open>The reference runtime computes.\<close>

lemma ref_fields [simp]:
  "rt_new_array ref_runtime = vm_new_array"
  "rt_query_context ref_runtime st a = (st, a)"
  "rt_state ref_runtime q = fst q"
  "rt_point_x ref_runtime p = fst p"
  "rt_point_y ref_runtime p = snd p"
  "rt_point_default ref_runtime = (FrNum 0, FrNum 0)"
  "rt_hash ref_runtime vs = FrHash vs"
  by (simp_all add: ref_runtime_def)

lemma ref_verify [simp]:
  "list_all write_typed ws \<Longrightarrow>
   cverify ref_runtime ws \<lparr>cc_private = ps, cc_query = (encode_ledger l, a)\<rparr> =
     (case writes_effect ws l of
        Some l' \<Rightarrow> Inr ((), \<lparr>cc_private = ps, cc_query = (encode_ledger l', a)\<rparr>)
      | None \<Rightarrow> Inl (RuntimeError ''program failed''))"
  by (simp add: cverify_def ref_runtime_def vm_verify_def vm_stack_def vm_run_program split: option.split)

lemma ref_read [simp]:
  "cread ref_runtime rd dec \<lparr>cc_private = ps, cc_query = (encode_ledger l, a)\<rparr> =
     (case read_value rd a l of
        Some c \<Rightarrow>
          (case dec c of
             Some x \<Rightarrow> Inr (x, \<lparr>cc_private = ps, cc_query = (encode_ledger l, a)\<rparr>)
           | None \<Rightarrow> Inl (RuntimeError ''decode''))
      | None \<Rightarrow> Inl (LedgerQueryFailed ''program failed''))"
  by (simp add: cread_def clift_def query_read_def ref_runtime_def vm_read_spec split: option.split)

lemma demo_created: "initial_state ref_runtime demo_witnesses () = Inr (encode_ledger demo_ledger, ())"
  by (simp add: initial_state_def constructor_circuit_def cbind_def cret_def cassert_def clift_def
      compact_assert_def ask_controller_key_def ask_recovery_key_def ask_timestamp_def demo_witnesses_def
      assert_controller_public_key_distinct_from_recovery_authority_def key_differs_from_def cor_def
      vm_new_array_defaults demo_ledger_def ledger_of_defaults_def)

section \<open>What a successful operation says\<close>

text \<open>The key that authorizes an operation.\<close>

fun authority :: "'p operation \<Rightarrow> 'p c_ledger \<Rightarrow> 'p" where
  "authority (RecoverControllerKey pk) l = lg_recovery_key l"
| "authority _ l = lg_controller_key l"

lemma spec_signed_iff [simp]:
  "spec_signed ok stale pk s v d l = Inr () \<longleftrightarrow> v = lg_version l \<and> ok d s pk"
  by (auto simp: spec_signed_def result_simps)

lemma spec_authorized_iff:
  "spec_authorized ok op s v d l = Inr () \<longleftrightarrow>
     v = lg_version l \<and> ok d s (authority op l) \<and> lg_active l"
  by (cases op) (auto simp: spec_controller_active_def spec_recovery_active_def spec_controller_def
      result_simps)

context ledger_runtime
begin

lemma operation_facts:
  assumes "spec_operation R ok op s v t l = Inr l'"
  shows "v = lg_version l" and "lg_active l" and "ok (operation_digest R (lg_id l) v op) s (authority op l)"
    and "unat (lg_version l') = unat (lg_version l) + 1"
    and "lg_id l' = lg_id l" and "lg_recovery_key l' = lg_recovery_key l"
    and "lg_created l' = lg_created l" and "lg_contract_version l' = lg_contract_version l"
    and "lg_active l' = (op \<noteq> Deactivate)" and "lg_updated l' = t"
    and "lg_controller_key l' =
           (case op of RotateControllerKey pk \<Rightarrow> pk | RecoverControllerKey pk \<Rightarrow> pk
            | _ \<Rightarrow> lg_controller_key l)"
proof -
  from assms obtain l1 where a: "spec_authorized ok op s v (operation_digest R (lg_id l) v op) l = Inr ()"
    and b: "bump t l = Inr l1" and l': "l' = spec_change op l1"
    by (rule spec_operationE)
  show "v = lg_version l" "ok (operation_digest R (lg_id l) v op) s (authority op l)"
    and act: "lg_active l"
    using a by (auto simp: spec_authorized_iff)
  have u: "unat (lg_version l + 1) = unat (lg_version l) + 1" if "unat (lg_version l) + 1 < 2 ^ 64"
    using that by (simp add: unat_word_ariths)
  show "unat (lg_version l') = unat (lg_version l) + 1"
    using b u unfolding l' by (cases op) (auto elim!: bumpE)
  show "lg_id l' = lg_id l" "lg_recovery_key l' = lg_recovery_key l" "lg_created l' = lg_created l"
    "lg_contract_version l' = lg_contract_version l" "lg_active l' = (op \<noteq> Deactivate)"
    "lg_updated l' = t"
    "lg_controller_key l' =
       (case op of RotateControllerKey pk \<Rightarrow> pk | RecoverControllerKey pk \<Rightarrow> pk
        | _ \<Rightarrow> lg_controller_key l)"
    using b act unfolding l' by (cases op; auto elim!: bumpE)+
qed

text \<open>An operation that is authorized and allowed succeeds on a runtime that does not refuse.\<close>

lemma operation_succeeds:
  assumes st: "repr st l" and live: "\<not> may_refuse"
    and spec: "\<And>t. \<exists>l'. spec_operation R schnorr_ok op s v t l = Inr l'"
  obtains t l' st' ps' where "run_operation R W addr ps op s v st = Inr (st', ps')"
    "answers self (current_timestamp W) addr t" "spec_operation R schnorr_ok op s v t l = Inr l'" "repr st' l'"
proof (cases "run_operation R W addr ps op s v st")
  case (Inl e)
  show thesis using st Inl
  proof (rule operated_error)
    fix t assume "spec_operation R schnorr_ok op s v t l = Inl (erase e)"
    then show thesis using spec [of t] by simp
  qed (use live in simp)
next
  case (Inr r)
  obtain st' ps' where r: "r = (st', ps')" by (cases r)
  show thesis by (rule operated_run [OF st Inr [unfolded r]], rule that) (use Inr r in simp_all)
qed

lemma later_facts:
  assumes "later R addr st st'" and "repr st l"
  shows "\<exists>l'. repr st' l' \<and> unat (lg_version l) \<le> unat (lg_version l') \<and>
              (\<not> lg_active l \<longrightarrow> st' = st \<and> l' = l)"
  using assms
proof (induction rule: later.induct)
  case (same st)
  then show ?case by blast
next
  case (more st st' W ps op s v st'' ps')
  obtain l' where l': "repr st' l'" "unat (lg_version l) \<le> unat (lg_version l')"
    "\<not> lg_active l \<longrightarrow> st' = st \<and> l' = l"
    using more.IH [OF more.prems] by blast
  obtain t l'' where o: "spec_operation R schnorr_ok op s v t l' = Inr l''" and l'': "repr st'' l''"
    by (rule operated_ok [OF l'(1) more.hyps(2)])
  have "lg_active l" using l'(3) operation_facts(2) [OF o] by blast
  then show ?case using l'' l'(2) operation_facts(4) [OF o] by (intro exI [of _ l'']) simp
qed

end

context ledger_runtime
begin

lemma read_succeeds:
  assumes "repr (rt_state R q) l" and "\<not> may_refuse" and "read_value rd (self q) l = Some c"
    and "decode c = Some x"
  shows "query_read R q rd decode = Inr x"
  using query_read_outcome [OF assms(1), of rd decode] assms(2-) by (auto split: sum.splits)

lemma verification_outcome:
  assumes "repr st l"
  shows "case call_circuit R addr ps st (verify_schnorr_jubjub_digest_signature_circuit R k d s) of
           Inl e \<Rightarrow> may_refuse \<and> runtime_error e \<or> spec_verify_digest schnorr_ok k d s l = Inl (erase e)
         | Inr (st', ps') \<Rightarrow> repr st' l \<and> spec_verify_digest schnorr_ok k d s l = Inr ()"
  using simD [OF sim_verify_digest, of "\<lparr>cc_private = ps, cc_query = rt_query_context R st addr\<rparr>" l addr k d s]
    assms
  by (auto simp: call_circuit_def context_state context_self scheck_apply result_simps
      split: sum.splits)

end

section \<open>Operations of the example\<close>

definition demo_signature :: "ref_point operation \<Rightarrow> ref_point c_ledger \<Rightarrow> ref_signature" where
  "demo_signature op l = (operation_digest demo_runtime (lg_id l) (lg_version l) op, authority op l)"

definition demo_rotation :: "ref_point operation" where
  "demo_rotation = RotateControllerKey (FrNum 5, FrNum 6)"

definition demo_run ::
  "ref_point operation \<Rightarrow> ref_point c_ledger \<Rightarrow> compact_error + ref_point sv \<times> unit" where
  "demo_run op l =
     run_operation demo_runtime demo_witnesses demo_address () op (demo_signature op l) (lg_version l)
       (encode_ledger l)"

lemma demo_spec:
  assumes "lg_active l" and "spec_checks demo_runtime op l = Inr ()"
    and "unat (lg_operation_count l) + 1 < 2 ^ 64" and "unat (lg_version l) + 1 < 2 ^ 64"
  shows "spec_operation demo_runtime ref_schnorr_ok op (demo_signature op l) (lg_version l) t l =
           Inr (spec_change op (counted (lg_operation_count l + 1) (lg_version l + 1) t l))"
proof -
  have "spec_authorized ref_schnorr_ok op (demo_signature op l) (lg_version l)
          (operation_digest demo_runtime (lg_id l) (lg_version l) op) l = Inr ()"
    using assms(1) by (simp add: spec_authorized_iff demo_signature_def ref_schnorr_ok_def)
  then show ?thesis using assms by (simp add: spec_operation_def bump_def)
qed

lemma demo_runs:
  assumes "lg_active l" and "spec_checks demo_runtime op l = Inr ()"
    and "unat (lg_operation_count l) + 1 < 2 ^ 64" and "unat (lg_version l) + 1 < 2 ^ 64"
  shows "demo_run op l =
    Inr (encode_ledger (spec_change op (counted (lg_operation_count l + 1) (lg_version l + 1) 1000 l)), ())"
proof (rule ref.operation_succeeds [of "encode_ledger l" l op "demo_signature op l" "lg_version l"
      demo_witnesses demo_address "()"])
  fix t l' st' and ps' :: unit
  assume "run_operation demo_runtime demo_witnesses demo_address () op (demo_signature op l) (lg_version l)
            (encode_ledger l) = Inr (st', ps')"
    and "answers snd (current_timestamp demo_witnesses) demo_address t"
    and "spec_operation demo_runtime ref_schnorr_ok op (demo_signature op l) (lg_version l) t l = Inr l'"
    and "ref_repr st' l'"
  then show ?thesis using demo_spec [OF assms, of t]
    by (simp add: demo_run_def ref_repr_def answers_def demo_witnesses_def)
next
  show "\<exists>l'. spec_operation demo_runtime ref_schnorr_ok op (demo_signature op l) (lg_version l) t l = Inr l'"
    for t using demo_spec [OF assms, of t] by blast
qed (simp_all add: ref_repr_def)

lemma demo_repr: "ref_repr (encode_ledger l) l"
  by (simp add: ref_repr_def)

lemma demo_reachable: "reachable demo_runtime demo_address (encode_ledger demo_ledger)"
  by (rule reachable.created [OF demo_created])

lemma demo_ledger_simps [simp]:
  "lg_active demo_ledger" "lg_version demo_ledger = 0" "lg_operation_count demo_ledger = 0"
  "lg_controller_key demo_ledger = (FrNum 1, FrNum 2)" "lg_recovery_key demo_ledger = (FrNum 3, FrNum 4)"
  "lg_id demo_ledger = address_default"
  by (simp_all add: demo_ledger_def ledger_of_defaults_def)

lemma demo_rotation_checks: "spec_checks demo_runtime demo_rotation demo_ledger = Inr ()"
  by (simp add: demo_rotation_def keys_differ_def result_simps)

lemma demo_rotates:
  "demo_run demo_rotation demo_ledger =
     Inr (encode_ledger (spec_change demo_rotation (counted 1 1 1000 demo_ledger)), ())"
  using demo_runs [of demo_ledger demo_rotation] demo_rotation_checks by simp

lemma demo_deactivates:
  "demo_run Deactivate demo_ledger =
     Inr (encode_ledger (spec_change Deactivate (counted 1 1 1000 demo_ledger)), ())"
  using demo_runs [of demo_ledger Deactivate] by simp

section \<open>The theorems\<close>

text \<open>
  C2. Every circuit that changes the ledger implements its ledger-level specification, errors
  included: on every runtime that keeps the documented laws, a run from a state with contents \<open>l\<close>
  either ends in a state with the contents the specification gives, or fails with the assertion the
  specification fails with, unless the runtime itself refuses the program. The time the specification
  records is what the timestamp witness answers in a query context of this contract.
\<close>

theorem circuits_implement_specification:
  assumes "ledger_runtime R repr self ok may_refuse" and "repr st l"
  shows "case run_operation R W addr ps op s v st of
           Inr (st', ps') \<Rightarrow> \<exists>t l'. answers self (current_timestamp W) addr t \<and>
                    spec_operation R ok op s v t l = Inr l' \<and> repr st' l'
         | Inl e \<Rightarrow> may_refuse \<and> runtime_error e \<or>
                    (\<exists>t. answers self (current_timestamp W) addr t \<and>
                         spec_operation R ok op s v t l = Inl (erase e))"
proof (cases "run_operation R W addr ps op s v st")
  case (Inl e)
  show ?thesis
    by (rule ledger_runtime.operated_error [OF assms(1,2) Inl]) (use Inl in auto)
next
  case (Inr r)
  obtain st' ps' where r: "r = (st', ps')" by (cases r)
  show ?thesis
    by (rule ledger_runtime.operated_run [OF assms(1,2) Inr [unfolded r]]) (use Inr r in auto)
qed

theorem circuits_implement_specification_witness:
  "\<exists>st' l'. demo_run demo_rotation demo_ledger = Inr (st', ()) \<and> ref_repr st' l' \<and>
     lg_controller_key l' = (FrNum 5, FrNum 6) \<and> lg_version l' = 1 \<and> lg_updated l' = 1000"
proof -
  have "spec_operation demo_runtime ref_schnorr_ok demo_rotation (demo_signature demo_rotation demo_ledger) 0 t
          demo_ledger = Inr (spec_change demo_rotation (counted 1 1 t demo_ledger))" for t
    using demo_spec [OF _ demo_rotation_checks, of t] by simp
  then show ?thesis
    using circuits_implement_specification [OF ref.ledger_runtime_axioms demo_repr [of demo_ledger],
        where W = demo_witnesses and addr = demo_address and ps = "()" and op = demo_rotation
          and s = "demo_signature demo_rotation demo_ledger" and v = 0]
    by (fastforce simp: demo_run_def demo_rotation_def answers_def demo_witnesses_def split: sum.splits)
qed

text \<open>
  C1. Every reachable state of the contract keeps its invariant: method and service ids are the keys
  they are stored under, no id names two methods, stored methods have a supported key, every relation
  refers to existing methods whose curve fits it (X25519 for key agreement and only there), a contract
  is active or deactivated and not both, its version counts its operations, and the controller key is
  not the recovery key.
\<close>

theorem reachable_states_keep_invariant:
  assumes "ledger_runtime R repr self ok may_refuse" and "reachable R addr st"
  shows "\<exists>l. repr st l \<and> ledger_inv R l"
  using ledger_runtime.reachable_inv [OF assms] by blast

theorem reachable_states_keep_invariant_witness:
  "\<exists>st l. demo_run demo_rotation demo_ledger = Inr (st, ()) \<and> ref_repr st l \<and> ledger_inv demo_runtime l"
proof -
  note r = demo_rotates
  from reachable.operated [OF demo_reachable r [unfolded demo_run_def]] show ?thesis
    using reachable_states_keep_invariant [OF ref.ledger_runtime_axioms] r by blast
qed

text \<open>
  C4. Only the holder of the right key changes the contract: a circuit that succeeds was called with
  the current version, on an active contract, with a signature of exactly this operation's digest under
  the controller key, or under the recovery key for a recovery.
\<close>

theorem success_is_authorized:
  assumes "ledger_runtime R repr self ok may_refuse" and "repr st l"
    and "run_operation R W addr ps op s v st = Inr (st', ps')"
  shows "v = lg_version l \<and> lg_active l \<and> ok (operation_digest R (lg_id l) v op) s (authority op l)"
proof -
  obtain t l' where "spec_operation R ok op s v t l = Inr l'"
    by (rule ledger_runtime.operated_ok [OF assms])
  from ledger_runtime.operation_facts(1-3) [OF assms(1) this] show ?thesis by blast
qed

theorem success_is_authorized_witness:
  "ref_schnorr_ok (operation_digest demo_runtime address_default 0 demo_rotation)
     (demo_signature demo_rotation demo_ledger) (FrNum 1, FrNum 2)"
proof -
  from success_is_authorized [OF ref.ledger_runtime_axioms demo_repr demo_rotates [unfolded demo_run_def]]
  show ?thesis by (simp add: demo_rotation_def)
qed

text \<open>
  C3. No replay: a successful operation was asked at the contract's version and leaves it exactly one
  higher, without wrapping around at 64 bits, and no operation that is asked at the old version is
  accepted ever after, neither the same nor another one, whatever happens to the contract in between.
\<close>

theorem version_accepted_once:
  assumes rt: "ledger_runtime R repr self ok may_refuse" and st: "repr st l"
    and run: "run_operation R W addr ps op s v st = Inr (st1, ps1)" and later: "later R addr st1 st2"
  shows "v = lg_version l \<and> (\<exists>l1. repr st1 l1 \<and> unat (lg_version l1) = unat (lg_version l) + 1) \<and>
         \<not> is_ok (run_operation R W' addr ps' op' s' v st2)"
proof -
  obtain t l1 where o: "spec_operation R ok op s v t l = Inr l1" and l1: "repr st1 l1"
    by (rule ledger_runtime.operated_ok [OF rt st run])
  obtain l2 where l2: "repr st2 l2" "unat (lg_version l1) \<le> unat (lg_version l2)"
    using ledger_runtime.later_facts [OF rt later l1] by blast
  have v: "unat v < unat (lg_version l2)"
    using l2(2) ledger_runtime.operation_facts(1,4) [OF rt o] by simp
  have "\<not> is_ok (run_operation R W' addr ps' op' s' v st2)"
  proof
    assume "is_ok (run_operation R W' addr ps' op' s' v st2)"
    then obtain st3 ps3 where r: "run_operation R W' addr ps' op' s' v st2 = Inr (st3, ps3)"
      by (auto simp: is_ok_iff)
    obtain t l3 where "spec_operation R ok op' s' v t l2 = Inr l3"
      by (rule ledger_runtime.operated_ok [OF rt l2(1) r])
    from ledger_runtime.operation_facts(1) [OF rt this] v show False by simp
  qed
  then show ?thesis using l1 ledger_runtime.operation_facts(1,4) [OF rt o] by blast
qed

theorem version_accepted_once_witness:
  "\<exists>st l. demo_run demo_rotation demo_ledger = Inr (st, ()) \<and> ref_repr st l \<and> unat (lg_version l) = 1 \<and>
     \<not> is_ok (run_operation demo_runtime demo_witnesses demo_address () demo_rotation
                (demo_signature demo_rotation demo_ledger) 0 st)"
proof -
  from version_accepted_once [OF ref.ledger_runtime_axioms demo_repr demo_rotates [unfolded demo_run_def] later.same]
  show ?thesis using demo_rotates by auto
qed

text \<open>
  C5. Deactivation is final: once a deactivation has succeeded, no operation on the contract succeeds
  any more, whoever signs it and for whatever version, so every later state is the same one.
\<close>

theorem deactivation_is_final:
  assumes rt: "ledger_runtime R repr self ok may_refuse" and st: "repr st l"
    and run: "run_operation R W addr ps Deactivate s v st = Inr (st1, ps1)" and later: "later R addr st1 st2"
  shows "st2 = st1 \<and> \<not> is_ok (run_operation R W' addr ps' op s' v' st2)"
proof -
  obtain t l1 where o: "spec_operation R ok Deactivate s v t l = Inr l1" and l1: "repr st1 l1"
    by (rule ledger_runtime.operated_ok [OF rt st run])
  have off: "\<not> lg_active l1" using ledger_runtime.operation_facts(9) [OF rt o] by simp
  then have same: "st2 = st1" using ledger_runtime.later_facts [OF rt later l1] by blast
  have "\<not> is_ok (run_operation R W' addr ps' op s' v' st1)"
  proof
    assume "is_ok (run_operation R W' addr ps' op s' v' st1)"
    then obtain st3 ps3 where r: "run_operation R W' addr ps' op s' v' st1 = Inr (st3, ps3)"
      by (auto simp: is_ok_iff)
    obtain t' l3 where "spec_operation R ok op s' v' t' l1 = Inr l3"
      by (rule ledger_runtime.operated_ok [OF rt l1 r])
    from ledger_runtime.operation_facts(2) [OF rt this] off show False by simp
  qed
  then show ?thesis using same by simp
qed

theorem deactivation_is_final_witness:
  "\<exists>st. demo_run Deactivate demo_ledger = Inr (st, ()) \<and>
     \<not> is_ok (run_operation demo_runtime demo_witnesses demo_address () demo_rotation
                (demo_signature demo_rotation demo_ledger) 1 st)"
proof -
  from deactivation_is_final [OF ref.ledger_runtime_axioms demo_repr demo_deactivates [unfolded demo_run_def] later.same]
  show ?thesis using demo_deactivates by blast
qed

text \<open>
  C7. Progress: on a runtime that does not refuse programs, an operation that is signed by the right
  key for the current version, is asked of an active contract, passes its checks and does not overflow
  the counters succeeds, with exactly its change, both counters one higher, and as update time what the
  timestamp witness answers in a query context of this contract.
\<close>

theorem authorized_operation_succeeds:
  assumes rt: "ledger_runtime R repr self ok False" and st: "repr st l"
    and auth: "ok (operation_digest R (lg_id l) (lg_version l) op) s (authority op l)"
    and active: "lg_active l" and checks: "spec_checks R op l = Inr ()"
    and room: "unat (lg_operation_count l) + 1 < 2 ^ 64" "unat (lg_version l) + 1 < 2 ^ 64"
  shows "\<exists>st' ps' t.
           run_operation R W addr ps op s (lg_version l) st = Inr (st', ps') \<and>
           answers self (current_timestamp W) addr t \<and>
           repr st' (spec_change op (l\<lparr>lg_operation_count := lg_operation_count l + 1,
                                      lg_version := lg_version l + 1, lg_updated := t\<rparr>))"
proof -
  have spec: "spec_operation R ok op s (lg_version l) t l = Inr (spec_change op (counted (lg_operation_count l + 1)
      (lg_version l + 1) t l))" for t
    using auth active checks room by (simp add: spec_operation_def spec_authorized_iff bump_def
        spec_authorized_iff [THEN iffD2])
  show ?thesis
    by (rule ledger_runtime.operation_succeeds [OF rt st, where op = op and s = s and v = "lg_version l"])
      (use spec in auto)
qed

theorem authorized_operation_succeeds_witness:
  "\<exists>st. demo_run Deactivate demo_ledger = Inr (st, ()) \<and>
     ref_repr st (demo_ledger\<lparr>lg_operation_count := 1, lg_version := 1, lg_updated := 1000,
                            lg_active := False, lg_deactivated := True\<rparr>)"
  using authorized_operation_succeeds [OF ref.ledger_runtime_axioms demo_repr [of demo_ledger],
      where op = Deactivate and s = "demo_signature Deactivate demo_ledger" and W = demo_witnesses
        and addr = demo_address and ps = "()"]
  by (auto simp: demo_run_def demo_signature_def ref_schnorr_ok_def answers_def demo_witnesses_def)

text \<open>
  C21. What never changes: whatever operations follow, the contract keeps its recovery key, its
  identifier, its creation time and its format version, and its version never goes down.
\<close>

theorem identity_is_immutable:
  assumes rt: "ledger_runtime R repr self ok may_refuse" and st: "repr st l" and later: "later R addr st st'"
  shows "\<exists>l'. repr st' l' \<and> lg_recovery_key l' = lg_recovery_key l \<and> lg_id l' = lg_id l \<and>
              lg_created l' = lg_created l \<and> lg_contract_version l' = lg_contract_version l \<and>
              lg_version l \<le> lg_version l'"
  using later st
proof (induction rule: later.induct)
  case (same st)
  then show ?case by blast
next
  case (more st st' W ps op s v st'' ps')
  obtain l' where l': "repr st' l'" "lg_recovery_key l' = lg_recovery_key l" "lg_id l' = lg_id l"
    "lg_created l' = lg_created l" "lg_contract_version l' = lg_contract_version l"
    "lg_version l \<le> lg_version l'"
    using more.IH [OF more.prems] by blast
  obtain t l'' where o: "spec_operation R ok op s v t l' = Inr l''" and l'': "repr st'' l''"
    by (rule ledger_runtime.operated_ok [OF rt l'(1) more.hyps(2)])
  show ?case
    using l' l'' ledger_runtime.operation_facts(4-8) [OF rt o]
    by (intro exI [of _ l'']) (simp add: word_le_nat_alt)
qed

theorem identity_is_immutable_witness:
  "\<exists>st l. demo_run demo_rotation demo_ledger = Inr (st, ()) \<and> ref_repr st l \<and>
     lg_recovery_key l = (FrNum 3, FrNum 4) \<and> lg_id l = address_default"
proof -
  note r = demo_rotates
  from identity_is_immutable [OF ref.ledger_runtime_axioms demo_repr [of demo_ledger]
      later.more [OF later.same r [unfolded demo_run_def]]]
  show ?thesis using r by auto
qed

text \<open>
  C22. The constructor: it asks its witnesses for the controller key, the recovery key and the time, each
  with the private state the one before has left. It fails, with its assertion, exactly when the two keys
  agree in both coordinates (unless the runtime refuses a program); otherwise the new contract has these
  two keys and this time, is active, at version 0, without methods, relations, services and aliases, and
  has the identifier of the default address.
\<close>

theorem constructor_outcome:
  assumes rt: "ledger_runtime R repr self ok may_refuse"
    and q: "q = rt_query_context R (rt_new_array R (ledger_array (rt_point_default R))) address_default"
    and k: "local_controller_public_key W q ps = (ps1, controller)"
    and r: "local_recovery_authority_public_key W q ps1 = (ps2, recovery)"
  shows "case initial_state R W ps of
           Inr (st, ps') \<Rightarrow>
             keys_differ R controller recovery \<and>
             (\<exists>q' t. self q' = address_default \<and> current_timestamp W q' ps2 = (ps', t) \<and>
               repr st ((ledger_of_defaults (rt_point_default R))
                  \<lparr>lg_recovery_key := recovery, lg_controller_key := controller, lg_deactivated := False,
                   lg_active := True, lg_id := address_default, lg_contract_version := 2,
                   lg_created := t, lg_updated := t\<rparr>))
         | Inl e \<Rightarrow>
             may_refuse \<and> runtime_error e \<or>
             \<not> keys_differ R controller recovery \<and>
             e = AssertionFailed ''New controller key matches recovery authority key''"
  using ledger_runtime.initial_state_run [OF rt k [unfolded q] r [unfolded q]]
  by (auto split: sum.splits)

theorem constructor_outcome_witness:
  "\<exists>st. initial_state demo_runtime demo_witnesses () = Inr (st, ()) \<and>
     ref_repr st demo_ledger \<and> keys_differ demo_runtime (FrNum 1, FrNum 2) (FrNum 3, FrNum 4)"
proof -
  have k: "local_controller_public_key demo_witnesses q () = ((), (FrNum 1, FrNum 2))"
    and r: "local_recovery_authority_public_key demo_witnesses q () = ((), (FrNum 3, FrNum 4))"
    and t: "current_timestamp demo_witnesses q () = ((), 1000)" for q
    by (simp_all add: demo_witnesses_def)
  from constructor_outcome [OF ref.ledger_runtime_axioms refl k r]
  have "keys_differ demo_runtime (FrNum 1, FrNum 2) (FrNum 3, FrNum 4)"
    "ref_repr (encode_ledger demo_ledger) demo_ledger"
    unfolding demo_created by (simp_all add: t demo_ledger_def)
  then show ?thesis using demo_created by simp
qed

text \<open>
  The accessors of \<open>Ledger\<close> read the fields of the state: on a runtime that does not refuse
  programs each of the ten returns the value its name says.
\<close>

theorem accessors_read_the_ledger:
  assumes rt: "ledger_runtime R repr self ok False" and st: "repr st l"
  shows "ledger_contract_version R st = Inr (lg_contract_version l) \<and>
         ledger_controller_public_key R st = Inr (lg_controller_key l) \<and>
         ledger_recovery_authority_public_key R st = Inr (lg_recovery_key l) \<and>
         ledger_identifier R st = Inr (lg_id l) \<and>
         ledger_version R st = Inr (lg_version l) \<and>
         ledger_created R st = Inr (lg_created l) \<and>
         ledger_updated R st = Inr (lg_updated l) \<and>
         ledger_deactivated R st = Inr (lg_deactivated l) \<and>
         ledger_active R st = Inr (lg_active l) \<and>
         ledger_operation_count R st = Inr (lg_operation_count l)"
  using st
  by (simp add: ledger_contract_version_def ledger_controller_public_key_def
      ledger_recovery_authority_public_key_def ledger_identifier_def ledger_version_def ledger_created_def
      ledger_updated_def ledger_deactivated_def ledger_active_def ledger_operation_count_def
      ledger_field_def ledger_runtime.read_succeeds [OF rt] ledger_runtime.context_state [OF rt])

theorem accessors_read_the_ledger_witness:
  "ledger_version demo_runtime (encode_ledger demo_ledger) = Inr 0 \<and>
   ledger_active demo_runtime (encode_ledger demo_ledger) = Inr True \<and>
   ledger_controller_public_key demo_runtime (encode_ledger demo_ledger) = Inr (FrNum 1, FrNum 2)"
  using accessors_read_the_ledger [where R = demo_runtime, OF ref.ledger_runtime_axioms demo_repr [of demo_ledger]] by simp

text \<open>
  C24. Verifying a digest with a stored key: on a runtime that does not refuse programs the circuit
  succeeds exactly when the contract is active, the method is a stored Schnorr method and the signature
  is one under its key, and it leaves the contract's contents as they are.
\<close>

theorem stored_key_verification:
  assumes rt: "ledger_runtime R repr self ok False" and st: "repr st l"
  shows "case call_circuit R addr ps st (verify_schnorr_jubjub_digest_signature_circuit R k d s) of
           Inr (st', ps') \<Rightarrow>
             repr st' l \<and> lg_active l \<and>
             (\<exists>vm. lg_schnorr_methods l k = Some vm \<and> ok d s (csm_public_key vm))
         | Inl e \<Rightarrow>
             \<not> lg_active l \<or>
             (\<forall>vm. lg_schnorr_methods l k = Some vm \<longrightarrow> \<not> ok d s (csm_public_key vm))"
  using ledger_runtime.verification_outcome [OF rt st, where addr = addr and ps = ps and k = k and d = d and s = s]
  by (auto simp: spec_verify_digest_def result_simps split: sum.splits option.splits if_splits)

theorem stored_key_verification_witness:
  "\<not> is_ok (call_circuit demo_runtime demo_address () (encode_ledger demo_ledger)
       (verify_schnorr_jubjub_digest_signature_circuit demo_runtime ''#none''
          (operation_digest demo_runtime address_default 0 demo_rotation)
          (demo_signature demo_rotation demo_ledger)))"
  using stored_key_verification [OF ref.ledger_runtime_axioms demo_repr [of demo_ledger],
      where addr = demo_address and ps = "()" and k = "''#none''"
        and d = "operation_digest demo_runtime address_default 0 demo_rotation"
        and s = "demo_signature demo_rotation demo_ledger"]
  by (auto simp: is_ok_iff demo_ledger_def ledger_of_defaults_def)

text \<open>
  C23. The identifier in the digests does not tell contracts apart: \<open>initial_state\<close> reads it in a
  query context at the default address and nothing changes it, so all contracts, at whatever addresses,
  have the same digest for the same operation and version, and a controller's signature for one of its
  contracts authorizes the operation on all of them that are at that version.
\<close>

theorem digests_agree_across_contracts:
  assumes rt: "ledger_runtime R repr self ok may_refuse"
    and "reachable R addr1 st1" and "reachable R addr2 st2"
  shows "\<exists>l1 l2. repr st1 l1 \<and> repr st2 l2 \<and>
           (\<forall>v op. operation_digest R (lg_id l1) v op = operation_digest R (lg_id l2) v op)"
proof -
  obtain l1 where "repr st1 l1" "lg_id l1 = address_default"
    using ledger_runtime.reachable_inv [OF rt assms(2)] by blast
  moreover obtain l2 where "repr st2 l2" "lg_id l2 = address_default"
    using ledger_runtime.reachable_inv [OF rt assms(3)] by blast
  ultimately show ?thesis by (intro exI [of _ l1] exI [of _ l2]) simp
qed

theorem digests_agree_across_contracts_witness:
  "\<exists>l1 l2. ref_repr (encode_ledger demo_ledger) l1 \<and> ref_repr (encode_ledger demo_ledger) l2 \<and>
     (\<forall>v op. operation_digest demo_runtime (lg_id l1) v op = operation_digest demo_runtime (lg_id l2) v op)"
  using digests_agree_across_contracts [OF ref.ledger_runtime_axioms demo_reachable
      reachable.created [OF demo_created, of address_default]] .

end
