(* ===== verification/Field_Repr.thy ===== *)
theory Field_Repr
  imports Contract_Types
begin

text \<open>
  The encodings of the contract's data types as field elements and as bytes: the impls of
  \<open>FieldRepr\<close>, \<open>FromFieldRepr\<close> and \<open>BinaryHashRepr\<close> for the 26 types of
  \<open>midnight-did-runtime/src/contract/generated.rs\<close>. The encodings of the leaf types (\<open>u8\<close>, \<open>u64\<close>,
  \<open>Fr\<close>, \<open>[u8; 32]\<close>, \<open>OpaqueString\<close>, \<open>JubjubPoint\<close>) and \<open>array_from_field_repr\<close> belong to the runtime
  and are parameters, gathered in the record \<open>leaves\<close>. \<open>field_width_T\<close> is the associated constant
  \<open>FIELD_SIZE\<close>, \<open>field_size_T\<close> the method.

  A leaf value is representable (\<open>leaf_ok\<close>) when its encoding has the length \<open>FIELD_SIZE\<close> and reads
  back; a string, for one, need not be. The locale \<open>leaf_laws\<close> states what the generated code assumes
  beyond that: a byte is one field element and one byte, an array is read element by element. Under
  these laws each generated type is a codec on the values with representable leaves: it adds no loss,
  whatever the leaves do (one \<open>sublocale\<close> per type).
\<close>

section \<open>Leaf encodings\<close>

record ('fr, 'a) leaf =
  lf_write :: "'a \<Rightarrow> 'fr list"
  lf_size :: "'a \<Rightarrow> nat"
  lf_width :: nat
  lf_read :: "'fr list \<Rightarrow> 'a option"
  lf_binary :: "'a \<Rightarrow> bytes"
  lf_binary_len :: "'a \<Rightarrow> nat"

record ('fr, 'p) leaves =
  lv_u8 :: "('fr, u8) leaf"
  lv_u64 :: "('fr, u64) leaf"
  lv_fr :: "('fr, 'fr) leaf"
  lv_bytes32 :: "('fr, bytes) leaf"
  lv_string :: "('fr, string) leaf"
  lv_point :: "('fr, 'p) leaf"
  lv_read4 :: "'fr list \<Rightarrow> nat \<Rightarrow> ('fr \<times> 'fr \<times> 'fr \<times> 'fr) option"

text \<open>
  \<open>&_repr[_offset.._offset + n]\<close>. Every reader compares the length with \<open>FIELD_SIZE\<close>, the sum of the
  lengths of its slices, so no slice is out of bounds.
\<close>

definition slice :: "nat \<Rightarrow> nat \<Rightarrow> 'a list \<Rightarrow> 'a list" where
  "slice off n xs = take n (drop off xs)"

lemma slice_append:
  "slice (length xs + off) n (xs @ ys) = slice off n ys"
  "slice 0 (length xs) (xs @ ys) = xs"
  "slice 0 (length xs) xs = xs"
  by (simp_all add: slice_def)

section \<open>Enumerations\<close>

definition field_repr_c_vm_type :: "('fr, 'p) leaves \<Rightarrow> c_vm_type \<Rightarrow> 'fr list" where
  "field_repr_c_vm_type L v = lf_write (lv_u8 L) (of_nat (c_vm_type_u8 v))"

definition field_size_c_vm_type :: "('fr, 'p) leaves \<Rightarrow> c_vm_type \<Rightarrow> nat" where
  "field_size_c_vm_type L v = 1"

definition field_width_c_vm_type :: "('fr, 'p) leaves \<Rightarrow> nat" where
  "field_width_c_vm_type L = 1"

definition from_field_repr_c_vm_type :: "('fr, 'p) leaves \<Rightarrow> 'fr list \<Rightarrow> c_vm_type option" where
  "from_field_repr_c_vm_type L r =
     Option.bind (lf_read (lv_u8 L) r) (\<lambda>n.
      if n = 0 then Some CVT_Undefined
      else if n = 1 then Some CVT_JsonWebKey
      else None)"

definition binary_repr_c_vm_type :: "('fr, 'p) leaves \<Rightarrow> c_vm_type \<Rightarrow> bytes" where
  "binary_repr_c_vm_type L v = lf_binary (lv_u8 L) (of_nat (c_vm_type_u8 v))"

definition binary_len_c_vm_type :: "('fr, 'p) leaves \<Rightarrow> c_vm_type \<Rightarrow> nat" where
  "binary_len_c_vm_type L v = 1"

definition field_repr_c_relation :: "('fr, 'p) leaves \<Rightarrow> c_relation \<Rightarrow> 'fr list" where
  "field_repr_c_relation L v = lf_write (lv_u8 L) (of_nat (c_relation_u8 v))"

definition field_size_c_relation :: "('fr, 'p) leaves \<Rightarrow> c_relation \<Rightarrow> nat" where
  "field_size_c_relation L v = 1"

definition field_width_c_relation :: "('fr, 'p) leaves \<Rightarrow> nat" where
  "field_width_c_relation L = 1"

definition from_field_repr_c_relation :: "('fr, 'p) leaves \<Rightarrow> 'fr list \<Rightarrow> c_relation option" where
  "from_field_repr_c_relation L r =
     Option.bind (lf_read (lv_u8 L) r) (\<lambda>n.
      if n = 0 then Some CR_Undefined
      else if n = 1 then Some CR_Authentication
      else if n = 2 then Some CR_AssertionMethod
      else if n = 3 then Some CR_KeyAgreement
      else if n = 4 then Some CR_CapabilityInvocation
      else if n = 5 then Some CR_CapabilityDelegation
      else None)"

definition binary_repr_c_relation :: "('fr, 'p) leaves \<Rightarrow> c_relation \<Rightarrow> bytes" where
  "binary_repr_c_relation L v = lf_binary (lv_u8 L) (of_nat (c_relation_u8 v))"

definition binary_len_c_relation :: "('fr, 'p) leaves \<Rightarrow> c_relation \<Rightarrow> nat" where
  "binary_len_c_relation L v = 1"

definition field_repr_c_map_mutation :: "('fr, 'p) leaves \<Rightarrow> c_map_mutation \<Rightarrow> 'fr list" where
  "field_repr_c_map_mutation L v = lf_write (lv_u8 L) (of_nat (c_map_mutation_u8 v))"

definition field_size_c_map_mutation :: "('fr, 'p) leaves \<Rightarrow> c_map_mutation \<Rightarrow> nat" where
  "field_size_c_map_mutation L v = 1"

definition field_width_c_map_mutation :: "('fr, 'p) leaves \<Rightarrow> nat" where
  "field_width_c_map_mutation L = 1"

definition from_field_repr_c_map_mutation :: "('fr, 'p) leaves \<Rightarrow> 'fr list \<Rightarrow> c_map_mutation option" where
  "from_field_repr_c_map_mutation L r =
     Option.bind (lf_read (lv_u8 L) r) (\<lambda>n.
      if n = 0 then Some CMM_Undefined
      else if n = 1 then Some CMM_Insert
      else if n = 2 then Some CMM_Update
      else None)"

definition binary_repr_c_map_mutation :: "('fr, 'p) leaves \<Rightarrow> c_map_mutation \<Rightarrow> bytes" where
  "binary_repr_c_map_mutation L v = lf_binary (lv_u8 L) (of_nat (c_map_mutation_u8 v))"

definition binary_len_c_map_mutation :: "('fr, 'p) leaves \<Rightarrow> c_map_mutation \<Rightarrow> nat" where
  "binary_len_c_map_mutation L v = 1"

definition field_repr_c_set_mutation :: "('fr, 'p) leaves \<Rightarrow> c_set_mutation \<Rightarrow> 'fr list" where
  "field_repr_c_set_mutation L v = lf_write (lv_u8 L) (of_nat (c_set_mutation_u8 v))"

definition field_size_c_set_mutation :: "('fr, 'p) leaves \<Rightarrow> c_set_mutation \<Rightarrow> nat" where
  "field_size_c_set_mutation L v = 1"

definition field_width_c_set_mutation :: "('fr, 'p) leaves \<Rightarrow> nat" where
  "field_width_c_set_mutation L = 1"

definition from_field_repr_c_set_mutation :: "('fr, 'p) leaves \<Rightarrow> 'fr list \<Rightarrow> c_set_mutation option" where
  "from_field_repr_c_set_mutation L r =
     Option.bind (lf_read (lv_u8 L) r) (\<lambda>n.
      if n = 0 then Some CSM_Undefined
      else if n = 1 then Some CSM_Insert
      else if n = 2 then Some CSM_Remove
      else None)"

definition binary_repr_c_set_mutation :: "('fr, 'p) leaves \<Rightarrow> c_set_mutation \<Rightarrow> bytes" where
  "binary_repr_c_set_mutation L v = lf_binary (lv_u8 L) (of_nat (c_set_mutation_u8 v))"

definition binary_len_c_set_mutation :: "('fr, 'p) leaves \<Rightarrow> c_set_mutation \<Rightarrow> nat" where
  "binary_len_c_set_mutation L v = 1"

definition field_repr_c_key_type :: "('fr, 'p) leaves \<Rightarrow> c_key_type \<Rightarrow> 'fr list" where
  "field_repr_c_key_type L v = lf_write (lv_u8 L) (of_nat (c_key_type_u8 v))"

definition field_size_c_key_type :: "('fr, 'p) leaves \<Rightarrow> c_key_type \<Rightarrow> nat" where
  "field_size_c_key_type L v = 1"

definition field_width_c_key_type :: "('fr, 'p) leaves \<Rightarrow> nat" where
  "field_width_c_key_type L = 1"

definition from_field_repr_c_key_type :: "('fr, 'p) leaves \<Rightarrow> 'fr list \<Rightarrow> c_key_type option" where
  "from_field_repr_c_key_type L r =
     Option.bind (lf_read (lv_u8 L) r) (\<lambda>n.
      if n = 0 then Some CK_EC
      else if n = 1 then Some CK_RSA
      else if n = 2 then Some CK_oct
      else if n = 3 then Some CK_OKP
      else None)"

definition binary_repr_c_key_type :: "('fr, 'p) leaves \<Rightarrow> c_key_type \<Rightarrow> bytes" where
  "binary_repr_c_key_type L v = lf_binary (lv_u8 L) (of_nat (c_key_type_u8 v))"

definition binary_len_c_key_type :: "('fr, 'p) leaves \<Rightarrow> c_key_type \<Rightarrow> nat" where
  "binary_len_c_key_type L v = 1"

definition field_repr_c_curve_type :: "('fr, 'p) leaves \<Rightarrow> c_curve_type \<Rightarrow> 'fr list" where
  "field_repr_c_curve_type L v = lf_write (lv_u8 L) (of_nat (c_curve_type_u8 v))"

definition field_size_c_curve_type :: "('fr, 'p) leaves \<Rightarrow> c_curve_type \<Rightarrow> nat" where
  "field_size_c_curve_type L v = 1"

definition field_width_c_curve_type :: "('fr, 'p) leaves \<Rightarrow> nat" where
  "field_width_c_curve_type L = 1"

definition from_field_repr_c_curve_type :: "('fr, 'p) leaves \<Rightarrow> 'fr list \<Rightarrow> c_curve_type option" where
  "from_field_repr_c_curve_type L r =
     Option.bind (lf_read (lv_u8 L) r) (\<lambda>n.
      if n = 0 then Some CC_Ed25519
      else if n = 1 then Some CC_X25519
      else if n = 2 then Some CC_Jubjub
      else if n = 3 then Some CC_P256
      else if n = 4 then Some CC_Secp256k1
      else if n = 5 then Some CC_BLS12381G1
      else if n = 6 then Some CC_BLS12381G2
      else None)"

definition binary_repr_c_curve_type :: "('fr, 'p) leaves \<Rightarrow> c_curve_type \<Rightarrow> bytes" where
  "binary_repr_c_curve_type L v = lf_binary (lv_u8 L) (of_nat (c_curve_type_u8 v))"

definition binary_len_c_curve_type :: "('fr, 'p) leaves \<Rightarrow> c_curve_type \<Rightarrow> nat" where
  "binary_len_c_curve_type L v = 1"

section \<open>Structures\<close>

definition field_repr_c_public_key_jwk :: "('fr, 'p) leaves \<Rightarrow> c_public_key_jwk \<Rightarrow> 'fr list" where
  "field_repr_c_public_key_jwk L s =
     field_repr_c_key_type L (cj_kty s) @ field_repr_c_curve_type L (cj_crv s) @
     lf_write (lv_string L) (cj_x s) @ lf_write (lv_string L) (cj_y s)"

definition field_size_c_public_key_jwk :: "('fr, 'p) leaves \<Rightarrow> c_public_key_jwk \<Rightarrow> nat" where
  "field_size_c_public_key_jwk L s =
     field_size_c_key_type L (cj_kty s) + field_size_c_curve_type L (cj_crv s) +
     lf_size (lv_string L) (cj_x s) + lf_size (lv_string L) (cj_y s)"

definition field_width_c_public_key_jwk :: "('fr, 'p) leaves \<Rightarrow> nat" where
  "field_width_c_public_key_jwk L =
     field_width_c_key_type L + field_width_c_curve_type L + lf_width (lv_string L) +
     lf_width (lv_string L)"

definition from_field_repr_c_public_key_jwk :: "('fr, 'p) leaves \<Rightarrow> 'fr list \<Rightarrow> c_public_key_jwk option" where
  "from_field_repr_c_public_key_jwk L r =
    (if length r < field_width_c_public_key_jwk L then None else
     Option.bind (from_field_repr_c_key_type L (slice 0 (field_width_c_key_type L) r)) (\<lambda>f0.
     let offset1 = field_width_c_key_type L in
     Option.bind (from_field_repr_c_curve_type L (slice offset1 (field_width_c_curve_type L) r)) (\<lambda>f1.
     let offset2 = offset1 + field_width_c_curve_type L in
     Option.bind (lf_read (lv_string L) (slice offset2 (lf_width (lv_string L)) r)) (\<lambda>f2.
     let offset3 = offset2 + lf_width (lv_string L) in
     Option.bind (lf_read (lv_string L) (slice offset3 (lf_width (lv_string L)) r)) (\<lambda>f3.
     Some \<lparr>cj_kty = f0, cj_crv = f1, cj_x = f2, cj_y = f3\<rparr>)))))"

definition binary_repr_c_public_key_jwk :: "('fr, 'p) leaves \<Rightarrow> c_public_key_jwk \<Rightarrow> bytes" where
  "binary_repr_c_public_key_jwk L s =
     binary_repr_c_key_type L (cj_kty s) @ binary_repr_c_curve_type L (cj_crv s) @
     lf_binary (lv_string L) (cj_x s) @ lf_binary (lv_string L) (cj_y s)"

definition binary_len_c_public_key_jwk :: "('fr, 'p) leaves \<Rightarrow> c_public_key_jwk \<Rightarrow> nat" where
  "binary_len_c_public_key_jwk L s =
     binary_len_c_key_type L (cj_kty s) + binary_len_c_curve_type L (cj_crv s) +
     lf_binary_len (lv_string L) (cj_x s) + lf_binary_len (lv_string L) (cj_y s)"

definition field_repr_c_verification_method :: "('fr, 'p) leaves \<Rightarrow> c_verification_method \<Rightarrow> 'fr list" where
  "field_repr_c_verification_method L s =
     lf_write (lv_string L) (cvm_id s) @ field_repr_c_vm_type L (cvm_typ s) @
     field_repr_c_public_key_jwk L (cvm_public_key_jwk s)"

definition field_size_c_verification_method :: "('fr, 'p) leaves \<Rightarrow> c_verification_method \<Rightarrow> nat" where
  "field_size_c_verification_method L s =
     lf_size (lv_string L) (cvm_id s) + field_size_c_vm_type L (cvm_typ s) +
     field_size_c_public_key_jwk L (cvm_public_key_jwk s)"

definition field_width_c_verification_method :: "('fr, 'p) leaves \<Rightarrow> nat" where
  "field_width_c_verification_method L =
     lf_width (lv_string L) + field_width_c_vm_type L + field_width_c_public_key_jwk L"

definition from_field_repr_c_verification_method :: "('fr, 'p) leaves \<Rightarrow> 'fr list \<Rightarrow> c_verification_method option" where
  "from_field_repr_c_verification_method L r =
    (if length r < field_width_c_verification_method L then None else
     Option.bind (lf_read (lv_string L) (slice 0 (lf_width (lv_string L)) r)) (\<lambda>f0.
     let offset1 = lf_width (lv_string L) in
     Option.bind (from_field_repr_c_vm_type L (slice offset1 (field_width_c_vm_type L) r)) (\<lambda>f1.
     let offset2 = offset1 + field_width_c_vm_type L in
     Option.bind (from_field_repr_c_public_key_jwk L (slice offset2 (field_width_c_public_key_jwk L) r)) (\<lambda>f2.
     Some \<lparr>cvm_id = f0, cvm_typ = f1, cvm_public_key_jwk = f2\<rparr>))))"

definition binary_repr_c_verification_method :: "('fr, 'p) leaves \<Rightarrow> c_verification_method \<Rightarrow> bytes" where
  "binary_repr_c_verification_method L s =
     lf_binary (lv_string L) (cvm_id s) @ binary_repr_c_vm_type L (cvm_typ s) @
     binary_repr_c_public_key_jwk L (cvm_public_key_jwk s)"

definition binary_len_c_verification_method :: "('fr, 'p) leaves \<Rightarrow> c_verification_method \<Rightarrow> nat" where
  "binary_len_c_verification_method L s =
     lf_binary_len (lv_string L) (cvm_id s) + binary_len_c_vm_type L (cvm_typ s) +
     binary_len_c_public_key_jwk L (cvm_public_key_jwk s)"

definition field_repr_c_schnorr_method :: "('fr, 'p) leaves \<Rightarrow> 'p c_schnorr_method \<Rightarrow> 'fr list" where
  "field_repr_c_schnorr_method L s =
     lf_write (lv_string L) (csm_id s) @ lf_write (lv_point L) (csm_public_key s)"

definition field_size_c_schnorr_method :: "('fr, 'p) leaves \<Rightarrow> 'p c_schnorr_method \<Rightarrow> nat" where
  "field_size_c_schnorr_method L s =
     lf_size (lv_string L) (csm_id s) + lf_size (lv_point L) (csm_public_key s)"

definition field_width_c_schnorr_method :: "('fr, 'p) leaves \<Rightarrow> nat" where
  "field_width_c_schnorr_method L =
     lf_width (lv_string L) + lf_width (lv_point L)"

definition from_field_repr_c_schnorr_method :: "('fr, 'p) leaves \<Rightarrow> 'fr list \<Rightarrow> 'p c_schnorr_method option" where
  "from_field_repr_c_schnorr_method L r =
    (if length r < field_width_c_schnorr_method L then None else
     Option.bind (lf_read (lv_string L) (slice 0 (lf_width (lv_string L)) r)) (\<lambda>f0.
     let offset1 = lf_width (lv_string L) in
     Option.bind (lf_read (lv_point L) (slice offset1 (lf_width (lv_point L)) r)) (\<lambda>f1.
     Some \<lparr>csm_id = f0, csm_public_key = f1\<rparr>)))"

definition binary_repr_c_schnorr_method :: "('fr, 'p) leaves \<Rightarrow> 'p c_schnorr_method \<Rightarrow> bytes" where
  "binary_repr_c_schnorr_method L s =
     lf_binary (lv_string L) (csm_id s) @ lf_binary (lv_point L) (csm_public_key s)"

definition binary_len_c_schnorr_method :: "('fr, 'p) leaves \<Rightarrow> 'p c_schnorr_method \<Rightarrow> nat" where
  "binary_len_c_schnorr_method L s =
     lf_binary_len (lv_string L) (csm_id s) + lf_binary_len (lv_point L) (csm_public_key s)"

definition field_repr_c_service :: "('fr, 'p) leaves \<Rightarrow> c_service \<Rightarrow> 'fr list" where
  "field_repr_c_service L s =
     lf_write (lv_string L) (cs_id s) @ lf_write (lv_string L) (cs_typ s) @
     lf_write (lv_string L) (cs_endpoint s)"

definition field_size_c_service :: "('fr, 'p) leaves \<Rightarrow> c_service \<Rightarrow> nat" where
  "field_size_c_service L s =
     lf_size (lv_string L) (cs_id s) + lf_size (lv_string L) (cs_typ s) +
     lf_size (lv_string L) (cs_endpoint s)"

definition field_width_c_service :: "('fr, 'p) leaves \<Rightarrow> nat" where
  "field_width_c_service L =
     lf_width (lv_string L) + lf_width (lv_string L) + lf_width (lv_string L)"

definition from_field_repr_c_service :: "('fr, 'p) leaves \<Rightarrow> 'fr list \<Rightarrow> c_service option" where
  "from_field_repr_c_service L r =
    (if length r < field_width_c_service L then None else
     Option.bind (lf_read (lv_string L) (slice 0 (lf_width (lv_string L)) r)) (\<lambda>f0.
     let offset1 = lf_width (lv_string L) in
     Option.bind (lf_read (lv_string L) (slice offset1 (lf_width (lv_string L)) r)) (\<lambda>f1.
     let offset2 = offset1 + lf_width (lv_string L) in
     Option.bind (lf_read (lv_string L) (slice offset2 (lf_width (lv_string L)) r)) (\<lambda>f2.
     Some \<lparr>cs_id = f0, cs_typ = f1, cs_endpoint = f2\<rparr>))))"

definition binary_repr_c_service :: "('fr, 'p) leaves \<Rightarrow> c_service \<Rightarrow> bytes" where
  "binary_repr_c_service L s =
     lf_binary (lv_string L) (cs_id s) @ lf_binary (lv_string L) (cs_typ s) @
     lf_binary (lv_string L) (cs_endpoint s)"

definition binary_len_c_service :: "('fr, 'p) leaves \<Rightarrow> c_service \<Rightarrow> nat" where
  "binary_len_c_service L s =
     lf_binary_len (lv_string L) (cs_id s) + lf_binary_len (lv_string L) (cs_typ s) +
     lf_binary_len (lv_string L) (cs_endpoint s)"

definition field_repr_recover_controller_key_args :: "('fr, 'p) leaves \<Rightarrow> 'fr recover_controller_key_args \<Rightarrow> 'fr list" where
  "field_repr_recover_controller_key_args L s =
     lf_write (lv_fr L) (rca_public_key_x s) @ lf_write (lv_fr L) (rca_public_key_y s)"

definition field_size_recover_controller_key_args :: "('fr, 'p) leaves \<Rightarrow> 'fr recover_controller_key_args \<Rightarrow> nat" where
  "field_size_recover_controller_key_args L s =
     lf_size (lv_fr L) (rca_public_key_x s) + lf_size (lv_fr L) (rca_public_key_y s)"

definition field_width_recover_controller_key_args :: "('fr, 'p) leaves \<Rightarrow> nat" where
  "field_width_recover_controller_key_args L =
     lf_width (lv_fr L) + lf_width (lv_fr L)"

definition from_field_repr_recover_controller_key_args :: "('fr, 'p) leaves \<Rightarrow> 'fr list \<Rightarrow> 'fr recover_controller_key_args option" where
  "from_field_repr_recover_controller_key_args L r =
    (if length r < field_width_recover_controller_key_args L then None else
     Option.bind (lf_read (lv_fr L) (slice 0 (lf_width (lv_fr L)) r)) (\<lambda>f0.
     let offset1 = lf_width (lv_fr L) in
     Option.bind (lf_read (lv_fr L) (slice offset1 (lf_width (lv_fr L)) r)) (\<lambda>f1.
     Some \<lparr>rca_public_key_x = f0, rca_public_key_y = f1\<rparr>)))"

definition binary_repr_recover_controller_key_args :: "('fr, 'p) leaves \<Rightarrow> 'fr recover_controller_key_args \<Rightarrow> bytes" where
  "binary_repr_recover_controller_key_args L s =
     lf_binary (lv_fr L) (rca_public_key_x s) @ lf_binary (lv_fr L) (rca_public_key_y s)"

definition binary_len_recover_controller_key_args :: "('fr, 'p) leaves \<Rightarrow> 'fr recover_controller_key_args \<Rightarrow> nat" where
  "binary_len_recover_controller_key_args L s =
     lf_binary_len (lv_fr L) (rca_public_key_x s) + lf_binary_len (lv_fr L) (rca_public_key_y s)"

definition field_repr_set_schnorr_method_args :: "('fr, 'p) leaves \<Rightarrow> 'fr set_schnorr_method_args \<Rightarrow> 'fr list" where
  "field_repr_set_schnorr_method_args L s =
     lf_write (lv_string L) (ssa_id s) @ lf_write (lv_fr L) (ssa_public_key_x s) @
     lf_write (lv_fr L) (ssa_public_key_y s) @ field_repr_c_map_mutation L (ssa_mutation s)"

definition field_size_set_schnorr_method_args :: "('fr, 'p) leaves \<Rightarrow> 'fr set_schnorr_method_args \<Rightarrow> nat" where
  "field_size_set_schnorr_method_args L s =
     lf_size (lv_string L) (ssa_id s) + lf_size (lv_fr L) (ssa_public_key_x s) +
     lf_size (lv_fr L) (ssa_public_key_y s) + field_size_c_map_mutation L (ssa_mutation s)"

definition field_width_set_schnorr_method_args :: "('fr, 'p) leaves \<Rightarrow> nat" where
  "field_width_set_schnorr_method_args L =
     lf_width (lv_string L) + lf_width (lv_fr L) + lf_width (lv_fr L) +
     field_width_c_map_mutation L"

definition from_field_repr_set_schnorr_method_args :: "('fr, 'p) leaves \<Rightarrow> 'fr list \<Rightarrow> 'fr set_schnorr_method_args option" where
  "from_field_repr_set_schnorr_method_args L r =
    (if length r < field_width_set_schnorr_method_args L then None else
     Option.bind (lf_read (lv_string L) (slice 0 (lf_width (lv_string L)) r)) (\<lambda>f0.
     let offset1 = lf_width (lv_string L) in
     Option.bind (lf_read (lv_fr L) (slice offset1 (lf_width (lv_fr L)) r)) (\<lambda>f1.
     let offset2 = offset1 + lf_width (lv_fr L) in
     Option.bind (lf_read (lv_fr L) (slice offset2 (lf_width (lv_fr L)) r)) (\<lambda>f2.
     let offset3 = offset2 + lf_width (lv_fr L) in
     Option.bind (from_field_repr_c_map_mutation L (slice offset3 (field_width_c_map_mutation L) r)) (\<lambda>f3.
     Some \<lparr>ssa_id = f0, ssa_public_key_x = f1, ssa_public_key_y = f2, ssa_mutation = f3\<rparr>)))))"

definition binary_repr_set_schnorr_method_args :: "('fr, 'p) leaves \<Rightarrow> 'fr set_schnorr_method_args \<Rightarrow> bytes" where
  "binary_repr_set_schnorr_method_args L s =
     lf_binary (lv_string L) (ssa_id s) @ lf_binary (lv_fr L) (ssa_public_key_x s) @
     lf_binary (lv_fr L) (ssa_public_key_y s) @ binary_repr_c_map_mutation L (ssa_mutation s)"

definition binary_len_set_schnorr_method_args :: "('fr, 'p) leaves \<Rightarrow> 'fr set_schnorr_method_args \<Rightarrow> nat" where
  "binary_len_set_schnorr_method_args L s =
     lf_binary_len (lv_string L) (ssa_id s) + lf_binary_len (lv_fr L) (ssa_public_key_x s) +
     lf_binary_len (lv_fr L) (ssa_public_key_y s) + binary_len_c_map_mutation L (ssa_mutation s)"

definition field_repr_set_service_args :: "('fr, 'p) leaves \<Rightarrow> set_service_args \<Rightarrow> 'fr list" where
  "field_repr_set_service_args L s =
     field_repr_c_service L (ssv_service s) @ field_repr_c_map_mutation L (ssv_mutation s)"

definition field_size_set_service_args :: "('fr, 'p) leaves \<Rightarrow> set_service_args \<Rightarrow> nat" where
  "field_size_set_service_args L s =
     field_size_c_service L (ssv_service s) + field_size_c_map_mutation L (ssv_mutation s)"

definition field_width_set_service_args :: "('fr, 'p) leaves \<Rightarrow> nat" where
  "field_width_set_service_args L =
     field_width_c_service L + field_width_c_map_mutation L"

definition from_field_repr_set_service_args :: "('fr, 'p) leaves \<Rightarrow> 'fr list \<Rightarrow> set_service_args option" where
  "from_field_repr_set_service_args L r =
    (if length r < field_width_set_service_args L then None else
     Option.bind (from_field_repr_c_service L (slice 0 (field_width_c_service L) r)) (\<lambda>f0.
     let offset1 = field_width_c_service L in
     Option.bind (from_field_repr_c_map_mutation L (slice offset1 (field_width_c_map_mutation L) r)) (\<lambda>f1.
     Some \<lparr>ssv_service = f0, ssv_mutation = f1\<rparr>)))"

definition binary_repr_set_service_args :: "('fr, 'p) leaves \<Rightarrow> set_service_args \<Rightarrow> bytes" where
  "binary_repr_set_service_args L s =
     binary_repr_c_service L (ssv_service s) @ binary_repr_c_map_mutation L (ssv_mutation s)"

definition binary_len_set_service_args :: "('fr, 'p) leaves \<Rightarrow> set_service_args \<Rightarrow> nat" where
  "binary_len_set_service_args L s =
     binary_len_c_service L (ssv_service s) + binary_len_c_map_mutation L (ssv_mutation s)"

definition field_repr_c_address :: "('fr, 'p) leaves \<Rightarrow> c_address \<Rightarrow> 'fr list" where
  "field_repr_c_address L s =
     lf_write (lv_bytes32 L) (address_bytes s)"

definition field_size_c_address :: "('fr, 'p) leaves \<Rightarrow> c_address \<Rightarrow> nat" where
  "field_size_c_address L s =
     lf_size (lv_bytes32 L) (address_bytes s)"

definition field_width_c_address :: "('fr, 'p) leaves \<Rightarrow> nat" where
  "field_width_c_address L =
     lf_width (lv_bytes32 L)"

definition from_field_repr_c_address :: "('fr, 'p) leaves \<Rightarrow> 'fr list \<Rightarrow> c_address option" where
  "from_field_repr_c_address L r =
    (if length r < field_width_c_address L then None else
     Option.bind (lf_read (lv_bytes32 L) (slice 0 (lf_width (lv_bytes32 L)) r)) (\<lambda>f0.
     Some \<lparr>address_bytes = f0\<rparr>))"

definition binary_repr_c_address :: "('fr, 'p) leaves \<Rightarrow> c_address \<Rightarrow> bytes" where
  "binary_repr_c_address L s =
     lf_binary (lv_bytes32 L) (address_bytes s)"

definition binary_len_c_address :: "('fr, 'p) leaves \<Rightarrow> c_address \<Rightarrow> nat" where
  "binary_len_c_address L s =
     lf_binary_len (lv_bytes32 L) (address_bytes s)"

definition field_repr_remove_service_args :: "('fr, 'p) leaves \<Rightarrow> remove_service_args \<Rightarrow> 'fr list" where
  "field_repr_remove_service_args L s =
     lf_write (lv_string L) (rsv_id s)"

definition field_size_remove_service_args :: "('fr, 'p) leaves \<Rightarrow> remove_service_args \<Rightarrow> nat" where
  "field_size_remove_service_args L s =
     lf_size (lv_string L) (rsv_id s)"

definition field_width_remove_service_args :: "('fr, 'p) leaves \<Rightarrow> nat" where
  "field_width_remove_service_args L =
     lf_width (lv_string L)"

definition from_field_repr_remove_service_args :: "('fr, 'p) leaves \<Rightarrow> 'fr list \<Rightarrow> remove_service_args option" where
  "from_field_repr_remove_service_args L r =
    (if length r < field_width_remove_service_args L then None else
     Option.bind (lf_read (lv_string L) (slice 0 (lf_width (lv_string L)) r)) (\<lambda>f0.
     Some \<lparr>rsv_id = f0\<rparr>))"

definition binary_repr_remove_service_args :: "('fr, 'p) leaves \<Rightarrow> remove_service_args \<Rightarrow> bytes" where
  "binary_repr_remove_service_args L s =
     lf_binary (lv_string L) (rsv_id s)"

definition binary_len_remove_service_args :: "('fr, 'p) leaves \<Rightarrow> remove_service_args \<Rightarrow> nat" where
  "binary_len_remove_service_args L s =
     lf_binary_len (lv_string L) (rsv_id s)"

definition field_repr_remove_schnorr_method_args :: "('fr, 'p) leaves \<Rightarrow> remove_schnorr_method_args \<Rightarrow> 'fr list" where
  "field_repr_remove_schnorr_method_args L s =
     lf_write (lv_string L) (rsa_id s)"

definition field_size_remove_schnorr_method_args :: "('fr, 'p) leaves \<Rightarrow> remove_schnorr_method_args \<Rightarrow> nat" where
  "field_size_remove_schnorr_method_args L s =
     lf_size (lv_string L) (rsa_id s)"

definition field_width_remove_schnorr_method_args :: "('fr, 'p) leaves \<Rightarrow> nat" where
  "field_width_remove_schnorr_method_args L =
     lf_width (lv_string L)"

definition from_field_repr_remove_schnorr_method_args :: "('fr, 'p) leaves \<Rightarrow> 'fr list \<Rightarrow> remove_schnorr_method_args option" where
  "from_field_repr_remove_schnorr_method_args L r =
    (if length r < field_width_remove_schnorr_method_args L then None else
     Option.bind (lf_read (lv_string L) (slice 0 (lf_width (lv_string L)) r)) (\<lambda>f0.
     Some \<lparr>rsa_id = f0\<rparr>))"

definition binary_repr_remove_schnorr_method_args :: "('fr, 'p) leaves \<Rightarrow> remove_schnorr_method_args \<Rightarrow> bytes" where
  "binary_repr_remove_schnorr_method_args L s =
     lf_binary (lv_string L) (rsa_id s)"

definition binary_len_remove_schnorr_method_args :: "('fr, 'p) leaves \<Rightarrow> remove_schnorr_method_args \<Rightarrow> nat" where
  "binary_len_remove_schnorr_method_args L s =
     lf_binary_len (lv_string L) (rsa_id s)"

definition field_repr_authorization_domain :: "('fr, 'p) leaves \<Rightarrow> authorization_domain \<Rightarrow> 'fr list" where
  "field_repr_authorization_domain L s =
     lf_write (lv_bytes32 L) (cad_domain s)"

definition field_size_authorization_domain :: "('fr, 'p) leaves \<Rightarrow> authorization_domain \<Rightarrow> nat" where
  "field_size_authorization_domain L s =
     lf_size (lv_bytes32 L) (cad_domain s)"

definition field_width_authorization_domain :: "('fr, 'p) leaves \<Rightarrow> nat" where
  "field_width_authorization_domain L =
     lf_width (lv_bytes32 L)"

definition from_field_repr_authorization_domain :: "('fr, 'p) leaves \<Rightarrow> 'fr list \<Rightarrow> authorization_domain option" where
  "from_field_repr_authorization_domain L r =
    (if length r < field_width_authorization_domain L then None else
     Option.bind (lf_read (lv_bytes32 L) (slice 0 (lf_width (lv_bytes32 L)) r)) (\<lambda>f0.
     Some \<lparr>cad_domain = f0\<rparr>))"

definition binary_repr_authorization_domain :: "('fr, 'p) leaves \<Rightarrow> authorization_domain \<Rightarrow> bytes" where
  "binary_repr_authorization_domain L s =
     lf_binary (lv_bytes32 L) (cad_domain s)"

definition binary_len_authorization_domain :: "('fr, 'p) leaves \<Rightarrow> authorization_domain \<Rightarrow> nat" where
  "binary_len_authorization_domain L s =
     lf_binary_len (lv_bytes32 L) (cad_domain s)"

definition field_repr_rotate_controller_key_args :: "('fr, 'p) leaves \<Rightarrow> 'fr rotate_controller_key_args \<Rightarrow> 'fr list" where
  "field_repr_rotate_controller_key_args L s =
     lf_write (lv_fr L) (rot_public_key_x s) @ lf_write (lv_fr L) (rot_public_key_y s)"

definition field_size_rotate_controller_key_args :: "('fr, 'p) leaves \<Rightarrow> 'fr rotate_controller_key_args \<Rightarrow> nat" where
  "field_size_rotate_controller_key_args L s =
     lf_size (lv_fr L) (rot_public_key_x s) + lf_size (lv_fr L) (rot_public_key_y s)"

definition field_width_rotate_controller_key_args :: "('fr, 'p) leaves \<Rightarrow> nat" where
  "field_width_rotate_controller_key_args L =
     lf_width (lv_fr L) + lf_width (lv_fr L)"

definition from_field_repr_rotate_controller_key_args :: "('fr, 'p) leaves \<Rightarrow> 'fr list \<Rightarrow> 'fr rotate_controller_key_args option" where
  "from_field_repr_rotate_controller_key_args L r =
    (if length r < field_width_rotate_controller_key_args L then None else
     Option.bind (lf_read (lv_fr L) (slice 0 (lf_width (lv_fr L)) r)) (\<lambda>f0.
     let offset1 = lf_width (lv_fr L) in
     Option.bind (lf_read (lv_fr L) (slice offset1 (lf_width (lv_fr L)) r)) (\<lambda>f1.
     Some \<lparr>rot_public_key_x = f0, rot_public_key_y = f1\<rparr>)))"

definition binary_repr_rotate_controller_key_args :: "('fr, 'p) leaves \<Rightarrow> 'fr rotate_controller_key_args \<Rightarrow> bytes" where
  "binary_repr_rotate_controller_key_args L s =
     lf_binary (lv_fr L) (rot_public_key_x s) @ lf_binary (lv_fr L) (rot_public_key_y s)"

definition binary_len_rotate_controller_key_args :: "('fr, 'p) leaves \<Rightarrow> 'fr rotate_controller_key_args \<Rightarrow> nat" where
  "binary_len_rotate_controller_key_args L s =
     lf_binary_len (lv_fr L) (rot_public_key_x s) + lf_binary_len (lv_fr L) (rot_public_key_y s)"

definition field_repr_schnorr_hash_input :: "('fr, 'p) leaves \<Rightarrow> 'fr schnorr_hash_input \<Rightarrow> 'fr list" where
  "field_repr_schnorr_hash_input L s =
     lf_write (lv_fr L) (shi_ann_x s) @ lf_write (lv_fr L) (shi_ann_y s) @
     lf_write (lv_fr L) (shi_pk_x s) @ lf_write (lv_fr L) (shi_pk_y s) @
     (case shi_msg s of (a, b, c, d) \<Rightarrow> lf_write (lv_fr L) a @ lf_write (lv_fr L) b @ lf_write (lv_fr L) c @ lf_write (lv_fr L) d)"

definition field_size_schnorr_hash_input :: "('fr, 'p) leaves \<Rightarrow> 'fr schnorr_hash_input \<Rightarrow> nat" where
  "field_size_schnorr_hash_input L s =
     lf_size (lv_fr L) (shi_ann_x s) + lf_size (lv_fr L) (shi_ann_y s) +
     lf_size (lv_fr L) (shi_pk_x s) + lf_size (lv_fr L) (shi_pk_y s) +
     (case shi_msg s of (a, b, c, d) \<Rightarrow> lf_size (lv_fr L) a + lf_size (lv_fr L) b + lf_size (lv_fr L) c + lf_size (lv_fr L) d)"

definition field_width_schnorr_hash_input :: "('fr, 'p) leaves \<Rightarrow> nat" where
  "field_width_schnorr_hash_input L =
     lf_width (lv_fr L) + lf_width (lv_fr L) + lf_width (lv_fr L) + lf_width (lv_fr L) +
     lf_width (lv_fr L) * 4"

definition from_field_repr_schnorr_hash_input :: "('fr, 'p) leaves \<Rightarrow> 'fr list \<Rightarrow> 'fr schnorr_hash_input option" where
  "from_field_repr_schnorr_hash_input L r =
    (if length r < field_width_schnorr_hash_input L then None else
     Option.bind (lf_read (lv_fr L) (slice 0 (lf_width (lv_fr L)) r)) (\<lambda>f0.
     let offset1 = lf_width (lv_fr L) in
     Option.bind (lf_read (lv_fr L) (slice offset1 (lf_width (lv_fr L)) r)) (\<lambda>f1.
     let offset2 = offset1 + lf_width (lv_fr L) in
     Option.bind (lf_read (lv_fr L) (slice offset2 (lf_width (lv_fr L)) r)) (\<lambda>f2.
     let offset3 = offset2 + lf_width (lv_fr L) in
     Option.bind (lf_read (lv_fr L) (slice offset3 (lf_width (lv_fr L)) r)) (\<lambda>f3.
     let offset4 = offset3 + lf_width (lv_fr L) in
     Option.bind (lv_read4 L (slice offset4 (lf_width (lv_fr L) * 4) r) (lf_width (lv_fr L))) (\<lambda>f4.
     Some \<lparr>shi_ann_x = f0, shi_ann_y = f1, shi_pk_x = f2, shi_pk_y = f3, shi_msg = f4\<rparr>))))))"

definition binary_repr_schnorr_hash_input :: "('fr, 'p) leaves \<Rightarrow> 'fr schnorr_hash_input \<Rightarrow> bytes" where
  "binary_repr_schnorr_hash_input L s =
     lf_binary (lv_fr L) (shi_ann_x s) @ lf_binary (lv_fr L) (shi_ann_y s) @
     lf_binary (lv_fr L) (shi_pk_x s) @ lf_binary (lv_fr L) (shi_pk_y s) @
     (case shi_msg s of (a, b, c, d) \<Rightarrow> lf_binary (lv_fr L) a @ lf_binary (lv_fr L) b @ lf_binary (lv_fr L) c @ lf_binary (lv_fr L) d)"

definition binary_len_schnorr_hash_input :: "('fr, 'p) leaves \<Rightarrow> 'fr schnorr_hash_input \<Rightarrow> nat" where
  "binary_len_schnorr_hash_input L s =
     lf_binary_len (lv_fr L) (shi_ann_x s) + lf_binary_len (lv_fr L) (shi_ann_y s) +
     lf_binary_len (lv_fr L) (shi_pk_x s) + lf_binary_len (lv_fr L) (shi_pk_y s) +
     (case shi_msg s of (a, b, c, d) \<Rightarrow> lf_binary_len (lv_fr L) a + lf_binary_len (lv_fr L) b + lf_binary_len (lv_fr L) c + lf_binary_len (lv_fr L) d)"

definition field_repr_authorization_operation :: "('fr, 'p) leaves \<Rightarrow> authorization_operation \<Rightarrow> 'fr list" where
  "field_repr_authorization_operation L s =
     lf_write (lv_bytes32 L) (cao_name s)"

definition field_size_authorization_operation :: "('fr, 'p) leaves \<Rightarrow> authorization_operation \<Rightarrow> nat" where
  "field_size_authorization_operation L s =
     lf_size (lv_bytes32 L) (cao_name s)"

definition field_width_authorization_operation :: "('fr, 'p) leaves \<Rightarrow> nat" where
  "field_width_authorization_operation L =
     lf_width (lv_bytes32 L)"

definition from_field_repr_authorization_operation :: "('fr, 'p) leaves \<Rightarrow> 'fr list \<Rightarrow> authorization_operation option" where
  "from_field_repr_authorization_operation L r =
    (if length r < field_width_authorization_operation L then None else
     Option.bind (lf_read (lv_bytes32 L) (slice 0 (lf_width (lv_bytes32 L)) r)) (\<lambda>f0.
     Some \<lparr>cao_name = f0\<rparr>))"

definition binary_repr_authorization_operation :: "('fr, 'p) leaves \<Rightarrow> authorization_operation \<Rightarrow> bytes" where
  "binary_repr_authorization_operation L s =
     lf_binary (lv_bytes32 L) (cao_name s)"

definition binary_len_authorization_operation :: "('fr, 'p) leaves \<Rightarrow> authorization_operation \<Rightarrow> nat" where
  "binary_len_authorization_operation L s =
     lf_binary_len (lv_bytes32 L) (cao_name s)"

definition field_repr_authorization_no_args :: "('fr, 'p) leaves \<Rightarrow> authorization_no_args \<Rightarrow> 'fr list" where
  "field_repr_authorization_no_args L s =
     lf_write (lv_bytes32 L) (can_domain s)"

definition field_size_authorization_no_args :: "('fr, 'p) leaves \<Rightarrow> authorization_no_args \<Rightarrow> nat" where
  "field_size_authorization_no_args L s =
     lf_size (lv_bytes32 L) (can_domain s)"

definition field_width_authorization_no_args :: "('fr, 'p) leaves \<Rightarrow> nat" where
  "field_width_authorization_no_args L =
     lf_width (lv_bytes32 L)"

definition from_field_repr_authorization_no_args :: "('fr, 'p) leaves \<Rightarrow> 'fr list \<Rightarrow> authorization_no_args option" where
  "from_field_repr_authorization_no_args L r =
    (if length r < field_width_authorization_no_args L then None else
     Option.bind (lf_read (lv_bytes32 L) (slice 0 (lf_width (lv_bytes32 L)) r)) (\<lambda>f0.
     Some \<lparr>can_domain = f0\<rparr>))"

definition binary_repr_authorization_no_args :: "('fr, 'p) leaves \<Rightarrow> authorization_no_args \<Rightarrow> bytes" where
  "binary_repr_authorization_no_args L s =
     lf_binary (lv_bytes32 L) (can_domain s)"

definition binary_len_authorization_no_args :: "('fr, 'p) leaves \<Rightarrow> authorization_no_args \<Rightarrow> nat" where
  "binary_len_authorization_no_args L s =
     lf_binary_len (lv_bytes32 L) (can_domain s)"

definition field_repr_set_relation_args :: "('fr, 'p) leaves \<Rightarrow> set_relation_args \<Rightarrow> 'fr list" where
  "field_repr_set_relation_args L s =
     field_repr_c_relation L (sra_relation s) @ lf_write (lv_string L) (sra_method_id s) @
     field_repr_c_set_mutation L (sra_mutation s)"

definition field_size_set_relation_args :: "('fr, 'p) leaves \<Rightarrow> set_relation_args \<Rightarrow> nat" where
  "field_size_set_relation_args L s =
     field_size_c_relation L (sra_relation s) + lf_size (lv_string L) (sra_method_id s) +
     field_size_c_set_mutation L (sra_mutation s)"

definition field_width_set_relation_args :: "('fr, 'p) leaves \<Rightarrow> nat" where
  "field_width_set_relation_args L =
     field_width_c_relation L + lf_width (lv_string L) + field_width_c_set_mutation L"

definition from_field_repr_set_relation_args :: "('fr, 'p) leaves \<Rightarrow> 'fr list \<Rightarrow> set_relation_args option" where
  "from_field_repr_set_relation_args L r =
    (if length r < field_width_set_relation_args L then None else
     Option.bind (from_field_repr_c_relation L (slice 0 (field_width_c_relation L) r)) (\<lambda>f0.
     let offset1 = field_width_c_relation L in
     Option.bind (lf_read (lv_string L) (slice offset1 (lf_width (lv_string L)) r)) (\<lambda>f1.
     let offset2 = offset1 + lf_width (lv_string L) in
     Option.bind (from_field_repr_c_set_mutation L (slice offset2 (field_width_c_set_mutation L) r)) (\<lambda>f2.
     Some \<lparr>sra_relation = f0, sra_method_id = f1, sra_mutation = f2\<rparr>))))"

definition binary_repr_set_relation_args :: "('fr, 'p) leaves \<Rightarrow> set_relation_args \<Rightarrow> bytes" where
  "binary_repr_set_relation_args L s =
     binary_repr_c_relation L (sra_relation s) @ lf_binary (lv_string L) (sra_method_id s) @
     binary_repr_c_set_mutation L (sra_mutation s)"

definition binary_len_set_relation_args :: "('fr, 'p) leaves \<Rightarrow> set_relation_args \<Rightarrow> nat" where
  "binary_len_set_relation_args L s =
     binary_len_c_relation L (sra_relation s) + lf_binary_len (lv_string L) (sra_method_id s) +
     binary_len_c_set_mutation L (sra_mutation s)"

definition field_repr_set_method_args :: "('fr, 'p) leaves \<Rightarrow> set_method_args \<Rightarrow> 'fr list" where
  "field_repr_set_method_args L s =
     field_repr_c_verification_method L (sma_verification_method s) @
     field_repr_c_map_mutation L (sma_mutation s)"

definition field_size_set_method_args :: "('fr, 'p) leaves \<Rightarrow> set_method_args \<Rightarrow> nat" where
  "field_size_set_method_args L s =
     field_size_c_verification_method L (sma_verification_method s) +
     field_size_c_map_mutation L (sma_mutation s)"

definition field_width_set_method_args :: "('fr, 'p) leaves \<Rightarrow> nat" where
  "field_width_set_method_args L =
     field_width_c_verification_method L + field_width_c_map_mutation L"

definition from_field_repr_set_method_args :: "('fr, 'p) leaves \<Rightarrow> 'fr list \<Rightarrow> set_method_args option" where
  "from_field_repr_set_method_args L r =
    (if length r < field_width_set_method_args L then None else
     Option.bind (from_field_repr_c_verification_method L (slice 0 (field_width_c_verification_method L) r)) (\<lambda>f0.
     let offset1 = field_width_c_verification_method L in
     Option.bind (from_field_repr_c_map_mutation L (slice offset1 (field_width_c_map_mutation L) r)) (\<lambda>f1.
     Some \<lparr>sma_verification_method = f0, sma_mutation = f1\<rparr>)))"

definition binary_repr_set_method_args :: "('fr, 'p) leaves \<Rightarrow> set_method_args \<Rightarrow> bytes" where
  "binary_repr_set_method_args L s =
     binary_repr_c_verification_method L (sma_verification_method s) @
     binary_repr_c_map_mutation L (sma_mutation s)"

definition binary_len_set_method_args :: "('fr, 'p) leaves \<Rightarrow> set_method_args \<Rightarrow> nat" where
  "binary_len_set_method_args L s =
     binary_len_c_verification_method L (sma_verification_method s) +
     binary_len_c_map_mutation L (sma_mutation s)"

definition field_repr_set_also_known_as_args :: "('fr, 'p) leaves \<Rightarrow> set_also_known_as_args \<Rightarrow> 'fr list" where
  "field_repr_set_also_known_as_args L s =
     lf_write (lv_string L) (saa_value s) @ field_repr_c_set_mutation L (saa_mutation s)"

definition field_size_set_also_known_as_args :: "('fr, 'p) leaves \<Rightarrow> set_also_known_as_args \<Rightarrow> nat" where
  "field_size_set_also_known_as_args L s =
     lf_size (lv_string L) (saa_value s) + field_size_c_set_mutation L (saa_mutation s)"

definition field_width_set_also_known_as_args :: "('fr, 'p) leaves \<Rightarrow> nat" where
  "field_width_set_also_known_as_args L =
     lf_width (lv_string L) + field_width_c_set_mutation L"

definition from_field_repr_set_also_known_as_args :: "('fr, 'p) leaves \<Rightarrow> 'fr list \<Rightarrow> set_also_known_as_args option" where
  "from_field_repr_set_also_known_as_args L r =
    (if length r < field_width_set_also_known_as_args L then None else
     Option.bind (lf_read (lv_string L) (slice 0 (lf_width (lv_string L)) r)) (\<lambda>f0.
     let offset1 = lf_width (lv_string L) in
     Option.bind (from_field_repr_c_set_mutation L (slice offset1 (field_width_c_set_mutation L) r)) (\<lambda>f1.
     Some \<lparr>saa_value = f0, saa_mutation = f1\<rparr>)))"

definition binary_repr_set_also_known_as_args :: "('fr, 'p) leaves \<Rightarrow> set_also_known_as_args \<Rightarrow> bytes" where
  "binary_repr_set_also_known_as_args L s =
     lf_binary (lv_string L) (saa_value s) @ binary_repr_c_set_mutation L (saa_mutation s)"

definition binary_len_set_also_known_as_args :: "('fr, 'p) leaves \<Rightarrow> set_also_known_as_args \<Rightarrow> nat" where
  "binary_len_set_also_known_as_args L s =
     lf_binary_len (lv_string L) (saa_value s) + binary_len_c_set_mutation L (saa_mutation s)"

definition field_repr_remove_method_args :: "('fr, 'p) leaves \<Rightarrow> remove_method_args \<Rightarrow> 'fr list" where
  "field_repr_remove_method_args L s =
     lf_write (lv_string L) (rma_id s)"

definition field_size_remove_method_args :: "('fr, 'p) leaves \<Rightarrow> remove_method_args \<Rightarrow> nat" where
  "field_size_remove_method_args L s =
     lf_size (lv_string L) (rma_id s)"

definition field_width_remove_method_args :: "('fr, 'p) leaves \<Rightarrow> nat" where
  "field_width_remove_method_args L =
     lf_width (lv_string L)"

definition from_field_repr_remove_method_args :: "('fr, 'p) leaves \<Rightarrow> 'fr list \<Rightarrow> remove_method_args option" where
  "from_field_repr_remove_method_args L r =
    (if length r < field_width_remove_method_args L then None else
     Option.bind (lf_read (lv_string L) (slice 0 (lf_width (lv_string L)) r)) (\<lambda>f0.
     Some \<lparr>rma_id = f0\<rparr>))"

definition binary_repr_remove_method_args :: "('fr, 'p) leaves \<Rightarrow> remove_method_args \<Rightarrow> bytes" where
  "binary_repr_remove_method_args L s =
     lf_binary (lv_string L) (rma_id s)"

definition binary_len_remove_method_args :: "('fr, 'p) leaves \<Rightarrow> remove_method_args \<Rightarrow> nat" where
  "binary_len_remove_method_args L s =
     lf_binary_len (lv_string L) (rma_id s)"

definition field_repr_authorization_state :: "('fr, 'p) leaves \<Rightarrow> authorization_state \<Rightarrow> 'fr list" where
  "field_repr_authorization_state L s =
     field_repr_c_address L (cas_contract_id s) @ lf_write (lv_u64 L) (cas_version s)"

definition field_size_authorization_state :: "('fr, 'p) leaves \<Rightarrow> authorization_state \<Rightarrow> nat" where
  "field_size_authorization_state L s =
     field_size_c_address L (cas_contract_id s) + lf_size (lv_u64 L) (cas_version s)"

definition field_width_authorization_state :: "('fr, 'p) leaves \<Rightarrow> nat" where
  "field_width_authorization_state L =
     field_width_c_address L + lf_width (lv_u64 L)"

definition from_field_repr_authorization_state :: "('fr, 'p) leaves \<Rightarrow> 'fr list \<Rightarrow> authorization_state option" where
  "from_field_repr_authorization_state L r =
    (if length r < field_width_authorization_state L then None else
     Option.bind (from_field_repr_c_address L (slice 0 (field_width_c_address L) r)) (\<lambda>f0.
     let offset1 = field_width_c_address L in
     Option.bind (lf_read (lv_u64 L) (slice offset1 (lf_width (lv_u64 L)) r)) (\<lambda>f1.
     Some \<lparr>cas_contract_id = f0, cas_version = f1\<rparr>)))"

definition binary_repr_authorization_state :: "('fr, 'p) leaves \<Rightarrow> authorization_state \<Rightarrow> bytes" where
  "binary_repr_authorization_state L s =
     binary_repr_c_address L (cas_contract_id s) @ lf_binary (lv_u64 L) (cas_version s)"

definition binary_len_authorization_state :: "('fr, 'p) leaves \<Rightarrow> authorization_state \<Rightarrow> nat" where
  "binary_len_authorization_state L s =
     binary_len_c_address L (cas_contract_id s) + lf_binary_len (lv_u64 L) (cas_version s)"

lemmas enum_codec_defs =
  field_repr_c_vm_type_def field_size_c_vm_type_def field_width_c_vm_type_def
  binary_repr_c_vm_type_def binary_len_c_vm_type_def field_repr_c_relation_def
  field_size_c_relation_def field_width_c_relation_def binary_repr_c_relation_def
  binary_len_c_relation_def field_repr_c_map_mutation_def field_size_c_map_mutation_def
  field_width_c_map_mutation_def binary_repr_c_map_mutation_def binary_len_c_map_mutation_def
  field_repr_c_set_mutation_def field_size_c_set_mutation_def field_width_c_set_mutation_def
  binary_repr_c_set_mutation_def binary_len_c_set_mutation_def field_repr_c_key_type_def
  field_size_c_key_type_def field_width_c_key_type_def binary_repr_c_key_type_def
  binary_len_c_key_type_def field_repr_c_curve_type_def field_size_c_curve_type_def
  field_width_c_curve_type_def binary_repr_c_curve_type_def binary_len_c_curve_type_def

section \<open>Every type is a codec when the leaves are\<close>

definition leaf_ok :: "('fr, 'a) leaf \<Rightarrow> 'a \<Rightarrow> bool" where
  "leaf_ok c v \<longleftrightarrow>
     length (lf_write c v) = lf_width c \<and> lf_size c v = lf_width c \<and>
     lf_read c (lf_write c v) = Some v \<and> lf_binary_len c v = length (lf_binary c v)"

fun atom_ok :: "('fr, 'p) leaves \<Rightarrow> ('fr, 'p) atom \<Rightarrow> bool" where
  "atom_ok L (AtomU8 n) \<longleftrightarrow> leaf_ok (lv_u8 L) (of_nat n)"
| "atom_ok L (AtomU64 n) \<longleftrightarrow> leaf_ok (lv_u64 L) n"
| "atom_ok L (AtomFr x) \<longleftrightarrow> leaf_ok (lv_fr L) x"
| "atom_ok L (AtomBytes32 b) \<longleftrightarrow> leaf_ok (lv_bytes32 L) b"
| "atom_ok L (AtomString s) \<longleftrightarrow> leaf_ok (lv_string L) s"
| "atom_ok L (AtomPoint p) \<longleftrightarrow> leaf_ok (lv_point L) p"

text \<open>The encodings a property speaks of, for the values \<open>ok\<close>.\<close>

definition encodes_exactly ::
  "('a \<Rightarrow> bool) \<Rightarrow> ('a \<Rightarrow> 'fr list) \<Rightarrow> ('a \<Rightarrow> nat) \<Rightarrow> nat \<Rightarrow> ('fr list \<Rightarrow> 'a option) \<Rightarrow> bool" where
  "encodes_exactly ok enc sz w dec \<longleftrightarrow>
     (\<forall>v. ok v \<longrightarrow> length (enc v) = w \<and> sz v = w \<and> dec (enc v) = Some v)"

definition reads_prefix ::
  "('a \<Rightarrow> bool) \<Rightarrow> ('a \<Rightarrow> 'fr list) \<Rightarrow> nat \<Rightarrow> ('fr list \<Rightarrow> 'a option) \<Rightarrow> bool" where
  "reads_prefix ok enc w dec \<longleftrightarrow>
     (\<forall>v rest. ok v \<longrightarrow> dec (enc v @ rest) = Some v) \<and> (\<forall>r. length r < w \<longrightarrow> dec r = None)"

text \<open>
  The contract of \<open>FieldRepr\<close>, \<open>FromFieldRepr\<close> and \<open>BinaryHashRepr\<close> on the values \<open>valid\<close>: an encoding
  has the announced length, and decoding it gives the value back.
\<close>

locale field_codec =
  fixes valid :: "'a \<Rightarrow> bool"
    and enc :: "'a \<Rightarrow> 'fr list"
    and enc_size :: "'a \<Rightarrow> nat"
    and width :: nat
    and dec :: "'fr list \<Rightarrow> 'a option"
    and bin :: "'a \<Rightarrow> bytes"
    and bin_len :: "'a \<Rightarrow> nat"
  assumes enc_length: "valid v \<Longrightarrow> length (enc v) = width"
    and enc_size: "valid v \<Longrightarrow> enc_size v = width"
    and dec_enc: "valid v \<Longrightarrow> dec (enc v) = Some v"
    and bin_length: "valid v \<Longrightarrow> bin_len v = length (bin v)"
begin

lemma slice_skip: "valid v \<Longrightarrow> slice (width + off) n (enc v @ xs) = slice off n xs"
  using slice_append(1) [of "enc v"] by (simp add: enc_length)

lemma slice_next: "valid v \<Longrightarrow> slice width n (enc v @ xs) = slice 0 n xs"
  using slice_skip [of v 0] by simp

lemma slice_here:
  "valid v \<Longrightarrow> slice 0 width (enc v @ xs) = enc v"
  "valid v \<Longrightarrow> slice 0 width (enc v) = enc v"
  using slice_append(2,3) [of "enc v"] by (simp_all add: enc_length)

lemmas codec_simps = enc_length enc_size dec_enc bin_length slice_skip slice_next slice_here

lemma exact: "encodes_exactly valid enc enc_size width dec"
  by (simp add: encodes_exactly_def codec_simps)

lemma enc_inj: "valid v \<Longrightarrow> valid w \<Longrightarrow> enc v = enc w \<longleftrightarrow> v = w"
  by (metis dec_enc option.inject)

end

text \<open>A structure also ignores what follows its encoding, and refuses a slice that is too short.\<close>

locale prefix_codec = field_codec +
  assumes dec_prefix: "valid v \<Longrightarrow> dec (enc v @ rest) = Some v"
    and dec_short: "length r < width \<Longrightarrow> dec r = None"

text \<open>Prefix codecs read streams of values.\<close>

context prefix_codec begin

lemma prefix: "reads_prefix valid enc width dec"
  by (simp add: reads_prefix_def dec_prefix dec_short)

lemma dec_stream: "valid v \<Longrightarrow> dec (concat (map enc (v # vs))) = Some v"
  by (simp add: dec_prefix)

lemma dec_none_iff_short: "valid v \<Longrightarrow> dec (take n (enc v)) = None \<longleftrightarrow> n < width"
  by (cases "n < width") (simp_all add: dec_short enc_length dec_enc)

end

text \<open>Leaves are codecs on their representable values, whatever they are.\<close>

lemma leaf_codec:
  "field_codec (leaf_ok c) (lf_write c) (lf_size c) (lf_width c) (lf_read c) (lf_binary c)
     (lf_binary_len c)"
  by unfold_locales (simp_all add: leaf_ok_def)

locale leaf_laws =
  fixes L :: "('fr, 'p) leaves"
  assumes u8_width: "lf_width (lv_u8 L) = 1"
    and u8_binary_len: "lf_binary_len (lv_u8 L) n = 1"
    and read4: "leaf_ok (lv_fr L) a \<Longrightarrow> leaf_ok (lv_fr L) b \<Longrightarrow> leaf_ok (lv_fr L) c \<Longrightarrow>
      leaf_ok (lv_fr L) d \<Longrightarrow>
      lv_read4 L (lf_write (lv_fr L) a @ lf_write (lv_fr L) b @ lf_write (lv_fr L) c @
        lf_write (lv_fr L) d) (lf_width (lv_fr L)) = Some (a, b, c, d)"

sublocale leaf_laws \<subseteq> byte: field_codec "leaf_ok (lv_u8 L)" "lf_write (lv_u8 L)" "lf_size (lv_u8 L)"
  "lf_width (lv_u8 L)" "lf_read (lv_u8 L)" "lf_binary (lv_u8 L)" "lf_binary_len (lv_u8 L)"
  by (rule leaf_codec)

sublocale leaf_laws \<subseteq> u64: field_codec "leaf_ok (lv_u64 L)" "lf_write (lv_u64 L)"
  "lf_size (lv_u64 L)" "lf_width (lv_u64 L)" "lf_read (lv_u64 L)" "lf_binary (lv_u64 L)"
  "lf_binary_len (lv_u64 L)"
  by (rule leaf_codec)

sublocale leaf_laws \<subseteq> fr: field_codec "leaf_ok (lv_fr L)" "lf_write (lv_fr L)" "lf_size (lv_fr L)"
  "lf_width (lv_fr L)" "lf_read (lv_fr L)" "lf_binary (lv_fr L)" "lf_binary_len (lv_fr L)"
  by (rule leaf_codec)

sublocale leaf_laws \<subseteq> bytes32: field_codec "leaf_ok (lv_bytes32 L)" "lf_write (lv_bytes32 L)"
  "lf_size (lv_bytes32 L)" "lf_width (lv_bytes32 L)" "lf_read (lv_bytes32 L)"
  "lf_binary (lv_bytes32 L)" "lf_binary_len (lv_bytes32 L)"
  by (rule leaf_codec)

sublocale leaf_laws \<subseteq> string: field_codec "leaf_ok (lv_string L)" "lf_write (lv_string L)"
  "lf_size (lv_string L)" "lf_width (lv_string L)" "lf_read (lv_string L)" "lf_binary (lv_string L)"
  "lf_binary_len (lv_string L)"
  by (rule leaf_codec)

sublocale leaf_laws \<subseteq> point: field_codec "leaf_ok (lv_point L)" "lf_write (lv_point L)"
  "lf_size (lv_point L)" "lf_width (lv_point L)" "lf_read (lv_point L)" "lf_binary (lv_point L)"
  "lf_binary_len (lv_point L)"
  by (rule leaf_codec)

text \<open>The slice of an array of four field elements, the last field of its structure.\<close>

context leaf_laws begin

lemma slice4:
  assumes "leaf_ok (lv_fr L) a" "leaf_ok (lv_fr L) b" "leaf_ok (lv_fr L) c" "leaf_ok (lv_fr L) d"
  shows "slice 0 (lf_width (lv_fr L) * 4) (lf_write (lv_fr L) a @ lf_write (lv_fr L) b @
           lf_write (lv_fr L) c @ lf_write (lv_fr L) d @ xs) =
         lf_write (lv_fr L) a @ lf_write (lv_fr L) b @ lf_write (lv_fr L) c @ lf_write (lv_fr L) d"
    and "slice 0 (lf_width (lv_fr L) * 4) (lf_write (lv_fr L) a @ lf_write (lv_fr L) b @
           lf_write (lv_fr L) c @ lf_write (lv_fr L) d) =
         lf_write (lv_fr L) a @ lf_write (lv_fr L) b @ lf_write (lv_fr L) c @ lf_write (lv_fr L) d"
  using assms by (simp_all add: slice_def fr.enc_length)

lemmas fr4_simps = read4 slice4

lemma enum_byte:
  "leaf_ok (lv_u8 L) n \<Longrightarrow> length (lf_write (lv_u8 L) n) = 1"
  "leaf_ok (lv_u8 L) n \<Longrightarrow> lf_read (lv_u8 L) (lf_write (lv_u8 L) n) = Some n"
  "leaf_ok (lv_u8 L) n \<Longrightarrow> length (lf_binary (lv_u8 L) n) = 1"
  using byte.enc_length byte.dec_enc byte.bin_length [of n] by (simp_all add: u8_width u8_binary_len)

end


lemma reads_c_vm_type:
  "from_field_repr_c_vm_type L r = Some v \<longleftrightarrow> lf_read (lv_u8 L) r = Some (of_nat (c_vm_type_u8 v))"
  by (cases "lf_read (lv_u8 L) r"; cases v) (simp_all add: from_field_repr_c_vm_type_def)

sublocale leaf_laws \<subseteq> vm_type: field_codec "\<lambda>v. list_all (atom_ok L) (value_c_vm_type v)"
  "field_repr_c_vm_type L" "field_size_c_vm_type L" "field_width_c_vm_type L"
  "from_field_repr_c_vm_type L" "binary_repr_c_vm_type L" "binary_len_c_vm_type L"
  by unfold_locales
    (simp_all add: enum_codec_defs enum_byte reads_c_vm_type value_c_vm_type_def)

lemma reads_c_relation:
  "from_field_repr_c_relation L r = Some v \<longleftrightarrow> lf_read (lv_u8 L) r = Some (of_nat (c_relation_u8 v))"
  by (cases "lf_read (lv_u8 L) r"; cases v) (simp_all add: from_field_repr_c_relation_def)

sublocale leaf_laws \<subseteq> relation: field_codec "\<lambda>v. list_all (atom_ok L) (value_c_relation v)"
  "field_repr_c_relation L" "field_size_c_relation L" "field_width_c_relation L"
  "from_field_repr_c_relation L" "binary_repr_c_relation L" "binary_len_c_relation L"
  by unfold_locales
    (simp_all add: enum_codec_defs enum_byte reads_c_relation value_c_relation_def)

lemma reads_c_map_mutation:
  "from_field_repr_c_map_mutation L r = Some v \<longleftrightarrow> lf_read (lv_u8 L) r = Some (of_nat (c_map_mutation_u8 v))"
  by (cases "lf_read (lv_u8 L) r"; cases v) (simp_all add: from_field_repr_c_map_mutation_def)

sublocale leaf_laws \<subseteq> map_mutation: field_codec "\<lambda>v. list_all (atom_ok L) (value_c_map_mutation v)"
  "field_repr_c_map_mutation L" "field_size_c_map_mutation L" "field_width_c_map_mutation L"
  "from_field_repr_c_map_mutation L" "binary_repr_c_map_mutation L" "binary_len_c_map_mutation L"
  by unfold_locales
    (simp_all add: enum_codec_defs enum_byte reads_c_map_mutation value_c_map_mutation_def)

lemma reads_c_set_mutation:
  "from_field_repr_c_set_mutation L r = Some v \<longleftrightarrow> lf_read (lv_u8 L) r = Some (of_nat (c_set_mutation_u8 v))"
  by (cases "lf_read (lv_u8 L) r"; cases v) (simp_all add: from_field_repr_c_set_mutation_def)

sublocale leaf_laws \<subseteq> set_mutation: field_codec "\<lambda>v. list_all (atom_ok L) (value_c_set_mutation v)"
  "field_repr_c_set_mutation L" "field_size_c_set_mutation L" "field_width_c_set_mutation L"
  "from_field_repr_c_set_mutation L" "binary_repr_c_set_mutation L" "binary_len_c_set_mutation L"
  by unfold_locales
    (simp_all add: enum_codec_defs enum_byte reads_c_set_mutation value_c_set_mutation_def)

lemma reads_c_key_type:
  "from_field_repr_c_key_type L r = Some v \<longleftrightarrow> lf_read (lv_u8 L) r = Some (of_nat (c_key_type_u8 v))"
  by (cases "lf_read (lv_u8 L) r"; cases v) (simp_all add: from_field_repr_c_key_type_def)

sublocale leaf_laws \<subseteq> key_type: field_codec "\<lambda>v. list_all (atom_ok L) (value_c_key_type v)"
  "field_repr_c_key_type L" "field_size_c_key_type L" "field_width_c_key_type L"
  "from_field_repr_c_key_type L" "binary_repr_c_key_type L" "binary_len_c_key_type L"
  by unfold_locales
    (simp_all add: enum_codec_defs enum_byte reads_c_key_type value_c_key_type_def)

lemma reads_c_curve_type:
  "from_field_repr_c_curve_type L r = Some v \<longleftrightarrow> lf_read (lv_u8 L) r = Some (of_nat (c_curve_type_u8 v))"
  by (cases "lf_read (lv_u8 L) r"; cases v) (simp_all add: from_field_repr_c_curve_type_def)

sublocale leaf_laws \<subseteq> curve_type: field_codec "\<lambda>v. list_all (atom_ok L) (value_c_curve_type v)"
  "field_repr_c_curve_type L" "field_size_c_curve_type L" "field_width_c_curve_type L"
  "from_field_repr_c_curve_type L" "binary_repr_c_curve_type L" "binary_len_c_curve_type L"
  by unfold_locales
    (simp_all add: enum_codec_defs enum_byte reads_c_curve_type value_c_curve_type_def)

sublocale leaf_laws \<subseteq> public_key_jwk: prefix_codec "\<lambda>v. list_all (atom_ok L) (value_c_public_key_jwk v)"
  "field_repr_c_public_key_jwk L" "field_size_c_public_key_jwk L"
  "field_width_c_public_key_jwk L" "from_field_repr_c_public_key_jwk L"
  "binary_repr_c_public_key_jwk L" "binary_len_c_public_key_jwk L"
  by unfold_locales
    (simp_all add: field_repr_c_public_key_jwk_def field_size_c_public_key_jwk_def
      field_width_c_public_key_jwk_def from_field_repr_c_public_key_jwk_def
      binary_repr_c_public_key_jwk_def binary_len_c_public_key_jwk_def value_c_public_key_jwk_def
      key_type.codec_simps curve_type.codec_simps string.codec_simps add.assoc Let_def)

sublocale leaf_laws \<subseteq> verification_method: prefix_codec "\<lambda>v. list_all (atom_ok L) (value_c_verification_method v)"
  "field_repr_c_verification_method L" "field_size_c_verification_method L"
  "field_width_c_verification_method L" "from_field_repr_c_verification_method L"
  "binary_repr_c_verification_method L" "binary_len_c_verification_method L"
  by unfold_locales
    (simp_all add: field_repr_c_verification_method_def field_size_c_verification_method_def
      field_width_c_verification_method_def from_field_repr_c_verification_method_def
      binary_repr_c_verification_method_def binary_len_c_verification_method_def
      value_c_verification_method_def string.codec_simps vm_type.codec_simps
      public_key_jwk.codec_simps add.assoc Let_def)

sublocale leaf_laws \<subseteq> schnorr_method: prefix_codec "\<lambda>v. list_all (atom_ok L) (value_c_schnorr_method v)"
  "field_repr_c_schnorr_method L" "field_size_c_schnorr_method L"
  "field_width_c_schnorr_method L" "from_field_repr_c_schnorr_method L"
  "binary_repr_c_schnorr_method L" "binary_len_c_schnorr_method L"
  by unfold_locales
    (simp_all add: field_repr_c_schnorr_method_def field_size_c_schnorr_method_def
      field_width_c_schnorr_method_def from_field_repr_c_schnorr_method_def
      binary_repr_c_schnorr_method_def binary_len_c_schnorr_method_def value_c_schnorr_method_def
      string.codec_simps point.codec_simps add.assoc Let_def)

sublocale leaf_laws \<subseteq> service: prefix_codec "\<lambda>v. list_all (atom_ok L) (value_c_service v)"
  "field_repr_c_service L" "field_size_c_service L" "field_width_c_service L"
  "from_field_repr_c_service L" "binary_repr_c_service L" "binary_len_c_service L"
  by unfold_locales
    (simp_all add: field_repr_c_service_def field_size_c_service_def field_width_c_service_def
      from_field_repr_c_service_def binary_repr_c_service_def binary_len_c_service_def
      value_c_service_def string.codec_simps add.assoc Let_def)

sublocale leaf_laws \<subseteq> recover_controller_key_args: prefix_codec "\<lambda>v. list_all (atom_ok L) (value_recover_controller_key_args v)"
  "field_repr_recover_controller_key_args L" "field_size_recover_controller_key_args L"
  "field_width_recover_controller_key_args L" "from_field_repr_recover_controller_key_args L"
  "binary_repr_recover_controller_key_args L" "binary_len_recover_controller_key_args L"
  by unfold_locales
    (simp_all add: field_repr_recover_controller_key_args_def field_size_recover_controller_key_args_def
      field_width_recover_controller_key_args_def from_field_repr_recover_controller_key_args_def
      binary_repr_recover_controller_key_args_def binary_len_recover_controller_key_args_def
      value_recover_controller_key_args_def fr.codec_simps add.assoc Let_def)

sublocale leaf_laws \<subseteq> set_schnorr_method_args: prefix_codec "\<lambda>v. list_all (atom_ok L) (value_set_schnorr_method_args v)"
  "field_repr_set_schnorr_method_args L" "field_size_set_schnorr_method_args L"
  "field_width_set_schnorr_method_args L" "from_field_repr_set_schnorr_method_args L"
  "binary_repr_set_schnorr_method_args L" "binary_len_set_schnorr_method_args L"
  by unfold_locales
    (simp_all add: field_repr_set_schnorr_method_args_def field_size_set_schnorr_method_args_def
      field_width_set_schnorr_method_args_def from_field_repr_set_schnorr_method_args_def
      binary_repr_set_schnorr_method_args_def binary_len_set_schnorr_method_args_def
      value_set_schnorr_method_args_def string.codec_simps fr.codec_simps
      map_mutation.codec_simps add.assoc Let_def)

sublocale leaf_laws \<subseteq> set_service_args: prefix_codec "\<lambda>v. list_all (atom_ok L) (value_set_service_args v)"
  "field_repr_set_service_args L" "field_size_set_service_args L"
  "field_width_set_service_args L" "from_field_repr_set_service_args L"
  "binary_repr_set_service_args L" "binary_len_set_service_args L"
  by unfold_locales
    (simp_all add: field_repr_set_service_args_def field_size_set_service_args_def
      field_width_set_service_args_def from_field_repr_set_service_args_def
      binary_repr_set_service_args_def binary_len_set_service_args_def value_set_service_args_def
      service.codec_simps map_mutation.codec_simps add.assoc Let_def)

sublocale leaf_laws \<subseteq> address: prefix_codec "\<lambda>v. list_all (atom_ok L) (value_c_address v)"
  "field_repr_c_address L" "field_size_c_address L" "field_width_c_address L"
  "from_field_repr_c_address L" "binary_repr_c_address L" "binary_len_c_address L"
  by unfold_locales
    (simp_all add: field_repr_c_address_def field_size_c_address_def field_width_c_address_def
      from_field_repr_c_address_def binary_repr_c_address_def binary_len_c_address_def
      value_c_address_def bytes32.codec_simps add.assoc Let_def)

sublocale leaf_laws \<subseteq> remove_service_args: prefix_codec "\<lambda>v. list_all (atom_ok L) (value_remove_service_args v)"
  "field_repr_remove_service_args L" "field_size_remove_service_args L"
  "field_width_remove_service_args L" "from_field_repr_remove_service_args L"
  "binary_repr_remove_service_args L" "binary_len_remove_service_args L"
  by unfold_locales
    (simp_all add: field_repr_remove_service_args_def field_size_remove_service_args_def
      field_width_remove_service_args_def from_field_repr_remove_service_args_def
      binary_repr_remove_service_args_def binary_len_remove_service_args_def
      value_remove_service_args_def string.codec_simps add.assoc Let_def)

sublocale leaf_laws \<subseteq> remove_schnorr_method_args: prefix_codec "\<lambda>v. list_all (atom_ok L) (value_remove_schnorr_method_args v)"
  "field_repr_remove_schnorr_method_args L" "field_size_remove_schnorr_method_args L"
  "field_width_remove_schnorr_method_args L" "from_field_repr_remove_schnorr_method_args L"
  "binary_repr_remove_schnorr_method_args L" "binary_len_remove_schnorr_method_args L"
  by unfold_locales
    (simp_all add: field_repr_remove_schnorr_method_args_def field_size_remove_schnorr_method_args_def
      field_width_remove_schnorr_method_args_def from_field_repr_remove_schnorr_method_args_def
      binary_repr_remove_schnorr_method_args_def binary_len_remove_schnorr_method_args_def
      value_remove_schnorr_method_args_def string.codec_simps add.assoc Let_def)

sublocale leaf_laws \<subseteq> authorization_domain: prefix_codec "\<lambda>v. list_all (atom_ok L) (value_authorization_domain v)"
  "field_repr_authorization_domain L" "field_size_authorization_domain L"
  "field_width_authorization_domain L" "from_field_repr_authorization_domain L"
  "binary_repr_authorization_domain L" "binary_len_authorization_domain L"
  by unfold_locales
    (simp_all add: field_repr_authorization_domain_def field_size_authorization_domain_def
      field_width_authorization_domain_def from_field_repr_authorization_domain_def
      binary_repr_authorization_domain_def binary_len_authorization_domain_def
      value_authorization_domain_def bytes32.codec_simps add.assoc Let_def)

sublocale leaf_laws \<subseteq> rotate_controller_key_args: prefix_codec "\<lambda>v. list_all (atom_ok L) (value_rotate_controller_key_args v)"
  "field_repr_rotate_controller_key_args L" "field_size_rotate_controller_key_args L"
  "field_width_rotate_controller_key_args L" "from_field_repr_rotate_controller_key_args L"
  "binary_repr_rotate_controller_key_args L" "binary_len_rotate_controller_key_args L"
  by unfold_locales
    (simp_all add: field_repr_rotate_controller_key_args_def field_size_rotate_controller_key_args_def
      field_width_rotate_controller_key_args_def from_field_repr_rotate_controller_key_args_def
      binary_repr_rotate_controller_key_args_def binary_len_rotate_controller_key_args_def
      value_rotate_controller_key_args_def fr.codec_simps add.assoc Let_def)

sublocale leaf_laws \<subseteq> schnorr_hash_input: prefix_codec "\<lambda>v. list_all (atom_ok L) (value_schnorr_hash_input v)"
  "field_repr_schnorr_hash_input L" "field_size_schnorr_hash_input L"
  "field_width_schnorr_hash_input L" "from_field_repr_schnorr_hash_input L"
  "binary_repr_schnorr_hash_input L" "binary_len_schnorr_hash_input L"
  by unfold_locales
    (simp_all add: field_repr_schnorr_hash_input_def field_size_schnorr_hash_input_def
      field_width_schnorr_hash_input_def from_field_repr_schnorr_hash_input_def
      binary_repr_schnorr_hash_input_def binary_len_schnorr_hash_input_def
      value_schnorr_hash_input_def fr.codec_simps fr4_simps add.assoc Let_def split: prod.splits)

sublocale leaf_laws \<subseteq> authorization_operation: prefix_codec "\<lambda>v. list_all (atom_ok L) (value_authorization_operation v)"
  "field_repr_authorization_operation L" "field_size_authorization_operation L"
  "field_width_authorization_operation L" "from_field_repr_authorization_operation L"
  "binary_repr_authorization_operation L" "binary_len_authorization_operation L"
  by unfold_locales
    (simp_all add: field_repr_authorization_operation_def field_size_authorization_operation_def
      field_width_authorization_operation_def from_field_repr_authorization_operation_def
      binary_repr_authorization_operation_def binary_len_authorization_operation_def
      value_authorization_operation_def bytes32.codec_simps add.assoc Let_def)

sublocale leaf_laws \<subseteq> authorization_no_args: prefix_codec "\<lambda>v. list_all (atom_ok L) (value_authorization_no_args v)"
  "field_repr_authorization_no_args L" "field_size_authorization_no_args L"
  "field_width_authorization_no_args L" "from_field_repr_authorization_no_args L"
  "binary_repr_authorization_no_args L" "binary_len_authorization_no_args L"
  by unfold_locales
    (simp_all add: field_repr_authorization_no_args_def field_size_authorization_no_args_def
      field_width_authorization_no_args_def from_field_repr_authorization_no_args_def
      binary_repr_authorization_no_args_def binary_len_authorization_no_args_def
      value_authorization_no_args_def bytes32.codec_simps add.assoc Let_def)

sublocale leaf_laws \<subseteq> set_relation_args: prefix_codec "\<lambda>v. list_all (atom_ok L) (value_set_relation_args v)"
  "field_repr_set_relation_args L" "field_size_set_relation_args L"
  "field_width_set_relation_args L" "from_field_repr_set_relation_args L"
  "binary_repr_set_relation_args L" "binary_len_set_relation_args L"
  by unfold_locales
    (simp_all add: field_repr_set_relation_args_def field_size_set_relation_args_def
      field_width_set_relation_args_def from_field_repr_set_relation_args_def
      binary_repr_set_relation_args_def binary_len_set_relation_args_def
      value_set_relation_args_def relation.codec_simps string.codec_simps
      set_mutation.codec_simps add.assoc Let_def)

sublocale leaf_laws \<subseteq> set_method_args: prefix_codec "\<lambda>v. list_all (atom_ok L) (value_set_method_args v)"
  "field_repr_set_method_args L" "field_size_set_method_args L" "field_width_set_method_args L"
  "from_field_repr_set_method_args L" "binary_repr_set_method_args L"
  "binary_len_set_method_args L"
  by unfold_locales
    (simp_all add: field_repr_set_method_args_def field_size_set_method_args_def
      field_width_set_method_args_def from_field_repr_set_method_args_def
      binary_repr_set_method_args_def binary_len_set_method_args_def value_set_method_args_def
      verification_method.codec_simps map_mutation.codec_simps add.assoc Let_def)

sublocale leaf_laws \<subseteq> set_also_known_as_args: prefix_codec "\<lambda>v. list_all (atom_ok L) (value_set_also_known_as_args v)"
  "field_repr_set_also_known_as_args L" "field_size_set_also_known_as_args L"
  "field_width_set_also_known_as_args L" "from_field_repr_set_also_known_as_args L"
  "binary_repr_set_also_known_as_args L" "binary_len_set_also_known_as_args L"
  by unfold_locales
    (simp_all add: field_repr_set_also_known_as_args_def field_size_set_also_known_as_args_def
      field_width_set_also_known_as_args_def from_field_repr_set_also_known_as_args_def
      binary_repr_set_also_known_as_args_def binary_len_set_also_known_as_args_def
      value_set_also_known_as_args_def string.codec_simps set_mutation.codec_simps add.assoc
      Let_def)

sublocale leaf_laws \<subseteq> remove_method_args: prefix_codec "\<lambda>v. list_all (atom_ok L) (value_remove_method_args v)"
  "field_repr_remove_method_args L" "field_size_remove_method_args L"
  "field_width_remove_method_args L" "from_field_repr_remove_method_args L"
  "binary_repr_remove_method_args L" "binary_len_remove_method_args L"
  by unfold_locales
    (simp_all add: field_repr_remove_method_args_def field_size_remove_method_args_def
      field_width_remove_method_args_def from_field_repr_remove_method_args_def
      binary_repr_remove_method_args_def binary_len_remove_method_args_def
      value_remove_method_args_def string.codec_simps add.assoc Let_def)

sublocale leaf_laws \<subseteq> authorization_state: prefix_codec "\<lambda>v. list_all (atom_ok L) (value_authorization_state v)"
  "field_repr_authorization_state L" "field_size_authorization_state L"
  "field_width_authorization_state L" "from_field_repr_authorization_state L"
  "binary_repr_authorization_state L" "binary_len_authorization_state L"
  by unfold_locales
    (simp_all add: field_repr_authorization_state_def field_size_authorization_state_def
      field_width_authorization_state_def from_field_repr_authorization_state_def
      binary_repr_authorization_state_def binary_len_authorization_state_def
      value_authorization_state_def address.codec_simps u64.codec_simps add.assoc Let_def)

lemmas generated_reads =
  reads_c_vm_type reads_c_relation reads_c_map_mutation reads_c_set_mutation reads_c_key_type
  reads_c_curve_type

context leaf_laws begin

lemmas generated_exact =
  vm_type.exact relation.exact map_mutation.exact set_mutation.exact key_type.exact
  curve_type.exact public_key_jwk.exact verification_method.exact schnorr_method.exact
  service.exact recover_controller_key_args.exact set_schnorr_method_args.exact
  set_service_args.exact address.exact remove_service_args.exact remove_schnorr_method_args.exact
  authorization_domain.exact rotate_controller_key_args.exact schnorr_hash_input.exact
  authorization_operation.exact authorization_no_args.exact set_relation_args.exact
  set_method_args.exact set_also_known_as_args.exact remove_method_args.exact
  authorization_state.exact

lemmas generated_prefix =
  public_key_jwk.prefix verification_method.prefix schnorr_method.prefix service.prefix
  recover_controller_key_args.prefix set_schnorr_method_args.prefix set_service_args.prefix
  address.prefix remove_service_args.prefix remove_schnorr_method_args.prefix
  authorization_domain.prefix rotate_controller_key_args.prefix schnorr_hash_input.prefix
  authorization_operation.prefix authorization_no_args.prefix set_relation_args.prefix
  set_method_args.prefix set_also_known_as_args.prefix remove_method_args.prefix
  authorization_state.prefix

end

section \<open>The value, the field elements and the bytes are one traversal\<close>

text \<open>
  Three impls traverse a type on their own: \<open>From<T> for Value\<close>, \<open>FieldRepr\<close> and \<open>BinaryHashRepr\<close>.
  They agree when the last two are the first with each atom written by its leaf.
\<close>

fun atom_write :: "('fr, 'p) leaves \<Rightarrow> ('fr, 'p) atom \<Rightarrow> 'fr list" where
  "atom_write L (AtomU8 n) = lf_write (lv_u8 L) (of_nat n)"
| "atom_write L (AtomU64 n) = lf_write (lv_u64 L) n"
| "atom_write L (AtomFr x) = lf_write (lv_fr L) x"
| "atom_write L (AtomBytes32 b) = lf_write (lv_bytes32 L) b"
| "atom_write L (AtomString s) = lf_write (lv_string L) s"
| "atom_write L (AtomPoint p) = lf_write (lv_point L) p"

fun atom_bytes :: "('fr, 'p) leaves \<Rightarrow> ('fr, 'p) atom \<Rightarrow> bytes" where
  "atom_bytes L (AtomU8 n) = lf_binary (lv_u8 L) (of_nat n)"
| "atom_bytes L (AtomU64 n) = lf_binary (lv_u64 L) n"
| "atom_bytes L (AtomFr x) = lf_binary (lv_fr L) x"
| "atom_bytes L (AtomBytes32 b) = lf_binary (lv_bytes32 L) b"
| "atom_bytes L (AtomString s) = lf_binary (lv_string L) s"
| "atom_bytes L (AtomPoint p) = lf_binary (lv_point L) p"

definition traverses ::
  "('fr, 'p) leaves \<Rightarrow> ('fr, 'p) atom list \<Rightarrow> 'fr list \<Rightarrow> bytes \<Rightarrow> bool" where
  "traverses L atoms elements bs \<longleftrightarrow>
     elements = concat (map (atom_write L) atoms) \<and> bs = concat (map (atom_bytes L) atoms)"

lemma traverses_c_vm_type: "traverses L (value_c_vm_type v) (field_repr_c_vm_type L v) (binary_repr_c_vm_type L v)"
  by (simp add: traverses_def field_repr_c_vm_type_def binary_repr_c_vm_type_def value_c_vm_type_def)

lemma traverses_c_relation: "traverses L (value_c_relation v) (field_repr_c_relation L v) (binary_repr_c_relation L v)"
  by (simp add: traverses_def field_repr_c_relation_def binary_repr_c_relation_def value_c_relation_def)

lemma traverses_c_map_mutation: "traverses L (value_c_map_mutation v) (field_repr_c_map_mutation L v) (binary_repr_c_map_mutation L v)"
  by (simp add: traverses_def field_repr_c_map_mutation_def binary_repr_c_map_mutation_def value_c_map_mutation_def)

lemma traverses_c_set_mutation: "traverses L (value_c_set_mutation v) (field_repr_c_set_mutation L v) (binary_repr_c_set_mutation L v)"
  by (simp add: traverses_def field_repr_c_set_mutation_def binary_repr_c_set_mutation_def value_c_set_mutation_def)

lemma traverses_c_key_type: "traverses L (value_c_key_type v) (field_repr_c_key_type L v) (binary_repr_c_key_type L v)"
  by (simp add: traverses_def field_repr_c_key_type_def binary_repr_c_key_type_def value_c_key_type_def)

lemma traverses_c_curve_type: "traverses L (value_c_curve_type v) (field_repr_c_curve_type L v) (binary_repr_c_curve_type L v)"
  by (simp add: traverses_def field_repr_c_curve_type_def binary_repr_c_curve_type_def value_c_curve_type_def)

lemma traverses_c_public_key_jwk: "traverses L (value_c_public_key_jwk v) (field_repr_c_public_key_jwk L v) (binary_repr_c_public_key_jwk L v)"
  using traverses_c_key_type [of L] traverses_c_curve_type [of L]
  by (simp add: traverses_def field_repr_c_public_key_jwk_def binary_repr_c_public_key_jwk_def value_c_public_key_jwk_def)

lemma traverses_c_verification_method: "traverses L (value_c_verification_method v) (field_repr_c_verification_method L v) (binary_repr_c_verification_method L v)"
  using traverses_c_vm_type [of L] traverses_c_public_key_jwk [of L]
  by (simp add: traverses_def field_repr_c_verification_method_def binary_repr_c_verification_method_def value_c_verification_method_def)

lemma traverses_c_schnorr_method: "traverses L (value_c_schnorr_method v) (field_repr_c_schnorr_method L v) (binary_repr_c_schnorr_method L v)"
  by (simp add: traverses_def field_repr_c_schnorr_method_def binary_repr_c_schnorr_method_def value_c_schnorr_method_def)

lemma traverses_c_service: "traverses L (value_c_service v) (field_repr_c_service L v) (binary_repr_c_service L v)"
  by (simp add: traverses_def field_repr_c_service_def binary_repr_c_service_def value_c_service_def)

lemma traverses_recover_controller_key_args: "traverses L (value_recover_controller_key_args v) (field_repr_recover_controller_key_args L v) (binary_repr_recover_controller_key_args L v)"
  by (simp add: traverses_def field_repr_recover_controller_key_args_def binary_repr_recover_controller_key_args_def value_recover_controller_key_args_def)

lemma traverses_set_schnorr_method_args: "traverses L (value_set_schnorr_method_args v) (field_repr_set_schnorr_method_args L v) (binary_repr_set_schnorr_method_args L v)"
  using traverses_c_map_mutation [of L]
  by (simp add: traverses_def field_repr_set_schnorr_method_args_def binary_repr_set_schnorr_method_args_def value_set_schnorr_method_args_def)

lemma traverses_set_service_args: "traverses L (value_set_service_args v) (field_repr_set_service_args L v) (binary_repr_set_service_args L v)"
  using traverses_c_service [of L] traverses_c_map_mutation [of L]
  by (simp add: traverses_def field_repr_set_service_args_def binary_repr_set_service_args_def value_set_service_args_def)

lemma traverses_c_address: "traverses L (value_c_address v) (field_repr_c_address L v) (binary_repr_c_address L v)"
  by (simp add: traverses_def field_repr_c_address_def binary_repr_c_address_def value_c_address_def)

lemma traverses_remove_service_args: "traverses L (value_remove_service_args v) (field_repr_remove_service_args L v) (binary_repr_remove_service_args L v)"
  by (simp add: traverses_def field_repr_remove_service_args_def binary_repr_remove_service_args_def value_remove_service_args_def)

lemma traverses_remove_schnorr_method_args: "traverses L (value_remove_schnorr_method_args v) (field_repr_remove_schnorr_method_args L v) (binary_repr_remove_schnorr_method_args L v)"
  by (simp add: traverses_def field_repr_remove_schnorr_method_args_def binary_repr_remove_schnorr_method_args_def value_remove_schnorr_method_args_def)

lemma traverses_authorization_domain: "traverses L (value_authorization_domain v) (field_repr_authorization_domain L v) (binary_repr_authorization_domain L v)"
  by (simp add: traverses_def field_repr_authorization_domain_def binary_repr_authorization_domain_def value_authorization_domain_def)

lemma traverses_rotate_controller_key_args: "traverses L (value_rotate_controller_key_args v) (field_repr_rotate_controller_key_args L v) (binary_repr_rotate_controller_key_args L v)"
  by (simp add: traverses_def field_repr_rotate_controller_key_args_def binary_repr_rotate_controller_key_args_def value_rotate_controller_key_args_def)

lemma traverses_schnorr_hash_input: "traverses L (value_schnorr_hash_input v) (field_repr_schnorr_hash_input L v) (binary_repr_schnorr_hash_input L v)"
  by (simp add: traverses_def field_repr_schnorr_hash_input_def binary_repr_schnorr_hash_input_def value_schnorr_hash_input_def split: prod.split)

lemma traverses_authorization_operation: "traverses L (value_authorization_operation v) (field_repr_authorization_operation L v) (binary_repr_authorization_operation L v)"
  by (simp add: traverses_def field_repr_authorization_operation_def binary_repr_authorization_operation_def value_authorization_operation_def)

lemma traverses_authorization_no_args: "traverses L (value_authorization_no_args v) (field_repr_authorization_no_args L v) (binary_repr_authorization_no_args L v)"
  by (simp add: traverses_def field_repr_authorization_no_args_def binary_repr_authorization_no_args_def value_authorization_no_args_def)

lemma traverses_set_relation_args: "traverses L (value_set_relation_args v) (field_repr_set_relation_args L v) (binary_repr_set_relation_args L v)"
  using traverses_c_relation [of L] traverses_c_set_mutation [of L]
  by (simp add: traverses_def field_repr_set_relation_args_def binary_repr_set_relation_args_def value_set_relation_args_def)

lemma traverses_set_method_args: "traverses L (value_set_method_args v) (field_repr_set_method_args L v) (binary_repr_set_method_args L v)"
  using traverses_c_verification_method [of L] traverses_c_map_mutation [of L]
  by (simp add: traverses_def field_repr_set_method_args_def binary_repr_set_method_args_def value_set_method_args_def)

lemma traverses_set_also_known_as_args: "traverses L (value_set_also_known_as_args v) (field_repr_set_also_known_as_args L v) (binary_repr_set_also_known_as_args L v)"
  using traverses_c_set_mutation [of L]
  by (simp add: traverses_def field_repr_set_also_known_as_args_def binary_repr_set_also_known_as_args_def value_set_also_known_as_args_def)

lemma traverses_remove_method_args: "traverses L (value_remove_method_args v) (field_repr_remove_method_args L v) (binary_repr_remove_method_args L v)"
  by (simp add: traverses_def field_repr_remove_method_args_def binary_repr_remove_method_args_def value_remove_method_args_def)

lemma traverses_authorization_state: "traverses L (value_authorization_state v) (field_repr_authorization_state L v) (binary_repr_authorization_state L v)"
  using traverses_c_address [of L]
  by (simp add: traverses_def field_repr_authorization_state_def binary_repr_authorization_state_def value_authorization_state_def)


section \<open>Reference leaves\<close>

text \<open>
  An instance of the parameters, on which the laws are checked: a field element is the list of its
  bytes, at most 31 of them, so an address takes two elements and a string has one.
\<close>

definition bytes_leaf :: "('a \<Rightarrow> bytes list) \<Rightarrow> nat \<Rightarrow> (bytes list \<Rightarrow> 'a option) \<Rightarrow> (bytes, 'a) leaf" where
  "bytes_leaf wr n rd =
     \<lparr>lf_write = wr, lf_size = (\<lambda>v. length (wr v)), lf_width = n,
      lf_read = (\<lambda>r. if length r = n \<and> list_all (\<lambda>e. length e \<le> 31) r then rd r else None),
      lf_binary = (\<lambda>v. concat (wr v)), lf_binary_len = (\<lambda>v. length (concat (wr v)))\<rparr>"

definition reference_leaves :: "(bytes, bytes \<times> bytes) leaves" where
  "reference_leaves =
     \<lparr>lv_u8 = bytes_leaf (\<lambda>n. [[n]]) 1 (\<lambda>r. case r of [[n]] \<Rightarrow> Some n | _ \<Rightarrow> None)
        \<lparr>lf_binary_len := (\<lambda>_. 1)\<rparr>,
      lv_u64 = bytes_leaf (\<lambda>n. [map (\<lambda>i. ucast (drop_bit (8 * i) n)) [0..<8]]) 1
        (\<lambda>r. Some (foldr (\<lambda>b n. ucast b + 256 * n) (hd r) 0)),
      lv_fr = bytes_leaf (\<lambda>x. [x]) 1 (\<lambda>r. Some (hd r)),
      lv_bytes32 = bytes_leaf (\<lambda>b. [take 31 b, drop 31 b]) 2 (\<lambda>r. Some (concat r)),
      lv_string = bytes_leaf (\<lambda>s. [map (\<lambda>c. of_nat (of_char c)) s]) 1 (\<lambda>r. Some (map (\<lambda>b. char_of (unat b)) (hd r))),
      lv_point = bytes_leaf (\<lambda>(x, y). [x, y]) 2 (\<lambda>r. Some (hd r, hd (tl r))),
      lv_read4 = (\<lambda>r n. case r of [a, b, c, d] \<Rightarrow> Some (a, b, c, d) | _ \<Rightarrow> None)\<rparr>"

lemma reference_string_ok: "length s \<le> 31 \<Longrightarrow> leaf_ok (lv_string reference_leaves) s"
proof -
  have "char_of (unat (of_nat (of_char c) :: u8)) = c" for c :: char
    by (simp add: unat_of_nat of_char_mod_256 del: of_nat_of_char)
  then show "length s \<le> 31 \<Longrightarrow> leaf_ok (lv_string reference_leaves) s"
    by (simp add: leaf_ok_def reference_leaves_def bytes_leaf_def comp_def del: of_nat_of_char)
qed

interpretation reference: leaf_laws reference_leaves
  by unfold_locales (simp_all add: reference_leaves_def bytes_leaf_def)

section \<open>Properties\<close>

text \<open>
  C25. Every one of the 26 generated types is encoded without loss beyond its leaves: for a value whose
  leaves are representable, the encoding has exactly \<open>FIELD_SIZE\<close> elements, \<open>field_size\<close> announces that
  number, and \<open>from_field_repr\<close> gives the value back.
\<close>

theorem generated_types_encode_exactly:
  assumes "leaf_laws L"
  shows
    "encodes_exactly (\<lambda>v. list_all (atom_ok L) (value_c_vm_type v)) (field_repr_c_vm_type L)
        (field_size_c_vm_type L) (field_width_c_vm_type L) (from_field_repr_c_vm_type L)
   \<and> encodes_exactly (\<lambda>v. list_all (atom_ok L) (value_c_relation v)) (field_repr_c_relation L)
        (field_size_c_relation L) (field_width_c_relation L) (from_field_repr_c_relation L)
   \<and> encodes_exactly (\<lambda>v. list_all (atom_ok L) (value_c_map_mutation v)) (field_repr_c_map_mutation L)
        (field_size_c_map_mutation L) (field_width_c_map_mutation L) (from_field_repr_c_map_mutation L)
   \<and> encodes_exactly (\<lambda>v. list_all (atom_ok L) (value_c_set_mutation v)) (field_repr_c_set_mutation L)
        (field_size_c_set_mutation L) (field_width_c_set_mutation L) (from_field_repr_c_set_mutation L)
   \<and> encodes_exactly (\<lambda>v. list_all (atom_ok L) (value_c_key_type v)) (field_repr_c_key_type L)
        (field_size_c_key_type L) (field_width_c_key_type L) (from_field_repr_c_key_type L)
   \<and> encodes_exactly (\<lambda>v. list_all (atom_ok L) (value_c_curve_type v)) (field_repr_c_curve_type L)
        (field_size_c_curve_type L) (field_width_c_curve_type L) (from_field_repr_c_curve_type L)
   \<and> encodes_exactly (\<lambda>v. list_all (atom_ok L) (value_c_public_key_jwk v)) (field_repr_c_public_key_jwk L)
        (field_size_c_public_key_jwk L) (field_width_c_public_key_jwk L) (from_field_repr_c_public_key_jwk L)
   \<and> encodes_exactly (\<lambda>v. list_all (atom_ok L) (value_c_verification_method v)) (field_repr_c_verification_method L)
        (field_size_c_verification_method L) (field_width_c_verification_method L) (from_field_repr_c_verification_method L)
   \<and> encodes_exactly (\<lambda>v. list_all (atom_ok L) (value_c_schnorr_method v)) (field_repr_c_schnorr_method L)
        (field_size_c_schnorr_method L) (field_width_c_schnorr_method L) (from_field_repr_c_schnorr_method L)
   \<and> encodes_exactly (\<lambda>v. list_all (atom_ok L) (value_c_service v)) (field_repr_c_service L)
        (field_size_c_service L) (field_width_c_service L) (from_field_repr_c_service L)
   \<and> encodes_exactly (\<lambda>v. list_all (atom_ok L) (value_recover_controller_key_args v)) (field_repr_recover_controller_key_args L)
        (field_size_recover_controller_key_args L) (field_width_recover_controller_key_args L) (from_field_repr_recover_controller_key_args L)
   \<and> encodes_exactly (\<lambda>v. list_all (atom_ok L) (value_set_schnorr_method_args v)) (field_repr_set_schnorr_method_args L)
        (field_size_set_schnorr_method_args L) (field_width_set_schnorr_method_args L) (from_field_repr_set_schnorr_method_args L)
   \<and> encodes_exactly (\<lambda>v. list_all (atom_ok L) (value_set_service_args v)) (field_repr_set_service_args L)
        (field_size_set_service_args L) (field_width_set_service_args L) (from_field_repr_set_service_args L)
   \<and> encodes_exactly (\<lambda>v. list_all (atom_ok L) (value_c_address v)) (field_repr_c_address L)
        (field_size_c_address L) (field_width_c_address L) (from_field_repr_c_address L)
   \<and> encodes_exactly (\<lambda>v. list_all (atom_ok L) (value_remove_service_args v)) (field_repr_remove_service_args L)
        (field_size_remove_service_args L) (field_width_remove_service_args L) (from_field_repr_remove_service_args L)
   \<and> encodes_exactly (\<lambda>v. list_all (atom_ok L) (value_remove_schnorr_method_args v)) (field_repr_remove_schnorr_method_args L)
        (field_size_remove_schnorr_method_args L) (field_width_remove_schnorr_method_args L) (from_field_repr_remove_schnorr_method_args L)
   \<and> encodes_exactly (\<lambda>v. list_all (atom_ok L) (value_authorization_domain v)) (field_repr_authorization_domain L)
        (field_size_authorization_domain L) (field_width_authorization_domain L) (from_field_repr_authorization_domain L)
   \<and> encodes_exactly (\<lambda>v. list_all (atom_ok L) (value_rotate_controller_key_args v)) (field_repr_rotate_controller_key_args L)
        (field_size_rotate_controller_key_args L) (field_width_rotate_controller_key_args L) (from_field_repr_rotate_controller_key_args L)
   \<and> encodes_exactly (\<lambda>v. list_all (atom_ok L) (value_schnorr_hash_input v)) (field_repr_schnorr_hash_input L)
        (field_size_schnorr_hash_input L) (field_width_schnorr_hash_input L) (from_field_repr_schnorr_hash_input L)
   \<and> encodes_exactly (\<lambda>v. list_all (atom_ok L) (value_authorization_operation v)) (field_repr_authorization_operation L)
        (field_size_authorization_operation L) (field_width_authorization_operation L) (from_field_repr_authorization_operation L)
   \<and> encodes_exactly (\<lambda>v. list_all (atom_ok L) (value_authorization_no_args v)) (field_repr_authorization_no_args L)
        (field_size_authorization_no_args L) (field_width_authorization_no_args L) (from_field_repr_authorization_no_args L)
   \<and> encodes_exactly (\<lambda>v. list_all (atom_ok L) (value_set_relation_args v)) (field_repr_set_relation_args L)
        (field_size_set_relation_args L) (field_width_set_relation_args L) (from_field_repr_set_relation_args L)
   \<and> encodes_exactly (\<lambda>v. list_all (atom_ok L) (value_set_method_args v)) (field_repr_set_method_args L)
        (field_size_set_method_args L) (field_width_set_method_args L) (from_field_repr_set_method_args L)
   \<and> encodes_exactly (\<lambda>v. list_all (atom_ok L) (value_set_also_known_as_args v)) (field_repr_set_also_known_as_args L)
        (field_size_set_also_known_as_args L) (field_width_set_also_known_as_args L) (from_field_repr_set_also_known_as_args L)
   \<and> encodes_exactly (\<lambda>v. list_all (atom_ok L) (value_remove_method_args v)) (field_repr_remove_method_args L)
        (field_size_remove_method_args L) (field_width_remove_method_args L) (from_field_repr_remove_method_args L)
   \<and> encodes_exactly (\<lambda>v. list_all (atom_ok L) (value_authorization_state v)) (field_repr_authorization_state L)
        (field_size_authorization_state L) (field_width_authorization_state L) (from_field_repr_authorization_state L)"
  by (intro conjI leaf_laws.generated_exact [OF assms])

theorem generated_types_encode_exactly_witness:
  "from_field_repr_set_service_args reference_leaves (field_repr_set_service_args reference_leaves
     \<lparr>ssv_service = \<lparr>cs_id = ''#s'', cs_typ = ''T'', cs_endpoint = ''u''\<rparr>, ssv_mutation = CMM_Update\<rparr>) =
   Some \<lparr>ssv_service = \<lparr>cs_id = ''#s'', cs_typ = ''T'', cs_endpoint = ''u''\<rparr>, ssv_mutation = CMM_Update\<rparr>
   \<and> field_width_set_service_args reference_leaves = 4"
proof -
  let ?a = "\<lparr>ssv_service = \<lparr>cs_id = ''#s'', cs_typ = ''T'', cs_endpoint = ''u''\<rparr>, ssv_mutation = CMM_Update\<rparr>"
  have "list_all (atom_ok reference_leaves) (value_set_service_args ?a)"
    by (simp add: value_defs reference_string_ok) (simp add: leaf_ok_def reference_leaves_def bytes_leaf_def)
  moreover have "field_width_set_service_args reference_leaves = 4"
    by (simp add: field_width_set_service_args_def field_width_c_service_def
        field_width_c_map_mutation_def reference_leaves_def bytes_leaf_def)
  ultimately show ?thesis
    using generated_types_encode_exactly [OF reference.leaf_laws_axioms]
    unfolding encodes_exactly_def by blast
qed

text \<open>
  C27. The readers refuse what no value encodes to. A structure reads its encoding off the front of a
  longer slice and is None on every slice shorter than \<open>FIELD_SIZE\<close>; an enumeration is read only from
  the byte of one of its discriminants.
\<close>

theorem generated_readers_refuse:
  assumes "leaf_laws L"
  shows
    "reads_prefix (\<lambda>v. list_all (atom_ok L) (value_c_public_key_jwk v)) (field_repr_c_public_key_jwk L)
        (field_width_c_public_key_jwk L) (from_field_repr_c_public_key_jwk L)
   \<and> reads_prefix (\<lambda>v. list_all (atom_ok L) (value_c_verification_method v)) (field_repr_c_verification_method L)
        (field_width_c_verification_method L) (from_field_repr_c_verification_method L)
   \<and> reads_prefix (\<lambda>v. list_all (atom_ok L) (value_c_schnorr_method v)) (field_repr_c_schnorr_method L)
        (field_width_c_schnorr_method L) (from_field_repr_c_schnorr_method L)
   \<and> reads_prefix (\<lambda>v. list_all (atom_ok L) (value_c_service v)) (field_repr_c_service L)
        (field_width_c_service L) (from_field_repr_c_service L)
   \<and> reads_prefix (\<lambda>v. list_all (atom_ok L) (value_recover_controller_key_args v)) (field_repr_recover_controller_key_args L)
        (field_width_recover_controller_key_args L) (from_field_repr_recover_controller_key_args L)
   \<and> reads_prefix (\<lambda>v. list_all (atom_ok L) (value_set_schnorr_method_args v)) (field_repr_set_schnorr_method_args L)
        (field_width_set_schnorr_method_args L) (from_field_repr_set_schnorr_method_args L)
   \<and> reads_prefix (\<lambda>v. list_all (atom_ok L) (value_set_service_args v)) (field_repr_set_service_args L)
        (field_width_set_service_args L) (from_field_repr_set_service_args L)
   \<and> reads_prefix (\<lambda>v. list_all (atom_ok L) (value_c_address v)) (field_repr_c_address L)
        (field_width_c_address L) (from_field_repr_c_address L)
   \<and> reads_prefix (\<lambda>v. list_all (atom_ok L) (value_remove_service_args v)) (field_repr_remove_service_args L)
        (field_width_remove_service_args L) (from_field_repr_remove_service_args L)
   \<and> reads_prefix (\<lambda>v. list_all (atom_ok L) (value_remove_schnorr_method_args v)) (field_repr_remove_schnorr_method_args L)
        (field_width_remove_schnorr_method_args L) (from_field_repr_remove_schnorr_method_args L)
   \<and> reads_prefix (\<lambda>v. list_all (atom_ok L) (value_authorization_domain v)) (field_repr_authorization_domain L)
        (field_width_authorization_domain L) (from_field_repr_authorization_domain L)
   \<and> reads_prefix (\<lambda>v. list_all (atom_ok L) (value_rotate_controller_key_args v)) (field_repr_rotate_controller_key_args L)
        (field_width_rotate_controller_key_args L) (from_field_repr_rotate_controller_key_args L)
   \<and> reads_prefix (\<lambda>v. list_all (atom_ok L) (value_schnorr_hash_input v)) (field_repr_schnorr_hash_input L)
        (field_width_schnorr_hash_input L) (from_field_repr_schnorr_hash_input L)
   \<and> reads_prefix (\<lambda>v. list_all (atom_ok L) (value_authorization_operation v)) (field_repr_authorization_operation L)
        (field_width_authorization_operation L) (from_field_repr_authorization_operation L)
   \<and> reads_prefix (\<lambda>v. list_all (atom_ok L) (value_authorization_no_args v)) (field_repr_authorization_no_args L)
        (field_width_authorization_no_args L) (from_field_repr_authorization_no_args L)
   \<and> reads_prefix (\<lambda>v. list_all (atom_ok L) (value_set_relation_args v)) (field_repr_set_relation_args L)
        (field_width_set_relation_args L) (from_field_repr_set_relation_args L)
   \<and> reads_prefix (\<lambda>v. list_all (atom_ok L) (value_set_method_args v)) (field_repr_set_method_args L)
        (field_width_set_method_args L) (from_field_repr_set_method_args L)
   \<and> reads_prefix (\<lambda>v. list_all (atom_ok L) (value_set_also_known_as_args v)) (field_repr_set_also_known_as_args L)
        (field_width_set_also_known_as_args L) (from_field_repr_set_also_known_as_args L)
   \<and> reads_prefix (\<lambda>v. list_all (atom_ok L) (value_remove_method_args v)) (field_repr_remove_method_args L)
        (field_width_remove_method_args L) (from_field_repr_remove_method_args L)
   \<and> reads_prefix (\<lambda>v. list_all (atom_ok L) (value_authorization_state v)) (field_repr_authorization_state L)
        (field_width_authorization_state L) (from_field_repr_authorization_state L)
   \<and> (from_field_repr_c_vm_type L r = Some a \<longleftrightarrow>
        lf_read (lv_u8 L) r = Some (of_nat (c_vm_type_u8 a)))
   \<and> (from_field_repr_c_relation L r = Some b \<longleftrightarrow>
        lf_read (lv_u8 L) r = Some (of_nat (c_relation_u8 b)))
   \<and> (from_field_repr_c_map_mutation L r = Some c \<longleftrightarrow>
        lf_read (lv_u8 L) r = Some (of_nat (c_map_mutation_u8 c)))
   \<and> (from_field_repr_c_set_mutation L r = Some d \<longleftrightarrow>
        lf_read (lv_u8 L) r = Some (of_nat (c_set_mutation_u8 d)))
   \<and> (from_field_repr_c_key_type L r = Some e \<longleftrightarrow>
        lf_read (lv_u8 L) r = Some (of_nat (c_key_type_u8 e)))
   \<and> (from_field_repr_c_curve_type L r = Some f \<longleftrightarrow>
        lf_read (lv_u8 L) r = Some (of_nat (c_curve_type_u8 f)))"
  by (intro conjI leaf_laws.generated_prefix [OF assms] generated_reads)

theorem generated_readers_refuse_witness:
  "from_field_repr_c_service reference_leaves [[], []] = None
   \<and> from_field_repr_c_map_mutation reference_leaves [[3]] \<noteq> Some CMM_Update"
proof -
  note refuse = generated_readers_refuse [OF reference.leaf_laws_axioms, where r = "[[3]]" and c = CMM_Update]
  have "reads_prefix (\<lambda>v. list_all (atom_ok reference_leaves) (value_c_service v))
          (field_repr_c_service reference_leaves) (field_width_c_service reference_leaves)
          (from_field_repr_c_service reference_leaves)"
    using refuse by simp
  moreover have "length [[], [] :: bytes] < field_width_c_service reference_leaves"
    by (simp add: field_width_c_service_def reference_leaves_def bytes_leaf_def)
  moreover have "from_field_repr_c_map_mutation reference_leaves [[3]] = Some CMM_Update \<longleftrightarrow>
      lf_read (lv_u8 reference_leaves) [[3]] = Some (of_nat (c_map_mutation_u8 CMM_Update))"
    using refuse by simp
  ultimately show ?thesis
    by (simp add: reads_prefix_def) (simp add: reference_leaves_def bytes_leaf_def)
qed

text \<open>
  C26. The value that the authorization digests hash, the field elements and the bytes of a generated
  type are the same sequence of leaves, in the same order: its three impls, each of which goes through
  the fields by itself, agree for all 26 types.
\<close>

theorem encodings_are_one_traversal:
  "traverses L (value_c_vm_type v0) (field_repr_c_vm_type L v0) (binary_repr_c_vm_type L v0)
   \<and> traverses L (value_c_relation v1) (field_repr_c_relation L v1) (binary_repr_c_relation L v1)
   \<and> traverses L (value_c_map_mutation v2) (field_repr_c_map_mutation L v2) (binary_repr_c_map_mutation L v2)
   \<and> traverses L (value_c_set_mutation v3) (field_repr_c_set_mutation L v3) (binary_repr_c_set_mutation L v3)
   \<and> traverses L (value_c_key_type v4) (field_repr_c_key_type L v4) (binary_repr_c_key_type L v4)
   \<and> traverses L (value_c_curve_type v5) (field_repr_c_curve_type L v5) (binary_repr_c_curve_type L v5)
   \<and> traverses L (value_c_public_key_jwk v6) (field_repr_c_public_key_jwk L v6) (binary_repr_c_public_key_jwk L v6)
   \<and> traverses L (value_c_verification_method v7) (field_repr_c_verification_method L v7) (binary_repr_c_verification_method L v7)
   \<and> traverses L (value_c_schnorr_method v8) (field_repr_c_schnorr_method L v8) (binary_repr_c_schnorr_method L v8)
   \<and> traverses L (value_c_service v9) (field_repr_c_service L v9) (binary_repr_c_service L v9)
   \<and> traverses L (value_recover_controller_key_args v10) (field_repr_recover_controller_key_args L v10) (binary_repr_recover_controller_key_args L v10)
   \<and> traverses L (value_set_schnorr_method_args v11) (field_repr_set_schnorr_method_args L v11) (binary_repr_set_schnorr_method_args L v11)
   \<and> traverses L (value_set_service_args v12) (field_repr_set_service_args L v12) (binary_repr_set_service_args L v12)
   \<and> traverses L (value_c_address v13) (field_repr_c_address L v13) (binary_repr_c_address L v13)
   \<and> traverses L (value_remove_service_args v14) (field_repr_remove_service_args L v14) (binary_repr_remove_service_args L v14)
   \<and> traverses L (value_remove_schnorr_method_args v15) (field_repr_remove_schnorr_method_args L v15) (binary_repr_remove_schnorr_method_args L v15)
   \<and> traverses L (value_authorization_domain v16) (field_repr_authorization_domain L v16) (binary_repr_authorization_domain L v16)
   \<and> traverses L (value_rotate_controller_key_args v17) (field_repr_rotate_controller_key_args L v17) (binary_repr_rotate_controller_key_args L v17)
   \<and> traverses L (value_schnorr_hash_input v18) (field_repr_schnorr_hash_input L v18) (binary_repr_schnorr_hash_input L v18)
   \<and> traverses L (value_authorization_operation v19) (field_repr_authorization_operation L v19) (binary_repr_authorization_operation L v19)
   \<and> traverses L (value_authorization_no_args v20) (field_repr_authorization_no_args L v20) (binary_repr_authorization_no_args L v20)
   \<and> traverses L (value_set_relation_args v21) (field_repr_set_relation_args L v21) (binary_repr_set_relation_args L v21)
   \<and> traverses L (value_set_method_args v22) (field_repr_set_method_args L v22) (binary_repr_set_method_args L v22)
   \<and> traverses L (value_set_also_known_as_args v23) (field_repr_set_also_known_as_args L v23) (binary_repr_set_also_known_as_args L v23)
   \<and> traverses L (value_remove_method_args v24) (field_repr_remove_method_args L v24) (binary_repr_remove_method_args L v24)
   \<and> traverses L (value_authorization_state v25) (field_repr_authorization_state L v25) (binary_repr_authorization_state L v25)"
  by (intro conjI
    traverses_c_vm_type traverses_c_relation traverses_c_map_mutation traverses_c_set_mutation
    traverses_c_key_type traverses_c_curve_type traverses_c_public_key_jwk
    traverses_c_verification_method traverses_c_schnorr_method traverses_c_service
    traverses_recover_controller_key_args traverses_set_schnorr_method_args
    traverses_set_service_args traverses_c_address traverses_remove_service_args
    traverses_remove_schnorr_method_args traverses_authorization_domain
    traverses_rotate_controller_key_args traverses_schnorr_hash_input
    traverses_authorization_operation traverses_authorization_no_args traverses_set_relation_args
    traverses_set_method_args traverses_set_also_known_as_args traverses_remove_method_args
    traverses_authorization_state)


end
