(* ===== verification/Document_Json.thy ===== *)
theory Document_Json
  imports Did_Doc
begin

text \<open>
  The JSON form of the document types of \<open>midnight-did-domain/src/did_document.rs\<close>: what their derived
  \<open>Serialize\<close> and \<open>Deserialize\<close>, with the \<open>serde\<close> attributes of the source, write and read. A
  serialiser emits a tree with the members in declaration order (\<open>ser_T\<close>); collected into a
  \<open>serde_json::Value\<close> it is \<open>to_value (ser_T v)\<close>, and \<open>de_T\<close> is \<open>from_value\<close>, None where it fails. The
  locale \<open>json_codec\<close> is the contract of such a pair. \<open>parse_did_document\<close> and its siblings are closed
  with these readers: they no longer depend on a parameter for the shape of the JSON.
\<close>

section \<open>What the derive macros generate\<close>

text \<open>\<open>#[serde(default, skip_serializing_if = "Option::is_none")]\<close>.\<close>

definition opt_member :: "string \<Rightarrow> ('a \<Rightarrow> json) \<Rightarrow> 'a option \<Rightarrow> (string \<times> json) list" where
  "opt_member k f v = (case v of None \<Rightarrow> [] | Some x \<Rightarrow> [(k, f x)])"

definition read_opt :: "(json \<Rightarrow> 'a option) \<Rightarrow> json option \<Rightarrow> 'a option option" where
  "read_opt f v =
     (case v of
        None \<Rightarrow> Some None
      | Some j \<Rightarrow> if j = JNull then Some None else map_option Some (f j))"

text \<open>A required field, and the members a \<open>#[serde(flatten)]\<close> map receives.\<close>

definition read_req :: "(json \<Rightarrow> 'a option) \<Rightarrow> json option \<Rightarrow> 'a option" where
  "read_req f v = Option.bind v f"

definition flat_rest :: "string list \<Rightarrow> (string, json) btree \<Rightarrow> (string, json) btree" where
  "flat_rest known m = filter (\<lambda>(k, v). k \<notin> set known) m"

fun json_object :: "json \<Rightarrow> (string, json) btree option" where
  "json_object (JObject m) = Some m"
| "json_object _ = None"

text \<open>
  A struct without a flattened map is also read from an array with one element per field. An enum of
  unit variants is read from the name of a variant, or from an object with that name as its only key.
\<close>

fun json_fields :: "string list \<Rightarrow> json \<Rightarrow> json list option" where
  "json_fields names (JObject m) = those (map (map_of m) names)"
| "json_fields names (JArray vs) = (if length vs = length names then Some vs else None)"
| "json_fields names _ = None"

fun json_enum :: "(string \<times> 'a) list \<Rightarrow> json \<Rightarrow> 'a option" where
  "json_enum tab (JString s) = map_of tab s"
| "json_enum tab (JObject [(s, v)]) = (if v = JNull then map_of tab s else None)"
| "json_enum tab _ = None"

fun json_text :: "json \<Rightarrow> string option" where
  "json_text (JString s) = Some s"
| "json_text _ = None"

fun json_bool :: "json \<Rightarrow> bool option" where
  "json_bool (JBool b) = Some b"
| "json_bool _ = None"

fun json_list :: "(json \<Rightarrow> 'a option) \<Rightarrow> json \<Rightarrow> 'a list option" where
  "json_list f (JArray vs) = those (map f vs)"
| "json_list f _ = None"

definition ser_list :: "('a \<Rightarrow> json) \<Rightarrow> 'a list \<Rightarrow> json" where
  "ser_list f xs = JArray (map f xs)"

text \<open>\<open>serde_json::from_value\<close>; the texts of its errors are a parameter.\<close>

definition from_value :: "(json \<Rightarrow> string) \<Rightarrow> (json \<Rightarrow> 'a option) \<Rightarrow> json \<Rightarrow> string + 'a" where
  "from_value txt de v = ok_or (txt v) (de v)"

section \<open>The document types\<close>

definition vm_type_names :: "(string \<times> verification_method_type) list" where
  "vm_type_names = [(''Undefined'', VMT_Undefined), (''JsonWebKey'', JsonWebKey)]"

fun ser_vm_type :: "verification_method_type \<Rightarrow> json" where
  "ser_vm_type VMT_Undefined = JString ''Undefined''"
| "ser_vm_type JsonWebKey = JString ''JsonWebKey''"

definition key_type_names :: "(string \<times> key_type) list" where
  "key_type_names = [(''EC'', EC), (''RSA'', RSA), (''oct'', oct), (''OKP'', OKP)]"

fun ser_key_type :: "key_type \<Rightarrow> json" where
  "ser_key_type EC = JString ''EC''"
| "ser_key_type RSA = JString ''RSA''"
| "ser_key_type oct = JString ''oct''"
| "ser_key_type OKP = JString ''OKP''"

definition curve_type_names :: "(string \<times> curve_type) list" where
  "curve_type_names =
     [(''Ed25519'', Ed25519), (''X25519'', X25519), (''Jubjub'', Jubjub), (''P-256'', P256),
      (''secp256k1'', Secp256k1), (''BLS12381G1'', BLS12381G1), (''BLS12381G2'', BLS12381G2)]"

fun ser_curve_type :: "curve_type \<Rightarrow> json" where
  "ser_curve_type Ed25519 = JString ''Ed25519''"
| "ser_curve_type X25519 = JString ''X25519''"
| "ser_curve_type Jubjub = JString ''Jubjub''"
| "ser_curve_type P256 = JString ''P-256''"
| "ser_curve_type Secp256k1 = JString ''secp256k1''"
| "ser_curve_type BLS12381G1 = JString ''BLS12381G1''"
| "ser_curve_type BLS12381G2 = JString ''BLS12381G2''"

definition jwk_members :: "string list" where
  "jwk_members = [''kty'', ''crv'', ''x'', ''y'']"

definition ser_jwk :: "public_key_jwk \<Rightarrow> json" where
  "ser_jwk j =
     JObject ([(''kty'', ser_key_type (jwk_kty j)), (''crv'', ser_curve_type (jwk_crv j)),
               (''x'', JString (jwk_x j))] @
              opt_member ''y'' JString (jwk_y j) @ jwk_extensions j)"

definition de_jwk_wire :: "json \<Rightarrow> public_key_jwk_wire option" where
  "de_jwk_wire v =
     Option.bind (json_object v) (\<lambda>m.
     Option.bind (read_req (json_enum key_type_names) (map_of m ''kty'')) (\<lambda>kty.
     Option.bind (read_req (json_enum curve_type_names) (map_of m ''crv'')) (\<lambda>crv.
     Option.bind (read_req json_text (map_of m ''x'')) (\<lambda>x.
     Option.bind (read_opt json_text (map_of m ''y'')) (\<lambda>y.
       Some \<lparr>jw_kty = kty, jw_crv = crv, jw_x = x, jw_y = y,
             jw_extensions = flat_rest jwk_members m\<rparr>)))))"

text \<open>\<open>#[serde(try_from = "PublicKeyJwkWire")]\<close>.\<close>

definition de_jwk :: "crates \<Rightarrow> json \<Rightarrow> public_key_jwk option" where
  "de_jwk X v =
     Option.bind (de_jwk_wire v) (\<lambda>w. case jwk_try_from X w of Inr j \<Rightarrow> Some j | Inl e \<Rightarrow> None)"

definition ser_vm :: "verification_method \<Rightarrow> json" where
  "ser_vm m =
     JObject [(''id'', JString (did_key_id_str (vm_id m))), (''type'', ser_vm_type (vm_type m)),
              (''controller'', JString (did_string_str (vm_controller m))),
              (''publicKeyJwk'', ser_jwk (vm_public_key_jwk m))]"

text \<open>The identifiers are \<open>#[serde(transparent)]\<close>: any string is read, unchecked.\<close>

definition de_vm :: "crates \<Rightarrow> json \<Rightarrow> verification_method option" where
  "de_vm X v =
     (case json_fields [''id'', ''type'', ''controller'', ''publicKeyJwk''] v of
        Some [i, t, c, k] \<Rightarrow>
          Option.bind (json_text i) (\<lambda>i.
          Option.bind (json_enum vm_type_names t) (\<lambda>t.
          Option.bind (json_text c) (\<lambda>c.
          Option.bind (de_jwk X k) (\<lambda>k.
            Some \<lparr>vm_id = DidKeyId i, vm_type = t, vm_controller = DidString c,
                  vm_public_key_jwk = k\<rparr>))))
      | _ \<Rightarrow> None)"

fun ser_service_type :: "service_type \<Rightarrow> json" where
  "ser_service_type (TypeOne s) = JString s"
| "ser_service_type (TypeMany ts) = ser_list JString ts"

text \<open>\<open>#[serde(untagged)]\<close>: the first variant that fits.\<close>

fun de_service_type :: "json \<Rightarrow> service_type option" where
  "de_service_type (JString s) = Some (TypeOne s)"
| "de_service_type v = map_option TypeMany (json_list json_text v)"

fun ser_endpoint_entry :: "service_endpoint_entry \<Rightarrow> json" where
  "ser_endpoint_entry (EntryUri s) = JString s"
| "ser_endpoint_entry (EntryObject m) = JObject m"

fun de_endpoint_entry :: "json \<Rightarrow> service_endpoint_entry option" where
  "de_endpoint_entry (JString s) = Some (EntryUri s)"
| "de_endpoint_entry (JObject m) = Some (EntryObject m)"
| "de_endpoint_entry _ = None"

fun ser_endpoint :: "service_endpoint \<Rightarrow> json" where
  "ser_endpoint (EndpointUri s) = JString s"
| "ser_endpoint (EndpointObject m) = JObject m"
| "ser_endpoint (EndpointArray es) = ser_list ser_endpoint_entry es"

fun de_endpoint :: "json \<Rightarrow> service_endpoint option" where
  "de_endpoint (JString s) = Some (EndpointUri s)"
| "de_endpoint (JObject m) = Some (EndpointObject m)"
| "de_endpoint v = map_option EndpointArray (json_list de_endpoint_entry v)"

definition ser_service :: "service \<Rightarrow> json" where
  "ser_service s =
     JObject [(''id'', JString (svc_id s)), (''type'', ser_service_type (svc_type s)),
              (''serviceEndpoint'', ser_endpoint (svc_endpoint s))]"

definition de_service :: "json \<Rightarrow> service option" where
  "de_service v =
     (case json_fields [''id'', ''type'', ''serviceEndpoint''] v of
        Some [i, t, e] \<Rightarrow>
          Option.bind (json_text i) (\<lambda>i.
          Option.bind (de_service_type t) (\<lambda>t.
          Option.bind (de_endpoint e) (\<lambda>e.
            Some \<lparr>svc_id = i, svc_type = t, svc_endpoint = e\<rparr>)))
      | _ \<Rightarrow> None)"

fun ser_context :: "document_context \<Rightarrow> json" where
  "ser_context (ContextOne s) = JString s"
| "ser_context (ContextMany ss) = ser_list JString ss"

fun de_context :: "json \<Rightarrow> document_context option" where
  "de_context (JString s) = Some (ContextOne s)"
| "de_context v = map_option ContextMany (json_list json_text v)"

definition ser_did_string :: "did_string \<Rightarrow> json" where
  "ser_did_string d = JString (did_string_str d)"

definition de_did_string :: "json \<Rightarrow> did_string option" where
  "de_did_string v = map_option DidString (json_text v)"

definition ser_key_id :: "did_key_id \<Rightarrow> json" where
  "ser_key_id i = JString (did_key_id_str i)"

definition de_key_id :: "json \<Rightarrow> did_key_id option" where
  "de_key_id v = map_option DidKeyId (json_text v)"

fun ser_controller :: "controller \<Rightarrow> json" where
  "ser_controller (ControllerOne d) = ser_did_string d"
| "ser_controller (ControllerMany ds) = ser_list ser_did_string ds"

fun de_controller :: "json \<Rightarrow> controller option" where
  "de_controller (JString s) = Some (ControllerOne (DidString s))"
| "de_controller v = map_option ControllerMany (json_list de_did_string v)"

definition document_members :: "string list" where
  "document_members =
     [''@context'', ''id'', ''alsoKnownAs'', ''controller'', ''verificationMethod'',
      ''authentication'', ''assertionMethod'', ''keyAgreement'', ''capabilityInvocation'',
      ''capabilityDelegation'', ''service'']"

definition ser_did_document :: "did_document \<Rightarrow> json" where
  "ser_did_document d =
     JObject ([(''@context'', ser_context (doc_context d)), (''id'', ser_did_string (doc_id d))] @
              opt_member ''alsoKnownAs'' (ser_list JString) (doc_also_known_as d) @
              opt_member ''controller'' ser_controller (doc_controller d) @
              opt_member ''verificationMethod'' (ser_list ser_vm) (doc_verification_method d) @
              opt_member ''authentication'' (ser_list ser_key_id) (doc_authentication d) @
              opt_member ''assertionMethod'' (ser_list ser_key_id) (doc_assertion_method d) @
              opt_member ''keyAgreement'' (ser_list ser_key_id) (doc_key_agreement d) @
              opt_member ''capabilityInvocation'' (ser_list ser_key_id) (doc_capability_invocation d) @
              opt_member ''capabilityDelegation'' (ser_list ser_key_id) (doc_capability_delegation d) @
              opt_member ''service'' (ser_list ser_service) (doc_service d) @ doc_extra d)"

definition de_did_document :: "crates \<Rightarrow> json \<Rightarrow> did_document option" where
  "de_did_document X v =
     Option.bind (json_object v) (\<lambda>m.
     Option.bind (read_req de_context (map_of m ''@context'')) (\<lambda>ctx.
     Option.bind (read_req de_did_string (map_of m ''id'')) (\<lambda>i.
     Option.bind (read_opt (json_list json_text) (map_of m ''alsoKnownAs'')) (\<lambda>aka.
     Option.bind (read_opt de_controller (map_of m ''controller'')) (\<lambda>ctl.
     Option.bind (read_opt (json_list (de_vm X)) (map_of m ''verificationMethod'')) (\<lambda>vms.
     Option.bind (read_opt (json_list de_key_id) (map_of m ''authentication'')) (\<lambda>r1.
     Option.bind (read_opt (json_list de_key_id) (map_of m ''assertionMethod'')) (\<lambda>r2.
     Option.bind (read_opt (json_list de_key_id) (map_of m ''keyAgreement'')) (\<lambda>r3.
     Option.bind (read_opt (json_list de_key_id) (map_of m ''capabilityInvocation'')) (\<lambda>r4.
     Option.bind (read_opt (json_list de_key_id) (map_of m ''capabilityDelegation'')) (\<lambda>r5.
     Option.bind (read_opt (json_list de_service) (map_of m ''service'')) (\<lambda>svcs.
       Some \<lparr>doc_context = ctx, doc_id = i, doc_also_known_as = aka, doc_controller = ctl,
             doc_verification_method = vms, doc_authentication = r1, doc_assertion_method = r2,
             doc_key_agreement = r3, doc_capability_invocation = r4, doc_capability_delegation = r5,
             doc_service = svcs, doc_extra = flat_rest document_members m\<rparr>))))))))))))"

definition metadata_members :: "string list" where
  "metadata_members =
     [''created'', ''updated'', ''deactivated'', ''versionId'', ''nextUpdate'', ''nextVersionId'',
      ''equivalentId'', ''canonicalId'']"

definition ser_metadata :: "did_document_metadata \<Rightarrow> json" where
  "ser_metadata m =
     JObject (opt_member ''created'' JString (dm_created m) @
              opt_member ''updated'' JString (dm_updated m) @
              opt_member ''deactivated'' JBool (dm_deactivated m) @
              opt_member ''versionId'' JString (dm_version_id m) @
              opt_member ''nextUpdate'' JString (dm_next_update m) @
              opt_member ''nextVersionId'' JString (dm_next_version_id m) @
              opt_member ''equivalentId'' (ser_list JString) (dm_equivalent_id m) @
              opt_member ''canonicalId'' JString (dm_canonical_id m) @ dm_extra m)"

definition de_metadata :: "json \<Rightarrow> did_document_metadata option" where
  "de_metadata v =
     Option.bind (json_object v) (\<lambda>m.
     Option.bind (read_opt json_text (map_of m ''created'')) (\<lambda>created.
     Option.bind (read_opt json_text (map_of m ''updated'')) (\<lambda>updated.
     Option.bind (read_opt json_bool (map_of m ''deactivated'')) (\<lambda>deactivated.
     Option.bind (read_opt json_text (map_of m ''versionId'')) (\<lambda>version.
     Option.bind (read_opt json_text (map_of m ''nextUpdate'')) (\<lambda>next_update.
     Option.bind (read_opt json_text (map_of m ''nextVersionId'')) (\<lambda>next_version.
     Option.bind (read_opt (json_list json_text) (map_of m ''equivalentId'')) (\<lambda>equivalent.
     Option.bind (read_opt json_text (map_of m ''canonicalId'')) (\<lambda>canonical.
       Some \<lparr>dm_created = created, dm_updated = updated, dm_deactivated = deactivated,
             dm_version_id = version, dm_next_update = next_update,
             dm_next_version_id = next_version, dm_equivalent_id = equivalent,
             dm_canonical_id = canonical, dm_extra = flat_rest metadata_members m\<rparr>)))))))))"

text \<open>The registered media types and resolution error codes, by the names they are written with.\<close>

fun media_type_name :: "known_media_type \<Rightarrow> string" where
  "media_type_name DidLdJson = ''application/did+ld+json''"
| "media_type_name DidJson = ''application/did+json''"
| "media_type_name LdJson = ''application/ld+json''"
| "media_type_name Json = ''application/json''"

datatype known_error_code =
    InvalidDid
  | InternalError
  | InvalidPublicKey
  | InvalidPublicKeyLength
  | InvalidPublicKeyType
  | MethodNotSupported
  | NotAllowedCertificate
  | NotAllowedGlobalDuplicateKey
  | NotAllowedKeyType
  | NotAllowedLocalDerivedKey
  | NotAllowedLocalDuplicateKey
  | NotAllowedMethod
  | NotAllowedVerificationMethodType
  | NotFoundCode
  | RepresentationNotSupported
  | UnsupportedPublicKeyType

text \<open>\<open>#[serde(rename_all = "camelCase")]\<close>.\<close>

fun error_code_name :: "known_error_code \<Rightarrow> string" where
  "error_code_name InvalidDid = ''invalidDid''"
| "error_code_name InternalError = ''internalError''"
| "error_code_name InvalidPublicKey = ''invalidPublicKey''"
| "error_code_name InvalidPublicKeyLength = ''invalidPublicKeyLength''"
| "error_code_name InvalidPublicKeyType = ''invalidPublicKeyType''"
| "error_code_name MethodNotSupported = ''methodNotSupported''"
| "error_code_name NotAllowedCertificate = ''notAllowedCertificate''"
| "error_code_name NotAllowedGlobalDuplicateKey = ''notAllowedGlobalDuplicateKey''"
| "error_code_name NotAllowedKeyType = ''notAllowedKeyType''"
| "error_code_name NotAllowedLocalDerivedKey = ''notAllowedLocalDerivedKey''"
| "error_code_name NotAllowedLocalDuplicateKey = ''notAllowedLocalDuplicateKey''"
| "error_code_name NotAllowedMethod = ''notAllowedMethod''"
| "error_code_name NotAllowedVerificationMethodType = ''notAllowedVerificationMethodType''"
| "error_code_name NotFoundCode = ''notFound''"
| "error_code_name RepresentationNotSupported = ''representationNotSupported''"
| "error_code_name UnsupportedPublicKeyType = ''unsupportedPublicKeyType''"

text \<open>Every registered code has the form that \<open>DidResolutionErrorCode::validate\<close> asks for.\<close>

lemma known_error_codes_validate: "resolution_error_code_validate (error_code_name c) = Inr ()"
  by (cases c) (simp_all add: resolution_error_code_validate_def ascii_defs code_of_def)

definition ser_resolution_metadata :: "did_resolution_metadata \<Rightarrow> json" where
  "ser_resolution_metadata m =
     JObject (opt_member ''contentType'' (\<lambda>t. JString (media_type_name t)) (rm_content_type m) @
              opt_member ''error'' JString (rm_error m) @ rm_extra m)"

definition ser_resolution_result :: "did_resolution_result \<Rightarrow> json" where
  "ser_resolution_result r =
     JObject (opt_member ''@context'' ser_context (rr_context r) @
              opt_member ''didDocument'' ser_did_document (rr_did_document r) @
              [(''didDocumentMetadata'', ser_metadata (rr_did_document_metadata r)),
               (''didResolutionMetadata'', ser_resolution_metadata (rr_did_resolution_metadata r))] @
              rr_extra r)"

section \<open>Parsing\<close>

text \<open>The entry points of the crate, on the readers above.\<close>

definition parse_document_value ::
    "crates \<Rightarrow> (json \<Rightarrow> string) \<Rightarrow> json \<Rightarrow> validation_error + did_document" where
  "parse_document_value X txt = parse_did_document X (from_value txt (de_did_document X))"

definition parse_method_value ::
    "crates \<Rightarrow> (json \<Rightarrow> string) \<Rightarrow> json \<Rightarrow> validation_error + verification_method" where
  "parse_method_value X txt = parse_verification_method X (from_value txt (de_vm X))"

definition parse_service_value ::
    "crates \<Rightarrow> (json \<Rightarrow> string) \<Rightarrow> json \<Rightarrow> validation_error + service" where
  "parse_service_value X txt = parse_service X (from_value txt de_service)"

section \<open>Members of an object\<close>

lemma bt_insert_first: "\<forall>k'\<in>fst ` set m. k < k' \<Longrightarrow> bt_insert k v m = (k, v) # m"
  by (cases m) auto

lemma flat_rest_insert:
  "bt_keys_sorted m \<Longrightarrow>
     flat_rest known (bt_insert k v m) =
       (if k \<in> set known then flat_rest known m else bt_insert k v (flat_rest known m))"
proof (induction k v m rule: bt_insert.induct)
  case (2 k v k' v' m)
  have "k < k' \<Longrightarrow> bt_insert k v (flat_rest known m) = (k, v) # flat_rest known m"
    using 2(2) by (intro bt_insert_first) (force simp: flat_rest_def dest: order.strict_trans)
  with 2 show ?case by (auto simp: flat_rest_def)
qed (simp add: flat_rest_def)

lemma bt_collect_snoc: "bt_collect (es @ [(k, v)]) = bt_insert k v (bt_collect es)"
  by (simp add: bt_collect_def)

lemma bt_collect_keys_sorted: "bt_keys_sorted (bt_collect es)"
proof (induction es rule: rev_induct)
  case (snoc e es)
  then show ?case by (cases e) (simp add: bt_collect_snoc bt_insert_sorted)
qed (simp add: bt_collect_def)

text \<open>The last member of a name wins.\<close>

lemma map_of_collect: "map_of (bt_collect es) = map_of (rev es)"
proof (induction es rule: rev_induct)
  case (snoc e es)
  then show ?case
    by (cases e) (simp add: bt_collect_snoc bt_lookup_insert bt_collect_keys_sorted)
qed (simp add: bt_collect_def)

lemma map_of_collect_distinct: "distinct (map fst es) \<Longrightarrow> map_of (bt_collect es) = map_of es"
  unfolding map_of_collect by (rule map_of_inject_set [THEN iffD2]) (simp_all add: rev_map [symmetric])

lemma flat_rest_collect:
  "flat_rest known (bt_collect es) = bt_collect (filter (\<lambda>(k, v). k \<notin> set known) es)"
proof (induction es rule: rev_induct)
  case (snoc e es)
  then show ?case
    by (cases e) (simp add: bt_collect_snoc flat_rest_insert bt_collect_keys_sorted)
qed (simp add: bt_collect_def flat_rest_def)

text \<open>An extension map that does not name a member of the struct itself.\<close>

definition flat_ok :: "string list \<Rightarrow> (string, json) btree \<Rightarrow> bool" where
  "flat_ok known ext \<longleftrightarrow>
     json_ok (JObject ext) \<and> list_all (\<lambda>k. k \<notin> fst ` set ext) known"

lemma flat_ok_values: "flat_ok known ext \<Longrightarrow> map (\<lambda>(k, v). (k, to_value v)) ext = ext"
  by (intro map_idI) (auto simp: flat_ok_def list_all_iff to_value_ok)

lemma flat_rest_members:
  assumes "flat_ok known ext" and "fst ` set ms \<subseteq> set known"
  shows "flat_rest known (bt_collect (ms @ ext)) = ext"
proof -
  have "filter (\<lambda>(k, v). k \<notin> set known) ms = []" using assms(2) by (force simp: filter_empty_conv)
  moreover have "filter (\<lambda>(k, v). k \<notin> set known) ext = ext"
    using assms(1) by (force simp: filter_id_conv flat_ok_def list_all_iff)
  ultimately show ?thesis
    using assms(1) by (simp add: flat_rest_collect bt_collect_sorted flat_ok_def)
qed

lemma distinct_members:
  assumes "flat_ok known ext" and "fst ` set ms \<subseteq> set known" and "distinct (map fst ms)"
  shows "distinct (map fst (ms @ ext))"
proof -
  have "distinct (map fst ext)"
    using assms(1) strict_sorted_iff by (auto simp: flat_ok_def bt_keys_sorted_def)
  then show ?thesis using assms by (auto simp: flat_ok_def list_all_iff)
qed

text \<open>Looking up and collecting optional members.\<close>

lemma opt_member_values:
  "map (\<lambda>(k, v). (k, to_value v)) (opt_member k f v) = opt_member k (\<lambda>x. to_value (f x)) v"
  by (simp add: opt_member_def split: option.split)

lemma opt_member_keys:
  "q \<in> fst ` set (opt_member k f v) \<longleftrightarrow> q = k \<and> v \<noteq> None"
  by (auto simp: opt_member_def split: option.split)

lemma opt_member_lookup:
  "q \<noteq> k \<Longrightarrow> map_of (opt_member k f v @ es) q = map_of es q"
  "map_of es k = None \<Longrightarrow> map_of (opt_member k f v @ es) k = map_option f v"
  by (simp_all add: opt_member_def split: option.split)

lemma opt_member_disjoint:
  "fst ` set (opt_member k f v) \<inter> A = {} \<longleftrightarrow> v = None \<or> k \<notin> A"
  by (auto simp: opt_member_def split: option.split)

lemma opt_member_Nil:
  "distinct (map fst (opt_member k f v))"
  "k \<in> K \<Longrightarrow> fst ` set (opt_member k f v) \<subseteq> K"
  by (auto simp: opt_member_def split: option.split)

lemma flat_ok_lookup: "flat_ok known ext \<Longrightarrow> k \<in> set known \<Longrightarrow> map_of ext k = None"
  by (simp add: flat_ok_def list_all_iff map_of_eq_None_iff)

text \<open>
  A struct with a flattened map whose extensions do not clash: each member is found, and the rest is
  the map.
\<close>

lemma struct_members:
  assumes "flat_ok known ext" and "fst ` set ms \<subseteq> set known" and "distinct (map fst ms)"
  obtains m where "to_value (JObject (ms @ ext)) = JObject m" and "flat_rest known m = ext"
    and "map_of m = map_of (map (\<lambda>(k, v). (k, to_value v)) ms @ ext)"
proof
  let ?vs = "map (\<lambda>(k, v). (k, to_value v)) ms"
  have keys: "map fst ?vs = map fst ms" by auto
  then have sub: "fst ` set ?vs \<subseteq> set known"
    using assms(2) by (simp only: set_map [symmetric])
  show "to_value (JObject (ms @ ext)) = JObject (bt_collect (?vs @ ext))"
    by (simp add: flat_ok_values [OF assms(1)])
  show "flat_rest known (bt_collect (?vs @ ext)) = ext"
    by (rule flat_rest_members [OF assms(1) sub])
  show "map_of (bt_collect (?vs @ ext)) = map_of (?vs @ ext)"
    using distinct_members [OF assms(1) sub] assms(3) by (simp only: keys map_of_collect_distinct)
qed

section \<open>The contract of a derived pair\<close>

locale json_codec =
  fixes ok :: "'a \<Rightarrow> bool" and ser :: "'a \<Rightarrow> json" and de :: "json \<Rightarrow> 'a option"
  assumes de_ser: "ok v \<Longrightarrow> de (to_value (ser v)) = Some v"
    and ser_not_null: "ok v \<Longrightarrow> to_value (ser v) \<noteq> JNull"
    and ser_tree: "ok v \<Longrightarrow> json_tree (ser v)"
begin

lemma read_req_ser: "ok v \<Longrightarrow> read_req de (Some (to_value (ser v))) = Some v"
  by (simp add: read_req_def de_ser)

lemma read_opt_ser:
  "pred_option ok v \<Longrightarrow> read_opt de (map_option (\<lambda>x. to_value (ser x)) v) = Some v"
  by (cases v) (simp_all add: read_opt_def de_ser ser_not_null)

lemma opt_tree: "pred_option ok v \<Longrightarrow> list_all (\<lambda>(k, v). json_tree v) (opt_member k ser v)"
  by (cases v) (simp_all add: opt_member_def ser_tree)

lemma list_de_ser: "list_all ok vs \<Longrightarrow> json_list de (to_value (ser_list ser vs)) = Some vs"
  by (induction vs) (simp_all add: ser_list_def de_ser)

lemma list_tree: "list_all ok vs \<Longrightarrow> json_tree (ser_list ser vs)"
  by (simp add: ser_list_def list_all_iff ser_tree)

lemma list_codec: "json_codec (list_all ok) (ser_list ser) (json_list de)"
  by unfold_locales (simp_all add: list_de_ser list_tree, simp add: ser_list_def)

lemmas codec_simps = de_ser read_req_ser read_opt_ser opt_tree ser_tree

end

interpretation str: json_codec "\<lambda>_. True" JString json_text
  by unfold_locales simp_all

lemma read_opt_text: "read_opt json_text (map_option JString v) = Some v"
  by (cases v) (simp_all add: read_opt_def)

interpretation flag: json_codec "\<lambda>_. True" JBool json_bool
  by unfold_locales simp_all

interpretation strs: json_codec "list_all (\<lambda>_. True)" "ser_list JString" "json_list json_text"
  by (rule str.list_codec)

interpretation vm_type: json_codec "\<lambda>_. True" ser_vm_type "json_enum vm_type_names"
proof unfold_locales
  fix v :: verification_method_type
  show "json_enum vm_type_names (to_value (ser_vm_type v)) = Some v" by (cases v) (simp_all add: vm_type_names_def)
  show "to_value (ser_vm_type v) \<noteq> JNull" "json_tree (ser_vm_type v)" by (cases v; simp)+
qed

interpretation key_type: json_codec "\<lambda>_. True" ser_key_type "json_enum key_type_names"
proof unfold_locales
  fix v :: key_type
  show "json_enum key_type_names (to_value (ser_key_type v)) = Some v" by (cases v) (simp_all add: key_type_names_def)
  show "to_value (ser_key_type v) \<noteq> JNull" "json_tree (ser_key_type v)" by (cases v; simp)+
qed

interpretation curve_type: json_codec "\<lambda>_. True" ser_curve_type "json_enum curve_type_names"
proof unfold_locales
  fix v :: curve_type
  show "json_enum curve_type_names (to_value (ser_curve_type v)) = Some v"
    by (cases v) (simp_all add: curve_type_names_def)
  show "to_value (ser_curve_type v) \<noteq> JNull" "json_tree (ser_curve_type v)" by (cases v; simp)+
qed

interpretation did_string: json_codec "\<lambda>_. True" ser_did_string de_did_string
proof unfold_locales
  fix v :: did_string
  show "de_did_string (to_value (ser_did_string v)) = Some v"
    by (cases v) (simp add: de_did_string_def ser_did_string_def)
  show "to_value (ser_did_string v) \<noteq> JNull" "json_tree (ser_did_string v)"
    by (simp_all add: ser_did_string_def)
qed

interpretation key_id: json_codec "\<lambda>_. True" ser_key_id de_key_id
proof unfold_locales
  fix v :: did_key_id
  show "de_key_id (to_value (ser_key_id v)) = Some v"
    by (cases v) (simp add: de_key_id_def ser_key_id_def)
  show "to_value (ser_key_id v) \<noteq> JNull" "json_tree (ser_key_id v)"
    by (simp_all add: ser_key_id_def)
qed

interpretation key_ids: json_codec "list_all (\<lambda>_. True)" "ser_list ser_key_id" "json_list de_key_id"
  by (rule key_id.list_codec)

text \<open>The values whose JSON form is read back: extensions do not name a member of their struct.\<close>

definition jwk_json_ok :: "crates \<Rightarrow> public_key_jwk \<Rightarrow> bool" where
  "jwk_json_ok X j \<longleftrightarrow> jwk_validate X j = Inr () \<and> flat_ok jwk_members (jwk_extensions j)"

definition vm_json_ok :: "crates \<Rightarrow> verification_method \<Rightarrow> bool" where
  "vm_json_ok X m \<longleftrightarrow> jwk_json_ok X (vm_public_key_jwk m)"

fun entry_json_ok :: "service_endpoint_entry \<Rightarrow> bool" where
  "entry_json_ok (EntryUri s) = True"
| "entry_json_ok (EntryObject m) = json_ok (JObject m)"

fun endpoint_json_ok :: "service_endpoint \<Rightarrow> bool" where
  "endpoint_json_ok (EndpointUri s) = True"
| "endpoint_json_ok (EndpointObject m) = json_ok (JObject m)"
| "endpoint_json_ok (EndpointArray es) = list_all entry_json_ok es"

definition service_json_ok :: "service \<Rightarrow> bool" where
  "service_json_ok s = endpoint_json_ok (svc_endpoint s)"

definition document_json_ok :: "crates \<Rightarrow> did_document \<Rightarrow> bool" where
  "document_json_ok X d \<longleftrightarrow>
     pred_option (list_all (vm_json_ok X)) (doc_verification_method d) \<and>
     pred_option (list_all service_json_ok) (doc_service d) \<and>
     flat_ok document_members (doc_extra d)"

definition metadata_json_ok :: "did_document_metadata \<Rightarrow> bool" where
  "metadata_json_ok m = flat_ok metadata_members (dm_extra m)"

lemma flat_ok_tree: "flat_ok known ext \<Longrightarrow> list_all (\<lambda>(k, v). json_tree v) ext"
  by (auto simp: flat_ok_def list_all_iff json_ok_tree)

lemma jwk_json:
  assumes "jwk_json_ok X j"
  shows "de_jwk X (to_value (ser_jwk j)) = Some j" and "to_value (ser_jwk j) \<noteq> JNull"
    and "json_tree (ser_jwk j)"
proof -
  let ?ms = "[(''kty'', ser_key_type (jwk_kty j)), (''crv'', ser_curve_type (jwk_crv j)),
      (''x'', JString (jwk_x j))] @ opt_member ''y'' JString (jwk_y j)"
  from assms have v: "jwk_validate X j = Inr ()" and ext: "flat_ok jwk_members (jwk_extensions j)"
    by (simp_all add: jwk_json_ok_def)
  have "fst ` set ?ms \<subseteq> set jwk_members" "distinct (map fst ?ms)"
    by (auto simp: jwk_members_def opt_member_def split: option.split)
  then obtain m where m: "to_value (JObject (?ms @ jwk_extensions j)) = JObject m"
    "flat_rest jwk_members m = jwk_extensions j"
    "map_of m = map_of (map (\<lambda>(k, v). (k, to_value v)) ?ms @ jwk_extensions j)"
    by (rule struct_members [OF ext])
  have none: "map_of (jwk_extensions j) ''y'' = None"
    using flat_ok_lookup [OF ext] by (simp add: jwk_members_def)
  have j: "ser_jwk j = JObject (?ms @ jwk_extensions j)" by (simp add: ser_jwk_def)
  have "de_jwk_wire (to_value (ser_jwk j)) =
      Some \<lparr>jw_kty = jwk_kty j, jw_crv = jwk_crv j, jw_x = jwk_x j, jw_y = jwk_y j,
            jw_extensions = jwk_extensions j\<rparr>"
    unfolding j m(1) by (simp add: de_jwk_wire_def m(2,3) opt_member_values opt_member_lookup none
        key_type.codec_simps curve_type.codec_simps read_opt_text
        str.read_req_ser [simplified] del: map_of_append)
  then show "de_jwk X (to_value (ser_jwk j)) = Some j"
    using v by (cases j) (simp add: de_jwk_def jwk_try_from_def jwk_new_def Let_def)
  show "to_value (ser_jwk j) \<noteq> JNull" by (simp add: ser_jwk_def)
  show "json_tree (ser_jwk j)"
    using flat_ok_tree [OF ext] by (simp add: ser_jwk_def key_type.ser_tree curve_type.ser_tree str.opt_tree
        option.pred_True)
qed

interpretation jwk: json_codec "jwk_json_ok X" ser_jwk "de_jwk X" for X
  using jwk_json by unfold_locales

text \<open>A struct without a flattened map.\<close>

lemma json_fields_collect:
  assumes "distinct (map fst es)"
  shows "json_fields (map fst es) (JObject (bt_collect es)) = Some (map snd es)"
proof -
  have "map (map_of es) (map fst es) = map (\<lambda>(k, v). Some v) es" using assms by auto
  moreover have "those (map (\<lambda>(k, v). Some v) es) = Some (map snd es)" by (induction es) auto
  ultimately show ?thesis
    by (simp only: json_fields.simps map_of_collect_distinct [OF assms])
qed

lemma vm_json:
  assumes "vm_json_ok X m"
  shows "de_vm X (to_value (ser_vm m)) = Some m" and "to_value (ser_vm m) \<noteq> JNull"
    and "json_tree (ser_vm m)"
proof -
  from assms have j: "jwk_json_ok X (vm_public_key_jwk m)" by (simp add: vm_json_ok_def)
  let ?es = "[(''id'', JString (did_key_id_str (vm_id m))), (''type'', to_value (ser_vm_type (vm_type m))),
     (''controller'', JString (did_string_str (vm_controller m))),
     (''publicKeyJwk'', to_value (ser_jwk (vm_public_key_jwk m)))]"
  have "json_fields (map fst ?es) (JObject (bt_collect ?es)) = Some (map snd ?es)"
    by (rule json_fields_collect) simp
  then show "de_vm X (to_value (ser_vm m)) = Some m"
    by (cases "vm_id m"; cases "vm_controller m")
      (simp add: de_vm_def ser_vm_def vm_type.de_ser jwk.de_ser [OF j])
  show "to_value (ser_vm m) \<noteq> JNull" "json_tree (ser_vm m)"
    by (simp_all add: ser_vm_def vm_type.ser_tree jwk.ser_tree [OF j])
qed

interpretation vm: json_codec "vm_json_ok X" ser_vm "de_vm X" for X
  using vm_json by unfold_locales

interpretation vms: json_codec "list_all (vm_json_ok X)" "ser_list ser_vm" "json_list (de_vm X)" for X
  by (rule vm.list_codec)

interpretation service_type: json_codec "\<lambda>_. True" ser_service_type de_service_type
proof unfold_locales
  fix t :: service_type
  show "de_service_type (to_value (ser_service_type t)) = Some t"
    using str.list_de_ser by (cases t) (simp_all add: ser_list_def list_all_iff)
  show "to_value (ser_service_type t) \<noteq> JNull" "json_tree (ser_service_type t)"
    by (cases t; simp add: ser_list_def list_all_iff)+
qed

interpretation entry: json_codec entry_json_ok ser_endpoint_entry de_endpoint_entry
proof unfold_locales
  fix e :: service_endpoint_entry
  assume e: "entry_json_ok e"
  have v: "to_value (ser_endpoint_entry e) = ser_endpoint_entry e"
  proof (cases e)
    case (EntryObject m)
    then show ?thesis using e by (simp only: ser_endpoint_entry.simps entry_json_ok.simps to_value_ok)
  qed simp
  show "de_endpoint_entry (to_value (ser_endpoint_entry e)) = Some e" unfolding v by (cases e) simp_all
  show "to_value (ser_endpoint_entry e) \<noteq> JNull" unfolding v by (cases e) simp_all
  show "json_tree (ser_endpoint_entry e)" using e
    by (cases e) (simp_all add: json_ok_tree del: json_tree.simps(3) json_ok.simps)
qed

interpretation endpoint: json_codec endpoint_json_ok ser_endpoint de_endpoint
proof unfold_locales
  fix e :: service_endpoint
  assume e: "endpoint_json_ok e"
  have v: "to_value (JObject m) = JObject m" if "json_ok (JObject m)" for m
    using that by (rule to_value_ok)
  show "de_endpoint (to_value (ser_endpoint e)) = Some e" using e entry.list_de_ser
    by (cases e) (simp_all add: v ser_list_def del: to_value.simps(2) json_ok.simps)
  show "to_value (ser_endpoint e) \<noteq> JNull" by (cases e) (simp_all add: ser_list_def)
  show "json_tree (ser_endpoint e)" using e entry.list_tree
    by (cases e) (simp_all add: json_ok_tree del: json_tree.simps(3) json_ok.simps)
qed

lemma service_json:
  assumes "service_json_ok s"
  shows "de_service (to_value (ser_service s)) = Some s" and "to_value (ser_service s) \<noteq> JNull"
    and "json_tree (ser_service s)"
proof -
  from assms have e: "endpoint_json_ok (svc_endpoint s)" by (simp add: service_json_ok_def)
  let ?es = "[(''id'', JString (svc_id s)), (''type'', to_value (ser_service_type (svc_type s))),
     (''serviceEndpoint'', to_value (ser_endpoint (svc_endpoint s)))]"
  have "json_fields (map fst ?es) (JObject (bt_collect ?es)) = Some (map snd ?es)"
    by (rule json_fields_collect) simp
  then show "de_service (to_value (ser_service s)) = Some s"
    by (simp add: de_service_def ser_service_def service_type.de_ser endpoint.de_ser [OF e])
  show "to_value (ser_service s) \<noteq> JNull" "json_tree (ser_service s)"
    by (simp_all add: ser_service_def service_type.ser_tree endpoint.ser_tree [OF e])
qed

interpretation service: json_codec service_json_ok ser_service de_service
  using service_json by unfold_locales

interpretation services: json_codec "list_all service_json_ok" "ser_list ser_service"
  "json_list de_service"
  by (rule service.list_codec)

interpretation doc_context: json_codec "\<lambda>_. True" ser_context de_context
proof unfold_locales
  fix c :: document_context
  show "de_context (to_value (ser_context c)) = Some c"
    using str.list_de_ser by (cases c) (simp_all add: ser_list_def list_all_iff)
  show "to_value (ser_context c) \<noteq> JNull" "json_tree (ser_context c)"
    by (cases c; simp add: ser_list_def list_all_iff)+
qed

interpretation controller: json_codec "\<lambda>_. True" ser_controller de_controller
proof unfold_locales
  fix c :: controller
  show "de_controller (to_value (ser_controller c)) = Some c"
  proof (cases c)
    case (ControllerOne d)
    then show ?thesis by (cases d) (simp add: ser_did_string_def)
  next
    case (ControllerMany ds)
    then show ?thesis using did_string.list_de_ser [of ds] by (simp add: ser_list_def list_all_iff)
  qed
  show "to_value (ser_controller c) \<noteq> JNull" "json_tree (ser_controller c)"
    by (cases c; simp add: ser_list_def ser_did_string_def list_all_iff)+
qed

text \<open>The whole document.\<close>

lemmas opt_members = opt_member_values opt_member_lookup opt_member_disjoint
  opt_member_Nil opt_member_keys

definition document_own :: "did_document \<Rightarrow> (string \<times> json) list" where
  "document_own d =
     [(''@context'', ser_context (doc_context d)), (''id'', ser_did_string (doc_id d))] @
     opt_member ''alsoKnownAs'' (ser_list JString) (doc_also_known_as d) @
     opt_member ''controller'' ser_controller (doc_controller d) @
     opt_member ''verificationMethod'' (ser_list ser_vm) (doc_verification_method d) @
     opt_member ''authentication'' (ser_list ser_key_id) (doc_authentication d) @
     opt_member ''assertionMethod'' (ser_list ser_key_id) (doc_assertion_method d) @
     opt_member ''keyAgreement'' (ser_list ser_key_id) (doc_key_agreement d) @
     opt_member ''capabilityInvocation'' (ser_list ser_key_id) (doc_capability_invocation d) @
     opt_member ''capabilityDelegation'' (ser_list ser_key_id) (doc_capability_delegation d) @
     opt_member ''service'' (ser_list ser_service) (doc_service d)"

lemma document_own_keys:
  "fst ` set (document_own d) \<subseteq> set document_members" "distinct (map fst (document_own d))"
  by (simp_all add: document_own_def document_members_def opt_members image_Un)

lemma pred_option_list_all: "pred_option (list_all (\<lambda>_. True)) v"
  by (cases v) (simp_all add: list_all_iff)

lemmas opt_lists =
  strs.read_opt_ser [OF pred_option_list_all] key_ids.read_opt_ser [OF pred_option_list_all]

lemma read_opt_controller:
  "read_opt de_controller (map_option (\<lambda>x. to_value (ser_controller x)) v) = Some v"
  by (rule controller.read_opt_ser) (cases v; simp)

lemma document_json:
  assumes "document_json_ok X d"
  shows "de_did_document X (to_value (ser_did_document d)) = Some d"
    and "to_value (ser_did_document d) \<noteq> JNull" and "json_tree (ser_did_document d)"
proof -
  from assms have ext: "flat_ok document_members (doc_extra d)"
    and vms: "pred_option (list_all (vm_json_ok X)) (doc_verification_method d)"
    and svcs: "pred_option (list_all service_json_ok) (doc_service d)"
    by (simp_all add: document_json_ok_def)
  have d: "ser_did_document d = JObject (document_own d @ doc_extra d)"
    by (simp add: ser_did_document_def document_own_def)
  obtain m where m: "to_value (ser_did_document d) = JObject m"
    "flat_rest document_members m = doc_extra d"
    "map_of m = map_of (map (\<lambda>(k, v). (k, to_value v)) (document_own d) @ doc_extra d)"
    unfolding d by (rule struct_members [OF ext document_own_keys])
  have "list_all (\<lambda>k. map_of (doc_extra d) k = None) document_members"
    using flat_ok_lookup [OF ext] by (simp add: list_all_iff)
  note none = this [unfolded document_members_def, simplified]
  show "de_did_document X (to_value (ser_did_document d)) = Some d"
    using none unfolding m(1)
    by (simp add: de_did_document_def m(2,3) document_own_def opt_members
        doc_context.read_req_ser did_string.read_req_ser opt_lists read_opt_controller
        vms.read_opt_ser [OF vms] services.read_opt_ser [OF svcs] del: map_of_append)
  show "to_value (ser_did_document d) \<noteq> JNull" by (simp add: m(1))
  show "json_tree (ser_did_document d)"
    using flat_ok_tree [OF ext] vms.opt_tree [OF vms] services.opt_tree [OF svcs]
    by (simp add: d document_own_def doc_context.ser_tree did_string.ser_tree
        strs.opt_tree [OF pred_option_list_all] key_ids.opt_tree [OF pred_option_list_all]
        controller.opt_tree option.pred_True)
qed

interpretation document: json_codec "document_json_ok X" ser_did_document "de_did_document X" for X
  using document_json by unfold_locales

definition metadata_own :: "did_document_metadata \<Rightarrow> (string \<times> json) list" where
  "metadata_own m =
     opt_member ''created'' JString (dm_created m) @
     opt_member ''updated'' JString (dm_updated m) @
     opt_member ''deactivated'' JBool (dm_deactivated m) @
     opt_member ''versionId'' JString (dm_version_id m) @
     opt_member ''nextUpdate'' JString (dm_next_update m) @
     opt_member ''nextVersionId'' JString (dm_next_version_id m) @
     opt_member ''equivalentId'' (ser_list JString) (dm_equivalent_id m) @
     opt_member ''canonicalId'' JString (dm_canonical_id m)"

lemma metadata_own_keys:
  "fst ` set (metadata_own m) \<subseteq> set metadata_members" "distinct (map fst (metadata_own m))"
  by (simp_all add: metadata_own_def metadata_members_def opt_members image_Un)

lemma read_opt_bool: "read_opt json_bool (map_option JBool v) = Some v"
  by (cases v) (simp_all add: read_opt_def)

lemma metadata_json:
  assumes "metadata_json_ok m"
  shows "de_metadata (to_value (ser_metadata m)) = Some m"
    and "to_value (ser_metadata m) \<noteq> JNull" and "json_tree (ser_metadata m)"
proof -
  from assms have ext: "flat_ok metadata_members (dm_extra m)" by (simp add: metadata_json_ok_def)
  have d: "ser_metadata m = JObject (metadata_own m @ dm_extra m)"
    by (simp add: ser_metadata_def metadata_own_def)
  obtain es where es: "to_value (ser_metadata m) = JObject es"
    "flat_rest metadata_members es = dm_extra m"
    "map_of es = map_of (map (\<lambda>(k, v). (k, to_value v)) (metadata_own m) @ dm_extra m)"
    unfolding d by (rule struct_members [OF ext metadata_own_keys])
  have "list_all (\<lambda>k. map_of (dm_extra m) k = None) metadata_members"
    using flat_ok_lookup [OF ext] by (simp add: list_all_iff)
  note none = this [unfolded metadata_members_def, simplified]
  show "de_metadata (to_value (ser_metadata m)) = Some m"
    using none unfolding es(1)
    by (simp add: de_metadata_def es(2,3) metadata_own_def opt_members
        opt_lists read_opt_text read_opt_bool del: map_of_append)
  show "to_value (ser_metadata m) \<noteq> JNull" by (simp add: es(1))
  show "json_tree (ser_metadata m)"
    using flat_ok_tree [OF ext]
    by (simp add: d metadata_own_def strs.opt_tree [OF pred_option_list_all] str.opt_tree flag.opt_tree
        option.pred_True)
qed

interpretation metadata: json_codec metadata_json_ok ser_metadata de_metadata
  using metadata_json by unfold_locales

section \<open>Properties\<close>

text \<open>
  C11. A DID document survives its JSON form: the text that \<open>serde_json::to_string\<close> writes for a valid
  document is read as a JSON value from which \<open>parse_did_document\<close> makes that document again, with its
  service endpoints normalised, whatever optional members, keys and services it has. Its keys must be
  valid, no extension may have the name of a member of its own struct, the numbers in extensions and
  endpoints must be 64-bit integers, and the JSON form as a whole may be nested at most 127 deep, beyond which
  \<open>serde_json\<close> refuses to read what it wrote.
\<close>

theorem document_json_roundtrip:
  assumes "json_crate_ok X" and "document_json_ok X d" and "did_document_validate X d = Inr ()"
    and "json_within 127 (ser_did_document d)"
  shows "\<exists>v. json_from_str X (json_to_string X (ser_did_document d)) = Some v \<and>
    de_did_document X v = Some d \<and>
    parse_document_value X txt v = Inr (with_normalized_service_endpoints X d)"
proof (intro exI conjI)
  show "json_from_str X (json_to_string X (ser_did_document d)) = Some (to_value (ser_did_document d))"
    using assms(1) document.ser_tree [OF assms(2)] assms(4) by (rule serde_json_crate.from_to_value)
  show de: "de_did_document X (to_value (ser_did_document d)) = Some d"
    by (rule document.de_ser [OF assms(2)])
  show "parse_document_value X txt (to_value (ser_did_document d)) =
      Inr (with_normalized_service_endpoints X d)"
    by (simp add: parse_document_value_def parse_did_document_def from_value_def de assms(3))
qed

text \<open>A document with one key, and an extension.\<close>

definition ex_document :: did_document where
  "ex_document =
     \<lparr>doc_context = default_context, doc_id = DidString ''did:x:1'', doc_also_known_as = None,
      doc_controller = None,
      doc_verification_method = Some [\<lparr>vm_id = DidKeyId ''did:x:1#k'', vm_type = JsonWebKey,
        vm_controller = DidString ''did:x:1'', vm_public_key_jwk = ex_jwk\<rparr>],
      doc_authentication = Some [DidKeyId ''#k''], doc_assertion_method = None,
      doc_key_agreement = None, doc_capability_invocation = None, doc_capability_delegation = None,
      doc_service = None, doc_extra = [(''note'', JNull)]\<rparr>"

lemma ex_document_ok:
  "document_json_ok ref_crates ex_document" "did_document_validate ref_crates ex_document = Inr ()"
proof -
  show "document_json_ok ref_crates ex_document"
    using ex_jwk_profile
    by (simp add: document_json_ok_def ex_document_def vm_json_ok_def jwk_json_ok_def flat_ok_def
        ex_jwk_def document_members_def jwk_members_def jwk_validate_iff [OF ref_crates_ok(1)])
  show "did_document_validate ref_crates ex_document = Inr ()"
    by (simp add: ex_document_def did_document_validate_def document_issues_def Let_def
        with_normalized_service_endpoints_def canonicalize_id_def check_relation_def issues_result_def
        starts_with_def strip_prefix_def)
qed

lemma ex_document_within: "json_within 127 (ser_did_document ex_document)"
  by (simp add: ex_document_def ser_did_document_def opt_member_def ser_list_def ser_vm_def ser_jwk_def
      ser_did_string_def ser_key_id_def ex_jwk_def default_context_def)

theorem document_json_roundtrip_witness:
  "\<exists>v. json_from_str ref_crates (json_to_string ref_crates (ser_did_document ex_document)) = Some v \<and>
    de_did_document ref_crates v = Some ex_document"
  using document_json_roundtrip [OF ref_crates_ok(3) ex_document_ok ex_document_within] by blast

lemma json_list_mem: "json_list f v = Some xs \<Longrightarrow> x \<in> set xs \<Longrightarrow> \<exists>w. f w = Some x"
proof (cases v)
  case (JArray vs)
  show "json_list f v = Some xs \<Longrightarrow> x \<in> set xs \<Longrightarrow> \<exists>w. f w = Some x"
    unfolding JArray by (induction vs arbitrary: xs) (auto split: option.splits)
qed simp_all

lemma read_opt_Some: "read_opt f v = Some (Some x) \<Longrightarrow> \<exists>w. f w = Some x"
  by (auto simp: read_opt_def split: option.splits if_splits)

lemma de_jwk_valid:
  assumes "de_jwk X v = Some j"
  shows "jwk_validate X j = Inr () \<and> map_of (jwk_extensions j) ''d'' = None"
proof -
  from assms obtain w where w: "(case jwk_try_from X w of Inr j \<Rightarrow> Some j | Inl e \<Rightarrow> None) = Some j"
    by (auto simp: de_jwk_def bind_eq_Some_conv)
  then have "jwk_try_from X w = Inr j" by (cases "jwk_try_from X w") simp_all
  then have j: "jwk_validate X j = Inr ()" by (auto simp: jwk_try_from_def jwk_new_def Let_def result_simps)
  then have "jwk_collect_issues X j = []" by (simp add: jwk_validate_def result_simps)
  then show ?thesis using j by (auto simp: jwk_collect_issues_def split: if_splits)
qed

lemma de_vm_valid:
  "de_vm X v = Some m \<Longrightarrow> jwk_validate X (vm_public_key_jwk m) = Inr () \<and>
     map_of (jwk_extensions (vm_public_key_jwk m)) ''d'' = None"
  by (auto simp: de_vm_def bind_eq_Some_conv split: option.splits list.splits dest: de_jwk_valid)

lemma de_did_document_vms:
  "de_did_document X v = Some d \<Longrightarrow> m \<in> set (opt_list (doc_verification_method d)) \<Longrightarrow>
     \<exists>w. de_vm X w = Some m"
  by (auto simp: de_did_document_def bind_eq_Some_conv opt_list_def split: option.splits
      dest!: read_opt_Some json_list_mem)

text \<open>
  C12. JSON is no way around the checks on keys: every verification method of a document that
  \<open>parse_did_document\<close> accepts, and every one that \<open>parse_verification_method\<close> accepts, has a key that
  \<open>PublicKeyJwk::new\<close> accepts; in particular none carries the private member \<open>d\<close>.
\<close>

theorem parsed_keys_are_valid:
  "(parse_document_value X txt v = Inr d \<longrightarrow>
      list_all (\<lambda>m. jwk_validate X (vm_public_key_jwk m) = Inr () \<and>
        map_of (jwk_extensions (vm_public_key_jwk m)) ''d'' = None)
      (opt_list (doc_verification_method d))) \<and>
   (parse_method_value X txt v = Inr m \<longrightarrow>
      jwk_validate X (vm_public_key_jwk m) = Inr () \<and>
      map_of (jwk_extensions (vm_public_key_jwk m)) ''d'' = None)"
proof (intro conjI impI)
  assume "parse_document_value X txt v = Inr d"
  then obtain d' where "de_did_document X v = Some d'"
    and "doc_verification_method d = doc_verification_method d'"
    by (auto simp: parse_document_value_def parse_did_document_def from_value_def result_simps
        with_normalized_service_endpoints_def)
  then show "list_all (\<lambda>m. jwk_validate X (vm_public_key_jwk m) = Inr () \<and>
        map_of (jwk_extensions (vm_public_key_jwk m)) ''d'' = None) (opt_list (doc_verification_method d))"
    using de_did_document_vms de_vm_valid unfolding list_all_iff by metis
next
  assume "parse_method_value X txt v = Inr m"
  then have "de_vm X v = Some m"
    by (auto simp: parse_method_value_def parse_verification_method_def from_value_def result_simps)
  then show "jwk_validate X (vm_public_key_jwk m) = Inr ()"
    and "map_of (jwk_extensions (vm_public_key_jwk m)) ''d'' = None"
    using de_vm_valid by blast+
qed

theorem parsed_keys_are_valid_witness:
  "\<exists>v d. parse_document_value ref_crates (\<lambda>_. []) v = Inr d \<and>
     list_all (\<lambda>m. jwk_validate ref_crates (vm_public_key_jwk m) = Inr ())
       (opt_list (doc_verification_method d)) \<and> doc_verification_method d \<noteq> None"
proof -
  let ?d = "with_normalized_service_endpoints ref_crates ex_document"
  have p: "parse_document_value ref_crates (\<lambda>_. []) (to_value (ser_did_document ex_document)) = Inr ?d"
    using document.de_ser [OF ex_document_ok(1)] ex_document_ok(2)
    by (simp add: parse_document_value_def parse_did_document_def from_value_def)
  moreover have "doc_verification_method ?d \<noteq> None"
    by (simp add: with_normalized_service_endpoints_def ex_document_def)
  ultimately show ?thesis
    using parsed_keys_are_valid [THEN conjunct1, THEN mp, OF p] unfolding list_all_iff by blast
qed

lemma collect_issues_extensions:
  assumes "map_of e ''d'' = None" and "map_of (jwk_extensions j) ''d'' = None"
  shows "jwk_collect_issues X (j\<lparr>jwk_extensions := e\<rparr>) = jwk_collect_issues X j"
proof -
  have sel: "jwk_kty (j\<lparr>jwk_extensions := e\<rparr>) = jwk_kty j" "jwk_crv (j\<lparr>jwk_extensions := e\<rparr>) = jwk_crv j"
    "jwk_x (j\<lparr>jwk_extensions := e\<rparr>) = jwk_x j" "jwk_y (j\<lparr>jwk_extensions := e\<rparr>) = jwk_y j"
    "jwk_extensions (j\<lparr>jwk_extensions := e\<rparr>) = e"
    by simp_all
  show ?thesis
    unfolding jwk_collect_issues_def sel by (simp only: assms simp_thms if_False)
qed

text \<open>
  An extension can replace a member of a key. \<open>PublicKeyJwk::new\<close> only refuses the extension \<open>d\<close>:
  a valid key with an extension \<open>x\<close> is accepted, and in the JSON value of that key the extension has
  overwritten the coordinate, so what is published and read back is the other key.
\<close>

theorem extension_replaces_coordinate:
  assumes "jwk_validate X j = Inr ()" and "jwk_extensions j = []"
    and "jwk_validate X (j\<lparr>jwk_x := x'\<rparr>) = Inr ()"
  shows "jwk_validate X (j\<lparr>jwk_extensions := [(''x'', JString x')]\<rparr>) = Inr () \<and>
    de_jwk X (to_value (ser_jwk (j\<lparr>jwk_extensions := [(''x'', JString x')]\<rparr>))) =
      Some (j\<lparr>jwk_x := x'\<rparr>)"
proof
  show "jwk_validate X (j\<lparr>jwk_extensions := [(''x'', JString x')]\<rparr>) = Inr ()"
    using assms(1,2) by (simp add: jwk_validate_def collect_issues_extensions)
  let ?es = "[(''kty'', to_value (ser_key_type (jwk_kty j))),
      (''crv'', to_value (ser_curve_type (jwk_crv j))), (''x'', JString (jwk_x j))] @
    opt_member ''y'' JString (jwk_y j) @ [(''x'', JString x')]"
  have v: "to_value (ser_jwk (j\<lparr>jwk_extensions := [(''x'', JString x')]\<rparr>)) = JObject (bt_collect ?es)"
    by (simp add: ser_jwk_def opt_member_values)
  have look: "map_of (bt_collect ?es) ''x'' = Some (JString x')"
    "map_of (bt_collect ?es) ''kty'' = Some (to_value (ser_key_type (jwk_kty j)))"
    "map_of (bt_collect ?es) ''crv'' = Some (to_value (ser_curve_type (jwk_crv j)))"
    "map_of (bt_collect ?es) ''y'' = map_option JString (jwk_y j)"
    unfolding map_of_collect by (cases "jwk_y j"; simp add: opt_member_def)+
  have "flat_rest jwk_members (bt_collect ?es) = []"
    unfolding flat_rest_collect by (cases "jwk_y j"; simp add: opt_member_def jwk_members_def bt_collect_def)
  then have "de_jwk_wire (JObject (bt_collect ?es)) =
      Some \<lparr>jw_kty = jwk_kty j, jw_crv = jwk_crv j, jw_x = x', jw_y = jwk_y j, jw_extensions = []\<rparr>"
    by (simp add: de_jwk_wire_def look key_type.codec_simps curve_type.codec_simps read_opt_text
        read_req_def del: append.simps)
  then show "de_jwk X (to_value (ser_jwk (j\<lparr>jwk_extensions := [(''x'', JString x')]\<rparr>))) =
      Some (j\<lparr>jwk_x := x'\<rparr>)"
    using assms(2,3) unfolding v
    by (cases j) (simp add: de_jwk_def jwk_try_from_def jwk_new_def Let_def)
qed

theorem extension_replaces_coordinate_witness:
  "jwk_validate ref_crates (ex_jwk\<lparr>jwk_extensions := [(''x'',
     JString (encode_base64url ref_crates (replicate 32 9)))]\<rparr>) = Inr () \<and>
   de_jwk ref_crates (to_value (ser_jwk (ex_jwk\<lparr>jwk_extensions := [(''x'',
     JString (encode_base64url ref_crates (replicate 32 9)))]\<rparr>))) =
     Some (ex_jwk\<lparr>jwk_x := encode_base64url ref_crates (replicate 32 9)\<rparr>)"
proof (rule extension_replaces_coordinate)
  note iff = jwk_validate_iff [OF ref_crates_ok(1)]
  show "jwk_validate ref_crates ex_jwk = Inr ()" using ex_jwk_profile by (simp add: iff)
  show "jwk_extensions ex_jwk = []" by (simp add: ex_jwk_def)
  show "jwk_validate ref_crates (ex_jwk\<lparr>jwk_x := encode_base64url ref_crates (replicate 32 9)\<rparr>) = Inr ()"
    by (simp add: iff jwk_profile_def ex_jwk_def canonical_b64_def exI [of _ "replicate 32 9"])
qed

text \<open>
  The identifiers of a document are not checked when it is parsed: \<open>parse_did_document\<close> accepts any
  string as the subject, also one that \<open>parse_did\<close> refuses, because the reader of \<open>DidString\<close> is
  transparent and the validation of a document compares identifiers but never looks at their form.
\<close>

theorem parsed_subject_is_unchecked:
  "\<exists>d. parse_document_value X txt (JObject [(''@context'', JString c), (''id'', JString s)]) = Inr d \<and>
     doc_id d = DidString s \<and> (parse_did s = Inr (doc_id d) \<longleftrightarrow> is_did_string s)"
proof -
  let ?d = "\<lparr>doc_context = ContextOne c, doc_id = DidString s, doc_also_known_as = None,
    doc_controller = None, doc_verification_method = None, doc_authentication = None,
    doc_assertion_method = None, doc_key_agreement = None, doc_capability_invocation = None,
    doc_capability_delegation = None, doc_service = None, doc_extra = []\<rparr>"
  have "de_did_document X (JObject [(''@context'', JString c), (''id'', JString s)]) = Some ?d"
    by (simp add: de_did_document_def read_req_def read_opt_def de_did_string_def flat_rest_def
        document_members_def)
  moreover have "did_document_validate X ?d = Inr ()"
    by (simp add: did_document_validate_def document_issues_def Let_def check_relation_def
        with_normalized_service_endpoints_def issues_result_def)
  ultimately show ?thesis
    by (simp add: parse_document_value_def parse_did_document_def from_value_def
        with_normalized_service_endpoints_def parse_did_def did_string_parse_def)
qed

end
