(* ===== verification/Ffi.thy ===== *)
theory Ffi
  imports Operations Resolution Document_Json
begin

text \<open>
  The foreign-function interface, \<open>midnight-did-uniffi/src\<close>: the flat error enum (\<open>error.rs\<close>), the
  service handle (\<open>handle.rs\<close>) and the five exported functions (\<open>api.rs\<close>). A handle owns a contract
  over the recording backend and an in-memory private-state store; its mutex makes the calls on one
  handle a sequence, so a session is a list of requests served one after the other. Responses are the
  texts \<open>serde_json::to_string\<close> writes; it cannot fail on these types, whose maps have string keys.
\<close>

section \<open>Errors\<close>

datatype flat_error =
    FlatInvalidInput string
  | FlatContract string
  | FlatValidation string
  | FlatSerde string
  | FlatNotFound string

fun flat_error_text :: "flat_error \<Rightarrow> string" where
  "flat_error_text (FlatInvalidInput m) = ''invalid input: '' @ m"
| "flat_error_text (FlatContract m) = ''contract error: '' @ m"
| "flat_error_text (FlatValidation m) = ''validation error: '' @ m"
| "flat_error_text (FlatSerde m) = ''serde error: '' @ m"
| "flat_error_text (FlatNotFound m) = ''not found: '' @ m"

fun flat_error_message :: "flat_error \<Rightarrow> string" where
  "flat_error_message (FlatInvalidInput m) = m"
| "flat_error_message (FlatContract m) = m"
| "flat_error_message (FlatValidation m) = m"
| "flat_error_message (FlatSerde m) = m"
| "flat_error_message (FlatNotFound m) = m"

fun flat_of_api :: "api_error \<Rightarrow> flat_error" where
  "flat_of_api (ApiVerification (RelationAlreadyContains r m)) =
     FlatValidation (''relation '' @ r @ '' already contains verification method '' @ m)"
| "flat_of_api (ApiVerification (RelationMissing r m)) =
     FlatValidation (''relation '' @ r @ '' does not contain verification method '' @ m)"
| "flat_of_api (ApiController (RotationOrphaned m)) =
     FlatContract (''controller rotation orphaned: '' @ m)"
| "flat_of_api (ApiController InvalidSecretKey) =
     FlatInvalidInput ''DID controller secret key must be 32 bytes''"
| "flat_of_api (ApiController (ControllerSubjectMismatch e)) =
     FlatValidation (''verificationMethod.controller must equal DID subject ('' @ e @ '')'')"
| "flat_of_api (ApiContract e) = FlatContract (contract_error_text e)"
| "flat_of_api (ApiValidation e) = FlatValidation (validation_error_text e)"
| "flat_of_api (ApiCodec e) = FlatInvalidInput (codec_error_text e)"
| "flat_of_api (ApiLedgerUtils e) = FlatValidation (ledger_utils_error_text e)"
| "flat_of_api (ApiMidnightDid e) = FlatValidation (midnight_did_error_text e)"
| "flat_of_api MissingPrivateState =
     FlatInvalidInput ''DID controller private state is missing or malformed''"
| "flat_of_api (InvalidArgument m) = FlatInvalidInput m"
| "flat_of_api (Encoding m) = FlatSerde m"
| "flat_of_api (Mapping m) = FlatSerde m"

text \<open>\<open>From<hex::FromHexError>\<close>.\<close>

definition flat_of_hex :: "string \<Rightarrow> flat_error" where
  "flat_of_hex err = FlatInvalidInput (''hex decode failed: '' @ err)"

definition decode_hex_32 :: "crates \<Rightarrow> string \<Rightarrow> string \<Rightarrow> flat_error + bytes" where
  "decode_hex_32 X input param =
     res_bind (map_err flat_of_hex (hex_decode X input)) (\<lambda>bs.
       if length bs \<noteq> 32
       then Inl (FlatInvalidInput
         (param @ '' must be exactly 32 bytes (got '' @ show_nat (length bs) @ '')''))
       else Inr bs)"

section \<open>The handle\<close>

definition default_address :: string where
  "default_address = ''cccccccccccccccccccccccccccccccccccccccccccccccccccccccccccccccc''"

text \<open>
  The contract of a handle is fixed; its state is that of the backend and of the store. None is the
  panic of \<open>expect\<close> on the constant address.
\<close>

definition handle_contract ::
    "crates \<Rightarrow> serde \<Rightarrow> ('raw recording, 'raw) contract option" where
  "handle_contract X S =
     (case parse_contract_address X default_address of
        Inl e \<Rightarrow> None
      | Inr a \<Rightarrow> Some \<lparr>ct_backend = recording_backend X S, ct_address = a, ct_network = Testnet\<rparr>)"

type_synonym 'raw handle_state = "'raw recording \<times> in_memory"

definition handle_new :: "'raw \<Rightarrow> 'raw handle_state" where
  "handle_new st0 = (recording_new st0, in_memory_new)"

definition handle_contract_address :: string where
  "handle_contract_address = default_address"

definition handle_network :: string where
  "handle_network = as_wire_str Testnet"

section \<open>The exported functions\<close>

definition create_did_response :: "string \<Rightarrow> string \<Rightarrow> json" where
  "create_did_response did pk_hex =
     JObject [(''did'', JString did), (''controller_public_key_hex'', JString pk_hex)]"

definition rotate_response :: "string \<Rightarrow> finalized_tx_data \<Rightarrow> json" where
  "rotate_response did f =
     JObject [(''did'', JString did), (''tx_hash'', JString (tx_hash f)),
              (''block_height'', JNumber (show_nat (unat (block_height f))))]"

definition resolve_response :: "resolved_midnight_did \<Rightarrow> json" where
  "resolve_response r =
     JObject [(''did_document'', ser_did_document (rd_document r)),
              (''did_document_metadata'', ser_metadata (rd_metadata r))]"

definition ffi_create_did ::
    "crates \<Rightarrow> ('raw recording, 'raw) contract \<Rightarrow> string \<Rightarrow> string \<Rightarrow>
     ('raw handle_state, flat_error, string) io" where
  "ffi_create_did X c seed_hex pk_hex =
     io_bind (io_lift (decode_hex_32 X seed_hex ''seed_hex'')) (\<lambda>seed.
     io_bind (io_lift (decode_hex_32 X pk_hex ''controller_public_key_hex'')) (\<lambda>pk.
     io_bind (io_map_err flat_of_api (on_store (create_did X c in_memory_store seed))) (\<lambda>state.
     io_bind (io_lift (map_err flat_of_api (get_did_subject X c))) (\<lambda>did_subject.
       io_lift (Inr (json_to_string X (create_did_response did_subject pk_hex)))))))"

definition ffi_rotate_controller_key ::
    "crates \<Rightarrow> serde \<Rightarrow> ('raw recording, 'raw) contract \<Rightarrow> string \<Rightarrow> string \<Rightarrow> string \<Rightarrow>
     ('raw handle_state, flat_error, string) io" where
  "ffi_rotate_controller_key X S c did_subject new_secret_key_hex new_controller_public_key_hex =
     io_bind (io_lift (decode_hex_32 X new_secret_key_hex ''new_secret_key_hex'')) (\<lambda>new_sk.
     io_bind (io_lift (decode_hex_32 X new_controller_public_key_hex ''new_controller_public_key_hex''))
       (\<lambda>new_pk.
     io_bind (io_map_err flat_of_api (rotate_controller_key S c in_memory_store new_sk new_pk)) (\<lambda>result.
       io_lift (Inr (json_to_string X (rotate_response did_subject result))))))"

definition ffi_recover_controller_key ::
    "crates \<Rightarrow> serde \<Rightarrow> ('raw recording, 'raw) contract \<Rightarrow> string \<Rightarrow> string \<Rightarrow> string \<Rightarrow>
     ('raw handle_state, flat_error, string) io" where
  "ffi_recover_controller_key X S c did_subject new_secret_key_hex new_controller_public_key_hex =
     io_bind (io_lift (decode_hex_32 X new_secret_key_hex ''new_secret_key_hex'')) (\<lambda>new_sk.
     io_bind (io_lift (decode_hex_32 X new_controller_public_key_hex ''new_controller_public_key_hex''))
       (\<lambda>new_pk.
     io_bind (io_map_err flat_of_api (recover_controller_key S c in_memory_store new_sk new_pk)) (\<lambda>result.
       io_lift (Inr (json_to_string X (rotate_response did_subject result))))))"

definition ffi_resolve_did ::
    "crates \<Rightarrow> ('raw recording, 'raw) contract \<Rightarrow> string \<Rightarrow> ('raw handle_state, flat_error, string) io"
  where
  "ffi_resolve_did X c did_subject =
     io_bind (io_map_err flat_of_api (on_contract (resolve X c))) (\<lambda>resolved.
       case resolved of
         Some r \<Rightarrow> io_lift (Inr (json_to_string X (resolve_response r)))
       | None \<Rightarrow> io_lift (Inl (FlatNotFound (''no live DID state for subject '' @ did_subject))))"

definition ffi_deactivate ::
    "crates \<Rightarrow> serde \<Rightarrow> ('raw recording, 'raw) contract \<Rightarrow> string \<Rightarrow>
     ('raw handle_state, flat_error, string) io" where
  "ffi_deactivate X S c did_subject =
     io_bind (io_map_err flat_of_api (on_contract (deactivate_did S c))) (\<lambda>result.
       io_lift (Inr (json_to_string X (rotate_response did_subject result))))"

section \<open>Sessions\<close>

datatype ffi_request =
    CreateRequest string string
  | RotateRequest string string string
  | RecoverRequest string string string
  | ResolveRequest string
  | DeactivateRequest string

fun serve ::
    "crates \<Rightarrow> serde \<Rightarrow> ('raw recording, 'raw) contract \<Rightarrow> ffi_request \<Rightarrow>
     ('raw handle_state, flat_error, string) io" where
  "serve X S c (CreateRequest seed pk) = ffi_create_did X c seed pk"
| "serve X S c (RotateRequest did sk pk) = ffi_rotate_controller_key X S c did sk pk"
| "serve X S c (RecoverRequest did sk pk) = ffi_recover_controller_key X S c did sk pk"
| "serve X S c (ResolveRequest did) = ffi_resolve_did X c did"
| "serve X S c (DeactivateRequest did) = ffi_deactivate X S c did"

text \<open>A failed request ends with its error; the session goes on.\<close>

fun session :: "('q \<Rightarrow> ('h, 'e, 'a) io) \<Rightarrow> 'q list \<Rightarrow> 'h \<Rightarrow> ('e + 'a) list \<times> 'h" where
  "session f [] h = ([], h)"
| "session f (q # qs) h =
     (let (r, h1) = f q h; (rs, h2) = session f qs h1 in (r # rs, h2))"

text \<open>
  The contract between a service and its sessions: every request keeps the invariant, acts on the view
  as its specification says, and succeeds exactly when the specification answers it in that view.
\<close>

locale request_service =
  fixes f :: "'q \<Rightarrow> ('h, 'e, 'a) io" and inv :: "'h \<Rightarrow> bool" and view :: "'h \<Rightarrow> 'v"
    and step :: "'q \<Rightarrow> 'v \<Rightarrow> 'v" and answered :: "'q \<Rightarrow> 'v \<Rightarrow> bool"
  assumes keeps_inv: "inv h \<Longrightarrow> inv (snd (f q h))"
    and view_step: "inv h \<Longrightarrow> view (snd (f q h)) = step q (view h)"
    and answer: "inv h \<Longrightarrow> is_ok (fst (f q h)) = answered q (view h)"

fun spec_session :: "('q \<Rightarrow> 'v \<Rightarrow> 'v) \<Rightarrow> ('q \<Rightarrow> 'v \<Rightarrow> bool) \<Rightarrow> 'q list \<Rightarrow> 'v \<Rightarrow> bool list \<times> 'v" where
  "spec_session step answered [] v = ([], v)"
| "spec_session step answered (q # qs) v =
     (let (bs, v') = spec_session step answered qs (step q v) in (answered q v # bs, v'))"

context request_service
begin

lemma session_inv: "inv h \<Longrightarrow> inv (snd (session f qs h))"
proof (induction qs arbitrary: h)
  case (Cons q qs)
  then show ?case using keeps_inv [of h q] by (simp add: case_prod_beta Let_def)
qed simp

lemma session_refines:
  "inv h \<Longrightarrow> (map is_ok (fst (session f qs h)), view (snd (session f qs h))) =
     spec_session step answered qs (view h)"
proof (induction qs arbitrary: h)
  case (Cons q qs)
  from Cons.IH [OF keeps_inv [OF Cons.prems, of q]] Cons.prems show ?case
    by (simp add: case_prod_beta Let_def answer view_step prod_eq_iff)
qed simp

end

text \<open>
  What a session promises: the controller secret is the seed of the first accepted creation, until an
  accepted rotation or recovery replaces it; the calls are those of the accepted requests, in order.
\<close>

definition accepted :: "crates \<Rightarrow> string \<Rightarrow> string \<Rightarrow> (bytes \<times> bytes) option" where
  "accepted X a b =
     (case (hex_decode X a, hex_decode X b) of
        (Inr s, Inr p) \<Rightarrow> if length s = 32 \<and> length p = 32 then Some (s, p) else None
      | _ \<Rightarrow> None)"

fun spec_request ::
    "crates \<Rightarrow> ffi_request \<Rightarrow> bytes option \<times> did_contract_call list \<Rightarrow>
     bytes option \<times> did_contract_call list" where
  "spec_request X (CreateRequest seed pk) (k, cs) =
     (case accepted X seed pk of
        Some (s, _) \<Rightarrow> (Some (case k of Some old \<Rightarrow> old | None \<Rightarrow> s), cs) | None \<Rightarrow> (k, cs))"
| "spec_request X (RotateRequest did sk pk) (k, cs) =
     (case accepted X sk pk of
        Some (s, p) \<Rightarrow> (Some s, cs @ [RotateControllerKey p]) | None \<Rightarrow> (k, cs))"
| "spec_request X (RecoverRequest did sk pk) (k, cs) =
     (case accepted X sk pk of
        Some (s, p) \<Rightarrow> (Some s, cs @ [RecoverControllerKey p]) | None \<Rightarrow> (k, cs))"
| "spec_request X (ResolveRequest did) (k, cs) = (k, cs)"
| "spec_request X (DeactivateRequest did) (k, cs) = (k, cs @ [Deactivate])"

text \<open>The abstraction: the active secret and the submitted calls; and the invariant of a handle.\<close>

definition handle_view :: "'raw handle_state \<Rightarrow> bytes option \<times> did_contract_call list" where
  "handle_view h = (map_option secret_key (im_slots (snd h) ActiveSlot), submitted (fst h))"

definition handle_inv :: "'raw handle_state \<Rightarrow> bool" where
  "handle_inv h \<longleftrightarrow>
     rec_snapshot (fst h) = snapshot_default \<and> check_address (snd h) = Inr () \<and>
     im_slots (snd h) PendingSlot = None"

section \<open>Sessions implement their specification\<close>

text \<open>Whether a request is answered. No call reaches the snapshot a handle reads, so it always resolves.\<close>

fun spec_answered :: "crates \<Rightarrow> ffi_request \<Rightarrow> bool" where
  "spec_answered X (CreateRequest seed pk) \<longleftrightarrow> accepted X seed pk \<noteq> None"
| "spec_answered X (RotateRequest did sk pk) \<longleftrightarrow> accepted X sk pk \<noteq> None"
| "spec_answered X (RecoverRequest did sk pk) \<longleftrightarrow> accepted X sk pk \<noteq> None"
| "spec_answered X (ResolveRequest did) \<longleftrightarrow> True"
| "spec_answered X (DeactivateRequest did) \<longleftrightarrow> True"

lemma decode_hex_32_iff: "decode_hex_32 X s l = Inr bs \<longleftrightarrow> hex_decode X s = Inr bs \<and> length bs = 32"
  by (auto simp: decode_hex_32_def result_simps)

lemma decode_both:
  obtains s p where "accepted X a b = Some (s, p)" and "decode_hex_32 X a l = Inr s"
      and "decode_hex_32 X b m = Inr p" and "length s = 32" and "length p = 32"
  | e where "accepted X a b = None" and "decode_hex_32 X a l = Inl e"
  | s e where "accepted X a b = None" and "decode_hex_32 X a l = Inr s" and "decode_hex_32 X b m = Inl e"
proof (cases "decode_hex_32 X a l")
  case a: (Inl e)
  have "accepted X a b = None"
    using decode_hex_32_iff [of X a l] a by (auto simp: accepted_def split: sum.splits)
  then show thesis using a by (rule that(2))
next
  case a: (Inr s)
  then have s: "hex_decode X a = Inr s" "length s = 32" by (simp_all add: decode_hex_32_iff)
  show thesis
  proof (cases "decode_hex_32 X b m")
    case b: (Inl e)
    have "accepted X a b = None"
      using decode_hex_32_iff [of X b m] b by (auto simp: accepted_def s split: sum.splits)
    then show thesis using a b by (rule that(3))
  next
    case b: (Inr p)
    then have p: "hex_decode X b = Inr p" "length p = 32" by (simp_all add: decode_hex_32_iff)
    then have "accepted X a b = Some (s, p)" using s by (simp add: accepted_def)
    then show thesis using a b s(2) p(2) by (rule that(1))
  qed
qed

text \<open>One request keeps the invariant and does what the specification says.\<close>

definition serves ::
    "crates \<Rightarrow> ffi_request \<Rightarrow> 'raw handle_state \<Rightarrow> (flat_error + string) \<times> 'raw handle_state \<Rightarrow> bool" where
  "serves X q h out \<longleftrightarrow>
     handle_inv (snd out) \<and> handle_view (snd out) = spec_request X q (handle_view h) \<and>
     is_ok (fst out) = spec_answered X q"

lemma serves_rejected:
  assumes "handle_inv h" and "accepted X a b = None"
  shows "serves X (CreateRequest a b) h (Inl e, h)"
    and "serves X (RotateRequest did a b) h (Inl e, h)"
    and "serves X (RecoverRequest did a b) h (Inl e, h)"
  using assms by (cases "handle_view h"; simp add: serves_def)+

lemma create_in_memory:
  assumes "check_address s = Inr ()"
  shows "\<exists>st s'. create_did X c in_memory_store sk s = (Inr st, s') \<and> check_address s' = Inr () \<and>
    im_slots s' = (im_slots s)(ActiveSlot \<mapsto>
      (case im_slots s ActiveSlot of Some old \<Rightarrow> old | None \<Rightarrow> \<lparr>secret_key = sk\<rparr>))"
  using assms
  by (cases "im_slots s ActiveSlot")
    (auto simp: create_did_def init_private_state_def restore_private_state_def in_memory_store_def
      in_memory_get_def in_memory_set_def in_memory_set_address_def check_address_def io_bind_def
      io_lift_def bind_private_state_provider_def Let_def split: if_splits)

lemma serves_create:
  assumes "handle_inv h"
  shows "serves X (CreateRequest seed pk) h (ffi_create_did X c seed pk h)"
proof (rule decode_both [of X seed pk "''seed_hex''" "''controller_public_key_hex''"])
  fix s p
  assume d: "accepted X seed pk = Some (s, p)" "decode_hex_32 X seed ''seed_hex'' = Inr s"
    "decode_hex_32 X pk ''controller_public_key_hex'' = Inr p"
  obtain b m where h: "h = (b, m)" by force
  from create_in_memory [of m X c s] assms obtain st m' where c: "create_did X c in_memory_store s m = (Inr st, m')"
    "check_address m' = Inr ()" "im_slots m' = (im_slots m)(ActiveSlot \<mapsto>
      (case im_slots m ActiveSlot of Some old \<Rightarrow> old | None \<Rightarrow> \<lparr>secret_key = s\<rparr>))"
    by (auto simp: handle_inv_def h)
  then show ?thesis using assms
    by (simp add: serves_def ffi_create_did_def d h io_bind_def io_map_err_def on_store_def io_lift_def
        get_did_subject_eq handle_inv_def handle_view_def split: option.split)
qed (simp_all add: ffi_create_did_def io_bind_def io_lift_def serves_rejected assms)

text \<open>Rotation and recovery: the key change never fails on this backend and this store.\<close>

lemma key_change_serves:
  assumes "handle_inv h" and "m (fst h) = (Inr f, (fst h)\<lparr>rec_calls := rec_calls (fst h) @ [call]\<rparr>)"
    and "call \<noteq> ReadLedger"
  shows "\<exists>h'. key_change m in_memory_store sk h = (Inr f, h') \<and> handle_inv h' \<and>
    handle_view h' = (Some sk, snd (handle_view h) @ [call])"
proof -
  obtain b s where h: "h = (b, s)" by force
  from bound_store.key_change_ready [OF in_memory.bound_store_axioms, of s m sk b] assms
  show ?thesis by (auto simp: handle_inv_def handle_view_def h submitted_def)
qed

abbreviation recorded_tx :: "crates \<Rightarrow> serde \<Rightarrow> did_contract_call \<Rightarrow> 'raw recording \<Rightarrow> finalized_tx_data" where
  "recorded_tx X S call b \<equiv>
     \<lparr>tx_hash = synth_tx_hash X (call_encode S call),
      block_height = word_of_nat (Suc (length (rec_calls b)))\<rparr>"

lemma submit_serves:
  assumes "serde_ok S" and "ct_backend c = recording_backend X S" and "handle_inv h"
    and "submittable call"
  shows "\<exists>h'. key_change (contract_submit S c call) in_memory_store sk h =
      (Inr (recorded_tx X S call (fst h)), h') \<and>
    handle_inv h' \<and> handle_view h' = (Some sk, snd (handle_view h) @ [call])"
proof -
  from assms(4) have "call_ok call" "call \<noteq> ReadLedger" by (simp_all add: submittable_def)
  from key_change_serves [where m = "contract_submit S c call", OF assms(3)
      recording_exec [OF assms(1,2) this(1), of "fst h"] this(2), of sk]
  show ?thesis by blast
qed

lemma rotate_serves:
  assumes "serde_ok S" and "ct_backend c = recording_backend X S" and "handle_inv h" and "length p = 32"
  shows "\<exists>h'. rotate_controller_key S c in_memory_store sk p h =
        (Inr (recorded_tx X S (RotateControllerKey p) (fst h)), h') \<and> handle_inv h' \<and>
      handle_view h' = (Some sk, snd (handle_view h) @ [RotateControllerKey p])"
    and "\<exists>h'. recover_controller_key S c in_memory_store sk p h =
        (Inr (recorded_tx X S (RecoverControllerKey p) (fst h)), h') \<and> handle_inv h' \<and>
      handle_view h' = (Some sk, snd (handle_view h) @ [RecoverControllerKey p])"
  unfolding rotate_is_key_change contract_methods
  by (rule submit_serves [OF assms(1-3)], simp add: submittable_def assms(4))+

lemma serves_key_request:
  assumes "handle_inv h" and "accepted X a b = Some (s, p)"
    and "k = (\<lambda>p. if rec then RecoverControllerKey p else RotateControllerKey p)"
    and "handle_inv h'" and "handle_view h' = (Some s, snd (handle_view h) @ [k p])"
  shows "serves X (if rec then RecoverRequest did a b else RotateRequest did a b) h (Inr t, h')"
  using assms by (cases "handle_view h") (simp add: serves_def)

lemma serves_rotate:
  assumes "serde_ok S" and "ct_backend c = recording_backend X S" and "handle_inv h"
  shows "serves X (RotateRequest did sk pk) h (ffi_rotate_controller_key X S c did sk pk h)"
proof (rule decode_both [of X sk pk "''new_secret_key_hex''" "''new_controller_public_key_hex''"])
  fix s p
  assume d: "accepted X sk pk = Some (s, p)" "decode_hex_32 X sk ''new_secret_key_hex'' = Inr s"
    "decode_hex_32 X pk ''new_controller_public_key_hex'' = Inr p" "length p = 32"
  from rotate_serves(1) [OF assms d(4), of s] obtain f h' where
    r: "rotate_controller_key S c in_memory_store s p h = (Inr f, h')" "handle_inv h'"
    "handle_view h' = (Some s, snd (handle_view h) @ [RotateControllerKey p])" by blast
  from serves_key_request [OF assms(3) d(1) refl, where rec = False] r show ?thesis
    by (simp add: ffi_rotate_controller_key_def d io_bind_def io_map_err_def io_lift_def)
qed (simp_all add: ffi_rotate_controller_key_def io_bind_def io_lift_def serves_rejected assms(3))

lemma serves_recover:
  assumes "serde_ok S" and "ct_backend c = recording_backend X S" and "handle_inv h"
  shows "serves X (RecoverRequest did sk pk) h (ffi_recover_controller_key X S c did sk pk h)"
proof (rule decode_both [of X sk pk "''new_secret_key_hex''" "''new_controller_public_key_hex''"])
  fix s p
  assume d: "accepted X sk pk = Some (s, p)" "decode_hex_32 X sk ''new_secret_key_hex'' = Inr s"
    "decode_hex_32 X pk ''new_controller_public_key_hex'' = Inr p" "length p = 32"
  from rotate_serves(2) [OF assms d(4), of s] obtain f h' where
    r: "recover_controller_key S c in_memory_store s p h = (Inr f, h')" "handle_inv h'"
    "handle_view h' = (Some s, snd (handle_view h) @ [RecoverControllerKey p])" by blast
  from serves_key_request [OF assms(3) d(1) refl, where rec = True] r show ?thesis
    by (simp add: ffi_recover_controller_key_def d io_bind_def io_map_err_def io_lift_def)
qed (simp_all add: ffi_recover_controller_key_def io_bind_def io_lift_def serves_rejected assms(3))

lemma serves_deactivate:
  assumes "serde_ok S" and "ct_backend c = recording_backend X S" and "handle_inv h"
  shows "serves X (DeactivateRequest did) h (ffi_deactivate X S c did h)"
  using assms(3)
  by (cases "handle_view h", cases h)
    (auto simp: serves_def ffi_deactivate_def deactivate_did_def contract_methods on_contract_def
      recording_exec [OF assms(1,2)] io_bind_def io_map_err_def io_lift_def handle_inv_def
      handle_view_def submitted_def)

text \<open>
  A resolution reads the ledger and answers from what it read. \<open>resolve\<close> never answers None, so the
  answer is the document or a mapping error, and \<open>FlatNotFound\<close> is not reached.
\<close>

lemma ffi_resolve_eq:
  assumes "contract_read_snapshot c b = (Inr st, b')"
  shows "ffi_resolve_did X c did (b, s) =
    (map_err flat_of_api (res_bind
      (ledger_state_to_did_document X st (ct_network c) (contract_to_hex X (ct_address c)))
      (\<lambda>d. Inr (json_to_string X (resolve_response
        \<lparr>rd_document = d, rd_metadata = ledger_state_to_metadata st\<rparr>)))), (b', s))"
proof (cases "ledger_state_to_did_document X st (ct_network c) (contract_to_hex X (ct_address c))")
  case (Inl e)
  then show ?thesis
    by (simp add: ffi_resolve_did_def on_contract_def resolve_eq [OF assms] io_bind_def io_map_err_def
        result_simps)
next
  case (Inr d)
  then show ?thesis
    by (simp add: ffi_resolve_did_def on_contract_def resolve_eq [OF assms] io_bind_def io_map_err_def
        io_lift_def result_simps)
qed

lemma snapshot_default_ok: "snapshot_ok X snapshot_default"
  by (simp add: snapshot_ok_def snapshot_default_def vm_keys_def ledger_relations_def)

lemma serves_resolve:
  assumes "base64_ok X" and "hex_ok X" and "url_ok X"
    and "ct_backend c = recording_backend X S" and "handle_inv h"
  shows "serves X (ResolveRequest did) h (ffi_resolve_did X c did h)"
proof -
  obtain b s where h: "h = (b, s)" by force
  have r: "contract_read_snapshot c b = (Inr (rec_snapshot b), b\<lparr>rec_calls := rec_calls b @ [ReadLedger]\<rparr>)"
    by (simp add: contract_read_snapshot_def assms(4) recording_backend_def recording_read_snapshot_def)
  have "snapshot_ok X (rec_snapshot b)" using assms(5) by (simp add: h handle_inv_def snapshot_default_ok)
  then obtain d where
    "ledger_state_to_did_document X (rec_snapshot b) (ct_network c) (contract_to_hex X (ct_address c)) = Inr d"
    using resolved_document_ok [OF assms(1-3)] by blast
  then show ?thesis using assms(5)
    by (cases "handle_view h")
      (auto simp: h serves_def ffi_resolve_eq [OF r] handle_inv_def handle_view_def submitted_def)
qed

lemma serve_serves:
  assumes "serde_ok S" and "base64_ok X" and "hex_ok X" and "url_ok X"
    and "ct_backend c = recording_backend X S" and "handle_inv h"
  shows "serves X q h (serve X S c q h)"
  using assms
  by (cases q) (simp_all add: serves_create serves_rotate serves_recover serves_resolve serves_deactivate)

text \<open>The handle is such a service.\<close>

lemma handle_service:
  assumes "serde_ok S" and "base64_ok X" and "hex_ok X" and "url_ok X"
    and "ct_backend c = recording_backend X S"
  shows "request_service (serve X S c) handle_inv handle_view (spec_request X) (\<lambda>q v. spec_answered X q)"
  using serve_serves [OF assms] by unfold_locales (simp_all add: serves_def)

definition default_contract :: "(unit recording, unit) contract" where
  "default_contract =
     \<lparr>ct_backend = recording_backend ref_crates ref_serde, ct_address = replicate 32 204, ct_network = Testnet\<rparr>"

lemma default_address_parses: "parse_contract_address ref_crates default_address = Inr (replicate 32 204)"
  by code_simp

lemma default_contract_eq: "handle_contract ref_crates ref_serde = Some default_contract"
  by (simp add: handle_contract_def default_contract_def default_address_parses)

lemma handle_new_ok: "handle_inv (handle_new st0)" "handle_view (handle_new st0) = (None, [])"
  by (simp_all add: handle_new_def handle_inv_def handle_view_def recording_new_def in_memory_new_def
      submitted_def check_address_def)

interpretation handle: request_service "serve ref_crates ref_serde default_contract" handle_inv handle_view
  "spec_request ref_crates" "\<lambda>q v. spec_answered ref_crates q"
  by (rule handle_service [OF ref_serde_ok ref_crates_ok(1,2) ref_url.url_crate_axioms])
    (simp add: default_contract_def)

section \<open>Properties\<close>

text \<open>
  C19. Any sequence of calls on one handle does what its specification says: the controller secret is
  the seed of the first accepted creation until an accepted rotation or recovery replaces it, the
  circuits are called once per accepted request and in order, a request is refused exactly when one of
  its two hex arguments is not 32 bytes, and a refused request leaves secret, calls and later requests
  untouched. The secret waiting in the pending slot is always gone between two calls.
\<close>

theorem ffi_session_refines:
  assumes "serde_ok S" and "base64_ok X" and "hex_ok X" and "url_ok X"
    and "ct_backend c = recording_backend X S"
    and "session (serve X S c) qs (handle_new st0) = (rs, h)"
  shows "(map is_ok rs, handle_view h) =
      spec_session (spec_request X) (\<lambda>q v. spec_answered X q) qs (None, []) \<and> handle_inv h"
  using request_service.session_refines [OF handle_service [OF assms(1-5)] handle_new_ok(1), of qs st0]
    request_service.session_inv [OF handle_service [OF assms(1-5)] handle_new_ok(1), of qs st0]
  by (simp add: assms(6) handle_new_ok(2))

definition hex32 :: "char \<Rightarrow> string" where
  "hex32 ch = replicate 64 ch"

definition ex_requests :: "ffi_request list" where
  "ex_requests =
     [CreateRequest (hex32 CHR ''1'') (hex32 CHR ''2''), CreateRequest (hex32 CHR ''5'') (hex32 CHR ''6''),
      RotateRequest ''did:x:1'' (hex32 CHR ''3'') ''ab'', ResolveRequest ''did:x:1'',
      RotateRequest ''did:x:1'' (hex32 CHR ''3'') (hex32 CHR ''4''), DeactivateRequest ''did:x:1'']"

lemma ex_spec_session:
  "spec_session (spec_request ref_crates) (\<lambda>q v. spec_answered ref_crates q) ex_requests (None, []) =
     ([True, True, False, True, True, True],
      (Some (replicate 32 51), [RotateControllerKey (replicate 32 68), Deactivate]))"
  by code_simp

theorem ffi_session_refines_witness:
  "map is_ok (fst (session (serve ref_crates ref_serde default_contract) ex_requests (handle_new ()))) =
     [True, True, False, True, True, True] \<and>
   handle_view (snd (session (serve ref_crates ref_serde default_contract) ex_requests (handle_new ()))) =
     (Some (replicate 32 51), [RotateControllerKey (replicate 32 68), Deactivate])"
proof -
  have "ct_backend default_contract = recording_backend ref_crates ref_serde"
    by (simp add: default_contract_def)
  from ffi_session_refines [OF ref_serde_ok ref_crates_ok(1,2) ref_url.url_crate_axioms this
      prod.collapse [symmetric], of ex_requests "()"]
  show ?thesis by (simp add: ex_spec_session)
qed

text \<open>
  A key request answers with the identifier its caller passed, not with that of the contract it
  acted on: for every \<open>did_subject\<close> the text parses to an object with that subject, the hash of the
  submitted call and a height that counts the entries of the call log. The subject is never compared
  with the handle's own.
\<close>

theorem rotation_echoes_subject:
  assumes "json_crate_ok X" and "serde_ok S" and "ct_backend c = recording_backend X S"
    and "handle_inv h" and "accepted X sk pk = Some (s, p)"
  shows "\<exists>t h'. ffi_rotate_controller_key X S c did sk pk h = (Inr t, h') \<and>
    json_from_str X t = Some (JObject
      [(''block_height'', JNumber (show_nat (unat (block_height (recorded_tx X S (RotateControllerKey p) (fst h)))))),
       (''did'', JString did),
       (''tx_hash'', JString (synth_tx_hash X (call_encode S (RotateControllerKey p))))])"
proof -
  from assms(5) have p: "decode_hex_32 X sk l = Inr s" "decode_hex_32 X pk l = Inr p" "length p = 32" for l
    by (auto simp: accepted_def decode_hex_32_iff split: sum.splits if_splits)
  from rotate_serves(1) [OF assms(2-4) p(3), of s] obtain h' where
    "rotate_controller_key S c in_memory_store s p h =
      (Inr (recorded_tx X S (RotateControllerKey p) (fst h)), h')" by blast
  then have "ffi_rotate_controller_key X S c did sk pk h =
      (Inr (json_to_string X (rotate_response did (recorded_tx X S (RotateControllerKey p) (fst h)))), h')"
    by (simp add: ffi_rotate_controller_key_def p io_bind_def io_map_err_def io_lift_def)
  then show ?thesis
    by (simp add: serde_json_crate.from_to_value [OF assms(1)] rotate_response_def json_integer_u64
        bt_collect_def)
qed

theorem rotation_echoes_subject_witness:
  "\<exists>t h'. ffi_rotate_controller_key ref_crates ref_serde default_contract ''did:x:1''
      (hex32 CHR ''3'') (hex32 CHR ''4'') (handle_new ()) = (Inr t, h') \<and>
    (\<exists>n x. json_from_str ref_crates t = Some (JObject
      [(''block_height'', JNumber n), (''did'', JString ''did:x:1''), (''tx_hash'', JString x)]))"
proof -
  have a: "accepted ref_crates (hex32 CHR ''3'') (hex32 CHR ''4'') = Some (replicate 32 51, replicate 32 68)"
    by code_simp
  have c: "ct_backend default_contract = recording_backend ref_crates ref_serde"
    by (simp add: default_contract_def)
  from rotation_echoes_subject [OF ref_crates_ok(3) ref_serde_ok c handle_new_ok(1) a,
      of "''did:x:1''" "()"]
  show ?thesis by blast
qed

end
