(* ===== verification/Interop.thy ===== *)
theory Interop
  imports Ffi
begin

text \<open>
  Properties across components: what the resolver assembles from the ledger, the foreign-function
  interface sends as JSON, and the document model reads back and validates. Nothing is modelled here.
\<close>

section \<open>The resolved document is a valid one\<close>

text \<open>
  The endpoints of the services on the ledger: JSON values without floats, nested at most 123 deep, and
  no endpoint twice after normalisation. The last is the one part of \<open>validate\<close> that a ledger entry may
  violate. In an answer of \<open>resolve_did\<close> an endpoint is inside four more objects and arrays, so at most
  127 levels, which is what \<open>serde_json\<close> reads back.
\<close>

definition endpoints_ok :: "crates \<Rightarrow> did_ledger_snapshot \<Rightarrow> bool" where
  "endpoints_ok X st \<longleftrightarrow>
     list_all (\<lambda>(_, s).
       case parse_service_endpoint X (ls_service_endpoint s) of
         Inl _ \<Rightarrow> False
       | Inr e \<Rightarrow> list_all json_ok (endpoint_values e) \<and> json_within 123 (endpoint_to_json e) \<and>
           distinct (map (json_to_string X)
             (endpoint_values (normalize_service_endpoint X (normalize_service_endpoint X e)))))
     (services st)"

lemma endpoint_values_json_ok: "list_all json_ok (endpoint_values e) \<Longrightarrow> endpoint_json_ok e"
proof (cases e)
  case (EndpointArray es)
  have "json_ok (entry_value x) \<Longrightarrow> entry_json_ok x" for x by (cases x) simp_all
  then show "list_all json_ok (endpoint_values e) \<Longrightarrow> endpoint_json_ok e"
    by (simp add: EndpointArray list_all_iff)
qed simp_all

lemma ser_endpoint_json: "ser_endpoint e = endpoint_to_json e"
proof -
  have "ser_endpoint_entry x = entry_value x" for x by (cases x) simp_all
  then show ?thesis by (cases e) (simp_all add: ser_list_def)
qed

lemma resolved_services:
  assumes "ledger_state_to_did_document X st n a = Inr d" and "s \<in> set (opt_list (doc_service d))"
  obtains i l where "(i, l) \<in> set (services st)"
    and "parse_ledger_service X l (midnight_did_str (create_midnight_did_string a n)) = Inr s"
proof -
  let ?p = "\<lambda>(_, svc). parse_ledger_service X svc (midnight_did_str (create_midnight_did_string a n))"
  have "(if services st = [] then Inr None
      else res_bind (collect_results ?p (services st)) (\<lambda>out. Inr (Some out))) = Inr (doc_service d)"
    using assms(1) by (auto simp: ledger_state_to_did_document_def Let_def result_simps)
  then have "collect_results ?p (services st) = Inr (opt_list (doc_service d))"
    by (cases "doc_service d") (auto simp: result_simps split: if_splits)
  then have "list_all2 (\<lambda>e s. ?p e = Inr s) (services st) (opt_list (doc_service d))"
    by (simp only: collect_results_Inr_iff)
  moreover obtain k where "k < length (opt_list (doc_service d))" "s = opt_list (doc_service d) ! k"
    using assms(2) by (auto simp: in_set_conv_nth)
  ultimately have "services st ! k \<in> set (services st)" "?p (services st ! k) = Inr s"
    by (auto simp: list_all2_conv_all_nth)
  then show thesis using that [of "fst (services st ! k)" "snd (services st ! k)"]
    by (simp add: case_prod_unfold)
qed

lemma resolved_endpoints:
  assumes "endpoints_ok X st" and "ledger_state_to_did_document X st n a = Inr d"
    and "s \<in> set (opt_list (doc_service d))"
  shows "service_json_ok s \<and> json_within 123 (ser_endpoint (svc_endpoint s)) \<and>
    distinct (map (json_to_string X) (endpoint_values (normalize_service_endpoint X (svc_endpoint s))))"
proof -
  from resolved_services [OF assms(2,3)] obtain i l where l: "(i, l) \<in> set (services st)"
    "parse_ledger_service X l (midnight_did_str (create_midnight_did_string a n)) = Inr s" by blast
  from l(2) obtain e where e: "parse_service_endpoint X (ls_service_endpoint l) = Inr e"
    "svc_endpoint s = normalize_service_endpoint X e"
    by (auto simp: parse_ledger_service_def Let_def result_simps service_new_def)
  from assms(1) l(1) e(1) have ok: "list_all json_ok (endpoint_values e)" "distinct (map (json_to_string X)
      (endpoint_values (normalize_service_endpoint X (normalize_service_endpoint X e))))"
    and within: "json_within 123 (endpoint_to_json e)"
    by (force simp: endpoints_ok_def list_all_iff)+
  have "service_json_ok s"
    unfolding service_json_ok_def e(2)
    using normalize_service_endpoint_values [OF ok(1)] endpoint_values_json_ok by blast
  then show ?thesis using ok(2) within
    by (simp add: e(2) ser_endpoint_json normalized_endpoint_within [OF ok(1)])
qed

lemma resolved_methods_json_ok:
  assumes "base64_ok X" and "hex_ok X" and "snapshot_ok X st" and "m \<in> set (resolved_methods X did st)"
  shows "vm_json_ok X m \<and> jwk_extensions (vm_public_key_jwk m) = []"
proof -
  have jwk: "vm_json_ok X (resolved_vm did i t j) \<and> jwk_extensions (vm_public_key_jwk (resolved_vm did i t j)) = []" if "jwk_profile X j" "jwk_extensions j = []" for i t j
    using that by (simp add: vm_json_ok_def jwk_json_ok_def resolved_vm_def flat_ok_def
        jwk_validate_iff [OF assms(1)] list_all_iff bt_keys_sorted_def)
  from assms(4) consider
      i l where "(i, l) \<in> set (verification_methods st)"
        "m = resolved_vm did i (lvm_typ l) (projr (ledger_jwk_to_domain X (lvm_public_key_jwk l)))"
    | i l where "(i, l) \<in> set (schnorr_jubjub_verification_methods st)"
        "m = resolved_vm did i JsonWebKey (projr (schnorr_jubjub_pk_to_jwk X l))"
    by (auto simp: resolved_methods_def)
  then show ?thesis
  proof cases
    case 1
    then obtain j where "ledger_jwk_to_domain X (lvm_public_key_jwk l) = Inr j"
      using snapshot_ok_method [OF assms(3)] by blast
    moreover from this have "jwk_extensions j = []"
      by (auto simp: ledger_jwk_to_domain_def Let_def result_simps jwk_new_def split: if_splits)
    ultimately show ?thesis using 1 jwk ledger_jwk_resolved_profile [OF assms(1)] by simp
  next
    case 2
    then obtain j where "schnorr_jubjub_pk_to_jwk X l = Inr j"
      using schnorr_key_resolves [OF assms(1,2) snapshot_ok_schnorr(2) [OF assms(3)]] by blast
    moreover from this have "jwk_extensions j = []" "jwk_profile X j"
      by (auto simp: schnorr_jubjub_pk_to_jwk_def result_simps jwk_new_iff [OF assms(1)])
    ultimately show ?thesis using 2 jwk by simp
  qed
qed

text \<open>The JSON form of a resolved document is read back, and the document passes \<open>validate\<close>.\<close>

lemma resolved_document_valid:
  assumes crates: "base64_ok X" "hex_ok X" "url_ok X" and st: "snapshot_ok X st" "endpoints_ok X st"
    and d: "ledger_state_to_did_document X st n (contract_to_hex X a) = Inr d"
  shows "document_json_ok X d" and "did_document_validate X d = Inr ()"
proof -
  let ?did = "get_did_subject_for X a n"
  have r: "doc_id d = DidString ?did" "opt_list (doc_verification_method d) = resolved_methods X ?did st"
    "map opt_list [doc_authentication d, doc_assertion_method d, doc_key_agreement d,
      doc_capability_invocation d, doc_capability_delegation d] = map (map DidKeyId) (ledger_relations st)"
    "map svc_id (opt_list (doc_service d)) = map (\<lambda>i. ?did @ i) (map fst (services st))"
    using resolved_document_ok [OF crates st(1), of n a] d by auto
  have extra: "doc_extra d = []"
    using d by (auto simp: ledger_state_to_did_document_def Let_def result_simps)
  have "\<forall>m\<in>set (opt_list (doc_verification_method d)). vm_json_ok X m"
    using resolved_methods_json_ok [OF crates(1,2) st(1)] by (simp add: r(2))
  moreover have "\<forall>s\<in>set (opt_list (doc_service d)). service_json_ok s"
    using resolved_endpoints [OF st(2) d] by blast
  ultimately show "document_json_ok X d"
    by (cases "doc_verification_method d"; cases "doc_service d")
      (simp_all add: document_json_ok_def extra list_all_iff flat_ok_def bt_keys_sorted_def)
  have "distinct (map svc_id (opt_list (doc_service d)))"
    using st(1) by (simp add: r(4) snapshot_ok_def distinct_map inj_on_def)
  then have "services_ok X (opt_list (doc_service (with_normalized_service_endpoints X d)))"
    using resolved_endpoints [OF st(2) d]
    by (cases "doc_service d")
      (simp_all add: services_ok_def with_normalized_service_endpoints_def comp_def)
  then show "did_document_validate X d = Inr ()"
    using resolved_consistent(3,4) [OF crates st(1) r(1-3)]
    by (simp add: validate_iff doc_consistent_def)
qed

text \<open>How deep the JSON forms are nested.\<close>

lemma metadata_within: "json_within 126 (ser_metadata (ledger_state_to_metadata st))"
  by (simp add: ser_metadata_def ledger_state_to_metadata_def opt_member_def split: option.split)

lemma vm_within: "jwk_extensions (vm_public_key_jwk m) = [] \<Longrightarrow> json_within 124 (ser_vm m)"
  by (cases "vm_type m"; cases "jwk_kty (vm_public_key_jwk m)"; cases "jwk_crv (vm_public_key_jwk m)")
    (simp_all add: ser_vm_def ser_jwk_def opt_member_def split: option.split)

lemma service_within: "json_within 123 (ser_endpoint (svc_endpoint s)) \<Longrightarrow> json_within 124 (ser_service s)"
  by (cases "svc_type s") (simp_all add: ser_service_def ser_list_def list_all_iff)

lemma document_within:
  assumes "doc_extra d = []" and "\<forall>m\<in>set (opt_list (doc_verification_method d)). json_within 124 (ser_vm m)"
    and "\<forall>s\<in>set (opt_list (doc_service d)). json_within 124 (ser_service s)"
  shows "json_within 126 (ser_did_document d)"
proof -
  have opt: "list_all (\<lambda>(k, v). json_within n v) (opt_member k ser v) \<longleftrightarrow> pred_option (\<lambda>x. json_within n (ser x)) v"
    for n k and ser :: "'b \<Rightarrow> json" and v by (cases v) (simp_all add: opt_member_def)
  have lst: "json_within 125 (ser_list ser xs)" if "\<forall>x\<in>set xs. json_within 124 (ser x)" for ser :: "'b \<Rightarrow> json" and xs
    using that by (simp add: ser_list_def list_all_iff)
  have ctx: "json_within 125 (ser_context (doc_context d))"
    by (cases "doc_context d") (simp_all add: lst)
  have key: "json_within 124 (ser_key_id i)" "json_within n (ser_did_string x)" for i n x
    by (simp_all add: ser_key_id_def ser_did_string_def)
  have "json_within 125 (ser_controller c)" for c by (cases c) (simp_all add: lst key)
  moreover have "pred_option (\<lambda>x. json_within 125 (ser_list ser_vm x)) (doc_verification_method d)"
    using assms(2) by (cases "doc_verification_method d") (simp_all add: lst)
  moreover have "pred_option (\<lambda>x. json_within 125 (ser_list ser_service x)) (doc_service d)"
    using assms(3) by (cases "doc_service d") (simp_all add: lst)
  ultimately show ?thesis
    by (simp add: ser_did_document_def assms(1) opt ctx key lst option.pred_True)
qed

lemma resolved_document_within:
  assumes "base64_ok X" and "hex_ok X" and "url_ok X" and "snapshot_ok X st" and "endpoints_ok X st"
    and d: "ledger_state_to_did_document X st n (contract_to_hex X a) = Inr d"
  shows "json_within 126 (ser_did_document d)"
proof (rule document_within)
  show "doc_extra d = []" using d by (auto simp: ledger_state_to_did_document_def Let_def result_simps)
  have "opt_list (doc_verification_method d) = resolved_methods X (get_did_subject_for X a n) st"
    using resolved_document_ok [OF assms(1-4), of n a] d by auto
  then show "\<forall>m\<in>set (opt_list (doc_verification_method d)). json_within 124 (ser_vm m)"
    using resolved_methods_json_ok [OF assms(1,2,4)] vm_within by simp
  show "\<forall>s\<in>set (opt_list (doc_service d)). json_within 124 (ser_service s)"
    using resolved_endpoints [OF assms(5) d] service_within by blast
qed

section \<open>The document of an off-chain state\<close>

text \<open>
  The document a caller assembles from a projection, member by member, with extensions of its own
  (the projection maps field by field to the document and stops short of the final validation, so that
  callers can add extensions first).
\<close>

definition assembled :: "offchain_projected_document \<Rightarrow> (string, json) btree \<Rightarrow> did_document" where
  "assembled p extra =
     \<lparr>doc_context = opd_context p, doc_id = opd_id p, doc_also_known_as = opd_also_known_as p,
      doc_controller = Some (ControllerOne (DidString (midnight_did_str (opd_controller p)))),
      doc_verification_method = Some (opd_verification_method p),
      doc_authentication = map_option (map DidKeyId) (opd_authentication p),
      doc_assertion_method = map_option (map DidKeyId) (opd_assertion_method p),
      doc_key_agreement = map_option (map DidKeyId) (opd_key_agreement p),
      doc_capability_invocation = map_option (map DidKeyId) (opd_capability_invocation p),
      doc_capability_delegation = map_option (map DidKeyId) (opd_capability_delegation p),
      doc_service = opd_service p, doc_extra = extra\<rparr>"

lemma projected_services:
  assumes "collect_results (offchain_service_to_document_service X) ss = Inr svcs"
  shows "map svc_id svcs = map os_id ss \<and> (\<forall>s\<in>set svcs. \<exists>u. svc_endpoint s = EndpointUri u)"
proof -
  from assms have "list_all2 (\<lambda>s d. offchain_service_to_document_service X s = Inr d) ss svcs"
    by (simp add: collect_results_Inr_iff)
  then show ?thesis
    by (induction rule: list_all2_induct) (auto simp: offchain_service_to_document_service_def service_new_iff)
qed

lemma projection_parts:
  assumes "base64_ok X" and "offchain_state_to_document X did st = Inr p"
  shows "opd_id p = DidString (midnight_did_str did)"
    and "map (\<lambda>vm. did_key_id_str (vm_id vm)) (opd_verification_method p) = map ovm_id (ost_verification_method st)"
    and "map opt_list [opd_authentication p, opd_assertion_method p, opd_key_agreement p,
      opd_capability_invocation p, opd_capability_delegation p] =
      map (\<lambda>flag. ids_with flag st) [or_authentication, or_assertion_method, or_key_agreement,
        or_capability_invocation, or_capability_delegation]"
    and "map svc_id (opt_list (opd_service p)) = map os_id (ost_service st)"
    and "\<forall>s\<in>set (opt_list (opd_service p)). \<exists>u. svc_endpoint s = EndpointUri u"
proof -
  from assms(2) obtain vms svcs where
    v: "collect_results (offchain_vm_to_document_method X did) (ost_verification_method st) = Inr vms"
    and s: "collect_results (offchain_service_to_document_service X) (ost_service st) = Inr svcs"
    and p: "opd_id p = DidString (midnight_did_str did)" "opd_verification_method p = vms"
      "opd_service p = (if svcs = [] then None else Some svcs)"
      "opd_authentication p = maybe_some (ids_with or_authentication st)"
      "opd_assertion_method p = maybe_some (ids_with or_assertion_method st)"
      "opd_key_agreement p = maybe_some (ids_with or_key_agreement st)"
      "opd_capability_invocation p = maybe_some (ids_with or_capability_invocation st)"
      "opd_capability_delegation p = maybe_some (ids_with or_capability_delegation st)"
    by (auto simp: offchain_state_to_document_def result_simps Let_def did_string_parse_iff)
  have o: "opt_list (opd_service p) = svcs" by (simp add: p(3))
  show "opd_id p = DidString (midnight_did_str did)" by (rule p(1))
  show "map (\<lambda>vm. did_key_id_str (vm_id vm)) (opd_verification_method p) = map ovm_id (ost_verification_method st)"
    using projected_methods [OF assms(1) v] by (simp add: p(2))
  show "map opt_list [opd_authentication p, opd_assertion_method p, opd_key_agreement p,
      opd_capability_invocation p, opd_capability_delegation p] =
      map (\<lambda>flag. ids_with flag st) [or_authentication, or_assertion_method, or_key_agreement,
        or_capability_invocation, or_capability_delegation]"
    by (simp add: p)
  show "map svc_id (opt_list (opd_service p)) = map os_id (ost_service st)"
    "\<forall>s\<in>set (opt_list (opd_service p)). \<exists>u. svc_endpoint s = EndpointUri u"
    using projected_services [OF s] by (simp_all add: o)
qed

section \<open>Properties\<close>

text \<open>
  C17. What a foreign caller gets from \<open>resolve_did\<close> is a document it can trust: for a well-formed
  snapshot whose endpoints stay below the nesting limit of \<open>serde_json\<close> and have no floats the answer
  is a JSON object whose \<open>did_document\<close> member \<open>parse_did_document\<close> reads and validates. The document read back belongs to the contract's DID, whatever DID the caller asked for,
  and lists exactly the ledger's methods and relations, with the ids made absolute.
\<close>

theorem resolved_answer_reads_back:
  assumes "base64_ok X" and "hex_ok X" and "url_ok X" and "json_crate_ok X"
    and "contract_read_snapshot c b = (Inr st, b')" and "snapshot_ok X st" and "endpoints_ok X st"
  shows "\<exists>t ms v d. ffi_resolve_did X c did (b, s) = (Inr t, (b', s)) \<and>
    json_from_str X t = Some (JObject ms) \<and> map_of ms ''did_document'' = Some v \<and>
    parse_document_value X txt v = Inr d \<and>
    did_string_str (doc_id d) = get_did_subject_for X (ct_address c) (ct_network c) \<and>
    doc_vm_ids d = map (\<lambda>i. get_did_subject_for X (ct_address c) (ct_network c) @ i) (vm_keys st) \<and>
    doc_relations d =
      map (map (\<lambda>i. get_did_subject_for X (ct_address c) (ct_network c) @ i)) (ledger_relations st)"
proof -
  obtain d where d: "ledger_state_to_did_document X st (ct_network c) (contract_to_hex X (ct_address c)) = Inr d"
    and r: "doc_id d = DidString (subject_of X c)"
      "opt_list (doc_verification_method d) = resolved_methods X (subject_of X c) st"
      "map opt_list [doc_authentication d, doc_assertion_method d, doc_key_agreement d,
        doc_capability_invocation d, doc_capability_delegation d] = map (map DidKeyId) (ledger_relations st)"
    using resolved_document_ok [OF assms(1-3,6)] by blast
  note ok = resolved_document_valid [OF assms(1-3,6,7) d]
  let ?r = "\<lparr>rd_document = d, rd_metadata = ledger_state_to_metadata st\<rparr>"
  have "metadata_json_ok (ledger_state_to_metadata st)"
    by (simp add: metadata_json_ok_def ledger_state_to_metadata_def flat_ok_def bt_keys_sorted_def
        list_all_iff)
  then have "json_tree (resolve_response ?r)"
    using document.ser_tree [OF ok(1)] metadata.ser_tree by (simp add: resolve_response_def)
  moreover have "json_within 127 (resolve_response ?r)"
    using resolved_document_within [OF assms(1-3,6,7) d] metadata_within by (simp add: resolve_response_def)
  ultimately have read: "json_from_str X (json_to_string X (resolve_response ?r)) =
      Some (JObject (bt_collect [(''did_document'', to_value (ser_did_document d)),
        (''did_document_metadata'', to_value (ser_metadata (ledger_state_to_metadata st)))]))"
    by (simp add: serde_json_crate.from_to_value [OF assms(4)] resolve_response_def)
  have parse: "parse_document_value X txt (to_value (ser_did_document d)) =
      Inr (with_normalized_service_endpoints X d)"
    by (simp add: parse_document_value_def parse_did_document_def from_value_def document.de_ser [OF ok(1)] ok(2))
  have answer: "ffi_resolve_did X c did (b, s) = (Inr (json_to_string X (resolve_response ?r)), (b', s))"
    by (simp add: ffi_resolve_eq [OF assms(5)] d)
  have member: "map_of (bt_collect [(''did_document'', to_value (ser_did_document d)),
      (''did_document_metadata'', to_value (ser_metadata (ledger_state_to_metadata st)))]) ''did_document'' =
    Some (to_value (ser_did_document d))"
    by (simp add: bt_collect_def)
  have "did_string_str (doc_id (with_normalized_service_endpoints X d)) = subject_of X c"
    "doc_vm_ids (with_normalized_service_endpoints X d) = map (\<lambda>i. subject_of X c @ i) (vm_keys st)"
    "doc_relations (with_normalized_service_endpoints X d) =
      map (map (\<lambda>i. subject_of X c @ i)) (ledger_relations st)"
    using resolved_consistent(1,2) [OF assms(1-3,6) r] by (simp_all add: r(1))
  with answer read member parse show ?thesis by blast
qed

lemma ex_endpoints_ok: "endpoints_ok X (Resolution.ex_snapshot)"
  by (simp add: endpoints_ok_def Resolution.ex_snapshot_def snapshot_default_def)

theorem resolved_answer_reads_back_witness:
  "\<exists>t ms v d. ffi_resolve_did ref_crates default_contract ''did:x:1''
      (recording_with_snapshot () Resolution.ex_snapshot, in_memory_new) =
      (Inr t, ((recording_with_snapshot () Resolution.ex_snapshot)\<lparr>rec_calls := [ReadLedger]\<rparr>, in_memory_new)) \<and>
    json_from_str ref_crates t = Some (JObject ms) \<and> map_of ms ''did_document'' = Some v \<and>
    parse_document_value ref_crates (\<lambda>_. []) v = Inr d \<and> length (doc_vm_ids d) = 1"
proof -
  let ?b = "recording_with_snapshot () Resolution.ex_snapshot"
  have "contract_read_snapshot default_contract ?b =
      (Inr Resolution.ex_snapshot, ?b\<lparr>rec_calls := [ReadLedger]\<rparr>)"
    by (simp add: contract_read_snapshot_def default_contract_def recording_backend_def
        recording_read_snapshot_def recording_with_snapshot_def)
  from resolved_answer_reads_back [OF ref_crates_ok(1,2) ref_url.url_crate_axioms ref_crates_ok(3) this
      Resolution.ex_snapshot_ok ex_endpoints_ok, of "''did:x:1''" in_memory_new "\<lambda>_. []"]
  obtain t ms v d where "ffi_resolve_did ref_crates default_contract ''did:x:1'' (?b, in_memory_new) =
      (Inr t, (?b\<lparr>rec_calls := [ReadLedger]\<rparr>, in_memory_new))"
    "json_from_str ref_crates t = Some (JObject ms)" "map_of ms ''did_document'' = Some v"
    "parse_document_value ref_crates (\<lambda>_. []) v = Inr d"
    "doc_vm_ids d = map (\<lambda>i. get_did_subject_for ref_crates (ct_address default_contract)
      (ct_network default_contract) @ i) (vm_keys Resolution.ex_snapshot)"
    by blast
  moreover have "length (vm_keys Resolution.ex_snapshot) = 1"
    by (simp add: vm_keys_def Resolution.ex_snapshot_def snapshot_default_def)
  ultimately show ?thesis by (metis length_map)
qed

text \<open>
  C33. What the shape check of off-chain states leaves open: the document assembled from the projection of
  a state of the right shape passes the final validation exactly when no two methods and no two services
  of the state have the same id. Relationships, endpoints and controllers can never be the reason.
\<close>

theorem offchain_document_validity:
  assumes "base64_ok X" and "validate_state_shape st = Inr ()"
    and "offchain_state_to_document X did st = Inr p"
  shows "is_ok (did_document_validate X (assembled p extra)) \<longleftrightarrow>
    distinct (map ovm_id (ost_verification_method st)) \<and> distinct (map os_id (ost_service st))"
proof -
  let ?d = "assembled p extra" and ?did = "midnight_did_str did"
  note parts = projection_parts [OF assms(1,3)]
  have hash: "\<forall>m\<in>set (ost_verification_method st). \<exists>f. ovm_id m = CHR ''#'' # f"
    using assms(2) by (auto simp: validate_state_shape_iff shape_ok_def starts_hash)
  then have can: "\<forall>m\<in>set (ost_verification_method st). canonicalize_id ?did (ovm_id m) = ?did @ ovm_id m"
    by (auto simp: canonicalize_id_def strip_prefix_def)
  have ids: "doc_vm_ids ?d = map (\<lambda>m. ?did @ ovm_id m) (ost_verification_method st)"
  proof -
    have "doc_vm_ids ?d = map (canonicalize_id ?did) (map (\<lambda>vm. did_key_id_str (vm_id vm)) (opd_verification_method p))"
      by (simp add: doc_vm_ids_def assembled_def parts(1))
    then show ?thesis using can by (simp add: parts(2))
  qed
  have rels: "doc_relations ?d = map (\<lambda>flag. map (canonicalize_id ?did) (ids_with flag st))
      [or_authentication, or_assertion_method, or_key_agreement, or_capability_invocation, or_capability_delegation]"
    using parts(3) by (simp add: doc_relations_def assembled_def parts(1) comp_def)
  have rel: "map (canonicalize_id ?did) (ids_with flag st) =
      map (\<lambda>m. ?did @ ovm_id m) (filter (\<lambda>m. flag (ovm_relationships m)) (ost_verification_method st))" for flag
    using can by (simp add: ids_with_def)
  have svcs: "services_ok X (opt_list (doc_service (with_normalized_service_endpoints X ?d))) \<longleftrightarrow>
      distinct (map os_id (ost_service st))"
    using parts(4,5)
    by (cases "opd_service p")
      (auto simp: services_ok_def with_normalized_service_endpoints_def assembled_def comp_def)
  have inj: "distinct (map (\<lambda>m. ?did @ ovm_id m) ms) \<longleftrightarrow> distinct (map ovm_id ms)" for ms
    by (simp add: distinct_map inj_on_def)
  have "distinct (map ovm_id (ost_verification_method st)) \<Longrightarrow> relations_ok (doc_vm_ids ?d) (doc_relations ?d)"
    unfolding relations_ok_def ids rels list.set rel by (auto simp: inj distinct_map_filter)
  moreover have "distinct (doc_vm_ids ?d) \<longleftrightarrow> distinct (map ovm_id (ost_verification_method st))"
    by (simp only: ids inj)
  ultimately show ?thesis
    unfolding is_ok_iff validate_iff doc_consistent_def norm_doc_sel svcs by blast
qed

definition ex_twice_state :: "offchain_state" where
  "ex_twice_state = ex_offchain_state\<lparr>ost_verification_method := replicate 2
     (hd (ost_verification_method ex_offchain_state))\<rparr>"

lemma ex_twice_shape: "validate_state_shape ex_twice_state = Inr ()"
  using ex_offchain_state_shape
  by (simp add: validate_state_shape_iff shape_ok_def ex_twice_state_def ex_offchain_state_def eval_nat_numeral)

lemma ex_vm_new:
  "vm_new ref_crates \<lparr>nvm_id = ''#k'', nvm_type = JsonWebKey, nvm_controller = ''did:x:1'',
     nvm_public_key_jwk = ex_jwk\<rparr> = Inr (ex_ledger_vm ''did:x:1'')"
proof -
  have did: "is_did_string ''did:x:1''" using ex_did_ok by (simp add: did_string_parse_iff)
  from ex_ledger_vm_valid [OF this] have "is_did_key_id ref_crates ''#k''"
    by (simp add: vm_validate_def ex_ledger_vm_def result_simps split: if_splits)
  with did show ?thesis
    by (simp add: vm_new_iff [OF ref_crates_ok(1)] ex_ledger_vm_def ex_jwk_profile)
qed

lemma ex_twice_projects:
  "\<exists>p. offchain_state_to_document ref_crates (MidnightDidString ''did:x:1'') ex_twice_state = Inr p"
  by (simp add: offchain_state_to_document_def ex_did_ok ex_twice_state_def ex_offchain_state_def Let_def
      offchain_vm_to_document_method_def ex_vm_new result_simps eval_nat_numeral)

theorem offchain_document_validity_witness:
  "validate_state_shape ex_twice_state = Inr () \<and>
   (\<exists>p. offchain_state_to_document ref_crates (MidnightDidString ''did:x:1'') ex_twice_state = Inr p \<and>
     \<not> is_ok (did_document_validate ref_crates (assembled p [])))"
proof -
  obtain p where p: "offchain_state_to_document ref_crates (MidnightDidString ''did:x:1'') ex_twice_state = Inr p"
    using ex_twice_projects by blast
  from offchain_document_validity [OF ref_crates_ok(1) ex_twice_shape p] p ex_twice_shape
  show ?thesis by (simp add: ex_twice_state_def eval_nat_numeral)
qed

end
