(* ===== verification/Cli_Flow.thy ===== *)
theory Cli_Flow
  imports Ffi
begin

text \<open>
  The command line, \<open>midnight-did-cli/src\<close>: the fixtures (\<open>fixtures.rs\<close>), the flow driver with its eight
  steps (\<open>flow.rs\<close>), the output helpers (\<open>printer.rs\<close>) and the two subcommands (\<open>main.rs\<close>). The driver
  owns a contract over the recording backend, an in-memory store and its own counters; each mutating
  step submits its call and then installs the snapshot that the call should have led to. The counters
  are \<open>u64\<close>; at one step each they cannot overflow.
\<close>

section \<open>Fixtures\<close>

definition CONTRACT_ADDRESS :: string where
  "CONTRACT_ADDRESS = ''0123456789abcdef0123456789abcdef0123456789abcdef0123456789abcdef''"

definition NETWORK :: midnight_network where
  "NETWORK = Undeployed"

definition INITIAL_SECRET_KEY :: bytes where
  "INITIAL_SECRET_KEY = replicate 32 0x42"

definition INITIAL_CONTROLLER_PK_HEX :: string where
  "INITIAL_CONTROLLER_PK_HEX = ''0707070707070707070707070707070707070707070707070707070707070707''"

definition ROTATED_SECRET_KEY :: bytes where
  "ROTATED_SECRET_KEY = replicate 32 0x55"

definition ROTATED_CONTROLLER_PK_BYTES :: bytes where
  "ROTATED_CONTROLLER_PK_BYTES = replicate 32 0xAA"

definition RECOVERED_SECRET_KEY :: bytes where
  "RECOVERED_SECRET_KEY = replicate 32 0x66"

definition RECOVERED_CONTROLLER_PK_BYTES :: bytes where
  "RECOVERED_CONTROLLER_PK_BYTES = replicate 32 0xBB"

definition VM_FRAGMENT :: string where
  "VM_FRAGMENT = ''#key-1''"

definition SERVICE_ID :: string where
  "SERVICE_ID = ''service-1''"

definition SERVICE_ENDPOINT_URL :: string where
  "SERVICE_ENDPOINT_URL = ''https://example.com''"

definition ALSO_KNOWN_AS_URI :: string where
  "ALSO_KNOWN_AS_URI = ''did:web:example.com''"

definition CREATED_MS :: u64 where
  "CREATED_MS = 1780444800000"

definition STEP_ADVANCE_MS :: u64 where
  "STEP_ADVANCE_MS = 10 * 60 * 1000"

definition did_subject :: string where
  "did_subject = ''did:midnight:'' @ as_wire_str NETWORK @ '':'' @ CONTRACT_ADDRESS"

text \<open>The builders panic when their \<open>expect\<close> fails: None.\<close>

definition sample_jwk :: "crates \<Rightarrow> public_key_jwk option" where
  "sample_jwk X =
     ok_opt (jwk_new X \<lparr>nj_kty = EC, nj_crv = P256, nj_x = encode_base64url X (replicate 32 0),
       nj_y = Some (encode_base64url X (replicate 32 0x11)), nj_extensions = []\<rparr>)"

definition sample_verification_method :: "crates \<Rightarrow> verification_method option" where
  "sample_verification_method X =
     Option.bind (sample_jwk X) (\<lambda>jwk.
       ok_opt (vm_new X \<lparr>nvm_id = did_subject @ VM_FRAGMENT, nvm_type = JsonWebKey,
         nvm_controller = did_subject, nvm_public_key_jwk = jwk\<rparr>))"

definition sample_ledger_verification_method :: "crates \<Rightarrow> ledger_verification_method option" where
  "sample_ledger_verification_method X =
     Option.bind (sample_jwk X) (\<lambda>jwk.
       Some \<lparr>lvm_id = VM_FRAGMENT, lvm_typ = JsonWebKey,
             lvm_public_key_jwk = \<lparr>lj_kty = jwk_kty jwk, lj_crv = jwk_crv jwk, lj_x = jwk_x jwk,
               lj_y = (case jwk_y jwk of Some y \<Rightarrow> y | None \<Rightarrow> [])\<rparr>\<rparr>)"

definition sample_service :: "crates \<Rightarrow> service option" where
  "sample_service X =
     ok_opt (service_new X \<lparr>ns_id = SERVICE_ID, ns_type = TypeOne ''LinkedDomains'',
       ns_endpoint = EndpointUri SERVICE_ENDPOINT_URL\<rparr>)"

section \<open>Steps\<close>

datatype step =
  StepCreate | StepSetVm | StepSetService | StepSetAka | StepRotate | StepRecover | StepResolve | StepDeactivate

definition all_steps :: "step list" where
  "all_steps = [StepCreate, StepSetVm, StepSetService, StepSetAka, StepRotate, StepRecover, StepResolve,
     StepDeactivate]"

text \<open>The array lists every step once, in the order of the enum.\<close>

instantiation step :: enum
begin

definition enum_step :: "step list" where
  "enum_step = all_steps"

definition enum_all_step :: "(step \<Rightarrow> bool) \<Rightarrow> bool" where
  "enum_all_step P \<longleftrightarrow> list_all P all_steps"

definition enum_ex_step :: "(step \<Rightarrow> bool) \<Rightarrow> bool" where
  "enum_ex_step P \<longleftrightarrow> list_ex P all_steps"

instance
proof
  show "(UNIV :: step set) = set enum_class.enum"
  proof (intro equalityI subsetI)
    fix s :: step
    show "s \<in> set enum_class.enum" by (cases s) (simp_all add: enum_step_def all_steps_def)
  qed simp
  then have U: "set all_steps = UNIV" by (simp add: enum_step_def)
  show "distinct (enum_class.enum :: step list)" by (simp add: enum_step_def all_steps_def)
  show "enum_class.enum_all P = Ball UNIV P" for P :: "step \<Rightarrow> bool"
    by (simp add: enum_all_step_def list_all_iff U)
  show "enum_class.enum_ex P = Bex UNIV P" for P :: "step \<Rightarrow> bool"
    by (simp add: enum_ex_step_def list_ex_iff U)
qed

end

definition step_from_cli :: "string \<Rightarrow> step option" where
  "step_from_cli v =
     (if v = ''create'' then Some StepCreate
      else if v = ''set-vm'' then Some StepSetVm
      else if v = ''set-service'' then Some StepSetService
      else if v = ''set-aka'' \<or> v = ''set-also-known-as'' then Some StepSetAka
      else if v = ''rotate'' then Some StepRotate
      else if v = ''recover'' then Some StepRecover
      else if v = ''resolve'' then Some StepResolve
      else if v = ''deactivate'' then Some StepDeactivate
      else None)"

fun step_name :: "step \<Rightarrow> string" where
  "step_name StepCreate = ''create''"
| "step_name StepSetVm = ''set-vm''"
| "step_name StepSetService = ''set-service''"
| "step_name StepSetAka = ''set-aka''"
| "step_name StepRotate = ''rotate''"
| "step_name StepRecover = ''recover''"
| "step_name StepResolve = ''resolve''"
| "step_name StepDeactivate = ''deactivate''"

fun display_name :: "step \<Rightarrow> string" where
  "display_name StepCreate = ''create''"
| "display_name StepSetVm = ''set-vm-insert''"
| "display_name StepSetService = ''set-service-insert''"
| "display_name StepSetAka = ''set-alsoKnownAs-insert''"
| "display_name StepRotate = ''rotate''"
| "display_name StepRecover = ''recover''"
| "display_name StepResolve = ''resolve''"
| "display_name StepDeactivate = ''deactivate''"

lemma step_cli_names: "\<forall>s. step_from_cli (step_name s) = Some s"
  by code_simp

record step_output =
  so_name :: string
  so_display_name :: string
  so_document :: json

section \<open>The driver\<close>

record 'raw flow_driver =
  fl_backend :: "'raw recording"
  fl_store :: in_memory
  fl_operation_count :: u64
  fl_version :: u64
  fl_updated_ms :: u64

text \<open>
  What a command ends with: an API error and its context, a missing result, a panic, or the path that
  could not be written.
\<close>

datatype flow_error =
  FlowContext string api_error | FlowMissing string | FlowPanic string | FlowIo string

definition initial_ledger :: did_ledger_snapshot where
  "initial_ledger = snapshot_default
     \<lparr>id_hex := CONTRACT_ADDRESS, active := True, deactivated := False,
      controller_public_key_hex := INITIAL_CONTROLLER_PK_HEX, snap_version := 1, operation_count := 0,
      contract_version := 1, created_ms := CREATED_MS, updated_ms := CREATED_MS\<rparr>"

definition flow_contract :: "crates \<Rightarrow> serde \<Rightarrow> ('raw recording, 'raw) contract option" where
  "flow_contract X S =
     (case parse_contract_address X CONTRACT_ADDRESS of
        Inl e \<Rightarrow> None
      | Inr a \<Rightarrow> Some \<lparr>ct_backend = recording_backend X S, ct_address = a, ct_network = NETWORK\<rparr>)"

definition flow_new :: "'raw \<Rightarrow> 'raw flow_driver" where
  "flow_new st0 =
     \<lparr>fl_backend = recording_with_snapshot st0 initial_ledger, fl_store = in_memory_new,
      fl_operation_count = 0, fl_version = 1, fl_updated_ms = CREATED_MS\<rparr>"

definition advance :: "('raw flow_driver, 'e, unit) io" where
  "advance d = (Inr (), d\<lparr>fl_operation_count := fl_operation_count d + 1,
     fl_version := fl_version d + 1, fl_updated_ms := fl_updated_ms d + STEP_ADVANCE_MS\<rparr>)"

text \<open>The API works on the driver's contract and store.\<close>

definition in_flow :: "('raw recording \<times> in_memory, 'e, 'a) io \<Rightarrow> ('raw flow_driver, 'e, 'a) io" where
  "in_flow m d =
     (case m (fl_backend d, fl_store d) of (r, (b, s)) \<Rightarrow> (r, d\<lparr>fl_backend := b, fl_store := s\<rparr>))"

definition with_context :: "string \<Rightarrow> ('w, api_error, 'a) io \<Rightarrow> ('w, flow_error, 'a) io" where
  "with_context ctx m = io_map_err (FlowContext ctx) m"

definition or_panic :: "string \<Rightarrow> 'a option \<Rightarrow> ('w, flow_error, 'a) io" where
  "or_panic msg v = io_lift (ok_or (FlowPanic msg) v)"

definition mutate_ledger ::
    "('raw recording, 'raw) contract \<Rightarrow> (did_ledger_snapshot \<Rightarrow> did_ledger_snapshot) \<Rightarrow>
     ('raw flow_driver, flow_error, did_ledger_snapshot) io" where
  "mutate_ledger c mutate =
     io_bind (io_map_err (\<lambda>_. FlowPanic ''mock backend read_snapshot never fails'')
       (in_flow (on_contract (contract_read_snapshot c)))) (\<lambda>snapshot d.
         (Inr (mutate snapshot), d\<lparr>fl_backend := recording_set_snapshot (mutate snapshot) (fl_backend d)\<rparr>))"

text \<open>The closures of the steps set their own members and the three counters, read after \<open>advance\<close>.\<close>

definition mutate_counted ::
    "('raw recording, 'raw) contract \<Rightarrow> (did_ledger_snapshot \<Rightarrow> did_ledger_snapshot) \<Rightarrow>
     ('raw flow_driver, flow_error, did_ledger_snapshot) io" where
  "mutate_counted c change d =
     mutate_ledger c (\<lambda>state. (change state)
       \<lparr>snap_version := fl_version d, operation_count := fl_operation_count d,
        updated_ms := fl_updated_ms d\<rparr>) d"

section \<open>The steps\<close>

text \<open>\<open>serde_json::to_value\<close> cannot fail on these types.\<close>

definition resolved_json :: "resolved_midnight_did \<Rightarrow> json" where
  "resolved_json r =
     JObject [(''didDocument'', to_value (ser_did_document (rd_document r))),
              (''didDocumentMetadata'', to_value (ser_metadata (rd_metadata r)))]"

definition resolved_value ::
    "crates \<Rightarrow> ('raw recording, 'raw) contract \<Rightarrow> ('raw flow_driver, flow_error, json) io" where
  "resolved_value X c =
     io_bind (with_context ''resolve failed'' (in_flow (on_contract (resolve X c)))) (\<lambda>resolved.
     io_bind (io_lift (ok_or (FlowMissing ''contract returned no live state'') resolved)) (\<lambda>r.
       io_lift (Inr (resolved_json r))))"

definition output_of ::
    "crates \<Rightarrow> ('raw recording, 'raw) contract \<Rightarrow> step \<Rightarrow> ('raw flow_driver, flow_error, step_output) io" where
  "output_of X c step =
     io_bind (resolved_value X c) (\<lambda>document.
       io_lift (Inr \<lparr>so_name = step_name step, so_display_name = display_name step,
                     so_document = document\<rparr>))"

definition step_create ::
    "crates \<Rightarrow> ('raw recording, 'raw) contract \<Rightarrow> ('raw flow_driver, flow_error, step_output) io" where
  "step_create X c =
     io_bind (with_context ''create_did failed''
       (in_flow (on_store (create_did X c in_memory_store INITIAL_SECRET_KEY)))) (\<lambda>_.
       output_of X c StepCreate)"

definition step_set_vm ::
    "crates \<Rightarrow> serde \<Rightarrow> ('raw recording, 'raw) contract \<Rightarrow> ('raw flow_driver, flow_error, step_output) io"
  where
  "step_set_vm X S c =
     io_bind (or_panic ''sample_verification_method is valid'' (sample_verification_method X)) (\<lambda>vm.
     io_bind (with_context ''add_verification_method failed''
       (in_flow (on_contract (add_verification_method X S c vm)))) (\<lambda>_.
     io_bind advance (\<lambda>_.
     io_bind (or_panic ''sample_jwk is valid'' (sample_ledger_verification_method X)) (\<lambda>ledger_vm.
     io_bind (mutate_counted c (\<lambda>state. state\<lparr>verification_methods :=
       bt_insert VM_FRAGMENT ledger_vm (verification_methods state)\<rparr>)) (\<lambda>_.
     io_bind (with_context ''add_verification_method_relation(authentication) failed''
       (in_flow (on_contract (add_relation X S c Authentication VM_FRAGMENT)))) (\<lambda>_.
     io_bind advance (\<lambda>_.
     io_bind (mutate_counted c (\<lambda>state. state\<lparr>authentication_relation :=
       authentication_relation state @ [VM_FRAGMENT]\<rparr>)) (\<lambda>_.
     io_bind (with_context ''add_verification_method_relation(assertionMethod) failed''
       (in_flow (on_contract (add_relation X S c AssertionMethod VM_FRAGMENT)))) (\<lambda>_.
     io_bind advance (\<lambda>_.
     io_bind (mutate_counted c (\<lambda>state. state\<lparr>assertion_method_relation :=
       assertion_method_relation state @ [VM_FRAGMENT]\<rparr>)) (\<lambda>_.
       output_of X c StepSetVm)))))))))))"

definition step_set_service ::
    "crates \<Rightarrow> serde \<Rightarrow> ('raw recording, 'raw) contract \<Rightarrow> ('raw flow_driver, flow_error, step_output) io"
  where
  "step_set_service X S c =
     io_bind (or_panic ''sample_service is valid'' (sample_service X)) (\<lambda>svc.
     io_bind (with_context ''add_service failed'' (in_flow (on_contract (add_service X S c svc)))) (\<lambda>_.
     io_bind advance (\<lambda>_.
     io_bind (with_context ''service_to_ledger failed'' (io_lift (service_to_ledger X c svc)))
       (\<lambda>ledger_service.
     io_bind (mutate_counted c (\<lambda>state. state\<lparr>services :=
       bt_insert (ls_id ledger_service) ledger_service (services state)\<rparr>)) (\<lambda>_.
       output_of X c StepSetService)))))"

definition step_set_aka ::
    "crates \<Rightarrow> serde \<Rightarrow> ('raw recording, 'raw) contract \<Rightarrow> ('raw flow_driver, flow_error, step_output) io"
  where
  "step_set_aka X S c =
     io_bind (with_context ''add_also_known_as failed''
       (in_flow (on_contract (add_also_known_as X S c ALSO_KNOWN_AS_URI)))) (\<lambda>_.
     io_bind advance (\<lambda>_.
     io_bind (mutate_counted c (\<lambda>state. state\<lparr>also_known_as := also_known_as state @ [ALSO_KNOWN_AS_URI]\<rparr>))
       (\<lambda>_. output_of X c StepSetAka)))"

definition step_rotate ::
    "crates \<Rightarrow> serde \<Rightarrow> ('raw recording, 'raw) contract \<Rightarrow> ('raw flow_driver, flow_error, step_output) io"
  where
  "step_rotate X S c =
     io_bind (with_context ''rotate_controller_key failed''
       (in_flow (rotate_controller_key S c in_memory_store ROTATED_SECRET_KEY ROTATED_CONTROLLER_PK_BYTES)))
       (\<lambda>_.
     io_bind advance (\<lambda>_.
     io_bind (mutate_counted c (\<lambda>state. state\<lparr>controller_public_key_hex :=
       hex_encode X ROTATED_CONTROLLER_PK_BYTES\<rparr>)) (\<lambda>_.
       output_of X c StepRotate)))"

definition step_recover ::
    "crates \<Rightarrow> serde \<Rightarrow> ('raw recording, 'raw) contract \<Rightarrow> ('raw flow_driver, flow_error, step_output) io"
  where
  "step_recover X S c =
     io_bind (with_context ''recover_controller_key failed''
       (in_flow (recover_controller_key S c in_memory_store RECOVERED_SECRET_KEY RECOVERED_CONTROLLER_PK_BYTES)))
       (\<lambda>_.
     io_bind advance (\<lambda>_.
     io_bind (mutate_counted c (\<lambda>state. state\<lparr>controller_public_key_hex :=
       hex_encode X RECOVERED_CONTROLLER_PK_BYTES\<rparr>)) (\<lambda>_.
       output_of X c StepRecover)))"

definition step_resolve ::
    "crates \<Rightarrow> ('raw recording, 'raw) contract \<Rightarrow> ('raw flow_driver, flow_error, step_output) io" where
  "step_resolve X c = output_of X c StepResolve"

definition step_deactivate ::
    "crates \<Rightarrow> serde \<Rightarrow> ('raw recording, 'raw) contract \<Rightarrow> ('raw flow_driver, flow_error, step_output) io"
  where
  "step_deactivate X S c =
     io_bind (with_context ''deactivate failed'' (in_flow (on_contract (deactivate_did S c)))) (\<lambda>_.
     io_bind advance (\<lambda>_.
     io_bind (mutate_counted c (\<lambda>state. state\<lparr>active := False, deactivated := True\<rparr>)) (\<lambda>_.
       output_of X c StepDeactivate)))"

fun run_step ::
    "crates \<Rightarrow> serde \<Rightarrow> ('raw recording, 'raw) contract \<Rightarrow> step \<Rightarrow>
     ('raw flow_driver, flow_error, step_output) io" where
  "run_step X S c StepCreate = step_create X c"
| "run_step X S c StepSetVm = step_set_vm X S c"
| "run_step X S c StepSetService = step_set_service X S c"
| "run_step X S c StepSetAka = step_set_aka X S c"
| "run_step X S c StepRotate = step_rotate X S c"
| "run_step X S c StepRecover = step_recover X S c"
| "run_step X S c StepResolve = step_resolve X c"
| "run_step X S c StepDeactivate = step_deactivate X S c"

section \<open>The subcommands\<close>

datatype json_layout = Pretty | Compact

text \<open>\<open>env\<close> is whether \<open>MIDNIGHT_DID_CLI_COMPACT\<close> is set.\<close>

definition layout_for :: "bool \<Rightarrow> bool \<Rightarrow> bool \<Rightarrow> json_layout" where
  "layout_for env pretty compact =
     (if compact then Compact else if pretty then Pretty else if env then Compact else Pretty)"

text \<open>\<open>to_pretty\<close> is \<open>serde_json::to_string_pretty\<close>; neither form fails on a value.\<close>

definition render :: "crates \<Rightarrow> (json \<Rightarrow> string) \<Rightarrow> json \<Rightarrow> json_layout \<Rightarrow> string" where
  "render X to_pretty v layout =
     (case layout of Pretty \<Rightarrow> to_pretty v | Compact \<Rightarrow> json_to_string X v)"

text \<open>What \<open>println!\<close> writes, one entry a line.\<close>

definition print_header :: "nat \<Rightarrow> string \<Rightarrow> string list" where
  "print_header step_index name = [''== Step '' @ show_nat step_index @ '': '' @ name @ '' =='']"

definition print_document :: "crates \<Rightarrow> (json \<Rightarrow> string) \<Rightarrow> json \<Rightarrow> json_layout \<Rightarrow> string list" where
  "print_document X to_pretty v layout = [render X to_pretty v layout, '''']"

fun run_steps ::
    "crates \<Rightarrow> serde \<Rightarrow> (json \<Rightarrow> string) \<Rightarrow> json_layout \<Rightarrow> ('raw recording, 'raw) contract \<Rightarrow> nat \<Rightarrow> step list \<Rightarrow>
     string list \<Rightarrow> 'raw flow_driver \<Rightarrow> (flow_error + unit) \<times> string list" where
  "run_steps X S to_pretty layout c idx [] out d = (Inr (), out)"
| "run_steps X S to_pretty layout c idx (step # steps) out d =
     (case run_step X S c step d of
        (Inl e, d') \<Rightarrow> (Inl e, out)
      | (Inr output, d') \<Rightarrow>
          run_steps X S to_pretty layout c (idx + 1) steps
            (out @ print_header (idx + 1) (so_display_name output) @
               print_document X to_pretty (so_document output) layout) d')"

definition cli_run ::
    "crates \<Rightarrow> serde \<Rightarrow> (json \<Rightarrow> string) \<Rightarrow> 'raw \<Rightarrow> bool \<Rightarrow> bool \<Rightarrow> bool \<Rightarrow> string option \<Rightarrow>
     (flow_error + unit) \<times> string list" where
  "cli_run X S to_pretty st0 env pretty compact single_step =
     (let layout = layout_for env pretty compact in
      case (flow_contract X S :: ('raw recording, 'raw) contract option) of
        None \<Rightarrow> (Inl (FlowPanic ''valid CONTRACT_ADDRESS fixture''), [])
      | Some c \<Rightarrow>
          (case single_step of
             Some name \<Rightarrow>
               (case step_from_cli name of
                  Some step \<Rightarrow> run_steps X S to_pretty layout c 0 [step] [] (flow_new st0)
                | None \<Rightarrow> (Inl (FlowMissing (''unknown step `'' @ name @ ''` '' @ [CHR 0xE2, CHR 0x80, CHR 0x94] @
                    '' try one of: create, set-vm, set-service, set-aka, rotate, recover, resolve, deactivate'')), []))
           | None \<Rightarrow> run_steps X S to_pretty layout c 0 all_steps [] (flow_new st0)))"

text \<open>\<open>Path::join\<close> with a relative file name, on Unix.\<close>

definition path_join :: "string \<Rightarrow> string \<Rightarrow> string" where
  "path_join dir file = (if dir = [] \<or> ends_with dir ''/'' then dir @ file else dir @ CHR ''/'' # file)"

text \<open>
  \<open>capture\<close> creates the directory, writes each document to a file of it, says so, and stops at the first
  write that fails: the result, the files written so far and the lines printed. \<open>can_write\<close> says which of
  the directory and the files, by path, can be created or written.
\<close>

fun capture_steps ::
    "crates \<Rightarrow> serde \<Rightarrow> (json \<Rightarrow> string) \<Rightarrow> (string \<Rightarrow> bool) \<Rightarrow> ('raw recording, 'raw) contract \<Rightarrow> string \<Rightarrow>
     step list \<Rightarrow> (string \<times> string) list \<Rightarrow> string list \<Rightarrow> 'raw flow_driver \<Rightarrow>
     (flow_error + unit) \<times> (string \<times> string) list \<times> string list" where
  "capture_steps X S to_pretty can_write c dir [] files out d = (Inr (), files, out)"
| "capture_steps X S to_pretty can_write c dir (step # steps) files out d =
     (case run_step X S c step d of
        (Inl e, d') \<Rightarrow> (Inl e, files, out)
      | (Inr output, d') \<Rightarrow>
          let path = path_join dir (so_name output @ ''.json'') in
          if can_write path
          then capture_steps X S to_pretty can_write c dir steps
                 (files @ [(path, to_pretty (so_document output))]) (out @ [''wrote '' @ path]) d'
          else (Inl (FlowIo path), files, out))"

definition cli_capture ::
    "crates \<Rightarrow> serde \<Rightarrow> (json \<Rightarrow> string) \<Rightarrow> 'raw \<Rightarrow> (string \<Rightarrow> bool) \<Rightarrow> string \<Rightarrow>
     (flow_error + unit) \<times> (string \<times> string) list \<times> string list" where
  "cli_capture X S to_pretty st0 can_write dir =
     (if \<not> can_write dir then (Inl (FlowIo dir), [], [])
      else case (flow_contract X S :: ('raw recording, 'raw) contract option) of
        None \<Rightarrow> (Inl (FlowPanic ''valid CONTRACT_ADDRESS fixture''), [], [])
      | Some c \<Rightarrow> capture_steps X S to_pretty can_write c dir all_steps [] [] (flow_new st0))"

section \<open>What the driver promises\<close>

text \<open>
  The state of a driver, without the bookkeeping: whether the method and the service are set, how many
  aliases, the controller key, the active secret, and the calls. Its snapshot is a function of it.
\<close>

record flow_view =
  fv_vm :: bool
  fv_service :: bool
  fv_aliases :: nat
  fv_key_hex :: string
  fv_deactivated :: bool
  fv_secret :: "bytes option"
  fv_calls :: "did_contract_call list"

definition flow_view_new :: flow_view where
  "flow_view_new =
     \<lparr>fv_vm = False, fv_service = False, fv_aliases = 0, fv_key_hex = INITIAL_CONTROLLER_PK_HEX,
      fv_deactivated = False, fv_secret = None, fv_calls = []\<rparr>"

definition flow_vm :: "crates \<Rightarrow> ledger_verification_method" where
  "flow_vm X = \<lparr>lvm_id = VM_FRAGMENT, lvm_typ = JsonWebKey, lvm_public_key_jwk =
     \<lparr>lj_kty = EC, lj_crv = P256, lj_x = encode_base64url X (replicate 32 0),
      lj_y = encode_base64url X (replicate 32 0x11)\<rparr>\<rparr>"

definition flow_service :: "crates \<Rightarrow> ledger_service" where
  "flow_service X = \<lparr>ls_id = CHR ''#'' # SERVICE_ID, ls_typ = ''LinkedDomains'',
     ls_service_endpoint = service_endpoint_to_ledger X
       (normalize_service_endpoint X (EndpointUri SERVICE_ENDPOINT_URL))\<rparr>"

definition flow_snapshot :: "crates \<Rightarrow> flow_view \<Rightarrow> did_ledger_snapshot" where
  "flow_snapshot X v = initial_ledger
     \<lparr>active := \<not> fv_deactivated v, deactivated := fv_deactivated v, controller_public_key_hex := fv_key_hex v,
      snap_version := of_nat (length (fv_calls v)) + 1, operation_count := of_nat (length (fv_calls v)),
      updated_ms := CREATED_MS + of_nat (length (fv_calls v)) * STEP_ADVANCE_MS,
      also_known_as := replicate (fv_aliases v) ALSO_KNOWN_AS_URI,
      verification_methods := (if fv_vm v then [(VM_FRAGMENT, flow_vm X)] else []),
      authentication_relation := (if fv_vm v then [VM_FRAGMENT] else []),
      assertion_method_relation := (if fv_vm v then [VM_FRAGMENT] else []),
      services := (if fv_service v then [(ls_id (flow_service X), flow_service X)] else [])\<rparr>"

text \<open>
  One step. A second \<open>set-vm\<close> submits the method again and then fails, because the relation already
  holds it; every other step succeeds.
\<close>

fun flow_spec :: "crates \<Rightarrow> step \<Rightarrow> flow_view \<Rightarrow> flow_view" where
  "flow_spec X StepCreate v =
     v\<lparr>fv_secret := Some (case fv_secret v of Some k \<Rightarrow> k | None \<Rightarrow> INITIAL_SECRET_KEY)\<rparr>"
| "flow_spec X StepSetVm v =
     v\<lparr>fv_vm := True, fv_calls := fv_calls v @ SetVerificationMethod (flow_vm X) MapInsert #
       (if fv_vm v then []
        else [SetVerificationMethodRelation LR_Authentication VM_FRAGMENT SetInsert,
              SetVerificationMethodRelation LR_AssertionMethod VM_FRAGMENT SetInsert])\<rparr>"
| "flow_spec X StepSetService v =
     v\<lparr>fv_service := True, fv_calls := fv_calls v @ [SetService (flow_service X) MapInsert]\<rparr>"
| "flow_spec X StepSetAka v =
     v\<lparr>fv_aliases := Suc (fv_aliases v), fv_calls := fv_calls v @ [SetAlsoKnownAs ALSO_KNOWN_AS_URI SetInsert]\<rparr>"
| "flow_spec X StepRotate v =
     v\<lparr>fv_key_hex := hex_encode X ROTATED_CONTROLLER_PK_BYTES, fv_secret := Some ROTATED_SECRET_KEY,
       fv_calls := fv_calls v @ [RotateControllerKey ROTATED_CONTROLLER_PK_BYTES]\<rparr>"
| "flow_spec X StepRecover v =
     v\<lparr>fv_key_hex := hex_encode X RECOVERED_CONTROLLER_PK_BYTES, fv_secret := Some RECOVERED_SECRET_KEY,
       fv_calls := fv_calls v @ [RecoverControllerKey RECOVERED_CONTROLLER_PK_BYTES]\<rparr>"
| "flow_spec X StepResolve v = v"
| "flow_spec X StepDeactivate v = v\<lparr>fv_deactivated := True, fv_calls := fv_calls v @ [Deactivate]\<rparr>"

definition flow_answered :: "step \<Rightarrow> flow_view \<Rightarrow> bool" where
  "flow_answered s v \<longleftrightarrow> \<not> (s = StepSetVm \<and> fv_vm v)"

definition view_of :: "'raw flow_driver \<Rightarrow> flow_view" where
  "view_of d =
     (let st = rec_snapshot (fl_backend d) in
      \<lparr>fv_vm = verification_methods st \<noteq> [], fv_service = services st \<noteq> [],
       fv_aliases = length (also_known_as st), fv_key_hex = controller_public_key_hex st,
       fv_deactivated = deactivated st,
       fv_secret = map_option secret_key (im_slots (fl_store d) ActiveSlot),
       fv_calls = submitted (fl_backend d)\<rparr>)"

definition flow_inv :: "crates \<Rightarrow> 'raw flow_driver \<Rightarrow> bool" where
  "flow_inv X d \<longleftrightarrow>
     rec_snapshot (fl_backend d) = flow_snapshot X (view_of d) \<and>
     fl_operation_count d = of_nat (length (submitted (fl_backend d))) \<and>
     fl_version d = fl_operation_count d + 1 \<and>
     fl_updated_ms d = CREATED_MS + fl_operation_count d * STEP_ADVANCE_MS \<and>
     check_address (fl_store d) = Inr () \<and> im_slots (fl_store d) PendingSlot = None"

text \<open>What is assumed of the crates: their laws, and that the fixture's URIs parse.\<close>

definition flow_crates :: "crates \<Rightarrow> bool" where
  "flow_crates X \<longleftrightarrow>
     base64_ok X \<and> hex_ok X \<and> url_ok X \<and> json_crate_ok X \<and>
     url_parse X ALSO_KNOWN_AS_URI \<noteq> None \<and>
     (\<forall>u. url_parse X ''https://example.org/'' = Some u \<longrightarrow> url_join X u SERVICE_ID \<noteq> None)"

definition flow_jwk :: "crates \<Rightarrow> public_key_jwk" where
  "flow_jwk X = \<lparr>jwk_kty = EC, jwk_crv = P256, jwk_x = encode_base64url X (replicate 32 0),
     jwk_y = Some (encode_base64url X (replicate 32 0x11)), jwk_extensions = []\<rparr>"

section \<open>The fixtures are valid\<close>

text \<open>What the driver relies on: the crates, \<open>serde_json\<close>'s call envelope, and its own contract.\<close>

locale flow_env =
  fixes X :: crates and S :: serde and c :: "('raw recording, 'raw) contract"
  assumes crates: "flow_crates X" and serde: "serde_ok S" and contract: "flow_contract X S = Some c"
begin

lemma b64: "base64_ok X" and hex: "hex_ok X" and url: "url_ok X" and json: "json_crate_ok X"
  using crates by (simp_all add: flow_crates_def)

lemma backend: "ct_backend c = recording_backend X S"
  using contract by (auto simp: flow_contract_def split: sum.splits)

lemma address_lower: "to_ascii_lowercase CONTRACT_ADDRESS = CONTRACT_ADDRESS"
  by code_simp

lemma subject: "get_did_subject_for X (ct_address c) (ct_network c) = did_subject"
proof -
  from contract obtain a where a: "parse_contract_address X CONTRACT_ADDRESS = Inr a"
    and c: "ct_address c = a" "ct_network c = NETWORK"
    by (auto simp: flow_contract_def split: sum.splits)
  from a have "hash_from_hex X CONTRACT_ADDRESS = Inr a"
    by (simp add: parse_contract_address_def address_lower contract_from_hex_def result_simps Let_def
        split: if_splits)
  from hash_to_from_hex [OF hex this] have "hex_encode X a = CONTRACT_ADDRESS"
    by (simp add: hash_to_hex_def address_lower)
  then show ?thesis by (simp add: get_did_subject_form c did_subject_def)
qed

lemma flow_jwk_ok: "jwk_profile X (flow_jwk X)" "midnight_profile (flow_jwk X)"
  "ledger_jwk (flow_jwk X) = lvm_public_key_jwk (flow_vm X)"
proof -
  have "canonical_b64 X 32 (encode_base64url X (replicate 32 b))" for b :: u8
    unfolding canonical_b64_def by (rule exI [of _ "replicate 32 b"]) simp
  then show "jwk_profile X (flow_jwk X)" by (simp add: jwk_profile_def flow_jwk_def)
qed (simp_all add: midnight_profile_def flow_jwk_def ledger_jwk_def flow_vm_def)

lemma sample_jwk_eq: "sample_jwk X = Some (flow_jwk X)"
  using jwk_new_iff [OF b64, of _ "flow_jwk X"] flow_jwk_ok(1)
  by (simp add: sample_jwk_def ok_opt_Some flow_jwk_def)

lemma sample_ledger_eq: "sample_ledger_verification_method X = Some (flow_vm X)"
  by (simp add: sample_ledger_verification_method_def sample_jwk_eq flow_vm_def flow_jwk_def)

lemma fragment_key: "key_fragment_id VM_FRAGMENT"
  by (simp add: VM_FRAGMENT_def key_fragment_id_def is_key_fragment_def key_fragment_char_def ascii_defs
      code_of_def)

lemma fragment_printable: "trim VM_FRAGMENT = VM_FRAGMENT"
  by (simp add: VM_FRAGMENT_def trim_printable_all printable_def code_of_def)

lemma subject_did: "is_did_string did_subject"
  using subject_is_did [OF hex, of "ct_address c" "ct_network c"] by (simp add: subject)

lemma sample_vm:
  "\<exists>vm. sample_verification_method X = Some vm \<and> verification_method_to_ledger X c vm = Inr (flow_vm X)"
proof -
  let ?vm = "\<lparr>vm_id = DidKeyId (did_subject @ VM_FRAGMENT), vm_type = JsonWebKey,
    vm_controller = DidString did_subject, vm_public_key_jwk = (flow_jwk X)\<rparr>"
  have id: "is_did_key_id X (did_subject @ VM_FRAGMENT)"
    using fragment_key did_url_key_id [OF subject_did, of X]
    by (simp add: key_fragment_id_def VM_FRAGMENT_def)
  have "sample_verification_method X = Some ?vm"
    using id subject_did flow_jwk_ok(1)
    by (simp add: sample_verification_method_def sample_jwk_eq ok_opt_Some vm_new_iff [OF b64])
  moreover have "normalize_bound_fragment_id (did_subject @ VM_FRAGMENT) VerificationMethodIdField did_subject =
      Inr VM_FRAGMENT"
    by code_simp
  ultimately show ?thesis
    using vm_to_ledger_iff [OF b64, of ?vm c "flow_vm X"] flow_jwk_ok
    by (simp add: subject flow_vm_def)
qed

end

context flow_env
begin

lemma sample_svc:
  "\<exists>svc. sample_service X = Some svc \<and> service_to_ledger X c svc = Inr (flow_service X)"
proof -
  let ?svc = "\<lparr>svc_id = SERVICE_ID, svc_type = TypeOne ''LinkedDomains'',
    svc_endpoint = normalize_service_endpoint X (EndpointUri SERVICE_ENDPOINT_URL)\<rparr>"
  have trim: "trim SERVICE_ID = SERVICE_ID" "trim ''LinkedDomains'' = ''LinkedDomains''"
    by (simp_all add: SERVICE_ID_def trim_printable_all printable_def code_of_def)
  have "\<not> has_uri_scheme SERVICE_ID" "\<not> starts_with SERVICE_ID ''//''" "SERVICE_ID \<noteq> []"
    by code_simp+
  then have "is_relative_reference X SERVICE_ID"
    using crates url_crate.parse_base [OF url]
    by (auto simp: is_relative_reference_def trim flow_crates_def)
  then have "sample_service X = Some ?svc"
    by (simp add: sample_service_def service_new_def service_validate_def ok_opt_Some Let_def result_simps)
  moreover have "normalize_bound_fragment_id SERVICE_ID ServiceIdField did_subject = Inr (CHR ''#'' # SERVICE_ID)"
    by code_simp
  ultimately show ?thesis
    by (simp add: service_to_ledger_def Let_def result_simps normalize_for_Inr subject
        service_type_to_ledger_def trim flow_service_def)
qed

lemma alias_ok: "assert_absolute_uri X ALSO_KNOWN_AS_URI f = Inr ALSO_KNOWN_AS_URI"
proof -
  have "trim ALSO_KNOWN_AS_URI = ALSO_KNOWN_AS_URI" "ALSO_KNOWN_AS_URI \<noteq> []"
    by (simp_all add: ALSO_KNOWN_AS_URI_def trim_printable_all printable_def code_of_def)
  then show ?thesis using crates by (simp add: assert_absolute_uri_def flow_crates_def)
qed

lemma fragment_bound: "normalize_bound_fragment_id_for X c VM_FRAGMENT f = Inr VM_FRAGMENT"
proof -
  have "normalize_bound_fragment_id (CHR ''#'' # ''key-1'') f did_subject = Inr (CHR ''#'' # ''key-1'')"
    by (rule normalize_bound_hash) (simp add: trim_printable_all printable_def code_of_def)
  then show ?thesis by (simp add: normalize_for_Inr subject VM_FRAGMENT_def)
qed

text \<open>Every snapshot the flow installs resolves.\<close>

lemma flow_snapshot_ok: "snapshot_ok X (flow_snapshot X v)"
proof -
  have "ledger_jwk_to_domain X (lvm_public_key_jwk (flow_vm X)) = Inr ((flow_jwk X)\<lparr>jwk_extensions := []\<rparr>)"
    using ledger_jwk_roundtrip [OF b64 flow_jwk_ok(1,2)] by (simp add: flow_jwk_ok(3))
  moreover have "parse_service_endpoint X (ls_service_endpoint (flow_service X)) =
      Inr (normalize_service_endpoint X (normalize_service_endpoint X (EndpointUri SERVICE_ENDPOINT_URL)))"
    using parse_stored_endpoint [OF json] by (simp add: flow_service_def)
  moreover have "parse_service_type X (ls_typ (flow_service X)) = Inr (TypeOne ''LinkedDomains'')"
    using parse_stored_type_one [of "''LinkedDomains''" X]
    by (simp add: flow_service_def starts_with_def trim_printable_all printable_def code_of_def)
  moreover have "ledger_id (ls_id (flow_service X))"
    by (simp add: ledger_id_def flow_service_def SERVICE_ID_def starts_with_def trim_printable_all
        printable_def code_of_def)
  ultimately show ?thesis
    by (simp add: snapshot_ok_def flow_snapshot_def initial_ledger_def snapshot_default_def vm_keys_def
        ledger_relations_def fragment_key)
qed

end

section \<open>The steps implement their specification\<close>

text \<open>What a step shows: the document its snapshot resolves to (JNull if it did not).\<close>

definition flow_document :: "crates \<Rightarrow> flow_view \<Rightarrow> json" where
  "flow_document X v =
     (case ledger_state_to_did_document X (flow_snapshot X v) NETWORK CONTRACT_ADDRESS of
        Inl e \<Rightarrow> JNull
      | Inr doc \<Rightarrow> resolved_json \<lparr>rd_document = doc, rd_metadata = ledger_state_to_metadata (flow_snapshot X v)\<rparr>)"

definition shown :: "crates \<Rightarrow> step \<Rightarrow> flow_view \<Rightarrow> step_output \<Rightarrow> bool" where
  "shown X s v out \<longleftrightarrow>
     out = \<lparr>so_name = step_name s, so_display_name = display_name s, so_document = flow_document X v\<rparr>"

text \<open>The driver after the calls \<open>cs\<close>, with the snapshot \<open>sn\<close> and the active secret \<open>k\<close>.\<close>

definition driver_at ::
    "did_contract_call list \<Rightarrow> did_ledger_snapshot \<Rightarrow> bytes option \<Rightarrow> 'raw flow_driver \<Rightarrow> bool" where
  "driver_at cs sn k d \<longleftrightarrow>
     rec_snapshot (fl_backend d) = sn \<and> submitted (fl_backend d) = cs \<and>
     fl_operation_count d = of_nat (length cs) \<and> fl_version d = of_nat (length cs) + 1 \<and>
     fl_updated_ms d = CREATED_MS + of_nat (length cs) * STEP_ADVANCE_MS \<and>
     map_option secret_key (im_slots (fl_store d) ActiveSlot) = k \<and>
     check_address (fl_store d) = Inr () \<and> im_slots (fl_store d) PendingSlot = None"

lemma driver_at_parts:
  assumes "driver_at cs sn k d"
  shows "rec_snapshot (fl_backend d) = sn" "check_address (fl_store d) = Inr ()"
    "im_slots (fl_store d) PendingSlot = None" "map_option secret_key (im_slots (fl_store d) ActiveSlot) = k"
    "filter (\<lambda>call. call \<noteq> ReadLedger) (rec_calls (fl_backend d)) = cs"
  using assms by (simp_all add: driver_at_def submitted_def)

abbreviation matches :: "crates \<Rightarrow> flow_view \<Rightarrow> 'raw flow_driver \<Rightarrow> bool" where
  "matches X v d \<equiv> driver_at (fv_calls v) (flow_snapshot X v) (fv_secret v) d"

lemma matches_view: "matches X v d \<Longrightarrow> view_of d = v"
  by (auto simp: driver_at_def view_of_def flow_snapshot_def initial_ledger_def Let_def)

lemma flow_inv_matches: "flow_inv X d \<longleftrightarrow> matches X (view_of d) d"
  by (auto simp: flow_inv_def driver_at_def view_of_def Let_def)

lemma matches_inv: "matches X v d \<Longrightarrow> flow_inv X d \<and> view_of d = v"
  using matches_view flow_inv_matches by blast

lemma flow_new_matches: "matches X flow_view_new (flow_new st0)"
  by (simp add: driver_at_def flow_new_def flow_view_new_def flow_snapshot_def initial_ledger_def
      snapshot_default_def recording_with_snapshot_def submitted_def in_memory_new_def check_address_def)

text \<open>The counters a mutation writes after \<open>n\<close> calls.\<close>

definition stamp :: "nat \<Rightarrow> did_ledger_snapshot \<Rightarrow> did_ledger_snapshot" where
  "stamp n sn = sn\<lparr>snap_version := of_nat n + 1, operation_count := of_nat n,
     updated_ms := CREATED_MS + of_nat n * STEP_ADVANCE_MS\<rparr>"

text \<open>What the closures of the steps make of a snapshot of the flow.\<close>

lemma stamped:
  "stamp (Suc (length (fv_calls v))) ((flow_snapshot X v)
      \<lparr>also_known_as := also_known_as (flow_snapshot X v) @ [ALSO_KNOWN_AS_URI]\<rparr>) =
    flow_snapshot X (v\<lparr>fv_aliases := Suc (fv_aliases v), fv_calls := fv_calls v @ [call]\<rparr>)"
  "stamp (Suc (length (fv_calls v))) ((flow_snapshot X v)\<lparr>active := False, deactivated := True\<rparr>) =
    flow_snapshot X (v\<lparr>fv_deactivated := True, fv_calls := fv_calls v @ [call]\<rparr>)"
  "stamp (Suc (length (fv_calls v))) ((flow_snapshot X v)\<lparr>controller_public_key_hex := h\<rparr>) =
    flow_snapshot X (v\<lparr>fv_key_hex := h, fv_secret := k, fv_calls := fv_calls v @ [call]\<rparr>)"
  "stamp (Suc (length (fv_calls v))) ((flow_snapshot X v)\<lparr>services :=
      bt_insert (ls_id (flow_service X)) (flow_service X) (services (flow_snapshot X v))\<rparr>) =
    flow_snapshot X (v\<lparr>fv_service := True, fv_calls := fv_calls v @ [call]\<rparr>)"
  "fv_vm v \<Longrightarrow> stamp (Suc (length (fv_calls v))) ((flow_snapshot X v)\<lparr>verification_methods :=
      bt_insert VM_FRAGMENT (flow_vm X) (verification_methods (flow_snapshot X v))\<rparr>) =
    flow_snapshot X (v\<lparr>fv_vm := True, fv_calls := fv_calls v @ [call]\<rparr>)"
  by (simp_all add: stamp_def flow_snapshot_def initial_ledger_def snapshot_default_def replicate_append_same)

definition runs :: "crates \<Rightarrow> step \<Rightarrow> flow_view \<Rightarrow> (flow_error + step_output) \<times> 'raw flow_driver \<Rightarrow> bool" where
  "runs X s v out \<longleftrightarrow>
     matches X (flow_spec X s v) (snd out) \<and>
     (case fst out of Inr o1 \<Rightarrow> flow_answered s v \<and> shown X s (flow_spec X s v) o1
                    | Inl e \<Rightarrow> \<not> flow_answered s v)"

lemma io_map_err_lift: "io_map_err g (io_lift r) = io_lift (map_err g r)"
  by (simp add: fun_eq_iff io_map_err_def io_lift_def)

context flow_env
begin

text \<open>Reading the ledger leaves an entry in the call log, and nothing else.\<close>

lemma read_snapshot:
  "contract_read_snapshot c b = (Inr (rec_snapshot b), b\<lparr>rec_calls := rec_calls b @ [ReadLedger]\<rparr>)"
  by (simp add: contract_read_snapshot_def backend recording_backend_def recording_read_snapshot_def)

lemma contract_parts: "ct_network c = NETWORK" "contract_to_hex X (ct_address c) = CONTRACT_ADDRESS"
proof -
  show n: "ct_network c = NETWORK" using contract by (auto simp: flow_contract_def split: sum.splits)
  show "contract_to_hex X (ct_address c) = CONTRACT_ADDRESS"
    using subject by (simp add: get_did_subject_form n did_subject_def contract_to_hex_def hash_to_hex_def)
qed

lemma output_shown:
  assumes "matches X v d"
  shows "\<exists>out d'. output_of X c s d = (Inr out, d') \<and> shown X s v out \<and> matches X v d'"
proof -
  let ?b = "fl_backend d"
  have st: "rec_snapshot ?b = flow_snapshot X v" using assms by (simp add: driver_at_def)
  obtain doc where doc: "ledger_state_to_did_document X (flow_snapshot X v) NETWORK CONTRACT_ADDRESS = Inr doc"
    using resolved_document_ok [OF b64 hex url flow_snapshot_ok [of v], of NETWORK "ct_address c"]
      contract_parts by auto
  have "resolve X c ?b = (Inr (Some \<lparr>rd_document = doc, rd_metadata = ledger_state_to_metadata (flow_snapshot X v)\<rparr>),
      ?b\<lparr>rec_calls := rec_calls ?b @ [ReadLedger]\<rparr>)"
    by (simp add: resolve_eq [OF read_snapshot] st contract_parts doc)
  then show ?thesis using assms doc
    by (simp add: output_of_def resolved_value_def with_context_def in_flow_def on_contract_def io_bind_def
        io_map_err_def io_lift_def shown_def flow_document_def driver_at_def submitted_def)
qed

lemma runs_shown: "matches X (flow_spec X s v) d \<Longrightarrow> flow_answered s v \<Longrightarrow> runs X s v (output_of X c s d)"
  using output_shown [of "flow_spec X s v" d s] by (auto simp: runs_def)

lemma submit_eq:
  assumes "call_ok call"
  shows "with_context ctx (in_flow (on_contract (io_map_err map_backend_err (contract_submit S c call)))) d =
    (Inr (recorded_tx X S call (fl_backend d)),
     d\<lparr>fl_backend := (fl_backend d)\<lparr>rec_calls := rec_calls (fl_backend d) @ [call]\<rparr>\<rparr>)"
  by (simp add: with_context_def in_flow_def on_contract_def io_map_err_def recording_exec [OF serde backend assms])

lemma mutate_eq:
  "mutate_counted c ch d =
    (let b = fl_backend d;
         sn = (ch (rec_snapshot b))\<lparr>snap_version := fl_version d, operation_count := fl_operation_count d,
           updated_ms := fl_updated_ms d\<rparr>
     in (Inr sn, d\<lparr>fl_backend := b\<lparr>rec_calls := rec_calls b @ [ReadLedger], rec_snapshot := sn\<rparr>\<rparr>))"
  by (simp add: mutate_counted_def mutate_ledger_def in_flow_def on_contract_def read_snapshot io_bind_def
      io_map_err_def recording_set_snapshot_def Let_def)

text \<open>A successful call, its tick of the counters, and the snapshot that follows.\<close>

lemma counted:
  fixes m :: "('raw flow_driver, flow_error, finalized_tx_data) io"
  assumes "driver_at cs sn k d"
    and m: "m d = (Inr f, d\<lparr>fl_backend := (fl_backend d)\<lparr>rec_calls := ls\<rparr>, fl_store := s\<rparr>)"
    and "filter (\<lambda>call. call \<noteq> ReadLedger) ls = cs @ [call]"
    and "check_address s = Inr ()" and "im_slots s PendingSlot = None"
    and "map_option secret_key (im_slots s ActiveSlot) = k'"
    and K: "\<And>d'. driver_at (cs @ [call]) (stamp (Suc (length cs)) (ch sn)) k' d' \<Longrightarrow> Q (K d')"
  shows "Q (io_bind m (\<lambda>_. io_bind advance (\<lambda>_. io_bind (mutate_counted c ch) (\<lambda>_. K))) d)"
proof -
  let ?d = "d\<lparr>fl_backend := (fl_backend d)\<lparr>rec_calls := ls\<rparr>, fl_store := s,
    fl_operation_count := fl_operation_count d + 1, fl_version := fl_version d + 1,
    fl_updated_ms := fl_updated_ms d + STEP_ADVANCE_MS\<rparr>"
  let ?e = "snd (mutate_counted c ch ?d)"
  have "driver_at (cs @ [call]) (stamp (Suc (length cs)) (ch sn)) k' ?e"
    using assms by (simp add: mutate_eq Let_def driver_at_def submitted_def stamp_def algebra_simps)
  moreover have "io_bind m (\<lambda>_. io_bind advance (\<lambda>_. io_bind (mutate_counted c ch) (\<lambda>_. K))) d = K ?e"
    by (simp add: io_bind_def m advance_def mutate_eq Let_def)
  ultimately show ?thesis by (simp add: K)
qed

text \<open>The calls that do not read the ledger, and the change of a key.\<close>

lemma counted_call:
  assumes "driver_at cs sn k d" and "submittable call"
    and "\<And>d'. driver_at (cs @ [call]) (stamp (Suc (length cs)) (ch sn)) k d' \<Longrightarrow> Q (K d')"
  shows "Q (io_bind (with_context ctx (in_flow (on_contract (io_map_err map_backend_err (contract_submit S c call)))))
    (\<lambda>_. io_bind advance (\<lambda>_. io_bind (mutate_counted c ch) (\<lambda>_. K))) d)"
proof -
  from assms(2) have ok: "call_ok call" "call \<noteq> ReadLedger" by (simp_all add: submittable_def)
  let ?m = "with_context ctx (in_flow (on_contract (io_map_err map_backend_err (contract_submit S c call))))"
  have m: "?m d = (Inr (recorded_tx X S call (fl_backend d)),
     d\<lparr>fl_backend := (fl_backend d)\<lparr>rec_calls := rec_calls (fl_backend d) @ [call]\<rparr>, fl_store := fl_store d\<rparr>)"
    using submit_eq [OF ok(1)] by simp
  note store = driver_at_parts [OF assms(1)]
  show ?thesis
    by (rule counted [where m = ?m and ch = ch and K = K and Q = Q and k' = k and call = call,
          OF assms(1) m _ store(2,3) _ assms(3)])
      (simp_all add: store ok(2))
qed

lemma counted_key:
  assumes "driver_at cs sn k d" and "submittable call"
    and "\<And>d'. driver_at (cs @ [call]) (stamp (Suc (length cs)) (ch sn)) (Some sk) d' \<Longrightarrow> Q (K d')"
  shows "Q (io_bind (with_context ctx (in_flow (key_change (contract_submit S c call) in_memory_store sk)))
    (\<lambda>_. io_bind advance (\<lambda>_. io_bind (mutate_counted c ch) (\<lambda>_. K))) d)"
proof -
  from assms(2) have ok: "call_ok call" "call \<noteq> ReadLedger" by (simp_all add: submittable_def)
  let ?m = "with_context ctx (in_flow (key_change (contract_submit S c call) in_memory_store sk))"
  obtain s where m: "?m d = (Inr (recorded_tx X S call (fl_backend d)),
      d\<lparr>fl_backend := (fl_backend d)\<lparr>rec_calls := rec_calls (fl_backend d) @ [call]\<rparr>, fl_store := s\<rparr>)"
    and s: "check_address s = Inr ()" "im_slots s = [ActiveSlot \<mapsto> \<lparr>secret_key = sk\<rparr>]"
    using bound_store.key_change_ready [OF in_memory.bound_store_axioms driver_at_parts(2) [OF assms(1)],
        of "contract_submit S c call" sk "fl_backend d"]
    by (auto simp: recording_exec [OF serde backend ok(1)] with_context_def io_map_err_def in_flow_def)
  show ?thesis
    by (rule counted [where m = ?m and ch = ch and K = K and Q = Q and k' = "Some sk" and call = call,
          OF assms(1) m _ s(1) _ _ assms(3)])
      (simp_all add: s(2) ok(2) driver_at_parts [OF assms(1)])
qed

text \<open>The steps of one call.\<close>

lemmas step_simps = submittable_def stamped [symmetric] runs_shown flow_answered_def

lemma runs_aka: "matches X v d \<Longrightarrow> runs X StepSetAka v (run_step X S c StepSetAka d)"
  unfolding run_step.simps step_set_aka_def add_also_known_as_def contract_methods
    alias_ok map_err.simps io_bind_lift_left
  by (rule counted_call, assumption) (simp_all add: step_simps)

lemma runs_deactivate: "matches X v d \<Longrightarrow> runs X StepDeactivate v (run_step X S c StepDeactivate d)"
  unfolding run_step.simps step_deactivate_def deactivate_did_def contract_methods
  by (rule counted_call, assumption) (simp_all add: step_simps)

lemma runs_rotate: "matches X v d \<Longrightarrow> runs X StepRotate v (run_step X S c StepRotate d)"
  unfolding run_step.simps step_rotate_def rotate_is_key_change contract_methods
  by (rule counted_key, assumption) (simp_all add: step_simps ROTATED_CONTROLLER_PK_BYTES_def)

lemma runs_recover: "matches X v d \<Longrightarrow> runs X StepRecover v (run_step X S c StepRecover d)"
  unfolding run_step.simps step_recover_def rotate_is_key_change contract_methods
  by (rule counted_key, assumption) (simp_all add: step_simps RECOVERED_CONTROLLER_PK_BYTES_def)

lemma runs_service: "matches X v d \<Longrightarrow> runs X StepSetService v (run_step X S c StepSetService d)"
proof -
  assume d: "matches X v d"
  obtain svc where svc: "sample_service X = Some svc" "service_to_ledger X c svc = Inr (flow_service X)"
    using sample_svc by blast
  show ?thesis
    unfolding run_step.simps step_set_service_def or_panic_def svc ok_or.simps add_service_def contract_methods
      io_bind_lift_left
    unfolding with_context_def [of "''service_to_ledger failed''"] io_map_err_lift svc map_err.simps
      io_bind_lift_left
    by (rule counted_call [OF d]) (simp_all add: step_simps)
qed

lemma runs_create:
  assumes "matches X v d"
  shows "runs X StepCreate v (run_step X S c StepCreate d)"
proof -
  note store = driver_at_parts [OF assms]
  obtain st s where s: "create_did X c in_memory_store INITIAL_SECRET_KEY (fl_store d) = (Inr st, s)"
    "check_address s = Inr ()" "im_slots s = (im_slots (fl_store d))(ActiveSlot \<mapsto>
      (case im_slots (fl_store d) ActiveSlot of Some old \<Rightarrow> old | None \<Rightarrow> \<lparr>secret_key = INITIAL_SECRET_KEY\<rparr>))"
    using create_in_memory [OF store(2), of X c INITIAL_SECRET_KEY] by blast
  have v: "fv_secret v = map_option secret_key (im_slots (fl_store d) ActiveSlot)" using store(4) by simp
  have "matches X (flow_spec X StepCreate v) (d\<lparr>fl_store := s\<rparr>)"
    using assms s by (simp add: driver_at_def v flow_snapshot_def split: option.split)
  then show ?thesis
    using runs_shown [of StepCreate v "d\<lparr>fl_store := s\<rparr>"]
    by (simp add: step_create_def with_context_def in_flow_def on_store_def s(1) io_bind_def io_map_err_def
        flow_answered_def)
qed

text \<open>Adding a relation looks at the ledger first, and submits nothing when the relation is there.\<close>

lemma add_relation_eq:
  assumes "driver_at cs sn k d" and "r \<noteq> VMR_Undefined"
  shows "with_context ctx (in_flow (on_contract (add_relation X S c r VM_FRAGMENT))) d =
    (let b = fl_backend d; ls = rec_calls b @ [ReadLedger] in
     if relation_contains sn (ledger_relation_for r) VM_FRAGMENT
     then (Inl (FlowContext ctx (ApiVerification (RelationAlreadyContains (vm_relation_debug r) VM_FRAGMENT))),
           d\<lparr>fl_backend := b\<lparr>rec_calls := ls\<rparr>\<rparr>)
     else (Inr (recorded_tx X S (SetVerificationMethodRelation (ledger_relation_for r) VM_FRAGMENT SetInsert)
             (b\<lparr>rec_calls := ls\<rparr>)),
           d\<lparr>fl_backend := b\<lparr>rec_calls := ls @ [SetVerificationMethodRelation (ledger_relation_for r) VM_FRAGMENT SetInsert]\<rparr>,
             fl_store := fl_store d\<rparr>))"
  using driver_at_parts(1) [OF assms(1)]
  by (simp add: with_context_def in_flow_def on_contract_def add_relation_def fragment_bound io_bind_def
      io_map_err_def io_lift_def read_snapshot assert_relation_absent_def contract_methods
      recording_exec [OF serde backend] Let_def)

lemma counted_relation:
  assumes "driver_at cs sn k d" and "r \<noteq> VMR_Undefined"
    and "\<not> relation_contains sn (ledger_relation_for r) VM_FRAGMENT"
    and "\<And>d'. driver_at (cs @ [SetVerificationMethodRelation (ledger_relation_for r) VM_FRAGMENT SetInsert])
      (stamp (Suc (length cs)) (ch sn)) k d' \<Longrightarrow> Q (K d')"
  shows "Q (io_bind (with_context ctx (in_flow (on_contract (add_relation X S c r VM_FRAGMENT))))
    (\<lambda>_. io_bind advance (\<lambda>_. io_bind (mutate_counted c ch) (\<lambda>_. K))) d)"
proof -
  let ?m = "with_context ctx (in_flow (on_contract (add_relation X S c r VM_FRAGMENT)))"
  note store = driver_at_parts [OF assms(1)]
  from add_relation_eq [OF assms(1,2), of ctx] assms(3) obtain f where
    m: "?m d = (Inr f, d\<lparr>fl_backend := (fl_backend d)\<lparr>rec_calls := rec_calls (fl_backend d) @ [ReadLedger] @
      [SetVerificationMethodRelation (ledger_relation_for r) VM_FRAGMENT SetInsert]\<rparr>, fl_store := fl_store d\<rparr>)"
    by (simp add: Let_def)
  show ?thesis
    by (rule counted [where m = ?m and ch = ch and K = K and Q = Q and k' = k
          and call = "SetVerificationMethodRelation (ledger_relation_for r) VM_FRAGMENT SetInsert",
          OF assms(1) m _ store(2,3) _ assms(4)])
      (simp_all add: store)
qed

text \<open>
  The method step: three calls on a ledger without the method; with it, one call, and then the first
  relation is refused.
\<close>

lemma runs_vm_fresh:
  assumes "matches X v d" and "\<not> fv_vm v"
  shows "runs X StepSetVm v (run_step X S c StepSetVm d)"
proof -
  obtain vm where vm: "sample_verification_method X = Some vm"
    "verification_method_to_ledger X c vm = Inr (flow_vm X)"
    using sample_vm by blast
  have sn: "\<not> relation_contains (stamp n ((flow_snapshot X v)\<lparr>verification_methods := ms\<rparr>)) LR_Authentication VM_FRAGMENT"
    "\<not> relation_contains (stamp n' ((stamp n ((flow_snapshot X v)\<lparr>verification_methods := ms\<rparr>))
      \<lparr>authentication_relation := as\<rparr>)) LR_AssertionMethod VM_FRAGMENT"
    for n n' ms as
    using assms(2) by (simp_all add: relation_contains_def stamp_def flow_snapshot_def)
  show ?thesis
    unfolding run_step.simps step_set_vm_def or_panic_def vm sample_ledger_eq ok_or.simps
      add_verification_method_def contract_methods io_bind_lift_left
  proof (rule counted_call [OF assms(1)], simp add: submittable_def,
      rule counted_relation, assumption, simp, simp add: sn,
      rule counted_relation, assumption, simp, simp add: sn, goal_cases)
    case (1 d1 d2 d3)
    from 1(3) have "matches X (flow_spec X StepSetVm v) d3"
      using assms(2) by (simp add: stamp_def flow_snapshot_def initial_ledger_def snapshot_default_def)
    then show ?case by (rule runs_shown) (simp add: flow_answered_def assms(2))
  qed
qed

lemma runs_vm_again:
  assumes "matches X v d" and "fv_vm v"
  shows "runs X StepSetVm v (run_step X S c StepSetVm d)"
proof -
  obtain vm where vm: "sample_verification_method X = Some vm"
    "verification_method_to_ledger X c vm = Inr (flow_vm X)"
    using sample_vm by blast
  have refused: "runs X StepSetVm v (io_bind (with_context ctx
      (in_flow (on_contract (add_relation X S c Authentication VM_FRAGMENT)))) K d')"
    if "matches X (flow_spec X StepSetVm v) d'" for ctx d'
      and K :: "finalized_tx_data \<Rightarrow> ('raw flow_driver, flow_error, step_output) io"
  proof -
    have "relation_contains (flow_snapshot X (flow_spec X StepSetVm v)) LR_Authentication VM_FRAGMENT"
      by (simp add: relation_contains_def flow_snapshot_def)
    then show ?thesis
      using add_relation_eq [OF that, of Authentication ctx] that assms(2)
      by (simp add: io_bind_def Let_def runs_def flow_answered_def driver_at_def submitted_def)
  qed
  show ?thesis
    unfolding run_step.simps step_set_vm_def or_panic_def vm sample_ledger_eq ok_or.simps
      add_verification_method_def contract_methods io_bind_lift_left
  proof (rule counted_call [OF assms(1)], simp add: submittable_def, rule refused)
    fix d'
    assume "driver_at (fv_calls v @ [SetVerificationMethod (flow_vm X) MapInsert])
      (stamp (Suc (length (fv_calls v))) ((flow_snapshot X v)\<lparr>verification_methods :=
        bt_insert VM_FRAGMENT (flow_vm X) (verification_methods (flow_snapshot X v))\<rparr>)) (fv_secret v) d'"
    then show "matches X (flow_spec X StepSetVm v) d'"
      using assms(2) by (simp add: stamped(5) [symmetric])
  qed
qed

lemma runs_resolve: "matches X v d \<Longrightarrow> runs X StepResolve v (run_step X S c StepResolve d)"
  by (simp add: step_resolve_def step_simps)

end

context flow_env
begin

lemma step_runs: "matches X v d \<Longrightarrow> runs X s v (run_step X S c s d)"
  using runs_create runs_vm_fresh runs_vm_again runs_service runs_aka runs_rotate runs_recover
    runs_resolve runs_deactivate
  by (cases s) blast+

lemma step_service: "request_service (run_step X S c) (flow_inv X) view_of (flow_spec X) flow_answered"
proof unfold_locales
  fix d :: "'raw flow_driver" and s
  assume "flow_inv X d"
  then have r: "runs X s (view_of d) (run_step X S c s d)" by (simp add: flow_inv_matches step_runs)
  then have m: "matches X (flow_spec X s (view_of d)) (snd (run_step X S c s d))" by (simp add: runs_def)
  show "flow_inv X (snd (run_step X S c s d))" "view_of (snd (run_step X S c s d)) = flow_spec X s (view_of d)"
    using matches_inv [OF m] by simp_all
  show "is_ok (fst (run_step X S c s d)) = flow_answered s (view_of d)"
    using r by (auto simp: runs_def split: sum.splits)
qed

end

definition flow_ref_contract :: "(unit recording, unit) contract" where
  "flow_ref_contract =
     \<lparr>ct_backend = recording_backend ref_crates ref_serde,
      ct_address = [0x01, 0x23, 0x45, 0x67, 0x89, 0xAB, 0xCD, 0xEF, 0x01, 0x23, 0x45, 0x67, 0x89, 0xAB, 0xCD, 0xEF,
        0x01, 0x23, 0x45, 0x67, 0x89, 0xAB, 0xCD, 0xEF, 0x01, 0x23, 0x45, 0x67, 0x89, 0xAB, 0xCD, 0xEF],
      ct_network = NETWORK\<rparr>"

lemma flow_ref_crates: "flow_crates ref_crates"
proof -
  have "url_parse ref_crates ALSO_KNOWN_AS_URI \<noteq> None" by code_simp
  moreover have "url_join ref_crates u s \<noteq> None" for u s by (simp add: ref_crates_def)
  ultimately show ?thesis by (simp add: flow_crates_def ref_url.url_crate_axioms)
qed

lemma flow_ref_contract: "flow_contract ref_crates ref_serde = Some flow_ref_contract"
proof -
  have "parse_contract_address ref_crates CONTRACT_ADDRESS = Inr (ct_address flow_ref_contract)"
    by code_simp
  then show ?thesis by (simp add: flow_contract_def) (simp add: flow_ref_contract_def)
qed

interpretation flow_ref: flow_env ref_crates ref_serde flow_ref_contract
  by (rule flow_env.intro [OF flow_ref_crates ref_serde_ok flow_ref_contract])

interpretation flow_ref_service: request_service "run_step ref_crates ref_serde flow_ref_contract"
  "flow_inv ref_crates" view_of "flow_spec ref_crates" flow_answered
  by (rule flow_ref.step_service)

text \<open>What the subcommands print and write.\<close>

fun spec_lines ::
    "crates \<Rightarrow> (json \<Rightarrow> string) \<Rightarrow> json_layout \<Rightarrow> nat \<Rightarrow> step list \<Rightarrow> flow_view \<Rightarrow> string list" where
  "spec_lines X to_pretty layout idx [] v = []"
| "spec_lines X to_pretty layout idx (s # steps) v =
     print_header (idx + 1) (display_name s) @
     print_document X to_pretty (flow_document X (flow_spec X s v)) layout @
     spec_lines X to_pretty layout (idx + 1) steps (flow_spec X s v)"

fun spec_files ::
    "crates \<Rightarrow> (json \<Rightarrow> string) \<Rightarrow> string \<Rightarrow> step list \<Rightarrow> flow_view \<Rightarrow> (string \<times> string) list" where
  "spec_files X to_pretty dir [] v = []"
| "spec_files X to_pretty dir (s # steps) v =
     (path_join dir (step_name s @ ''.json''), to_pretty (flow_document X (flow_spec X s v))) #
     spec_files X to_pretty dir steps (flow_spec X s v)"

definition wrote :: "(string \<times> string) list \<Rightarrow> string list" where
  "wrote files = map (\<lambda>(path, _). ''wrote '' @ path) files"

text \<open>The steps a command line asks for.\<close>

definition requested :: "string option \<Rightarrow> step list option" where
  "requested single_step =
     (case single_step of None \<Rightarrow> Some all_steps | Some name \<Rightarrow> map_option (\<lambda>s. [s]) (step_from_cli name))"

fun all_answered :: "crates \<Rightarrow> step list \<Rightarrow> flow_view \<Rightarrow> bool" where
  "all_answered X [] v = True"
| "all_answered X (s # steps) v = (flow_answered s v \<and> all_answered X steps (flow_spec X s v))"

lemma requested_answered: "requested single = Some steps \<Longrightarrow> all_answered X steps flow_view_new"
  by (cases single) (auto simp: requested_def all_steps_def flow_answered_def flow_view_new_def)

context flow_env
begin

lemma step_outcome:
  assumes "matches X v d" and "flow_answered s v"
  obtains d' where "matches X (flow_spec X s v) d'"
    and "run_step X S c s d = (Inr \<lparr>so_name = step_name s, so_display_name = display_name s,
      so_document = flow_document X (flow_spec X s v)\<rparr>, d')"
proof -
  from step_runs [OF assms(1), of s] assms(2) have
    "matches X (flow_spec X s v) (snd (run_step X S c s d))"
    "fst (run_step X S c s d) = Inr \<lparr>so_name = step_name s, so_display_name = display_name s,
      so_document = flow_document X (flow_spec X s v)\<rparr>"
    by (auto simp: runs_def shown_def split: sum.splits)
  with that show thesis by (metis prod.collapse)
qed

lemma run_steps_eq:
  "matches X v d \<Longrightarrow> all_answered X steps v \<Longrightarrow>
     run_steps X S tp layout c idx steps out d = (Inr (), out @ spec_lines X tp layout idx steps v)"
proof (induction steps arbitrary: idx out d v)
  case (Cons s steps)
  from Cons.prems obtain d' where "matches X (flow_spec X s v) d'"
    and "run_step X S c s d = (Inr \<lparr>so_name = step_name s, so_display_name = display_name s,
      so_document = flow_document X (flow_spec X s v)\<rparr>, d')"
    using step_outcome [of v d s] by auto
  with Cons.IH [OF this(1)] Cons.prems(2) show ?case by simp
qed simp

lemma capture_steps_eq:
  "matches X v d \<Longrightarrow> all_answered X steps v \<Longrightarrow>
     capture_steps X S tp can_write c dir steps files out d =
       (let fs = spec_files X tp dir steps v; ok = takeWhile (\<lambda>(path, _). can_write path) fs
        in (if ok = fs then Inr () else Inl (FlowIo (fst (fs ! length ok))), files @ ok, out @ wrote ok))"
proof (induction steps arbitrary: files out d v)
  case (Cons s steps)
  from Cons.prems obtain d' where "matches X (flow_spec X s v) d'"
    and "run_step X S c s d = (Inr \<lparr>so_name = step_name s, so_display_name = display_name s,
      so_document = flow_document X (flow_spec X s v)\<rparr>, d')"
    using step_outcome [of v d s] by auto
  with Cons.IH [OF this(1)] Cons.prems(2) show ?case by (simp add: Let_def wrote_def)
qed (simp add: wrote_def)

end

section \<open>Properties\<close>

text \<open>
  C20. Any sequence of flow steps does what its specification says, from a new driver on: each step
  submits its calls in order, moves the secret and the key, and installs the snapshot that the calls
  should have led to, with version, operation count and time that count the submitted calls; only a
  repeated \<open>set-vm\<close> fails, after its first call. So the driver's counters, its snapshot and the call log
  never drift apart, also across that failure.
\<close>

theorem flow_session_refines:
  assumes "flow_crates X" and "serde_ok S" and "flow_contract X S = Some c"
    and "session (run_step X S c) steps (flow_new st0) = (rs, d)"
  shows "(map is_ok rs, view_of d) = spec_session (flow_spec X) flow_answered steps flow_view_new \<and>
    flow_inv X d"
proof -
  note service = flow_env.step_service [OF flow_env.intro [OF assms(1-3)]]
  have new: "flow_inv X (flow_new st0)" "view_of (flow_new st0) = flow_view_new"
    using matches_inv [OF flow_new_matches [of X st0]] by simp_all
  from request_service.session_refines [OF service new(1), of steps]
    request_service.session_inv [OF service new(1), of steps]
  show ?thesis by (simp add: assms(4) new(2))
qed

theorem flow_session_refines_witness:
  "map is_ok (fst (session (run_step ref_crates ref_serde flow_ref_contract)
      [StepCreate, StepSetVm, StepSetVm, StepRotate, StepDeactivate] (flow_new ()))) =
     [True, True, False, True, True] \<and>
   flow_inv ref_crates (snd (session (run_step ref_crates ref_serde flow_ref_contract)
      [StepCreate, StepSetVm, StepSetVm, StepRotate, StepDeactivate] (flow_new ())))"
  using flow_session_refines [OF flow_ref_crates ref_serde_ok flow_ref_contract prod.collapse [symmetric],
      of "[StepCreate, StepSetVm, StepSetVm, StepRotate, StepDeactivate]" "()"]
  by (simp add: flow_answered_def flow_view_new_def)

text \<open>
  C30. The command line never fails on its fixtures: \<open>run\<close> refuses exactly an unknown step name, before
  it prints anything, and otherwise prints a numbered header and the document of each requested step;
  \<open>capture-fixtures\<close> writes the eight documents under their step names into the directory, in order, up to
  the first file that cannot be written, prints a line for each, and does nothing when the directory
  cannot be created. (The crate's README counts seven steps and seven files: it leaves out \<open>recover\<close>.)
\<close>

theorem cli_output_exact:
  fixes st0 :: 'raw
  assumes "flow_crates X" and "serde_ok S"
    and "flow_contract X S = Some (c :: ('raw recording, 'raw) contract)"
  shows "(case requested single of
      None \<Rightarrow> (\<exists>m. cli_run X S tp st0 env pretty compact single = (Inl (FlowMissing m), []))
    | Some steps \<Rightarrow> cli_run X S tp st0 env pretty compact single =
        (Inr (), spec_lines X tp (layout_for env pretty compact) 0 steps flow_view_new)) \<and>
    cli_capture X S tp st0 can_write dir =
      (if can_write dir
       then let fs = spec_files X tp dir all_steps flow_view_new; ok = takeWhile (\<lambda>(path, _). can_write path) fs
            in (if ok = fs then Inr () else Inl (FlowIo (fst (fs ! length ok))), ok, wrote ok)
       else (Inl (FlowIo dir), [], [])) \<and>
    length all_steps = 8"
proof (intro conjI)
  note env = flow_env.intro [OF assms]
  have new: "matches X flow_view_new (flow_new st0)" by (rule flow_new_matches)
  show "case requested single of
      None \<Rightarrow> (\<exists>m. cli_run X S tp st0 env pretty compact single = (Inl (FlowMissing m), []))
    | Some steps \<Rightarrow> cli_run X S tp st0 env pretty compact single =
        (Inr (), spec_lines X tp (layout_for env pretty compact) 0 steps flow_view_new)"
  proof (cases "requested single")
    case None
    then show ?thesis
      by (auto simp: cli_run_def requested_def assms(3) Let_def split: option.splits)
  next
    case (Some steps)
    then have "cli_run X S tp st0 env pretty compact single =
        run_steps X S tp (layout_for env pretty compact) c 0 steps [] (flow_new st0)"
      by (auto simp: cli_run_def requested_def assms(3) Let_def split: option.splits)
    then show ?thesis
      using flow_env.run_steps_eq [OF env new requested_answered [OF Some]] Some by simp
  qed
  have "all_answered X all_steps flow_view_new" using requested_answered [of None] by (simp add: requested_def)
  then show "cli_capture X S tp st0 can_write dir =
      (if can_write dir
       then let fs = spec_files X tp dir all_steps flow_view_new; ok = takeWhile (\<lambda>(path, _). can_write path) fs
            in (if ok = fs then Inr () else Inl (FlowIo (fst (fs ! length ok))), ok, wrote ok)
       else (Inl (FlowIo dir), [], []))"
    using flow_env.capture_steps_eq [OF env new] by (simp add: cli_capture_def assms(3))
  show "length all_steps = 8" by (simp add: all_steps_def)
qed

lemma spec_files_names:
  "map fst (spec_files X tp dir steps v) = map (\<lambda>s. path_join dir (step_name s @ ''.json'')) steps"
  by (induction steps arbitrary: v) simp_all

theorem cli_output_exact_witness:
  "cli_run ref_crates ref_serde json_show () False False False (Some ''resolve'') =
     (Inr (), [''== Step 1: resolve =='', json_show (flow_document ref_crates flow_view_new), []]) \<and>
   map fst (fst (snd (cli_capture ref_crates ref_serde json_show () (\<lambda>_. True) ''out''))) =
     map (\<lambda>s. path_join ''out'' (step_name s @ ''.json'')) all_steps"
proof -
  have r: "requested (Some ''resolve'') = Some [StepResolve]" by (simp add: requested_def step_from_cli_def)
  from cli_output_exact [OF flow_ref_crates ref_serde_ok flow_ref_contract,
      where single = "Some ''resolve''" and tp = json_show and ?st0.0 = "()" and env = False and pretty = False
        and compact = False and can_write = "\<lambda>_. True" and dir = "''out''"]
  have "cli_run ref_crates ref_serde json_show () False False False (Some ''resolve'') =
      (Inr (), spec_lines ref_crates json_show Pretty 0 [StepResolve] flow_view_new)"
    and c: "fst (snd (cli_capture ref_crates ref_serde json_show () (\<lambda>_. True) ''out'')) =
      takeWhile (\<lambda>_. True) (spec_files ref_crates json_show ''out'' all_steps flow_view_new)"
    by (simp_all only: r option.case layout_for_def if_True if_False Let_def case_prod_unfold fst_conv snd_conv simp_thms)
  moreover have "takeWhile (\<lambda>_. True) fs = fs" for fs :: "(string \<times> string) list"
    by (simp add: takeWhile_eq_all_conv)
  moreover have "show_nat 1 = ''1''" by code_simp
  ultimately show ?thesis
    by (simp add: print_header_def print_document_def render_def spec_files_names)
qed

end
