(* ===== verification/Registrar.thy ===== *)
theory Registrar
  imports Document_Json Backends
begin

text \<open>
  \<open>midnight-did-domain/src/did_resolver.rs\<close> and \<open>did_registrar.rs\<close>: the traits of a resolver and of a
  registrar as records of their methods over an explicit state, and the option and result types of the
  registrar with their derived JSON forms. The repository implements neither trait, so nothing is said
  of an implementation; the types are generic over the identifier \<open>'did\<close> and the patch \<open>'op\<close>, and so
  are their codecs.
\<close>

section \<open>The traits\<close>

record ('w, 'e) midnight_did_resolver =
  resolver_resolve :: "did_string \<Rightarrow> ('w, 'e, did_document) io"

record 'did create_result =
  cr_did :: 'did
  cr_document :: did_document

record ('w, 'e, 'did, 'op) did_registrar =
  registrar_create :: "'op list \<Rightarrow> ('w, 'e, 'did create_result) io"
  registrar_update :: "'did \<Rightarrow> 'op list \<Rightarrow> ('w, 'e, did_document) io"
  registrar_deactivate :: "'did \<Rightarrow> ('w, 'e, did_document) io"

section \<open>Options and results\<close>

record 'op create_options =
  co_patches :: "'op list"

record 'op update_options =
  uo_patches :: "'op list"

record deactivate_options =
  do_reason :: "string option"

text \<open>\<open>#[derive(Default)]\<close>.\<close>

definition create_options_default :: "'op create_options" where
  "create_options_default = \<lparr>co_patches = []\<rparr>"

definition update_options_default :: "'op update_options" where
  "update_options_default = \<lparr>uo_patches = []\<rparr>"

definition deactivate_options_default :: deactivate_options where
  "deactivate_options_default = \<lparr>do_reason = None\<rparr>"

definition ser_create_result :: "('did \<Rightarrow> json) \<Rightarrow> 'did create_result \<Rightarrow> json" where
  "ser_create_result ser r =
     JObject [(''did'', ser (cr_did r)), (''document'', ser_did_document (cr_document r))]"

definition de_create_result ::
    "crates \<Rightarrow> (json \<Rightarrow> 'did option) \<Rightarrow> json \<Rightarrow> 'did create_result option" where
  "de_create_result X de v =
     (case json_fields [''did'', ''document''] v of
        Some [i, d] \<Rightarrow>
          Option.bind (de i) (\<lambda>i.
          Option.bind (de_did_document X d) (\<lambda>d. Some \<lparr>cr_did = i, cr_document = d\<rparr>))
      | _ \<Rightarrow> None)"

definition ser_create_options :: "('op \<Rightarrow> json) \<Rightarrow> 'op create_options \<Rightarrow> json" where
  "ser_create_options ser r = JObject [(''patches'', ser_list ser (co_patches r))]"

definition de_create_options :: "(json \<Rightarrow> 'op option) \<Rightarrow> json \<Rightarrow> 'op create_options option" where
  "de_create_options de v =
     (case json_fields [''patches''] v of
        Some [ps] \<Rightarrow> Option.bind (json_list de ps) (\<lambda>ps. Some \<lparr>co_patches = ps\<rparr>)
      | _ \<Rightarrow> None)"

definition ser_update_options :: "('op \<Rightarrow> json) \<Rightarrow> 'op update_options \<Rightarrow> json" where
  "ser_update_options ser r = JObject [(''patches'', ser_list ser (uo_patches r))]"

definition de_update_options :: "(json \<Rightarrow> 'op option) \<Rightarrow> json \<Rightarrow> 'op update_options option" where
  "de_update_options de v =
     (case json_fields [''patches''] v of
        Some [ps] \<Rightarrow> Option.bind (json_list de ps) (\<lambda>ps. Some \<lparr>uo_patches = ps\<rparr>)
      | _ \<Rightarrow> None)"

text \<open>
  An \<open>Option\<close> field without a \<open>skip_serializing_if\<close>: written as \<open>null\<close>, and read as \<open>None\<close> from
  \<open>null\<close> or from an object without the member. An array has to hold it.
\<close>

definition ser_deactivate_options :: "deactivate_options \<Rightarrow> json" where
  "ser_deactivate_options r =
     JObject [(''reason'', case do_reason r of None \<Rightarrow> JNull | Some s \<Rightarrow> JString s)]"

fun de_deactivate_options :: "json \<Rightarrow> deactivate_options option" where
  "de_deactivate_options (JObject m) =
     map_option deactivate_options.make (read_opt json_text (map_of m ''reason''))"
| "de_deactivate_options (JArray [v]) =
     map_option deactivate_options.make (read_opt json_text (Some v))"
| "de_deactivate_options _ = None"

text \<open>\<open>MidnightDidString\<close> is \<open>#[serde(transparent)]\<close> too.\<close>

definition ser_midnight_did :: "midnight_did_string \<Rightarrow> json" where
  "ser_midnight_did d = JString (midnight_did_str d)"

definition de_midnight_did :: "json \<Rightarrow> midnight_did_string option" where
  "de_midnight_did v = map_option MidnightDidString (json_text v)"

section \<open>Round trips\<close>

context json_codec begin

lemma create_result_codec:
  "json_codec (\<lambda>r. ok (cr_did r) \<and> document_json_ok X (cr_document r))
     (ser_create_result ser) (de_create_result X de)"
proof (unfold_locales, goal_cases)
  case (1 r)
  let ?es = "[(''did'', to_value (ser (cr_did r))), (''document'', to_value (ser_did_document (cr_document r)))]"
  have "json_fields (map fst ?es) (JObject (bt_collect ?es)) = Some (map snd ?es)"
    by (rule json_fields_collect) simp
  with 1 show ?case
    by (simp add: de_create_result_def ser_create_result_def de_ser document.de_ser)
next
  case (2 r)
  then show ?case by (simp add: ser_create_result_def)
next
  case (3 r)
  then show ?case by (simp add: ser_create_result_def ser_tree document.ser_tree [of X])
qed

lemma patches_fields:
  "json_fields [''patches''] (to_value (JObject [(''patches'', v)])) = Some [to_value v]"
  using json_fields_collect [of "[(''patches'', to_value v)]"] by simp

lemma create_options_codec:
  "json_codec (\<lambda>r. list_all ok (co_patches r)) (ser_create_options ser) (de_create_options de)"
  by unfold_locales
    (simp_all add: de_create_options_def ser_create_options_def patches_fields list_de_ser list_tree
      del: to_value.simps(2), simp)

lemma update_options_codec:
  "json_codec (\<lambda>r. list_all ok (uo_patches r)) (ser_update_options ser) (de_update_options de)"
  by unfold_locales
    (simp_all add: de_update_options_def ser_update_options_def patches_fields list_de_ser list_tree
      del: to_value.simps(2), simp)

end

interpretation midnight_did: json_codec "\<lambda>_. True" ser_midnight_did de_midnight_did
proof unfold_locales
  fix v :: midnight_did_string
  show "de_midnight_did (to_value (ser_midnight_did v)) = Some v"
    by (cases v) (simp add: de_midnight_did_def ser_midnight_did_def)
  show "to_value (ser_midnight_did v) \<noteq> JNull" "json_tree (ser_midnight_did v)"
    by (simp_all add: ser_midnight_did_def)
qed

interpretation create_result: json_codec
  "\<lambda>r. True \<and> document_json_ok X (cr_document r)"
  "ser_create_result ser_midnight_did" "de_create_result X de_midnight_did" for X
  by (rule midnight_did.create_result_codec)

interpretation deactivate_options: json_codec "\<lambda>_. True" ser_deactivate_options de_deactivate_options
proof unfold_locales
  fix v :: deactivate_options
  have "to_value (ser_deactivate_options v) =
      JObject [(''reason'', case do_reason v of None \<Rightarrow> JNull | Some s \<Rightarrow> JString s)]"
    by (simp add: ser_deactivate_options_def bt_collect_def split: option.split)
  then show "de_deactivate_options (to_value (ser_deactivate_options v)) = Some v"
    by (cases v) (simp add: read_opt_def deactivate_options.make_def split: option.split)
  show "to_value (ser_deactivate_options v) \<noteq> JNull" "json_tree (ser_deactivate_options v)"
    by (simp_all add: ser_deactivate_options_def split: option.split)
qed

text \<open>
  The registrar's wire types read back what they write, for identifiers and patches of any codec, and
  an absent reason is read like a null one.
\<close>

theorem registrar_json_roundtrip:
  assumes "json_codec okd serd ded" and "json_codec oko sero deo"
    and "okd (cr_did r)" and "document_json_ok X (cr_document r)" and "list_all oko ps"
  shows "de_create_result X ded (to_value (ser_create_result serd r)) = Some r \<and>
    de_create_options deo (to_value (ser_create_options sero \<lparr>co_patches = ps\<rparr>)) = Some \<lparr>co_patches = ps\<rparr> \<and>
    de_update_options deo (to_value (ser_update_options sero \<lparr>uo_patches = ps\<rparr>)) = Some \<lparr>uo_patches = ps\<rparr> \<and>
    de_deactivate_options (to_value (ser_deactivate_options q)) = Some q \<and>
    de_deactivate_options (JObject []) = Some deactivate_options_default"
  using assms(3-5) json_codec.de_ser [OF json_codec.create_result_codec [OF assms(1)]]
    json_codec.de_ser [OF json_codec.create_options_codec [OF assms(2)]]
    json_codec.de_ser [OF json_codec.update_options_codec [OF assms(2)]]
  by (simp add: deactivate_options.de_ser read_opt_def deactivate_options.make_def
      deactivate_options_default_def)

end
