(* ===== verification/Error_Texts.thy ===== *)
theory Error_Texts
  imports Mappers Ids
begin

text \<open>
  The \<open>Display\<close> texts of the errors that no other component embeds: \<open>IdError\<close>, \<open>ParseHexError\<close>,
  \<open>OffchainError\<close> and the validation error of \<open>contract_call.rs\<close>. The others stand with the API's.
\<close>

fun id_error_text :: "id_error \<Rightarrow> string" where
  "id_error_text IdEmpty = ''identifier is empty''"
| "id_error_text MissingFragmentPrefix = ''fragment id must start with '' @ CHR 0x27 # CHR ''#'' # [CHR 0x27]"
| "id_error_text BadFragmentChars = ''fragment id contains whitespace or control characters''"
| "id_error_text MissingDidFragment =
     ''DID key id must contain a '' @ CHR 0x27 # CHR ''#'' # CHR 0x27 # '' fragment''"
| "id_error_text (InvalidDidUri s) = ''invalid DID URI: '' @ s"

fun parse_hex_error_text :: "parse_hex_error \<Rightarrow> string" where
  "parse_hex_error_text (WrongLength n) = ''expected 64 hex characters, got '' @ show_nat n"
| "parse_hex_error_text (InvalidHex e) = ''invalid hex: '' @ e"

fun offchain_error_text :: "offchain_error \<Rightarrow> string" where
  "offchain_error_text (OE_Codec e) = ''codec error: '' @ codec_error_text e"
| "offchain_error_text (OE_Did e) = ''Midnight DID error: '' @ midnight_did_error_text e"
| "offchain_error_text (OE_Validation e) = ''validation error: '' @ validation_error_text e"
| "offchain_error_text BadBase64Url = ''Offchain Midnight DID state is not valid unpadded base64url''"
| "offchain_error_text NonCanonicalBase64Url =
     ''Offchain Midnight DID state is not canonical unpadded base64url''"
| "offchain_error_text ShortFrame = ''Offchain Midnight DID state is shorter than the header''"
| "offchain_error_text BadMagic = ''Offchain Midnight DID state has an unexpected magic header''"
| "offchain_error_text TooManyChunks = ''Offchain Midnight DID state declares too many chunks''"
| "offchain_error_text ChunkOverflow = ''Offchain Midnight DID chunk exceeds payload length''"
| "offchain_error_text TrailingBytes = ''Offchain Midnight DID state contains trailing bytes''"
| "offchain_error_text (Overflow l) = l @ '' must fit into uint32''"
| "offchain_error_text (UnsupportedEncoding e) =
     ''Unsupported offchain Midnight DID state encoding '' @ CHR 0x22 # e @ [CHR 0x22]"
| "offchain_error_text NotOffchain = ''Long-form offchain Midnight DID must use offchain network''"
| "offchain_error_text MissingEncodedState =
     ''Long-form offchain Midnight DID must include encoded state''"
| "offchain_error_text StateHashMismatch =
     ''Long-form offchain Midnight DID state does not match the DID state hash''"
| "offchain_error_text BadVersion = ''offchain state version must be in [1, 65535]''"
| "offchain_error_text TooManyAlsoKnownAs = ''alsoKnownAs must contain at most 4 entries''"
| "offchain_error_text NoVerificationMethod = ''At least one verification method is required''"
| "offchain_error_text TooManyVerificationMethods =
     ''verificationMethod must contain at most 4 entries''"
| "offchain_error_text TooManyServices = ''service must contain at most 4 entries''"
| "offchain_error_text FragmentRequired = ''id must be a fragment reference''"
| "offchain_error_text EmptyServiceField = ''service type and serviceEndpoint must be non-empty''"
| "offchain_error_text (UnsupportedKeyType kty crv) =
     ''Unsupported offchain Midnight DID key type '' @ kty @ ''/'' @ crv"
| "offchain_error_text CompactCodecMissing =
     ''Compact value codec is not provided; plug in a runtime-backed CompactValueCodec to '' @
     ''encode/decode offchain state''"

text \<open>
  The model keeps of a non-hex character only its index, so the reason's text is a parameter: it shows
  the character in its \<open>Debug\<close> form.
\<close>

fun rt_validation_error_text :: "(hex_reason \<Rightarrow> string) \<Rightarrow> rt_validation_error \<Rightarrow> string" where
  "rt_validation_error_text show (Empty f) = f @ '' must not be empty''"
| "rt_validation_error_text show (NotHex f r) = f @ '' must be a hex string ('' @ show r @ '')''"
| "rt_validation_error_text show (WrongByteLength f n m) =
     f @ '' must encode exactly '' @ show_nat n @ '' bytes (got '' @ show_nat m @ '')''"

end
