(* ===== verification/Tests_Domain.thy ===== *)
theory Tests_Domain
  imports Error_Texts
begin

text \<open>
  The unit tests of the domain and method crates, translated like the rest of the code and run on the
  model with the reference codecs: each test is a proposition over the crates, an \<open>assert!\<close> a conjunct,
  and an \<open>unwrap\<close> or \<open>expect\<close> on the wrong side fails the test. They check the model against what the
  authors of the code expect of it on concrete inputs. The tests of \<open>uri.rs\<close> need the real \<open>url\<close> crate:
  there the parsed URL is a hypothesis.
\<close>

section \<open>Outcomes\<close>

definition on_ok :: "'e + 'a \<Rightarrow> ('a \<Rightarrow> bool) \<Rightarrow> bool" where
  "on_ok r P = (case r of Inl _ \<Rightarrow> False | Inr v \<Rightarrow> P v)"

definition on_err :: "'e + 'a \<Rightarrow> ('e \<Rightarrow> bool) \<Rightarrow> bool" where
  "on_err r P = (case r of Inl e \<Rightarrow> P e | Inr _ \<Rightarrow> False)"

definition repeat_str :: "string \<Rightarrow> nat \<Rightarrow> string" where
  "repeat_str s n = concat (replicate n s)"

section \<open>\<open>crypto_codecs.rs\<close>\<close>

definition test_encode_decode_roundtrip :: "crates \<Rightarrow> bool" where
  "test_encode_decode_roundtrip X =
     (let bs = text_bytes ''midnight-rocks''; encoded = encode_base64url X bs
      in on_ok (decode_base64url X encoded) (\<lambda>decoded. decoded = bs))"

definition test_rejects_invalid_charset :: "crates \<Rightarrow> bool" where
  "test_rejects_invalid_charset X =
     on_err (decode_base64url_bytes X ''not+base64url'' 32 ''x'')
       (\<lambda>e. case e of InvalidCharacter _ \<Rightarrow> True | _ \<Rightarrow> False)"

definition test_enforces_length :: "crates \<Rightarrow> bool" where
  "test_enforces_length X =
     (let too_short = encode_base64url X (replicate 16 1)
      in on_err (decode_base64url_bytes X too_short 32 ''x'')
        (\<lambda>e. case e of UnexpectedByteLength _ _ _ \<Rightarrow> True | _ \<Rightarrow> False))"

definition test_rejects_non_canonical :: "crates \<Rightarrow> bool" where
  "test_rejects_non_canonical X =
     on_err (decode_base64url_bytes X ''AAAAA'' 32 ''x'')
       (\<lambda>e. case e of InvalidCharacter _ \<Rightarrow> True | _ \<Rightarrow> False)"

lemma crypto_codecs_tests:
  "test_encode_decode_roundtrip ref_crates" "test_rejects_invalid_charset ref_crates"
  "test_enforces_length ref_crates" "test_rejects_non_canonical ref_crates"
  by code_simp+

section \<open>\<open>did_document.rs\<close>\<close>

definition test_did_string_validates_basic_shape :: bool where
  "test_did_string_validates_basic_shape \<longleftrightarrow>
     is_ok (did_string_parse ''did:example:1234'') \<and>
     \<not> is_ok (did_string_parse ''did:example:1234#frag'') \<and>
     \<not> is_ok (did_string_parse ''not-a-did'')"

definition test_did_key_id_accepts_fragments :: "crates \<Rightarrow> bool" where
  "test_did_key_id_accepts_fragments X \<longleftrightarrow>
     is_ok (did_key_id_parse X ''#key-1'') \<and>
     is_ok (did_key_id_parse X ''did:example:1#key-1'') \<and>
     \<not> is_ok (did_key_id_parse X ''did:example:1'')"

lemma did_document_tests:
  "test_did_string_validates_basic_shape" "test_did_key_id_accepts_fragments ref_crates"
  by code_simp+

section \<open>\<open>ledger_utils.rs\<close>\<close>

definition test_normalises_bare_fragment :: bool where
  "test_normalises_bare_fragment \<longleftrightarrow>
     normalize_fragment_id ''key-1'' = ''#key-1'' \<and>
     normalize_fragment_id ''did:example:1#key-1'' = ''#key-1'' \<and>
     normalize_fragment_id ''#key-1'' = ''#key-1''"

definition test_binds_fragment_to_did :: bool where
  "test_binds_fragment_to_did =
     (let did = ''did:midnight:devnet:abcd''
      in on_ok (normalize_bound_fragment_id (did @ ''#key-1'') VerificationMethodIdField did)
        (\<lambda>frag. frag = ''#key-1''))"

definition test_rejects_mismatched_subject :: bool where
  "test_rejects_mismatched_subject =
     (let did = ''did:midnight:devnet:abcd''
      in on_err (normalize_bound_fragment_id ''did:midnight:devnet:xxxx#key-1''
          VerificationMethodIdField did)
        (\<lambda>e. case e of SubjectMismatch _ _ \<Rightarrow> True | _ \<Rightarrow> False))"

lemma ledger_utils_tests:
  "test_normalises_bare_fragment" "test_binds_fragment_to_did" "test_rejects_mismatched_subject"
  by code_simp+

section \<open>\<open>hex_ext.rs\<close>\<close>

definition test_from_hex_empty_string_is_wrong_length :: "crates \<Rightarrow> bool" where
  "test_from_hex_empty_string_is_wrong_length X =
     on_err (hash_from_hex X []) (\<lambda>e. case e of WrongLength n \<Rightarrow> n = 0 | _ \<Rightarrow> False)"

definition test_to_hex_of_zeroed_hash_is_64_zeros :: "crates \<Rightarrow> bool" where
  "test_to_hex_of_zeroed_hash_is_64_zeros X \<longleftrightarrow>
     hash_to_hex X (replicate 32 0) = repeat_str ''0'' 64"

lemma hex_ext_tests:
  "test_from_hex_empty_string_is_wrong_length ref_crates"
  "test_to_hex_of_zeroed_hash_is_64_zeros ref_crates"
  by code_simp+

section \<open>\<open>network_mapping.rs\<close>\<close>

definition test_runtime_to_domain_is_total_over_all_runtime_ids :: bool where
  "test_runtime_to_domain_is_total_over_all_runtime_ids \<longleftrightarrow>
     list_all (\<lambda>i. domain_to_runtime (runtime_to_domain i) = Some i) runtime_all"

definition test_offchain_has_no_runtime_id :: bool where
  "test_offchain_has_no_runtime_id \<longleftrightarrow> domain_to_runtime Offchain = None"

definition test_parse_round_trip :: bool where
  "test_parse_round_trip \<longleftrightarrow>
     list_all (\<lambda>i. runtime_parse (runtime_as_str i) = Some i) runtime_all \<and>
     runtime_parse ''nope'' = None"

lemma network_mapping_tests:
  "test_runtime_to_domain_is_total_over_all_runtime_ids" "test_offchain_has_no_runtime_id"
  "test_parse_round_trip"
  by code_simp+

section \<open>\<open>ids.rs\<close>\<close>

text \<open>\<open>str::contains\<close> of a text.\<close>

fun contains_str :: "string \<Rightarrow> string \<Rightarrow> bool" where
  "contains_str [] pat \<longleftrightarrow> pat = []"
| "contains_str (c # s) pat \<longleftrightarrow> starts_with (c # s) pat \<or> contains_str s pat"

definition test_id_error_displays_helpfully_for_missing_fragment :: bool where
  "test_id_error_displays_helpfully_for_missing_fragment =
     on_err (did_key_id_new ''did:midnight:devnet:abc'')
       (\<lambda>e. contains_str (id_error_text e) ''fragment'')"

definition test_fragment_id_internal_field_is_private :: bool where
  "test_fragment_id_internal_field_is_private =
     on_ok (fragment_id_new ''#k'') (\<lambda>f. fragment_id_str f = ''#k'')"

lemma ids_tests:
  "test_id_error_displays_helpfully_for_missing_fragment" "test_fragment_id_internal_field_is_private"
  by code_simp+

section \<open>\<open>uri.rs\<close>\<close>

definition test_lowercases_scheme_and_host :: "crates \<Rightarrow> bool" where
  "test_lowercases_scheme_and_host X \<longleftrightarrow>
     normalize_uri_string X ''HTTPS://Example.COM/Path'' = ''https://example.com/Path''"

definition test_strips_default_ports :: "crates \<Rightarrow> bool" where
  "test_strips_default_ports X \<longleftrightarrow>
     normalize_uri_string X ''https://example.com:443/'' = ''https://example.com/''"

definition test_leaves_unknown_schemes_alone :: "crates \<Rightarrow> bool" where
  "test_leaves_unknown_schemes_alone X \<longleftrightarrow>
     normalize_uri_string X ''did:example:1234'' = ''did:example:1234''"

text \<open>What \<open>url::Url::parse\<close> documents for the two inputs: it lowercases and drops default ports.\<close>

definition url_of_tests :: "crates \<Rightarrow> bool" where
  "url_of_tests X \<longleftrightarrow>
     (let u = \<lparr>url_scheme = ''https'', url_username = [], url_password = None,
               url_host = Some ''example.com'', url_port = None, url_path = ''/Path'',
               url_query = None, url_fragment = None\<rparr>
      in url_parse X ''HTTPS://Example.COM/Path'' = Some u \<and>
         url_parse X ''https://example.com:443/'' = Some (u\<lparr>url_path := ''/''\<rparr>))"

lemma uri_tests:
  assumes "url_of_tests X"
  shows "test_lowercases_scheme_and_host X" "test_strips_default_ports X"
    "test_leaves_unknown_schemes_alone X"
proof -
  have "extract_scheme ''HTTPS://Example.COM/Path'' = Some ''HTTPS''"
    "extract_scheme ''https://example.com:443/'' = Some ''https''"
    "extract_scheme ''did:example:1234'' = Some ''did''"
    "to_ascii_lowercase ''HTTPS'' = ''https''" "to_ascii_lowercase ''https'' = ''https''"
    "to_ascii_lowercase ''did'' = ''did''" "to_ascii_lowercase ''example.com'' = ''example.com''"
    "\<not> ends_with ''HTTPS://Example.COM/Path'' ''/''" "ends_with ''https://example.com:443/'' ''/''"
    "''https'' \<in> set known_schemes" "''did'' \<notin> set known_schemes"
    by code_simp+
  then show "test_lowercases_scheme_and_host X" "test_strips_default_ports X"
    "test_leaves_unknown_schemes_alone X"
    using assms
    by (simp_all add: test_lowercases_scheme_and_host_def test_strips_default_ports_def
        test_leaves_unknown_schemes_alone_def normalize_uri_string_def url_of_tests_def Let_def)
qed

section \<open>\<open>midnight_did.rs\<close>\<close>

definition sample_hex :: string where
  "sample_hex = ''cccccccccccccccccccccccccccccccccccccccccccccccccccccccccccccccc''"

definition test_build_and_decompose :: "crates \<Rightarrow> bool" where
  "test_build_and_decompose X =
     on_ok (parse_contract_address X sample_hex) (\<lambda>address.
       let did = create_midnight_did_string (contract_to_hex X address) DevNet
       in midnight_did_str did = ''did:midnight:devnet:'' @ sample_hex \<and>
          on_ok (parse_midnight_did_string (midnight_did_str did)) (\<lambda>parsed.
          on_ok (parse_midnight_did X parsed) (\<lambda>(net, i).
            net = DevNet \<and> subject_to_hex X i = sample_hex)))"

definition test_rejects_unknown_network :: bool where
  "test_rejects_unknown_network =
     on_err (parse_midnight_did_string (''did:midnight:unknown:'' @ sample_hex)) (\<lambda>e. e = UnknownNetwork)"

definition test_rejects_uppercase_offchain :: bool where
  "test_rejects_uppercase_offchain =
     on_err (parse_midnight_did_string (''did:midnight:offchain:'' @ repeat_str ''C'' 64))
       (\<lambda>e. e = OffchainNotLowercase)"

definition test_rejects_bad_state_encoding :: bool where
  "test_rejects_bad_state_encoding =
     on_err (parse_midnight_did_string (''did:midnight:offchain:'' @ sample_hex @ '':not+base64url''))
       (\<lambda>e. e = BadOffchainStateEncoding)"

definition test_maps_undeployed_preview_preprod :: "crates \<Rightarrow> bool" where
  "test_maps_undeployed_preview_preprod X =
     list_all (\<lambda>(wire, expected).
         on_ok (parse_midnight_did_string (''did:midnight:'' @ wire @ '':'' @ sample_hex)) (\<lambda>parsed.
         on_ok (parse_midnight_did X parsed) (\<lambda>r. fst r = expected)))
       [(''undeployed'', Undeployed), (''preview'', Preview), (''preprod'', Preprod)]"

definition test_long_form_offchain_parses :: "crates \<Rightarrow> bool" where
  "test_long_form_offchain_parses X =
     on_ok (parse_midnight_did_string (''did:midnight:offchain:'' @ sample_hex @ '':AQIDBA'')) (\<lambda>parsed.
     on_ok (parse_midnight_did X parsed) (\<lambda>(net, i).
       net = Offchain \<and> subject_to_hex X i = sample_hex))"

definition test_parse_contract_address_returns_upstream_type :: "crates \<Rightarrow> bool" where
  "test_parse_contract_address_returns_upstream_type X =
     on_ok (parse_contract_address X sample_hex) (\<lambda>addr. addr = replicate 32 0xcc)"

definition test_parse_offchain_state_hash_returns_upstream_type :: "crates \<Rightarrow> bool" where
  "test_parse_offchain_state_hash_returns_upstream_type X =
     on_ok (parse_offchain_state_hash X sample_hex) (\<lambda>hash. hash = replicate 32 0xcc)"

definition test_parse_offchain_state_hash_rejects_mixed_case :: "crates \<Rightarrow> bool" where
  "test_parse_offchain_state_hash_rejects_mixed_case X =
     (let mixed = ''AAAAaaaaAAAAaaaaAAAAaaaaAAAAaaaaAAAAaaaaAAAAaaaaAAAAaaaaAAAAaaaa''
      in length mixed = 64 \<and>
         on_err (parse_offchain_state_hash X mixed) (\<lambda>e. e = BadOffchainStateHash))"

definition test_midnight_subject_id_renders_hex_for_contract_variant :: "crates \<Rightarrow> bool" where
  "test_midnight_subject_id_renders_hex_for_contract_variant X =
     on_ok (parse_contract_address X sample_hex) (\<lambda>addr.
       subject_to_hex X (ContractSubject addr) = sample_hex)"

definition test_midnight_subject_id_renders_hex_for_offchain_variant :: "crates \<Rightarrow> bool" where
  "test_midnight_subject_id_renders_hex_for_offchain_variant X =
     on_ok (parse_offchain_state_hash X sample_hex) (\<lambda>hash.
       subject_to_hex X (OffchainSubject hash) = sample_hex)"

definition test_parse_contract_address_accepts_mixed_case :: "crates \<Rightarrow> bool" where
  "test_parse_contract_address_accepts_mixed_case X =
     (let mixed = ''Cccccccccccccccccccccccccccccccccccccccccccccccccccccccccccccccc''
      in length mixed = 64 \<and>
         on_ok (parse_contract_address X mixed) (\<lambda>addr. contract_to_hex X addr = sample_hex))"

definition test_parse_contract_address_rejects_wrong_length :: "crates \<Rightarrow> bool" where
  "test_parse_contract_address_rejects_wrong_length X =
     on_err (parse_contract_address X ''dead'') (\<lambda>e. e = BadContractAddress)"

text \<open>Most of these tests pass with every lawful \<open>hex\<close> crate, two name the decoded bytes.\<close>

lemma sample_hex_facts: "is_lowercase_hex64 sample_hex" "is_hex64 sample_hex"
  "to_ascii_lowercase sample_hex = sample_hex"
proof -
  show "is_lowercase_hex64 sample_hex" by code_simp
  then show "is_hex64 sample_hex" "to_ascii_lowercase sample_hex = sample_hex"
    by (simp_all add: is_lowercase_hex64_iff)
qed

lemma sample_hex_decodes:
  assumes "hex_ok X"
  obtains h where "hash_from_hex X sample_hex = Inr h" and "hash_to_hex X h = sample_hex"
proof -
  obtain h where "hash_from_hex X sample_hex = Inr h"
    using hash_from_hex_is_ok [OF assms, of sample_hex] sample_hex_facts by (auto simp: is_ok_iff)
  with that show ?thesis using hash_to_from_hex [OF assms] sample_hex_facts by fastforce
qed

lemma sample_dids:
  "''did:midnight:devnet:'' @ sample_hex = short_form DevNet sample_hex"
  "''did:midnight:undeployed:'' @ sample_hex = short_form Undeployed sample_hex"
  "''did:midnight:preview:'' @ sample_hex = short_form Preview sample_hex"
  "''did:midnight:preprod:'' @ sample_hex = short_form Preprod sample_hex"
  "''did:midnight:offchain:'' @ sample_hex @ '':AQIDBA'' = long_form sample_hex ''AQIDBA''"
  by (simp_all add: short_form_def long_form_def)

lemma sample_short_forms:
  assumes "hex_ok X" and "n \<noteq> Offchain"
  shows "\<exists>h. parse_midnight_did_string (short_form n sample_hex) = Inr (MidnightDidString (short_form n sample_hex)) \<and>
    parse_midnight_did X (MidnightDidString (short_form n sample_hex)) = Inr (n, ContractSubject h) \<and>
    hash_to_hex X h = sample_hex"
  using parse_midnight_did_short [OF assms(1), of sample_hex n] parse_accepts_short [of sample_hex n]
    sample_hex_facts assms(2) by auto

lemma contract_subject_tests:
  assumes "hex_ok X"
  shows "test_build_and_decompose X" "test_maps_undeployed_preview_preprod X"
    "test_midnight_subject_id_renders_hex_for_contract_variant X"
    "test_midnight_subject_id_renders_hex_for_offchain_variant X"
proof -
  obtain h where h: "hash_from_hex X sample_hex = Inr h" "hash_to_hex X h = sample_hex"
    by (rule sample_hex_decodes [OF assms])
  note rw = h sample_hex_facts parse_contract_address_def parse_offchain_state_hash_def
    contract_from_hex_def contract_to_hex_def on_ok_def Let_def
  show "test_midnight_subject_id_renders_hex_for_contract_variant X"
    "test_midnight_subject_id_renders_hex_for_offchain_variant X"
    by (simp_all add: test_midnight_subject_id_renders_hex_for_contract_variant_def
        test_midnight_subject_id_renders_hex_for_offchain_variant_def rw)
  have did: "midnight_did_str (create_midnight_did_string sample_hex n) = short_form n sample_hex" for n
    by (simp add: create_midnight_did_string_def short_form_def)
  show "test_build_and_decompose X"
    using sample_short_forms [OF assms, of DevNet]
    by (auto simp: test_build_and_decompose_def rw did sample_dids [simplified])
  show "test_maps_undeployed_preview_preprod X"
    using sample_short_forms [OF assms, of Undeployed] sample_short_forms [OF assms, of Preview]
      sample_short_forms [OF assms, of Preprod]
    by (auto simp: test_maps_undeployed_preview_preprod_def sample_dids [simplified] on_ok_def)
qed

lemma offchain_subject_tests:
  assumes "hex_ok X"
  shows "test_long_form_offchain_parses X"
proof -
  have seg: "is_base64url_segment ''AQIDBA''" by code_simp
  show ?thesis
    using parse_midnight_did_long [OF assms sample_hex_facts(1) seg]
      parse_accepts_long [OF sample_hex_facts(1) seg]
    by (auto simp: test_long_form_offchain_parses_def sample_dids(5) [simplified] on_ok_def)
qed

lemma midnight_did_tests:
  "test_rejects_unknown_network" "test_rejects_uppercase_offchain" "test_rejects_bad_state_encoding"
  "test_parse_offchain_state_hash_rejects_mixed_case ref_crates"
  "test_parse_contract_address_rejects_wrong_length ref_crates"
  by code_simp+

lemma decoded_sample: "hash_from_hex ref_crates sample_hex = Inr (replicate 32 0xcc)"
proof -
  have "hash_to_hex ref_crates (replicate 32 0xcc) = sample_hex" by code_simp
  with hash_from_to_hex [OF ref_crates_ok(2), of "replicate 32 0xcc"] show ?thesis by simp
qed

lemma decoded_bytes_tests:
  "test_parse_contract_address_returns_upstream_type ref_crates"
  "test_parse_offchain_state_hash_returns_upstream_type ref_crates"
  by (simp_all add: test_parse_contract_address_returns_upstream_type_def on_ok_def
      test_parse_offchain_state_hash_returns_upstream_type_def parse_contract_address_def Let_def
      parse_offchain_state_hash_def contract_from_hex_def sample_hex_facts decoded_sample)

lemma mixed_case_test:
  assumes "hex_ok X"
  shows "test_parse_contract_address_accepts_mixed_case X"
proof -
  let ?m = "''Cccccccccccccccccccccccccccccccccccccccccccccccccccccccccccccccc''"
  have "length ?m = 64 \<and> is_hex64 ?m \<and> to_ascii_lowercase ?m = sample_hex" by code_simp
  moreover obtain h where "hash_from_hex X sample_hex = Inr h" "hash_to_hex X h = sample_hex"
    by (rule sample_hex_decodes [OF assms])
  ultimately show ?thesis
    unfolding test_parse_contract_address_accepts_mixed_case_def Let_def parse_contract_address_def
    by (simp add: contract_from_hex_def contract_to_hex_def on_ok_def del: list.size)
qed

section \<open>\<open>offchain.rs\<close>\<close>

definition sample_state :: "crates \<Rightarrow> offchain_state option" where
  "sample_state X =
     (case jwk_new X \<lparr>nj_kty = OKP, nj_crv = Ed25519, nj_x = encode_base64url X (replicate 32 1),
                      nj_y = None, nj_extensions = []\<rparr> of
        Inl e \<Rightarrow> None
      | Inr jwk \<Rightarrow>
          Some \<lparr>ost_version = 1, ost_also_known_as = [],
                ost_verification_method =
                  [\<lparr>ovm_id = ''#key-1'', ovm_public_key_jwk = jwk,
                    ovm_relationships =
                      \<lparr>or_authentication = True, or_assertion_method = False, or_key_agreement = False,
                       or_capability_invocation = False, or_capability_delegation = False\<rparr>\<rparr>],
                ost_service = []\<rparr>)"

definition test_mod1_frame_roundtrips :: bool where
  "test_mod1_frame_roundtrips =
     (let chunks = [[1, 2, 3], [], replicate 5 9]
      in on_ok (compact_value_to_bytes chunks) (\<lambda>bs.
           take 4 bs = text_bytes ''MOD1'' \<and>
           on_ok (compact_value_from_bytes bs) (\<lambda>decoded. decoded = chunks)))"

definition test_mod1_rejects_bad_magic :: bool where
  "test_mod1_rejects_bad_magic =
     on_err (compact_value_from_bytes (text_bytes ''NOPE'' @ replicate 4 0)) (\<lambda>e. e = BadMagic)"

definition test_relationships_round_trip :: bool where
  "test_relationships_round_trip \<longleftrightarrow>
     (let r = \<lparr>or_authentication = True, or_assertion_method = False, or_key_agreement = True,
               or_capability_invocation = False, or_capability_delegation = True\<rparr>
      in mask_to_relationships (relationships_to_mask r) = r)"

definition test_key_kind_round_trip :: "crates \<Rightarrow> bool" where
  "test_key_kind_round_trip X =
     on_ok (jwk_new X \<lparr>nj_kty = OKP, nj_crv = Ed25519, nj_x = encode_base64url X (replicate 32 7),
                       nj_y = None, nj_extensions = []\<rparr>) (\<lambda>jwk.
     on_ok (key_kind_from_jwk jwk) (\<lambda>kind.
       kind = KindEd25519 \<and>
       on_ok (jwk_from_key_kind X kind (jwk_x jwk) []) (\<lambda>back.
         jwk_kty back = jwk_kty jwk \<and> jwk_crv back = jwk_crv jwk)))"

definition test_state_hash_is_blake2s_of_frame :: "crates \<Rightarrow> bool" where
  "test_state_hash_is_blake2s_of_frame X =
     (let h = bytes_to_state_hash X (text_bytes ''MOD1'' @ replicate 4 0);
          hex = hash_to_hex X h
      in length h = 32 \<and> length hex = 64 \<and>
         list_all (\<lambda>c. is_ascii_digit c \<or> (97 \<le> code_of c \<and> code_of c \<le> 102)) hex)"

definition test_unimplemented_codec_errors_cleanly :: "crates \<Rightarrow> bool" where
  "test_unimplemented_codec_errors_cleanly X =
     (case sample_state X of
        None \<Rightarrow> False
      | Some state \<Rightarrow>
          on_err (encode_offchain_state X unimplemented_codec state) (\<lambda>e. e = CompactCodecMissing))"

definition test_shape_validation_catches_obvious_problems :: "crates \<Rightarrow> bool" where
  "test_shape_validation_catches_obvious_problems X =
     (case sample_state X of
        None \<Rightarrow> False
      | Some s \<Rightarrow>
          let s = s\<lparr>ost_verification_method :=
                (ost_verification_method s)[0 := (ost_verification_method s ! 0)\<lparr>ovm_id := ''key-1''\<rparr>]\<rparr>
          in on_err (validate_state_shape s) (\<lambda>e. e = FragmentRequired))"

lemma frame_tests: "test_mod1_frame_roundtrips" "test_mod1_rejects_bad_magic"
proof -
  let ?cs = "[[1, 2, 3], [], replicate 5 9] :: bytes list"
  have "fits_u32 ?cs" by (simp add: fits_u32_def)
  moreover have "text_bytes ''MOD1'' = magic" by code_simp
  ultimately show "test_mod1_frame_roundtrips"
    using to_bytes_Inr [of ?cs "frame_of ?cs"] from_bytes_Inr [of "frame_of ?cs" ?cs]
    by (simp add: test_mod1_frame_roundtrips_def on_ok_def Let_def) (simp add: frame_of_def)
  have "text_bytes ''NOPE'' \<noteq> magic" by code_simp
  then show "test_mod1_rejects_bad_magic"
    by (simp add: test_mod1_rejects_bad_magic_def on_err_def compact_value_from_bytes_def text_bytes_def)
qed

lemma mask_test: "test_relationships_round_trip"
  by code_simp

lemma ed25519_jwk:
  assumes "base64_ok X"
  shows "jwk_new X \<lparr>nj_kty = OKP, nj_crv = Ed25519, nj_x = encode_base64url X (replicate 32 b),
       nj_y = None, nj_extensions = []\<rparr> =
     Inr \<lparr>jwk_kty = OKP, jwk_crv = Ed25519, jwk_x = encode_base64url X (replicate 32 b), jwk_y = None,
          jwk_extensions = []\<rparr>"
proof -
  have "canonical_b64 X 32 (encode_base64url X (replicate 32 b))"
    unfolding canonical_b64_def by (intro exI [of _ "replicate 32 b"]) simp
  then show ?thesis by (simp add: jwk_new_iff [OF assms] jwk_profile_def)
qed

lemma offchain_tests:
  assumes "base64_ok X"
  shows "test_key_kind_round_trip X" "test_unimplemented_codec_errors_cleanly X"
    "test_shape_validation_catches_obvious_problems X"
proof -
  note jwk = ed25519_jwk [OF assms]
  show "test_key_kind_round_trip X"
    by (simp add: test_key_kind_round_trip_def jwk on_ok_def key_kind_from_jwk_def jwk_from_key_kind_def
)
  show "test_unimplemented_codec_errors_cleanly X"
    by (simp add: test_unimplemented_codec_errors_cleanly_def sample_state_def jwk on_err_def
        encode_offchain_state_def validate_state_shape_def check_offchain_vm_def key_kind_from_jwk_def
        unimplemented_codec_def starts_with_def max_verification_methods_def)
  show "test_shape_validation_catches_obvious_problems X"
    by (simp add: test_shape_validation_catches_obvious_problems_def sample_state_def jwk on_err_def
        validate_state_shape_def check_offchain_vm_def starts_with_def max_verification_methods_def)
qed

lemma state_hash_test:
  assumes "hex_ok X" and "\<And>bs. length (blake2s256 X bs) = 32"
  shows "test_state_hash_is_blake2s_of_frame X"
  using hash_to_hex64 [OF assms(1) assms(2)]
  by (simp add: test_state_hash_is_blake2s_of_frame_def Let_def bytes_to_state_hash_def assms(2)
      is_lowercase_hex64_def)

end
