(* ===== verification/Tests_Api.thy ===== *)
theory Tests_Api
  imports Cli_Flow Tests_Domain
begin

text \<open>
  The unit tests of the runtime, API and foreign-function crates, translated and run on the model. An
  asynchronous operation is awaited to its end before the next. The tests hold for every lawful choice
  of the crates and of \<open>serde_json\<close>'s envelope, in the locale \<open>test_env\<close>, which is interpreted on the
  reference codecs; the upstream \<open>ChargedState\<close> is the unit type.
\<close>

section \<open>Running an operation\<close>

definition run_ok :: "('w, 'e, 'a) io \<Rightarrow> 'w \<Rightarrow> ('a \<Rightarrow> 'w \<Rightarrow> bool) \<Rightarrow> bool" where
  "run_ok m w P = (case m w of (Inl e, w') \<Rightarrow> False | (Inr v, w') \<Rightarrow> P v w')"

definition run_err :: "('w, 'e, 'a) io \<Rightarrow> 'w \<Rightarrow> ('e \<Rightarrow> 'w \<Rightarrow> bool) \<Rightarrow> bool" where
  "run_err m w P = (case m w of (Inl e, w') \<Rightarrow> P e w' | (Inr v, w') \<Rightarrow> False)"

text \<open>The fixtures every module repeats.\<close>

definition test_contract ::
    "crates \<Rightarrow> serde \<Rightarrow> midnight_network \<Rightarrow> ((unit recording, unit) contract \<Rightarrow> bool) \<Rightarrow> bool" where
  "test_contract X S n P =
     on_ok (parse_contract_address X sample_hex) (\<lambda>a.
       P \<lparr>ct_backend = recording_backend X S, ct_address = a, ct_network = n\<rparr>)"

definition test_did_subject :: string where
  "test_did_subject = ''did:midnight:testnet:'' @ sample_hex"

section \<open>\<open>backend.rs\<close>\<close>

definition test_recording_backend_decodes_and_records_submit :: "crates \<Rightarrow> serde \<Rightarrow> bool" where
  "test_recording_backend_decodes_and_records_submit X S =
     (let call1 = Deactivate; call2 = RotateControllerKey (replicate 32 3);
          tx1 = call_encode S call1; tx2 = call_encode S call2
      in run_ok (recording_submit X S tx1) (recording_new ()) (\<lambda>f1 b1.
         run_ok (recording_submit X S tx2) b1 (\<lambda>f2 b2.
           block_height f1 = 1 \<and> block_height f2 = 2 \<and> tx_hash f1 \<noteq> [] \<and>
           length (rec_calls b2) = 2 \<and> rec_calls b2 ! 0 = call1 \<and> rec_calls b2 ! 1 = call2)))"

definition test_recording_backend_submit_rejects_garbage_envelope :: "crates \<Rightarrow> serde \<Rightarrow> bool" where
  "test_recording_backend_submit_rejects_garbage_envelope X S =
     run_err (recording_submit X S [0xff, 0xfe]) (recording_new ()) (\<lambda>e b.
       (case e of Decode _ \<Rightarrow> True | _ \<Rightarrow> False) \<and> length (rec_calls b) = 0)"

definition test_recording_backend_read_snapshot_records_synthetic_read_ledger :: bool where
  "test_recording_backend_read_snapshot_records_synthetic_read_ledger =
     (let snap = snapshot_default\<lparr>snap_version := 7\<rparr>
      in run_ok recording_read_snapshot (recording_with_snapshot () snap) (\<lambda>read b.
           read = snap \<and> rec_calls b = [ReadLedger]))"

definition test_resolver_backend_rejects_submit :: bool where
  "test_resolver_backend_rejects_submit \<longleftrightarrow>
     fst (submit_tx resolver_backend [] (resolver_new ())) = Inl ReadOnly"

definition test_resolver_backend_returns_state_snapshot :: bool where
  "test_resolver_backend_returns_state_snapshot =
     run_ok (read_state resolver_backend) (resolver_new ()) (\<lambda>read b. read = ())"

definition test_resolver_backend_returns_snapshot :: bool where
  "test_resolver_backend_returns_snapshot =
     (let snap = snapshot_default\<lparr>snap_version := 42\<rparr>
      in run_ok (read_snapshot resolver_backend) (resolver_with_snapshot () snap) (\<lambda>got b. got = snap))"

section \<open>\<open>contract_call.rs\<close>\<close>

definition sample_ledger_vm :: ledger_verification_method where
  "sample_ledger_vm =
     \<lparr>lvm_id = ''#key-1'', lvm_typ = JsonWebKey,
      lvm_public_key_jwk = \<lparr>lj_kty = EC, lj_crv = P256, lj_x = ''Zm9v'', lj_y = ''YmFy''\<rparr>\<rparr>"

definition test_rotate_controller_key_roundtrip :: "serde \<Rightarrow> bool" where
  "test_rotate_controller_key_roundtrip S =
     (let call = RotateControllerKey (replicate 32 7)
      in on_ok (call_decode S (call_encode S call)) (\<lambda>decoded. call = decoded))"

definition test_recover_controller_key_roundtrip :: "serde \<Rightarrow> bool" where
  "test_recover_controller_key_roundtrip S =
     (let call = RecoverControllerKey (replicate 32 8); rotate = RotateControllerKey (replicate 32 8)
      in on_ok (call_decode S (call_encode S call)) (\<lambda>decoded. call = decoded) \<and>
         call_encode S call \<noteq> call_encode S rotate)"

definition test_set_verification_method_roundtrip :: "serde \<Rightarrow> bool" where
  "test_set_verification_method_roundtrip S =
     (let call = SetVerificationMethod sample_ledger_vm MapUpdate
      in on_ok (call_decode S (call_encode S call)) (\<lambda>decoded. call = decoded))"

definition test_deactivate_roundtrip :: "serde \<Rightarrow> bool" where
  "test_deactivate_roundtrip S =
     on_ok (call_decode S (call_encode S Deactivate)) (\<lambda>decoded. Deactivate = decoded)"

definition test_decode_rejects_garbage :: "serde \<Rightarrow> bool" where
  "test_decode_rejects_garbage S =
     on_err (call_decode S [0xff, 0xfe]) (\<lambda>e. case e of Decode _ \<Rightarrow> True | _ \<Rightarrow> False)"

definition test_relation_set_lookup :: bool where
  "test_relation_set_lookup \<longleftrightarrow>
     (let snap = snapshot_default\<lparr>authentication_relation := [''#k1'']\<rparr>
      in relation_contains snap LR_Authentication ''#k1'' \<and>
         \<not> relation_contains snap LR_AssertionMethod ''#k1'' \<and>
         relation_set snap LR_Undefined = None)"

section \<open>\<open>contract_wrapper.rs\<close>\<close>

definition test_contract_records_typed_calls :: "crates \<Rightarrow> serde \<Rightarrow> bool" where
  "test_contract_records_typed_calls X S =
     test_contract X S Undeployed (\<lambda>c.
       run_ok (ct_deactivate S c) (recording_new ()) (\<lambda>_ b.
       run_ok (ct_rotate_controller_key S c (replicate 32 9)) b (\<lambda>_ b.
         length (rec_calls b) = 2 \<and> rec_calls b ! 0 = Deactivate \<and>
         rec_calls b ! 1 = RotateControllerKey (replicate 32 9))))"

definition test_contract_records_recover_controller_key :: "crates \<Rightarrow> serde \<Rightarrow> bool" where
  "test_contract_records_recover_controller_key X S =
     test_contract X S Undeployed (\<lambda>c.
       run_ok (ct_recover_controller_key S c (replicate 32 5)) (recording_new ()) (\<lambda>_ b.
         rec_calls b = [RecoverControllerKey (replicate 32 5)]))"

definition test_contract_address_and_network_accessors :: "crates \<Rightarrow> serde \<Rightarrow> bool" where
  "test_contract_address_and_network_accessors X S =
     test_contract X S Testnet (\<lambda>c. ct_network c = Testnet \<and> contract_address X c = sample_hex)"

definition test_read_snapshot_returns_seeded_value :: "crates \<Rightarrow> serde \<Rightarrow> bool" where
  "test_read_snapshot_returns_seeded_value X S =
     (let snap = snapshot_default\<lparr>snap_version := 42\<rparr>
      in test_contract X S Undeployed (\<lambda>c.
           run_ok (contract_read_snapshot c) (recording_with_snapshot () snap) (\<lambda>got b.
             got = snap \<and> rec_calls b = [ReadLedger])))"

section \<open>\<open>private_state.rs\<close>\<close>

definition test_save_and_restore_round_trip :: bool where
  "test_save_and_restore_round_trip =
     (let state = \<lparr>secret_key = replicate 32 7\<rparr>
      in run_ok (save_private_state in_memory_store state ActiveSlot) in_memory_new (\<lambda>_ s.
         run_ok (restore_private_state in_memory_store ActiveSlot) s (\<lambda>restored s.
           restored = Some state)))"

definition test_require_errors_when_missing :: bool where
  "test_require_errors_when_missing =
     run_err (require_private_state in_memory_store ActiveSlot) in_memory_new (\<lambda>e s.
       e = MissingPrivateState)"

definition test_recover_requires_finalization_marker :: bool where
  "test_recover_requires_finalization_marker =
     run_ok (save_pending_controller_private_state in_memory_store \<lparr>secret_key = replicate 32 3\<rparr>)
       in_memory_new (\<lambda>_ s.
     run_err (recover_pending_controller_private_state in_memory_store False) s (\<lambda>e s.
       case e of InvalidArgument _ \<Rightarrow> True | _ \<Rightarrow> False))"

definition test_recover_promotes_pending_to_active :: bool where
  "test_recover_promotes_pending_to_active =
     (let pending = \<lparr>secret_key = replicate 32 9\<rparr>
      in run_ok (save_pending_controller_private_state in_memory_store pending) in_memory_new (\<lambda>_ s.
         run_ok (recover_pending_controller_private_state in_memory_store True) s (\<lambda>recovered s.
         run_ok (restore_private_state in_memory_store ActiveSlot) s (\<lambda>a s.
         run_ok (restore_private_state in_memory_store PendingSlot) s (\<lambda>p s.
           recovered = pending \<and> a = Some pending \<and> p = None)))))"

definition test_strict_store_errors_before_binding :: bool where
  "test_strict_store_errors_before_binding =
     run_err (in_memory_get ActiveSlot) in_memory_strict (\<lambda>e s.
       e = ContractAddressNotSet \<and>
       run_ok (in_memory_get ActiveSlot) (in_memory_set_address ''0xabc'' s) (\<lambda>v s. v = None))"

definition test_restore_swallows_contract_address_not_set :: bool where
  "test_restore_swallows_contract_address_not_set =
     run_ok (restore_private_state in_memory_store ActiveSlot) in_memory_strict (\<lambda>v s. v = None)"

section \<open>\<open>controller_operations.rs\<close>\<close>

definition test_rotates_and_promotes_private_state :: "crates \<Rightarrow> serde \<Rightarrow> bool" where
  "test_rotates_and_promotes_private_state X S =
     (let new_sk = replicate 32 4; new_pk = replicate 32 9
      in test_contract X S Testnet (\<lambda>c.
         run_ok (rotate_controller_key S c in_memory_store new_sk new_pk)
           (recording_new (), in_memory_new) (\<lambda>_ (b, s).
         run_ok (restore_private_state in_memory_store ActiveSlot) s (\<lambda>a s.
         run_ok (restore_private_state in_memory_store PendingSlot) s (\<lambda>p s.
           take 1 (rec_calls b) = [RotateControllerKey new_pk] \<and>
           map_option secret_key a = Some new_sk \<and> p = None)))))"

definition test_recovers_and_promotes_private_state :: "crates \<Rightarrow> serde \<Rightarrow> bool" where
  "test_recovers_and_promotes_private_state X S =
     (let new_sk = replicate 32 6; new_pk = replicate 32 7
      in test_contract X S Testnet (\<lambda>c.
         run_ok (recover_controller_key S c in_memory_store new_sk new_pk)
           (recording_new (), in_memory_new) (\<lambda>_ (b, s).
         run_ok (restore_private_state in_memory_store ActiveSlot) s (\<lambda>a s.
         run_ok (restore_private_state in_memory_store PendingSlot) s (\<lambda>p s.
           take 1 (rec_calls b) = [RecoverControllerKey new_pk] \<and>
           map_option secret_key a = Some new_sk \<and> p = None)))))"

section \<open>They pass\<close>

locale test_env =
  fixes X :: crates and S :: serde
  assumes crates: "base64_ok X" "hex_ok X" and serde: "serde_ok S"
    and digest: "length (blake2b512 X bs) = 64"
    and not_json: "wire_from_slice S [0xff, 0xfe] = None"
begin

lemma sample_address:
  obtains a where "parse_contract_address X sample_hex = Inr a" and "hash_to_hex X a = sample_hex"
proof -
  obtain h where "hash_from_hex X sample_hex = Inr h" "hash_to_hex X h = sample_hex"
    by (rule sample_hex_decodes [OF crates(2)])
  with that show ?thesis
    by (simp add: parse_contract_address_def sample_hex_facts contract_from_hex_def Let_def)
qed

lemma test_contract_run:
  assumes "\<And>c :: (unit recording, unit) contract. ct_backend c = recording_backend X S \<Longrightarrow> ct_network c = n \<Longrightarrow>
    hash_to_hex X (ct_address c) = sample_hex \<Longrightarrow> P c"
  shows "test_contract X S n P"
proof -
  obtain a where "parse_contract_address X sample_hex = Inr a" "hash_to_hex X a = sample_hex"
    by (rule sample_address)
  then show ?thesis by (simp add: test_contract_def on_ok_def assms)
qed

lemma submits:
  assumes "call_ok call"
  shows "recording_submit X S (call_encode S call) b =
    (Inr \<lparr>tx_hash = synth_tx_hash X (call_encode S call),
          block_height = word_of_nat (Suc (length (rec_calls b)))\<rparr>,
     b\<lparr>rec_calls := rec_calls b @ [call]\<rparr>)"
  using assms call_decode_encode [OF serde] by (simp add: recording_submit_def Let_def)

lemma garbage: "call_decode S [0xff, 0xfe] = Inl (Decode (''DidContractCall: '' @ wire_text S [0xff, 0xfe]))"
  by (simp add: call_decode_def not_json)

lemma hash_shown: "synth_tx_hash X bs \<noteq> []"
proof -
  have "length (synth_tx_hash X bs) = 16"
    using hex_crate.hex_enc_length [OF crates(2)] by (simp add: synth_tx_hash_def digest)
  then show ?thesis by auto
qed

lemma backend_tests:
  "test_recording_backend_decodes_and_records_submit X S"
  "test_recording_backend_submit_rejects_garbage_envelope X S"
  by (simp_all add: test_recording_backend_decodes_and_records_submit_def run_ok_def run_err_def submits
      recording_new_def hash_shown test_recording_backend_submit_rejects_garbage_envelope_def
      recording_submit_def [of X S "[0xff, 0xfe]"] garbage Let_def)

lemma contract_call_tests:
  "test_rotate_controller_key_roundtrip S" "test_recover_controller_key_roundtrip S"
  "test_set_verification_method_roundtrip S" "test_deactivate_roundtrip S" "test_decode_rejects_garbage S"
proof -
  have "call_encode S (RecoverControllerKey pk) \<noteq> call_encode S (RotateControllerKey pk)" if "length pk = 32" for pk
    using call_decode_encode [OF serde, of "RecoverControllerKey pk"]
      call_decode_encode [OF serde, of "RotateControllerKey pk"] that by auto
  then show "test_rotate_controller_key_roundtrip S" "test_recover_controller_key_roundtrip S"
    "test_set_verification_method_roundtrip S" "test_deactivate_roundtrip S" "test_decode_rejects_garbage S"
    by (simp_all add: test_rotate_controller_key_roundtrip_def test_recover_controller_key_roundtrip_def
        test_set_verification_method_roundtrip_def test_deactivate_roundtrip_def test_decode_rejects_garbage_def
        on_ok_def on_err_def call_decode_encode [OF serde] garbage Let_def)
qed

end

lemma closed_tests:
  "test_recording_backend_read_snapshot_records_synthetic_read_ledger" "test_resolver_backend_rejects_submit"
  "test_resolver_backend_returns_state_snapshot" "test_resolver_backend_returns_snapshot"
  "test_relation_set_lookup"
  by (simp_all add: test_recording_backend_read_snapshot_records_synthetic_read_ledger_def run_ok_def
      recording_read_snapshot_def recording_with_snapshot_def test_resolver_backend_rejects_submit_def
      resolver_backend_def test_resolver_backend_returns_state_snapshot_def resolver_with_snapshot_def
      test_resolver_backend_returns_snapshot_def test_relation_set_lookup_def relation_contains_def
      snapshot_default_def Let_def)

lemmas store_run = in_memory_store_def in_memory_get_def in_memory_set_def in_memory_remove_def
  in_memory_set_address_def in_memory_new_def in_memory_strict_def check_address_def
  save_private_state_def restore_private_state_def require_private_state_def
  save_pending_controller_private_state_def clear_pending_controller_private_state_def
  recover_pending_controller_private_state_def io_bind_def io_lift_def io_map_err_def

lemma private_state_tests:
  "test_save_and_restore_round_trip" "test_require_errors_when_missing"
  "test_recover_requires_finalization_marker" "test_recover_promotes_pending_to_active"
  "test_strict_store_errors_before_binding" "test_restore_swallows_contract_address_not_set"
  by (simp_all add: store_run run_ok_def run_err_def test_save_and_restore_round_trip_def
      test_require_errors_when_missing_def test_recover_requires_finalization_marker_def
      test_recover_promotes_pending_to_active_def test_strict_store_errors_before_binding_def
      test_restore_swallows_contract_address_not_set_def invalid_argument_def)

context test_env
begin

lemma methods_run:
  assumes "ct_backend c = recording_backend X S" and "call_ok call"
  shows "contract_submit S c call b = (Inr (\<lparr>tx_hash = synth_tx_hash X (call_encode S call),
      block_height = word_of_nat (Suc (length (rec_calls b)))\<rparr>), b\<lparr>rec_calls := rec_calls b @ [call]\<rparr>)"
  by (rule recording_exec [OF serde assms])

lemma reads_run:
  "ct_backend c = recording_backend X S \<Longrightarrow>
     contract_read_snapshot c b = (Inr (rec_snapshot b), b\<lparr>rec_calls := rec_calls b @ [ReadLedger]\<rparr>)"
  by (simp add: contract_read_snapshot_def recording_backend_def recording_read_snapshot_def)

lemma contract_wrapper_tests:
  "test_contract_records_typed_calls X S" "test_contract_records_recover_controller_key X S"
  "test_contract_address_and_network_accessors X S" "test_read_snapshot_returns_seeded_value X S"
  unfolding test_contract_records_typed_calls_def test_contract_records_recover_controller_key_def
    test_contract_address_and_network_accessors_def test_read_snapshot_returns_seeded_value_def Let_def
  by (rule test_contract_run, simp add: contract_methods methods_run reads_run run_ok_def recording_new_def
      recording_with_snapshot_def contract_address_def contract_to_hex_def)+

lemma controller_tests:
  "test_rotates_and_promotes_private_state X S" "test_recovers_and_promotes_private_state X S"
  unfolding test_rotates_and_promotes_private_state_def test_recovers_and_promotes_private_state_def Let_def
  by (rule test_contract_run, simp add: rotate_is_key_change io_run contract_methods methods_run store_run
      run_ok_def recording_new_def)+

end

section \<open>\<open>subject.rs\<close>\<close>

definition test_computes_did_subject_for_testnet :: "crates \<Rightarrow> serde \<Rightarrow> bool" where
  "test_computes_did_subject_for_testnet X S =
     test_contract X S Testnet (\<lambda>c.
       on_ok (get_did_subject X c) (\<lambda>subject. subject = test_did_subject))"

definition test_normalizes_bare_fragment_id :: "crates \<Rightarrow> serde \<Rightarrow> bool" where
  "test_normalizes_bare_fragment_id X S =
     test_contract X S Testnet (\<lambda>c.
       on_ok (normalize_bound_fragment_id_for X c ''key-1'' VerificationMethodIdField) (\<lambda>i. i = ''#key-1''))"

definition test_rejects_foreign_did_subject :: "crates \<Rightarrow> serde \<Rightarrow> bool" where
  "test_rejects_foreign_did_subject X S =
     test_contract X S Testnet (\<lambda>c.
       let v = ''did:midnight:testnet:'' @ repeat_str ''1'' 64 @ ''#key-1''
       in on_err (normalize_bound_fragment_id_for X c v VerificationMethodIdField)
            (\<lambda>e. case e of ApiLedgerUtils _ \<Rightarrow> True | _ \<Rightarrow> False))"

section \<open>\<open>document_operations.rs\<close>\<close>

definition test_adds_an_alias :: "crates \<Rightarrow> serde \<Rightarrow> bool" where
  "test_adds_an_alias X S =
     test_contract X S Testnet (\<lambda>c.
       run_ok (add_also_known_as X S c ''https://example.com'') (recording_new ()) (\<lambda>_ b.
         rec_calls b = [SetAlsoKnownAs ''https://example.com'' SetInsert]))"

definition test_rejects_non_absolute_alias :: "crates \<Rightarrow> serde \<Rightarrow> bool" where
  "test_rejects_non_absolute_alias X S =
     test_contract X S Testnet (\<lambda>c.
       run_err (add_also_known_as X S c ''not-a-uri'') (recording_new ()) (\<lambda>e b.
         case e of ApiLedgerUtils _ \<Rightarrow> True | _ \<Rightarrow> False))"

definition test_deactivates :: "crates \<Rightarrow> serde \<Rightarrow> bool" where
  "test_deactivates X S =
     test_contract X S Testnet (\<lambda>c.
       run_ok (deactivate_did S c) (recording_new ()) (\<lambda>_ b. rec_calls b = [Deactivate]))"

section \<open>\<open>service_operations.rs\<close>\<close>

definition test_service :: "crates \<Rightarrow> validation_error + service" where
  "test_service X =
     service_new X \<lparr>ns_id = ''svc-1'', ns_type = TypeOne ''LinkedDomains'',
                    ns_endpoint = EndpointUri ''https://example.com''\<rparr>"

definition test_adds_a_service :: "crates \<Rightarrow> serde \<Rightarrow> bool" where
  "test_adds_a_service X S =
     test_contract X S Testnet (\<lambda>c.
     on_ok (test_service X) (\<lambda>svc.
       run_ok (add_service X S c svc) (recording_new ()) (\<lambda>_ b.
         case rec_calls b of [SetService l m] \<Rightarrow> m = MapInsert \<and> ls_id l = ''#svc-1'' | _ \<Rightarrow> False)))"

definition test_removes_a_service :: "crates \<Rightarrow> serde \<Rightarrow> bool" where
  "test_removes_a_service X S =
     test_contract X S Testnet (\<lambda>c.
       run_ok (remove_service X S c ''svc-1'') (recording_new ()) (\<lambda>_ b.
         rec_calls b = [RemoveService ''#svc-1'']))"

section \<open>\<open>did_operations.rs\<close>\<close>

definition test_create_did_seeds_active_slot :: "crates \<Rightarrow> serde \<Rightarrow> bool" where
  "test_create_did_seeds_active_slot X S =
     test_contract X S Testnet (\<lambda>c.
       run_ok (create_did X c in_memory_store (replicate 32 3)) in_memory_new (\<lambda>state s.
       run_ok (restore_private_state in_memory_store ActiveSlot) s (\<lambda>restored s.
         secret_key state = replicate 32 3 \<and> map_option secret_key restored = Some (replicate 32 3))))"

definition test_apply_patch_runs_in_order :: "crates \<Rightarrow> serde \<Rightarrow> bool" where
  "test_apply_patch_runs_in_order X S =
     test_contract X S Testnet (\<lambda>c.
     on_ok (test_service X) (\<lambda>svc.
       let patch = \<lparr>also_known_as_added = [''https://example.com/a''], also_known_as_removed = [],
                    services_added = [svc], services_updated = [], services_removed = []\<rparr>
       in run_ok (apply_patch X S c patch) (recording_new ()) (\<lambda>_ b.
            length (rec_calls b) = 2 \<and>
            (case rec_calls b ! 0 of SetAlsoKnownAs _ _ \<Rightarrow> True | _ \<Rightarrow> False) \<and>
            (case rec_calls b ! 1 of SetService _ _ \<Rightarrow> True | _ \<Rightarrow> False))))"

definition test_rotate_with_derivation_passes_public_key :: "crates \<Rightarrow> serde \<Rightarrow> bool" where
  "test_rotate_with_derivation_passes_public_key X S =
     test_contract X S Testnet (\<lambda>c.
       run_ok (rotate_with_derivation S c in_memory_store (replicate 32 1) (\<lambda>sk. sk[0 := 42]))
         (recording_new (), in_memory_new) (\<lambda>_ (b, s).
           case rec_calls b ! 0 of RotateControllerKey pk \<Rightarrow> pk ! 0 = 42 \<and> pk ! 1 = 1 | _ \<Rightarrow> False))"

section \<open>They pass\<close>

text \<open>What the tests use of the \<open>url\<close> crate.\<close>

definition url_of_api_tests :: "crates \<Rightarrow> bool" where
  "url_of_api_tests X \<longleftrightarrow>
     url_parse X ''https://example.com'' =
       Some \<lparr>url_scheme = ''https'', url_username = [], url_password = None,
             url_host = Some ''example.com'', url_port = None, url_path = ''/'', url_query = None,
             url_fragment = None\<rparr> \<and>
     url_parse X ''https://example.com/a'' \<noteq> None \<and> url_parse X ''not-a-uri'' = None \<and>
     (\<forall>u. url_parse X ''https://example.org/'' = Some u \<longrightarrow> url_join X u ''svc-1'' \<noteq> None)"

locale test_url_env = test_env +
  assumes url: "url_ok X" and urls: "url_of_api_tests X"
begin

lemma contract_subject: "hash_to_hex X a = sample_hex \<Longrightarrow> get_did_subject_for X a Testnet = test_did_subject"
  by (simp add: get_did_subject_form hash_to_hex_def test_did_subject_def)

lemma bound_ids:
  "normalize_bound_fragment_id ''key-1'' f test_did_subject = Inr ''#key-1''"
  "normalize_bound_fragment_id ''svc-1'' f test_did_subject = Inr ''#svc-1''"
  by (cases f; code_simp)+

lemma foreign_id:
  "\<exists>e. normalize_bound_fragment_id (''did:midnight:testnet:'' @ repeat_str ''1'' 64 @ ''#key-1'')
     VerificationMethodIdField test_did_subject = Inl e"
proof -
  have "\<not> is_ok (normalize_bound_fragment_id (''did:midnight:testnet:'' @ repeat_str ''1'' 64 @ ''#key-1'')
     VerificationMethodIdField test_did_subject)" by code_simp
  then show ?thesis by (cases "normalize_bound_fragment_id (''did:midnight:testnet:'' @ repeat_str ''1'' 64 @ ''#key-1'')
     VerificationMethodIdField test_did_subject") simp_all
qed

lemma subject_tests:
  "test_computes_did_subject_for_testnet X S" "test_normalizes_bare_fragment_id X S"
  "test_rejects_foreign_did_subject X S"
  unfolding test_computes_did_subject_for_testnet_def test_normalizes_bare_fragment_id_def
    test_rejects_foreign_did_subject_def Let_def
  using foreign_id
  by (auto intro!: test_contract_run simp: contract_subject get_did_subject_eq on_ok_def on_err_def
      normalize_bound_fragment_id_for_def bound_ids simp del: append.simps repeat_str_def)

lemma trims: "trim ''https://example.com'' = ''https://example.com''" "trim ''https://example.com/a'' = ''https://example.com/a''"
  "trim ''not-a-uri'' = ''not-a-uri''" "trim ''svc-1'' = ''svc-1''" "trim ''LinkedDomains'' = ''LinkedDomains''"
  by (simp_all add: trim_printable_all printable_def code_of_def)

lemma document_tests:
  "test_adds_an_alias X S" "test_rejects_non_absolute_alias X S" "test_deactivates X S"
  using urls
  by (auto intro!: test_contract_run simp: test_adds_an_alias_def test_rejects_non_absolute_alias_def
      test_deactivates_def add_also_known_as_def assert_absolute_uri_def trims url_of_api_tests_def
      contract_methods methods_run run_ok_def run_err_def io_bind_def io_lift_def io_map_err_def
      recording_new_def deactivate_did_def)

lemma test_service_mapped:
  "\<exists>svc. test_service X = Inr svc \<and>
     (\<forall>c :: (unit recording, unit) contract. ct_network c = Testnet \<longrightarrow> hash_to_hex X (ct_address c) = sample_hex \<longrightarrow>
        (\<exists>l. service_to_ledger X c svc = Inr l \<and> ls_id l = ''#svc-1'' \<and> ls_typ l = ''LinkedDomains''))"
proof -
  let ?svc = "\<lparr>svc_id = ''svc-1'', svc_type = TypeOne ''LinkedDomains'',
    svc_endpoint = normalize_service_endpoint X (EndpointUri ''https://example.com'')\<rparr>"
  have "\<not> has_uri_scheme ''svc-1''" "\<not> starts_with ''svc-1'' ''//''" by code_simp+
  then have "is_relative_reference X ''svc-1''"
    using urls url_crate.parse_base [OF url]
    by (auto simp: is_relative_reference_def trims url_of_api_tests_def)
  then have "test_service X = Inr ?svc"
    by (simp add: test_service_def service_new_def service_validate_def Let_def result_simps)
  then show ?thesis
    by (simp add: service_to_ledger_def normalize_bound_fragment_id_for_def get_did_subject_eq
        contract_subject bound_ids service_type_to_ledger_def trims Let_def)
qed

lemma service_tests: "test_adds_a_service X S" "test_removes_a_service X S"
proof -
  obtain svc where svc: "test_service X = Inr svc" and mapped:
    "\<forall>c :: (unit recording, unit) contract. ct_network c = Testnet \<longrightarrow> hash_to_hex X (ct_address c) = sample_hex \<longrightarrow>
       (\<exists>l. service_to_ledger X c svc = Inr l \<and> ls_id l = ''#svc-1'' \<and> ls_typ l = ''LinkedDomains'')"
    using test_service_mapped by blast
  show "test_adds_a_service X S"
    unfolding test_adds_a_service_def
  proof (rule test_contract_run)
    fix c :: "(unit recording, unit) contract"
    assume c: "ct_backend c = recording_backend X S" "ct_network c = Testnet" "hash_to_hex X (ct_address c) = sample_hex"
    from mapped c(2,3) obtain l where "service_to_ledger X c svc = Inr l" "ls_id l = ''#svc-1''" by blast
    then show "on_ok (test_service X) (\<lambda>svc. run_ok (add_service X S c svc) (recording_new ()) (\<lambda>_ b.
        case rec_calls b of [SetService l m] \<Rightarrow> m = MapInsert \<and> ls_id l = ''#svc-1'' | _ \<Rightarrow> False))"
      by (simp add: svc on_ok_def run_ok_def add_service_def contract_methods methods_run [OF c(1)]
          io_bind_def io_lift_def io_map_err_def recording_new_def)
  qed
  show "test_removes_a_service X S"
    by (auto intro!: test_contract_run simp: test_removes_a_service_def remove_service_def contract_methods
        methods_run normalize_bound_fragment_id_for_def get_did_subject_eq contract_subject bound_ids
        run_ok_def io_bind_def io_lift_def io_map_err_def recording_new_def)
qed

end

section \<open>\<open>ledger_mappers.rs\<close> and \<open>verification_method_operations.rs\<close>\<close>

definition ec_jwk :: "crates \<Rightarrow> curve_type \<Rightarrow> validation_error + public_key_jwk" where
  "ec_jwk X crv =
     (let coord = encode_base64url X (replicate 32 0)
      in jwk_new X \<lparr>nj_kty = EC, nj_crv = crv, nj_x = coord, nj_y = Some coord, nj_extensions = []\<rparr>)"

definition ec_vm :: "crates \<Rightarrow> curve_type \<Rightarrow> string \<Rightarrow> string \<Rightarrow> validation_error + verification_method" where
  "ec_vm X crv subject i =
     res_bind (ec_jwk X crv) (\<lambda>jwk.
       vm_new X \<lparr>nvm_id = subject @ ''#'' @ i, nvm_type = JsonWebKey, nvm_controller = subject,
                 nvm_public_key_jwk = jwk\<rparr>)"

definition p256_vm :: "crates \<Rightarrow> string \<Rightarrow> validation_error + verification_method" where
  "p256_vm X i = ec_vm X P256 test_did_subject i"

definition test_maps_p256_verification_method :: "crates \<Rightarrow> serde \<Rightarrow> bool" where
  "test_maps_p256_verification_method X S =
     (let coord = encode_base64url X (replicate 32 0)
      in test_contract X S Testnet (\<lambda>c.
         on_ok (p256_vm X ''key-1'') (\<lambda>vm.
         on_ok (verification_method_to_ledger X c vm) (\<lambda>ledger.
           lvm_id ledger = ''#key-1'' \<and> lvm_typ ledger = JsonWebKey \<and>
           lj_x (lvm_public_key_jwk ledger) = coord \<and> lj_y (lvm_public_key_jwk ledger) = coord))))"

definition test_rejects_jubjub_in_jwk_path :: "crates \<Rightarrow> serde \<Rightarrow> bool" where
  "test_rejects_jubjub_in_jwk_path X S =
     test_contract X S Testnet (\<lambda>c.
     on_ok (ec_vm X Jubjub test_did_subject ''key-2'') (\<lambda>vm.
     on_err (verification_method_to_ledger X c vm)
       (\<lambda>e. case e of InvalidArgument _ \<Rightarrow> True | _ \<Rightarrow> False)))"

definition test_rejects_controller_mismatch :: "crates \<Rightarrow> serde \<Rightarrow> bool" where
  "test_rejects_controller_mismatch X S =
     test_contract X S Testnet (\<lambda>c.
     on_ok (ec_vm X P256 (''did:midnight:testnet:'' @ repeat_str ''1'' 64) ''key-1'') (\<lambda>vm.
     on_err (verification_method_to_ledger X c vm)
       (\<lambda>e. case e of ApiController (ControllerSubjectMismatch _) \<Rightarrow> True | _ \<Rightarrow> False)))"

definition test_maps_service :: "crates \<Rightarrow> serde \<Rightarrow> bool" where
  "test_maps_service X S =
     test_contract X S Testnet (\<lambda>c.
     on_ok (test_service X) (\<lambda>svc.
     on_ok (service_to_ledger X c svc) (\<lambda>ledger.
       ls_id ledger = ''#svc-1'' \<and> ls_typ ledger = ''LinkedDomains'' \<and>
       contains_str (ls_service_endpoint ledger) ''example.com'')))"

definition test_add_verification_method_records_insert :: "crates \<Rightarrow> serde \<Rightarrow> bool" where
  "test_add_verification_method_records_insert X S =
     test_contract X S Testnet (\<lambda>c.
     on_ok (p256_vm X ''key-1'') (\<lambda>vm.
       run_ok (add_verification_method X S c vm) (recording_new ()) (\<lambda>_ b.
         case rec_calls b of [SetVerificationMethod l m] \<Rightarrow> m = MapInsert \<and> lvm_id l = ''#key-1''
                           | _ \<Rightarrow> False)))"

definition test_update_verification_method_records_update :: "crates \<Rightarrow> serde \<Rightarrow> bool" where
  "test_update_verification_method_records_update X S =
     test_contract X S Testnet (\<lambda>c.
     on_ok (p256_vm X ''key-1'') (\<lambda>vm.
       run_ok (update_verification_method X S c vm) (recording_new ()) (\<lambda>_ b.
         case rec_calls b of [SetVerificationMethod l m] \<Rightarrow> m = MapUpdate | _ \<Rightarrow> False)))"

definition test_remove_verification_method_purges_relations :: "crates \<Rightarrow> serde \<Rightarrow> bool" where
  "test_remove_verification_method_purges_relations X S =
     (let ledger = snapshot_default\<lparr>authentication_relation := [''#key-1''],
                                    assertion_method_relation := [''#key-1'']\<rparr>
      in test_contract X S Testnet (\<lambda>c.
           run_ok (remove_verification_method X S c ''key-1'') (recording_with_snapshot () ledger) (\<lambda>_ b.
             rec_calls b =
               [ReadLedger, SetVerificationMethodRelation LR_Authentication ''#key-1'' SetRemove,
                SetVerificationMethodRelation LR_AssertionMethod ''#key-1'' SetRemove,
                RemoveVerificationMethod ''#key-1''])))"

definition test_add_relation_rejects_already_present :: "crates \<Rightarrow> serde \<Rightarrow> bool" where
  "test_add_relation_rejects_already_present X S =
     (let ledger = snapshot_default\<lparr>authentication_relation := [''#key-1'']\<rparr>
      in test_contract X S Testnet (\<lambda>c.
           run_err (add_relation X S c Authentication ''key-1'') (recording_with_snapshot () ledger) (\<lambda>e b.
             case e of ApiVerification (RelationAlreadyContains _ _) \<Rightarrow> True | _ \<Rightarrow> False)))"

definition test_remove_relation_rejects_when_missing :: "crates \<Rightarrow> serde \<Rightarrow> bool" where
  "test_remove_relation_rejects_when_missing X S =
     test_contract X S Testnet (\<lambda>c.
       run_err (remove_relation X S c KeyAgreement ''key-1'') (recording_new ()) (\<lambda>e b.
         case e of ApiVerification (RelationMissing _ _) \<Rightarrow> True | _ \<Rightarrow> False))"

context test_url_env
begin

lemma normalized_key: "normalize_bound_fragment_id (test_did_subject @ ''#key-1'') VerificationMethodIdField
    test_did_subject = Inr ''#key-1''"
  by code_simp

lemma subject_did: "is_did_string test_did_subject" "is_did_string (''did:midnight:testnet:'' @ repeat_str ''1'' 64)"
  by code_simp+

lemma ec_vm_built:
  assumes "is_did_string subject" and "is_key_fragment i" and "crv \<in> {P256, Jubjub}"
  shows "ec_vm X crv subject i =
    Inr \<lparr>vm_id = DidKeyId (subject @ ''#'' @ i), vm_type = JsonWebKey, vm_controller = DidString subject,
         vm_public_key_jwk = \<lparr>jwk_kty = EC, jwk_crv = crv, jwk_x = encode_base64url X (replicate 32 0),
           jwk_y = Some (encode_base64url X (replicate 32 0)), jwk_extensions = []\<rparr>\<rparr>"
proof -
  have "canonical_b64 X 32 (encode_base64url X (replicate 32 0))"
    unfolding canonical_b64_def by (intro exI [of _ "replicate 32 0"]) simp
  then have "jwk_profile X \<lparr>jwk_kty = EC, jwk_crv = crv, jwk_x = encode_base64url X (replicate 32 0),
      jwk_y = Some (encode_base64url X (replicate 32 0)), jwk_extensions = []\<rparr>"
    using assms(3) by (auto simp: jwk_profile_def)
  then show ?thesis
    using did_url_key_id [OF assms(1), of X i] assms(1,2)
    by (simp add: ec_vm_def ec_jwk_def jwk_new_iff [OF crates(1)] vm_new_iff [OF crates(1)] result_simps Let_def)
qed

lemma key_fragments: "is_key_fragment ''key-1''" "is_key_fragment ''key-2''"
  by code_simp+

lemma p256_mapped:
  assumes "ct_network c = Testnet" and "hash_to_hex X (ct_address c) = sample_hex"
  shows "\<exists>vm. p256_vm X ''key-1'' = Inr vm \<and> verification_method_to_ledger X c vm =
    Inr \<lparr>lvm_id = ''#key-1'', lvm_typ = JsonWebKey,
         lvm_public_key_jwk = \<lparr>lj_kty = EC, lj_crv = P256, lj_x = encode_base64url X (replicate 32 0),
           lj_y = encode_base64url X (replicate 32 0)\<rparr>\<rparr>"
proof -
  let ?jwk = "\<lparr>jwk_kty = EC, jwk_crv = P256, jwk_x = encode_base64url X (replicate 32 0),
    jwk_y = Some (encode_base64url X (replicate 32 0)), jwk_extensions = []\<rparr>"
  have "canonical_b64 X 32 (encode_base64url X (replicate 32 0))"
    unfolding canonical_b64_def by (intro exI [of _ "replicate 32 0"]) simp
  then have "jwk_profile X ?jwk" by (simp add: jwk_profile_def)
  then show ?thesis
    using assms normalized_key
    by (simp add: p256_vm_def ec_vm_built subject_did key_fragments vm_to_ledger_iff [OF crates(1)]
        midnight_profile_def ledger_jwk_def contract_subject)
qed

end

context test_url_env
begin

lemma foreign_subject: "''did:midnight:testnet:'' @ repeat_str ''1'' 64 \<noteq> test_did_subject"
  by code_simp

lemma mapper_tests:
  "test_maps_p256_verification_method X S" "test_rejects_jubjub_in_jwk_path X S"
  "test_rejects_controller_mismatch X S"
proof -
  show "test_maps_p256_verification_method X S"
    unfolding test_maps_p256_verification_method_def Let_def
    by (rule test_contract_run) (use p256_mapped in \<open>fastforce simp: on_ok_def\<close>)
  show "test_rejects_jubjub_in_jwk_path X S"
    unfolding test_rejects_jubjub_in_jwk_path_def
    by (rule test_contract_run) (simp add: ec_vm_built subject_did key_fragments on_ok_def on_err_def
        verification_method_to_ledger_def assert_midnight_key_profile_def invalid_argument_def)
  show "test_rejects_controller_mismatch X S"
    unfolding test_rejects_controller_mismatch_def
    using foreign_subject
    by (intro test_contract_run) (simp add: ec_vm_built subject_did key_fragments on_ok_def on_err_def
        verification_method_to_ledger_def assert_midnight_key_profile_def get_did_subject_eq contract_subject
        del: append.simps)
qed

lemma vm_operation_tests:
  "test_add_verification_method_records_insert X S" "test_update_verification_method_records_update X S"
  unfolding test_add_verification_method_records_insert_def test_update_verification_method_records_update_def
  by (rule test_contract_run, use p256_mapped in \<open>fastforce simp: on_ok_def run_ok_def
      add_verification_method_def update_verification_method_def contract_methods methods_run io_bind_def
      io_lift_def io_map_err_def recording_new_def\<close>)+

lemma key_1_bound:
  assumes "ct_network c = Testnet" and "hash_to_hex X (ct_address c) = sample_hex"
  shows "normalize_bound_fragment_id_for X c ''key-1'' MethodIdField = Inr ''#key-1''"
  using assms by (simp add: normalize_bound_fragment_id_for_def get_did_subject_eq contract_subject bound_ids)

lemma relation_tests:
  "test_remove_verification_method_purges_relations X S" "test_add_relation_rejects_already_present X S"
  "test_remove_relation_rejects_when_missing X S"
  unfolding test_remove_verification_method_purges_relations_def test_add_relation_rejects_already_present_def
    test_remove_relation_rejects_when_missing_def Let_def
  by (rule test_contract_run, simp add: key_1_bound remove_verification_method_def add_relation_def
      remove_relation_def purge_from_all_relations_def relation_memberships_def verification_method_relations_def
      relation_contains_def snapshot_default_def assert_relation_absent_def assert_relation_present_def
      reads_run methods_run contract_methods run_ok_def run_err_def io_bind_def io_lift_def io_map_err_def
      recording_new_def recording_with_snapshot_def)+

lemma did_operation_tests:
  "test_create_did_seeds_active_slot X S" "test_apply_patch_runs_in_order X S"
  "test_rotate_with_derivation_passes_public_key X S"
proof -
  show "test_create_did_seeds_active_slot X S"
    unfolding test_create_did_seeds_active_slot_def
    by (rule test_contract_run) (simp add: create_did_def init_private_state_def bind_private_state_provider_def
        store_run run_ok_def Let_def)
  show "test_rotate_with_derivation_passes_public_key X S"
    unfolding test_rotate_with_derivation_passes_public_key_def
    by (rule test_contract_run) (simp add: rotate_with_derivation_def rotate_is_key_change io_run
        contract_methods methods_run store_run run_ok_def recording_new_def)
  obtain svc where svc: "test_service X = Inr svc" and mapped:
    "\<forall>c :: (unit recording, unit) contract. ct_network c = Testnet \<longrightarrow> hash_to_hex X (ct_address c) = sample_hex \<longrightarrow>
       (\<exists>l. service_to_ledger X c svc = Inr l \<and> ls_id l = ''#svc-1'' \<and> ls_typ l = ''LinkedDomains'')"
    using test_service_mapped by blast
  show "test_apply_patch_runs_in_order X S"
    unfolding test_apply_patch_runs_in_order_def svc
  proof (rule test_contract_run)
    fix c :: "(unit recording, unit) contract"
    assume c: "ct_backend c = recording_backend X S" "ct_network c = Testnet" "hash_to_hex X (ct_address c) = sample_hex"
    from mapped c(2,3) obtain l where "service_to_ledger X c svc = Inr l" by blast
    with urls show "on_ok (Inr svc) (\<lambda>svc.
       let patch = \<lparr>also_known_as_added = [''https://example.com/a''], also_known_as_removed = [],
                    services_added = [svc], services_updated = [], services_removed = []\<rparr>
       in run_ok (apply_patch X S c patch) (recording_new ()) (\<lambda>_ b.
            length (rec_calls b) = 2 \<and>
            (case rec_calls b ! 0 of SetAlsoKnownAs _ _ \<Rightarrow> True | _ \<Rightarrow> False) \<and>
            (case rec_calls b ! 1 of SetService _ _ \<Rightarrow> True | _ \<Rightarrow> False)))"
      by (auto simp: on_ok_def run_ok_def apply_patch_def add_also_known_as_def assert_absolute_uri_def trims
          url_of_api_tests_def add_service_def contract_methods methods_run [OF c(1)] io_bind_def io_lift_def
          io_map_err_def recording_new_def Let_def)
  qed
qed

end

end
