(* ===== verification/Tests_Ffi.thy ===== *)
theory Tests_Ffi
  imports Tests_Api Interop
begin

text \<open>
  The unit tests of \<open>resolution.rs\<close> and of the foreign-function crate, and the interpretation of the
  test environments: the reference codecs with a \<open>url\<close> parser that knows the URLs of the tests.
\<close>

section \<open>\<open>resolution.rs\<close>\<close>

definition test_ledger_method :: "crates \<Rightarrow> string \<Rightarrow> ledger_verification_method" where
  "test_ledger_method X i =
     \<lparr>lvm_id = i, lvm_typ = JsonWebKey,
      lvm_public_key_jwk =
        \<lparr>lj_kty = EC, lj_crv = P256, lj_x = encode_base64url X (replicate 32 0),
         lj_y = encode_base64url X (replicate 32 0)\<rparr>\<rparr>"

definition test_empty_ledger_yields_minimal_document :: "crates \<Rightarrow> bool" where
  "test_empty_ledger_yields_minimal_document X =
     on_ok (ledger_state_to_did_document X snapshot_default Testnet sample_hex) (\<lambda>doc.
       did_string_str (doc_id doc) = test_did_subject \<and> doc_verification_method doc = None \<and>
       doc_authentication doc = None \<and> doc_service doc = None)"

definition test_maps_verification_methods_into_document :: "crates \<Rightarrow> bool" where
  "test_maps_verification_methods_into_document X =
     (let state = snapshot_default\<lparr>verification_methods :=
            bt_insert ''#key-1'' (test_ledger_method X ''#key-1'') []\<rparr>
      in on_ok (ledger_state_to_did_document X state Testnet sample_hex) (\<lambda>doc.
           case doc_verification_method doc of
             None \<Rightarrow> False
           | Some vms \<Rightarrow> length vms = 1 \<and> ends_with (did_key_id_str (vm_id (vms ! 0))) ''#key-1''))"

definition test_rejects_dangling_relation :: "crates \<Rightarrow> bool" where
  "test_rejects_dangling_relation X =
     (let state = snapshot_default\<lparr>authentication_relation := [''#missing'']\<rparr>
      in on_err (ledger_state_to_did_document X state Testnet sample_hex)
           (\<lambda>e. case e of Mapping _ \<Rightarrow> True | _ \<Rightarrow> False))"

definition test_parses_service_endpoint_uri :: "crates \<Rightarrow> bool" where
  "test_parses_service_endpoint_uri X =
     (let state = snapshot_default\<lparr>services := bt_insert ''#svc-1''
            \<lparr>ls_id = ''#svc-1'', ls_typ = ''LinkedDomains'',
             ls_service_endpoint = CHR 0x22 # ''https://example.com'' @ [CHR 0x22]\<rparr> []\<rparr>
      in on_ok (ledger_state_to_did_document X state Testnet sample_hex) (\<lambda>doc.
           case doc_service doc of
             None \<Rightarrow> False
           | Some svcs \<Rightarrow> svcs \<noteq> [] \<and> svc_endpoint (svcs ! 0) = EndpointUri ''https://example.com''))"

definition test_metadata_marks_deactivated :: bool where
  "test_metadata_marks_deactivated \<longleftrightarrow>
     (let md = ledger_state_to_metadata
            (snapshot_default\<lparr>active := False, deactivated := True, snap_version := 7\<rparr>)
      in dm_deactivated md = Some True \<and> dm_version_id md = Some ''7'')"

definition test_iso_format_basic :: bool where
  "test_iso_format_basic \<longleftrightarrow> format_iso8601 1704067200 = Some ''2024-01-01T00:00:00Z''"

lemma metadata_test: "test_metadata_marks_deactivated"
  by code_simp

lemma iso_test: "test_iso_format_basic"
  by code_simp

context test_url_env
begin

lemma subject_string: "midnight_did_str (create_midnight_did_string sample_hex Testnet) = test_did_subject"
  by (simp add: create_midnight_did_string_def test_did_subject_def)

lemma empty_ledger_test: "test_empty_ledger_yields_minimal_document X"
proof -
  have "did_string_parse test_did_subject = Inr (DidString test_did_subject)"
    using subject_did by (simp add: did_string_parse_iff)
  then show ?thesis
    by (simp add: test_empty_ledger_yields_minimal_document_def ledger_state_to_did_document_def subject_string
        snapshot_default_def assert_targets_def map_relation_def non_empty_def on_ok_def Let_def)
qed

lemma dangling_test: "test_rejects_dangling_relation X"
  by (simp add: test_rejects_dangling_relation_def ledger_state_to_did_document_def subject_string
      snapshot_default_def assert_targets_def on_err_def mapping_def Let_def)

lemma ledger_p256:
  "is_ok (ledger_jwk_to_domain X (lvm_public_key_jwk (test_ledger_method X i)))"
proof -
  let ?jwk = "\<lparr>jwk_kty = EC, jwk_crv = P256, jwk_x = encode_base64url X (replicate 32 0),
    jwk_y = Some (encode_base64url X (replicate 32 0)), jwk_extensions = []\<rparr>"
  have "canonical_b64 X 32 (encode_base64url X (replicate 32 0))"
    unfolding canonical_b64_def by (intro exI [of _ "replicate 32 0"]) simp
  then have "jwk_profile X ?jwk" "midnight_profile ?jwk"
    by (simp_all add: jwk_profile_def midnight_profile_def)
  from ledger_jwk_roundtrip [OF crates(1) this] show ?thesis
    by (simp add: ledger_jwk_def test_ledger_method_def is_ok_iff)
qed

lemma sample_contract_hex: obtains a where "contract_to_hex X a = sample_hex"
  using sample_address by (auto simp: contract_to_hex_def)

lemma maps_methods_test: "test_maps_verification_methods_into_document X"
proof -
  let ?st = "snapshot_default\<lparr>verification_methods :=
    bt_insert ''#key-1'' (test_ledger_method X ''#key-1'') []\<rparr>"
  have "key_fragment_id ''#key-1''" by code_simp
  then have "snapshot_ok X ?st"
    using ledger_p256 by (simp add: snapshot_ok_def snapshot_default_def vm_keys_def ledger_relations_def)
  moreover obtain a where "contract_to_hex X a = sample_hex" by (rule sample_contract_hex)
  ultimately obtain d where d: "ledger_state_to_did_document X ?st Testnet sample_hex = Inr d"
    "opt_list (doc_verification_method d) = resolved_methods X (get_did_subject_for X a Testnet) ?st"
    using resolved_document_ok [OF crates url, of ?st Testnet a] by auto
  then show ?thesis
    by (cases "doc_verification_method d")
      (simp_all add: test_maps_verification_methods_into_document_def on_ok_def resolved_methods_def
        resolved_vm_def snapshot_default_def ends_with_def Let_def)
qed

end

text \<open>The two texts of \<open>serde_json\<close> the tests name.\<close>

locale test_json_env = test_url_env +
  assumes json: "json_crate_ok X"
    and url_text: "json_to_string X (JString ''https://example.com'') = CHR 0x22 # ''https://example.com'' @ [CHR 0x22]"
begin

lemma url_normal: "normalize_service_endpoint X (EndpointUri ''https://example.com'') = EndpointUri ''https://example.com''"
proof -
  have "extract_scheme ''https://example.com'' = Some ''https''" "to_ascii_lowercase ''https'' = ''https''"
    "''https'' \<in> set known_schemes" "to_ascii_lowercase ''example.com'' = ''example.com''"
    "\<not> ends_with ''https://example.com'' ''/''"
    by code_simp+
  then show ?thesis
    using urls by (simp add: normalize_uri_string_def url_of_api_tests_def Let_def)
qed

lemma url_read: "json_from_str X (CHR 0x22 # ''https://example.com'' @ [CHR 0x22]) = Some (JString ''https://example.com'')"
  using serde_json_crate.from_to [OF json, of "JString ''https://example.com''"] by (simp add: url_text)

lemma parses_endpoint_test: "test_parses_service_endpoint_uri X"
proof -
  let ?q = "CHR 0x22 # ''https://example.com'' @ [CHR 0x22]"
  let ?svc = "\<lparr>ls_id = ''#svc-1'', ls_typ = ''LinkedDomains'', ls_service_endpoint = ?q\<rparr>"
  have trim: "trim ?q = ?q"
    using serde_json_crate.to_str_trim [OF json, of "JString ''https://example.com''"] by (simp add: url_text)
  have e: "parse_service_endpoint X ?q = Inr (EndpointUri ''https://example.com'')"
    using url_read trim by (simp add: parse_service_endpoint_def Let_def)
  have t: "parse_service_type X ''LinkedDomains'' = Inr (TypeOne ''LinkedDomains'')"
    by (simp add: parse_service_type_def trims starts_with_def)
  have i: "ledger_id ''#svc-1''" by code_simp
  have "parse_ledger_service X ?svc test_did_subject =
      Inr \<lparr>svc_id = test_did_subject @ ''#svc-1'', svc_type = TypeOne ''LinkedDomains'',
           svc_endpoint = EndpointUri ''https://example.com''\<rparr>"
    using parse_ledger_service_ok [OF subject_did(1), of ?svc] i e t url_normal by simp
  moreover have "did_string_parse test_did_subject = Inr (DidString test_did_subject)"
    using subject_did by (simp add: did_string_parse_iff)
  ultimately show ?thesis
    by (simp add: test_parses_service_endpoint_uri_def ledger_state_to_did_document_def subject_string
        snapshot_default_def assert_targets_def map_relation_def non_empty_def on_ok_def Let_def)
qed

lemma maps_service_test: "test_maps_service X S"
proof -
  let ?svc = "\<lparr>svc_id = ''svc-1'', svc_type = TypeOne ''LinkedDomains'',
    svc_endpoint = EndpointUri ''https://example.com''\<rparr>"
  have "\<not> has_uri_scheme ''svc-1''" "\<not> starts_with ''svc-1'' ''//''" by code_simp+
  then have "is_relative_reference X ''svc-1''"
    using urls url_crate.parse_base [OF url]
    by (auto simp: is_relative_reference_def trims url_of_api_tests_def)
  then have svc: "test_service X = Inr ?svc"
    using url_normal by (simp add: test_service_def service_new_def service_validate_def Let_def result_simps)
  have "contains_str (CHR 0x22 # ''https://example.com'' @ [CHR 0x22]) ''example.com''" by code_simp
  then show ?thesis
    unfolding test_maps_service_def
    using url_normal by (intro test_contract_run) (simp add: svc on_ok_def service_to_ledger_def
        normalize_bound_fragment_id_for_def get_did_subject_eq contract_subject bound_ids
        service_type_to_ledger_def trims service_endpoint_to_ledger_def url_text Let_def)
qed

end

section \<open>\<open>midnight-did-uniffi\<close>\<close>

definition SEED :: string where
  "SEED = ''0101010101010101010101010101010101010101010101010101010101010101''"
definition PK :: string where
  "PK = ''0202020202020202020202020202020202020202020202020202020202020202''"
definition NEW_SK :: string where
  "NEW_SK = ''0303030303030303030303030303030303030303030303030303030303030303''"
definition NEW_PK :: string where
  "NEW_PK = ''0404040404040404040404040404040404040404040404040404040404040404''"

text \<open>\<open>v.get("key")\<close> and \<open>v["key"]\<close> of a \<open>serde_json::Value\<close>, and \<open>as_str().unwrap()\<close>.\<close>

fun json_get :: "json \<Rightarrow> string \<Rightarrow> json option" where
  "json_get (JObject m) k = map_of m k"
| "json_get _ k = None"

fun json_index :: "json \<Rightarrow> string \<Rightarrow> json" where
  "json_index (JObject m) k = (case map_of m k of Some v \<Rightarrow> v | None \<Rightarrow> JNull)"
| "json_index _ k = JNull"

fun str_holds :: "json \<Rightarrow> (string \<Rightarrow> bool) \<Rightarrow> bool" where
  "str_holds (JString s) P = P s"
| "str_holds _ P = False"

definition test_handle ::
    "crates \<Rightarrow> serde \<Rightarrow> ((unit recording, unit) contract \<Rightarrow> unit handle_state \<Rightarrow> bool) \<Rightarrow> bool" where
  "test_handle X S P = (case handle_contract X S of None \<Rightarrow> False | Some c \<Rightarrow> P c (handle_new ()))"

definition json_answer ::
    "crates \<Rightarrow> (unit handle_state, flat_error, string) io \<Rightarrow> unit handle_state \<Rightarrow> (json \<Rightarrow> bool) \<Rightarrow> bool" where
  "json_answer X m h P =
     run_ok m h (\<lambda>t h'. case json_from_str X t of None \<Rightarrow> False | Some v \<Rightarrow> P v)"

definition test_create_did_returns_json_with_did_subject :: "crates \<Rightarrow> serde \<Rightarrow> bool" where
  "test_create_did_returns_json_with_did_subject X S =
     test_handle X S (\<lambda>c h. json_answer X (ffi_create_did X c SEED PK) h (\<lambda>v.
       str_holds (json_index v ''did'') (\<lambda>s. starts_with s ''did:midnight:testnet:'') \<and>
       json_index v ''controller_public_key_hex'' = JString PK))"

definition test_create_did_rejects_bad_hex :: "crates \<Rightarrow> serde \<Rightarrow> bool" where
  "test_create_did_rejects_bad_hex X S =
     test_handle X S (\<lambda>c h. run_err (ffi_create_did X c ''not-hex'' PK) h (\<lambda>e h'.
       case e of FlatInvalidInput _ \<Rightarrow> True | _ \<Rightarrow> False))"

definition test_create_did_rejects_short_hex :: "crates \<Rightarrow> serde \<Rightarrow> bool" where
  "test_create_did_rejects_short_hex X S =
     test_handle X S (\<lambda>c h. run_err (ffi_create_did X c ''ab'' PK) h (\<lambda>e h'.
       case e of FlatInvalidInput _ \<Rightarrow> True | _ \<Rightarrow> False))"

definition test_rotate_controller_key_round_trip :: "crates \<Rightarrow> serde \<Rightarrow> bool" where
  "test_rotate_controller_key_round_trip X S =
     test_handle X S (\<lambda>c h.
       json_answer X (ffi_rotate_controller_key X S c ''did:midnight:testnet:x'' SEED PK) h (\<lambda>v.
         json_index v ''did'' = JString ''did:midnight:testnet:x'' \<and> json_get v ''tx_hash'' \<noteq> None))"

definition test_recover_controller_key_round_trip :: "crates \<Rightarrow> serde \<Rightarrow> bool" where
  "test_recover_controller_key_round_trip X S =
     test_handle X S (\<lambda>c h.
       json_answer X (ffi_recover_controller_key X S c ''did:midnight:testnet:x'' SEED PK) h (\<lambda>v.
         json_index v ''did'' = JString ''did:midnight:testnet:x'' \<and> json_get v ''tx_hash'' \<noteq> None))"

definition test_controller_state_persists_across_calls :: "crates \<Rightarrow> serde \<Rightarrow> bool" where
  "test_controller_state_persists_across_calls X S =
     test_handle X S (\<lambda>c h.
       run_ok (ffi_create_did X c SEED PK) h (\<lambda>_ h.
       run_ok (ffi_rotate_controller_key X S c ''did:midnight:testnet:x'' NEW_SK NEW_PK) h (\<lambda>_ h.
       run_ok (restore_private_state in_memory_store ActiveSlot) (snd h) (\<lambda>active s.
         map_option secret_key active = Some (replicate 32 3)))))"

definition test_resolve_did_returns_document_json :: "crates \<Rightarrow> serde \<Rightarrow> bool" where
  "test_resolve_did_returns_document_json X S =
     test_handle X S (\<lambda>c h. json_answer X (ffi_resolve_did X c ''did:midnight:testnet:x'') h (\<lambda>v.
       str_holds (json_index (json_index v ''did_document'') ''id'')
         (\<lambda>s. starts_with s ''did:midnight:testnet:'')))"

definition test_deactivate_round_trip :: "crates \<Rightarrow> serde \<Rightarrow> bool" where
  "test_deactivate_round_trip X S =
     test_handle X S (\<lambda>c h. json_answer X (ffi_deactivate X S c ''did:midnight:testnet:x'') h (\<lambda>v.
       json_index v ''did'' = JString ''did:midnight:testnet:x''))"

definition test_handle_constructor_round_trip :: bool where
  "test_handle_constructor_round_trip \<longleftrightarrow>
     handle_contract_address = default_address \<and> handle_network = ''testnet''"

lemma handle_test: "test_handle_constructor_round_trip"
  by (simp add: test_handle_constructor_round_trip_def handle_contract_address_def handle_network_def)

locale test_handle_env = test_json_env +
  assumes new_sk: "hex_encode X (replicate 32 3) = NEW_SK"
begin

lemma test_handle_run:
  assumes "\<And>c. ct_backend c = recording_backend X S \<Longrightarrow> ct_network c = Testnet \<Longrightarrow>
    hash_to_hex X (ct_address c) = sample_hex \<Longrightarrow> P c (handle_new ())"
  shows "test_handle X S P"
proof -
  obtain a where "parse_contract_address X sample_hex = Inr a" "hash_to_hex X a = sample_hex"
    by (rule sample_address)
  then show ?thesis by (simp add: test_handle_def handle_contract_def default_address_def sample_hex_def assms)
qed

lemma key_decodes:
  assumes "length s = 64" and "list_all is_ascii_hexdigit s"
  shows "\<exists>k. decode_hex_32 X s l = Inr k \<and> length k = 32"
proof -
  obtain k where "hex_decode X s = Inr k" "length k = 32"
    by (rule hex_crate.hex_dec_exists [OF crates(2), of s 32]) (use assms in simp_all)
  then show ?thesis by (simp add: decode_hex_32_iff)
qed

lemma keys_decode:
  "\<exists>k. decode_hex_32 X SEED l = Inr k \<and> length k = 32" "\<exists>k. decode_hex_32 X PK l = Inr k \<and> length k = 32"
  "\<exists>k. decode_hex_32 X NEW_PK l = Inr k \<and> length k = 32" "decode_hex_32 X NEW_SK l = Inr (replicate 32 3)"
proof -
  have digits: "list_all is_ascii_hexdigit ''0124''" by code_simp
  have "set SEED \<subseteq> set ''0124''" "set PK \<subseteq> set ''0124''" "set NEW_PK \<subseteq> set ''0124''"
    by (simp_all add: SEED_def PK_def NEW_PK_def)
  then have "list_all is_ascii_hexdigit SEED" "list_all is_ascii_hexdigit PK"
    "list_all is_ascii_hexdigit NEW_PK"
    using digits unfolding list_all_iff by blast+
  moreover have "length SEED = 64" "length PK = 64" "length NEW_PK = 64"
    by (simp_all add: SEED_def PK_def NEW_PK_def)
  ultimately show "\<exists>k. decode_hex_32 X SEED l = Inr k \<and> length k = 32"
    "\<exists>k. decode_hex_32 X PK l = Inr k \<and> length k = 32" "\<exists>k. decode_hex_32 X NEW_PK l = Inr k \<and> length k = 32"
    by (simp_all add: key_decodes)
  show "decode_hex_32 X NEW_SK l = Inr (replicate 32 3)"
    using hex_crate.hex_dec_enc [OF crates(2), of "replicate 32 3"] by (simp add: decode_hex_32_iff new_sk)
qed

lemma bad_hex: "\<exists>m. decode_hex_32 X ''not-hex'' l = Inl (FlatInvalidInput m)"
  "\<exists>m. decode_hex_32 X ''ab'' l = Inl (FlatInvalidInput m)"
proof -
  have "\<not> is_ok (hex_decode X ''not-hex'')" by (simp add: hex_crate.hex_dec_ok [OF crates(2)])
  then show "\<exists>m. decode_hex_32 X ''not-hex'' l = Inl (FlatInvalidInput m)"
    by (cases "hex_decode X ''not-hex''") (simp_all add: decode_hex_32_def flat_of_hex_def)
  have "is_ok (hex_decode X ''ab'')"
    by (simp add: hex_crate.hex_dec_ok [OF crates(2)] ascii_defs code_of_def)
  then obtain bs where "hex_decode X ''ab'' = Inr bs" by (auto simp: is_ok_iff)
  moreover from this have "length bs = 1" using hex_crate.hex_dec_length [OF crates(2)] by fastforce
  ultimately show "\<exists>m. decode_hex_32 X ''ab'' l = Inl (FlatInvalidInput m)"
    by (simp add: decode_hex_32_def)
qed

lemma rejects_tests: "test_create_did_rejects_bad_hex X S" "test_create_did_rejects_short_hex X S"
proof -
  obtain m n where "decode_hex_32 X ''not-hex'' ''seed_hex'' = Inl (FlatInvalidInput m)"
    "decode_hex_32 X ''ab'' ''seed_hex'' = Inl (FlatInvalidInput n)" using bad_hex by blast
  then show "test_create_did_rejects_bad_hex X S" "test_create_did_rejects_short_hex X S"
    unfolding test_create_did_rejects_bad_hex_def test_create_did_rejects_short_hex_def
    by (auto intro!: test_handle_run simp: ffi_create_did_def run_err_def io_lift_def)
qed

lemma json_read:
  assumes "json_tree (JObject ms)" and "json_within 127 (JObject ms)" and "distinct (map fst ms)"
  shows "\<exists>m. json_from_str X (json_to_string X (JObject ms)) = Some (JObject m) \<and>
    map_of m = map_of (map (\<lambda>(k, v). (k, to_value v)) ms)"
proof -
  have "distinct (map fst (map (\<lambda>(k, v). (k, to_value v)) ms))"
    using assms(3) by (simp add: comp_def case_prod_unfold)
  then show ?thesis
    using serde_json_crate.from_to_value [OF json assms(1,2)] by (simp add: map_of_collect_distinct)
qed

lemma rotate_read:
  "\<exists>m. json_from_str X (json_to_string X (rotate_response did f)) = Some (JObject m) \<and>
    json_index (JObject m) ''did'' = JString did \<and> json_get (JObject m) ''tx_hash'' \<noteq> None"
  using json_read [of "[(''did'', JString did), (''tx_hash'', JString (tx_hash f)),
      (''block_height'', JNumber (show_nat (unat (block_height f))))]"]
    json_integer_u64 [of "block_height f"]
  by (auto simp: rotate_response_def)

lemma create_read:
  "\<exists>m. json_from_str X (json_to_string X (create_did_response did pk)) = Some (JObject m) \<and>
    json_index (JObject m) ''did'' = JString did \<and> json_index (JObject m) ''controller_public_key_hex'' = JString pk"
  using json_read [of "[(''did'', JString did), (''controller_public_key_hex'', JString pk)]"]
  by (auto simp: create_did_response_def)

lemma handle_answers:
  "test_create_did_returns_json_with_did_subject X S" "test_rotate_controller_key_round_trip X S"
  "test_recover_controller_key_round_trip X S" "test_deactivate_round_trip X S"
proof -
  obtain seed pk where k: "decode_hex_32 X SEED ''seed_hex'' = Inr seed" "length seed = 32"
    "decode_hex_32 X PK ''controller_public_key_hex'' = Inr pk" using keys_decode(1,2) by blast
  have subject: "starts_with test_did_subject ''did:midnight:testnet:''"
    unfolding test_did_subject_def by (rule starts_with_append)
  show "test_create_did_returns_json_with_did_subject X S"
    unfolding test_create_did_returns_json_with_did_subject_def
  proof (rule test_handle_run)
    fix c :: "(unit recording, unit) contract"
    assume "ct_network c = Testnet" "hash_to_hex X (ct_address c) = sample_hex"
    moreover obtain st s where "create_did X c in_memory_store seed in_memory_new = (Inr st, s)"
      using create_in_memory [of in_memory_new X c seed] by (auto simp: check_address_def in_memory_new_def)
    ultimately have "ffi_create_did X c SEED PK (handle_new ()) =
        (Inr (json_to_string X (create_did_response test_did_subject PK)), (recording_new (), s))"
      by (simp add: ffi_create_did_def k handle_new_def on_store_def io_bind_def io_lift_def io_map_err_def
          get_did_subject_eq contract_subject)
    with create_read [of test_did_subject PK] subject
    show "json_answer X (ffi_create_did X c SEED PK) (handle_new ()) (\<lambda>v.
       str_holds (json_index v ''did'') (\<lambda>s. starts_with s ''did:midnight:testnet:'') \<and>
       json_index v ''controller_public_key_hex'' = JString PK)"
      by (auto simp: json_answer_def run_ok_def)
  qed
  obtain sk npk where n: "decode_hex_32 X SEED ''new_secret_key_hex'' = Inr sk"
    "decode_hex_32 X PK ''new_controller_public_key_hex'' = Inr npk" "length npk = 32"
    using keys_decode(1,2) by blast
  have keys: "\<exists>f h'. rotate_controller_key S c in_memory_store sk npk (handle_new ()) = (Inr f, h')"
    "\<exists>f h'. recover_controller_key S c in_memory_store sk npk (handle_new ()) = (Inr f, h')"
    if "ct_backend c = recording_backend X S" for c :: "(unit recording, unit) contract"
    using rotate_serves [OF serde that handle_new_ok(1) n(3), of sk "()"] by blast+
  show "test_rotate_controller_key_round_trip X S"
    unfolding test_rotate_controller_key_round_trip_def
  proof (rule test_handle_run)
    fix c :: "(unit recording, unit) contract"
    assume "ct_backend c = recording_backend X S"
    then obtain f h' where "rotate_controller_key S c in_memory_store sk npk (handle_new ()) = (Inr f, h')"
      using keys(1) by blast
    with rotate_read [of "''did:midnight:testnet:x''" f]
    show "json_answer X (ffi_rotate_controller_key X S c ''did:midnight:testnet:x'' SEED PK) (handle_new ()) (\<lambda>v.
         json_index v ''did'' = JString ''did:midnight:testnet:x'' \<and> json_get v ''tx_hash'' \<noteq> None)"
      by (auto simp: ffi_rotate_controller_key_def n json_answer_def run_ok_def io_bind_def io_lift_def io_map_err_def)
  qed
  show "test_recover_controller_key_round_trip X S"
    unfolding test_recover_controller_key_round_trip_def
  proof (rule test_handle_run)
    fix c :: "(unit recording, unit) contract"
    assume "ct_backend c = recording_backend X S"
    then obtain f h' where "recover_controller_key S c in_memory_store sk npk (handle_new ()) = (Inr f, h')"
      using keys(2) by blast
    with rotate_read [of "''did:midnight:testnet:x''" f]
    show "json_answer X (ffi_recover_controller_key X S c ''did:midnight:testnet:x'' SEED PK) (handle_new ()) (\<lambda>v.
         json_index v ''did'' = JString ''did:midnight:testnet:x'' \<and> json_get v ''tx_hash'' \<noteq> None)"
      by (auto simp: ffi_recover_controller_key_def n json_answer_def run_ok_def io_bind_def io_lift_def io_map_err_def)
  qed
  show "test_deactivate_round_trip X S"
    unfolding test_deactivate_round_trip_def
  proof (rule test_handle_run)
    fix c :: "(unit recording, unit) contract"
    assume c: "ct_backend c = recording_backend X S"
    have "call_ok Deactivate" by simp
    note r = recording_exec [OF serde c this]
    let ?f = "\<lparr>tx_hash = synth_tx_hash X (call_encode S Deactivate), block_height = 1\<rparr>"
    have "\<exists>h'. on_contract (deactivate_did S c) (handle_new ()) = (Inr ?f, h')"
      by (simp add: deactivate_did_def contract_methods r on_contract_def handle_new_def io_map_err_def
          recording_new_def)
    then obtain h' where "on_contract (deactivate_did S c) (handle_new ()) = (Inr ?f, h')" ..
    with rotate_read [of "''did:midnight:testnet:x''" ?f]
    show "json_answer X (ffi_deactivate X S c ''did:midnight:testnet:x'') (handle_new ())
        (\<lambda>v. json_index v ''did'' = JString ''did:midnight:testnet:x'')"
      by (auto simp: ffi_deactivate_def json_answer_def run_ok_def io_bind_def io_lift_def io_map_err_def)
  qed
qed

lemma state_persists_test: "test_controller_state_persists_across_calls X S"
  unfolding test_controller_state_persists_across_calls_def
proof (rule test_handle_run)
  fix c :: "(unit recording, unit) contract"
  assume c: "ct_backend c = recording_backend X S"
  obtain seed pk npk where k: "decode_hex_32 X SEED ''seed_hex'' = Inr seed"
    "decode_hex_32 X PK ''controller_public_key_hex'' = Inr pk"
    "decode_hex_32 X NEW_PK ''new_controller_public_key_hex'' = Inr npk" "length npk = 32"
    using keys_decode(1-3) by blast
  obtain st s where s: "create_did X c in_memory_store seed in_memory_new = (Inr st, s)"
    "check_address s = Inr ()" "im_slots s PendingSlot = None"
    using create_in_memory [of in_memory_new X c seed] by (auto simp: check_address_def in_memory_new_def)
  have create: "\<exists>t. ffi_create_did X c SEED PK (handle_new ()) = (Inr t, (recording_new (), s))"
    by (simp add: ffi_create_did_def k s(1) handle_new_def on_store_def io_bind_def io_lift_def io_map_err_def
        get_did_subject_eq)
  have "handle_inv (recording_new (), s)" by (simp add: handle_inv_def recording_new_def s)
  from rotate_serves(1) [OF serde c this k(4), of "replicate 32 3"] obtain f h' where
    "rotate_controller_key S c in_memory_store (replicate 32 3) npk (recording_new (), s) = (Inr f, h')"
    and h': "handle_inv h'" "fst (handle_view h') = Some (replicate 32 3)" by auto
  then have rotate: "\<exists>t. ffi_rotate_controller_key X S c ''did:midnight:testnet:x'' NEW_SK NEW_PK
      (recording_new (), s) = (Inr t, h')"
    by (simp add: ffi_rotate_controller_key_def keys_decode(4) k io_bind_def io_lift_def io_map_err_def)
  have "\<exists>a. restore_private_state in_memory_store ActiveSlot (snd h') = (Inr a, snd h') \<and>
      map_option secret_key a = Some (replicate 32 3)"
    using h' by (simp add: restore_private_state_def in_memory_store_def in_memory_get_def io_lift_def
        io_bind_def handle_inv_def handle_view_def)
  with create rotate show "run_ok (ffi_create_did X c SEED PK) (handle_new ()) (\<lambda>_ h.
     run_ok (ffi_rotate_controller_key X S c ''did:midnight:testnet:x'' NEW_SK NEW_PK) h (\<lambda>_ h.
     run_ok (restore_private_state in_memory_store ActiveSlot) (snd h) (\<lambda>active s.
       map_option secret_key active = Some (replicate 32 3))))"
    by (auto simp: run_ok_def)
qed

lemma document_id_read:
  assumes "document_json_ok X d"
  shows "json_index (to_value (ser_did_document d)) ''id'' = JString (did_string_str (doc_id d))"
proof -
  from assms have ext: "flat_ok document_members (doc_extra d)" by (simp add: document_json_ok_def)
  have d: "ser_did_document d = JObject (document_own d @ doc_extra d)"
    by (simp add: ser_did_document_def document_own_def)
  obtain m where "to_value (ser_did_document d) = JObject m"
    "map_of m = map_of (map (\<lambda>(k, v). (k, to_value v)) (document_own d) @ doc_extra d)"
    unfolding d by (rule struct_members [OF ext document_own_keys])
  then show ?thesis by (cases "doc_id d") (simp add: document_own_def ser_did_string_def)
qed

lemma resolve_test: "test_resolve_did_returns_document_json X S"
  unfolding test_resolve_did_returns_document_json_def
proof (rule test_handle_run)
  fix c :: "(unit recording, unit) contract"
  assume c: "ct_backend c = recording_backend X S" "ct_network c = Testnet" "hash_to_hex X (ct_address c) = sample_hex"
  have read: "contract_read_snapshot c (recording_new ()) =
      (Inr snapshot_default, (recording_new ())\<lparr>rec_calls := [ReadLedger]\<rparr>)"
    by (simp add: reads_run [OF c(1)] recording_new_def)
  obtain d where d: "ledger_state_to_did_document X snapshot_default (ct_network c)
      (contract_to_hex X (ct_address c)) = Inr d" "doc_id d = DidString (subject_of X c)"
    using resolved_document_ok [OF crates url snapshot_default_ok] by blast
  have ends: "endpoints_ok X snapshot_default" by (simp add: endpoints_ok_def snapshot_default_def)
  have within: "json_within 126 (ser_did_document d)"
    by (rule resolved_document_within [OF crates url snapshot_default_ok ends d(1)])
  have ok: "document_json_ok X d"
    by (rule resolved_document_valid [OF crates url snapshot_default_ok ends d(1)])
  let ?m = "ledger_state_to_metadata snapshot_default"
  have "metadata_json_ok ?m"
    by (simp add: metadata_json_ok_def ledger_state_to_metadata_def flat_ok_def bt_keys_sorted_def list_all_iff)
  then have "\<exists>m. json_from_str X (json_to_string X (resolve_response \<lparr>rd_document = d, rd_metadata = ?m\<rparr>)) =
      Some (JObject m) \<and> map_of m = map_of [(''did_document'', to_value (ser_did_document d)),
        (''did_document_metadata'', to_value (ser_metadata ?m))]"
    using json_read [of "[(''did_document'', ser_did_document d), (''did_document_metadata'', ser_metadata ?m)]"]
    by (simp add: resolve_response_def document.ser_tree [OF ok] metadata.ser_tree within metadata_within)
  moreover have "starts_with (did_string_str (doc_id d)) ''did:midnight:testnet:''"
    using c by (simp add: d(2) contract_subject test_did_subject_def starts_with_append)
  ultimately show "json_answer X (ffi_resolve_did X c ''did:midnight:testnet:x'') (handle_new ()) (\<lambda>v.
     str_holds (json_index (json_index v ''did_document'') ''id'')
       (\<lambda>s. starts_with s ''did:midnight:testnet:''))"
    by (auto simp: json_answer_def run_ok_def handle_new_def ffi_resolve_eq [OF read] d(1) document_id_read [OF ok])
qed

end

section \<open>The reference codecs pass the tests\<close>

text \<open>The URLs of the tests as the \<open>url\<close> crate parses them, and the reference parser for every other one.\<close>

definition test_urls :: "string \<Rightarrow> url option" where
  "test_urls s =
     (let u = \<lparr>url_scheme = ''https'', url_username = [], url_password = None, url_host = Some ''example.com'',
               url_port = None, url_path = ''/'', url_query = None, url_fragment = None\<rparr>
      in if s = ''https://example.com'' \<or> s = ''https://example.com:443/'' then Some u
         else if s = ''HTTPS://Example.COM/Path'' then Some (u\<lparr>url_path := ''/Path''\<rparr>)
         else ref_url_parse s)"

definition test_crates :: crates where
  "test_crates = ref_crates\<lparr>url_parse := test_urls\<rparr>"

lemma test_crates_fields [simp]:
  "b64_encode test_crates = b64_encode ref_crates" "b64_decode test_crates = b64_decode ref_crates"
  "hex_encode test_crates = hex_encode ref_crates" "hex_decode test_crates = hex_decode ref_crates"
  "hex_decode_to_slice test_crates = hex_decode_to_slice ref_crates"
  "json_to_string test_crates = json_to_string ref_crates" "json_from_str test_crates = json_from_str ref_crates"
  "blake2b512 test_crates = blake2b512 ref_crates" "url_join test_crates = url_join ref_crates"
  "url_parse test_crates = test_urls"
  by (simp_all add: test_crates_def)

lemma test_urls_laws: "url_ok test_crates" "url_of_api_tests test_crates" "url_of_tests test_crates"
  by unfold_locales
    (auto simp: test_urls_def ref_url_parse_def ref_crates_def url_of_api_tests_def url_of_tests_def)

interpretation tested: test_handle_env test_crates ref_serde
proof (intro test_handle_env.intro test_json_env.intro test_url_env.intro test_env.intro
    test_handle_env_axioms.intro test_json_env_axioms.intro test_url_env_axioms.intro)
  show "base64_ok test_crates" "hex_ok test_crates" "json_crate_ok test_crates" "serde_ok ref_serde"
    by simp_all
  show "url_ok test_crates" "url_of_api_tests test_crates" by (rule test_urls_laws)+
  show "length (blake2b512 test_crates bs) = 64" for bs by (simp add: ref_crates_def min_def)
  show "wire_from_slice ref_serde [0xff, 0xfe] = None" by code_simp
  show "json_to_string test_crates (JString ''https://example.com'') = CHR 0x22 # ''https://example.com'' @ [CHR 0x22]"
    by code_simp
  show "hex_encode test_crates (replicate 32 3) = NEW_SK" by code_simp
qed

end
