(* ===== verification/Spec2Isabelle.thy ===== *)
theory Spec2Isabelle
  imports Ids Operations Resolution Contract_Theorems Field_Repr Interop Cli_Flow Registrar Tests_Ffi
begin

text \<open>
  Midnight DID in Rust: a verification development for the workspace under \<open>src/crates\<close>.

  \<^bold>\<open>The program.\<close> A DID method for the Midnight chain. The domain crate holds the DID document model and
  its codecs; the method crate the identifier syntax and the self-certifying off-chain states; the
  runtime crate the contract generated from Compact, the call envelope and the backends; the API crate
  the operations a controller performs, the controller's private state and the resolver. A command line
  and a foreign-function interface sit on the API. A call goes from an operation of the API through
  \<open>Contract<B>\<close>, which encodes it, to a backend; a resolution reads a snapshot from the backend and builds
  a document from it. The circuits of the generated contract are what a live backend will run; the
  backends in the repository record calls and return stored snapshots.

  \<^bold>\<open>Conventions.\<close> Definitions keep the names of the code. A struct is a record, an enum a datatype, \<open>u64\<close>
  is \<open>64 word\<close>, a \<open>String\<close> the list of its UTF-8 bytes, a \<open>BTreeMap\<close> its sorted entries. \<open>Result\<close> is a sum
  with the error on the left; \<open>?\<close> is \<open>res_bind\<close>, on stateful code \<open>io_bind\<close>. A method that takes \<open>&self\<close> and
  locks a mutex returns the new state. A panic is None or an error value of its own. Async calls run one
  after the other, because every backend, store and handle guards its state with a mutex.

  \<^bold>\<open>The theories.\<close>
  \<^item> \<open>Prelude\<close>, \<open>Rust_Str\<close>: results, ordered maps, the string operations of the standard library. The
    collection \<open>result_simps\<close> inverts the result combinators.
  \<^item> \<open>Crates\<close>: the third-party crates \<open>base64\<close>, \<open>hex\<close>, \<open>url\<close>, \<open>serde_json\<close> and \<open>blake2\<close> as one record of
    functions, with a locale of documented laws per crate; \<open>Serde_Wire\<close> for \<open>serde_json\<close>'s typed form.
    \<open>Ref_Codecs\<close> and \<open>Ref_Json\<close> are codecs that keep these laws, used in the witnesses only.
  \<^item> Domain crate: \<open>Codecs\<close> (\<open>crypto_codecs.rs\<close>), \<open>Uri\<close> (\<open>uri.rs\<close>), \<open>Ids\<close> (\<open>ids.rs\<close>), \<open>Did_Types\<close> and \<open>Did_Doc\<close>
    (\<open>did_document.rs\<close>: identifiers, keys, methods, services, the document, its validation and builder),
    \<open>Document_Json\<close> (their derived \<open>Serialize\<close> and \<open>Deserialize\<close>), \<open>Ledger_Utils\<close> (\<open>ledger_utils.rs\<close>),
    \<open>Registrar\<close> (\<open>did_resolver.rs\<close>, \<open>did_registrar.rs\<close>: the traits as records of their operations, the
    options and results with their JSON forms).
  \<^item> Method crate: \<open>Midnight_Did\<close> (\<open>hex_ext.rs\<close>, \<open>midnight_did.rs\<close>, \<open>network_mapping.rs\<close>), \<open>Offchain_State\<close>
    (\<open>offchain.rs\<close>).
  \<^item> Runtime crate: \<open>Contract_Call\<close> (\<open>contract_call.rs\<close>), \<open>Backends\<close> (\<open>backend.rs\<close>, \<open>contract_wrapper.rs\<close>), and
    for \<open>contract/generated.rs\<close>: \<open>Contract_Types\<close> (data types, alignments, values), \<open>Field_Repr\<close> (their
    field and byte encodings), \<open>Contract_Ledger\<close> (the programs of the ledger machine), \<open>Circuits\<close> (every
    circuit, the constructor, the pure circuits, the ledger accessors).
  \<^item> API crate: \<open>Mappers\<close> (\<open>error.rs\<close>, \<open>subject.rs\<close>, \<open>ledger_mappers.rs\<close>), \<open>Private_State\<close>
    (\<open>private_state.rs\<close>, \<open>controller_operations.rs\<close>), \<open>Operations\<close> (the operations on methods, services,
    documents and whole DIDs), \<open>Resolution\<close> and \<open>Iso_Time\<close> (\<open>resolution.rs\<close>).
  \<^item> \<open>Ffi\<close> (the uniffi crate) and \<open>Cli_Flow\<close> (the command line: \<open>fixtures.rs\<close>, \<open>flow.rs\<close>, \<open>printer.rs\<close>,
    \<open>main.rs\<close>). \<open>Error_Texts\<close>: the \<open>Display\<close> texts of the errors no other theory prints.
  \<^item> \<open>Ledger_VM\<close>, \<open>Circuit_Refinement\<close>, \<open>Ledger_Invariants\<close>, \<open>Authorization\<close>, \<open>Contract_Theorems\<close>: the proofs
    about the contract. \<open>Interop\<close>: what the resolver builds, the interface sends and the model reads back,
    and when the document assembled from an off-chain state is valid.
  \<^item> \<open>Tests_Domain\<close>, \<open>Tests_Api\<close>, \<open>Tests_Ffi\<close>: the unit tests in the modules of the workspace, each
    translated to a definition \<open>test_<name>\<close>, and lemmas that they hold, those of the API for any crates
    that keep their laws, the string tests of the domain and method crates where it takes a run for the
    reference codecs. They check the model against what its authors expect of the code.

  \<^bold>\<open>Interfaces.\<close> Every locale is interpreted on the model's own definitions.
  \<^item> \<open>base64_crate\<close>, \<open>hex_crate\<close>, \<open>url_crate\<close>, \<open>serde_json_crate\<close>, \<open>serde_wire\<close>: the crates, interpreted on
    the reference codecs. As hypotheses they read \<open>base64_ok X\<close>, \<open>hex_ok X\<close>, \<open>url_ok X\<close>, \<open>json_crate_ok X\<close>,
    \<open>serde_ok S\<close>.
  \<^item> \<open>slot_store\<close> and \<open>bound_store\<close>: a private-state store, interpreted on the in-memory store.
  \<^item> \<open>call_log\<close> and \<open>reliable_log\<close>: a backend seen through the log of its calls, interpreted on the
    recording and the read-only backend.
  \<^item> \<open>chunk_codec\<close>: the value codec of the off-chain state, a trait the repository does not implement.
  \<^item> \<open>json_codec\<close>: a derived pair of \<open>Serialize\<close> and \<open>Deserialize\<close>, interpreted on every document type.
  \<^item> \<open>ledger_runtime\<close>: the on-chain runtime as the circuits use it, interpreted on the stack machine of
    \<open>Ledger_VM\<close>. It may refuse any program, for instance for lack of gas; gas itself is not counted.
  \<^item> \<open>field_codec\<close>, \<open>prefix_codec\<close>, \<open>leaf_laws\<close>: the encodings of the contract's types over the encodings of
    the runtime's leaf types.
  \<^item> \<open>request_service\<close>: a handle that answers requests and refines a specification step by step,
    interpreted on the foreign-function handle and on the command line's driver. \<open>flow_env\<close>: what the
    command line runs in.
  \<^item> \<open>test_env\<close> and its extensions \<open>test_url_env\<close>, \<open>test_json_env\<close>, \<open>test_handle_env\<close>: what the unit tests
    assume of the crates, interpreted on the reference codecs with a parser of the tests' URLs.

  \<^bold>\<open>What is shown.\<close>
  \<^item> Contract: all states reachable by any successful calls keep an invariant of the ledger; every circuit
    implements a ledger-level specification, guards and errors in order; a version is accepted once;
    success needs a signature under the right key over a digest that determines contract, version,
    operation and arguments; deactivation is final; a properly signed operation succeeds when nothing
    guards against it; the encodings of the data types are exact and injective.
  \<^item> Document model: validation accepts exactly the consistent documents; constructors and parsers return
    only valid values; the JSON form of a document is read back.
  \<^item> Identifiers and off-chain states: the grammars, the frames and the long form are characterised exactly
    and round trip; decomposition is total on what the parser accepts.
  \<^item> API: what each operation submits, in which order, and where it stops; the outcomes of a key change,
    with the states that can be recovered and the one where a key is lost; what is stored is resolved;
    a well-formed snapshot always resolves.
  \<^item> Interfaces: any session on one handle, and any sequence of flow steps, does what a one-line
    specification per request says; the command line's output is determined exactly.

  \<^bold>\<open>JSON.\<close> The laws of \<open>serde_json\<close> promise that a text it wrote is read back only for values nested at
  most 127 deep, where its reader stops, and only for integers of 64 bits, because reading a float need
  not be exact; \<open>json_within\<close> and \<open>json_integer\<close> say so, and the theorems that rely on it have them as
  hypotheses. The resolved document adds four levels to an endpoint, hence 123 in \<open>endpoints_ok\<close>.

  \<^bold>\<open>Witnesses.\<close> The contract's \<open>Witnesses\<close> are functions of a query context and a private state; \<open>answers\<close>
  relates one to what it gives at an address. A specification's time is such an answer, and the
  constructor's theorem follows the private state from one witness to the next.

  \<^bold>\<open>Bounds.\<close> Loops of the code are structural recursion or have a measure: \<open>skip_zeros\<close> the rest of the text,
  \<open>year_loop\<close> the days left. The only fuel is that of the reference JSON reader, the length of its input,
  which \<open>Ref_Json\<close> proves enough. Counters are words: the height of a transaction is the length of the call
  log as \<open>u64\<close>, the flow's counters wrap as a release build does. Lengths in MOD1 frames are checked
  against 32 bits, and the bound is a theorem.

  \<^bold>\<open>Not modelled.\<close> The node client behind \<open>LiveBackend\<close>, whose methods are \<open>todo!()\<close> and panic in the model
  too; implementations of the resolver and registrar traits, of which there are none; accessors that
  return a field; derived \<open>Debug\<close> output; module declarations and re-exports; argument parsing with \<open>clap\<close>
  and the creation of the output directory; the generator of foreign bindings; the gas the circuits add
  up and never read; the mutex of a handle taken twice in a row, the constant that documents a regular
  expression, and the integration tests under \<open>tests/\<close> of each crate.
\<close>

end
